(* ===== verification/Prelude.thy ===== *)
theory Prelude
  imports Complex_Main
begin

text \<open>
  Shared vocabulary of the development: identifiers, results with errors as values, finding and
  updating by index, sums, maps and the string functions several services use.

  Amounts are \<open>decimal.Decimal\<close> values (github.com/shopspring/decimal, a dependency that is not
  part of the repository), modelled by the rational number they denote: addition, subtraction,
  multiplication and comparison of decimals are exact.
\<close>

named_theorems ledger_intros \<open>preservation of the deposit ledger's invariant\<close>

type_synonym uuid = nat
type_synonym decimal = rat
type_synonym instant = int \<comment> \<open>nanoseconds\<close>

abbreviation (input) uuid_Nil :: uuid where
  "uuid_Nil \<equiv> 0"

abbreviation (input) hours :: "int \<Rightarrow> int" where
  "hours n \<equiv> n * 3600000000000"

abbreviation (input) seconds :: "int \<Rightarrow> int" where
  "seconds n \<equiv> n * 1000000000"

section \<open>Results\<close>

text \<open>
  A Go function that returns \<open>(T, error)\<close> is a function into \<open>'e + 'a\<close>; the
  \<open>if err != nil { return err }\<close> idiom is \<open>bind_res\<close> and an early return under a
  guard is \<open>ensure\<close>.
\<close>

definition bind_res :: "'e + 'a \<Rightarrow> ('a \<Rightarrow> 'e + 'b) \<Rightarrow> 'e + 'b" where
  "bind_res m f = (case m of Inl e \<Rightarrow> Inl e | Inr x \<Rightarrow> f x)"

definition ensure :: "bool \<Rightarrow> 'e \<Rightarrow> 'e + unit" where
  "ensure b e = (if b then Inr () else Inl e)"

lemma bind_res_simps [simp]:
  "bind_res (Inl e) f = Inl e"
  "bind_res (Inr x) f = f x"
  by (simp_all add: bind_res_def)

lemma bind_res_Inr_iff [simp]:
  "bind_res m f = Inr y \<longleftrightarrow> (\<exists>x. m = Inr x \<and> f x = Inr y)"
  by (cases m) simp_all

lemma bind_res_Inl_iff [simp]:
  "bind_res m f = Inl e \<longleftrightarrow> m = Inl e \<or> (\<exists>x. m = Inr x \<and> f x = Inl e)"
  by (cases m) simp_all

lemma bind_resE:
  "bind_res m f = Inr y \<Longrightarrow> (\<And>x. m = Inr x \<Longrightarrow> f x = Inr y \<Longrightarrow> P) \<Longrightarrow> P"
  by (cases m) simp_all

lemma ensure_simps [simp]:
  "ensure True e = Inr ()"
  "ensure False e = Inl e"
  by (simp_all add: ensure_def)

lemma ensure_Inr_iff [simp]: "ensure b e = Inr u \<longleftrightarrow> b"
  by (simp add: ensure_def)

lemma bind_ensure_Inr: "bind_res (ensure b e) (\<lambda>_. m) = Inr y \<longleftrightarrow> b \<and> m = Inr y"
  by (auto simp: ensure_def)

lemma bind_ensureE:
  "bind_res (ensure b e) (\<lambda>_. m) = Inr y \<Longrightarrow> (b \<Longrightarrow> m = Inr y \<Longrightarrow> P) \<Longrightarrow> P"
  by (simp add: bind_ensure_Inr)

lemma ensure_Inl_iff [simp]: "ensure b e = Inl e' \<longleftrightarrow> \<not> b \<and> e' = e"
  by (auto simp: ensure_def)

lemma not_Inl_iff: "(\<forall>e. m \<noteq> Inl e) \<longleftrightarrow> (\<exists>x. m = Inr x)"
  by (cases m) auto

section \<open>Lists, options and maps\<close>

text \<open>The position of the first element that satisfies a predicate, from an offset on.\<close>

fun index_from :: "('a \<Rightarrow> bool) \<Rightarrow> nat \<Rightarrow> 'a list \<Rightarrow> nat option" where
  "index_from P i [] = None"
| "index_from P i (x # xs) = (if P x then Some i else index_from P (Suc i) xs)"

lemma index_from_None [simp]: "index_from P i xs = None \<longleftrightarrow> (\<forall>x\<in>set xs. \<not> P x)"
  by (induction xs arbitrary: i) auto

lemma index_from_SomeD:
  "index_from P i xs = Some k \<Longrightarrow>
    i \<le> k \<and> k - i < length xs \<and> P (xs ! (k - i)) \<and> (\<forall>j < k - i. \<not> P (xs ! j))"
proof (induction xs arbitrary: i)
  case Nil
  then show ?case by simp
next
  case (Cons x xs)
  show ?case
  proof (cases "P x")
    case True
    with Cons.prems show ?thesis by simp
  next
    case False
    with Cons.prems have "index_from P (Suc i) xs = Some k" by simp
    from Cons.IH [OF this] have h: "Suc i \<le> k" "k - Suc i < length xs" "P (xs ! (k - Suc i))"
      "\<forall>j < k - Suc i. \<not> P (xs ! j)" by auto
    obtain d where d: "k = Suc i + d" using h(1) le_Suc_ex by blast
    with h False show ?thesis by (auto simp: nth_Cons split: nat.splits)
  qed
qed

lemma sum_list_nonneg_elem:
  fixes xs :: "rat list"
  assumes "\<forall>x\<in>set xs. 0 \<le> x" and "x \<in> set xs"
  shows "x \<le> sum_list xs"
  using assms by (induction xs) (auto intro: add_increasing add_increasing2 sum_list_nonneg)

lemma sum_list_map_add:
  fixes f :: "'a \<Rightarrow> rat"
  shows "sum_list (map (\<lambda>x. f x + g x) xs) = sum_list (map f xs) + sum_list (map g xs)"
  by (induction xs) auto

lemma map_upd_Some_iff [simp]:
  "(m(k \<mapsto> v)) j = Some w \<longleftrightarrow> (if j = k then w = v else m j = Some w)"
  by auto

definition the_default :: "'a \<Rightarrow> 'a option \<Rightarrow> 'a" where
  "the_default d x = (case x of None \<Rightarrow> d | Some y \<Rightarrow> y)"

lemma the_default_simps [simp]:
  "the_default d None = d"
  "the_default d (Some y) = y"
  by (simp_all add: the_default_def)

section \<open>Strings\<close>

text \<open>A string literal given by its UTF-8 bytes.\<close>

definition utf8 :: "nat list \<Rightarrow> string" where
  "utf8 bs = map char_of bs"

text \<open>
  Go's \<open>strings.TrimSpace\<close> on ASCII input, and \<open>strings.Split(s, ".")\<close>'s building block.
\<close>

definition is_space :: "char \<Rightarrow> bool" where
  "is_space c \<longleftrightarrow> of_char c \<in> {9, 10, 11, 12, 13, 32 :: nat}"

definition TrimSpace :: "string \<Rightarrow> string" where
  "TrimSpace s = rev (dropWhile is_space (rev (dropWhile is_space s)))"

fun split_on :: "char \<Rightarrow> string \<Rightarrow> string list" where
  "split_on c [] = [[]]"
| "split_on c (x # xs) =
     (if x = c then [] # split_on c xs
      else (case split_on c xs of [] \<Rightarrow> [[x]] | w # ws \<Rightarrow> (x # w) # ws))"

lemma split_on_single: "c \<notin> set s \<Longrightarrow> split_on c s = [s]"
  by (induction s) auto

end
