(* ===== verification/Decimals.thy ===== *)
theory Decimals
  imports Prelude
begin

text \<open>
  The interface of the decimal library. Values of \<open>decimal.Decimal\<close> are rationals; the
  operations whose result depends on a precision (\<open>Round\<close>, \<open>Div\<close>) and the conversions from and
  to text (\<open>NewFromString\<close>, \<open>StringFixed\<close>) are the fields of \<open>decimal_lib\<close>, an argument of
  every definition that uses them. The locales \<open>rounding\<close>, \<open>decimal_arith\<close> and
  \<open>decimal_text\<close> state the documented behaviour; they are interpreted at the end of the
  theory on round-half-away-from-zero and on decimal notation.
\<close>

record decimal_lib =
  dRound :: "nat \<Rightarrow> decimal \<Rightarrow> decimal"
  dDiv :: "decimal \<Rightarrow> decimal \<Rightarrow> decimal"
  dParse :: "string \<Rightarrow> decimal option"
  dFixed :: "nat \<Rightarrow> decimal \<Rightarrow> string"

text \<open>A decimal with at most \<open>n\<close> digits after the point.\<close>

definition scaled :: "nat \<Rightarrow> decimal \<Rightarrow> bool" where
  "scaled n x \<longleftrightarrow> x * 10 ^ n \<in> \<int>"

lemma scaled_iff: "scaled n x \<longleftrightarrow> (\<exists>k::int. x = of_int k / 10 ^ n)"
proof
  assume "scaled n x"
  then obtain k where "x * 10 ^ n = of_int k"
    unfolding scaled_def Ints_def by auto
  then show "\<exists>k::int. x = of_int k / 10 ^ n"
    by (metis divide_eq_eq power_not_zero zero_neq_numeral)
next
  assume "\<exists>k::int. x = of_int k / 10 ^ n"
  then show "scaled n x" by (auto simp: scaled_def)
qed

lemma scaled_simps [simp]:
  "scaled n 0"
  "scaled n (of_int k)"
  by (auto simp: scaled_def intro: Ints_mult Ints_power)

lemma scaled_add [intro]: "scaled n x \<Longrightarrow> scaled n y \<Longrightarrow> scaled n (x + y)"
  by (simp add: scaled_def distrib_right)

lemma scaled_diff [intro]: "scaled n x \<Longrightarrow> scaled n y \<Longrightarrow> scaled n (x - y)"
  by (simp add: scaled_def left_diff_distrib)

lemma scaled_min [intro]: "scaled n x \<Longrightarrow> scaled n y \<Longrightarrow> scaled n (min x y)"
  by (simp add: min_def)

lemma scaled_sum_list: "\<forall>x\<in>set xs. scaled n x \<Longrightarrow> scaled n (sum_list xs)"
  by (induction xs) auto

section \<open>Rounding\<close>

text \<open>
  What rounding to \<open>n\<close> places promises: the result has \<open>n\<close> places, is within half a unit of
  the argument, and the order of two arguments is kept.
\<close>

locale rounding =
  fixes n :: nat and rnd :: "decimal \<Rightarrow> decimal"
  assumes repr: "scaled n (rnd x)"
    and near: "\<bar>rnd x - x\<bar> \<le> 1 / (2 * 10 ^ n)"
    and mono: "x \<le> y \<Longrightarrow> rnd x \<le> rnd y"
begin

lemma exact:
  assumes "scaled n x"
  shows "rnd x = x"
proof -
  obtain k l where k: "x = of_int k / 10 ^ n" and l: "rnd x = of_int l / 10 ^ n"
    using assms repr [of x] unfolding scaled_iff by blast
  have "rnd x - x = of_int (l - k) / 10 ^ n"
    unfolding l by (simp add: k diff_divide_distrib)
  then have "\<bar>of_int (l - k) :: rat\<bar> / 10 ^ n \<le> 1 / (2 * 10 ^ n)"
    using near [of x] by (simp add: abs_divide)
  then have "2 * \<bar>of_int (l - k) :: rat\<bar> \<le> 1"
    by (simp add: field_simps)
  then have "of_int (2 * \<bar>l - k\<bar>) \<le> (of_int 1 :: rat)"
    by simp
  then have "2 * \<bar>l - k\<bar> \<le> 1"
    by (simp only: of_int_le_iff)
  then have "l = k" by arith
  then show ?thesis unfolding l by (simp add: k)
qed

lemma idem [simp]: "rnd (rnd x) = rnd x"
  by (rule exact) (rule repr)

lemma zero [simp]: "rnd 0 = 0"
  by (rule exact) simp

lemma of_nonneg: "0 \<le> x \<Longrightarrow> 0 \<le> rnd x"
  using mono [of 0 x] by simp

lemma of_nonpos: "x \<le> 0 \<Longrightarrow> rnd x \<le> 0"
  using mono [of x 0] by simp

lemma upper: "rnd x \<le> x + 1 / (2 * 10 ^ n)"
  using near [of x] by linarith

lemma lower: "x - 1 / (2 * 10 ^ n) \<le> rnd x"
  using near [of x] by linarith

lemma le_of_le: "x \<le> y \<Longrightarrow> scaled n y \<Longrightarrow> rnd x \<le> y"
  using mono [of x y] by (simp add: exact)

lemma ge_of_ge: "y \<le> x \<Longrightarrow> scaled n y \<Longrightarrow> y \<le> rnd x"
  using mono [of y x] by (simp add: exact)

end

locale decimal_arith =
  fixes D :: "decimal_lib"
  assumes rounds: "rounding k (dRound D k)"
    and div_eq: "y \<noteq> 0 \<Longrightarrow> dDiv D x y = dRound D 16 (x / y)"
begin

sublocale r2: rounding 2 "dRound D 2"
  by (rule rounds)

sublocale r16: rounding 16 "dRound D 16"
  by (rule rounds)

lemma div_nonneg: "0 \<le> x \<Longrightarrow> 0 < y \<Longrightarrow> 0 \<le> dDiv D x y"
  by (simp add: div_eq r16.of_nonneg)

lemma div_mono: "x \<le> x' \<Longrightarrow> 0 < y \<Longrightarrow> dDiv D x y \<le> dDiv D x' y"
  by (simp add: div_eq r16.mono divide_right_mono)

lemma div_exact: "y \<noteq> 0 \<Longrightarrow> scaled 16 (x / y) \<Longrightarrow> dDiv D x y = x / y"
  by (simp add: div_eq r16.exact)

lemma div_near:
  "y \<noteq> 0 \<Longrightarrow> \<bar>dDiv D x y - x / y\<bar> \<le> 1 / (2 * 10 ^ 16)"
  using r16.near [of "x / y"] by (simp add: div_eq)

end

locale decimal_text = decimal_arith +
  assumes parse_fixed: "dParse D (dFixed D k x) = Some (dRound D k x)"
    and parse_empty: "dParse D [] = None"
begin

lemma fixed_nonempty [simp]: "dFixed D k x \<noteq> []"
  using parse_fixed [of k x] parse_empty by force

lemma parse_fixed_exact: "scaled 2 x \<Longrightarrow> dParse D (dFixed D 2 x) = Some x"
  by (simp add: parse_fixed r2.exact)

end

section \<open>The instance used by the witnesses\<close>

text \<open>
  Round half away from zero, division to sixteen places, and decimal notation with an
  optional sign and point: the behaviour the library documents, as one concrete value of
  \<open>decimal_lib\<close>.
\<close>

definition round_away :: "rat \<Rightarrow> int" where
  "round_away x = (if 0 \<le> x then \<lfloor>x + 1/2\<rfloor> else - \<lfloor>1/2 - x\<rfloor>)"

definition round_half_up :: "nat \<Rightarrow> rat \<Rightarrow> rat" where
  "round_half_up n x = of_int (round_away (x * 10 ^ n)) / 10 ^ n"

lemma round_away_near: "\<bar>of_int (round_away x) - x\<bar> \<le> 1/2"
proof (cases "0 \<le> x")
  case True
  have "of_int \<lfloor>x + 1/2\<rfloor> \<le> x + 1/2" "x + 1/2 < of_int \<lfloor>x + 1/2\<rfloor> + 1"
    by linarith+
  then have "\<bar>of_int \<lfloor>x + 1/2\<rfloor> - x\<bar> \<le> 1/2"
    unfolding abs_le_iff by linarith
  with True show ?thesis by (simp add: round_away_def)
next
  case False
  have "of_int \<lfloor>1/2 - x\<rfloor> \<le> 1/2 - x" "1/2 - x < of_int \<lfloor>1/2 - x\<rfloor> + 1"
    by linarith+
  then have "\<bar>of_int (- \<lfloor>1/2 - x\<rfloor>) - x\<bar> \<le> 1/2"
    unfolding abs_le_iff of_int_minus by linarith
  with False show ?thesis unfolding round_away_def by simp
qed

lemma round_away_mono: "x \<le> y \<Longrightarrow> round_away x \<le> round_away y"
proof -
  assume le: "x \<le> y"
  consider "0 \<le> x" | "x < 0" "0 \<le> y" | "y < 0" using le by linarith
  then show ?thesis
  proof cases
    case 1
    with le show ?thesis by (simp add: round_away_def floor_mono)
  next
    case 2
    then have "0 \<le> \<lfloor>1/2 - x\<rfloor>" "0 \<le> \<lfloor>y + 1/2\<rfloor>" by (simp_all add: le_floor_iff)
    then have "- \<lfloor>1/2 - x\<rfloor> \<le> \<lfloor>y + 1/2\<rfloor>" by linarith
    with 2 show ?thesis by (simp add: round_away_def)
  next
    case 3
    with le show ?thesis by (simp add: round_away_def floor_mono)
  qed
qed

lemma round_half_up_rounding: "rounding n (round_half_up n)"
proof
  fix x y :: rat
  show "scaled n (round_half_up n x)"
    by (auto simp: round_half_up_def scaled_iff)
  have "round_half_up n x - x = (of_int (round_away (x * 10 ^ n)) - x * 10 ^ n) / 10 ^ n"
    by (simp add: round_half_up_def diff_divide_distrib)
  then have "\<bar>round_half_up n x - x\<bar> = \<bar>of_int (round_away (x * 10 ^ n)) - x * 10 ^ n\<bar> / 10 ^ n"
    by (simp add: abs_divide)
  also have "\<dots> \<le> (1/2) / 10 ^ n"
    by (rule divide_right_mono [OF round_away_near]) simp
  finally show "\<bar>round_half_up n x - x\<bar> \<le> 1 / (2 * 10 ^ n)" by simp
  assume "x \<le> y"
  then have "round_away (x * 10 ^ n) \<le> round_away (y * 10 ^ n)"
    by (intro round_away_mono mult_right_mono) simp_all
  then show "round_half_up n x \<le> round_half_up n y"
    by (simp add: round_half_up_def divide_right_mono)
qed

text \<open>Natural numbers in decimal notation, and back.\<close>

definition digit :: "nat \<Rightarrow> char" where
  "digit d = char_of (48 + d)"

fun show_nat :: "nat \<Rightarrow> string" where
  "show_nat n = (if n < 10 then [digit n] else show_nat (n div 10) @ [digit (n mod 10)])"

declare show_nat.simps [simp del]

definition is_digit :: "char \<Rightarrow> bool" where
  "is_digit c \<longleftrightarrow> 48 \<le> (of_char c :: nat) \<and> (of_char c :: nat) \<le> 57"

definition digit_val :: "char \<Rightarrow> nat" where
  "digit_val c = of_char c - 48"

definition read_digits :: "string \<Rightarrow> nat" where
  "read_digits s = foldl (\<lambda>n c. 10 * n + digit_val c) 0 s"

lemma digit_facts [simp]:
  "d < 10 \<Longrightarrow> is_digit (digit d)"
  "d < 10 \<Longrightarrow> digit_val (digit d) = d"
  by (simp_all add: is_digit_def digit_def digit_val_def)

lemma show_nat_digits: "list_all is_digit (show_nat n)"
proof (induction n rule: show_nat.induct)
  case (1 n)
  then show ?case by (subst show_nat.simps) auto
qed

lemma show_nat_nonempty [simp]: "show_nat n \<noteq> []"
  by (subst show_nat.simps) simp

lemma read_show_nat [simp]: "read_digits (show_nat n) = n"
proof (induction n rule: show_nat.induct)
  case (1 n)
  then show ?case by (subst show_nat.simps) (auto simp: read_digits_def)
qed

text \<open>
  \<open>dec_fixed n x\<close> is the text of \<open>x\<close> rounded to \<open>n\<close> places, written as a whole number of units
  of the last place, a point and the number of places; \<open>dec_parse\<close> reads a sign, digits, and
  optionally a point followed by digits.
\<close>

definition pad_left :: "nat \<Rightarrow> string \<Rightarrow> string" where
  "pad_left w s = replicate (w - length s) (digit 0) @ s"

definition dec_fixed_abs :: "nat \<Rightarrow> nat \<Rightarrow> string" where
  "dec_fixed_abs n m =
     (let s = pad_left (Suc n) (show_nat m); i = length s - n
      in take i s @ (if n = 0 then [] else CHR ''.'' # drop i s))"

definition dec_fixed :: "nat \<Rightarrow> rat \<Rightarrow> string" where
  "dec_fixed n x =
     (let k = round_away (x * 10 ^ n)
      in (if k < 0 then ''-'' else []) @ dec_fixed_abs n (nat \<bar>k\<bar>))"

definition dec_parse_abs :: "string \<Rightarrow> rat option" where
  "dec_parse_abs s =
     (let a = takeWhile is_digit s; r = dropWhile is_digit s
      in if a = [] then None
         else if r = [] then Some (of_nat (read_digits a))
         else if hd r = CHR ''.'' \<and> list_all is_digit (tl r)
         then Some (of_nat (read_digits (a @ tl r)) / 10 ^ length (tl r))
         else None)"

definition dec_parse :: "string \<Rightarrow> rat option" where
  "dec_parse s =
     (case s of CHR ''-'' # r \<Rightarrow> map_option uminus (dec_parse_abs r) | _ \<Rightarrow> dec_parse_abs s)"

definition shop_decimal :: decimal_lib where
  "shop_decimal = \<lparr> dRound = round_half_up,
     dDiv = (\<lambda>x y. round_half_up 16 (x / y)),
     dParse = dec_parse, dFixed = dec_fixed \<rparr>"

lemma round_away_0 [simp]: "round_away 0 = 0"
  by (simp add: round_away_def floor_eq_iff)

lemma pad_left_digits: "list_all is_digit s \<Longrightarrow> list_all is_digit (pad_left w s)"
  by (auto simp: pad_left_def list_all_iff)

lemma length_pad_left: "w \<le> length (pad_left w s)"
  by (simp add: pad_left_def)

lemma read_digits_zeros: "read_digits (replicate k (digit 0) @ s) = read_digits s"
  by (induction k) (simp_all add: read_digits_def digit_facts(2))

lemma read_pad_left [simp]: "read_digits (pad_left w (show_nat n)) = n"
  by (simp add: pad_left_def read_digits_zeros)

lemma not_digit [simp]: "\<not> is_digit CHR ''.''" "\<not> is_digit CHR ''-''"
  by (simp_all add: is_digit_def)

lemma takeWhile_digits: "list_all is_digit s \<Longrightarrow> takeWhile is_digit s = s"
  by (simp add: list_all_iff)

lemma dec_parse_abs_fixed: "dec_parse_abs (dec_fixed_abs n m) = Some (of_nat m / 10 ^ n)"
proof -
  define s where "s = pad_left (Suc n) (show_nat m)"
  have eq: "dec_fixed_abs n m =
      take (length s - n) s @ (if n = 0 then [] else CHR ''.'' # drop (length s - n) s)"
    by (simp add: dec_fixed_abs_def s_def Let_def)
  have d: "list_all is_digit s"
    unfolding s_def by (rule pad_left_digits) (rule show_nat_digits)
  then have dt: "\<forall>c\<in>set (take i s). is_digit c" and dd: "list_all is_digit (drop i s)" for i
    by (auto simp: list_all_iff dest: in_set_takeD in_set_dropD)
  have len: "Suc n \<le> length s"
    unfolding s_def by (rule length_pad_left)
  have rd: "read_digits s = m"
    unfolding s_def by simp
  have "dec_parse_abs (take (length s - n) s @
      (if n = 0 then [] else CHR ''.'' # drop (length s - n) s)) = Some (of_nat m / 10 ^ n)"
  proof (cases "n = 0")
    case True
    have tw: "takeWhile is_digit s = s" and dw: "dropWhile is_digit s = []"
      using d by (simp_all add: list_all_iff)
    from len have "s \<noteq> []" by auto
    with True show ?thesis by (simp add: dec_parse_abs_def tw dw rd)
  next
    case False
    let ?a = "take (length s - n) s" and ?r = "CHR ''.'' # drop (length s - n) s"
    have "takeWhile is_digit (?a @ ?r) = ?a" "dropWhile is_digit (?a @ ?r) = ?r"
      using dt by (subst takeWhile_append2 dropWhile_append2; simp)+
    moreover have "?a \<noteq> []" using len by auto
    moreover have "length (drop (length s - n) s) = n" using len by simp
    ultimately show ?thesis
      using False rd dd by (simp add: dec_parse_abs_def)
  qed
  then show ?thesis by (simp only: eq)
qed

lemma dec_fixed_abs_sign: "dec_fixed_abs n m \<noteq> CHR ''-'' # t"
proof
  define s where "s = pad_left (Suc n) (show_nat m)"
  assume "dec_fixed_abs n m = CHR ''-'' # t"
  then obtain r where a: "take (length s - n) s @ r = CHR ''-'' # t"
    by (auto simp: dec_fixed_abs_def s_def Let_def)
  have len: "Suc n \<le> length s"
    unfolding s_def by (rule length_pad_left)
  then have "take (length s - n) s \<noteq> []" by auto
  with a have "CHR ''-'' \<in> set (take (length s - n) s)"
    by (cases "take (length s - n) s") auto
  then have "CHR ''-'' \<in> set s" by (rule in_set_takeD)
  moreover have "list_all is_digit s"
    unfolding s_def by (rule pad_left_digits) (rule show_nat_digits)
  ultimately show False by (metis list_all_iff not_digit(2))
qed

lemma dec_parse_nonneg:
  "(\<And>t. s \<noteq> CHR ''-'' # t) \<Longrightarrow> dec_parse s = dec_parse_abs s"
  by (auto simp: dec_parse_def split: list.splits char.splits bool.splits)

lemma dec_parse_fixed: "dec_parse (dec_fixed n x) = Some (round_half_up n x)"
proof (cases "round_away (x * 10 ^ n) < 0")
  case True
  then have "dec_fixed n x = CHR ''-'' # dec_fixed_abs n (nat \<bar>round_away (x * 10 ^ n)\<bar>)"
    by (simp add: dec_fixed_def Let_def)
  with True show ?thesis
    by (simp add: dec_parse_def dec_parse_abs_fixed round_half_up_def)
next
  case False
  then have "dec_fixed n x = dec_fixed_abs n (nat \<bar>round_away (x * 10 ^ n)\<bar>)"
    by (simp add: dec_fixed_def Let_def)
  with False show ?thesis
    by (simp add: dec_parse_nonneg [OF dec_fixed_abs_sign] dec_parse_abs_fixed round_half_up_def)
qed

lemma dec_parse_Nil: "dec_parse [] = None"
  by (simp add: dec_parse_def dec_parse_abs_def)

interpretation shop: decimal_text shop_decimal
  by (intro decimal_text.intro decimal_arith.intro decimal_text_axioms.intro)
    (simp_all add: shop_decimal_def round_half_up_rounding dec_parse_fixed dec_parse_Nil)

text \<open>Evaluation of the instance at closed terms.\<close>

lemmas shop_eval = shop_decimal_def round_half_up_def round_away_def

lemma inj_show_nat: "inj show_nat"
  by (rule injI) (metis read_show_nat)

lemma scaled2_numeral [simp]: "scaled 2 (numeral k)"
  by (simp add: scaled_def)

lemma half_exact: "round_half_up 2 (numeral k) = numeral k" "round_half_up 2 (- numeral k) = - numeral k" "round_half_up 2 0 = 0"
  using rounding.exact [OF round_half_up_rounding [of 2]] by (simp_all add: scaled_def)

end
