(* ===== verification/JsonLogic.thy ===== *)
theory JsonLogic
  imports Decimals "HOL-Library.List_Lexorder" "HOL-Library.Char_ord"
begin

text \<open>
  The condition language of the workflow engine
  (services/workflow/internal/jsonlogic/eval.go): decoded JSON values, the evaluator with its
  coercions and its error branches, and two results about it. A well-formed expression never
  fails (\<open>Eval_total\<close>), and on conditions that a typed condition language compiles to, the
  evaluator computes the meaning of the condition (\<open>Eval_compile\<close>).

  Floating-point values are exact rationals, infinities and NaN; the sign of zero is not
  kept. Parsing and printing of floats (\<open>strconv\<close>) are the two fields of \<open>go_float\<close>;
  \<open>parseFloat\<close> returns a value and whether the error is nil, as \<open>strconv.ParseFloat\<close> does.
\<close>

section \<open>Values\<close>

datatype float64 = Fin rat | PInf | NInf | NaN

fun fl_eq :: "float64 \<Rightarrow> float64 \<Rightarrow> bool" where
  "fl_eq NaN _ = False"
| "fl_eq _ NaN = False"
| "fl_eq a b = (a = b)"

fun fl_less :: "float64 \<Rightarrow> float64 \<Rightarrow> bool" where
  "fl_less (Fin a) (Fin b) = (a < b)"
| "fl_less NInf (Fin b) = True"
| "fl_less (Fin a) PInf = True"
| "fl_less NInf PInf = True"
| "fl_less _ _ = False"

definition fl_le :: "float64 \<Rightarrow> float64 \<Rightarrow> bool" where
  "fl_le a b \<longleftrightarrow> fl_less a b \<or> fl_eq a b"

text \<open>
  Go values of type \<open>any\<close> that the evaluator distinguishes: the ones \<open>encoding/json\<close> decodes
  to, machine integers and \<open>json.Number\<close> that Go callers may pass, and any other type. A map is
  the list of its entries in the order an iteration yields them.
\<close>

datatype json =
    JNil
  | JBool bool
  | JFloat float64
  | JInt int
  | JNumber string
  | JStr string
  | JArr "json list"
  | JObj "(string \<times> json) list"
  | JOther string

record go_float =
  parseFloat :: "string \<Rightarrow> float64 \<times> bool"
  fmtFloat :: "float64 \<Rightarrow> string"

datatype jl_error =
    UnsupportedType string
  | InArity
  | OpArity string nat
  | UnsupportedOp string

section \<open>Coercions\<close>

fun toFloat :: "go_float \<Rightarrow> json \<Rightarrow> float64 option" where
  "toFloat P (JFloat x) = Some x"
| "toFloat P (JInt i) = Some (Fin (of_int i))"
| "toFloat P (JNumber s) = (let (f, ok) = parseFloat P s in if ok then Some f else None)"
| "toFloat P (JStr s) = (let (f, ok) = parseFloat P s in if ok then Some f else None)"
| "toFloat P _ = None"

fun truthy :: "go_float \<Rightarrow> json \<Rightarrow> bool" where
  "truthy P JNil = False"
| "truthy P (JBool b) = b"
| "truthy P (JStr s) = (s \<noteq> [])"
| "truthy P (JFloat x) = (\<not> fl_eq x (Fin 0))"
| "truthy P (JInt i) = (i \<noteq> 0)"
| "truthy P (JNumber s) = (\<not> fl_eq (fst (parseFloat P s)) (Fin 0))"
| "truthy P (JArr xs) = (xs \<noteq> [])"
| "truthy P (JObj kvs) = (kvs \<noteq> [])"
| "truthy P (JOther t) = True"

text \<open>\<open>fmt.Sprintf("%v", x)\<close>: maps print their entries in the order of the keys.\<close>

definition join_sp :: "string list \<Rightarrow> string" where
  "join_sp ws = (case ws of [] \<Rightarrow> [] | w # r \<Rightarrow> w @ concat (map (\<lambda>x. '' '' @ x) r))"

definition show_int :: "int \<Rightarrow> string" where
  "show_int i = (if i < 0 then ''-'' else []) @ show_nat (nat \<bar>i\<bar>)"

fun fmtV :: "go_float \<Rightarrow> json \<Rightarrow> string" where
  "fmtV P JNil = ''<nil>''"
| "fmtV P (JBool b) = (if b then ''true'' else ''false'')"
| "fmtV P (JFloat x) = fmtFloat P x"
| "fmtV P (JInt i) = show_int i"
| "fmtV P (JNumber s) = s"
| "fmtV P (JStr s) = s"
| "fmtV P (JArr xs) = ''['' @ join_sp (map (fmtV P) xs) @ '']''"
| "fmtV P (JObj kvs) =
     ''map['' @ join_sp (map (\<lambda>(k, s). k @ '':'' @ s)
       (sort_key fst (map (\<lambda>(k, v). (k, fmtV P v)) kvs))) @ '']''"
| "fmtV P (JOther t) = t"

definition equal :: "go_float \<Rightarrow> json \<Rightarrow> json \<Rightarrow> bool" where
  "equal P a b =
     (case (toFloat P a, toFloat P b) of
        (Some x, Some y) \<Rightarrow> fl_eq x y
      | _ \<Rightarrow> fmtV P a = fmtV P b)"

definition compare :: "go_float \<Rightarrow> json \<Rightarrow> json \<Rightarrow> string \<Rightarrow> bool" where
  "compare P a b op =
     (case (toFloat P a, toFloat P b) of
        (Some x, Some y) \<Rightarrow>
          (if op = ''<'' then fl_less x y
           else if op = ''<='' then fl_le x y
           else if op = ''>'' then fl_less y x
           else fl_le y x)
      | _ \<Rightarrow>
          (let s = fmtV P a; t = fmtV P b
           in if op = ''<'' then s < t
              else if op = ''<='' then s \<le> t
              else if op = ''>'' then s > t
              else s \<ge> t))"

section \<open>The evaluator\<close>

fun lookup_path :: "json \<Rightarrow> string list \<Rightarrow> json" where
  "lookup_path cur [] = cur"
| "lookup_path (JObj kvs) (p # ps) =
     lookup_path (the_default JNil (map_of kvs p)) ps"
| "lookup_path _ (p # ps) = JNil"

definition lookupVar :: "string \<Rightarrow> (string \<times> json) list \<Rightarrow> json" where
  "lookupVar key data =
     (if key = [] then JObj data else lookup_path (JObj data) (split_on CHR ''.'' key))"

definition varKey :: "json \<Rightarrow> string" where
  "varKey args =
     (case args of JStr s \<Rightarrow> s | JArr (JStr s # _) \<Rightarrow> s | _ \<Rightarrow> [])"

definition argList :: "json \<Rightarrow> json list" where
  "argList args = (case args of JArr xs \<Rightarrow> xs | _ \<Rightarrow> [])"

fun is_infix :: "string \<Rightarrow> string \<Rightarrow> bool" where
  "is_infix [] n = (n = [])"
| "is_infix (c # s) n = (take (length n) (c # s) = n \<or> is_infix s n)"

definition inOp :: "go_float \<Rightarrow> json \<Rightarrow> json \<Rightarrow> bool" where
  "inOp P needle hay =
     (case hay of
        JArr arr \<Rightarrow> (\<exists>e\<in>set arr. equal P e needle)
      | JStr s \<Rightarrow> (case needle of JStr sn \<Rightarrow> is_infix s sn | _ \<Rightarrow> False)
      | _ \<Rightarrow> False)"

definition binOp :: "go_float \<Rightarrow> string \<Rightarrow> json \<Rightarrow> json \<Rightarrow> jl_error + json" where
  "binOp P op a b =
     (if op = ''=='' then Inr (JBool (equal P a b))
      else if op = ''!='' then Inr (JBool (\<not> equal P a b))
      else if op \<in> {''<'', ''<='', ''>'', ''>=''} then Inr (JBool (compare P a b op))
      else Inl (UnsupportedOp op))"

lemma size_argList: "a \<in> set (argList args) \<Longrightarrow> size a < size args"
  by (auto simp: argList_def split: json.splits dest!: size_list_estimation' [where f = size, OF _ le_refl])

lemma size_list_argList: "size_list size (argList args) \<le> size args"
  by (auto simp: argList_def split: json.splits)

text \<open>
  \<open>evalAny\<close>, \<open>applyOp\<close> and the loops of the two connectives, which stop at the first operand
  that decides them.
\<close>

function (sequential)
  evalAny :: "go_float \<Rightarrow> (string \<times> json) list \<Rightarrow> json \<Rightarrow> jl_error + json"
  and applyOp :: "go_float \<Rightarrow> (string \<times> json) list \<Rightarrow> string \<Rightarrow> json \<Rightarrow> jl_error + json"
  and evalAnd :: "go_float \<Rightarrow> (string \<times> json) list \<Rightarrow> json list \<Rightarrow> jl_error + json"
  and evalOr :: "go_float \<Rightarrow> (string \<times> json) list \<Rightarrow> json list \<Rightarrow> jl_error + json"
where
  "evalAny P data JNil = Inr (JBool True)"
| "evalAny P data (JObj []) = Inr (JBool True)"
| "evalAny P data (JObj ((op, args) # kvs)) = applyOp P data op args"
| "evalAny P data (JOther t) = Inl (UnsupportedType t)"
| "evalAny P data e = Inr e"
| "applyOp P data op args =
     (if op = ''var'' then Inr (lookupVar (varKey args) data)
      else if op = ''&&'' \<or> op = ''and'' then evalAnd P data (argList args)
      else if op = ''||'' \<or> op = ''or'' then evalOr P data (argList args)
      else if op = ''!'' then
        (if argList args = [] then Inr (JBool True)
         else bind_res (evalAny P data (argList args ! 0)) (\<lambda>v. Inr (JBool (\<not> truthy P v))))
      else if op = ''in'' then
        (if length (argList args) \<noteq> 2 then Inl InArity
         else bind_res (evalAny P data (argList args ! 0)) (\<lambda>needle.
              bind_res (evalAny P data (argList args ! 1)) (\<lambda>hay.
              Inr (JBool (inOp P needle hay)))))
      else if length (argList args) \<noteq> 2 then Inl (OpArity op (length (argList args)))
      else bind_res (evalAny P data (argList args ! 0)) (\<lambda>a.
           bind_res (evalAny P data (argList args ! 1)) (\<lambda>b. binOp P op a b)))"
| "evalAnd P data [] = Inr (JBool True)"
| "evalAnd P data (a # as) =
     bind_res (evalAny P data a) (\<lambda>v.
       if truthy P v then evalAnd P data as else Inr (JBool False))"
| "evalOr P data [] = Inr (JBool False)"
| "evalOr P data (a # as) =
     bind_res (evalAny P data a) (\<lambda>v.
       if truthy P v then Inr (JBool True) else evalOr P data as)"
  by pat_completeness auto
termination
proof (relation "measure (\<lambda>x. case x of
    Inl (Inl (P, d, e)) \<Rightarrow> 2 * size e
  | Inl (Inr (P, d, op, args)) \<Rightarrow> 2 * size args + 1
  | Inr (Inl (P, d, as)) \<Rightarrow> 2 * size_list size as
  | Inr (Inr (P, d, as)) \<Rightarrow> 2 * size_list size as)", goal_cases)
qed (use size_list_argList in \<open>force simp: less_Suc_eq_le intro!: less_imp_le [OF size_argList] nth_mem\<close>)+

lemma applyOp_connectives [simp]:
  "applyOp P data ''var'' args = Inr (lookupVar (varKey args) data)"
  "applyOp P data ''&&'' args = evalAnd P data (argList args)"
  "applyOp P data ''and'' args = evalAnd P data (argList args)"
  "applyOp P data ''||'' args = evalOr P data (argList args)"
  "applyOp P data ''or'' args = evalOr P data (argList args)"
  by simp_all

lemma applyOp_not [simp]:
  "applyOp P data ''!'' args =
     (if argList args = [] then Inr (JBool True)
      else bind_res (evalAny P data (argList args ! 0)) (\<lambda>v. Inr (JBool (\<not> truthy P v))))"
  by simp

lemma applyOp_in [simp]:
  "applyOp P data ''in'' args =
     (if length (argList args) \<noteq> 2 then Inl InArity
      else bind_res (evalAny P data (argList args ! 0)) (\<lambda>needle.
           bind_res (evalAny P data (argList args ! 1)) (\<lambda>hay.
           Inr (JBool (inOp P needle hay)))))"
  by simp

definition binaryOps :: "string set" where
  "binaryOps = {''=='', ''!='', ''<'', ''<='', ''>'', ''>=''}"

lemma applyOp_binary:
  assumes "op \<in> binaryOps" and "argList args = [x, y]"
  shows "applyOp P data op args =
    bind_res (evalAny P data x) (\<lambda>a. bind_res (evalAny P data y) (\<lambda>b. binOp P op a b))"
  using assms by (auto simp: binaryOps_def)

declare applyOp.simps [simp del]

definition Eval :: "go_float \<Rightarrow> json \<Rightarrow> (string \<times> json) list \<Rightarrow> jl_error + bool" where
  "Eval P expr data = bind_res (evalAny P data expr) (\<lambda>v. Inr (truthy P v))"

section \<open>Well-formed expressions evaluate\<close>

text \<open>
  Every operator is known and has the operands it needs. Nothing is asked of the data: an
  unknown variable is the value \<open>nil\<close>.
\<close>

function (sequential) wf_expr :: "json \<Rightarrow> bool" where
  "wf_expr (JOther t) = False"
| "wf_expr (JObj ((op, args) # kvs)) =
     (op = ''var'' \<or>
      op \<in> {''&&'', ''and'', ''||'', ''or''} \<and> list_all wf_expr (argList args) \<or>
      op = ''!'' \<and> list_all wf_expr (take 1 (argList args)) \<or>
      op \<in> insert ''in'' binaryOps \<and> length (argList args) = 2 \<and>
        list_all wf_expr (argList args))"
| "wf_expr _ = True"
  by pat_completeness auto
termination
proof (relation "measure size", goal_cases)
qed (use size_argList in \<open>force dest!: in_set_takeD\<close>)+

lemma evalAnd_total:
  "(\<And>a. a \<in> set as \<Longrightarrow> \<exists>v. evalAny P data a = Inr v) \<Longrightarrow>
    \<exists>v. evalAnd P data as = Inr v"
proof (induction as)
  case (Cons a as)
  from Cons.prems obtain v where "evalAny P data a = Inr v" by (meson list.set_intros(1))
  moreover from Cons obtain w where "evalAnd P data as = Inr w" by (meson list.set_intros(2))
  ultimately show ?case by (cases "truthy P v") auto
qed simp

lemma evalOr_total:
  "(\<And>a. a \<in> set as \<Longrightarrow> \<exists>v. evalAny P data a = Inr v) \<Longrightarrow>
    \<exists>v. evalOr P data as = Inr v"
proof (induction as)
  case (Cons a as)
  from Cons.prems obtain v where "evalAny P data a = Inr v" by (meson list.set_intros(1))
  moreover from Cons obtain w where "evalOr P data as = Inr w" by (meson list.set_intros(2))
  ultimately show ?case by (cases "truthy P v") auto
qed simp

lemma binOp_total: "op \<in> binaryOps \<Longrightarrow> \<exists>v. binOp P op a b = Inr v"
  by (auto simp: binOp_def binaryOps_def)

lemma list_of_two: "length xs = 2 \<Longrightarrow> \<exists>x y. xs = [x, y]"
  by (auto simp: numeral_2_eq_2 length_Suc_conv)

lemma evalAny_total: "wf_expr e \<Longrightarrow> \<exists>v. evalAny P data e = Inr v"
proof (induction e rule: wf_expr.induct)
  case (2 op args kvs)
  have IH: "\<exists>v. evalAny P data a = Inr v" if "a \<in> set (argList args)" "wf_expr a" for a
    using that "2.IH" by blast
  from "2.prems" consider "op = ''var''"
    | "op = ''&&'' \<or> op = ''and''" "list_all wf_expr (argList args)"
    | "op = ''||'' \<or> op = ''or''" "list_all wf_expr (argList args)"
    | "op = ''!''" "list_all wf_expr (take 1 (argList args))"
    | "op = ''in''" "length (argList args) = 2" "list_all wf_expr (argList args)"
    | "op \<in> binaryOps" "length (argList args) = 2" "list_all wf_expr (argList args)"
    by auto
  then show ?case
  proof cases
    case 2
    then show ?thesis using IH by (auto simp: list_all_iff intro!: evalAnd_total)
  next
    case 3
    then show ?thesis using IH by (auto simp: list_all_iff intro!: evalOr_total)
  next
    case 4
    then show ?thesis using IH by (cases "argList args") auto
  next
    case 5
    then obtain x y where xy: "argList args = [x, y]" using list_of_two by blast
    with 5 IH [of x] IH [of y] show ?thesis by auto
  next
    case 6
    then obtain x y where xy: "argList args = [x, y]" using list_of_two by blast
    with 6 IH [of x] IH [of y] show ?thesis
      by (auto simp: applyOp_binary intro: binOp_total)
  qed auto
qed auto

theorem Eval_total: "wf_expr e \<Longrightarrow> \<exists>b. Eval P e data = Inr b"
  using evalAny_total by (fastforce simp: Eval_def)

section \<open>A typed condition language\<close>

text \<open>
  The conditions a workflow definition is written in, as a language of its own: comparisons of
  numbers, tests of a string against literals, and the connectives. \<open>compile\<close> writes a
  condition as the JSON the definition stores; \<open>holds\<close> is its meaning on a context.
\<close>

datatype cmp = CEq | CNe | CLt | CLe | CGt | CGe

datatype num_term = NLit rat | NVar string

datatype cond =
    Num cmp num_term num_term
  | StrIs string string
  | OneOf string "string list"
  | AllOf "cond list"
  | AnyOf "cond list"
  | Neg cond

fun cmp_name :: "cmp \<Rightarrow> string" where
  "cmp_name CEq = ''==''"
| "cmp_name CNe = ''!=''"
| "cmp_name CLt = ''<''"
| "cmp_name CLe = ''<=''"
| "cmp_name CGt = ''>''"
| "cmp_name CGe = ''>=''"

fun cmp_holds :: "cmp \<Rightarrow> rat \<Rightarrow> rat \<Rightarrow> bool" where
  "cmp_holds CEq a b = (a = b)"
| "cmp_holds CNe a b = (a \<noteq> b)"
| "cmp_holds CLt a b = (a < b)"
| "cmp_holds CLe a b = (a \<le> b)"
| "cmp_holds CGt a b = (a > b)"
| "cmp_holds CGe a b = (a \<ge> b)"

abbreviation (input) JVar :: "string \<Rightarrow> json" where
  "JVar x \<equiv> JObj [(''var'', JStr x)]"

fun compile_num :: "num_term \<Rightarrow> json" where
  "compile_num (NLit q) = JFloat (Fin q)"
| "compile_num (NVar x) = JVar x"

fun compile :: "cond \<Rightarrow> json" where
  "compile (Num c s t) = JObj [(cmp_name c, JArr [compile_num s, compile_num t])]"
| "compile (StrIs x s) = JObj [(''=='', JArr [JVar x, JStr s])]"
| "compile (OneOf x ss) = JObj [(''in'', JArr [JVar x, JArr (map JStr ss)])]"
| "compile (AllOf cs) = JObj [(''&&'', JArr (map compile cs))]"
| "compile (AnyOf cs) = JObj [(''||'', JArr (map compile cs))]"
| "compile (Neg c) = JObj [(''!'', JArr [compile c])]"

fun num_val :: "(string \<times> json) list \<Rightarrow> num_term \<Rightarrow> rat option" where
  "num_val data (NLit q) = Some q"
| "num_val data (NVar x) = (case lookupVar x data of JFloat (Fin q) \<Rightarrow> Some q | _ \<Rightarrow> None)"

definition str_val :: "(string \<times> json) list \<Rightarrow> string \<Rightarrow> string option" where
  "str_val data x = (case lookupVar x data of JStr s \<Rightarrow> Some s | _ \<Rightarrow> None)"

fun holds :: "(string \<times> json) list \<Rightarrow> cond \<Rightarrow> bool" where
  "holds data (Num c s t) =
     (case (num_val data s, num_val data t) of
        (Some a, Some b) \<Rightarrow> cmp_holds c a b | _ \<Rightarrow> False)"
| "holds data (StrIs x s) = (str_val data x = Some s)"
| "holds data (OneOf x ss) = (case str_val data x of Some v \<Rightarrow> v \<in> set ss | None \<Rightarrow> False)"
| "holds data (AllOf cs) = (\<forall>c\<in>set cs. holds data c)"
| "holds data (AnyOf cs) = (\<exists>c\<in>set cs. holds data c)"
| "holds data (Neg c) = (\<not> holds data c)"

text \<open>
  A condition is typed by a context when its variables have the type it uses them at, and its
  strings are not read as numbers by \<open>strconv.ParseFloat\<close>.
\<close>

definition plain_str :: "go_float \<Rightarrow> string \<Rightarrow> bool" where
  "plain_str P s \<longleftrightarrow> \<not> snd (parseFloat P s)"

fun typed :: "go_float \<Rightarrow> (string \<times> json) list \<Rightarrow> cond \<Rightarrow> bool" where
  "typed P data (Num c s t) = (num_val data s \<noteq> None \<and> num_val data t \<noteq> None)"
| "typed P data (StrIs x s) =
     (plain_str P s \<and> (case str_val data x of Some v \<Rightarrow> plain_str P v | None \<Rightarrow> False))"
| "typed P data (OneOf x ss) =
     (list_all (plain_str P) ss \<and>
      (case str_val data x of Some v \<Rightarrow> plain_str P v | None \<Rightarrow> False))"
| "typed P data (AllOf cs) = (\<forall>c\<in>set cs. typed P data c)"
| "typed P data (AnyOf cs) = (\<forall>c\<in>set cs. typed P data c)"
| "typed P data (Neg c) = typed P data c"

lemma eval_num_term:
  "num_val data t = Some q \<Longrightarrow> evalAny P data (compile_num t) = Inr (JFloat (Fin q))"
  by (cases t) (auto simp: varKey_def split: json.splits float64.splits)

lemma eval_var [simp]: "evalAny P data (JVar x) = Inr (lookupVar x data)"
  by (simp add: varKey_def)

lemma str_val_SomeD: "str_val data x = Some s \<Longrightarrow> lookupVar x data = JStr s"
  by (auto simp: str_val_def split: json.splits)

lemma equal_plain:
  "plain_str P s \<Longrightarrow> equal P (JStr s) (JStr t) \<longleftrightarrow> s = t"
  by (auto simp: equal_def plain_str_def split: option.splits prod.splits)

lemma binOp_cmp:
  "binOp P (cmp_name c) (JFloat (Fin a)) (JFloat (Fin b)) = Inr (JBool (cmp_holds c a b))"
  by (cases c) (auto simp: binOp_def equal_def compare_def fl_le_def)

lemma cmp_name_binary: "cmp_name c \<in> binaryOps"
  by (cases c) (auto simp: binaryOps_def)

lemma evalAnd_holds:
  "(\<And>c. c \<in> set cs \<Longrightarrow> evalAny P data (compile c) = Inr (JBool (holds data c))) \<Longrightarrow>
    evalAnd P data (map compile cs) = Inr (JBool (\<forall>c\<in>set cs. holds data c))"
  by (induction cs) auto

lemma evalOr_holds:
  "(\<And>c. c \<in> set cs \<Longrightarrow> evalAny P data (compile c) = Inr (JBool (holds data c))) \<Longrightarrow>
    evalOr P data (map compile cs) = Inr (JBool (\<exists>c\<in>set cs. holds data c))"
  by (induction cs) auto

lemma evalAny_compile:
  "typed P data c \<Longrightarrow> evalAny P data (compile c) = Inr (JBool (holds data c))"
proof (induction c)
  case (Num c s t)
  then obtain a b where ab: "num_val data s = Some a" "num_val data t = Some b" by auto
  have "applyOp P data (cmp_name c) (JArr [compile_num s, compile_num t])
      = binOp P (cmp_name c) (JFloat (Fin a)) (JFloat (Fin b))"
    by (simp add: applyOp_binary [OF cmp_name_binary] argList_def eval_num_term ab)
  with ab show ?case by (simp add: binOp_cmp)
next
  case (StrIs x s)
  then show ?case
    by (auto simp: applyOp_binary [OF cmp_name_binary [of CEq, simplified]] argList_def varKey_def
        binOp_def equal_plain dest!: str_val_SomeD split: option.splits)
next
  case (OneOf x ss)
  then show ?case
    by (auto simp: argList_def varKey_def inOp_def equal_plain list_all_iff dest!: str_val_SomeD
        split: option.splits)
next
  case (AllOf cs)
  then show ?case by (simp add: argList_def evalAnd_holds)
next
  case (AnyOf cs)
  then show ?case by (simp add: argList_def evalOr_holds)
next
  case (Neg c)
  then show ?case by (simp add: argList_def)
qed

subsection \<open>A concrete reading of floats\<close>

text \<open>Decimal notation, exact: the instance of \<open>go_float\<close> the witnesses evaluate.\<close>

definition dec_float :: go_float where
  "dec_float = \<lparr>
     parseFloat = (\<lambda>s. case dec_parse s of Some q \<Rightarrow> (Fin q, True) | None \<Rightarrow> (Fin 0, False)),
     fmtFloat = (\<lambda>x. case x of Fin q \<Rightarrow> dec_fixed 2 q | PInf \<Rightarrow> ''+Inf'' | NInf \<Rightarrow> ''-Inf'' | NaN \<Rightarrow> ''NaN'') \<rparr>"

section \<open>Properties\<close>

text \<open>A well-formed condition (known operators, two operands where the operator takes two)
  never makes the evaluator fail, whatever the context holds.\<close>

theorem Eval_wf_total:
  assumes "wf_expr e"
  shows "\<exists>b. Eval P e data = Inr b"
  using assms by (rule Eval_total)

theorem Eval_wf_total_witness:
  "\<exists>b. Eval dec_float (JObj [(''<'', JArr [JVar ''amount'', JFloat (Fin 5000)])])
     [(''amount'', JStr ''12'')] = Inr b"
  by (rule Eval_wf_total) (simp add: binaryOps_def argList_def)

text \<open>C34. On the JSON that a typed condition compiles to, the evaluator computes the condition's
  meaning: numeric comparisons, string tests, membership, conjunction, disjunction and negation
  agree with their mathematical reading on every context of the right types.\<close>

theorem Eval_compile:
  assumes "typed P data c"
  shows "Eval P (compile c) data = Inr (holds data c)"
  using evalAny_compile [OF assms] by (simp add: Eval_def)

theorem Eval_compile_witness:
  "Eval dec_float
     (compile (AllOf [Num CGt (NVar ''loan.amount'') (NLit 100000),
                      Neg (OneOf ''type'' [''emergency'', ''school''])]))
     [(''loan'', JObj [(''amount'', JFloat (Fin 250000))]), (''type'', JStr ''normal'')] = Inr True"
proof -
  let ?c = "AllOf [Num CGt (NVar ''loan.amount'') (NLit 100000),
                      Neg (OneOf ''type'' [''emergency'', ''school''])]"
  let ?data = "[(''loan'', JObj [(''amount'', JFloat (Fin 250000))]), (''type'', JStr ''normal'')]"
  have "typed dec_float ?data ?c" and "holds ?data ?c"
    by (simp_all add: lookupVar_def str_val_def plain_str_def dec_float_def dec_parse_def
        dec_parse_abs_def is_digit_def)
  then show ?thesis using Eval_compile [of dec_float ?data ?c] by simp
qed

end
