(* ===== verification/WorkflowStore.thy ===== *)
theory WorkflowStore
  imports JsonLogic
begin

text \<open>
  The workflow service's entities (services/workflow/internal/domain/types.go) and its two
  stores (internal/store/definition_store.go and instance_store.go): versioned definitions of
  which at most one per process kind is active, instances with their per-level state, the
  claim that locks an instance for one approver, the callback columns, and the action log.

  The tables are those of one tenant: every query runs under row-level security that hides
  the rows of the others. A statement that fails in the database aborts the transaction and
  leaves the tables as they were; such failures are not modelled. Row ids and the clock are
  arguments.
\<close>

section \<open>Entities\<close>

datatype status =
    StatusPending | StatusInProgress | StatusApproved | StatusRejected | StatusReturned
  | StatusAwaitingInfo | StatusEscalated | StatusCancelled | StatusExpired

datatype level_status =
    LvlWaiting | LvlInProgress | LvlApproved | LvlRejected | LvlReturned
  | LvlAwaitingInfo | LvlEscalated | LvlSkipped

datatype action_kind =
    ActCreate | ActApprove | ActReject | ActReturn | ActRequestInfo | ActResume | ActEscalate
  | ActReassign | ActCancel | ActCallbackFired | ActSLABreached | ActComment | ActClaim | ActRelease

datatype quorum = QuorumAnyOne | QuorumAll | QuorumMajority

record level_def =
  ld_level_order :: nat
  ld_name :: string
  ld_approver_roles :: "string list"
  ld_approver_user_ids :: "uuid list"
  ld_quorum :: quorum
  ld_condition_expr :: json
  ld_sla_hours :: "int option"
  ld_escalation_role :: string
  ld_escalation_user :: "uuid option"

record level_state =
  ls_order :: nat
  ls_name :: string
  ls_status :: level_status
  ls_approver_roles :: "string list"
  ls_approver_user_ids :: "uuid list"
  ls_quorum :: quorum
  ls_condition :: json
  ls_sla_hours :: "int option"
  ls_sla_due_at :: "instant option"
  ls_approved_by :: "uuid list"
  ls_entered_at :: "instant option"
  ls_completed_at :: "instant option"
  ls_escalation_role :: string
  ls_escalation_user :: "uuid option"

record wf_definition =
  wd_id :: uuid
  wd_process_kind :: string
  wd_name :: string
  wd_description :: string
  wd_version :: nat
  wd_active :: bool
  wd_created_by :: "uuid option"
  wd_levels :: "level_def list"

text \<open>\<open>callback_status\<close>: NULL until a terminal transition, then what the dispatcher makes of it.\<close>

datatype callback_status = CbNone | CbPending | CbInFlight | CbDelivered | CbFailed string

text \<open>An empty \<open>i_callback_url\<close> is the NULL the insert stores for it.\<close>

record wf_instance =
  i_id :: uuid
  i_definition_id :: uuid
  i_process_kind :: string
  i_subject_kind :: string
  i_subject_id :: uuid
  i_status :: status
  i_current_level :: nat
  i_context :: "(string \<times> json) list"
  i_callback_url :: string
  i_callback_secret :: string
  i_callback_status :: callback_status
  i_callback_delivered_at :: "instant option"
  i_callback_attempts :: nat
  i_callback_next_attempt_at :: "instant option"
  i_callback_last_error :: "string option"
  i_initiator_id :: "uuid option"
  i_started_at :: instant
  i_completed_at :: "instant option"
  i_levels :: "level_state list"
  i_summary :: string
  i_source_url :: string
  i_claimed_by :: "uuid option"
  i_claimed_at :: "instant option"
  i_claim_expires :: "instant option"
  i_sla_breach_at :: "instant option"

datatype action_meta =
    MetaNone
  | MetaDefinition uuid nat
  | MetaSLA "instant option" instant
  | MetaReassign "uuid option"
  | MetaExpires "instant option"

record wf_action =
  a_instance_id :: uuid
  a_level_order :: "nat option"
  a_action :: action_kind
  a_actor_id :: "uuid option"
  a_actor_role :: string
  a_comments :: string
  a_metadata :: action_meta

record wf_db =
  db_definitions :: "wf_definition list"
  db_instances :: "uuid \<rightharpoonup> wf_instance"
  db_actions :: "wf_action list"

datatype wf_error =
    BadRequest string
  | Unauthorized
  | Forbidden string
  | Conflict string
  | WfNotFound
  | ErrClaimContested
  | PanicIndex \<comment> \<open>an index out of range, which Go panics on\<close>

section \<open>Definitions\<close>

text \<open>
  \<open>DefinitionStore.CreateTx\<close>: the new version is one above the highest of its kind; making it
  active deactivates the others of the kind. Levels are renumbered by position.
\<close>

definition nextVersion :: "wf_definition list \<Rightarrow> string \<Rightarrow> nat" where
  "nextVersion defs kind =
     fold max (map wd_version (filter (\<lambda>d. wd_process_kind d = kind) defs)) 0 + 1"

definition renumber :: "level_def list \<Rightarrow> level_def list" where
  "renumber lvls = map (\<lambda>(ix, l). l\<lparr>ld_level_order := ix\<rparr>) (zip [0..<length lvls] lvls)"

definition CreateDefinitionTx ::
  "wf_db \<Rightarrow> uuid \<Rightarrow> string \<Rightarrow> string \<Rightarrow> string \<Rightarrow> level_def list \<Rightarrow> uuid option \<Rightarrow> bool
    \<Rightarrow> wf_db \<times> wf_definition" where
  "CreateDefinitionTx db new_id kind name descr lvls created_by active =
     (let v = nextVersion (db_definitions db) kind;
          defs = (if active
                  then map (\<lambda>d. if wd_process_kind d = kind then d\<lparr>wd_active := False\<rparr> else d)
                         (db_definitions db)
                  else db_definitions db);
          d = \<lparr> wd_id = new_id, wd_process_kind = kind, wd_name = name, wd_description = descr,
                wd_version = v, wd_active = active, wd_created_by = created_by,
                wd_levels = renumber lvls \<rparr>
      in (db\<lparr>db_definitions := defs @ [d]\<rparr>, d))"

definition SetActiveTx :: "wf_db \<Rightarrow> uuid \<Rightarrow> bool \<Rightarrow> wf_error + wf_db" where
  "SetActiveTx db rid active =
     (case find (\<lambda>d. wd_id d = rid) (db_definitions db) of
        None \<Rightarrow> Inl WfNotFound
      | Some d0 \<Rightarrow>
          (let defs = (if active
                 then map (\<lambda>d. if wd_process_kind d = wd_process_kind d0 \<and> wd_active d \<and> wd_id d \<noteq> rid
                               then d\<lparr>wd_active := False\<rparr> else d) (db_definitions db)
                 else db_definitions db)
           in Inr (db\<lparr>db_definitions :=
                map (\<lambda>d. if wd_id d = rid then d\<lparr>wd_active := active\<rparr> else d) defs\<rparr>)))"

definition DefByIDTx :: "wf_db \<Rightarrow> uuid \<Rightarrow> wf_error + wf_definition" where
  "DefByIDTx db rid =
     (case find (\<lambda>d. wd_id d = rid) (db_definitions db) of
        None \<Rightarrow> Inl WfNotFound | Some d \<Rightarrow> Inr d)"

definition ActiveByKindTx :: "wf_db \<Rightarrow> string \<Rightarrow> wf_error + wf_definition" where
  "ActiveByKindTx db kind =
     (case find (\<lambda>d. wd_process_kind d = kind \<and> wd_active d) (db_definitions db) of
        None \<Rightarrow> Inl WfNotFound | Some d \<Rightarrow> DefByIDTx db (wd_id d))"

text \<open>
  The store's promise: ids are unique, versions of a kind are unique, and at most one
  definition of a kind is active.
\<close>

definition one_active :: "wf_definition list \<Rightarrow> bool" where
  "one_active defs \<longleftrightarrow> distinct (map wd_process_kind (filter wd_active defs))"

definition definitions_ok :: "wf_db \<Rightarrow> bool" where
  "definitions_ok db \<longleftrightarrow>
     distinct (map wd_id (db_definitions db)) \<and>
     distinct (map (\<lambda>d. (wd_process_kind d, wd_version d)) (db_definitions db)) \<and>
     one_active (db_definitions db)"

section \<open>Instances\<close>

definition isTerminal :: "status \<Rightarrow> bool" where
  "isTerminal s \<longleftrightarrow> s \<in> {StatusApproved, StatusRejected, StatusCancelled, StatusExpired}"

definition activeLevelSLA :: "wf_instance \<Rightarrow> instant option" where
  "activeLevelSLA i =
     (if isTerminal (i_status i) then None
      else if length (i_levels i) \<le> i_current_level i then None
      else ls_sla_due_at (i_levels i ! i_current_level i))"

record create_instance_input =
  ci_definition_id :: uuid
  ci_process_kind :: string
  ci_subject_kind :: string
  ci_subject_id :: uuid
  ci_context :: "(string \<times> json) list"
  ci_callback_url :: string
  ci_callback_secret :: string
  ci_initiator_id :: "uuid option"
  ci_levels_snapshot :: "level_state list"
  ci_starting_level :: nat
  ci_starting_status :: status
  ci_summary :: string
  ci_source_url :: string
  ci_sla_breach_at :: "instant option"

definition CreateInstanceTx ::
  "wf_db \<Rightarrow> uuid \<Rightarrow> instant \<Rightarrow> create_instance_input \<Rightarrow> wf_db \<times> wf_instance" where
  "CreateInstanceTx db new_id now inp =
     (let i = \<lparr> i_id = new_id, i_definition_id = ci_definition_id inp,
                i_process_kind = ci_process_kind inp, i_subject_kind = ci_subject_kind inp,
                i_subject_id = ci_subject_id inp, i_status = ci_starting_status inp,
                i_current_level = ci_starting_level inp, i_context = ci_context inp,
                i_callback_url = ci_callback_url inp, i_callback_secret = ci_callback_secret inp,
                i_callback_status = CbNone, i_callback_delivered_at = None,
                i_callback_attempts = 0, i_callback_next_attempt_at = None,
                i_callback_last_error = None, i_initiator_id = ci_initiator_id inp,
                i_started_at = now, i_completed_at = None, i_levels = ci_levels_snapshot inp,
                i_summary = ci_summary inp, i_source_url = ci_source_url inp,
                i_claimed_by = None, i_claimed_at = None, i_claim_expires = None,
                i_sla_breach_at = ci_sla_breach_at inp \<rparr>
      in (db\<lparr>db_instances := (db_instances db)(new_id \<mapsto> i)\<rparr>, i))"

definition ByIDTx :: "wf_db \<Rightarrow> uuid \<Rightarrow> wf_error + wf_instance" where
  "ByIDTx db rid = (case db_instances db rid of None \<Rightarrow> Inl WfNotFound | Some i \<Rightarrow> Inr i)"

text \<open>An UPDATE of the row with the given id; no row, no change.\<close>

definition update_row :: "uuid \<Rightarrow> (wf_instance \<Rightarrow> wf_instance) \<Rightarrow> wf_db \<Rightarrow> wf_db" where
  "update_row rid f db =
     (case db_instances db rid of
        None \<Rightarrow> db
      | Some r \<Rightarrow> db\<lparr>db_instances := (db_instances db)(rid \<mapsto> f r)\<rparr>)"

definition UpdateProgressTx :: "wf_db \<Rightarrow> wf_instance \<Rightarrow> wf_db" where
  "UpdateProgressTx db i =
     (let breachAt = activeLevelSLA i; terminal = isTerminal (i_status i)
      in update_row (i_id i) (\<lambda>r. r\<lparr>
           i_status := i_status i,
           i_current_level := i_current_level i,
           i_levels := i_levels i,
           i_completed_at := i_completed_at i,
           i_sla_breach_at := breachAt,
           i_claimed_by := (if terminal then None else i_claimed_by r),
           i_claimed_at := (if terminal then None else i_claimed_at r),
           i_claim_expires := (if terminal then None else i_claim_expires r)\<rparr>) db)"

text \<open>
  \<open>ClaimTx\<close>: the update applies when nobody holds the instance, the caller holds it, or the
  holder's claim has expired (a NULL expiry compares as false).
\<close>

definition claimable :: "wf_instance \<Rightarrow> uuid \<Rightarrow> instant \<Rightarrow> bool" where
  "claimable r user now \<longleftrightarrow>
     i_claimed_by r = None \<or> i_claimed_by r = Some user \<or>
     (case i_claim_expires r of None \<Rightarrow> False | Some e \<Rightarrow> e < now)"

definition ClaimTx :: "wf_db \<Rightarrow> instant \<Rightarrow> uuid \<Rightarrow> uuid \<Rightarrow> int \<Rightarrow> wf_error + (wf_db \<times> wf_instance)" where
  "ClaimTx db now rid user ttl =
     (case db_instances db rid of
        None \<Rightarrow> Inl WfNotFound
      | Some r \<Rightarrow>
          (if claimable r user now
           then (let db' = update_row rid (\<lambda>r. r\<lparr>i_claimed_by := Some user, i_claimed_at := Some now,
                              i_claim_expires := Some (now + ttl)\<rparr>) db
                 in bind_res (ByIDTx db' rid) (\<lambda>i. Inr (db', i)))
           else Inl ErrClaimContested))"

definition ReleaseTx :: "wf_db \<Rightarrow> uuid \<Rightarrow> wf_db" where
  "ReleaseTx db rid = update_row rid (\<lambda>r. r\<lparr>i_claimed_by := None, i_claimed_at := None,
     i_claim_expires := None\<rparr>) db"

definition SetCallbackStatusTx :: "wf_db \<Rightarrow> uuid \<Rightarrow> callback_status \<Rightarrow> instant option \<Rightarrow> wf_db" where
  "SetCallbackStatusTx db rid s delivered =
     update_row rid (\<lambda>r. r\<lparr>i_callback_status := s, i_callback_delivered_at := delivered\<rparr>) db"

definition MarkCallbackPendingTx :: "wf_db \<Rightarrow> uuid \<Rightarrow> wf_db" where
  "MarkCallbackPendingTx db rid =
     update_row rid (\<lambda>r. if i_callback_url r = [] then r
       else r\<lparr>i_callback_status := CbPending, i_callback_attempts := 0,
              i_callback_next_attempt_at := None, i_callback_last_error := None\<rparr>) db"

definition WriteActionTx :: "wf_db \<Rightarrow> wf_action \<Rightarrow> wf_db" where
  "WriteActionTx db a = db\<lparr>db_actions := db_actions db @ [a]\<rparr>"

section \<open>Lemmas\<close>

lemma update_row_simps [simp]:
  "db_definitions (update_row rid f db) = db_definitions db"
  "db_actions (update_row rid f db) = db_actions db"
  "db_instances (update_row rid f db) =
     (db_instances db)(rid := map_option f (db_instances db rid))"
  by (auto simp: update_row_def fun_eq_iff split: option.splits)

lemma WriteActionTx_simps [simp]:
  "db_definitions (WriteActionTx db a) = db_definitions db"
  "db_instances (WriteActionTx db a) = db_instances db"
  "db_actions (WriteActionTx db a) = db_actions db @ [a]"
  by (simp_all add: WriteActionTx_def)

lemma ByIDTx_Inr_iff [simp]: "ByIDTx db rid = Inr i \<longleftrightarrow> db_instances db rid = Some i"
  by (simp add: ByIDTx_def split: option.splits)

lemma ClaimTx_InrD:
  "ClaimTx db now rid user ttl = Inr (db', i) \<Longrightarrow>
    \<exists>r. db_instances db rid = Some r \<and> claimable r user now \<and>
      i = r\<lparr>i_claimed_by := Some user, i_claimed_at := Some now, i_claim_expires := Some (now + ttl)\<rparr> \<and>
      db_instances db' = (db_instances db)(rid \<mapsto> i) \<and>
      db_definitions db' = db_definitions db \<and> db_actions db' = db_actions db"
  by (auto simp: ClaimTx_def Let_def split: option.splits if_splits)

subsection \<open>The active definition of a kind\<close>

lemma fold_max_le: "a \<le> fold max xs (a::nat)"
proof (induction xs arbitrary: a)
  case (Cons x xs)
  have "a \<le> max x a" by simp
  also have "\<dots> \<le> fold max xs (max x a)" by (rule Cons.IH)
  finally show ?case by simp
qed simp

lemma fold_max_ge: "x \<in> set xs \<Longrightarrow> x \<le> fold max xs (a::nat)"
  by (induction xs arbitrary: a) (auto intro: order_trans [OF _ fold_max_le])

lemma nextVersion_fresh:
  "d \<in> set defs \<Longrightarrow> wd_process_kind d = kind \<Longrightarrow> wd_version d < nextVersion defs kind"
  unfolding nextVersion_def by (rule le_imp_less_Suc [THEN order_less_le_trans])
    (auto intro!: fold_max_ge)

lemma map_set_active [simp]:
  "map wd_id (map (\<lambda>d. if P d then d\<lparr>wd_active := b\<rparr> else d) defs) = map wd_id defs"
  "map (\<lambda>d. (wd_process_kind d, wd_version d))
     (map (\<lambda>d. if P d then d\<lparr>wd_active := b\<rparr> else d) defs) =
   map (\<lambda>d. (wd_process_kind d, wd_version d)) defs"
  by (simp_all add: comp_def if_distrib cong: if_cong)

lemma one_active_iff:
  "distinct (map wd_id defs) \<Longrightarrow>
    one_active defs \<longleftrightarrow>
      (\<forall>d\<in>set defs. \<forall>e\<in>set defs.
        wd_active d \<and> wd_active e \<and> wd_process_kind d = wd_process_kind e \<longrightarrow> wd_id d = wd_id e)"
  by (auto simp: one_active_def distinct_map inj_on_def)

lemma definitions_ok_iff:
  "definitions_ok db \<longleftrightarrow>
     distinct (map wd_id (db_definitions db)) \<and>
     distinct (map (\<lambda>d. (wd_process_kind d, wd_version d)) (db_definitions db)) \<and>
     (\<forall>d\<in>set (db_definitions db). \<forall>e\<in>set (db_definitions db).
        wd_active d \<and> wd_active e \<and> wd_process_kind d = wd_process_kind e \<longrightarrow> wd_id d = wd_id e)"
  unfolding definitions_ok_def using one_active_iff by blast

lemma CreateDefinitionTx_ok:
  assumes ok: "definitions_ok db" and fresh: "new_id \<notin> wd_id ` set (db_definitions db)"
  shows "definitions_ok (fst (CreateDefinitionTx db new_id kind name descr lvls by active))"
proof -
  define defs where "defs = db_definitions db"
  define defs' where "defs' = (if active
    then map (\<lambda>d. if wd_process_kind d = kind then d\<lparr>wd_active := False\<rparr> else d) defs else defs)"
  obtain d where new: "db_definitions (fst (CreateDefinitionTx db new_id kind name descr lvls by active))
      = defs' @ [d]"
    and d: "wd_id d = new_id" "wd_process_kind d = kind" "wd_active d = active"
      "wd_version d = nextVersion defs kind"
    by (auto simp: CreateDefinitionTx_def Let_def defs_def defs'_def)
  have ids: "map wd_id defs' = map wd_id defs"
    and vers: "map (\<lambda>d. (wd_process_kind d, wd_version d)) defs' =
      map (\<lambda>d. (wd_process_kind d, wd_version d)) defs"
    by (simp_all add: defs'_def del: map_map)
  have ver: "(kind, nextVersion defs kind) \<notin> set (map (\<lambda>d. (wd_process_kind d, wd_version d)) defs)"
    using nextVersion_fresh by force
  have off: "z \<in> set defs \<and> (active \<longrightarrow> wd_process_kind z \<noteq> kind)"
    if "z \<in> set defs'" "wd_active z" for z
    using that by (auto simp: defs'_def split: if_splits)
  have old: "wd_id x = wd_id y" if "x \<in> set defs'" "y \<in> set defs'" "wd_active x" "wd_active y"
      "wd_process_kind x = wd_process_kind y" for x y
    using that ok off [of x] off [of y] unfolding definitions_ok_iff defs_def by blast
  have "\<forall>x\<in>set (defs' @ [d]). \<forall>y\<in>set (defs' @ [d]).
      wd_active x \<and> wd_active y \<and> wd_process_kind x = wd_process_kind y \<longrightarrow> wd_id x = wd_id y"
  proof (intro ballI impI, elim conjE)
    fix x y
    assume mem: "x \<in> set (defs' @ [d])" "y \<in> set (defs' @ [d])"
      and a: "wd_active x" "wd_active y" and k: "wd_process_kind x = wd_process_kind y"
    consider "x \<in> set defs'" "y \<in> set defs'" | "x = d" "y = d"
      | "x = d" "y \<in> set defs'" | "x \<in> set defs'" "y = d"
      using mem by auto
    then show "wd_id x = wd_id y"
    proof cases
      case 1
      then show ?thesis using old a k by metis
    next
      case 3
      then show ?thesis using off [of y] a k d by auto
    next
      case 4
      then show ?thesis using off [of x] a k d by auto
    qed simp
  qed
  moreover have "distinct (map wd_id (defs' @ [d]))"
    using ok fresh d(1) unfolding map_append ids by (simp add: definitions_ok_def defs_def)
  moreover have "distinct (map (\<lambda>d. (wd_process_kind d, wd_version d)) (defs' @ [d]))"
    using ok ver d(2,4) unfolding map_append vers by (simp add: definitions_ok_def defs_def)
  ultimately show ?thesis
    unfolding definitions_ok_iff new by blast
qed

lemma SetActiveTx_ok:
  assumes ok: "definitions_ok db" and run: "SetActiveTx db rid active = Inr db'"
  shows "definitions_ok db'"
proof -
  let ?defs = "db_definitions db"
  obtain d0 where d0: "find (\<lambda>d. wd_id d = rid) ?defs = Some d0"
    using run by (auto simp: SetActiveTx_def split: option.splits)
  then have mem: "d0 \<in> set ?defs" "wd_id d0 = rid" by (auto simp: find_Some_iff)
  have inj: "d = d0" if "d \<in> set ?defs" "wd_id d = rid" for d
    using that mem ok by (auto simp: definitions_ok_def distinct_map dest: inj_onD)
  define P where "P = (\<lambda>d::wf_definition.
    active \<and> wd_process_kind d = wd_process_kind d0 \<and> wd_active d \<and> wd_id d \<noteq> rid)"
  have db': "db_definitions db' = map (\<lambda>d. if wd_id d = rid then d\<lparr>wd_active := active\<rparr> else d)
      (map (\<lambda>d. if P d then d\<lparr>wd_active := False\<rparr> else d) ?defs)"
    using run d0 by (auto simp: SetActiveTx_def Let_def P_def)
  have "\<forall>x\<in>set (db_definitions db'). \<forall>y\<in>set (db_definitions db').
      wd_active x \<and> wd_active y \<and> wd_process_kind x = wd_process_kind y \<longrightarrow> wd_id x = wd_id y"
  proof (intro ballI impI)
    fix x y
    assume mem': "x \<in> set (db_definitions db')" "y \<in> set (db_definitions db')"
      and a: "wd_active x \<and> wd_active y \<and> wd_process_kind x = wd_process_kind y"
    have old: "d \<in> set ?defs \<Longrightarrow> e \<in> set ?defs \<Longrightarrow> wd_active d \<Longrightarrow> wd_active e \<Longrightarrow>
        wd_process_kind d = wd_process_kind e \<Longrightarrow> wd_id d = wd_id e" for d e
      using ok unfolding definitions_ok_iff by blast
    have pre: "\<exists>d\<in>set ?defs. wd_id z = wd_id d \<and> wd_process_kind z = wd_process_kind d \<and>
        (wd_id d = rid \<and> active \<or> wd_id d \<noteq> rid \<and> wd_active d \<and> \<not> P d)"
      if "z \<in> set (db_definitions db')" "wd_active z" for z
      using that unfolding db' by (auto split: if_splits)
    obtain d where d: "d \<in> set ?defs" "wd_id x = wd_id d" "wd_process_kind x = wd_process_kind d"
      "wd_id d = rid \<and> active \<or> wd_id d \<noteq> rid \<and> wd_active d \<and> \<not> P d"
      using pre mem' a by blast
    obtain e where e: "e \<in> set ?defs" "wd_id y = wd_id e" "wd_process_kind y = wd_process_kind e"
      "wd_id e = rid \<and> active \<or> wd_id e \<noteq> rid \<and> wd_active e \<and> \<not> P e"
      using pre mem' a by blast
    show "wd_id x = wd_id y"
    proof (cases "wd_id d = rid")
      case True
      then have "d = d0" "active" using d inj by auto
      with e a d True show ?thesis by (auto simp: P_def)
    next
      case dn: False
      show ?thesis
      proof (cases "wd_id e = rid")
        case True
        then have "e = d0" "active" using e inj by auto
        with e a d dn show ?thesis by (auto simp: P_def)
      next
        case False
        with dn d e a old show ?thesis by metis
      qed
    qed
  qed
  moreover have "distinct (map wd_id (db_definitions db'))"
    and "distinct (map (\<lambda>d. (wd_process_kind d, wd_version d)) (db_definitions db'))"
    using ok unfolding db' definitions_ok_def by (simp_all del: map_map)
  ultimately show ?thesis
    unfolding definitions_ok_iff by blast
qed

end
