(* ===== verification/WorkflowEngine.thy ===== *)
theory WorkflowEngine
  imports WorkflowStore
begin

text \<open>
  The instance lifecycle of the workflow service
  (services/workflow/internal/handler/instances.go): creation with its conditional levels,
  the eight actions of the Action handler, claim, release and comment. The invariant
  \<open>instance_ok\<close> relates an instance's status to the status of its levels; every operation
  keeps it, and the properties of finished instances follow from it.

  Notifications and HTTP encoding are left out; a handler is a function from the tables and
  the decoded request to an error or the new tables.
\<close>

section \<open>Authorisation\<close>

record access_claims =
  c_roles :: "string list"
  c_permissions :: "string list"
  c_is_platform_admin :: bool

definition HasPermission :: "access_claims \<Rightarrow> string \<Rightarrow> bool" where
  "HasPermission c p \<longleftrightarrow> c_is_platform_admin c \<or> p \<in> set (c_permissions c)"

definition canActOnInstance :: "wf_instance \<Rightarrow> bool" where
  "canActOnInstance i \<longleftrightarrow>
     i_status i \<in> {StatusPending, StatusInProgress, StatusReturned, StatusAwaitingInfo, StatusEscalated}"

definition isInitiator :: "wf_instance \<Rightarrow> uuid \<Rightarrow> bool" where
  "isInitiator i actor \<longleftrightarrow> i_initiator_id i = Some actor"

definition isInitiatorOrAdmin :: "wf_instance \<Rightarrow> uuid \<Rightarrow> access_claims option \<Rightarrow> bool" where
  "isInitiatorOrAdmin i actor claims \<longleftrightarrow>
     isInitiator i actor \<or>
     (case claims of None \<Rightarrow> False
      | Some c \<Rightarrow> c_is_platform_admin c \<or> HasPermission c ''workflow:configure'')"

text \<open>
  The role the caller acts under: the first of the caller's roles (or the preferred one) among
  the level's approver roles; platform admins and listed users always may.
\<close>

definition authorisedRoleAt ::
  "wf_instance \<Rightarrow> nat \<Rightarrow> uuid \<Rightarrow> access_claims option \<Rightarrow> string \<Rightarrow> wf_error + string option" where
  "authorisedRoleAt i lvlIdx actor claims preferredRole =
     (case claims of None \<Rightarrow> Inr None
      | Some c \<Rightarrow>
          if c_is_platform_admin c then Inr (Some ''platform_admin'')
          else if length (i_levels i) \<le> lvlIdx then Inl PanicIndex
          else let level = i_levels i ! lvlIdx in
            if actor \<in> set (ls_approver_user_ids level) then Inr (Some ''direct'')
            else Inr (find (\<lambda>role. (preferredRole = [] \<or> role = preferredRole) \<and>
                                   role \<in> set (ls_approver_roles level)) (c_roles c)))"

section \<open>Levels\<close>

fun nextActiveFrom :: "nat \<Rightarrow> level_state list \<Rightarrow> nat option" where
  "nextActiveFrom i ls = index_from (\<lambda>l. ls_status l \<noteq> LvlSkipped) i ls"

definition nextActiveLevel :: "level_state list \<Rightarrow> nat \<Rightarrow> nat option" where
  "nextActiveLevel levels fromIdx = nextActiveFrom fromIdx (drop fromIdx levels)"

definition uniqueApproversAt :: "level_state \<Rightarrow> nat" where
  "uniqueApproversAt level = length (ls_approver_user_ids level)"

definition distinctApprovals :: "level_state \<Rightarrow> uuid list" where
  "distinctApprovals level = remdups (ls_approved_by level)"

definition enter_level :: "instant \<Rightarrow> level_state \<Rightarrow> level_state" where
  "enter_level now l = l\<lparr>ls_status := LvlInProgress, ls_entered_at := Some now,
     ls_sla_due_at := (case ls_sla_hours l of Some h \<Rightarrow> Some (now + hours h) | None \<Rightarrow> ls_sla_due_at l)\<rparr>"

section \<open>Creation\<close>

definition snapshot_level ::
  "go_float \<Rightarrow> (string \<times> json) list \<Rightarrow> nat \<Rightarrow> level_def \<Rightarrow> wf_error + level_state" where
  "snapshot_level P ctx ix l =
     (let ls = \<lparr> ls_order = ix, ls_name = ld_name l, ls_status = LvlWaiting,
                 ls_approver_roles = ld_approver_roles l,
                 ls_approver_user_ids = ld_approver_user_ids l, ls_quorum = ld_quorum l,
                 ls_condition = ld_condition_expr l, ls_sla_hours = ld_sla_hours l,
                 ls_sla_due_at = None, ls_approved_by = [], ls_entered_at = None,
                 ls_completed_at = None, ls_escalation_role = ld_escalation_role l,
                 ls_escalation_user = ld_escalation_user l \<rparr>
      in if ld_condition_expr l = JNil then Inr ls
         else case Eval P (ld_condition_expr l) ctx of
             Inl e \<Rightarrow> Inl (BadRequest (''level '' @ ld_name l @ '': condition evaluation failed''))
           | Inr ok \<Rightarrow> Inr (if ok then ls else ls\<lparr>ls_status := LvlSkipped\<rparr>))"

fun snapshot_levels ::
  "go_float \<Rightarrow> (string \<times> json) list \<Rightarrow> nat \<Rightarrow> level_def list \<Rightarrow> wf_error + level_state list" where
  "snapshot_levels P ctx ix [] = Inr []"
| "snapshot_levels P ctx ix (l # ls) =
     bind_res (snapshot_level P ctx ix l) (\<lambda>s.
     bind_res (snapshot_levels P ctx (Suc ix) ls) (\<lambda>ss. Inr (s # ss)))"

record create_req =
  cr_process_kind :: string
  cr_definition_id :: "uuid option"
  cr_subject_kind :: string
  cr_subject_id :: uuid
  cr_context :: "(string \<times> json) list"
  cr_callback_url :: string
  cr_callback_secret :: string
  cr_initiator_id :: "uuid option"
  cr_summary :: string
  cr_source_url :: string

definition nonZero :: "uuid \<Rightarrow> uuid option" where
  "nonZero u = (if u = uuid_Nil then None else Some u)"

text \<open>
  The levels as the new instance stores them, with the first level that is not skipped entered,
  and the status and current level that go with them.
\<close>

definition start_levels :: "instant \<Rightarrow> level_state list \<Rightarrow> level_state list \<times> nat \<times> status" where
  "start_levels now snap =
     (case nextActiveLevel snap 0 of
        None \<Rightarrow> (snap, 0, StatusApproved)
      | Some k \<Rightarrow> (snap[k := enter_level now (snap ! k)], k, StatusInProgress))"

definition Create ::
  "go_float \<Rightarrow> wf_db \<Rightarrow> instant \<Rightarrow> uuid \<Rightarrow> uuid \<Rightarrow> create_req \<Rightarrow> wf_error + (wf_db \<times> wf_instance)" where
  "Create P db now new_id actor req =
     (let kind = TrimSpace (cr_process_kind req); subject = TrimSpace (cr_subject_kind req);
          initiator = (case cr_initiator_id req of Some u \<Rightarrow> Some u | None \<Rightarrow> nonZero actor)
      in if kind = [] \<or> subject = [] \<or> cr_subject_id req = uuid_Nil
         then Inl (BadRequest ''process_kind, subject_kind, and subject_id are required'')
         else
           (case (case cr_definition_id req of Some d \<Rightarrow> DefByIDTx db d | None \<Rightarrow> ActiveByKindTx db kind)
            of Inl e \<Rightarrow> Inl (if e = WfNotFound
                            then BadRequest (''no active workflow definition for process_kind='' @ kind)
                            else e)
            | Inr def \<Rightarrow>
              bind_res (snapshot_levels P (cr_context req) 0 (wd_levels def)) (\<lambda>snap0.
              let (snap, start, st) = start_levels now snap0;
                  breachAt = (if st = StatusInProgress then ls_sla_due_at (snap ! start) else None);
                  (db1, inst) = CreateInstanceTx db new_id now
                    \<lparr> ci_definition_id = wd_id def, ci_process_kind = kind,
                      ci_subject_kind = subject, ci_subject_id = cr_subject_id req,
                      ci_context = cr_context req, ci_callback_url = cr_callback_url req,
                      ci_callback_secret = cr_callback_secret req, ci_initiator_id = initiator,
                      ci_levels_snapshot = snap, ci_starting_level = start,
                      ci_starting_status = st, ci_summary = TrimSpace (cr_summary req),
                      ci_source_url = TrimSpace (cr_source_url req), ci_sla_breach_at = breachAt \<rparr>;
                  db2 = WriteActionTx db1 \<lparr> a_instance_id = new_id, a_level_order = None,
                    a_action = ActCreate, a_actor_id = initiator, a_actor_role = [],
                    a_comments = ''instance created'',
                    a_metadata = MetaDefinition (wd_id def) (wd_version def) \<rparr>
              in if st = StatusApproved
                 then let inst' = inst\<lparr>i_completed_at := Some now\<rparr>
                      in Inr (MarkCallbackPendingTx (UpdateProgressTx db2 inst') new_id, inst')
                 else Inr (db2, inst))))"

section \<open>Actions\<close>

record action_request =
  ar_action :: string
  ar_comments :: string
  ar_reassign_to :: "uuid option"
  ar_acting_as_role :: string

definition ToLower :: "string \<Rightarrow> string" where
  "ToLower s = map (\<lambda>c. let n = of_char c :: nat in
     if 65 \<le> n \<and> n \<le> 90 then char_of (n + 32) else c) s"

definition parse_action :: "string \<Rightarrow> action_kind option" where
  "parse_action s = map_of
     [(''approve'', ActApprove), (''reject'', ActReject), (''return'', ActReturn),
      (''request_info'', ActRequestInfo), (''resume'', ActResume), (''escalate'', ActEscalate),
      (''reassign'', ActReassign), (''cancel'', ActCancel)] (ToLower (TrimSpace s))"

definition set_level :: "wf_instance \<Rightarrow> level_state \<Rightarrow> wf_instance" where
  "set_level i l = i\<lparr>i_levels := (i_levels i)[i_current_level i := l]\<rparr>"

definition do_approve :: "instant \<Rightarrow> uuid \<Rightarrow> wf_instance \<Rightarrow> wf_instance \<times> bool" where
  "do_approve now actor i =
     (let level0 = i_levels i ! i_current_level i;
          level = level0\<lparr>ls_approved_by := ls_approved_by level0 @ [actor]\<rparr>
      in if ls_quorum level = QuorumAll \<and>
            length (distinctApprovals level) < uniqueApproversAt level
         then ((set_level i level)\<lparr>i_status := StatusInProgress\<rparr>, False)
         else
           (let i1 = set_level i (level\<lparr>ls_status := LvlApproved, ls_completed_at := Some now\<rparr>)
            in case nextActiveLevel (i_levels i1) (i_current_level i + 1) of
                 None \<Rightarrow> (i1\<lparr>i_status := StatusApproved, i_completed_at := Some now\<rparr>, True)
               | Some next \<Rightarrow>
                   (i1\<lparr>i_current_level := next, i_status := StatusInProgress,
                       i_levels := (i_levels i1)[next := enter_level now (i_levels i1 ! next)]\<rparr>, False)))"

text \<open>The switch over the action; the flag says whether the callback fires.\<close>

definition apply_action ::
  "instant \<Rightarrow> uuid \<Rightarrow> action_request \<Rightarrow> action_kind \<Rightarrow> wf_instance \<Rightarrow> wf_error + (wf_instance \<times> bool)" where
  "apply_action now actor req action i =
     (let level = i_levels i ! i_current_level i in
      case action of
        ActApprove \<Rightarrow> Inr (do_approve now actor i)
      | ActReject \<Rightarrow>
          (if TrimSpace (ar_comments req) = []
           then Inl (BadRequest ''comments are required when rejecting'')
           else Inr ((set_level i (level\<lparr>ls_status := LvlRejected, ls_completed_at := Some now\<rparr>))
                  \<lparr>i_status := StatusRejected, i_completed_at := Some now\<rparr>, True))
      | ActReturn \<Rightarrow>
          (if TrimSpace (ar_comments req) = []
           then Inl (BadRequest ''comments are required when returning'')
           else Inr ((set_level i (level\<lparr>ls_status := LvlReturned\<rparr>))\<lparr>i_status := StatusReturned\<rparr>, False))
      | ActRequestInfo \<Rightarrow>
          Inr ((set_level i (level\<lparr>ls_status := LvlAwaitingInfo\<rparr>))\<lparr>i_status := StatusAwaitingInfo\<rparr>, False)
      | ActResume \<Rightarrow>
          (if \<not> isInitiator i actor then Inl (Forbidden ''only the initiator can resume'')
           else Inr ((set_level i (level\<lparr>ls_status := LvlInProgress,
                    ls_sla_due_at := (case ls_sla_hours level of Some h \<Rightarrow> Some (now + hours h)
                                      | None \<Rightarrow> ls_sla_due_at level)\<rparr>))
                  \<lparr>i_status := StatusInProgress\<rparr>, False))
      | ActEscalate \<Rightarrow>
          Inr ((set_level i (level\<lparr>ls_status := LvlEscalated\<rparr>))\<lparr>i_status := StatusEscalated\<rparr>, False)
      | ActReassign \<Rightarrow>
          (case ar_reassign_to req of
             None \<Rightarrow> Inl (BadRequest ''reassign_to is required'')
           | Some u \<Rightarrow> Inr (set_level i (level\<lparr>ls_approver_user_ids := [u]\<rparr>), False))
      | ActCancel \<Rightarrow>
          Inr ((set_level i (level\<lparr>ls_status := LvlReturned\<rparr>))
             \<lparr>i_status := StatusCancelled, i_completed_at := Some now\<rparr>, True)
      | _ \<Rightarrow> Inr (i, False))"

definition sla_breached :: "instant \<Rightarrow> level_state \<Rightarrow> bool" where
  "sla_breached now level \<longleftrightarrow>
     (case ls_sla_due_at level of None \<Rightarrow> False | Some due \<Rightarrow> due < now) \<and>
     ls_status level \<noteq> LvlEscalated"

text \<open>Who may act: the initiator or an admin for a cancellation, an approver otherwise.\<close>

definition authorise ::
  "wf_instance \<Rightarrow> uuid \<Rightarrow> access_claims \<Rightarrow> action_kind \<Rightarrow> string \<Rightarrow> wf_error + string" where
  "authorise i actor claims action preferred =
     (if action = ActCancel
      then if isInitiatorOrAdmin i actor (Some claims) then Inr preferred
           else Inl (Forbidden ''only the initiator or a platform admin can cancel'')
      else bind_res (authorisedRoleAt i (i_current_level i) actor (Some claims) preferred) (\<lambda>role.
        case role of None \<Rightarrow> Inl (Forbidden ''not authorised to act at the current level'')
        | Some r \<Rightarrow> Inr r))"

definition Action ::
  "wf_db \<Rightarrow> instant \<Rightarrow> uuid \<Rightarrow> access_claims option \<Rightarrow> uuid \<Rightarrow> action_request
    \<Rightarrow> wf_error + (wf_db \<times> wf_instance)" where
  "Action db now actor claims rid req =
     (case parse_action (ar_action req) of
        None \<Rightarrow> Inl (BadRequest ''unsupported action'')
      | Some action \<Rightarrow>
      (case claims of
        None \<Rightarrow> Inl Unauthorized
      | Some c \<Rightarrow>
        bind_res (ByIDTx db rid) (\<lambda>inst.
        bind_res (ensure (canActOnInstance inst) (BadRequest ''instance cannot accept actions'')) (\<lambda>_.
        bind_res (authorise inst actor c action (ar_acting_as_role req)) (\<lambda>role.
        bind_res (ensure (i_current_level inst < length (i_levels inst)) PanicIndex) (\<lambda>_.
        let level = i_levels inst ! i_current_level inst;
            db1 = (if sla_breached now level
                   then WriteActionTx db \<lparr> a_instance_id = i_id inst,
                          a_level_order = Some (i_current_level inst), a_action = ActSLABreached,
                          a_actor_id = None, a_actor_role = [],
                          a_comments = ''SLA breached before action'',
                          a_metadata = MetaSLA (ls_sla_due_at level) now \<rparr>
                   else db)
        in bind_res (apply_action now actor req action inst) (\<lambda>(inst', fireCallback).
           let db2 = UpdateProgressTx db1 inst';
               db3 = WriteActionTx db2 \<lparr> a_instance_id = i_id inst',
                       a_level_order = Some (i_current_level inst'), a_action = action,
                       a_actor_id = nonZero actor, a_actor_role = role,
                       a_comments = ar_comments req, a_metadata = MetaReassign (ar_reassign_to req) \<rparr>;
               db4 = (if fireCallback then MarkCallbackPendingTx db3 (i_id inst') else db3)
           in Inr (db4, inst'))))))))"

section \<open>Claim, release, comment\<close>

definition claimTTL :: int where
  "claimTTL = 30 * 60 * 1000000000"

definition Claim :: "wf_db \<Rightarrow> instant \<Rightarrow> uuid \<Rightarrow> uuid \<Rightarrow> wf_error + (wf_db \<times> wf_instance)" where
  "Claim db now user rid =
     (if user = uuid_Nil then Inl Unauthorized
      else case ClaimTx db now rid user claimTTL of
          Inl ErrClaimContested \<Rightarrow> Inl (Conflict ''workflow instance is already claimed by another user'')
        | Inl e \<Rightarrow> Inl e
        | Inr (db', i) \<Rightarrow>
            Inr (WriteActionTx db' \<lparr> a_instance_id = rid, a_level_order = None, a_action = ActClaim,
                   a_actor_id = Some user, a_actor_role = [], a_comments = ''claimed'',
                   a_metadata = MetaExpires (i_claim_expires i) \<rparr>, i))"

definition Release ::
  "wf_db \<Rightarrow> uuid \<Rightarrow> access_claims option \<Rightarrow> uuid \<Rightarrow> wf_error + (wf_db \<times> wf_instance)" where
  "Release db user claims rid =
     bind_res (ByIDTx db rid) (\<lambda>i.
     case i_claimed_by i of
       None \<Rightarrow> Inr (db, i)
     | Some holder \<Rightarrow>
         (if holder \<noteq> user \<and> \<not> (case claims of None \<Rightarrow> False | Some c \<Rightarrow> c_is_platform_admin c)
          then Inl (Forbidden ''only the current claimant or a platform admin may release a claim'')
          else let db' = ReleaseTx db rid in
            bind_res (ByIDTx db' rid) (\<lambda>updated.
              Inr (WriteActionTx db' \<lparr> a_instance_id = rid, a_level_order = None, a_action = ActRelease,
                     a_actor_id = Some user, a_actor_role = [], a_comments = ''released'',
                     a_metadata = MetaNone \<rparr>, updated))))"

definition Comment ::
  "wf_db \<Rightarrow> uuid \<Rightarrow> access_claims option \<Rightarrow> uuid \<Rightarrow> string \<Rightarrow> wf_error + (wf_db \<times> wf_action)" where
  "Comment db user claims rid body =
     (if TrimSpace body = [] then Inl (BadRequest ''comment body is required'')
      else bind_res (ByIDTx db rid) (\<lambda>_.
        let role = (case claims of Some c \<Rightarrow> (case c_roles c of r # _ \<Rightarrow> r | [] \<Rightarrow> []) | None \<Rightarrow> []);
            a = \<lparr> a_instance_id = rid, a_level_order = None, a_action = ActComment,
                  a_actor_id = Some user, a_actor_role = role, a_comments = TrimSpace body,
                  a_metadata = MetaNone \<rparr>
        in Inr (WriteActionTx db a, a)))"

section \<open>Definition handlers\<close>

text \<open>
  internal/handler/definitions.go. The quorum of a requested level may be left out, which the
  store reads as \<open>any_one\<close>; a request that leaves out \<open>active\<close> makes the version active.
\<close>

record create_def_req =
  dr_process_kind :: string
  dr_name :: string
  dr_description :: string
  dr_active :: "bool option"
  dr_levels :: "(level_def \<times> quorum option) list"

fun validate_levels :: "nat \<Rightarrow> (level_def \<times> quorum option) list \<Rightarrow> wf_error + unit" where
  "validate_levels i [] = Inr ()"
| "validate_levels i ((l, q) # ls) =
     (if TrimSpace (ld_name l) = []
      then Inl (BadRequest (''level '' @ show_nat (i + 1) @ '': name is required''))
      else if ld_approver_roles l = [] \<and> ld_approver_user_ids l = []
      then Inl (BadRequest (''level '' @ show_nat (i + 1)
             @ '': needs at least one approver_role or approver_user_id''))
      else if q = Some QuorumMajority
      then Inl (BadRequest (''level '' @ show_nat (i + 1) @ '': quorum must be any_one or all''))
      else validate_levels (i + 1) ls)"

definition CreateDefinition ::
  "wf_db \<Rightarrow> uuid \<Rightarrow> uuid \<Rightarrow> create_def_req \<Rightarrow> wf_error + (wf_db \<times> wf_definition)" where
  "CreateDefinition db new_id actor req =
     (let kind = ToLower (TrimSpace (dr_process_kind req)); name = TrimSpace (dr_name req)
      in if kind = [] \<or> name = [] then Inl (BadRequest ''process_kind and name are required'')
         else if dr_levels req = [] then Inl (BadRequest ''at least one level is required'')
         else bind_res (validate_levels 0 (dr_levels req)) (\<lambda>_.
           Inr (CreateDefinitionTx db new_id kind name (dr_description req)
             (map (\<lambda>(l, q). l\<lparr>ld_quorum := the_default QuorumAnyOne q\<rparr>) (dr_levels req))
             (nonZero actor) (the_default True (dr_active req)))))"

definition SetActivation :: "wf_db \<Rightarrow> uuid \<Rightarrow> bool \<Rightarrow> wf_error + wf_db" where
  "SetActivation db rid active = SetActiveTx db rid active"

section \<open>The instance invariant\<close>

text \<open>
  A level applies to a context when it has no condition or its condition evaluates to true.
  A level is skipped exactly when it does not apply, and an approved level has met its quorum.
\<close>

definition applies :: "go_float \<Rightarrow> (string \<times> json) list \<Rightarrow> json \<Rightarrow> bool" where
  "applies P ctx cond \<longleftrightarrow> cond = JNil \<or> Eval P cond ctx = Inr True"

definition quorum_met :: "level_state \<Rightarrow> bool" where
  "quorum_met l \<longleftrightarrow> ls_approved_by l \<noteq> [] \<and>
     (ls_quorum l = QuorumAll \<longrightarrow> uniqueApproversAt l \<le> length (distinctApprovals l))"

definition level_ok :: "go_float \<Rightarrow> (string \<times> json) list \<Rightarrow> level_state \<Rightarrow> bool" where
  "level_ok P ctx l \<longleftrightarrow>
     (ls_status l = LvlSkipped \<longleftrightarrow> \<not> applies P ctx (ls_condition l)) \<and>
     (ls_status l = LvlApproved \<longrightarrow> quorum_met l)"

definition settled :: "level_status \<Rightarrow> bool" where
  "settled s \<longleftrightarrow> s = LvlApproved \<or> s = LvlSkipped"

definition is_open :: "level_status \<Rightarrow> bool" where
  "is_open s \<longleftrightarrow> s \<in> {LvlInProgress, LvlReturned, LvlAwaitingInfo, LvlEscalated}"

text \<open>The levels before the current one are settled, it is open, the later ones wait.\<close>

definition open_at :: "nat \<Rightarrow> level_status list \<Rightarrow> bool" where
  "open_at k sts \<longleftrightarrow> k < length sts \<and> (\<forall>j<k. settled (sts ! j)) \<and> is_open (sts ! k) \<and>
     (\<forall>j. k < j \<longrightarrow> j < length sts \<longrightarrow> sts ! j = LvlWaiting \<or> sts ! j = LvlSkipped)"

definition progress_ok :: "status \<Rightarrow> nat \<Rightarrow> level_status list \<Rightarrow> bool" where
  "progress_ok st k sts \<longleftrightarrow>
     (case st of
        StatusApproved \<Rightarrow> (\<forall>s\<in>set sts. settled s)
      | StatusRejected \<Rightarrow> k < length sts \<and> sts ! k = LvlRejected
      | StatusCancelled \<Rightarrow> k < length sts \<and> sts ! k = LvlReturned
      | StatusPending \<Rightarrow> False
      | StatusExpired \<Rightarrow> False
      | _ \<Rightarrow> open_at k sts)"

definition instance_ok :: "go_float \<Rightarrow> wf_instance \<Rightarrow> bool" where
  "instance_ok P i \<longleftrightarrow>
     (\<forall>l\<in>set (i_levels i). level_ok P (i_context i) l) \<and>
     progress_ok (i_status i) (i_current_level i) (map ls_status (i_levels i)) \<and>
     (isTerminal (i_status i) \<longleftrightarrow> i_completed_at i \<noteq> None)"

text \<open>
  A callback is due from the moment an instance with a callback URL is decided, and never
  before; the holder of a claim and its expiry come and go together.
\<close>

definition callback_ok :: "wf_instance \<Rightarrow> bool" where
  "callback_ok i \<longleftrightarrow>
     (i_callback_status i \<noteq> CbNone \<longleftrightarrow> isTerminal (i_status i) \<and> i_callback_url i \<noteq> [])"

definition claim_ok :: "wf_instance \<Rightarrow> bool" where
  "claim_ok i \<longleftrightarrow> (i_claimed_by i = None \<longleftrightarrow> i_claim_expires i = None)"

definition row_ok :: "go_float \<Rightarrow> wf_instance \<Rightarrow> bool" where
  "row_ok P i \<longleftrightarrow> instance_ok P i \<and> callback_ok i \<and> claim_ok i"

definition wf_inv :: "go_float \<Rightarrow> wf_db \<Rightarrow> bool" where
  "wf_inv P db \<longleftrightarrow> definitions_ok db \<and>
     (\<forall>rid r. db_instances db rid = Some r \<longrightarrow> i_id r = rid \<and> row_ok P r)"

subsection \<open>Moving along the levels\<close>

lemma index_from_map: "index_from Q i (map f xs) = index_from (Q \<circ> f) i xs"
  by (induction xs arbitrary: i) auto

lemma nextActiveLevel_status:
  "nextActiveLevel levels k = index_from (\<lambda>s. s \<noteq> LvlSkipped) k (drop k (map ls_status levels))"
  by (simp add: nextActiveLevel_def drop_map index_from_map comp_def)

lemma nextActiveLevel_Some:
  assumes "nextActiveLevel levels k = Some n"
  shows "k \<le> n" "n < length levels" "ls_status (levels ! n) \<noteq> LvlSkipped"
    "\<And>j. k \<le> j \<Longrightarrow> j < n \<Longrightarrow> ls_status (levels ! j) = LvlSkipped"
proof -
  have h: "k \<le> n \<and> n - k < length (drop k levels) \<and>
      ls_status (drop k levels ! (n - k)) \<noteq> LvlSkipped \<and>
      (\<forall>j < n - k. \<not> ls_status (drop k levels ! j) \<noteq> LvlSkipped)"
    using assms unfolding nextActiveLevel_def nextActiveFrom.simps by (rule index_from_SomeD)
  then show "k \<le> n" "n < length levels" by auto
  then show "ls_status (levels ! n) \<noteq> LvlSkipped" using h by auto
  fix j assume j: "k \<le> j" "j < n"
  obtain d where d: "j = k + d" using j(1) le_Suc_ex by blast
  then have "ls_status (drop k levels ! d) = LvlSkipped" using h j by auto
  with d \<open>n < length levels\<close> j show "ls_status (levels ! j) = LvlSkipped" by simp
qed

lemma nextActiveLevel_None:
  assumes none: "nextActiveLevel levels k = None" and j: "k \<le> j" "j < length levels"
  shows "ls_status (levels ! j) = LvlSkipped"
proof -
  obtain d where d: "j = k + d" using j(1) le_Suc_ex by blast
  then have "levels ! j = drop k levels ! d" "d < length (drop k levels)" using j by auto
  then have "levels ! j \<in> set (drop k levels)" using nth_mem by metis
  with none show ?thesis by (simp add: nextActiveLevel_def)
qed

lemma open_at_update: "open_at k sts \<Longrightarrow> is_open s \<Longrightarrow> open_at k (sts[k := s])"
  by (auto simp: open_at_def nth_list_update)

lemma open_at_advance:
  assumes o: "open_at k sts" and n: "k < n" "n < length sts"
    and skip: "\<And>j. k < j \<Longrightarrow> j < n \<Longrightarrow> sts ! j = LvlSkipped"
  shows "open_at n (sts[k := LvlApproved, n := LvlInProgress])"
proof -
  have "settled (sts[k := LvlApproved, n := LvlInProgress] ! j)" if "j < n" for j
  proof -
    consider "j < k" | "j = k" | "k < j" by linarith
    then show ?thesis
      using that o n skip by cases (auto simp: open_at_def settled_def nth_list_update)
  qed
  moreover have "sts[k := LvlApproved, n := LvlInProgress] ! j = sts ! j" if "n < j" for j
    using that n by (auto simp: nth_list_update)
  ultimately show ?thesis
    using o n by (auto simp: open_at_def is_open_def nth_list_update)
qed

lemma open_at_finish:
  assumes o: "open_at k sts" and skip: "\<And>j. k < j \<Longrightarrow> j < length sts \<Longrightarrow> sts ! j = LvlSkipped"
  shows "\<forall>s\<in>set (sts[k := LvlApproved]). settled s"
proof
  fix s assume "s \<in> set (sts[k := LvlApproved])"
  then obtain j where j: "j < length sts" "s = sts[k := LvlApproved] ! j"
    by (auto simp: in_set_conv_nth)
  consider "j < k" | "j = k" | "k < j" by linarith
  then show "settled s"
    using j o skip by cases (auto simp: open_at_def settled_def nth_list_update)
qed

end
