(* ===== verification/RetryWorker.thy ===== *)
theory RetryWorker
  imports Prelude
begin

text \<open>
  The contract of the two background workers that retry a delivery: the workflow service's
  callback dispatcher and the savings service's posting dispatcher. A row that is due has
  attempts left; one attempt either settles it or counts up; a settled row stays settled. Then
  as many attempts as are left settle the row.
\<close>

locale retry_worker =
  fixes due :: "'s \<Rightarrow> bool" and settled :: "'s \<Rightarrow> bool" and attempts :: "'s \<Rightarrow> nat"
    and attempt :: "'s \<Rightarrow> 's" and limit :: nat
  assumes attempts_left: "due s \<Longrightarrow> attempts s < limit"
    and attempt_due: "due s \<Longrightarrow>
      settled (attempt s) \<or> due (attempt s) \<and> attempts (attempt s) = Suc (attempts s)"
    and attempt_settled: "settled s \<Longrightarrow> settled (attempt s)"
begin

lemma run:
  "due s \<Longrightarrow> settled ((attempt ^^ n) s) \<or>
    due ((attempt ^^ n) s) \<and> attempts ((attempt ^^ n) s) = attempts s + n"
proof (induction n)
  case (Suc n)
  then show ?case using attempt_due [of "(attempt ^^ n) s"] attempt_settled [of "(attempt ^^ n) s"] by auto
qed simp

lemma settles: "due s \<Longrightarrow> limit \<le> attempts s + n \<Longrightarrow> settled ((attempt ^^ n) s)"
  using run [of s n] attempts_left [of "(attempt ^^ n) s"] by auto

end

end
