(* ===== verification/CallbackDispatcher.thy ===== *)
theory CallbackDispatcher
  imports WorkflowEngine RetryWorker "HOL-Library.Word" "HOL-Library.Option_ord" "HOL-Library.Product_Lexorder"
begin

text \<open>
  The callback dispatcher (services/workflow/cmd/callback-dispatcher/main.go): a worker that
  scans for decided instances with a pending callback, claims each row in a transaction of its
  own, posts the instance to its callback URL outside any transaction, and records the outcome
  in a second transaction: delivered, another attempt after a back-off, or a final failure.

  The host that receives the post is a parameter, a function from the request to the HTTP
  result.
\<close>

definition maxAttempts :: nat where
  "maxAttempts = 12"

definition batchSize :: nat where
  "batchSize = 50"

definition backoffBaseUnit :: int where
  "backoffBaseUnit = seconds 5"

definition backoffMaxUnit :: int where
  "backoffMaxUnit = hours 1"

record candidate =
  cd_id :: uuid
  cd_callback_url :: string
  cd_attempts :: nat
  cd_status :: status

section \<open>Operations\<close>

text \<open>The WHERE clause of the scan; the URL column is NULL for an empty URL.\<close>

definition ready :: "instant \<Rightarrow> wf_instance \<Rightarrow> bool" where
  "ready now i \<longleftrightarrow> i_callback_url i \<noteq> [] \<and> i_callback_status i = CbPending \<and>
     i_callback_attempts i < maxAttempts \<and>
     (case i_callback_next_attempt_at i of None \<Rightarrow> True | Some t \<Rightarrow> t \<le> now)"

definition candidate_of :: "wf_instance \<Rightarrow> candidate" where
  "candidate_of i = \<lparr> cd_id = i_id i, cd_callback_url = i_callback_url i,
     cd_attempts = i_callback_attempts i, cd_status = i_status i \<rparr>"

text \<open>The table's rows are given by the ids the scan visits, in any order.\<close>

definition pickPending :: "wf_db \<Rightarrow> uuid list \<Rightarrow> instant \<Rightarrow> candidate list" where
  "pickPending db ids now =
     take batchSize (map candidate_of
       (sort_key (\<lambda>i. (i_callback_next_attempt_at i, i_id i))
         (filter (ready now) (List.map_filter (db_instances db) ids))))"

definition claimRow :: "wf_db \<Rightarrow> candidate \<Rightarrow> wf_db \<times> wf_instance option" where
  "claimRow db c =
     (case db_instances db (cd_id c) of
        None \<Rightarrow> (db, None)
      | Some r \<Rightarrow>
          if i_callback_status r = CbPending
          then (let db' = update_row (cd_id c) (\<lambda>r. r\<lparr>i_callback_status := CbInFlight\<rparr>) db
                in (db', db_instances db' (cd_id c)))
          else (db, None))"

datatype http_result = Transport string | Response nat string

definition ellipsis :: string where
  "ellipsis = utf8 [226, 128, 166]"

definition postOnce :: "(candidate \<Rightarrow> wf_instance \<Rightarrow> http_result) \<Rightarrow> candidate \<Rightarrow> wf_instance \<Rightarrow> string option" where
  "postOnce send c inst =
     (case send c inst of
        Transport e \<Rightarrow> Some (''transport: '' @ e)
      | Response code body \<Rightarrow>
          (if 200 \<le> code \<and> code < 300 then None
           else let respBody = take 8192 body;
                    snippet = (if length respBody > 200 then take 200 respBody @ ellipsis else respBody)
                in Some (''status:'' @ show_nat code @ '' body:'' @ snippet)))"

definition writeCallbackAudit :: "wf_db \<Rightarrow> uuid \<Rightarrow> string \<Rightarrow> wf_db" where
  "writeCallbackAudit db rid txt = WriteActionTx db
     \<lparr> a_instance_id = rid, a_level_order = None, a_action = ActCallbackFired, a_actor_id = None,
       a_actor_role = [], a_comments = txt, a_metadata = MetaNone \<rparr>"

definition recordDelivered :: "wf_db \<Rightarrow> instant \<Rightarrow> candidate \<Rightarrow> wf_db" where
  "recordDelivered db now c = writeCallbackAudit
     (update_row (cd_id c) (\<lambda>r. r\<lparr>i_callback_status := CbDelivered,
        i_callback_delivered_at := Some now,
        i_callback_attempts := i_callback_attempts r + 1,
        i_callback_last_error := None, i_callback_next_attempt_at := None\<rparr>) db)
     (cd_id c) ''delivered''"

definition recordRetry :: "wf_db \<Rightarrow> instant \<Rightarrow> candidate \<Rightarrow> nat \<Rightarrow> string \<Rightarrow> int \<Rightarrow> wf_db" where
  "recordRetry db now c nextAttempts errMsg backoff =
     update_row (cd_id c) (\<lambda>r. r\<lparr>i_callback_status := CbPending,
        i_callback_attempts := nextAttempts, i_callback_last_error := Some errMsg,
        i_callback_next_attempt_at := Some (now + backoff)\<rparr>) db"

definition truncForStatus :: "string \<Rightarrow> string" where
  "truncForStatus s = (if length s \<le> 80 then s else take 77 s @ ellipsis)"

definition recordHardFailure :: "wf_db \<Rightarrow> candidate \<Rightarrow> string \<Rightarrow> wf_db" where
  "recordHardFailure db c errMsg = writeCallbackAudit
     (update_row (cd_id c) (\<lambda>r. r\<lparr>i_callback_status := CbFailed (truncForStatus errMsg),
        i_callback_attempts := i_callback_attempts r + 1,
        i_callback_last_error := Some errMsg, i_callback_next_attempt_at := None\<rparr>) db)
     (cd_id c) (''failed:'' @ truncForStatus errMsg)"

text \<open>
  \<open>time.Duration(math.Pow(2, attempts)) * 5s\<close> on 64-bit integers; the conversion from the
  float is exact below 63 attempts.
\<close>

definition computeBackoff :: "nat \<Rightarrow> int" where
  "computeBackoff attempts =
     (let d = sint ((word_of_int (2 ^ attempts) :: 64 word) * word_of_int backoffBaseUnit)
      in if d > backoffMaxUnit then backoffMaxUnit else d)"

definition record_outcome :: "wf_db \<Rightarrow> instant \<Rightarrow> candidate \<Rightarrow> string option \<Rightarrow> wf_db" where
  "record_outcome db now c deliveryErr =
     (case deliveryErr of
        None \<Rightarrow> recordDelivered db now c
      | Some e \<Rightarrow>
          (let nextAttempts = cd_attempts c + 1
           in if nextAttempts \<ge> maxAttempts then recordHardFailure db c e
              else recordRetry db now c nextAttempts e (computeBackoff nextAttempts)))"

definition processRow ::
  "(candidate \<Rightarrow> wf_instance \<Rightarrow> http_result) \<Rightarrow> instant \<Rightarrow> wf_db \<Rightarrow> candidate \<Rightarrow> wf_db" where
  "processRow send now db c =
     (case claimRow db c of
        (db', None) \<Rightarrow> db'
      | (db', Some inst) \<Rightarrow> record_outcome db' now c (postOnce send c inst))"

definition drain ::
  "(candidate \<Rightarrow> wf_instance \<Rightarrow> http_result) \<Rightarrow> uuid list \<Rightarrow> instant \<Rightarrow> wf_db \<Rightarrow> wf_db" where
  "drain send ids now db = fold (\<lambda>c db. processRow send now db c) (pickPending db ids now) db"

section \<open>Back-off\<close>

lemma computeBackoff_exact:
  assumes "n < maxAttempts"
  shows "computeBackoff n = min (2 ^ n * seconds 5) (hours 1)"
proof -
  have "n \<in> {0..<12}" using assms by (simp add: maxAttempts_def)
  then have "n \<in> set [0..<12]" by simp
  then show ?thesis
    by (auto simp: computeBackoff_def backoffBaseUnit_def backoffMaxUnit_def upt_rec Let_def)
qed

section \<open>One round\<close>

definition decided_outcome :: "callback_status \<Rightarrow> bool" where
  "decided_outcome s \<longleftrightarrow> s = CbDelivered \<or> (\<exists>m. s = CbFailed m)"

lemma ready_pending: "ready now i \<Longrightarrow> i_callback_status i = CbPending \<and> i_callback_attempts i < maxAttempts"
  by (simp add: ready_def)

lemma map_filter_mem: "x \<in> set (List.map_filter m ks) \<longleftrightarrow> (\<exists>k\<in>set ks. m k = Some x)"
  by (force simp: List.map_filter_def)

lemma pickPending_mem:
  "c \<in> set (pickPending db ids now) \<Longrightarrow>
    \<exists>k i. db_instances db k = Some i \<and> ready now i \<and> c = candidate_of i"
  by (fastforce simp: pickPending_def map_filter_mem dest!: in_set_takeD)

lemma claimRow_Some:
  "claimRow db c = (db', Some i) \<Longrightarrow>
    \<exists>r. db_instances db (cd_id c) = Some r \<and> i_callback_status r = CbPending \<and>
      i = r\<lparr>i_callback_status := CbInFlight\<rparr> \<and>
      db' = update_row (cd_id c) (\<lambda>r. r\<lparr>i_callback_status := CbInFlight\<rparr>) db"
  by (auto simp: claimRow_def Let_def split: option.splits if_splits)

lemma claimRow_None: "claimRow db c = (db', None) \<Longrightarrow> db' = db"
  by (auto simp: claimRow_def Let_def split: option.splits if_splits)

lemma record_outcome_row:
  "db_instances db (cd_id c) = Some r \<Longrightarrow>
    \<exists>r'. db_instances (record_outcome db now c e) (cd_id c) = Some r' \<and>
      i_id r' = i_id r \<and> i_status r' = i_status r \<and> i_levels r' = i_levels r \<and>
      i_callback_url r' = i_callback_url r \<and>
      i_callback_status r' =
        (case e of None \<Rightarrow> CbDelivered
         | Some m \<Rightarrow> if cd_attempts c + 1 \<ge> maxAttempts then CbFailed (truncForStatus m) else CbPending) \<and>
      i_callback_attempts r' =
        (if e \<noteq> None \<and> cd_attempts c + 1 < maxAttempts then cd_attempts c + 1
         else i_callback_attempts r + 1)"
  by (cases e) (auto simp: record_outcome_def recordDelivered_def recordRetry_def
    recordHardFailure_def writeCallbackAudit_def Let_def)

lemma record_outcome_other:
  "k \<noteq> cd_id c \<Longrightarrow> db_instances (record_outcome db now c e) k = db_instances db k"
  by (cases e) (auto simp: record_outcome_def recordDelivered_def recordRetry_def
    recordHardFailure_def writeCallbackAudit_def Let_def)

lemma processRow_pending:
  assumes "db_instances db rid = Some r" "i_id r = rid" "i_callback_status r = CbPending"
    "i_callback_attempts r < maxAttempts"
  obtains r' e where "db_instances (processRow send now db (candidate_of r)) rid = Some r'"
    "i_id r' = rid" "i_callback_attempts r' = i_callback_attempts r + 1"
    "e = postOnce send (candidate_of r) (r\<lparr>i_callback_status := CbInFlight\<rparr>)"
    "i_callback_status r' = (case e of None \<Rightarrow> CbDelivered
       | Some m \<Rightarrow> if i_callback_attempts r + 1 \<ge> maxAttempts then CbFailed (truncForStatus m)
                   else CbPending)"
proof -
  let ?c = "candidate_of r" and ?i = "r\<lparr>i_callback_status := CbInFlight\<rparr>"
  let ?db = "update_row rid (\<lambda>r. r\<lparr>i_callback_status := CbInFlight\<rparr>) db"
  have c: "cd_id ?c = rid" "cd_attempts ?c = i_callback_attempts r"
    using assms(2) by (simp_all add: candidate_of_def)
  have cl: "claimRow db ?c = (?db, Some ?i)"
    using assms(1,3) by (simp add: claimRow_def c)
  obtain r' where "db_instances (record_outcome ?db now ?c (postOnce send ?c ?i)) rid = Some r'"
    "i_id r' = rid"
    "i_callback_status r' = (case postOnce send ?c ?i of None \<Rightarrow> CbDelivered
       | Some m \<Rightarrow> if i_callback_attempts r + 1 \<ge> maxAttempts then CbFailed (truncForStatus m)
                   else CbPending)"
    "i_callback_attempts r' = i_callback_attempts r + 1"
    using record_outcome_row [of ?db ?c ?i now "postOnce send ?c ?i", unfolded c] assms(1,2)
    by auto
  then show thesis by (intro that) (simp_all add: processRow_def cl)
qed

text \<open>A row that another worker holds, or that is settled, is left alone.\<close>

lemma processRow_idle:
  "db_instances db (cd_id c) = Some r \<Longrightarrow> i_callback_status r \<noteq> CbPending \<Longrightarrow>
    processRow send now db c = db"
  by (simp add: processRow_def claimRow_def)

section \<open>Rounds until an outcome\<close>

text \<open>One round of the worker over one row, from a fresh scan of it.\<close>

definition round_of ::
  "(candidate \<Rightarrow> wf_instance \<Rightarrow> http_result) \<Rightarrow> instant \<Rightarrow> uuid \<Rightarrow> wf_db \<Rightarrow> wf_db" where
  "round_of send now rid db =
     (case db_instances db rid of None \<Rightarrow> db | Some r \<Rightarrow> processRow send now db (candidate_of r))"

definition row_attempts :: "uuid \<Rightarrow> wf_db \<Rightarrow> nat" where
  "row_attempts rid db = (case db_instances db rid of None \<Rightarrow> 0 | Some r \<Rightarrow> i_callback_attempts r)"

definition row_due :: "uuid \<Rightarrow> wf_db \<Rightarrow> bool" where
  "row_due rid db \<longleftrightarrow> (\<exists>r. db_instances db rid = Some r \<and> i_id r = rid \<and>
     i_callback_status r = CbPending \<and> i_callback_attempts r < maxAttempts)"

definition row_settled :: "uuid \<Rightarrow> wf_db \<Rightarrow> bool" where
  "row_settled rid db \<longleftrightarrow> (\<exists>r. db_instances db rid = Some r \<and> i_id r = rid \<and>
     decided_outcome (i_callback_status r) \<and> i_callback_attempts r \<le> maxAttempts)"

interpretation callbacks: retry_worker "row_due rid" "row_settled rid" "row_attempts rid"
    "round_of send now rid" maxAttempts for send now rid
proof
  fix db
  assume "row_due rid db"
  then obtain r where r: "db_instances db rid = Some r" "i_id r = rid" "i_callback_status r = CbPending"
    "i_callback_attempts r < maxAttempts" by (auto simp: row_due_def)
  show "row_attempts rid db < maxAttempts" using r by (simp add: row_attempts_def)
  obtain r' e where "db_instances (processRow send now db (candidate_of r)) rid = Some r'"
    "i_id r' = rid" "i_callback_attempts r' = i_callback_attempts r + 1"
    "i_callback_status r' = (case e of None \<Rightarrow> CbDelivered
       | Some m \<Rightarrow> if i_callback_attempts r + 1 \<ge> maxAttempts then CbFailed (truncForStatus m)
                   else CbPending)"
    by (rule processRow_pending [OF r, of send now])
  with r show "row_settled rid (round_of send now rid db) \<or> row_due rid (round_of send now rid db) \<and>
      row_attempts rid (round_of send now rid db) = Suc (row_attempts rid db)"
    by (auto simp: round_of_def row_settled_def row_due_def row_attempts_def decided_outcome_def
        split: option.splits if_splits)
next
  fix db
  assume "row_settled rid db"
  then obtain r where r: "db_instances db rid = Some r" "i_id r = rid" "decided_outcome (i_callback_status r)"
    by (auto simp: row_settled_def)
  then have "i_callback_status r \<noteq> CbPending" by (auto simp: decided_outcome_def)
  with r have "round_of send now rid db = db"
    by (simp add: round_of_def candidate_of_def processRow_idle)
  with \<open>row_settled rid db\<close> show "row_settled rid (round_of send now rid db)" by simp
qed

end
