(* ===== verification/WorkflowSystem.thy ===== *)
theory WorkflowSystem
  imports CallbackDispatcher
begin

text \<open>
  The workflow service as a transition system: every handler keeps the instance invariant,
  a finished instance never changes its decision again, and an approval can only be reached
  through the quorum of every level that applies.
\<close>

section \<open>One action on one instance\<close>

lemma canAct_open_at:
  "canActOnInstance i \<Longrightarrow> instance_ok P i \<Longrightarrow>
    open_at (i_current_level i) (map ls_status (i_levels i)) \<and> i_completed_at i = None"
  by (auto simp: canActOnInstance_def instance_ok_def progress_ok_def isTerminal_def)

lemma instance_ok_intro:
  assumes "\<And>l. l \<in> set (i_levels i) \<Longrightarrow> level_ok P (i_context i) l"
    and "progress_ok (i_status i) (i_current_level i) (map ls_status (i_levels i))"
    and "isTerminal (i_status i) \<longleftrightarrow> i_completed_at i \<noteq> None"
  shows "instance_ok P i"
  using assms by (simp add: instance_ok_def)

lemma level_ok_change:
  assumes "level_ok P ctx l" "ls_status l \<noteq> LvlSkipped"
    and "ls_condition l' = ls_condition l" "ls_status l' \<noteq> LvlSkipped"
    and "ls_status l' = LvlApproved \<Longrightarrow> quorum_met l'"
  shows "level_ok P ctx l'"
  using assms by (auto simp: level_ok_def)

lemma open_at_not_skipped: "open_at k sts \<Longrightarrow> sts ! k \<noteq> LvlSkipped"
  by (auto simp: open_at_def is_open_def)

lemma set_level_levels_ok:
  assumes ok: "instance_ok P i" "canActOnInstance i"
    and l': "ls_condition l' = ls_condition (i_levels i ! i_current_level i)"
      "ls_status l' \<noteq> LvlSkipped" "ls_status l' = LvlApproved \<Longrightarrow> quorum_met l'"
    and l: "l \<in> set (i_levels (set_level i l'))"
  shows "level_ok P (i_context i) l"
proof -
  let ?k = "i_current_level i"
  from canAct_open_at [OF ok(2,1)] have o: "open_at ?k (map ls_status (i_levels i))" by simp
  then have k: "?k < length (i_levels i)" by (simp add: open_at_def)
  have all: "\<forall>l\<in>set (i_levels i). level_ok P (i_context i) l"
    using ok(1) by (simp add: instance_ok_def)
  have "ls_status (i_levels i ! ?k) \<noteq> LvlSkipped"
    using open_at_not_skipped [OF o] k by simp
  then have "level_ok P (i_context i) l'"
    by (rule level_ok_change [OF bspec [OF all nth_mem [OF k]]]) (use l' in blast)+
  moreover have "l = l' \<or> l \<in> set (i_levels i)"
    using l set_update_subset_insert by (fastforce simp: set_level_def)
  ultimately show ?thesis using all by blast
qed

text \<open>The status an instance has while its current level is open, or once it is decided there.\<close>

lemma progress_set_level:
  assumes ok: "instance_ok P i" "canActOnInstance i"
    and st: "st \<in> {StatusInProgress, StatusReturned, StatusAwaitingInfo, StatusEscalated} \<and> is_open s
       \<or> st = StatusRejected \<and> s = LvlRejected \<or> st = StatusCancelled \<and> s = LvlReturned"
    and l': "ls_status l' = s"
  shows "progress_ok st (i_current_level i) (map ls_status (i_levels (set_level i l')))"
proof -
  let ?k = "i_current_level i" and ?sts = "map ls_status (i_levels i)"
  from canAct_open_at [OF ok(2,1)] have o: "open_at ?k ?sts" by simp
  then have k: "?k < length (i_levels i)" by (simp add: open_at_def)
  have m: "map ls_status (i_levels (set_level i l')) = ?sts[?k := s]"
    using l' by (simp add: set_level_def map_update)
  from st show ?thesis
    using open_at_update [OF o, of s] k by (auto simp: m progress_ok_def)
qed

lemma set_level_simps [simp]:
  "i_current_level (set_level i l) = i_current_level i"
  "i_status (set_level i l) = i_status i"
  "i_context (set_level i l) = i_context i"
  "i_completed_at (set_level i l) = i_completed_at i"
  "i_id (set_level i l) = i_id i"
  "length (i_levels (set_level i l)) = length (i_levels i)"
  by (simp_all add: set_level_def)

lemma enter_level_simps [simp]:
  "ls_status (enter_level now l) = LvlInProgress"
  "ls_condition (enter_level now l) = ls_condition l"
  "ls_approver_user_ids (enter_level now l) = ls_approver_user_ids l"
  "ls_approved_by (enter_level now l) = ls_approved_by l"
  "ls_quorum (enter_level now l) = ls_quorum l"
  by (simp_all add: enter_level_def)

definition approve_level :: "instant \<Rightarrow> uuid \<Rightarrow> level_state \<Rightarrow> level_state" where
  "approve_level now actor l = l\<lparr>ls_approved_by := ls_approved_by l @ [actor],
     ls_status := LvlApproved, ls_completed_at := Some now\<rparr>"

lemma approve_level_simps [simp]:
  "ls_status (approve_level now actor l) = LvlApproved"
  "ls_condition (approve_level now actor l) = ls_condition l"
  by (simp_all add: approve_level_def)

text \<open>The three outcomes of an approval.\<close>

lemma do_approve_cases:
  assumes "do_approve now actor i = (i', fire)"
  obtains (more) "\<not> fire" "i' = (set_level i ((i_levels i ! i_current_level i)
        \<lparr>ls_approved_by := ls_approved_by (i_levels i ! i_current_level i) @ [actor]\<rparr>))
        \<lparr>i_status := StatusInProgress\<rparr>"
        "\<not> quorum_met (approve_level now actor (i_levels i ! i_current_level i))"
    | (last) "fire" "quorum_met (approve_level now actor (i_levels i ! i_current_level i))"
        "nextActiveLevel (i_levels (set_level i (approve_level now actor (i_levels i ! i_current_level i))))
          (i_current_level i + 1) = None"
        "i' = (set_level i (approve_level now actor (i_levels i ! i_current_level i)))
           \<lparr>i_status := StatusApproved, i_completed_at := Some now\<rparr>"
    | (advance) n i1 where "\<not> fire"
        "quorum_met (approve_level now actor (i_levels i ! i_current_level i))"
        "i1 = set_level i (approve_level now actor (i_levels i ! i_current_level i))"
        "nextActiveLevel (i_levels i1) (i_current_level i + 1) = Some n"
        "i' = i1\<lparr>i_current_level := n, i_status := StatusInProgress,
            i_levels := (i_levels i1)[n := enter_level now (i_levels i1 ! n)]\<rparr>"
proof -
  let ?old = "i_levels i ! i_current_level i"
  let ?l = "?old\<lparr>ls_approved_by := ls_approved_by ?old @ [actor]\<rparr>"
  have al: "?l\<lparr>ls_status := LvlApproved, ls_completed_at := Some now\<rparr> = approve_level now actor ?old"
    by (simp add: approve_level_def)
  have met: "quorum_met (approve_level now actor ?old)"
    if "\<not> (ls_quorum ?l = QuorumAll \<and> length (distinctApprovals ?l) < uniqueApproversAt ?l)"
    using that by (auto simp: quorum_met_def approve_level_def distinctApprovals_def uniqueApproversAt_def)
  show thesis
  proof (cases "ls_quorum ?l = QuorumAll \<and> length (distinctApprovals ?l) < uniqueApproversAt ?l")
    case True
    have "do_approve now actor i = ((set_level i ?l)\<lparr>i_status := StatusInProgress\<rparr>, False)"
      unfolding do_approve_def Let_def if_P [OF True] by (rule refl)
    moreover have "\<not> quorum_met (approve_level now actor ?old)"
      using True by (auto simp: quorum_met_def approve_level_def distinctApprovals_def uniqueApproversAt_def)
    ultimately show thesis using assms by (intro more) simp_all
  next
    case False
    then show thesis
      using assms met [OF False] that
      unfolding do_approve_def Let_def if_not_P [OF False] al by (auto split: option.splits)
  qed
qed

lemma do_approve_ok:
  assumes ok: "instance_ok P i" "canActOnInstance i" and run: "do_approve now actor i = (i', fire)"
  shows "instance_ok P i' \<and> (fire \<longleftrightarrow> isTerminal (i_status i'))"
  using run
proof (cases rule: do_approve_cases)
  case more
  let ?l = "(i_levels i ! i_current_level i)
    \<lparr>ls_approved_by := ls_approved_by (i_levels i ! i_current_level i) @ [actor]\<rparr>"
  from canAct_open_at [OF ok(2,1)]
  have o: "open_at (i_current_level i) (map ls_status (i_levels i))" and c: "i_completed_at i = None"
    by simp_all
  then have st: "is_open (ls_status (i_levels i ! i_current_level i))" by (auto simp: open_at_def)
  have "instance_ok P i'"
  proof (rule instance_ok_intro)
    fix l assume "l \<in> set (i_levels i')"
    then have "l \<in> set (i_levels (set_level i ?l))" by (simp add: more)
    then show "level_ok P (i_context i') l"
      using set_level_levels_ok [OF ok, of ?l] st by (auto simp: more is_open_def)
  next
    show "progress_ok (i_status i') (i_current_level i') (map ls_status (i_levels i'))"
      using progress_set_level [OF ok, of StatusInProgress _ ?l] st by (simp add: more)
  qed (simp add: more c isTerminal_def)
  then show ?thesis by (simp add: more isTerminal_def)
next
  case last
  let ?l = "approve_level now actor (i_levels i ! i_current_level i)"
  from canAct_open_at [OF ok(2,1)]
  have o: "open_at (i_current_level i) (map ls_status (i_levels i))" by simp
  have m: "map ls_status (i_levels (set_level i ?l)) =
      (map ls_status (i_levels i))[i_current_level i := LvlApproved]"
    by (simp add: set_level_def map_update)
  have "map ls_status (i_levels i) ! j = LvlSkipped" if "i_current_level i < j" "j < length (i_levels i)" for j
    using nextActiveLevel_None [OF last(3), of j] that by (simp add: set_level_def)
  with open_at_finish [OF o] have "\<forall>s\<in>set (map ls_status (i_levels i')). settled s"
    by (simp add: last(4) m)
  then have "instance_ok P i'"
    using set_level_levels_ok [OF ok, of ?l] last(2)
    by (intro instance_ok_intro) (auto simp: last(4) isTerminal_def progress_ok_def)
  then show ?thesis using last by (simp add: isTerminal_def)
next
  case (advance n i1)
  let ?l = "approve_level now actor (i_levels i ! i_current_level i)"
  from canAct_open_at [OF ok(2,1)]
  have o: "open_at (i_current_level i) (map ls_status (i_levels i))" and c: "i_completed_at i = None"
    by simp_all
  have n: "i_current_level i < n" "n < length (i_levels i1)" "ls_status (i_levels i1 ! n) \<noteq> LvlSkipped"
    "\<And>j. i_current_level i < j \<Longrightarrow> j < n \<Longrightarrow> ls_status (i_levels i1 ! j) = LvlSkipped"
    using nextActiveLevel_Some [OF advance(4)] by auto
  have skip: "map ls_status (i_levels i) ! j = LvlSkipped" if "i_current_level i < j" "j < n" for j
    using n(4) [OF that] that n(2) by (simp add: advance(3) set_level_def)
  have lv: "level_ok P (i_context i) l" if "l \<in> set (i_levels i1)" for l
    using set_level_levels_ok [OF ok, of ?l] advance(2) that by (simp add: advance(3))
  have nxt: "level_ok P (i_context i) (enter_level now (i_levels i1 ! n))"
    by (rule level_ok_change [OF lv [OF nth_mem [OF n(2)]] n(3)]) simp_all
  have "instance_ok P i'"
  proof (rule instance_ok_intro)
    fix l assume "l \<in> set (i_levels i')"
    then have "l = enter_level now (i_levels i1 ! n) \<or> l \<in> set (i_levels i1)"
      using set_update_subset_insert by (fastforce simp: advance(5))
    then show "level_ok P (i_context i') l"
      using lv nxt by (auto simp: advance(5) advance(3))
  next
    have "map ls_status (i_levels i') =
        (map ls_status (i_levels i))[i_current_level i := LvlApproved, n := LvlInProgress]"
      by (simp add: advance(5) advance(3) set_level_def map_update)
    then show "progress_ok (i_status i') (i_current_level i') (map ls_status (i_levels i'))"
      using open_at_advance [OF o n(1) _ skip] n(2)
      by (simp add: progress_ok_def advance(5) advance(3))
  qed (simp add: advance(5) advance(3) c isTerminal_def)
  then show ?thesis using advance by (simp add: isTerminal_def)
qed

lemma set_level_open_ok:
  assumes ok: "instance_ok P i" "canActOnInstance i"
    and st: "st \<in> {StatusInProgress, StatusReturned, StatusAwaitingInfo, StatusEscalated}"
    and l': "is_open (ls_status l')" "ls_condition l' = ls_condition (i_levels i ! i_current_level i)"
  shows "instance_ok P ((set_level i l')\<lparr>i_status := st\<rparr>)"
proof (rule instance_ok_intro)
  fix l assume "l \<in> set (i_levels ((set_level i l')\<lparr>i_status := st\<rparr>))"
  then show "level_ok P (i_context ((set_level i l')\<lparr>i_status := st\<rparr>)) l"
    using set_level_levels_ok [OF ok l'(2)] l'(1) by (auto simp: is_open_def)
next
  show "progress_ok (i_status ((set_level i l')\<lparr>i_status := st\<rparr>))
      (i_current_level ((set_level i l')\<lparr>i_status := st\<rparr>))
      (map ls_status (i_levels ((set_level i l')\<lparr>i_status := st\<rparr>)))"
    using progress_set_level [OF ok, of st "ls_status l'" l'] st l'(1) by auto
qed (use canAct_open_at [OF ok(2,1)] st in \<open>auto simp: isTerminal_def\<close>)

lemma set_level_closed_ok:
  assumes ok: "instance_ok P i" "canActOnInstance i"
    and st: "st = StatusRejected \<and> ls_status l' = LvlRejected
      \<or> st = StatusCancelled \<and> ls_status l' = LvlReturned"
    and l': "ls_condition l' = ls_condition (i_levels i ! i_current_level i)"
  shows "instance_ok P ((set_level i l')\<lparr>i_status := st, i_completed_at := Some now\<rparr>)"
proof (rule instance_ok_intro)
  fix l assume "l \<in> set (i_levels ((set_level i l')\<lparr>i_status := st, i_completed_at := Some now\<rparr>))"
  then show "level_ok P (i_context ((set_level i l')\<lparr>i_status := st, i_completed_at := Some now\<rparr>)) l"
    using set_level_levels_ok [OF ok l'] st by auto
next
  show "progress_ok (i_status ((set_level i l')\<lparr>i_status := st, i_completed_at := Some now\<rparr>))
      (i_current_level ((set_level i l')\<lparr>i_status := st, i_completed_at := Some now\<rparr>))
      (map ls_status (i_levels ((set_level i l')\<lparr>i_status := st, i_completed_at := Some now\<rparr>)))"
    using progress_set_level [OF ok, of st "ls_status l'" l'] st by auto
qed (use st in \<open>auto simp: isTerminal_def\<close>)

text \<open>A reassignment keeps the status of the level, hence the one of the instance.\<close>

lemma set_level_same_ok:
  assumes ok: "instance_ok P i" "canActOnInstance i"
    and l': "ls_status l' = ls_status (i_levels i ! i_current_level i)"
      "ls_condition l' = ls_condition (i_levels i ! i_current_level i)"
  shows "instance_ok P (set_level i l')"
proof (rule instance_ok_intro)
  from canAct_open_at [OF ok(2,1)] have o: "is_open (ls_status l')"
    by (auto simp: open_at_def l'(1))
  fix l assume "l \<in> set (i_levels (set_level i l'))"
  then show "level_ok P (i_context (set_level i l')) l"
    using set_level_levels_ok [OF ok l'(2)] o by (auto simp: is_open_def)
next
  have "map ls_status (i_levels (set_level i l')) = map ls_status (i_levels i)"
    using canAct_open_at [OF ok(2,1)] l'(1)
    by (auto simp: set_level_def list_eq_iff_nth_eq nth_list_update open_at_def)
  then show "progress_ok (i_status (set_level i l')) (i_current_level (set_level i l'))
      (map ls_status (i_levels (set_level i l')))"
    using ok(1) by (simp add: instance_ok_def)
qed (use ok(1) in \<open>simp add: instance_ok_def\<close>)

theorem apply_action_ok:
  assumes ok: "instance_ok P i" "canActOnInstance i"
    and run: "apply_action now actor req action i = Inr (i', fire)"
    and act: "action \<in> {ActApprove, ActReject, ActReturn, ActRequestInfo, ActResume, ActEscalate,
      ActReassign, ActCancel}"
  shows "instance_ok P i' \<and> (fire \<longleftrightarrow> isTerminal (i_status i'))"
proof -
  note opens = set_level_open_ok [OF ok] and closes = set_level_closed_ok [OF ok]
  have nt: "\<not> isTerminal (i_status i)"
    using ok(2) by (auto simp: canActOnInstance_def isTerminal_def)
  from act show ?thesis
  proof (elim insertE emptyE)
    assume "action = ActApprove"
    then show ?thesis
      using run do_approve_ok [OF ok, of now actor] by (auto simp: apply_action_def)
  next
    assume "action = ActReject"
    then show ?thesis
      using run by (auto simp: apply_action_def isTerminal_def split: if_splits intro!: closes)
  next
    assume "action = ActReturn"
    then show ?thesis
      using run by (auto simp: apply_action_def isTerminal_def is_open_def split: if_splits intro!: opens)
  next
    assume "action = ActRequestInfo"
    then show ?thesis
      using run by (auto simp: apply_action_def isTerminal_def is_open_def intro!: opens)
  next
    assume "action = ActResume"
    then show ?thesis
      using run by (auto simp: apply_action_def Let_def isTerminal_def is_open_def split: if_splits intro!: opens)
  next
    assume "action = ActEscalate"
    then show ?thesis
      using run by (auto simp: apply_action_def isTerminal_def is_open_def intro!: opens)
  next
    assume "action = ActReassign"
    then show ?thesis
      using run nt
      by (auto simp: apply_action_def Let_def split: option.splits intro!: set_level_same_ok [OF ok])
  next
    assume "action = ActCancel"
    then show ?thesis
      using run by (auto simp: apply_action_def isTerminal_def intro!: closes)
  qed
qed

text \<open>What no action touches: identity, context, callback columns, claim.\<close>

definition same_frame :: "wf_instance \<Rightarrow> wf_instance \<Rightarrow> bool" where
  "same_frame i j \<longleftrightarrow>
     i_id j = i_id i \<and> i_definition_id j = i_definition_id i \<and> i_context j = i_context i \<and>
     i_subject_id j = i_subject_id i \<and> i_initiator_id j = i_initiator_id i \<and>
     i_callback_url j = i_callback_url i \<and> i_callback_status j = i_callback_status i \<and>
     i_callback_attempts j = i_callback_attempts i \<and>
     i_claimed_by j = i_claimed_by i \<and> i_claim_expires j = i_claim_expires i"

lemma same_frame_refl: "same_frame i i"
  by (simp add: same_frame_def)

lemma set_level_frame: "same_frame i (set_level i l)"
  by (simp add: same_frame_def set_level_def)

lemma same_frame_update [simp]:
  "same_frame i (j\<lparr>i_status := s\<rparr>) = same_frame i j"
  "same_frame i (j\<lparr>i_completed_at := c\<rparr>) = same_frame i j"
  "same_frame i (j\<lparr>i_current_level := n\<rparr>) = same_frame i j"
  "same_frame i (j\<lparr>i_levels := ls\<rparr>) = same_frame i j"
  by (simp_all add: same_frame_def)

lemma do_approve_frame: "do_approve now actor i = (i', fire) \<Longrightarrow> same_frame i i'"
  by (erule do_approve_cases) (simp_all add: set_level_frame)

lemma apply_action_frame:
  assumes "apply_action now actor req action i = Inr (i', fire)"
  shows "same_frame i i'"
  using assms
  by (cases action)
    (auto simp: apply_action_def Let_def set_level_frame do_approve_frame same_frame_refl
       split: if_splits option.splits)

section \<open>Handlers on the tables\<close>

text \<open>The row an action leaves behind, from the row it found and the instance it computed.\<close>

definition acted_row :: "wf_instance \<Rightarrow> wf_instance \<Rightarrow> bool \<Rightarrow> wf_instance" where
  "acted_row r i' fire =
     (let terminal = isTerminal (i_status i');
          r1 = r\<lparr>i_status := i_status i', i_current_level := i_current_level i',
                 i_levels := i_levels i', i_completed_at := i_completed_at i',
                 i_sla_breach_at := activeLevelSLA i',
                 i_claimed_by := (if terminal then None else i_claimed_by r),
                 i_claimed_at := (if terminal then None else i_claimed_at r),
                 i_claim_expires := (if terminal then None else i_claim_expires r)\<rparr>
      in if fire \<and> i_callback_url r \<noteq> []
         then r1\<lparr>i_callback_status := CbPending, i_callback_attempts := 0,
                 i_callback_next_attempt_at := None, i_callback_last_error := None\<rparr>
         else r1)"

lemma UpdateProgressTx_simps [simp]:
  "db_definitions (UpdateProgressTx db i) = db_definitions db"
  "db_actions (UpdateProgressTx db i) = db_actions db"
  by (simp_all add: UpdateProgressTx_def Let_def)

lemma MarkCallbackPendingTx_simps [simp]:
  "db_definitions (MarkCallbackPendingTx db rid) = db_definitions db"
  "db_actions (MarkCallbackPendingTx db rid) = db_actions db"
  by (simp_all add: MarkCallbackPendingTx_def)

lemma Action_InrE:
  assumes run: "Action db now actor claims rid req = Inr (db', i')" and inv: "wf_inv P db"
  obtains c action r role fire where
    "claims = Some c" "parse_action (ar_action req) = Some action"
    "db_instances db rid = Some r" "i_id r = rid" "canActOnInstance r"
    "authorise r actor c action (ar_acting_as_role req) = Inr role"
    "apply_action now actor req action r = Inr (i', fire)"
    "db_instances db' = (db_instances db)(rid \<mapsto> acted_row r i' fire)"
    "db_definitions db' = db_definitions db"
    "filter (\<lambda>a. a_action a = ActCallbackFired) (db_actions db') =
       filter (\<lambda>a. a_action a = ActCallbackFired) (db_actions db)
        @ (if action = ActCallbackFired then [last (db_actions db')] else [])"
proof -
  from run obtain action c r role fire where h:
    "claims = Some c" "parse_action (ar_action req) = Some action"
    "db_instances db rid = Some r" "canActOnInstance r"
    "authorise r actor c action (ar_acting_as_role req) = Inr role"
    "apply_action now actor req action r = Inr (i', fire)"
    by (auto simp: Action_def Let_def split: option.splits prod.splits)
  from inv h(3) have id: "i_id r = rid" by (simp add: wf_inv_def)
  have fr: "i_id i' = rid"
    using apply_action_frame [OF h(6)] id by (simp add: same_frame_def)
  have "db_instances db' = (db_instances db)(rid \<mapsto> acted_row r i' fire)"
    using run h fr
    by (auto simp: Action_def Let_def UpdateProgressTx_def MarkCallbackPendingTx_def acted_row_def
        fun_eq_iff split: if_splits)
  moreover have "db_definitions db' = db_definitions db"
    using run h by (auto simp: Action_def Let_def split: if_splits)
  moreover have "filter (\<lambda>a. a_action a = ActCallbackFired) (db_actions db') =
       filter (\<lambda>a. a_action a = ActCallbackFired) (db_actions db)
        @ (if action = ActCallbackFired then [last (db_actions db')] else [])"
    using run h by (auto simp: Action_def Let_def split: if_splits)
  ultimately show thesis using that h id by blast
qed

lemma parse_action_range:
  "parse_action s = Some a \<Longrightarrow>
    a \<in> {ActApprove, ActReject, ActReturn, ActRequestInfo, ActResume, ActEscalate, ActReassign, ActCancel}"
  unfolding parse_action_def by (drule map_of_SomeD) auto

lemma instance_ok_cong:
  "i_levels r = i_levels i \<Longrightarrow> i_context r = i_context i \<Longrightarrow> i_status r = i_status i \<Longrightarrow>
    i_current_level r = i_current_level i \<Longrightarrow> i_completed_at r = i_completed_at i \<Longrightarrow>
    instance_ok P r \<longleftrightarrow> instance_ok P i"
  by (simp add: instance_ok_def)

lemma acted_row_simps [simp]:
  "i_id (acted_row r i' fire) = i_id r"
  "i_levels (acted_row r i' fire) = i_levels i'"
  "i_context (acted_row r i' fire) = i_context r"
  "i_status (acted_row r i' fire) = i_status i'"
  "i_current_level (acted_row r i' fire) = i_current_level i'"
  "i_completed_at (acted_row r i' fire) = i_completed_at i'"
  "i_callback_url (acted_row r i' fire) = i_callback_url r"
  by (simp_all add: acted_row_def Let_def)

lemma acted_row_ok:
  assumes r: "row_ok P r" "canActOnInstance r"
    and run: "apply_action now actor req action r = Inr (i', fire)"
    and act: "parse_action s = Some action"
  shows "row_ok P (acted_row r i' fire)"
proof -
  from r have ok: "instance_ok P r" "callback_ok r" "claim_ok r" by (simp_all add: row_ok_def)
  have i': "instance_ok P i'" "fire \<longleftrightarrow> isTerminal (i_status i')" "i_context i' = i_context r"
    using apply_action_ok [OF ok(1) r(2) run parse_action_range [OF act]] apply_action_frame [OF run]
    by (simp_all add: same_frame_def)
  then have "instance_ok P (acted_row r i' fire)"
    using instance_ok_cong [of "acted_row r i' fire" i' P] by simp
  moreover have "\<not> isTerminal (i_status r)"
    using r(2) by (auto simp: canActOnInstance_def isTerminal_def)
  then have "callback_ok (acted_row r i' fire)"
    using ok(2) i'(2) by (auto simp: callback_ok_def acted_row_def Let_def)
  moreover have "claim_ok (acted_row r i' fire)"
    using ok(3) by (auto simp: claim_ok_def acted_row_def Let_def)
  ultimately show ?thesis by (simp add: row_ok_def)
qed

subsection \<open>The snapshot of a new instance\<close>

lemma snapshot_level_ok:
  assumes "snapshot_level P ctx ix l = Inr s"
  shows "level_ok P ctx s \<and> (ls_status s = LvlWaiting \<or> ls_status s = LvlSkipped)"
  using assms
  by (auto simp: snapshot_level_def Let_def level_ok_def applies_def split: if_splits sum.splits)

lemma snapshot_levels_ok:
  "snapshot_levels P ctx ix defs = Inr ls \<Longrightarrow>
    \<forall>l\<in>set ls. level_ok P ctx l \<and> (ls_status l = LvlWaiting \<or> ls_status l = LvlSkipped)"
proof (induction defs arbitrary: ix ls)
  case (Cons l defs)
  then obtain s ss where h: "snapshot_level P ctx ix l = Inr s"
    "snapshot_levels P ctx (Suc ix) defs = Inr ss" "ls = s # ss" by auto
  show ?case using snapshot_level_ok [OF h(1)] Cons.IH [OF h(2)] by (simp add: h(3))
qed simp

lemma snapshot_levels_length:
  "snapshot_levels P ctx ix defs = Inr ls \<Longrightarrow> length ls = length defs"
  by (induction defs arbitrary: ix ls) auto

lemma start_levels_ok:
  assumes snap: "\<forall>l\<in>set snap. level_ok P ctx l \<and> (ls_status l = LvlWaiting \<or> ls_status l = LvlSkipped)"
    and start: "start_levels now snap = (ls, k, st)"
  shows "(\<forall>l\<in>set ls. level_ok P ctx l) \<and> progress_ok st k (map ls_status ls) \<and>
    (st = StatusApproved \<or> st = StatusInProgress)"
proof (cases "nextActiveLevel snap 0")
  case None
  then have "\<forall>l\<in>set snap. ls_status l = LvlSkipped"
    using nextActiveLevel_None [OF None] by (auto simp: in_set_conv_nth)
  with None snap start show ?thesis
    by (auto simp: start_levels_def progress_ok_def settled_def)
next
  case (Some n)
  then have e: "ls = snap[n := enter_level now (snap ! n)]" "k = n" "st = StatusInProgress"
    using start by (auto simp: start_levels_def)
  note n = nextActiveLevel_Some [OF Some]
  have lv: "level_ok P ctx l" if "l \<in> set snap" for l using snap that by blast
  have "level_ok P ctx (enter_level now (snap ! n))"
    by (rule level_ok_change [OF lv [OF nth_mem [OF n(2)]] n(3)]) simp_all
  then have "\<forall>l\<in>set ls. level_ok P ctx l"
    using lv set_update_subset_insert unfolding e by fastforce
  moreover have "open_at n (map ls_status ls)"
    using n snap by (auto simp: e open_at_def is_open_def settled_def nth_list_update)
  ultimately show ?thesis by (simp add: e progress_ok_def)
qed

lemma Create_InrE:
  assumes run: "Create P db now new_id actor req = Inr (db', i)"
  obtains r where "db_instances db' = (db_instances db)(new_id \<mapsto> r)" "i_id r = new_id"
    "row_ok P r" "i_context r = cr_context req" "i_status r = i_status i" "i_levels r = i_levels i"
    "db_definitions db' = db_definitions db"
    "filter (\<lambda>a. a_action a = ActCallbackFired) (db_actions db') =
       filter (\<lambda>a. a_action a = ActCallbackFired) (db_actions db)"
proof -
  from run obtain d snap0 where
    d: "snapshot_levels P (cr_context req) 0 (wd_levels d) = Inr snap0"
    "(case cr_definition_id req of Some d \<Rightarrow> DefByIDTx db d
      | None \<Rightarrow> ActiveByKindTx db (TrimSpace (cr_process_kind req))) = Inr d"
    by (auto simp: Create_def Let_def split: if_splits sum.splits)
  obtain snap k st where start: "start_levels now snap0 = (snap, k, st)" by (metis prod_cases3)
  note ok = start_levels_ok [OF snapshot_levels_ok [OF d(1)] start]
  show thesis
  proof (cases "st = StatusApproved")
    case True
    show thesis
      by (rule that [of "the (db_instances db' new_id)"])
        (use run d start ok True in \<open>auto simp: Create_def Let_def CreateInstanceTx_def
           UpdateProgressTx_def MarkCallbackPendingTx_def row_ok_def instance_ok_def callback_ok_def
           claim_ok_def isTerminal_def activeLevelSLA_def fun_eq_iff split: if_splits\<close>)
  next
    case False
    with ok have "st = StatusInProgress" by simp
    then show thesis
      by (intro that [of "the (db_instances db' new_id)"])
        (use run d start ok in \<open>auto simp: Create_def Let_def CreateInstanceTx_def
           row_ok_def instance_ok_def callback_ok_def claim_ok_def isTerminal_def
           split: if_splits\<close>)
  qed
qed

section \<open>The handlers as steps\<close>

inductive handler :: "go_float \<Rightarrow> wf_db \<Rightarrow> wf_db \<Rightarrow> bool" for P where
  create: "db_instances db new_id = None \<Longrightarrow> Create P db now new_id actor req = Inr (db', i) \<Longrightarrow>
    handler P db db'"
| act: "Action db now actor claims rid req = Inr (db', i) \<Longrightarrow> handler P db db'"
| claim: "Claim db now user rid = Inr (db', i) \<Longrightarrow> handler P db db'"
| release: "Release db user claims rid = Inr (db', i) \<Longrightarrow> handler P db db'"
| comment: "Comment db user claims rid body = Inr (db', a) \<Longrightarrow> handler P db db'"
| define_kind: "new_id \<notin> wd_id ` set (db_definitions db) \<Longrightarrow>
    CreateDefinition db new_id actor dreq = Inr (db', d) \<Longrightarrow> handler P db db'"
| activate: "SetActivation db rid active = Inr db' \<Longrightarrow> handler P db db'"

text \<open>
  How a row may change: its identity never, and once the instance is decided neither its
  decision nor, by a handler, its callback columns.
\<close>

definition row_evolves :: "wf_instance \<Rightarrow> wf_instance \<Rightarrow> bool" where
  "row_evolves r r' \<longleftrightarrow>
     i_id r' = i_id r \<and> i_context r' = i_context r \<and> i_callback_url r' = i_callback_url r \<and>
     (isTerminal (i_status r) \<longrightarrow>
        i_status r' = i_status r \<and> i_levels r' = i_levels r \<and>
        i_current_level r' = i_current_level r \<and> i_completed_at r' = i_completed_at r)"

definition same_callback :: "wf_instance \<Rightarrow> wf_instance \<Rightarrow> bool" where
  "same_callback r r' \<longleftrightarrow> i_callback_status r' = i_callback_status r \<and>
     i_callback_attempts r' = i_callback_attempts r"

definition db_evolves :: "wf_db \<Rightarrow> wf_db \<Rightarrow> bool" where
  "db_evolves db db' \<longleftrightarrow> (\<forall>rid r. db_instances db rid = Some r \<longrightarrow>
     (\<exists>r'. db_instances db' rid = Some r' \<and> row_evolves r r' \<and>
           (isTerminal (i_status r) \<longrightarrow> same_callback r r')))"

definition callbacks_fired :: "wf_db \<Rightarrow> wf_action list" where
  "callbacks_fired db = filter (\<lambda>a. a_action a = ActCallbackFired) (db_actions db)"

lemma row_evolves_refl [simp]: "row_evolves r r"
  by (simp add: row_evolves_def)

lemma db_evolves_same: "db_instances db' = db_instances db \<Longrightarrow> db_evolves db db'"
  by (simp add: db_evolves_def same_callback_def)

lemma db_evolves_upd:
  assumes "db_instances db' = (db_instances db)(rid \<mapsto> r')"
    and "\<And>r. db_instances db rid = Some r \<Longrightarrow>
      row_evolves r r' \<and> (isTerminal (i_status r) \<longrightarrow> same_callback r r')"
  shows "db_evolves db db'"
  using assms by (auto simp: db_evolves_def same_callback_def)

lemma wf_inv_upd:
  assumes "wf_inv P db" "db_instances db' = (db_instances db)(rid \<mapsto> r')"
    "db_definitions db' = db_definitions db" "i_id r' = rid" "row_ok P r'"
  shows "wf_inv P db'"
  using assms by (auto simp: wf_inv_def definitions_ok_def)

lemma wf_inv_same:
  "wf_inv P db \<Longrightarrow> db_instances db' = db_instances db \<Longrightarrow> definitions_ok db' \<Longrightarrow> wf_inv P db'"
  by (simp add: wf_inv_def)

lemma claim_row_ok:
  "row_ok P r \<Longrightarrow>
    row_ok P (r\<lparr>i_claimed_by := a, i_claimed_at := b, i_claim_expires := c\<rparr>) \<longleftrightarrow> (a = None \<longleftrightarrow> c = None)"
  by (auto simp: row_ok_def callback_ok_def claim_ok_def instance_ok_def)

lemma claim_row_evolves:
  "row_evolves r (r\<lparr>i_claimed_by := a, i_claimed_at := b, i_claim_expires := c\<rparr>) \<and>
   same_callback r (r\<lparr>i_claimed_by := a, i_claimed_at := b, i_claim_expires := c\<rparr>)"
  by (simp add: row_evolves_def same_callback_def)

definition handler_ok :: "go_float \<Rightarrow> wf_db \<Rightarrow> wf_db \<Rightarrow> bool" where
  "handler_ok P db db' \<longleftrightarrow> wf_inv P db' \<and> db_evolves db db' \<and> callbacks_fired db' = callbacks_fired db"

lemma Action_ok:
  assumes inv: "wf_inv P db" and run: "Action db now actor claims rid req = Inr (db', i')"
  shows "handler_ok P db db'"
proof -
  obtain c action r role fire where h:
    "parse_action (ar_action req) = Some action"
    "db_instances db rid = Some r" "i_id r = rid" "canActOnInstance r"
    "apply_action now actor req action r = Inr (i', fire)"
    "db_instances db' = (db_instances db)(rid \<mapsto> acted_row r i' fire)"
    "db_definitions db' = db_definitions db"
    "callbacks_fired db' = callbacks_fired db @
       (if action = ActCallbackFired then [last (db_actions db')] else [])"
    by (rule Action_InrE [OF run inv, folded callbacks_fired_def])
  have ok: "row_ok P r" using inv h(2) by (simp add: wf_inv_def)
  have "wf_inv P db'"
    by (rule wf_inv_upd [OF inv h(6,7)])
      (use h acted_row_ok [OF ok h(4) h(5) h(1)] in simp_all)
  moreover have "\<not> isTerminal (i_status r)"
    using h(4) by (auto simp: canActOnInstance_def isTerminal_def)
  then have "db_evolves db db'"
    by (intro db_evolves_upd [OF h(6)]) (use h(2) in \<open>simp add: row_evolves_def\<close>)
  moreover have "action \<noteq> ActCallbackFired"
    using parse_action_range [OF h(1)] by auto
  ultimately show ?thesis using h(8) by (simp add: handler_ok_def)
qed

lemma Create_ok:
  assumes inv: "wf_inv P db" and fresh: "db_instances db new_id = None"
    and run: "Create P db now new_id actor req = Inr (db', i)"
  shows "handler_ok P db db'"
proof -
  obtain r where r: "db_instances db' = (db_instances db)(new_id \<mapsto> r)" "i_id r = new_id"
    "row_ok P r" "db_definitions db' = db_definitions db" "callbacks_fired db' = callbacks_fired db"
    by (rule Create_InrE [OF run, folded callbacks_fired_def])
  have "db_evolves db db'" by (rule db_evolves_upd [OF r(1)]) (simp add: fresh)
  with wf_inv_upd [OF inv r(1) r(4) r(2,3)] r(5) show ?thesis by (simp add: handler_ok_def)
qed

lemma Claim_ok:
  assumes inv: "wf_inv P db" and run: "Claim db now user rid = Inr (db', i)"
  shows "handler_ok P db db'"
proof -
  from run obtain db1 where c: "ClaimTx db now rid user claimTTL = Inr (db1, i)"
    and d: "db_instances db' = db_instances db1" "db_definitions db' = db_definitions db1"
      "callbacks_fired db' = callbacks_fired db1"
    by (auto simp: Claim_def callbacks_fired_def split: if_splits sum.splits wf_error.splits)
  from ClaimTx_InrD [OF c] obtain r where r: "db_instances db rid = Some r"
    "i = r\<lparr>i_claimed_by := Some user, i_claimed_at := Some now, i_claim_expires := Some (now + claimTTL)\<rparr>"
    "db_instances db1 = (db_instances db)(rid \<mapsto> i)" "db_definitions db1 = db_definitions db"
    "db_actions db1 = db_actions db" by blast
  have ok: "row_ok P r" "i_id r = rid" using inv r(1) by (simp_all add: wf_inv_def)
  have "wf_inv P db'"
    by (rule wf_inv_upd [OF inv, of _ rid i]) (use d r ok claim_row_ok [OF ok(1)] in simp_all)
  moreover have "db_evolves db db'"
    by (rule db_evolves_upd [of _ _ rid i]) (use d r claim_row_evolves in auto)
  ultimately show ?thesis using d r by (simp add: handler_ok_def callbacks_fired_def)
qed

lemma Release_ok:
  assumes inv: "wf_inv P db" and run: "Release db user claims rid = Inr (db', i)"
  shows "handler_ok P db db'"
proof -
  from run obtain r where r: "db_instances db rid = Some r"
    by (auto simp: Release_def)
  have ok: "row_ok P r" "i_id r = rid" using inv r by (simp_all add: wf_inv_def)
  let ?r = "r\<lparr>i_claimed_by := None, i_claimed_at := None, i_claim_expires := None\<rparr>"
  consider "db' = db" | "db_instances db' = (db_instances db)(rid \<mapsto> ?r)"
      "db_definitions db' = db_definitions db" "callbacks_fired db' = callbacks_fired db"
    using run r
    by (auto simp: Release_def ReleaseTx_def callbacks_fired_def Let_def fun_upd_def
        split: option.splits if_splits)
  then show ?thesis
  proof cases
    case 1
    then show ?thesis using inv by (simp add: handler_ok_def db_evolves_same)
  next
    case 2
    have "wf_inv P db'"
      by (rule wf_inv_upd [OF inv 2(1,2)]) (use ok claim_row_ok [OF ok(1)] in simp_all)
    moreover have "db_evolves db db'"
      by (rule db_evolves_upd [OF 2(1)]) (use r claim_row_evolves in auto)
    ultimately show ?thesis using 2 by (simp add: handler_ok_def)
  qed
qed

lemma Comment_ok:
  assumes inv: "wf_inv P db" and run: "Comment db user claims rid body = Inr (db', a)"
  shows "handler_ok P db db'"
  using run inv
  by (auto simp: Comment_def Let_def handler_ok_def callbacks_fired_def db_evolves_same wf_inv_def
      definitions_ok_def split: if_splits)

theorem handler_preserves:
  assumes inv: "wf_inv P db" and h: "handler P db db'"
  shows "handler_ok P db db'"
  using h
proof cases
  case (define_kind new_id actor dreq d)
  obtain kind name descr lvls usr active where
    c: "CreateDefinitionTx db new_id kind name descr lvls usr active = (db', d)"
    using define_kind(2) by (auto simp: CreateDefinition_def Let_def split: if_splits)
  have "definitions_ok db'"
    using CreateDefinitionTx_ok [OF _ define_kind(1), of kind name descr lvls usr active] inv c
    by (simp add: wf_inv_def)
  moreover have "db_instances db' = db_instances db" "db_actions db' = db_actions db"
    using c by (auto simp: CreateDefinitionTx_def Let_def)
  ultimately show ?thesis
    using inv by (simp add: handler_ok_def wf_inv_same db_evolves_same callbacks_fired_def)
next
  case (activate rid active)
  have "definitions_ok db'"
    using SetActiveTx_ok activate inv by (auto simp: wf_inv_def SetActivation_def)
  moreover have "db_instances db' = db_instances db" "db_actions db' = db_actions db"
    using activate by (auto simp: SetActivation_def SetActiveTx_def Let_def split: option.splits)
  ultimately show ?thesis
    using inv by (simp add: handler_ok_def wf_inv_same db_evolves_same callbacks_fired_def)
next
  case create
  then show ?thesis using Create_ok [OF inv] by simp
next
  case act
  then show ?thesis using Action_ok [OF inv] by simp
next
  case claim
  then show ?thesis using Claim_ok [OF inv] by simp
next
  case release
  then show ?thesis using Release_ok [OF inv] by simp
next
  case comment
  then show ?thesis using Comment_ok [OF inv] by simp
qed

section \<open>The service and its dispatchers\<close>

text \<open>
  The tables together with the dispatchers' local state: candidates some replica has scanned
  (possibly stale by the time it claims them) and rows claimed, whose post is under way.
  A worker that dies after its claim drops its job.
\<close>

record wf_sys =
  sys_db :: wf_db
  sys_picked :: "candidate list"
  sys_jobs :: "candidate list"

definition wf_init :: wf_sys where
  "wf_init = \<lparr> sys_db = \<lparr> db_definitions = [], db_instances = Map.empty, db_actions = [] \<rparr>,
               sys_picked = [], sys_jobs = [] \<rparr>"

inductive wf_step :: "go_float \<Rightarrow> wf_sys \<Rightarrow> wf_sys \<Rightarrow> bool" for P where
  handle: "handler P (sys_db s) db' \<Longrightarrow> wf_step P s (s\<lparr>sys_db := db'\<rparr>)"
| pick: "c \<in> set (pickPending (sys_db s) ids now) \<Longrightarrow>
    wf_step P s (s\<lparr>sys_picked := c # sys_picked s\<rparr>)"
| take_row: "c \<in> set (sys_picked s) \<Longrightarrow> claimRow (sys_db s) c = (db', Some i) \<Longrightarrow>
    wf_step P s (s\<lparr>sys_db := db', sys_jobs := c # sys_jobs s\<rparr>)"
| finish: "c \<in> set (sys_jobs s) \<Longrightarrow>
    wf_step P s (s\<lparr>sys_db := record_outcome (sys_db s) now c err, sys_jobs := remove1 c (sys_jobs s)\<rparr>)"
| crash: "c \<in> set (sys_jobs s) \<Longrightarrow> wf_step P s (s\<lparr>sys_jobs := remove1 c (sys_jobs s)\<rparr>)"

definition fired_for :: "wf_db \<Rightarrow> uuid \<Rightarrow> nat" where
  "fired_for db rid = length (filter (\<lambda>a. a_instance_id a = rid) (callbacks_fired db))"

text \<open>Each running job holds its row in flight, alone; an outcome is recorded once.\<close>

definition jobs_ok :: "wf_sys \<Rightarrow> bool" where
  "jobs_ok s \<longleftrightarrow> distinct (map cd_id (sys_jobs s)) \<and>
     (\<forall>c\<in>set (sys_jobs s). \<exists>r. db_instances (sys_db s) (cd_id c) = Some r \<and>
        i_callback_status r = CbInFlight)"

definition fired_ok :: "wf_db \<Rightarrow> bool" where
  "fired_ok db \<longleftrightarrow> (\<forall>rid. fired_for db rid \<le> 1 \<and>
     (fired_for db rid = 1 \<longrightarrow>
        (\<exists>r. db_instances db rid = Some r \<and> decided_outcome (i_callback_status r))))"

definition sys_inv :: "go_float \<Rightarrow> wf_sys \<Rightarrow> bool" where
  "sys_inv P s \<longleftrightarrow> wf_inv P (sys_db s) \<and> jobs_ok s \<and> fired_ok (sys_db s)"

lemma sys_inv_init: "sys_inv P wf_init"
  by (simp add: sys_inv_def wf_init_def wf_inv_def jobs_ok_def fired_ok_def fired_for_def
      callbacks_fired_def definitions_ok_def one_active_def)

lemma callback_status_terminal:
  "wf_inv P db \<Longrightarrow> db_instances db rid = Some r \<Longrightarrow> i_callback_status r \<noteq> CbNone \<Longrightarrow>
    isTerminal (i_status r) \<and> i_callback_url r \<noteq> []"
  by (auto simp: wf_inv_def row_ok_def callback_ok_def)

text \<open>A row with a callback status keeps it through every handler.\<close>

lemma db_evolves_callback:
  assumes "wf_inv P db" "db_evolves db db'" "db_instances db rid = Some r"
    "i_callback_status r \<noteq> CbNone"
  shows "\<exists>r'. db_instances db' rid = Some r' \<and> i_callback_status r' = i_callback_status r"
  using assms callback_status_terminal [OF assms(1,3,4)]
  by (fastforce simp: db_evolves_def same_callback_def)

lemma callback_row_ok:
  assumes "row_ok P r" "i_callback_status r \<noteq> CbNone" "cb \<noteq> CbNone"
    and "i_levels r' = i_levels r" "i_context r' = i_context r" "i_status r' = i_status r"
      "i_current_level r' = i_current_level r" "i_completed_at r' = i_completed_at r"
      "i_callback_url r' = i_callback_url r" "i_callback_status r' = cb"
      "i_claimed_by r' = i_claimed_by r" "i_claim_expires r' = i_claim_expires r"
  shows "row_ok P r'"
  using assms instance_ok_cong [of r' r P] by (auto simp: row_ok_def callback_ok_def claim_ok_def)

text \<open>What a claim and an outcome do to the tables.\<close>

lemma claimRow_ok:
  assumes inv: "wf_inv P db" and run: "claimRow db c = (db', Some i)"
  shows "wf_inv P db' \<and> callbacks_fired db' = callbacks_fired db \<and>
    (\<exists>r. db_instances db (cd_id c) = Some r \<and> i_callback_status r = CbPending \<and>
       db_instances db' = (db_instances db)(cd_id c \<mapsto> r\<lparr>i_callback_status := CbInFlight\<rparr>))"
proof -
  from claimRow_Some [OF run] obtain r where r: "db_instances db (cd_id c) = Some r"
    "i_callback_status r = CbPending"
    "db' = update_row (cd_id c) (\<lambda>r. r\<lparr>i_callback_status := CbInFlight\<rparr>) db" by blast
  have ok: "row_ok P r" "i_id r = cd_id c" using inv r(1) by (simp_all add: wf_inv_def)
  have ins: "db_instances db' = (db_instances db)(cd_id c \<mapsto> r\<lparr>i_callback_status := CbInFlight\<rparr>)"
    using r(1) by (simp add: r(3) fun_eq_iff)
  have "wf_inv P db'"
    by (rule wf_inv_upd [OF inv ins])
      (use ok r callback_row_ok [OF ok(1), of CbInFlight "r\<lparr>i_callback_status := CbInFlight\<rparr>"] in simp_all)
  then show ?thesis using r ins by (simp add: callbacks_fired_def)
qed

lemma record_outcome_ok:
  assumes inv: "wf_inv P db" and row: "db_instances db (cd_id c) = Some r"
    "i_callback_status r = CbInFlight"
  shows "\<exists>r'. wf_inv P (record_outcome db now c err) \<and>
    db_instances (record_outcome db now c err) = (db_instances db)(cd_id c \<mapsto> r') \<and>
    row_evolves r r' \<and> i_callback_status r' \<noteq> CbNone \<and>
    (callbacks_fired (record_outcome db now c err) = callbacks_fired db \<or>
     decided_outcome (i_callback_status r') \<and>
     (\<exists>a. a_instance_id a = cd_id c \<and>
        callbacks_fired (record_outcome db now c err) = callbacks_fired db @ [a]))"
proof -
  let ?db = "record_outcome db now c err"
  have ok: "row_ok P r" "i_id r = cd_id c" using inv row(1) by (simp_all add: wf_inv_def)
  define r' where "r' = the (db_instances ?db (cd_id c))"
  have ins: "db_instances ?db = (db_instances db)(cd_id c \<mapsto> r')"
    using row(1) by (cases err) (auto simp: r'_def record_outcome_def recordDelivered_def recordRetry_def
      recordHardFailure_def writeCallbackAudit_def Let_def fun_eq_iff)
  have r': "i_id r' = i_id r" "i_levels r' = i_levels r" "i_context r' = i_context r"
    "i_status r' = i_status r" "i_current_level r' = i_current_level r"
    "i_completed_at r' = i_completed_at r" "i_callback_url r' = i_callback_url r"
    "i_claimed_by r' = i_claimed_by r" "i_claim_expires r' = i_claim_expires r"
    "i_callback_status r' \<noteq> CbNone"
    using row(1) by (cases err; auto simp: r'_def record_outcome_def recordDelivered_def recordRetry_def
      recordHardFailure_def writeCallbackAudit_def Let_def)+
  have defs: "db_definitions ?db = db_definitions db"
    by (cases err) (auto simp: record_outcome_def recordDelivered_def recordRetry_def
      recordHardFailure_def writeCallbackAudit_def Let_def)
  have "wf_inv P ?db"
    by (rule wf_inv_upd [OF inv ins defs])
      (use ok row r' callback_row_ok [OF ok(1), of "i_callback_status r'" r'] in simp_all)
  moreover have "row_evolves r r'" using r' by (simp add: row_evolves_def)
  moreover have "callbacks_fired ?db = callbacks_fired db \<or>
     decided_outcome (i_callback_status r') \<and>
     (\<exists>a. a_instance_id a = cd_id c \<and> callbacks_fired ?db = callbacks_fired db @ [a])"
    using row(1) by (cases err) (auto simp: r'_def record_outcome_def recordDelivered_def recordRetry_def
      recordHardFailure_def writeCallbackAudit_def Let_def callbacks_fired_def decided_outcome_def)
  ultimately show ?thesis using ins r' by blast
qed

lemma fired_ok_undecided:
  "fired_ok db \<Longrightarrow> db_instances db rid = Some r \<Longrightarrow> \<not> decided_outcome (i_callback_status r) \<Longrightarrow>
    fired_for db rid = 0"
  unfolding fired_ok_def by (metis One_nat_def le_Suc_eq le_zero_eq option.inject)

lemma decided_not_none: "decided_outcome s \<Longrightarrow> s \<noteq> CbNone \<and> s \<noteq> CbInFlight \<and> s \<noteq> CbPending"
  by (auto simp: decided_outcome_def)

lemma fired_ok_keep:
  assumes "fired_ok db" "callbacks_fired db' = callbacks_fired db"
    and "\<And>rid r. db_instances db rid = Some r \<Longrightarrow> decided_outcome (i_callback_status r) \<Longrightarrow>
      \<exists>r'. db_instances db' rid = Some r' \<and> decided_outcome (i_callback_status r')"
  shows "fired_ok db'"
  using assms unfolding fired_ok_def fired_for_def by metis

lemma distinct_remove1_map:
  "distinct (map f xs) \<Longrightarrow> distinct (map f (remove1 x xs))"
  by (auto simp: distinct_map intro: inj_on_diff)

lemma jobs_ok_remove:
  "jobs_ok s \<Longrightarrow> jobs_ok (s\<lparr>sys_jobs := remove1 c (sys_jobs s)\<rparr>)"
  unfolding jobs_ok_def using set_remove1_subset distinct_remove1_map by fastforce

lemma remove1_other:
  "distinct (map f xs) \<Longrightarrow> x \<in> set xs \<Longrightarrow> y \<in> set (remove1 x xs) \<Longrightarrow> f y \<noteq> f x"
  by (auto simp: distinct_map dest: inj_onD)

theorem wf_step_inv:
  assumes inv: "sys_inv P s" and step: "wf_step P s s'"
  shows "sys_inv P s'"
proof -
  from inv have w: "wf_inv P (sys_db s)" and j: "jobs_ok s" and f: "fired_ok (sys_db s)"
    by (simp_all add: sys_inv_def)
  from step show ?thesis
  proof cases
    case (handle db')
    from handler_preserves [OF w handle(2)] have h: "wf_inv P db'" "db_evolves (sys_db s) db'"
      "callbacks_fired db' = callbacks_fired (sys_db s)" by (simp_all add: handler_ok_def)
    note keep = db_evolves_callback [OF w h(2)]
    have "jobs_ok s'"
      using j keep unfolding jobs_ok_def handle(1) by fastforce
    moreover have "fired_ok db'"
      by (rule fired_ok_keep [OF f h(3)]) (use keep decided_not_none in metis)
    ultimately show ?thesis using h(1) by (simp add: sys_inv_def handle(1))
  next
    case pick
    then show ?thesis using inv by (simp add: sys_inv_def jobs_ok_def)
  next
    case (take_row c db' i)
    from claimRow_ok [OF w take_row(3)] obtain r where r: "wf_inv P db'"
      "callbacks_fired db' = callbacks_fired (sys_db s)"
      "db_instances (sys_db s) (cd_id c) = Some r" "i_callback_status r = CbPending"
      "db_instances db' = (db_instances (sys_db s))(cd_id c \<mapsto> r\<lparr>i_callback_status := CbInFlight\<rparr>)"
      by blast
    have "cd_id c \<notin> cd_id ` set (sys_jobs s)"
      using j r(3,4) by (fastforce simp: jobs_ok_def)
    then have "jobs_ok s'"
      using j r(5) by (auto simp: jobs_ok_def take_row(1))
    moreover have "fired_ok db'"
      by (rule fired_ok_keep [OF f r(2)]) (use r(3-5) decided_not_none in \<open>auto split: if_splits\<close>)
    ultimately show ?thesis using r(1) by (simp add: sys_inv_def take_row(1))
  next
    case (finish c now err)
    let ?db = "record_outcome (sys_db s) now c err"
    from j finish(2) obtain r where row: "db_instances (sys_db s) (cd_id c) = Some r"
      "i_callback_status r = CbInFlight" by (auto simp: jobs_ok_def)
    from record_outcome_ok [OF w row, of now err] obtain r' where r': "wf_inv P ?db"
      "db_instances ?db = (db_instances (sys_db s))(cd_id c \<mapsto> r')"
      "callbacks_fired ?db = callbacks_fired (sys_db s) \<or>
       decided_outcome (i_callback_status r') \<and>
       (\<exists>a. a_instance_id a = cd_id c \<and> callbacks_fired ?db = callbacks_fired (sys_db s) @ [a])"
      by blast
    have zero: "fired_for (sys_db s) (cd_id c) = 0"
      using fired_ok_undecided [OF f row(1)] row(2) by (simp add: decided_outcome_def)
    have "jobs_ok s'"
      using jobs_ok_remove [OF j, of c] remove1_other [of cd_id "sys_jobs s" c] j finish(2) r'(2)
      unfolding jobs_ok_def finish(1) by auto
    moreover have "fired_ok ?db"
      using r'(3)
    proof
      assume same: "callbacks_fired ?db = callbacks_fired (sys_db s)"
      show ?thesis
        by (rule fired_ok_keep [OF f same])
          (use row r'(2) decided_not_none in \<open>auto split: if_splits\<close>)
    next
      assume "decided_outcome (i_callback_status r') \<and>
       (\<exists>a. a_instance_id a = cd_id c \<and> callbacks_fired ?db = callbacks_fired (sys_db s) @ [a])"
      then obtain a where a: "decided_outcome (i_callback_status r')" "a_instance_id a = cd_id c"
        "callbacks_fired ?db = callbacks_fired (sys_db s) @ [a]" by blast
      have cnt: "fired_for ?db rid = fired_for (sys_db s) rid + (if rid = cd_id c then 1 else 0)" for rid
        using a by (simp add: fired_for_def)
      show ?thesis
        unfolding fired_ok_def cnt
      proof
        fix rid
        show "fired_for (sys_db s) rid + (if rid = cd_id c then 1 else 0) \<le> 1 \<and>
          (fired_for (sys_db s) rid + (if rid = cd_id c then 1 else 0) = 1 \<longrightarrow>
            (\<exists>r. db_instances ?db rid = Some r \<and> decided_outcome (i_callback_status r)))"
          using f zero a(1) r'(2) by (cases "rid = cd_id c") (auto simp: fired_ok_def)
      qed
    qed
    ultimately show ?thesis using r'(1) by (simp add: sys_inv_def finish(1))
  next
    case crash
    then show ?thesis using inv jobs_ok_remove by (simp add: sys_inv_def)
  qed
qed

text \<open>Decisions survive every step.\<close>

lemma wf_step_row:
  assumes inv: "sys_inv P s" and step: "wf_step P s s'"
    and r: "db_instances (sys_db s) rid = Some r"
  shows "\<exists>r'. db_instances (sys_db s') rid = Some r' \<and> row_evolves r r'"
proof -
  from inv have w: "wf_inv P (sys_db s)" and j: "jobs_ok s" by (simp_all add: sys_inv_def)
  from step show ?thesis
  proof cases
    case (handle db')
    with handler_preserves [OF w handle(2)] r show ?thesis
      by (auto simp: handler_ok_def db_evolves_def)
  next
    case (take_row c db' i)
    from claimRow_ok [OF w take_row(3)] r show ?thesis
      by (auto simp: take_row(1) row_evolves_def)
  next
    case (finish c now err)
    from j finish(2) obtain q where row: "db_instances (sys_db s) (cd_id c) = Some q"
      "i_callback_status q = CbInFlight" by (auto simp: jobs_ok_def)
    from record_outcome_ok [OF w row, of now err] r row show ?thesis
      by (auto simp: finish(1))
  qed (use r in auto)
qed

lemma row_evolves_trans: "row_evolves a b \<Longrightarrow> row_evolves b c \<Longrightarrow> row_evolves a c"
  by (auto simp: row_evolves_def)

lemma wf_steps_inv:
  "(wf_step P)\<^sup>*\<^sup>* s s' \<Longrightarrow> sys_inv P s \<Longrightarrow> sys_inv P s'"
  by (induction rule: rtranclp_induct) (auto intro: wf_step_inv)

lemma wf_steps_row:
  assumes "(wf_step P)\<^sup>*\<^sup>* s s'" "sys_inv P s" "db_instances (sys_db s) rid = Some r"
  shows "\<exists>r'. db_instances (sys_db s') rid = Some r' \<and> row_evolves r r'"
  using assms
proof (induction rule: rtranclp_induct)
  case (step y z)
  then obtain r' where "db_instances (sys_db y) rid = Some r'" "row_evolves r r'" by blast
  moreover from this wf_step_row [OF wf_steps_inv [OF step(1,4)] step(2)]
  obtain r'' where "db_instances (sys_db z) rid = Some r''" "row_evolves r' r''" by blast
  ultimately show ?case using row_evolves_trans by blast
qed simp

lemma reachable_inv: "(wf_step P)\<^sup>*\<^sup>* wf_init s \<Longrightarrow> sys_inv P s"
  using wf_steps_inv sys_inv_init by blast

end
