(* ===== verification/WorkflowProperties.thy ===== *)
theory WorkflowProperties
  imports WorkflowSystem
begin

text \<open>
  The properties of the workflow service, over the reachable states of \<open>wf_step\<close>, and a
  concrete run of it that the witnesses use: a two-level loan approval whose second level
  does not apply, approved by both members of the first level's committee.
\<close>

section \<open>A run\<close>

definition ex_levels :: "level_def list" where
  "ex_levels =
     [\<lparr> ld_level_order = 0, ld_name = ''committee'', ld_approver_roles = [''credit''],
        ld_approver_user_ids = [7, 8], ld_quorum = QuorumAll, ld_condition_expr = JNil,
        ld_sla_hours = Some 24, ld_escalation_role = [], ld_escalation_user = None \<rparr>,
      \<lparr> ld_level_order = 0, ld_name = ''board'', ld_approver_roles = [''board''],
        ld_approver_user_ids = [9], ld_quorum = QuorumAnyOne,
        ld_condition_expr = compile (StrIs ''type'' ''large''),
        ld_sla_hours = None, ld_escalation_role = [], ld_escalation_user = None \<rparr>]"

definition ex_req :: create_req where
  "ex_req = \<lparr> cr_process_kind = ''loan'', cr_definition_id = None, cr_subject_kind = ''application'',
     cr_subject_id = 77, cr_context = [(''type'', JStr ''small'')], cr_callback_url = ''http://host'',
     cr_callback_secret = [], cr_initiator_id = None, cr_summary = [], cr_source_url = [] \<rparr>"

definition ex_claims :: access_claims where
  "ex_claims = \<lparr> c_roles = [''credit''], c_permissions = [], c_is_platform_admin = False \<rparr>"

definition ex_act :: "string \<Rightarrow> action_request" where
  "ex_act a = \<lparr> ar_action = a, ar_comments = ''ok'', ar_reassign_to = None, ar_acting_as_role = [] \<rparr>"

definition ex_def_req :: create_def_req where
  "ex_def_req = \<lparr> dr_process_kind = ''Loan '', dr_name = ''loan'', dr_description = [],
     dr_active = None, dr_levels = map (\<lambda>l. (l, Some (ld_quorum l))) ex_levels \<rparr>"

definition ex_db1 :: wf_db where
  "ex_db1 = fst (projr (CreateDefinition (sys_db wf_init) 3 1 ex_def_req))"

definition ex_db2 :: wf_db where
  "ex_db2 = fst (projr (Create dec_float ex_db1 1000 40 5 ex_req))"

definition ex_db3 :: wf_db where
  "ex_db3 = fst (projr (Action ex_db2 2000 7 (Some ex_claims) 40 (ex_act ''approve'')))"

definition ex_db4 :: wf_db where
  "ex_db4 = fst (projr (Action ex_db3 3000 8 (Some ex_claims) 40 (ex_act ''approve'')))"

lemma ex_db2_run: "\<exists>i. Create dec_float ex_db1 1000 40 5 ex_req = Inr (ex_db2, i)"
proof -
  have "\<not> isl (Create dec_float ex_db1 1000 40 5 ex_req)" by code_simp
  then show ?thesis unfolding ex_db2_def by (metis fst_conv prod.collapse sum.collapse(2))
qed

lemma ex_db4_status: "map_option i_status (db_instances ex_db4 40) = Some StatusApproved"
  by code_simp

lemma ex_db3_run: "\<exists>i. Action ex_db2 2000 7 (Some ex_claims) 40 (ex_act ''approve'') = Inr (ex_db3, i)"
proof -
  have "\<not> isl (Action ex_db2 2000 7 (Some ex_claims) 40 (ex_act ''approve''))" by code_simp
  then show ?thesis unfolding ex_db3_def by (metis fst_conv prod.collapse sum.collapse(2))
qed

lemma ex_db4_run: "\<exists>i. Action ex_db3 3000 8 (Some ex_claims) 40 (ex_act ''approve'') = Inr (ex_db4, i)"
proof -
  have "\<not> isl (Action ex_db3 3000 8 (Some ex_claims) 40 (ex_act ''approve''))" by code_simp
  then show ?thesis unfolding ex_db4_def by (metis fst_conv prod.collapse sum.collapse(2))
qed

lemma handler_steps:
  "handler P (sys_db s) db' \<Longrightarrow> (wf_step P)\<^sup>*\<^sup>* s0 s \<Longrightarrow> (wf_step P)\<^sup>*\<^sup>* s0 (s\<lparr>sys_db := db'\<rparr>)"
  by (rule rtranclp.rtrancl_into_rtrancl, assumption) (rule wf_step.handle)

lemma ex_reach3: "(wf_step dec_float)\<^sup>*\<^sup>* wf_init (wf_init\<lparr>sys_db := ex_db3\<rparr>)"
proof -
  have "\<not> isl (CreateDefinition (sys_db wf_init) 3 1 ex_def_req)" by code_simp
  then have "\<exists>d. CreateDefinition (sys_db wf_init) 3 1 ex_def_req = Inr (ex_db1, d)"
    unfolding ex_db1_def by (metis fst_conv prod.collapse sum.collapse(2))
  then have "handler dec_float (sys_db wf_init) ex_db1"
    by (elim exE) (rule handler.define_kind, simp_all add: wf_init_def)
  from handler_steps [OF this rtranclp.rtrancl_refl]
  have 1: "(wf_step dec_float)\<^sup>*\<^sup>* wf_init (wf_init\<lparr>sys_db := ex_db1\<rparr>)" .
  have "db_instances ex_db1 40 = None" by code_simp
  then have "handler dec_float ex_db1 ex_db2" using ex_db2_run handler.create by blast
  with handler_steps [OF _ 1, of ex_db2]
  have 2: "(wf_step dec_float)\<^sup>*\<^sup>* wf_init (wf_init\<lparr>sys_db := ex_db2\<rparr>)" by simp
  have "handler dec_float ex_db2 ex_db3" using ex_db3_run handler.act by blast
  with handler_steps [OF _ 2, of ex_db3] show ?thesis by simp
qed

lemma ex_reach4: "(wf_step dec_float)\<^sup>*\<^sup>* wf_init (wf_init\<lparr>sys_db := ex_db4\<rparr>)"
proof -
  have "handler dec_float ex_db3 ex_db4" using ex_db4_run handler.act by blast
  with handler_steps [OF _ ex_reach3, of ex_db4] show ?thesis by simp
qed

lemma ex_row:
  "map_option i_status (db_instances db 40) = Some st \<Longrightarrow>
    \<exists>r. db_instances db 40 = Some r \<and> i_status r = st"
  by auto

section \<open>Decisions\<close>



text \<open>C12. A decision is final: once an instance is approved, rejected or cancelled, no sequence of
  requests and dispatcher steps changes its status, its levels, its position or its completion
  time.\<close>

theorem decision_final:
  assumes "(wf_step P)\<^sup>*\<^sup>* wf_init s" and "(wf_step P)\<^sup>*\<^sup>* s s'"
    and "db_instances (sys_db s) rid = Some r" and "isTerminal (i_status r)"
  shows "\<exists>r'. db_instances (sys_db s') rid = Some r' \<and> i_status r' = i_status r \<and>
    i_levels r' = i_levels r \<and> i_current_level r' = i_current_level r \<and>
    i_completed_at r' = i_completed_at r"
  using wf_steps_row [OF assms(2) reachable_inv [OF assms(1)] assms(3)] assms(4)
  by (auto simp: row_evolves_def)

definition ex_db5 :: wf_db where
  "ex_db5 = fst (projr (Claim ex_db4 4000 9 40))"

theorem decision_final_witness:
  "\<exists>r'. db_instances ex_db5 40 = Some r' \<and> i_status r' = StatusApproved"
proof -
  have "\<not> isl (Claim ex_db4 4000 9 40)" by code_simp
  then have "\<exists>i. Claim ex_db4 4000 9 40 = Inr (ex_db5, i)"
    unfolding ex_db5_def by (metis fst_conv prod.collapse sum.collapse(2))
  then have "handler dec_float ex_db4 ex_db5" using handler.claim by blast
  then have step: "(wf_step dec_float)\<^sup>*\<^sup>* (wf_init\<lparr>sys_db := ex_db4\<rparr>) (wf_init\<lparr>sys_db := ex_db5\<rparr>)"
    using handler_steps [of dec_float "wf_init\<lparr>sys_db := ex_db4\<rparr>" ex_db5] by simp
  obtain r where r: "db_instances ex_db4 40 = Some r" "i_status r = StatusApproved"
    using ex_row [OF ex_db4_status] by blast
  then show ?thesis
    using decision_final [OF ex_reach4 step, of 40 r] by (auto simp: isTerminal_def)
qed

text \<open>An undecided instance is always at one level: the levels before the current one are
  approved or skipped, the current one is open, and those after it wait or are skipped.\<close>

theorem undecided_at_current_level:
  assumes "(wf_step P)\<^sup>*\<^sup>* wf_init s" and "db_instances (sys_db s) rid = Some r"
    and "\<not> isTerminal (i_status r)"
  shows "open_at (i_current_level r) (map ls_status (i_levels r)) \<and> i_completed_at r = None"
proof -
  have "instance_ok P r"
    using reachable_inv [OF assms(1)] assms(2) by (simp add: sys_inv_def wf_inv_def row_ok_def)
  then show ?thesis using assms(3)
    by (auto simp: instance_ok_def progress_ok_def isTerminal_def split: status.splits)
qed

theorem undecided_at_current_level_witness:
  "\<exists>r. db_instances ex_db3 40 = Some r \<and> open_at (i_current_level r) (map ls_status (i_levels r))"
proof -
  have "map_option i_status (db_instances ex_db3 40) = Some StatusInProgress" by code_simp
  then obtain r where r: "db_instances ex_db3 40 = Some r" "i_status r = StatusInProgress"
    using ex_row by blast
  then show ?thesis
    using undecided_at_current_level [OF ex_reach3, of 40 r] by (simp add: isTerminal_def)
qed

section \<open>Approval against its specification\<close>

text \<open>
  The specification of a running instance is the queue of the levels still to be decided, by
  name: an approval either adds a vote or removes the head of the queue, and the instance is
  approved exactly when the queue is empty.
\<close>

definition abs_queue :: "wf_instance \<Rightarrow> string list" where
  "abs_queue i = (if isTerminal (i_status i) then []
     else map ls_name (filter (\<lambda>l. ls_status l \<noteq> LvlSkipped) (drop (i_current_level i) (i_levels i))))"

lemma filter_drop_next:
  "\<forall>j. k \<le> j \<longrightarrow> j < n \<longrightarrow> \<not> Q (xs ! j) \<Longrightarrow> k \<le> n \<Longrightarrow> n \<le> length xs \<Longrightarrow>
    filter Q (drop k xs) = filter Q (drop n xs)"
proof (induction "n - k" arbitrary: k)
  case (Suc d)
  then have "k < length xs" "\<not> Q (xs ! k)" "filter Q (drop (Suc k) xs) = filter Q (drop n xs)"
    by (auto intro!: Suc.hyps(1))
  then show ?case by (simp add: Cons_nth_drop_Suc [symmetric])
qed simp

lemma drop_enter:
  "n < length ls \<Longrightarrow> ls_status (ls ! n) \<noteq> LvlSkipped \<Longrightarrow>
    map ls_name (filter (\<lambda>l. ls_status l \<noteq> LvlSkipped) (drop n (ls[n := enter_level now (ls ! n)])))
    = map ls_name (filter (\<lambda>l. ls_status l \<noteq> LvlSkipped) (drop n ls))"
  by (simp add: Cons_nth_drop_Suc [symmetric] enter_level_def drop_update_cancel)

text \<open>C20. Approving an open instance implements one step of the queue specification: if the
  approval completes the level's quorum the head of the queue of remaining levels is removed,
  otherwise the queue is unchanged; the callback fires, and the instance is approved, exactly
  when the queue becomes empty.\<close>

theorem approve_refines_queue:
  assumes "instance_ok P i" and "canActOnInstance i" and "do_approve now actor i = (i', fire)"
  shows "abs_queue i' =
      (if quorum_met (approve_level now actor (i_levels i ! i_current_level i))
       then tl (abs_queue i) else abs_queue i) \<and>
    (fire \<longleftrightarrow> abs_queue i' = []) \<and> (fire \<longleftrightarrow> i_status i' = StatusApproved)"
proof -
  let ?k = "i_current_level i" and ?ls = "i_levels i"
  let ?ns = "\<lambda>l. ls_status l \<noteq> LvlSkipped"
  from canAct_open_at [OF assms(2,1)] have o: "open_at ?k (map ls_status ?ls)" by simp
  then have k: "?k < length ?ls" "?ns (?ls ! ?k)" using open_at_not_skipped [OF o] by (auto simp: open_at_def)
  have nt: "\<not> isTerminal (i_status i)"
    using assms(2) by (auto simp: canActOnInstance_def isTerminal_def)
  have q: "abs_queue i = ls_name (?ls ! ?k) # map ls_name (filter ?ns (drop (Suc ?k) ?ls))"
    using k nt by (simp add: abs_queue_def Cons_nth_drop_Suc [symmetric])
  from assms(3) show ?thesis
  proof (cases rule: do_approve_cases)
    case more
    let ?l = "(?ls ! ?k)\<lparr>ls_approved_by := ls_approved_by (?ls ! ?k) @ [actor]\<rparr>"
    have "abs_queue i' = abs_queue i"
      using k by (simp add: q) (simp add: more abs_queue_def isTerminal_def set_level_def
          Cons_nth_drop_Suc [symmetric] drop_update_cancel)
    then show ?thesis using more q by (simp add: set_level_def)
  next
    case last
    have "filter ?ns (drop (Suc ?k) ?ls) = []"
    proof -
      have "\<forall>j. Suc ?k \<le> j \<longrightarrow> j < length ?ls \<longrightarrow> \<not> ?ns (?ls ! j)"
        using nextActiveLevel_None [OF last(3)] by (auto simp: set_level_def)
      from filter_drop_next [OF this] k(1) show ?thesis by simp
    qed
    with last show ?thesis by (simp add: q) (simp add: abs_queue_def isTerminal_def)
  next
    case (advance n i1)
    note n = nextActiveLevel_Some [OF advance(4)]
    have ls1: "i_levels i1 = ?ls[?k := approve_level now actor (?ls ! ?k)]"
      by (simp add: advance(3) set_level_def)
    have "\<forall>j. Suc ?k \<le> j \<longrightarrow> j < n \<longrightarrow> \<not> ?ns (i_levels i1 ! j)" using n(4) by simp
    from filter_drop_next [OF this] n(1,2)
    have "filter ?ns (drop (Suc ?k) ?ls) = filter ?ns (drop n (i_levels i1))"
      by (simp add: ls1)
    then have "abs_queue i' = tl (abs_queue i)"
      using drop_enter [OF n(2,3)] by (simp add: q) (simp add: advance(5) abs_queue_def isTerminal_def)
    moreover have "abs_queue i' \<noteq> []"
      using n(2,3) by (simp add: advance(5) abs_queue_def isTerminal_def drop_enter)
        (simp add: Cons_nth_drop_Suc [symmetric])
    ultimately show ?thesis using advance by simp
  qed
qed

lemma ex_inst3: "\<exists>r. db_instances ex_db3 40 = Some r \<and> instance_ok dec_float r \<and> canActOnInstance r"
proof -
  have "map_option i_status (db_instances ex_db3 40) = Some StatusInProgress" by code_simp
  then obtain r where r: "db_instances ex_db3 40 = Some r" "i_status r = StatusInProgress"
    using ex_row by blast
  with reachable_inv [OF ex_reach3] show ?thesis
    by (auto simp: sys_inv_def wf_inv_def row_ok_def canActOnInstance_def)
qed

theorem approve_refines_queue_witness:
  "\<exists>r. db_instances ex_db3 40 = Some r \<and>
     (snd (do_approve 3000 8 r) \<longleftrightarrow> i_status (fst (do_approve 3000 8 r)) = StatusApproved)"
proof -
  obtain r where r: "db_instances ex_db3 40 = Some r" "instance_ok dec_float r" "canActOnInstance r"
    using ex_inst3 by blast
  with approve_refines_queue [OF r(2,3), of 3000 8 "fst (do_approve 3000 8 r)" "snd (do_approve 3000 8 r)"]
  show ?thesis by auto
qed

section \<open>Who may act\<close>

definition may_approve :: "wf_instance \<Rightarrow> uuid \<Rightarrow> access_claims \<Rightarrow> bool" where
  "may_approve r actor c \<longleftrightarrow>
     c_is_platform_admin c \<or>
     actor \<in> set (ls_approver_user_ids (i_levels r ! i_current_level r)) \<or>
     (\<exists>role\<in>set (c_roles c). role \<in> set (ls_approver_roles (i_levels r ! i_current_level r)))"

lemma authorise_approver:
  assumes "authorise r actor c action pref = Inr role" "action \<noteq> ActCancel"
  shows "may_approve r actor c"
  using assms
  by (auto simp: authorise_def authorisedRoleAt_def may_approve_def Let_def find_Some_iff
      split: if_splits option.splits)

text \<open>Every action that succeeds was on an open instance and by somebody entitled to it: a
  cancellation by the initiator, a platform admin or a workflow configurer; any other action by a
  platform admin, a listed approver of the current level or a holder of one of its roles; a resume,
  moreover, by the initiator.\<close>

theorem Action_authorised:
  assumes "wf_inv P db" and "Action db now actor claims rid req = Inr (db', i')"
  shows "\<exists>c r action. claims = Some c \<and> db_instances db rid = Some r \<and> canActOnInstance r \<and>
    parse_action (ar_action req) = Some action \<and>
    (if action = ActCancel then isInitiatorOrAdmin r actor (Some c) else may_approve r actor c) \<and>
    (action = ActResume \<longrightarrow> i_initiator_id r = Some actor)"
proof -
  obtain c action r role fire where h: "claims = Some c" "parse_action (ar_action req) = Some action"
    "db_instances db rid = Some r" "canActOnInstance r"
    "authorise r actor c action (ar_acting_as_role req) = Inr role"
    "apply_action now actor req action r = Inr (i', fire)"
    by (rule Action_InrE [OF assms(2,1)])
  have "if action = ActCancel then isInitiatorOrAdmin r actor (Some c) else may_approve r actor c"
    using h(5) authorise_approver [OF h(5)] by (auto simp: authorise_def split: if_splits)
  moreover have "action = ActResume \<longrightarrow> i_initiator_id r = Some actor"
    using h(6) by (auto simp: apply_action_def Let_def isInitiator_def split: if_splits)
  ultimately show ?thesis using h by blast
qed

theorem Action_authorised_witness:
  "\<exists>r. db_instances ex_db3 40 = Some r \<and> canActOnInstance r \<and> may_approve r 8 ex_claims"
proof -
  have inv: "wf_inv dec_float ex_db3" using reachable_inv [OF ex_reach3] by (simp add: sys_inv_def)
  have p: "parse_action (ar_action (ex_act ''approve'')) = Some ActApprove" by code_simp
  obtain i where "Action ex_db3 3000 8 (Some ex_claims) 40 (ex_act ''approve'') = Inr (ex_db4, i)"
    using ex_db4_run by blast
  from Action_authorised [OF inv this] p show ?thesis by auto
qed

text \<open>A returned or awaiting-info instance cannot be resumed by its initiator alone: unless the
  initiator is also an approver of the current level (or a platform admin), the resume is refused,
  although the handler reserves resuming to the initiator.\<close>

lemma resume_refused_to_initiator:
  assumes "db_instances db rid = Some r" and "canActOnInstance r"
    and "i_current_level r < length (i_levels r)"
    and "parse_action (ar_action req) = Some ActResume"
    and "\<not> may_approve r actor c"
  shows "\<exists>m. Action db now actor (Some c) rid req = Inl (Forbidden m)"
proof -
  have "find (\<lambda>role. (ar_acting_as_role req = [] \<or> role = ar_acting_as_role req) \<and>
      role \<in> set (ls_approver_roles (i_levels r ! i_current_level r))) (c_roles c) = None"
    using assms(5) by (auto simp: find_None_iff may_approve_def)
  then have "authorise r actor c ActResume (ar_acting_as_role req)
      = Inl (Forbidden ''not authorised to act at the current level'')"
    using assms(3,5) by (auto simp: authorise_def authorisedRoleAt_def may_approve_def Let_def)
  moreover have "ByIDTx db rid = Inr r" using assms(1) by simp
  ultimately show ?thesis using assms(2,4) by (auto simp: Action_def)
qed

definition ex_db6 :: wf_db where
  "ex_db6 = fst (projr (Action ex_db2 2000 7 (Some ex_claims) 40 (ex_act ''return'')))"

lemma resume_refused_to_initiator_witness:
  "\<exists>r m. db_instances ex_db6 40 = Some r \<and> i_status r = StatusReturned \<and> i_initiator_id r = Some 5 \<and>
     Action ex_db6 5000 5 (Some (ex_claims\<lparr>c_roles := [''clerk'']\<rparr>)) 40 (ex_act ''resume'') = Inl (Forbidden m)"
proof -
  let ?c = "ex_claims\<lparr>c_roles := [''clerk'']\<rparr>"
  have s: "map_option i_status (db_instances ex_db6 40) = Some StatusReturned" by code_simp
  then obtain r where r: "db_instances ex_db6 40 = Some r" "i_status r = StatusReturned"
    using ex_row by blast
  have "map_option i_initiator_id (db_instances ex_db6 40) = Some (Some 5)" by code_simp
  with r have i: "i_initiator_id r = Some 5" by simp
  have "map_option (\<lambda>r. i_current_level r < length (i_levels r)) (db_instances ex_db6 40) = Some True"
    by code_simp
  with r have l: "i_current_level r < length (i_levels r)" by simp
  have "map_option (\<lambda>r. may_approve r 5 ?c) (db_instances ex_db6 40) = Some False" by code_simp
  with r have m: "\<not> may_approve r 5 ?c" by simp
  have p: "parse_action (ar_action (ex_act ''resume'')) = Some ActResume" by code_simp
  have "canActOnInstance r" using r by (simp add: canActOnInstance_def)
  from resume_refused_to_initiator [OF r(1) this l p m] r i show ?thesis by blast
qed

section \<open>Claims\<close>

text \<open>A claim excludes other users until it expires: after a successful claim the holder is the
  caller until \<open>now + claimTTL\<close>; a claim by anyone else up to then is refused with a conflict and
  leaves the row alone, a renewal by the holder succeeds, and after the expiry anyone may claim.\<close>

theorem Claim_exclusive:
  assumes "Claim db now u rid = Inr (db', i)" and "v \<noteq> uuid_Nil"
  shows "i_claimed_by i = Some u \<and> i_claim_expires i = Some (now + claimTTL) \<and>
    db_instances db' rid = Some i \<and>
    (v \<noteq> u \<and> later \<le> now + claimTTL \<longrightarrow> (\<exists>m. Claim db' later v rid = Inl (Conflict m))) \<and>
    (v = u \<or> now + claimTTL < later \<longrightarrow>
       (\<exists>db2 i2. Claim db' later v rid = Inr (db2, i2) \<and> i_claimed_by i2 = Some v))"
proof -
  from assms(1) obtain db1 where c: "ClaimTx db now rid u claimTTL = Inr (db1, i)"
    and d: "db_instances db' = db_instances db1"
    by (auto simp: Claim_def split: if_splits sum.splits wf_error.splits)
  from ClaimTx_InrD [OF c] d have i: "db_instances db' rid = Some i" "i_claimed_by i = Some u"
    "i_claim_expires i = Some (now + claimTTL)" by auto
  show ?thesis
    using i assms(2) by (auto simp: Claim_def ClaimTx_def claimable_def Let_def ByIDTx_def)
qed

theorem Claim_exclusive_witness:
  "\<exists>db i m. Claim ex_db3 5000 8 40 = Inr (db, i) \<and> Claim db 6000 7 40 = Inl (Conflict m)"
proof -
  have "\<not> isl (Claim ex_db3 5000 8 40)" by code_simp
  then obtain db i where c: "Claim ex_db3 5000 8 40 = Inr (db, i)"
    by (metis prod.collapse sum.collapse(2))
  from Claim_exclusive [OF c, of 7 6000] c show ?thesis by (auto simp: claimTTL_def)
qed

section \<open>Definitions\<close>

text \<open>In every reachable state a process kind has at most one active definition, no two
  versions of a kind coincide and no two definitions share an id.\<close>

theorem definitions_consistent:
  assumes "(wf_step P)\<^sup>*\<^sup>* wf_init s"
  shows "definitions_ok (sys_db s)"
  using reachable_inv [OF assms] by (simp add: sys_inv_def wf_inv_def)

theorem definitions_consistent_witness: "definitions_ok ex_db4 \<and> length (db_definitions ex_db4) = 1"
proof -
  have "length (db_definitions ex_db4) = 1" by code_simp
  then show ?thesis using definitions_consistent [OF ex_reach4] by simp
qed

section \<open>Refusals\<close>

text \<open>The refusals of the action handler, in its order: an unknown action, a missing identity, an
  unknown instance and a closed instance are refused whatever the rest of the request; a reject or
  return without comments and a reassignment without a target are refused once authorised.\<close>

lemma Action_refusals:
  "(parse_action (ar_action req) = None \<longrightarrow>
      Action db now actor claims rid req = Inl (BadRequest ''unsupported action'')) \<and>
   (parse_action (ar_action req) = Some a \<longrightarrow> claims = None \<longrightarrow>
      Action db now actor claims rid req = Inl Unauthorized) \<and>
   (parse_action (ar_action req) = Some a \<longrightarrow> claims = Some c \<longrightarrow> db_instances db rid = None \<longrightarrow>
      Action db now actor claims rid req = Inl WfNotFound) \<and>
   (parse_action (ar_action req) = Some a \<longrightarrow> claims = Some c \<longrightarrow> db_instances db rid = Some r \<longrightarrow>
      \<not> canActOnInstance r \<longrightarrow>
      Action db now actor claims rid req = Inl (BadRequest ''instance cannot accept actions'')) \<and>
   (parse_action (ar_action req) = Some a \<longrightarrow> claims = Some c \<longrightarrow> db_instances db rid = Some r \<longrightarrow>
      canActOnInstance r \<longrightarrow> authorise r actor c a (ar_acting_as_role req) = Inr role \<longrightarrow>
      i_current_level r < length (i_levels r) \<longrightarrow>
      a \<in> {ActReject, ActReturn} \<and> TrimSpace (ar_comments req) = [] \<or>
      a = ActReassign \<and> ar_reassign_to req = None \<longrightarrow>
      (\<exists>m. Action db now actor claims rid req = Inl (BadRequest m)))"
  by (auto simp: Action_def ByIDTx_def apply_action_def Let_def)

lemma Action_refusals_witness:
  "Action ex_db4 5000 7 (Some ex_claims) 40 (ex_act ''approve'')
     = Inl (BadRequest ''instance cannot accept actions'')"
proof -
  have p: "parse_action (ar_action (ex_act ''approve'')) = Some ActApprove" by code_simp
  obtain r where r: "db_instances ex_db4 40 = Some r" "i_status r = StatusApproved"
    using ex_row [OF ex_db4_status] by blast
  then have "\<not> canActOnInstance r" by (simp add: canActOnInstance_def)
  with Action_refusals [of "ex_act ''approve''" ex_db4 5000 7 "Some ex_claims" 40 ActApprove ex_claims r]
    p r show ?thesis by simp
qed

section \<open>Callbacks\<close>

text \<open>C27. Callbacks are for decisions only and their outcome is recorded once: in every reachable
  state, with any number of dispatcher replicas interleaved, an instance has a callback status
  exactly when it is decided and has a callback URL; a row is in the hands of at most one worker;
  at most one outcome (delivered or failed) is ever written to the action log, and once it is, the
  row shows it.\<close>

theorem callback_outcome_once:
  assumes "(wf_step P)\<^sup>*\<^sup>* wf_init s" and "db_instances (sys_db s) rid = Some r"
  shows "(i_callback_status r \<noteq> CbNone \<longleftrightarrow> isTerminal (i_status r) \<and> i_callback_url r \<noteq> []) \<and>
    distinct (map cd_id (sys_jobs s)) \<and> fired_for (sys_db s) rid \<le> 1 \<and>
    (fired_for (sys_db s) rid = 1 \<longrightarrow> decided_outcome (i_callback_status r))"
  using reachable_inv [OF assms(1)] assms(2)
  by (fastforce simp: sys_inv_def wf_inv_def row_ok_def callback_ok_def jobs_ok_def fired_ok_def)

theorem callback_outcome_once_witness:
  "\<exists>r. db_instances ex_db4 40 = Some r \<and> isTerminal (i_status r) \<and> i_callback_url r \<noteq> [] \<and>
     i_callback_status r \<noteq> CbNone \<and> fired_for ex_db4 40 \<le> 1"
proof -
  obtain r where r: "db_instances ex_db4 40 = Some r" "i_status r = StatusApproved"
    using ex_row [OF ex_db4_status] by blast
  have "map_option (\<lambda>r. i_callback_url r = []) (db_instances ex_db4 40) = Some False" by code_simp
  with r have u: "i_callback_url r \<noteq> []" by simp
  with r callback_outcome_once [OF ex_reach4, of 40 r] show ?thesis by (simp add: isTerminal_def)
qed



text \<open>The back-off before attempt \<open>n\<close> is \<open>2^n * 5s\<close> capped at one hour, for every attempt number
  the dispatcher can pass it (64-bit multiplication does not wrap there); it is positive and never
  decreases.\<close>

lemma computeBackoff_spec:
  assumes "n < maxAttempts"
  shows "computeBackoff n = min (2 ^ n * 5000000000) 3600000000000 \<and> 0 < computeBackoff n \<and>
    (\<forall>m\<le>n. computeBackoff m \<le> computeBackoff n)"
proof -
  have "computeBackoff m \<le> computeBackoff n" if "m \<le> n" for m
  proof -
    have "(2::int) ^ m * 5000000000 \<le> 2 ^ n * 5000000000" using that by (simp add: power_increasing)
    then have "min ((2::int) ^ m * 5000000000) 3600000000000 \<le> min (2 ^ n * 5000000000) 3600000000000"
      by (intro min.mono) simp_all
    then show ?thesis
      using computeBackoff_exact [of m] computeBackoff_exact [OF assms] that assms by simp
  qed
  then show ?thesis using computeBackoff_exact [OF assms] by auto
qed

lemma computeBackoff_spec_witness: "computeBackoff 3 = 40000000000"
  using computeBackoff_spec [of 3] by (simp add: maxAttempts_def)

text \<open>A row whose worker stopped between its claim and its outcome is never picked up again: while
  a row is in flight every drain leaves it exactly as it is, so its callback is neither retried nor
  failed.\<close>

lemma in_flight_stuck:
  assumes "db_instances db rid = Some r" and "i_callback_status r = CbInFlight"
  shows "db_instances (drain send ids now db) rid = Some r"
proof -
  have step: "db_instances (processRow send now d c) rid = Some r" if "db_instances d rid = Some r" for d c
  proof (cases "cd_id c = rid")
    case True
    with that assms(2) show ?thesis by (simp add: processRow_idle)
  next
    case False
    then show ?thesis
      using that by (auto simp: processRow_def record_outcome_other split: prod.splits option.splits
          dest!: claimRow_Some claimRow_None)
  qed
  have "db_instances (fold (\<lambda>c d. processRow send now d c) cs d) rid = Some r"
    if "db_instances d rid = Some r" for cs d
    using that by (induction cs arbitrary: d) (simp_all add: step)
  with assms(1) show ?thesis by (simp add: drain_def)
qed

lemma in_flight_stuck_witness:
  "let db = fst (claimRow ex_db4 (candidate_of (the (db_instances ex_db4 40))))
   in map_option i_callback_status (db_instances (drain (\<lambda>c i. Response 200 []) [40] 99999 db) 40)
      = Some CbInFlight"
proof -
  let ?db = "fst (claimRow ex_db4 (candidate_of (the (db_instances ex_db4 40))))"
  have "map_option i_callback_status (db_instances ?db 40) = Some CbInFlight" by code_simp
  then obtain r where "db_instances ?db 40 = Some r" "i_callback_status r = CbInFlight" by auto
  from in_flight_stuck [OF this, of "\<lambda>c i. Response 200 []" "[40]" 99999] this show ?thesis by simp
qed

end
