(* ===== verification/GoTime.thy ===== *)
theory GoTime
  imports Prelude
begin

text \<open>
  Calendar dates as Go's \<open>time\<close> package computes with them. \<open>time.Date\<close> normalises a month
  beyond twelve into the year and a day beyond the end of its month into the following months;
  \<open>AddDate(0, n, 0)\<close> adds to the month and normalises. Dates are ordered by year, month, day.
\<close>

datatype date = Date (d_year: int) (d_month: nat) (d_day: nat)

instantiation date :: linorder
begin

definition less_eq_date :: "date \<Rightarrow> date \<Rightarrow> bool" where
  "less_eq_date a b \<longleftrightarrow>
     d_year a < d_year b \<or> d_year a = d_year b \<and>
       (d_month a < d_month b \<or> d_month a = d_month b \<and> d_day a \<le> d_day b)"

definition less_date :: "date \<Rightarrow> date \<Rightarrow> bool" where
  "less_date a b \<longleftrightarrow>
     d_year a < d_year b \<or> d_year a = d_year b \<and>
       (d_month a < d_month b \<or> d_month a = d_month b \<and> d_day a < d_day b)"

instance
  by standard (auto simp: less_eq_date_def less_date_def date.expand)

end

definition is_leap :: "int \<Rightarrow> bool" where
  "is_leap y \<longleftrightarrow> y mod 4 = 0 \<and> (y mod 100 \<noteq> 0 \<or> y mod 400 = 0)"

definition days_in :: "int \<Rightarrow> nat \<Rightarrow> nat" where
  "days_in y m = (if m = 2 then (if is_leap y then 29 else 28)
     else if m \<in> {4, 6, 9, 11} then 30 else 31)"

lemma days_in_bounds: "28 \<le> days_in y m" "days_in y m \<le> 31"
  by (simp_all add: days_in_def)

lemma days_in_pos [simp]: "0 < days_in y m"
  by (simp add: days_in_def)

definition valid_date :: "date \<Rightarrow> bool" where
  "valid_date d \<longleftrightarrow> 1 \<le> d_month d \<and> d_month d \<le> 12 \<and> 1 \<le> d_day d \<and>
     d_day d \<le> days_in (d_year d) (d_month d)"

text \<open>Normalisation of the month, then of the day.\<close>

function norm_day :: "int \<Rightarrow> nat \<Rightarrow> nat \<Rightarrow> date" where
  "norm_day y m d =
     (if d \<le> days_in y m then Date y m d
      else if m < 12 then norm_day y (m + 1) (d - days_in y m)
      else norm_day (y + 1) 1 (d - days_in y m))"
  by pat_completeness auto
termination
  by (relation "measure (\<lambda>(y, m, d). d)") (simp_all add: not_le diff_less [OF days_in_pos less_trans [OF days_in_pos]])

declare norm_day.simps [simp del]

definition go_date :: "int \<Rightarrow> int \<Rightarrow> nat \<Rightarrow> date" where
  "go_date y m d = norm_day (y + (m - 1) div 12) (nat ((m - 1) mod 12) + 1) d"

definition add_months :: "date \<Rightarrow> int \<Rightarrow> date" where
  "add_months d n = go_date (d_year d) (int (d_month d) + n) (d_day d)"

lemma norm_day_id: "d \<le> days_in y m \<Longrightarrow> norm_day y m d = Date y m d"
  by (simp add: norm_day.simps)

lemma norm_day_valid:
  "1 \<le> m \<Longrightarrow> m \<le> 12 \<Longrightarrow> 1 \<le> d \<Longrightarrow> valid_date (norm_day y m d)"
proof (induction y m d rule: norm_day.induct)
  case (1 y m d)
  show ?case
    by (subst norm_day.simps) (use 1 in \<open>auto simp: valid_date_def not_le\<close>)
qed

lemma add_months_valid: "valid_date d \<Longrightarrow> valid_date (add_months d n)"
  unfolding add_months_def go_date_def
  by (rule norm_day_valid) (auto simp: valid_date_def intro: Suc_leI)

text \<open>The absolute month of a date; a month addition moves it by the number of months unless
  the day does not exist there, when it moves one further.\<close>

definition month_index :: "date \<Rightarrow> int" where
  "month_index d = 12 * d_year d + int (d_month d) - 1"

lemma add_months_day:
  assumes "valid_date d" "d_day d \<le> 28"
  shows "d_day (add_months d n) = d_day d \<and> month_index (add_months d n) = month_index d + n"
proof -
  have "d_day d \<le> days_in y m" for y m using assms(2) days_in_bounds(1) [of y m] by simp
  then show ?thesis
    by (simp add: add_months_def go_date_def norm_day_id month_index_def)
qed

end
