(* ===== verification/LedgerStore.thy ===== *)
theory LedgerStore
  imports Decimals GoTime "HOL-Library.List_Lexorder" "HOL-Library.Char_ord"
begin

text \<open>
  The general ledger's entities and stores (services/accounting/internal/domain/types.go,
  internal/store/coa_store.go, period_store.go, journal_store.go, fiscal_year_store.go,
  fiscal_year_proposal_store.go) for one tenant.

  An amount written to a \<open>numeric(18,2)\<close> column goes through the parameter \<open>N\<close>, the
  database's coercion to two places; what is relied on of it is the locale \<open>rounding 2 N\<close>. The
  CHECK and UNIQUE constraints of internal/db/migrations/0001_init.up.sql and
  0002_fiscal_year_closes.up.sql are the \<open>DbCheck\<close> and \<open>DbUnique\<close> errors. An error
  aborts the transaction, so an operation that fails has no new tables.
\<close>

section \<open>Entities\<close>

datatype account_class = ClassAsset | ClassLiability | ClassEquity | ClassIncome | ClassExpense

datatype normal_balance = NormalDebit | NormalCredit

record account =
  ac_id :: uuid
  ac_code :: string
  ac_name :: string
  ac_class :: account_class
  ac_type :: string
  ac_parent_id :: "uuid option"
  ac_normal_balance :: normal_balance
  ac_currency_code :: string
  ac_is_active :: bool
  ac_is_system_locked :: bool
  ac_description :: "string option"

datatype period_status = PeriodOpen | PeriodClosed

record period =
  pd_id :: uuid
  pd_year :: int
  pd_month :: nat
  pd_status :: period_status
  pd_opened_at :: "instant option"
  pd_opened_by :: "uuid option"
  pd_closed_at :: "instant option"
  pd_closed_by :: "uuid option"
  pd_notes :: string

datatype entry_status = EntryDraft | EntryPendingApproval | EntryPosted | EntryRejected

datatype entry_type = TypeAuto | TypeManual | TypeAdjustment | TypeReversal | TypeOpeningBalance

record journal_line =
  jl_line_no :: nat
  jl_account_id :: uuid
  jl_debit :: decimal
  jl_credit :: decimal
  jl_narration :: string

record journal_entry =
  je_id :: uuid
  je_entry_no :: "string option"
  je_entry_date :: date
  je_value_date :: date
  je_period_year :: int
  je_period_month :: nat
  je_entry_type :: entry_type
  je_source_module :: string
  je_source_ref :: string
  je_narration :: string
  je_status :: entry_status
  je_total_debits :: decimal
  je_total_credits :: decimal
  je_created_by :: "uuid option"
  je_posted_by :: "uuid option"
  je_posted_at :: "instant option"
  je_rejected_by :: "uuid option"
  je_rejected_at :: "instant option"
  je_rejection_reason :: string
  je_workflow_instance_id :: "uuid option"
  je_lines :: "journal_line list"

record fiscal_year_close =
  fc_year :: int
  fc_fy_start :: date
  fc_fy_end :: date
  fc_closing_entry_id :: uuid
  fc_total_income :: decimal
  fc_total_expense :: decimal
  fc_net_surplus :: decimal
  fc_income_accounts :: nat
  fc_expense_accounts :: nat
  fc_closed_by :: uuid
  fc_notes :: string

record gl_db =
  gl_accounts :: "account list"
  gl_periods :: "period list"
  gl_entries :: "journal_entry list"
  gl_closes :: "fiscal_year_close list"

datatype gl_error =
    ErrUnbalanced
  | ErrEmptyEntry
  | ErrBadLine nat
  | ErrNotEditable
  | GlNotFound
  | ErrPeriodClosed
  | ErrSystemLocked
  | ErrUnknownAccount string nat
  | ErrInactiveAccount string nat
  | ErrYearAlreadyClosed
  | DbCheck
  | DbUnique
  | GlBadRequest string
  | GlConflict string
  | GlUnauthorized

section \<open>Chart of accounts\<close>

definition GetByCodeTx :: "gl_db \<Rightarrow> string \<Rightarrow> gl_error + account" where
  "GetByCodeTx db code = (case find (\<lambda>a. ac_code a = code) (gl_accounts db) of
     None \<Rightarrow> Inl GlNotFound | Some a \<Rightarrow> Inr a)"

definition GetAccountTx :: "gl_db \<Rightarrow> uuid \<Rightarrow> gl_error + account" where
  "GetAccountTx db aid = (case find (\<lambda>a. ac_id a = aid) (gl_accounts db) of
     None \<Rightarrow> Inl GlNotFound | Some a \<Rightarrow> Inr a)"

record create_account_input =
  cai_code :: string
  cai_name :: string
  cai_class :: account_class
  cai_type :: string
  cai_parent_id :: "uuid option"
  cai_normal_balance :: normal_balance
  cai_currency_code :: string
  cai_is_active :: bool
  cai_description :: "string option"

definition CreateAccountTx :: "gl_db \<Rightarrow> uuid \<Rightarrow> create_account_input \<Rightarrow> gl_error + (gl_db \<times> account)" where
  "CreateAccountTx db new_id inp =
     (let a = \<lparr> ac_id = new_id, ac_code = cai_code inp, ac_name = cai_name inp,
                ac_class = cai_class inp, ac_type = cai_type inp,
                ac_parent_id = cai_parent_id inp, ac_normal_balance = cai_normal_balance inp,
                ac_currency_code = (if cai_currency_code inp = [] then ''KES'' else cai_currency_code inp),
                ac_is_active = cai_is_active inp, ac_is_system_locked = False,
                ac_description = cai_description inp \<rparr>
      in if cai_code inp \<in> ac_code ` set (gl_accounts db) then Inl DbUnique
         else Inr (db\<lparr>gl_accounts := gl_accounts db @ [a]\<rparr>, a))"

record update_account_input =
  uai_name :: string
  uai_type :: string
  uai_parent_id :: "uuid option"
  uai_is_active :: bool
  uai_description :: "string option"

definition UpdateAccountTx :: "gl_db \<Rightarrow> uuid \<Rightarrow> update_account_input \<Rightarrow> gl_error + (gl_db \<times> account)" where
  "UpdateAccountTx db aid inp =
     (case find (\<lambda>a. ac_id a = aid) (gl_accounts db) of
        None \<Rightarrow> Inl GlNotFound
      | Some a0 \<Rightarrow>
          if ac_is_system_locked a0 then Inl ErrSystemLocked
          else let db' = db\<lparr>gl_accounts := map (\<lambda>a. if ac_id a = aid \<and> \<not> ac_is_system_locked a
                 then a\<lparr>ac_name := uai_name inp, ac_type := uai_type inp,
                        ac_parent_id := uai_parent_id inp, ac_is_active := uai_is_active inp,
                        ac_description := uai_description inp\<rparr> else a) (gl_accounts db)\<rparr>
               in bind_res (GetAccountTx db' aid) (\<lambda>a. Inr (db', a)))"

section \<open>Periods\<close>

definition ForDateTx :: "gl_db \<Rightarrow> date \<Rightarrow> gl_error + period" where
  "ForDateTx db d = (case find (\<lambda>p. pd_year p = d_year d \<and> pd_month p = d_month d) (gl_periods db) of
     None \<Rightarrow> Inl GlNotFound | Some p \<Rightarrow> Inr p)"

text \<open>The period of a year and month, created open when there is none yet.\<close>

definition OpenOrCreateTx :: "gl_db \<Rightarrow> uuid \<Rightarrow> instant \<Rightarrow> int \<Rightarrow> nat \<Rightarrow> gl_db \<times> period" where
  "OpenOrCreateTx db new_id now year month =
     (case find (\<lambda>p. pd_year p = year \<and> pd_month p = month) (gl_periods db) of
        Some p \<Rightarrow> (db, p)
      | None \<Rightarrow>
          (let p = \<lparr> pd_id = new_id, pd_year = year, pd_month = month, pd_status = PeriodOpen,
                     pd_opened_at = Some now, pd_opened_by = None, pd_closed_at = None,
                     pd_closed_by = None, pd_notes = [] \<rparr>
           in (db\<lparr>gl_periods := gl_periods db @ [p]\<rparr>, p)))"

definition ClosePeriodTx :: "gl_db \<Rightarrow> instant \<Rightarrow> uuid \<Rightarrow> uuid \<Rightarrow> string \<Rightarrow> gl_error + gl_db" where
  "ClosePeriodTx db now pid closedBy notes =
     (if \<exists>p\<in>set (gl_periods db). pd_id p = pid \<and> pd_status p = PeriodOpen
      then Inr (db\<lparr>gl_periods := map (\<lambda>p. if pd_id p = pid \<and> pd_status p = PeriodOpen
             then p\<lparr>pd_status := PeriodClosed, pd_closed_at := Some now,
                    pd_closed_by := Some closedBy, pd_notes := notes\<rparr> else p) (gl_periods db)\<rparr>)
      else Inl GlNotFound)"

definition newline :: string where
  "newline = [char_of (10::nat)]"

definition ReopenTx :: "gl_db \<Rightarrow> instant \<Rightarrow> uuid \<Rightarrow> uuid \<Rightarrow> string \<Rightarrow> gl_error + gl_db" where
  "ReopenTx db now pid openedBy reason =
     (if \<exists>p\<in>set (gl_periods db). pd_id p = pid \<and> pd_status p = PeriodClosed
      then Inr (db\<lparr>gl_periods := map (\<lambda>p. if pd_id p = pid \<and> pd_status p = PeriodClosed
             then p\<lparr>pd_status := PeriodOpen, pd_closed_at := None, pd_closed_by := None,
                    pd_opened_at := Some now, pd_opened_by := Some openedBy,
                    pd_notes := (if reason = [] then pd_notes p
                      else pd_notes p @ newline @ ''Re-opened: '' @ reason)\<rparr>
             else p) (gl_periods db)\<rparr>)
      else Inl GlNotFound)"

definition EnsureOpenForDateTx ::
  "gl_db \<Rightarrow> uuid \<Rightarrow> instant \<Rightarrow> date \<Rightarrow> gl_error + (gl_db \<times> period)" where
  "EnsureOpenForDateTx db new_id now d =
     (let (db', p) = OpenOrCreateTx db new_id now (d_year d) (d_month d)
      in if pd_status p \<noteq> PeriodOpen then Inl ErrPeriodClosed else Inr (db', p))"

section \<open>Journal\<close>

record entry_line_input =
  el_account_id :: uuid
  el_debit :: decimal
  el_credit :: decimal
  el_narration :: string

text \<open>
  The loop of \<open>validateLines\<close>, with the index of the line and the running totals, then the
  comparison of the totals.
\<close>

fun validate_from ::
  "nat \<Rightarrow> decimal \<Rightarrow> decimal \<Rightarrow> entry_line_input list \<Rightarrow> gl_error + (decimal \<times> decimal)" where
  "validate_from i totalD totalC [] =
     (if totalD \<noteq> totalC then Inl ErrUnbalanced else Inr (totalD, totalC))"
| "validate_from i totalD totalC (el # els) =
     (let dPos = el_debit el > 0; cPos = el_credit el > 0
      in if dPos = cPos then Inl (ErrBadLine (i + 1))
         else validate_from (i + 1) (totalD + el_debit el) (totalC + el_credit el) els)"

definition validateLines :: "entry_line_input list \<Rightarrow> gl_error + (decimal \<times> decimal)" where
  "validateLines lines = (if length lines < 2 then Inl ErrEmptyEntry else validate_from 0 0 0 lines)"

text \<open>
  The line as stored: both amounts go through the column type, and the table checks that they
  are not negative and that exactly one is positive.
\<close>

definition store_line :: "(decimal \<Rightarrow> decimal) \<Rightarrow> nat \<Rightarrow> entry_line_input \<Rightarrow> journal_line" where
  "store_line N no el = \<lparr> jl_line_no = no, jl_account_id = el_account_id el,
     jl_debit = N (el_debit el), jl_credit = N (el_credit el), jl_narration = el_narration el \<rparr>"

definition line_check :: "journal_line \<Rightarrow> bool" where
  "line_check l \<longleftrightarrow> jl_debit l \<ge> 0 \<and> jl_credit l \<ge> 0 \<and>
     (jl_debit l > 0 \<and> jl_credit l = 0 \<or> jl_credit l > 0 \<and> jl_debit l = 0)"

definition store_lines :: "(decimal \<Rightarrow> decimal) \<Rightarrow> entry_line_input list \<Rightarrow> gl_error + journal_line list" where
  "store_lines N lns =
     (let ls = map (\<lambda>(i, el). store_line N (i + 1) el) (zip [0..<length lns] lns)
      in if list_all line_check ls then Inr ls else Inl DbCheck)"

definition entry_no_of :: "nat \<Rightarrow> string" where
  "entry_no_of n = ''JE-'' @ pad_left 6 (show_nat n)"

text \<open>The number in an entry number of the form \<open>JE-[0-9]+\<close>, as the query's CASE reads it.\<close>

definition entry_no_value :: "string \<Rightarrow> nat option" where
  "entry_no_value s =
     (if take 3 s = ''JE-'' \<and> drop 3 s \<noteq> [] \<and> list_all is_digit (drop 3 s)
      then Some (read_digits (drop 3 s)) else None)"

definition entry_values :: "journal_entry list \<Rightarrow> nat list" where
  "entry_values es = List.map_filter (\<lambda>e. Option.bind (je_entry_no e) entry_no_value) es"

definition nextEntryNoTx :: "gl_db \<Rightarrow> string" where
  "nextEntryNoTx db = entry_no_of (fold max (entry_values (gl_entries db)) 0 + 1)"

definition GetEntryTx :: "gl_db \<Rightarrow> uuid \<Rightarrow> gl_error + journal_entry" where
  "GetEntryTx db eid = (case find (\<lambda>e. je_id e = eid) (gl_entries db) of
     None \<Rightarrow> Inl GlNotFound | Some e \<Rightarrow> Inr e)"

record create_entry_input =
  ce_entry_date :: date
  ce_value_date :: date
  ce_entry_type :: entry_type
  ce_narration :: string
  ce_lines :: "entry_line_input list"
  ce_created_by :: "uuid option"

definition CreateDraftTx ::
  "(decimal \<Rightarrow> decimal) \<Rightarrow> gl_db \<Rightarrow> uuid \<Rightarrow> create_entry_input \<Rightarrow> gl_error + (gl_db \<times> journal_entry)" where
  "CreateDraftTx N db new_id inp =
     bind_res (validateLines (ce_lines inp)) (\<lambda>(totalD, totalC).
     bind_res (ensure (N totalD \<ge> 0 \<and> N totalC \<ge> 0) DbCheck) (\<lambda>_.
     bind_res (store_lines N (ce_lines inp)) (\<lambda>ls.
     let e = \<lparr> je_id = new_id, je_entry_no = None, je_entry_date = ce_entry_date inp,
               je_value_date = ce_value_date inp, je_period_year = d_year (ce_entry_date inp),
               je_period_month = d_month (ce_entry_date inp), je_entry_type = ce_entry_type inp,
               je_source_module = [], je_source_ref = [], je_narration = ce_narration inp,
               je_status = EntryPendingApproval, je_total_debits = N totalD,
               je_total_credits = N totalC, je_created_by = ce_created_by inp, je_posted_by = None,
               je_posted_at = None, je_rejected_by = None, je_rejected_at = None,
               je_rejection_reason = [], je_workflow_instance_id = None, je_lines = ls \<rparr>
     in Inr (db\<lparr>gl_entries := gl_entries db @ [e]\<rparr>, e))))"

text \<open>The conditional update of one entry; an update that touches no row is \<open>ErrNotEditable\<close>.\<close>

definition pending_row :: "gl_db \<Rightarrow> uuid \<Rightarrow> bool" where
  "pending_row db eid \<longleftrightarrow>
     (\<exists>e\<in>set (gl_entries db). je_id e = eid \<and> je_status e = EntryPendingApproval)"

definition update_pending :: "uuid \<Rightarrow> (journal_entry \<Rightarrow> journal_entry) \<Rightarrow> gl_db \<Rightarrow> gl_db" where
  "update_pending eid f db = db\<lparr>gl_entries := map (\<lambda>e.
     if je_id e = eid \<and> je_status e = EntryPendingApproval then f e else e) (gl_entries db)\<rparr>"

definition ApproveAndPostTx ::
  "gl_db \<Rightarrow> instant \<Rightarrow> uuid \<Rightarrow> uuid \<Rightarrow> gl_error + (gl_db \<times> journal_entry)" where
  "ApproveAndPostTx db now eid approver =
     (let entryNo = nextEntryNoTx db
      in if \<not> pending_row db eid then Inl ErrNotEditable
         else let db' = update_pending eid (\<lambda>e. e\<lparr>je_status := EntryPosted,
                    je_entry_no := Some entryNo, je_posted_by := Some approver,
                    je_posted_at := Some now\<rparr>) db
              in bind_res (GetEntryTx db' eid) (\<lambda>e. Inr (db', e)))"

definition RejectTx :: "gl_db \<Rightarrow> instant \<Rightarrow> uuid \<Rightarrow> uuid \<Rightarrow> string \<Rightarrow> gl_error + gl_db" where
  "RejectTx db now eid rejector reason =
     (if \<not> pending_row db eid then Inl ErrNotEditable
      else Inr (update_pending eid (\<lambda>e. e\<lparr>je_status := EntryRejected,
             je_rejected_by := Some rejector, je_rejected_at := Some now,
             je_rejection_reason := reason\<rparr>) db))"

record insert_posted_input =
  ip_entry_date :: date
  ip_value_date :: date
  ip_entry_type :: entry_type
  ip_source_module :: string
  ip_source_ref :: string
  ip_narration :: string
  ip_lines :: "entry_line_input list"
  ip_posted_by :: "uuid option"

definition InsertPostedTx ::
  "(decimal \<Rightarrow> decimal) \<Rightarrow> gl_db \<Rightarrow> uuid \<Rightarrow> instant \<Rightarrow> insert_posted_input
    \<Rightarrow> gl_error + (gl_db \<times> journal_entry)" where
  "InsertPostedTx N db new_id now inp =
     bind_res (validateLines (ip_lines inp)) (\<lambda>(totalD, totalC).
     bind_res (ensure (N totalD \<ge> 0 \<and> N totalC \<ge> 0) DbCheck) (\<lambda>_.
     bind_res (store_lines N (ip_lines inp)) (\<lambda>ls.
     let e = \<lparr> je_id = new_id, je_entry_no = Some (nextEntryNoTx db),
               je_entry_date = ip_entry_date inp, je_value_date = ip_value_date inp,
               je_period_year = d_year (ip_entry_date inp),
               je_period_month = d_month (ip_entry_date inp), je_entry_type = ip_entry_type inp,
               je_source_module = ip_source_module inp, je_source_ref = ip_source_ref inp,
               je_narration = ip_narration inp, je_status = EntryPosted,
               je_total_debits = N totalD, je_total_credits = N totalC, je_created_by = None,
               je_posted_by = ip_posted_by inp, je_posted_at = Some now, je_rejected_by = None,
               je_rejected_at = None, je_rejection_reason = [], je_workflow_instance_id = None,
               je_lines = ls \<rparr>
     in Inr (db\<lparr>gl_entries := gl_entries db @ [e]\<rparr>, e))))"

section \<open>Fiscal-year close\<close>

definition IsClosedTx :: "gl_db \<Rightarrow> int \<Rightarrow> bool" where
  "IsClosedTx db year \<longleftrightarrow> (\<exists>c\<in>set (gl_closes db). fc_year c = year)"

record closing_line =
  cl_account_code :: string
  cl_account_id :: uuid
  cl_account_name :: string
  cl_class :: account_class
  cl_balance :: decimal

text \<open>
  The movement of an account up to a date: debits less credits over the lines of the posted
  entries dated on or before it.
\<close>

definition account_net :: "gl_db \<Rightarrow> uuid \<Rightarrow> date \<Rightarrow> decimal" where
  "account_net db aid asOf = sum_list (map (\<lambda>e.
     sum_list (map (\<lambda>l. jl_debit l - jl_credit l)
       (filter (\<lambda>l. jl_account_id l = aid) (je_lines e))))
     (filter (\<lambda>e. je_status e = EntryPosted \<and> je_entry_date e \<le> asOf) (gl_entries db)))"

definition PLBalancesAsOfTx :: "gl_db \<Rightarrow> date \<Rightarrow> closing_line list" where
  "PLBalancesAsOfTx db asOf =
     (let accts = sort_key ac_code (filter (\<lambda>a. ac_class a \<in> {ClassIncome, ClassExpense} \<and> ac_is_active a)
                    (gl_accounts db));
          line = (\<lambda>a. let net = account_net db (ac_id a) asOf in
            \<lparr> cl_account_code = ac_code a, cl_account_id = ac_id a, cl_account_name = ac_name a,
              cl_class = ac_class a,
              cl_balance = (if ac_class a = ClassIncome then - net else net) \<rparr>)
      in filter (\<lambda>c. cl_balance c \<noteq> 0) (map line accts))"

definition RecordCloseTx :: "(decimal \<Rightarrow> decimal) \<Rightarrow> gl_db \<Rightarrow> fiscal_year_close \<Rightarrow> gl_error + (gl_db \<times> fiscal_year_close)" where
  "RecordCloseTx N db c =
     (if IsClosedTx db (fc_year c) then Inl DbUnique
      else Inr (db\<lparr>gl_closes := gl_closes db @
        [c\<lparr>fc_total_income := N (fc_total_income c), fc_total_expense := N (fc_total_expense c),
           fc_net_surplus := N (fc_net_surplus c)\<rparr>]\<rparr>, c))"

definition LockAllPeriodsInYearTx :: "gl_db \<Rightarrow> instant \<Rightarrow> int \<Rightarrow> uuid \<Rightarrow> gl_db" where
  "LockAllPeriodsInYearTx db now year user = db\<lparr>gl_periods := map (\<lambda>p.
     if pd_year p = year \<and> pd_status p = PeriodOpen
     then p\<lparr>pd_status := PeriodClosed,
            pd_closed_at := Some (the_default now (pd_closed_at p)),
            pd_closed_by := Some (the_default user (pd_closed_by p)),
            pd_notes := pd_notes p @ newline @ ''Locked by year-end close''\<rparr>
     else p) (gl_periods db)\<rparr>"

end
