(* ===== verification/LedgerHandlers.thy ===== *)
theory LedgerHandlers
  imports LedgerStore
begin

text \<open>
  The ledger's operations: the posting engine (services/accounting/internal/posting/engine.go),
  the internal posting endpoint (internal/handler/internal_post.go), manual journals with
  maker and checker (internal/handler/journal.go, the resolve callback of journal_workflow.go),
  periods, the chart of accounts and the fiscal-year close (internal/handler/periods.go, coa.go,
  fiscal_year.go).

  A handler that runs more than one transaction returns the tables as they are at its end
  together with its result, since an error after a commit does not undo it.
\<close>

section \<open>Posting engine\<close>

record post_line =
  pl_account_code :: string
  pl_debit :: decimal
  pl_credit :: decimal
  pl_narration :: string

record post_input =
  pi_entry_date :: "date option"
  pi_value_date :: "date option"
  pi_entry_type :: "entry_type option"
  pi_source_module :: string
  pi_source_ref :: string
  pi_narration :: string
  pi_lines :: "post_line list"
  pi_posted_by :: "uuid option"

text \<open>The resolution loop, with its cache from account code to id.\<close>

fun resolve_lines ::
  "gl_db \<Rightarrow> nat \<Rightarrow> (string \<times> uuid) list \<Rightarrow> post_line list \<Rightarrow> gl_error + entry_line_input list" where
  "resolve_lines db i cache [] = Inr []"
| "resolve_lines db i cache (l # ls) =
     (case map_of cache (pl_account_code l) of
        Some aid \<Rightarrow>
          bind_res (resolve_lines db (i + 1) cache ls) (\<lambda>es.
            Inr (\<lparr> el_account_id = aid, el_debit = pl_debit l, el_credit = pl_credit l,
                   el_narration = pl_narration l \<rparr> # es))
      | None \<Rightarrow>
          (case GetByCodeTx db (pl_account_code l) of
             Inl e \<Rightarrow> Inl (if e = GlNotFound then ErrUnknownAccount (pl_account_code l) (i + 1) else e)
           | Inr a \<Rightarrow>
               if \<not> ac_is_active a then Inl (ErrInactiveAccount (pl_account_code l) (i + 1))
               else bind_res (resolve_lines db (i + 1) ((pl_account_code l, ac_id a) # cache) ls) (\<lambda>es.
                 Inr (\<lparr> el_account_id = ac_id a, el_debit = pl_debit l, el_credit = pl_credit l,
                        el_narration = pl_narration l \<rparr> # es))))"

text \<open>\<open>Engine.PostTx\<close>; the ids of the rows it may create and the clock are arguments.\<close>

definition PostTx ::
  "(decimal \<Rightarrow> decimal) \<Rightarrow> gl_db \<Rightarrow> uuid \<Rightarrow> uuid \<Rightarrow> instant \<Rightarrow> date \<Rightarrow> post_input
    \<Rightarrow> gl_error + (gl_db \<times> journal_entry)" where
  "PostTx N db new_pid new_eid now today inp =
     (let entryDate = the_default today (pi_entry_date inp);
          valueDate = the_default entryDate (pi_value_date inp);
          entryType = the_default TypeAuto (pi_entry_type inp)
      in bind_res (EnsureOpenForDateTx db new_pid now entryDate) (\<lambda>(db1, _).
         bind_res (resolve_lines db1 0 [] (pi_lines inp)) (\<lambda>storeLines.
         InsertPostedTx N db1 new_eid now
           \<lparr> ip_entry_date = entryDate, ip_value_date = valueDate, ip_entry_type = entryType,
             ip_source_module = pi_source_module inp, ip_source_ref = pi_source_ref inp,
             ip_narration = pi_narration inp, ip_lines = storeLines,
             ip_posted_by = pi_posted_by inp \<rparr>)))"

section \<open>The internal posting endpoint\<close>

text \<open>\<open>time.Parse("2006-01-02", s)\<close>.\<close>

definition parse_date :: "string \<Rightarrow> date option" where
  "parse_date s =
     (if length s = 10 \<and> s ! 4 = CHR ''-'' \<and> s ! 7 = CHR ''-'' \<and>
         list_all is_digit (take 4 s @ take 2 (drop 5 s) @ drop 8 s)
      then let d = Date (int (read_digits (take 4 s))) (read_digits (take 2 (drop 5 s)))
                        (read_digits (drop 8 s))
           in if valid_date d then Some d else None
      else None)"

definition parseAmt :: "decimal_lib \<Rightarrow> string \<Rightarrow> string + decimal" where
  "parseAmt D s =
     (if s = [] then Inr 0
      else case dParse D s of
          None \<Rightarrow> Inl ''must be a decimal number''
        | Some d \<Rightarrow> if d < 0 then Inl ''must be non-negative'' else Inr d)"

record post_line_dto =
  dl_account_code :: string
  dl_debit :: string
  dl_credit :: string
  dl_narration :: string

record post_request =
  pq_tenant_id :: uuid
  pq_entry_date :: string
  pq_value_date :: string
  pq_source_module :: string
  pq_source_ref :: string
  pq_narration :: string
  pq_lines :: "post_line_dto list"

definition errLine :: "nat \<Rightarrow> string \<Rightarrow> gl_error" where
  "errLine i m = GlBadRequest (''line '' @ show_nat (i + 1) @ '': '' @ m)"

fun parsePostLines :: "decimal_lib \<Rightarrow> nat \<Rightarrow> post_line_dto list \<Rightarrow> gl_error + post_line list" where
  "parsePostLines D i [] = Inr []"
| "parsePostLines D i (l # ls) =
     (if dl_account_code l = [] then Inl (errLine i ''account_code is required'')
      else case parseAmt D (dl_debit l) of
          Inl m \<Rightarrow> Inl (errLine i (''debit '' @ m))
        | Inr d \<Rightarrow>
          (case parseAmt D (dl_credit l) of
             Inl m \<Rightarrow> Inl (errLine i (''credit '' @ m))
           | Inr c \<Rightarrow> bind_res (parsePostLines D (i + 1) ls) (\<lambda>ps.
               Inr (\<lparr> pl_account_code = dl_account_code l, pl_debit = d, pl_credit = c,
                      pl_narration = dl_narration l \<rparr> # ps))))"

definition opt_date :: "date \<Rightarrow> string \<Rightarrow> string \<Rightarrow> gl_error + date" where
  "opt_date dflt s m = (if s = [] then Inr dflt
     else case parse_date s of None \<Rightarrow> Inl (GlBadRequest m) | Some d \<Rightarrow> Inr d)"

definition validate_post ::
  "decimal_lib \<Rightarrow> date \<Rightarrow> post_request \<Rightarrow> gl_error + (date \<times> date \<times> post_line list)" where
  "validate_post D today req =
     bind_res (ensure (pq_tenant_id req \<noteq> uuid_Nil) (GlBadRequest ''tenant_id is required'')) (\<lambda>_.
     bind_res (ensure (pq_source_module req \<noteq> [] \<and> pq_source_ref req \<noteq> [])
       (GlBadRequest ''source_module and source_ref are required'')) (\<lambda>_.
     bind_res (ensure (pq_narration req \<noteq> []) (GlBadRequest ''narration is required'')) (\<lambda>_.
     bind_res (ensure (2 \<le> length (pq_lines req)) (GlBadRequest ''at least two lines required'')) (\<lambda>_.
     bind_res (opt_date today (pq_entry_date req) ''entry_date must be YYYY-MM-DD'') (\<lambda>entryDate.
     bind_res (opt_date entryDate (pq_value_date req) ''value_date must be YYYY-MM-DD'') (\<lambda>valueDate.
     bind_res (parsePostLines D 0 (pq_lines req)) (\<lambda>lines.
       Inr (entryDate, valueDate, lines))))))))"

text \<open>The two transactions of the endpoint: the look-up by source, and the post.\<close>

definition find_posted :: "gl_db \<Rightarrow> string \<Rightarrow> string \<Rightarrow> journal_entry option" where
  "find_posted db m r = find (\<lambda>e. je_source_module e = m \<and> je_source_ref e = r \<and>
     je_status e = EntryPosted) (gl_entries db)"

text \<open>The text of an error; the amounts \<open>ErrUnbalanced\<close> appends are left out.\<close>

definition err_text :: "gl_error \<Rightarrow> string" where
  "err_text e = (case e of
     ErrUnbalanced \<Rightarrow> ''journal entry is unbalanced (total debits != total credits)''
   | ErrEmptyEntry \<Rightarrow> ''journal entry must have at least two lines''
   | ErrBadLine i \<Rightarrow> ''journal line must have exactly one of debit/credit > 0 (line '' @ show_nat i @ '')''
   | ErrNotEditable \<Rightarrow> ''journal entry is not in an editable state''
   | ErrPeriodClosed \<Rightarrow> ''accounting period is closed''
   | ErrUnknownAccount c i \<Rightarrow> ''posting: account code not found in chart of accounts: ''
       @ [CHR 0x22] @ c @ [CHR 0x22] @ '' (line '' @ show_nat i @ '')''
   | ErrInactiveAccount c i \<Rightarrow> ''posting: account is inactive: ''
       @ [CHR 0x22] @ c @ [CHR 0x22] @ '' (line '' @ show_nat i @ '')''
   | _ \<Rightarrow> [])"

definition mapPostingErr :: "gl_error \<Rightarrow> gl_error" where
  "mapPostingErr e = (case e of
     ErrPeriodClosed \<Rightarrow> GlConflict ''accounting period is closed for the entry_date''
   | ErrUnknownAccount c i \<Rightarrow> GlBadRequest (err_text e)
   | ErrInactiveAccount c i \<Rightarrow> GlBadRequest (err_text e)
   | ErrUnbalanced \<Rightarrow> GlBadRequest (err_text e)
   | ErrEmptyEntry \<Rightarrow> GlBadRequest (err_text e)
   | ErrBadLine i \<Rightarrow> GlBadRequest (err_text e)
   | _ \<Rightarrow> e)"

definition post_write ::
  "(decimal \<Rightarrow> decimal) \<Rightarrow> gl_db \<Rightarrow> uuid \<Rightarrow> uuid \<Rightarrow> instant \<Rightarrow> date \<Rightarrow> post_request
    \<Rightarrow> date \<times> date \<times> post_line list \<Rightarrow> gl_error + (gl_db \<times> journal_entry)" where
  "post_write N db new_pid new_eid now today req v =
     (let (entryDate, valueDate, lines) = v
      in case PostTx N db new_pid new_eid now today
          \<lparr> pi_entry_date = Some entryDate, pi_value_date = Some valueDate,
            pi_entry_type = Some TypeAuto, pi_source_module = pq_source_module req,
            pi_source_ref = pq_source_ref req, pi_narration = pq_narration req,
            pi_lines = lines, pi_posted_by = None \<rparr> of
          Inl e \<Rightarrow> Inl (mapPostingErr e) | Inr r \<Rightarrow> Inr r)"

datatype post_outcome = Idempotent journal_entry | Created journal_entry

definition Post ::
  "decimal_lib \<Rightarrow> (decimal \<Rightarrow> decimal) \<Rightarrow> string \<Rightarrow> string \<Rightarrow> gl_db \<Rightarrow> uuid \<Rightarrow> uuid \<Rightarrow> instant \<Rightarrow> date
    \<Rightarrow> post_request \<Rightarrow> gl_error + (gl_db \<times> post_outcome)" where
  "Post D N internalToken header db new_pid new_eid now today req =
     (if internalToken \<noteq> [] \<and> header \<noteq> internalToken then Inl GlUnauthorized
      else bind_res (validate_post D today req) (\<lambda>v.
        case find_posted db (pq_source_module req) (pq_source_ref req) of
          Some e \<Rightarrow> Inr (db, Idempotent e)
        | None \<Rightarrow> bind_res (post_write N db new_pid new_eid now today req v) (\<lambda>(db', e).
            Inr (db', Created e))))"

section \<open>Manual journals\<close>

record create_entry_req =
  cq_entry_date :: string
  cq_value_date :: string
  cq_entry_type :: string
  cq_narration :: string
  cq_lines :: "post_line_dto list"

definition parse_entry_type :: "string \<Rightarrow> entry_type option" where
  "parse_entry_type s =
     (if s = [] \<or> s = ''manual'' then Some TypeManual
      else if s = ''adjustment'' then Some TypeAdjustment else None)"

text \<open>The loop over the requested lines: stored lines, total debit, and whether equity is touched.\<close>

fun draft_lines ::
  "decimal_lib \<Rightarrow> gl_db \<Rightarrow> nat \<Rightarrow> post_line_dto list \<Rightarrow> gl_error + (entry_line_input list \<times> decimal \<times> bool)" where
  "draft_lines D db i [] = Inr ([], 0, False)"
| "draft_lines D db i (l # ls) =
     (case parseAmt D (dl_debit l) of
        Inl m \<Rightarrow> Inl (errLine i (''debit '' @ m))
      | Inr d \<Rightarrow>
        (case parseAmt D (dl_credit l) of
           Inl m \<Rightarrow> Inl (errLine i (''credit '' @ m))
         | Inr c \<Rightarrow>
           (if dl_account_code l = [] then Inl (errLine i ''account_code is required'')
            else case GetByCodeTx db (dl_account_code l) of
                Inl _ \<Rightarrow> Inl (errLine i (''unknown account_code '' @ dl_account_code l))
              | Inr a \<Rightarrow> bind_res (draft_lines D db (i + 1) ls) (\<lambda>(es, total, eq).
                  Inr (\<lparr> el_account_id = ac_id a, el_debit = d, el_credit = c,
                         el_narration = dl_narration l \<rparr> # es,
                       d + total, ac_class a = ClassEquity \<or> eq)))))"

definition mapStoreErr :: "gl_error \<Rightarrow> gl_error" where
  "mapStoreErr e = (case e of
     ErrUnbalanced \<Rightarrow> GlBadRequest (err_text e)
   | ErrEmptyEntry \<Rightarrow> GlBadRequest (err_text e)
   | ErrBadLine i \<Rightarrow> GlBadRequest (err_text e)
   | ErrNotEditable \<Rightarrow> GlConflict (err_text e)
   | _ \<Rightarrow> e)"

definition map_err :: "('e \<Rightarrow> 'e) \<Rightarrow> 'e + 'a \<Rightarrow> 'e + 'a" where
  "map_err f r = (case r of Inl e \<Rightarrow> Inl (f e) | Inr x \<Rightarrow> Inr x)"

definition create_draft ::
  "decimal_lib \<Rightarrow> (decimal \<Rightarrow> decimal) \<Rightarrow> gl_db \<Rightarrow> uuid \<Rightarrow> uuid \<Rightarrow> instant \<Rightarrow> uuid \<Rightarrow> create_entry_req
    \<Rightarrow> gl_error + (gl_db \<times> journal_entry \<times> decimal \<times> bool)" where
  "create_draft D N db new_pid new_eid now actor req =
     bind_res (ensure (cq_narration req \<noteq> []) (GlBadRequest ''narration is required'')) (\<lambda>_.
     case parse_date (cq_entry_date req) of
       None \<Rightarrow> Inl (GlBadRequest ''entry_date must be YYYY-MM-DD'')
     | Some entryDate \<Rightarrow>
     bind_res (opt_date entryDate (cq_value_date req) ''value_date must be YYYY-MM-DD'') (\<lambda>valueDate.
     case parse_entry_type (cq_entry_type req) of
       None \<Rightarrow> Inl (GlBadRequest ''entry_type must be manual or adjustment'')
     | Some entryType \<Rightarrow>
     bind_res (ensure (2 \<le> length (cq_lines req)) (GlBadRequest ''at least two lines are required'')) (\<lambda>_.
     bind_res (draft_lines D db 0 (cq_lines req)) (\<lambda>(lines, totalDebit, affectsEquity).
     bind_res (map_err (\<lambda>e. GlConflict (err_text e))
         (EnsureOpenForDateTx db new_pid now entryDate)) (\<lambda>(db1, _).
     bind_res (map_err mapStoreErr (CreateDraftTx N db1 new_eid
         \<lparr> ce_entry_date = entryDate, ce_value_date = valueDate, ce_entry_type = entryType,
           ce_narration = cq_narration req, ce_lines = lines,
           ce_created_by = (if actor = uuid_Nil then None else Some actor) \<rparr>)) (\<lambda>(db2, e).
       Inr (db2, e, totalDebit, affectsEquity)))))))"

definition set_workflow_instance :: "uuid \<Rightarrow> uuid \<Rightarrow> gl_db \<Rightarrow> gl_db" where
  "set_workflow_instance eid wid db = db\<lparr>gl_entries := map (\<lambda>e.
     if je_id e = eid then e\<lparr>je_workflow_instance_id := Some wid\<rparr> else e) (gl_entries db)\<rparr>"

text \<open>
  \<open>JournalHandler.Create\<close>. The workflow service is a parameter: whether it is configured, and
  its answer to the creation of an instance for the entry, its amount and its equity flag.
\<close>

definition CreateJournal ::
  "decimal_lib \<Rightarrow> (decimal \<Rightarrow> decimal) \<Rightarrow> (journal_entry \<Rightarrow> decimal \<Rightarrow> bool \<Rightarrow> gl_error + uuid) option
    \<Rightarrow> gl_db \<Rightarrow> uuid \<Rightarrow> uuid \<Rightarrow> instant \<Rightarrow> uuid \<Rightarrow> create_entry_req
    \<Rightarrow> gl_db \<times> (gl_error + journal_entry)" where
  "CreateJournal D N workflow db new_pid new_eid now actor req =
     (case create_draft D N db new_pid new_eid now actor req of
        Inl e \<Rightarrow> (db, Inl e)
      | Inr (db1, entry, totalDebit, affectsEquity) \<Rightarrow>
          (case workflow of
             None \<Rightarrow> (db1, Inr entry)
           | Some create \<Rightarrow>
               (case create entry totalDebit affectsEquity of
                  Inl e \<Rightarrow> (db1, Inl e)
                | Inr wid \<Rightarrow> (set_workflow_instance (je_id entry) wid db1,
                             Inr (entry\<lparr>je_workflow_instance_id := Some wid\<rparr>)))))"

definition entry_status_text :: "entry_status \<Rightarrow> string" where
  "entry_status_text st = (case st of EntryDraft \<Rightarrow> ''draft''
     | EntryPendingApproval \<Rightarrow> ''pending_approval'' | EntryPosted \<Rightarrow> ''posted''
     | EntryRejected \<Rightarrow> ''rejected'')"

definition ApproveJournal ::
  "gl_db \<Rightarrow> uuid \<Rightarrow> instant \<Rightarrow> uuid \<Rightarrow> uuid \<Rightarrow> gl_error + (gl_db \<times> journal_entry)" where
  "ApproveJournal db new_pid now actor eid =
     bind_res (GetEntryTx db eid) (\<lambda>entry.
     bind_res (ensure (je_status entry = EntryPendingApproval) (GlConflict (''entry is '' @ entry_status_text (je_status entry)))) (\<lambda>_.
     bind_res (ensure (je_created_by entry \<noteq> Some actor)
       (GlConflict ''approver must differ from creator (maker/checker)'')) (\<lambda>_.
     bind_res (map_err (\<lambda>e. GlConflict (err_text e))
         (EnsureOpenForDateTx db new_pid now (je_entry_date entry))) (\<lambda>(db1, _).
     ApproveAndPostTx db1 now eid actor))))"

definition RejectJournal ::
  "gl_db \<Rightarrow> instant \<Rightarrow> uuid \<Rightarrow> uuid \<Rightarrow> string \<Rightarrow> gl_error + gl_db" where
  "RejectJournal db now actor eid reason =
     map_err (\<lambda>e. if e = ErrNotEditable then GlConflict ''entry is no longer pending approval'' else e)
       (RejectTx db now eid actor reason)"

text \<open>
  \<open>JournalHandler.ResolveFromWorkflow\<close>: the workflow callback. The caller is accepted by the
  shared token when one is configured, by its user agent otherwise.
\<close>

record resolve_envelope =
  re_tenant_id :: uuid
  re_event :: string
  re_instance_id :: uuid

definition has_prefix :: "string \<Rightarrow> string \<Rightarrow> bool" where
  "has_prefix s p \<longleftrightarrow> take (length p) s = p"

definition callback_authorised :: "string \<Rightarrow> string \<Rightarrow> string \<Rightarrow> bool" where
  "callback_authorised expected got agent \<longleftrightarrow>
     (if expected \<noteq> [] then got = expected else has_prefix agent ''nexus-workflow'')"

definition ResolveJournal ::
  "string \<Rightarrow> string \<Rightarrow> string \<Rightarrow> gl_db \<Rightarrow> instant \<Rightarrow> resolve_envelope
    \<Rightarrow> gl_error + (gl_db \<times> journal_entry option)" where
  "ResolveJournal expected got agent db now env =
     (if \<not> callback_authorised expected got agent then Inl GlUnauthorized
      else if re_tenant_id env = uuid_Nil \<or> re_event env = [] \<or> re_instance_id env = uuid_Nil
      then Inl (GlBadRequest ''tenant_id, event, instance.id required'')
      else case find (\<lambda>e. je_workflow_instance_id e = Some (re_instance_id env)) (gl_entries db) of
          None \<Rightarrow> Inr (db, None)
        | Some e0 \<Rightarrow>
          bind_res (GetEntryTx db (je_id e0)) (\<lambda>entry.
          if je_status entry = EntryPosted \<or> je_status entry = EntryRejected then Inr (db, Some entry)
          else let actor = the_default uuid_Nil (je_created_by entry) in
            if re_event env = ''approved''
            then bind_res (ApproveAndPostTx db now (je_id entry) actor) (\<lambda>(db', e). Inr (db', Some e))
            else if re_event env = ''rejected'' \<or> re_event env = ''cancelled''
            then bind_res (RejectTx db now (je_id entry) actor (''workflow '' @ re_event env)) (\<lambda>db'.
              bind_res (GetEntryTx db' (je_id entry)) (\<lambda>e. Inr (db', Some e)))
            else Inl (GlBadRequest (''unsupported event: '' @ re_event env))))"

section \<open>Periods and accounts\<close>

definition ClosePeriod :: "gl_db \<Rightarrow> instant \<Rightarrow> uuid \<Rightarrow> uuid \<Rightarrow> string \<Rightarrow> gl_error + gl_db" where
  "ClosePeriod db now actor pid notes =
     map_err (\<lambda>e. if e = GlNotFound then GlConflict ''period not found or already closed'' else e)
       (ClosePeriodTx db now pid actor notes)"

definition ReopenPeriod :: "gl_db \<Rightarrow> instant \<Rightarrow> uuid \<Rightarrow> uuid \<Rightarrow> string \<Rightarrow> gl_error + gl_db" where
  "ReopenPeriod db now actor pid reason =
     (if TrimSpace reason = []
      then Inl (GlBadRequest ''reason is required when re-opening a closed period'')
      else map_err (\<lambda>e. if e = GlNotFound then GlConflict ''period not found or not closed'' else e)
        (ReopenTx db now pid actor reason))"

record create_account_req =
  aq_code :: string
  aq_name :: string
  aq_class :: string
  aq_type :: string
  aq_parent_code :: string
  aq_normal_balance :: string
  aq_currency_code :: string
  aq_is_active :: bool
  aq_description :: "string option"

definition parse_class :: "string \<Rightarrow> account_class option" where
  "parse_class s = map_of [(''asset'', ClassAsset), (''liability'', ClassLiability),
     (''equity'', ClassEquity), (''income'', ClassIncome), (''expense'', ClassExpense)] s"

definition parse_normal :: "string \<Rightarrow> normal_balance option" where
  "parse_normal s = map_of [(''debit'', NormalDebit), (''credit'', NormalCredit)] s"

definition parent_id :: "gl_db \<Rightarrow> string \<Rightarrow> gl_error + uuid option" where
  "parent_id db code =
     (if code = [] then Inr None
      else case GetByCodeTx db code of
          Inl _ \<Rightarrow> Inl (GlBadRequest ''parent_code not found in chart of accounts'')
        | Inr p \<Rightarrow> Inr (Some (ac_id p)))"

definition CreateAccount :: "gl_db \<Rightarrow> uuid \<Rightarrow> create_account_req \<Rightarrow> gl_error + (gl_db \<times> account)" where
  "CreateAccount db new_id req =
     (if aq_code req = [] \<or> aq_name req = [] then Inl (GlBadRequest ''code and name are required'')
      else case parse_class (aq_class req) of
          None \<Rightarrow> Inl (GlBadRequest ''class must be asset, liability, equity, income, or expense'')
        | Some cls \<Rightarrow>
          (case parse_normal (aq_normal_balance req) of
             None \<Rightarrow> Inl (GlBadRequest ''normal_balance must be debit or credit'')
           | Some nb \<Rightarrow> bind_res (parent_id db (aq_parent_code req)) (\<lambda>pid.
               CreateAccountTx db new_id
                 \<lparr> cai_code = aq_code req, cai_name = aq_name req, cai_class = cls,
                   cai_type = aq_type req, cai_parent_id = pid, cai_normal_balance = nb,
                   cai_currency_code = aq_currency_code req, cai_is_active = aq_is_active req,
                   cai_description = aq_description req \<rparr>)))"

record update_account_req =
  uq_name :: string
  uq_type :: string
  uq_parent_code :: string
  uq_is_active :: bool
  uq_description :: "string option"

definition UpdateAccount :: "gl_db \<Rightarrow> uuid \<Rightarrow> update_account_req \<Rightarrow> gl_error + (gl_db \<times> account)" where
  "UpdateAccount db aid req =
     (if uq_name req = [] then Inl (GlBadRequest ''name is required'')
      else bind_res (parent_id db (uq_parent_code req)) (\<lambda>pid.
        map_err (\<lambda>e. if e = ErrSystemLocked then GlConflict ''system-locked account; cannot edit'' else e)
          (UpdateAccountTx db aid \<lparr> uai_name = uq_name req, uai_type = uq_type req,
             uai_parent_id = pid, uai_is_active = uq_is_active req,
             uai_description = uq_description req \<rparr>)))"

section \<open>Fiscal-year close\<close>

definition closing_totals :: "closing_line list \<Rightarrow> decimal \<times> decimal" where
  "closing_totals cls =
     (sum_list (map cl_balance (filter (\<lambda>c. cl_class c = ClassIncome) cls)),
      sum_list (map cl_balance (filter (\<lambda>c. cl_class c \<noteq> ClassIncome) cls)))"

definition closing_post_line :: "closing_line \<Rightarrow> post_line" where
  "closing_post_line c = \<lparr> pl_account_code = cl_account_code c,
     pl_debit = (if cl_class c = ClassIncome then cl_balance c else 0),
     pl_credit = (if cl_class c = ClassIncome then 0 else cl_balance c),
     pl_narration = ''Close '' @ cl_account_name c \<rparr>"

definition surplus_line :: "string \<Rightarrow> decimal \<Rightarrow> post_line list" where
  "surplus_line yearStr netSurplus =
     (if netSurplus > 0 then
        [\<lparr> pl_account_code = ''3010'', pl_debit = 0, pl_credit = netSurplus,
           pl_narration = ''FY '' @ yearStr @ '' net surplus '' @ utf8 [226, 134, 146] @ '' retained earnings'' \<rparr>]
      else if netSurplus < 0 then
        [\<lparr> pl_account_code = ''3010'', pl_debit = - netSurplus, pl_credit = 0,
           pl_narration = ''FY '' @ yearStr @ '' net deficit '' @ utf8 [226, 134, 144] @ '' retained earnings'' \<rparr>]
      else [])"

definition executeCloseTx ::
  "(decimal \<Rightarrow> decimal) \<Rightarrow> gl_db \<Rightarrow> uuid \<Rightarrow> uuid \<Rightarrow> instant \<Rightarrow> date \<Rightarrow> int \<Rightarrow> uuid \<Rightarrow> string
    \<Rightarrow> gl_error + (gl_db \<times> fiscal_year_close)" where
  "executeCloseTx N db new_pid new_eid now today year user notes =
     (let yearStr = show_nat (nat year); fyStart = Date year 1 1; fyEnd = Date year 12 31
      in if IsClosedTx db year then Inl ErrYearAlreadyClosed
         else bind_res (EnsureOpenForDateTx db new_pid now fyEnd) (\<lambda>(db1, _).
         let closing = PLBalancesAsOfTx db1 fyEnd
         in if closing = [] then Inl (GlBadRequest (''no income or expense activity in '' @ yearStr
                @ '' '' @ utf8 [226, 128, 148] @ '' nothing to close''))
            else
              let (totalIncome, totalExpense) = closing_totals closing;
                  netSurplus = totalIncome - totalExpense;
                  lines = map closing_post_line closing @ surplus_line yearStr netSurplus
              in bind_res (PostTx N db1 new_pid new_eid now today
                   \<lparr> pi_entry_date = Some fyEnd, pi_value_date = Some fyEnd,
                     pi_entry_type = Some TypeAdjustment,
                     pi_source_module = ''accounting.fiscal-year-close'', pi_source_ref = yearStr,
                     pi_narration = ''Year-end closing entry for FY '' @ yearStr, pi_lines = lines,
                     pi_posted_by = Some user \<rparr>) (\<lambda>(db2, entry).
                 bind_res (RecordCloseTx N db2
                   \<lparr> fc_year = year, fc_fy_start = fyStart, fc_fy_end = fyEnd,
                     fc_closing_entry_id = je_id entry, fc_total_income = totalIncome,
                     fc_total_expense = totalExpense, fc_net_surplus = netSurplus,
                     fc_income_accounts = length (filter (\<lambda>c. cl_class c = ClassIncome) closing),
                     fc_expense_accounts = length (filter (\<lambda>c. cl_class c \<noteq> ClassIncome) closing),
                     fc_closed_by = user, fc_notes = notes \<rparr>) (\<lambda>(db3, recorded).
                 Inr (LockAllPeriodsInYearTx db3 now year user, recorded)))))"

definition CloseYear ::
  "(decimal \<Rightarrow> decimal) \<Rightarrow> gl_db \<Rightarrow> uuid \<Rightarrow> uuid \<Rightarrow> instant \<Rightarrow> date \<Rightarrow> uuid \<Rightarrow> int \<Rightarrow> string
    \<Rightarrow> gl_error + (gl_db \<times> fiscal_year_close)" where
  "CloseYear N db new_pid new_eid now today user year notes =
     (if year < 2000 \<or> year > 2999 then Inl (GlBadRequest ''year must be a 4-digit number'')
      else if user = uuid_Nil then Inl GlUnauthorized
      else map_err (\<lambda>e. if e = ErrYearAlreadyClosed then GlConflict ''fiscal year is already closed'' else e)
        (executeCloseTx N db new_pid new_eid now today year user notes))"

end
