(* ===== verification/LedgerInvariants.thy ===== *)
theory LedgerInvariants
  imports LedgerHandlers
begin

text \<open>
  The ledger's invariant \<open>gl_inv\<close>: every entry is balanced line by line and in total, carries a
  number exactly when it is posted, and no two carry the same; periods, accounts and entries
  are unique. Each operation keeps it when the amounts it is given have at most two decimal
  places. The lemmas are stated over a money column, the locale \<open>money_column\<close>, which is
  interpreted on rounding to two places half away from zero.
\<close>

locale money_column = rounding 2 N for N :: "decimal \<Rightarrow> decimal"

interpretation pg: money_column "round_half_up 2"
  by (rule money_column.intro) (rule round_half_up_rounding)

section \<open>Balanced entries\<close>

definition line_net :: "journal_line \<Rightarrow> decimal" where
  "line_net l = jl_debit l - jl_credit l"

definition lines_balanced :: "journal_line list \<Rightarrow> bool" where
  "lines_balanced ls \<longleftrightarrow> sum_list (map jl_debit ls) = sum_list (map jl_credit ls)"

definition lines_scaled :: "journal_line list \<Rightarrow> bool" where
  "lines_scaled ls \<longleftrightarrow> (\<forall>l\<in>set ls. scaled 2 (jl_debit l) \<and> scaled 2 (jl_credit l))"

definition entry_ok :: "journal_entry \<Rightarrow> bool" where
  "entry_ok e \<longleftrightarrow>
     2 \<le> length (je_lines e) \<and> list_all line_check (je_lines e) \<and> lines_balanced (je_lines e) \<and>
     lines_scaled (je_lines e) \<and>
     je_total_debits e = sum_list (map jl_debit (je_lines e)) \<and>
     je_total_credits e = sum_list (map jl_credit (je_lines e)) \<and>
     je_period_year e = d_year (je_entry_date e) \<and> je_period_month e = d_month (je_entry_date e)"

definition amounts_ok :: "entry_line_input list \<Rightarrow> bool" where
  "amounts_ok els \<longleftrightarrow> (\<forall>el\<in>set els. scaled 2 (el_debit el) \<and> scaled 2 (el_credit el))"

lemma validate_from_Inr:
  "validate_from i d c els = Inr (td, tc) \<Longrightarrow>
    td = d + sum_list (map el_debit els) \<and> tc = c + sum_list (map el_credit els) \<and> td = tc \<and>
    (\<forall>el\<in>set els. 0 < el_debit el \<longleftrightarrow> \<not> 0 < el_credit el)"
proof (induction els arbitrary: i d c)
  case (Cons el els)
  then have "validate_from (i + 1) (d + el_debit el) (c + el_credit el) els = Inr (td, tc)"
    and one: "0 < el_debit el \<longleftrightarrow> \<not> 0 < el_credit el"
    by (auto simp: Let_def split: if_splits)
  from Cons.IH [OF this(1)] one show ?case by auto
qed (auto split: if_splits)

lemma validateLines_Inr:
  assumes "validateLines els = Inr (td, tc)"
  shows "2 \<le> length els" "td = sum_list (map el_debit els)" "tc = sum_list (map el_credit els)" "td = tc"
    "\<forall>el\<in>set els. 0 < el_debit el \<longleftrightarrow> \<not> 0 < el_credit el"
proof -
  from assms have l: "2 \<le> length els" and v: "validate_from 0 0 0 els = Inr (td, tc)"
    by (simp_all add: validateLines_def split: if_splits)
  show "2 \<le> length els" by (rule l)
  from validate_from_Inr [OF v]
  show "td = sum_list (map el_debit els)" "tc = sum_list (map el_credit els)" "td = tc"
    "\<forall>el\<in>set els. 0 < el_debit el \<longleftrightarrow> \<not> 0 < el_credit el"
    unfolding add_0 by blast+
qed

lemma store_lines_Inr:
  assumes "store_lines N els = Inr ls"
  shows "length ls = length els" "list_all line_check ls"
    "map jl_debit ls = map (\<lambda>el. N (el_debit el)) els"
    "map jl_credit ls = map (\<lambda>el. N (el_credit el)) els"
    "map jl_account_id ls = map el_account_id els"
proof -
  have ls: "ls = map (\<lambda>(i, el). store_line N (i + 1) el) (zip [0..<length els] els)"
    and chk: "list_all line_check ls"
    using assms by (simp_all add: store_lines_def Let_def split: if_splits)
  show "list_all line_check ls" by (rule chk)
  show "length ls = length els"
    "map jl_debit ls = map (\<lambda>el. N (el_debit el)) els"
    "map jl_credit ls = map (\<lambda>el. N (el_credit el)) els"
    "map jl_account_id ls = map el_account_id els"
    unfolding ls by (simp, (rule nth_equalityI, simp, simp add: store_line_def)+)
qed

context money_column
begin

lemma sum_exact:
  "\<forall>el\<in>set els. scaled 2 (f el) \<Longrightarrow> sum_list (map (\<lambda>el. N (f el)) els) = sum_list (map f els)"
  by (induction els) (simp_all add: exact)

lemma stored_balanced:
  assumes v: "validateLines els = Inr (td, tc)" and s: "store_lines N els = Inr ls"
    and a: "amounts_ok els"
  shows "2 \<le> length ls" "list_all line_check ls" "lines_balanced ls" "lines_scaled ls"
    "N td = sum_list (map jl_debit ls)" "N tc = sum_list (map jl_credit ls)"
proof -
  note v = validateLines_Inr [OF v] and s = store_lines_Inr [OF s]
  show "2 \<le> length ls" "list_all line_check ls" using v(1) s(1,2) by simp_all
  have "set (map jl_debit ls) \<subseteq> range N" "set (map jl_credit ls) \<subseteq> range N"
    unfolding s(3,4) by auto
  then show "lines_scaled ls" using repr by (fastforce simp: lines_scaled_def)
  have d: "sum_list (map jl_debit ls) = td" and c: "sum_list (map jl_credit ls) = tc"
    using a sum_exact [of els el_debit] sum_exact [of els el_credit]
    by (simp_all add: amounts_ok_def v(2,3) s(3,4))
  then show "lines_balanced ls" using v(4) by (simp add: lines_balanced_def)
  have "scaled 2 td" "scaled 2 tc"
    using a by (auto simp: v(2,3) amounts_ok_def intro!: scaled_sum_list)
  then show "N td = sum_list (map jl_debit ls)" "N tc = sum_list (map jl_credit ls)"
    by (simp_all add: d c exact)
qed

lemma InsertPostedTx_Inr:
  assumes run: "InsertPostedTx N db new_id now inp = Inr (db', e)" and a: "amounts_ok (ip_lines inp)"
  shows "db' = db\<lparr>gl_entries := gl_entries db @ [e]\<rparr>" "entry_ok e" "je_id e = new_id"
    "je_status e = EntryPosted" "je_entry_no e = Some (nextEntryNoTx db)"
    "je_entry_date e = ip_entry_date inp" "je_source_module e = ip_source_module inp"
    "je_source_ref e = ip_source_ref inp" "store_lines N (ip_lines inp) = Inr (je_lines e)"
proof -
  from run obtain td tc ls where h: "validateLines (ip_lines inp) = Inr (td, tc)"
    "store_lines N (ip_lines inp) = Inr ls" "je_lines e = ls"
    "je_total_debits e = N td" "je_total_credits e = N tc"
    "je_period_year e = d_year (ip_entry_date inp)" "je_period_month e = d_month (ip_entry_date inp)"
    and r: "db' = db\<lparr>gl_entries := gl_entries db @ [e]\<rparr>" "je_id e = new_id"
    "je_status e = EntryPosted" "je_entry_no e = Some (nextEntryNoTx db)"
    "je_entry_date e = ip_entry_date inp" "je_source_module e = ip_source_module inp"
    "je_source_ref e = ip_source_ref inp"
    by (auto simp: InsertPostedTx_def Let_def)
  with stored_balanced [OF h(1,2) a] show "entry_ok e" by (simp add: entry_ok_def)
  from r h(2,3) show "db' = db\<lparr>gl_entries := gl_entries db @ [e]\<rparr>" "je_id e = new_id"
    "je_status e = EntryPosted" "je_entry_no e = Some (nextEntryNoTx db)"
    "je_entry_date e = ip_entry_date inp" "je_source_module e = ip_source_module inp"
    "je_source_ref e = ip_source_ref inp" "store_lines N (ip_lines inp) = Inr (je_lines e)"
    by simp_all
qed

lemma CreateDraftTx_Inr:
  assumes run: "CreateDraftTx N db new_id inp = Inr (db', e)" and a: "amounts_ok (ce_lines inp)"
  shows "db' = db\<lparr>gl_entries := gl_entries db @ [e]\<rparr>" "entry_ok e" "je_id e = new_id"
    "je_status e = EntryPendingApproval" "je_entry_no e = None"
    "je_entry_date e = ce_entry_date inp" "je_created_by e = ce_created_by inp"
proof -
  from run obtain td tc ls where h: "validateLines (ce_lines inp) = Inr (td, tc)"
    "store_lines N (ce_lines inp) = Inr ls" "je_lines e = ls"
    "je_total_debits e = N td" "je_total_credits e = N tc"
    "je_period_year e = d_year (ce_entry_date inp)" "je_period_month e = d_month (ce_entry_date inp)"
    and r: "db' = db\<lparr>gl_entries := gl_entries db @ [e]\<rparr>" "je_id e = new_id"
    "je_status e = EntryPendingApproval" "je_entry_no e = None"
    "je_entry_date e = ce_entry_date inp" "je_created_by e = ce_created_by inp"
    by (auto simp: CreateDraftTx_def Let_def)
  with stored_balanced [OF h(1,2) a] show "entry_ok e" by (simp add: entry_ok_def)
  from r show "db' = db\<lparr>gl_entries := gl_entries db @ [e]\<rparr>" "je_id e = new_id"
    "je_status e = EntryPendingApproval" "je_entry_no e = None"
    "je_entry_date e = ce_entry_date inp" "je_created_by e = ce_created_by inp"
    by simp_all
qed

end

section \<open>Entry numbers\<close>

lemma list_all_pad_digits: "list_all is_digit (pad_left w (show_nat n))"
  by (intro pad_left_digits show_nat_digits)

lemma entry_no_value_of [simp]: "entry_no_value (entry_no_of n) = Some n"
proof -
  have "pad_left 6 (show_nat n) \<noteq> []"
    using length_pad_left [of 6 "show_nat n"] by auto
  then show ?thesis
    using list_all_pad_digits [of 6 n] by (simp add: entry_no_value_def entry_no_of_def)
qed

lemma entry_no_of_inj: "entry_no_of m = entry_no_of n \<Longrightarrow> m = n"
  by (metis entry_no_value_of option.inject)

definition entry_nos :: "journal_entry list \<Rightarrow> string list" where
  "entry_nos es = List.map_filter je_entry_no es"

definition numbered :: "journal_entry list \<Rightarrow> bool" where
  "numbered es \<longleftrightarrow> (\<forall>e\<in>set es. je_entry_no e \<noteq> None \<longleftrightarrow> je_status e = EntryPosted) \<and>
     distinct (entry_nos es) \<and> (\<forall>s\<in>set (entry_nos es). \<exists>n. s = entry_no_of n)"

lemma entry_nos_simps [simp]:
  "entry_nos [] = []"
  "entry_nos (es @ fs) = entry_nos es @ entry_nos fs"
  "entry_nos (e # es) = (case je_entry_no e of None \<Rightarrow> entry_nos es | Some s \<Rightarrow> s # entry_nos es)"
  by (simp_all add: entry_nos_def List.map_filter_def split: option.splits)

lemma entry_values_mem: "entry_no_of n \<in> set (entry_nos es) \<Longrightarrow> n \<in> set (entry_values es)"
  by (induction es) (auto simp: entry_values_def List.map_filter_def split: option.splits)

lemma le_fold_max: "a \<le> fold max xs (a::nat)" "x \<in> set xs \<Longrightarrow> x \<le> fold max xs (a::nat)"
proof (induction xs arbitrary: a)
  case (Cons y ys)
  { case 1 show ?case using Cons.IH(1) [of "max y a"] by simp }
  { case 2 show ?case
      using 2 Cons.IH(1) [of "max y a"] Cons.IH(2) [of "max y a"] by auto }
qed simp_all

lemma nextEntryNo_fresh: "nextEntryNoTx db \<notin> set (entry_nos (gl_entries db))"
proof
  let ?n = "fold max (entry_values (gl_entries db)) 0 + 1"
  assume "nextEntryNoTx db \<in> set (entry_nos (gl_entries db))"
  then have "?n \<in> set (entry_values (gl_entries db))"
    by (intro entry_values_mem) (simp add: nextEntryNoTx_def)
  then have "?n \<le> fold max (entry_values (gl_entries db)) 0" by (rule le_fold_max(2))
  then show False by simp
qed

lemma numbered_append_posted:
  "numbered es \<Longrightarrow> je_status e = EntryPosted \<Longrightarrow> je_entry_no e = Some (entry_no_of n) \<Longrightarrow>
    entry_no_of n \<notin> set (entry_nos es) \<Longrightarrow> numbered (es @ [e])"
  by (auto simp: numbered_def)

lemma numbered_append_pending:
  "numbered es \<Longrightarrow> je_status e \<noteq> EntryPosted \<Longrightarrow> je_entry_no e = None \<Longrightarrow> numbered (es @ [e])"
  by (auto simp: numbered_def)

section \<open>The ledger invariant\<close>

definition gl_inv :: "gl_db \<Rightarrow> bool" where
  "gl_inv db \<longleftrightarrow>
     (\<forall>e\<in>set (gl_entries db). entry_ok e) \<and> distinct (map je_id (gl_entries db)) \<and>
     numbered (gl_entries db) \<and>
     distinct (map pd_id (gl_periods db)) \<and>
     distinct (map (\<lambda>p. (pd_year p, pd_month p)) (gl_periods db)) \<and>
     distinct (map ac_id (gl_accounts db)) \<and> distinct (map ac_code (gl_accounts db))"

text \<open>Posted and rejected entries never change.\<close>

definition gl_keeps :: "gl_db \<Rightarrow> gl_db \<Rightarrow> bool" where
  "gl_keeps db db' \<longleftrightarrow> (\<forall>e\<in>set (gl_entries db).
     je_status e \<in> {EntryPosted, EntryRejected} \<longrightarrow> e \<in> set (gl_entries db'))"

definition gl_ok :: "gl_db \<Rightarrow> gl_db \<Rightarrow> bool" where
  "gl_ok db db' \<longleftrightarrow> gl_inv db' \<and> gl_keeps db db'"

lemma gl_ok_refl: "gl_inv db \<Longrightarrow> gl_ok db db"
  by (simp add: gl_ok_def gl_keeps_def)

lemma gl_ok_trans: "gl_ok a b \<Longrightarrow> gl_ok b c \<Longrightarrow> gl_ok a c"
  by (auto simp: gl_ok_def gl_keeps_def)

text \<open>Opening a period touches nothing but the periods.\<close>

lemma EnsureOpen_Inr:
  assumes "EnsureOpenForDateTx db pid now d = Inr (db', p)"
  shows "gl_entries db' = gl_entries db" "gl_accounts db' = gl_accounts db" "gl_closes db' = gl_closes db"
    "p \<in> set (gl_periods db')" "pd_status p = PeriodOpen" "pd_year p = d_year d" "pd_month p = d_month d"
    "gl_periods db' = gl_periods db \<or> gl_periods db' = gl_periods db @ [p] \<and> pd_id p = pid \<and>
       (d_year d, d_month d) \<notin> (\<lambda>p. (pd_year p, pd_month p)) ` set (gl_periods db)"
  using assms
  by (auto simp: image_iff EnsureOpenForDateTx_def OpenOrCreateTx_def Let_def find_Some_iff find_None_iff
      split: option.splits if_splits prod.splits)

lemma EnsureOpen_ok:
  assumes inv: "gl_inv db" and fresh: "pid \<notin> pd_id ` set (gl_periods db)"
    and run: "EnsureOpenForDateTx db pid now d = Inr (db', p)"
  shows "gl_ok db db'"
proof -
  note r = EnsureOpen_Inr [OF run]
  have "distinct (map pd_id (gl_periods db'))"
    "distinct (map (\<lambda>p. (pd_year p, pd_month p)) (gl_periods db'))"
    using r(8) inv fresh by (auto simp: gl_inv_def r(6,7))
  with inv r(1,2) show ?thesis by (simp add: gl_ok_def gl_inv_def gl_keeps_def)
qed

context money_column
begin

lemma InsertPostedTx_ok:
  assumes inv: "gl_inv db" and fresh: "new_id \<notin> je_id ` set (gl_entries db)"
    and a: "amounts_ok (ip_lines inp)" and run: "InsertPostedTx N db new_id now inp = Inr (db', e)"
  shows "gl_ok db db'"
proof -
  note r = InsertPostedTx_Inr [OF run a]
  have "numbered (gl_entries db @ [e])"
    using inv r(4,5) nextEntryNo_fresh [of db] unfolding nextEntryNoTx_def
    by (intro numbered_append_posted) (simp_all add: gl_inv_def)
  then show ?thesis
    using inv fresh r(2,3) by (simp add: r(1) gl_ok_def gl_inv_def gl_keeps_def)
qed

lemma CreateDraftTx_ok:
  assumes inv: "gl_inv db" and fresh: "new_id \<notin> je_id ` set (gl_entries db)"
    and a: "amounts_ok (ce_lines inp)" and run: "CreateDraftTx N db new_id inp = Inr (db', e)"
  shows "gl_ok db db'"
proof -
  note r = CreateDraftTx_Inr [OF run a]
  have "numbered (gl_entries db @ [e])"
    using inv r(4,5) by (intro numbered_append_pending) (simp_all add: gl_inv_def)
  then show ?thesis
    using inv fresh r(2,3) by (simp add: r(1) gl_ok_def gl_inv_def gl_keeps_def)
qed

end

subsection \<open>Updates of a pending entry\<close>

lemma update_pending_split:
  assumes "distinct (map je_id es)" "e \<in> set es" "je_id e = eid" "je_status e = EntryPendingApproval"
  obtains xs ys where "es = xs @ e # ys"
    "map (\<lambda>e. if je_id e = eid \<and> je_status e = EntryPendingApproval then f e else e) es = xs @ f e # ys"
proof -
  from assms(2) obtain xs ys where s: "es = xs @ e # ys" by (auto simp: in_set_conv_decomp)
  with assms have "\<forall>x\<in>set xs \<union> set ys. je_id x \<noteq> eid" by (auto simp: image_iff)
  then have "map (\<lambda>e. if je_id e = eid \<and> je_status e = EntryPendingApproval then f e else e) es
      = xs @ f e # ys"
    using assms(3,4) by (simp add: s map_idI)
  with s show thesis by (rule that)
qed

lemma pending_update_ok:
  assumes inv: "gl_inv db" and p: "pending_row db eid"
    and f: "\<And>e. je_id (f e) = je_id e" "\<And>e. entry_ok e \<Longrightarrow> entry_ok (f e)"
    and num: "(\<forall>e. je_entry_no (f e) = je_entry_no e \<and> je_status (f e) = EntryRejected) \<or>
      (\<forall>e. je_entry_no (f e) = Some (nextEntryNoTx db) \<and> je_status (f e) = EntryPosted)"
  shows "gl_ok db (update_pending eid f db)"
proof -
  from p obtain e where e: "e \<in> set (gl_entries db)" "je_id e = eid" "je_status e = EntryPendingApproval"
    by (auto simp: pending_row_def)
  from inv have d: "distinct (map je_id (gl_entries db))" by (simp add: gl_inv_def)
  obtain xs ys where s: "gl_entries db = xs @ e # ys"
    "gl_entries (update_pending eid f db) = xs @ f e # ys"
    by (rule update_pending_split [OF d e, of f]) (simp add: update_pending_def)
  have n: "je_entry_no e = None" using inv e by (auto simp: gl_inv_def numbered_def)
  have "numbered (xs @ f e # ys)"
    using num
  proof
    assume "\<forall>e. je_entry_no (f e) = je_entry_no e \<and> je_status (f e) = EntryRejected"
    then show ?thesis using inv n s(1) by (auto simp: gl_inv_def numbered_def)
  next
    assume "\<forall>e. je_entry_no (f e) = Some (nextEntryNoTx db) \<and> je_status (f e) = EntryPosted"
    then show ?thesis
      using inv n s(1) nextEntryNo_fresh [of db]
      by (auto simp: gl_inv_def numbered_def nextEntryNoTx_def)
  qed
  moreover have "gl_keeps db (update_pending eid f db)"
    using s e(3) by (auto simp: gl_keeps_def)
  ultimately show ?thesis
    using inv f e(1) unfolding gl_ok_def gl_inv_def s by (auto simp: update_pending_def)
qed

section \<open>Operations\<close>

lemma resolve_lines_amounts:
  "resolve_lines db i cache ls = Inr els \<Longrightarrow>
    map el_debit els = map pl_debit ls \<and> map el_credit els = map pl_credit ls"
proof (induction ls arbitrary: i cache els)
  case (Cons l ls)
  then show ?case by (auto split: option.splits sum.splits if_splits)
qed simp

definition post_amounts_ok :: "post_line list \<Rightarrow> bool" where
  "post_amounts_ok ls \<longleftrightarrow> (\<forall>l\<in>set ls. scaled 2 (pl_debit l) \<and> scaled 2 (pl_credit l))"

lemma resolve_lines_amounts_ok:
  assumes "resolve_lines db i cache ls = Inr els" "post_amounts_ok ls"
  shows "amounts_ok els"
proof -
  have "set (map el_debit els) \<subseteq> Collect (scaled 2)" "set (map el_credit els) \<subseteq> Collect (scaled 2)"
    using assms(2) unfolding resolve_lines_amounts [OF assms(1), THEN conjunct1]
      resolve_lines_amounts [OF assms(1), THEN conjunct2]
    by (auto simp: post_amounts_ok_def)
  then show ?thesis by (auto simp: amounts_ok_def)
qed

text \<open>The resolution without the cache: one look-up per line.\<close>

fun resolve_ref :: "gl_db \<Rightarrow> nat \<Rightarrow> post_line list \<Rightarrow> gl_error + entry_line_input list" where
  "resolve_ref db i [] = Inr []"
| "resolve_ref db i (l # ls) =
     (case GetByCodeTx db (pl_account_code l) of
        Inl e \<Rightarrow> Inl (ErrUnknownAccount (pl_account_code l) (i + 1))
      | Inr a \<Rightarrow>
          if \<not> ac_is_active a then Inl (ErrInactiveAccount (pl_account_code l) (i + 1))
          else bind_res (resolve_ref db (i + 1) ls) (\<lambda>es.
            Inr (\<lparr> el_account_id = ac_id a, el_debit = pl_debit l, el_credit = pl_credit l,
                   el_narration = pl_narration l \<rparr> # es)))"

definition cache_ok :: "gl_db \<Rightarrow> (string \<times> uuid) list \<Rightarrow> bool" where
  "cache_ok db cache \<longleftrightarrow> (\<forall>c aid. map_of cache c = Some aid \<longrightarrow>
     (\<exists>a. GetByCodeTx db c = Inr a \<and> ac_is_active a \<and> ac_id a = aid))"

lemma GetByCodeTx_Inl: "GetByCodeTx db c = Inl e \<Longrightarrow> e = GlNotFound"
  by (auto simp: GetByCodeTx_def split: option.splits)

lemma resolve_lines_ref:
  "cache_ok db cache \<Longrightarrow> resolve_lines db i cache ls = resolve_ref db i ls"
proof (induction ls arbitrary: i cache)
  case (Cons l ls)
  show ?case
  proof (cases "map_of cache (pl_account_code l)")
    case None
    show ?thesis
    proof (cases "GetByCodeTx db (pl_account_code l)")
      case (Inl e)
      with None GetByCodeTx_Inl [OF Inl] show ?thesis by simp
    next
      case (Inr a)
      have "cache_ok db ((pl_account_code l, ac_id a) # cache)" if "ac_is_active a"
        using Cons.prems Inr that by (auto simp: cache_ok_def)
      with None Inr Cons.IH show ?thesis by simp
    qed
  next
    case (Some aid)
    with Cons.prems obtain a where "GetByCodeTx db (pl_account_code l) = Inr a" "ac_is_active a"
      "ac_id a = aid" by (auto simp: cache_ok_def)
    with Some Cons show ?thesis by simp
  qed
qed simp

lemma cache_ok_Nil [simp]: "cache_ok db []"
  by (simp add: cache_ok_def)

text \<open>What a successful post is made of.\<close>

lemma PostTx_InrE:
  assumes "PostTx N db pid eid now today inp = Inr (db', e)"
  obtains db1 p els ip where
    "EnsureOpenForDateTx db pid now (the_default today (pi_entry_date inp)) = Inr (db1, p)"
    "resolve_lines db1 0 [] (pi_lines inp) = Inr els"
    "InsertPostedTx N db1 eid now ip = Inr (db', e)" "ip_lines ip = els"
    "ip_entry_date ip = the_default today (pi_entry_date inp)"
    "ip_source_module ip = pi_source_module inp" "ip_source_ref ip = pi_source_ref inp"
  using assms by (auto simp: PostTx_def Let_def)

context money_column
begin

lemma PostTx_ok:
  assumes inv: "gl_inv db" and fresh: "pid \<notin> pd_id ` set (gl_periods db)"
    "eid \<notin> je_id ` set (gl_entries db)"
    and a: "post_amounts_ok (pi_lines inp)"
    and run: "PostTx N db pid eid now today inp = Inr (db', e)"
  shows "gl_ok db db'"
  using run
proof (rule PostTx_InrE)
  fix db1 p els ip
  assume h: "EnsureOpenForDateTx db pid now (the_default today (pi_entry_date inp)) = Inr (db1, p)"
    "resolve_lines db1 0 [] (pi_lines inp) = Inr els"
    "InsertPostedTx N db1 eid now ip = Inr (db', e)" "ip_lines ip = els"
  have 1: "gl_ok db db1" by (rule EnsureOpen_ok [OF inv fresh(1) h(1)])
  then have "gl_ok db1 db'"
    using fresh(2) EnsureOpen_Inr(1) [OF h(1)] resolve_lines_amounts_ok [OF h(2) a] h(3,4)
    by (intro InsertPostedTx_ok) (simp_all add: gl_ok_def)
  with 1 show ?thesis by (rule gl_ok_trans)
qed

end

lemma ApproveAndPostTx_ok:
  assumes inv: "gl_inv db" and run: "ApproveAndPostTx db now eid u = Inr (db', e)"
  shows "gl_ok db db'"
proof -
  have p: "pending_row db eid"
    and d: "db' = update_pending eid (\<lambda>e. e\<lparr>je_status := EntryPosted, je_entry_no := Some (nextEntryNoTx db),
      je_posted_by := Some u, je_posted_at := Some now\<rparr>) db"
    using run by (auto simp: ApproveAndPostTx_def Let_def split: if_splits)
  show ?thesis
    unfolding d by (rule pending_update_ok [OF inv p]) (auto simp: entry_ok_def)
qed

lemma RejectTx_ok:
  assumes inv: "gl_inv db" and run: "RejectTx db now eid u reason = Inr db'"
  shows "gl_ok db db'"
proof -
  have p: "pending_row db eid"
    and d: "db' = update_pending eid (\<lambda>e. e\<lparr>je_status := EntryRejected, je_rejected_by := Some u,
      je_rejected_at := Some now, je_rejection_reason := reason\<rparr>) db"
    using run by (auto simp: RejectTx_def split: if_splits)
  show ?thesis
    unfolding d by (rule pending_update_ok [OF inv p]) (auto simp: entry_ok_def)
qed

lemma gl_ok_entries:
  assumes "gl_inv db" "gl_entries db' = gl_entries db"
    and "distinct (map pd_id (gl_periods db'))"
    "distinct (map (\<lambda>p. (pd_year p, pd_month p)) (gl_periods db'))"
    "distinct (map ac_id (gl_accounts db'))" "distinct (map ac_code (gl_accounts db'))"
  shows "gl_ok db db'"
  using assms by (simp add: gl_ok_def gl_inv_def gl_keeps_def)

subsection \<open>Amounts of a request\<close>

definition req_amounts_ok :: "decimal_lib \<Rightarrow> post_line_dto list \<Rightarrow> bool" where
  "req_amounts_ok D dtos \<longleftrightarrow> (\<forall>l\<in>set dtos. \<forall>s\<in>{dl_debit l, dl_credit l}. \<forall>d.
     parseAmt D s = Inr d \<longrightarrow> scaled 2 d)"

lemma req_amounts_Cons:
  "req_amounts_ok D (l # ls) \<longleftrightarrow> req_amounts_ok D ls \<and>
    (\<forall>d. parseAmt D (dl_debit l) = Inr d \<longrightarrow> scaled 2 d) \<and>
    (\<forall>d. parseAmt D (dl_credit l) = Inr d \<longrightarrow> scaled 2 d)"
  by (auto simp: req_amounts_ok_def)

lemma parsePostLines_amounts:
  "parsePostLines D i dtos = Inr ls \<Longrightarrow> req_amounts_ok D dtos \<Longrightarrow> post_amounts_ok ls"
proof (induction dtos arbitrary: i ls)
  case (Cons l dtos)
  then obtain d c ps where h: "parseAmt D (dl_debit l) = Inr d" "parseAmt D (dl_credit l) = Inr c"
    "parsePostLines D (i + 1) dtos = Inr ps" "ls = \<lparr> pl_account_code = dl_account_code l, pl_debit = d,
      pl_credit = c, pl_narration = dl_narration l \<rparr> # ps"
    by (auto split: if_splits sum.splits)
  with Cons.IH [OF h(3)] Cons.prems(2) show ?case
    by (auto simp: req_amounts_Cons post_amounts_ok_def)
qed (simp add: post_amounts_ok_def)

lemma draft_lines_amounts:
  "draft_lines D db i dtos = Inr (els, tot, eqf) \<Longrightarrow> req_amounts_ok D dtos \<Longrightarrow> amounts_ok els"
proof (induction dtos arbitrary: i els tot eqf)
  case (Cons l dtos)
  obtain d where d: "parseAmt D (dl_debit l) = Inr d"
    using Cons.prems(1) by (cases "parseAmt D (dl_debit l)") auto
  obtain c where c: "parseAmt D (dl_credit l) = Inr c"
    using Cons.prems(1) d by (cases "parseAmt D (dl_credit l)") auto
  obtain a where a: "GetByCodeTx db (dl_account_code l) = Inr a"
    using Cons.prems(1) d c by (cases "GetByCodeTx db (dl_account_code l)") (auto split: if_splits)
  obtain es t q where r: "draft_lines D db (i + 1) dtos = Inr (es, t, q)"
    using Cons.prems(1) d c a by (cases "draft_lines D db (i + 1) dtos") (auto split: if_splits)
  have h: "els = \<lparr> el_account_id = ac_id a, el_debit = d, el_credit = c,
      el_narration = dl_narration l \<rparr> # es"
    using Cons.prems(1) d c a r by (simp split: if_splits)
  from Cons.IH [OF r] d c h Cons.prems(2) show ?case
    by (auto simp: req_amounts_Cons amounts_ok_def)
qed (simp add: amounts_ok_def)

subsection \<open>Handlers\<close>

lemma map_err_Inr [simp]: "map_err f m = Inr x \<longleftrightarrow> m = Inr x"
  by (auto simp: map_err_def split: sum.splits)

lemma create_draft_InrE:
  assumes "create_draft D N db pid eid now actor req = Inr (db2, e, td, ae)"
  obtains d db1 p els q inp where
    "EnsureOpenForDateTx db pid now d = Inr (db1, p)"
    "draft_lines D db 0 (cq_lines req) = Inr (els, td, ae)"
    "CreateDraftTx N db1 eid inp = Inr (db2, e)" "ce_lines inp = els" "ce_entry_date inp = d"
    "ce_created_by inp = (if actor = uuid_Nil then None else Some actor)"
  using assms by (auto simp: create_draft_def split: option.splits)

context money_column
begin

lemma Post_ok:
  assumes inv: "gl_inv db" and fresh: "pid \<notin> pd_id ` set (gl_periods db)"
    "eid \<notin> je_id ` set (gl_entries db)"
    and a: "req_amounts_ok D (pq_lines req)"
    and run: "Post D N tok hdr db pid eid now today req = Inr (db', out)"
  shows "gl_ok db db'"
proof -
  from run obtain ed vd ls where v: "validate_post D today req = Inr (ed, vd, ls)"
    and r: "(case find_posted db (pq_source_module req) (pq_source_ref req) of
          Some e \<Rightarrow> Inr (db, Idempotent e)
        | None \<Rightarrow> bind_res (post_write N db pid eid now today req (ed, vd, ls)) (\<lambda>(db', e).
            Inr (db', Created e))) = Inr (db', out)"
    by (auto simp: Post_def split: if_splits)
  have ls: "post_amounts_ok ls"
    using v a parsePostLines_amounts by (auto simp: validate_post_def)
  show ?thesis
  proof (cases "find_posted db (pq_source_module req) (pq_source_ref req)")
    case None
    with r obtain e inp where "PostTx N db pid eid now today inp = Inr (db', e)" "pi_lines inp = ls"
      by (auto simp: post_write_def split: sum.splits)
    with PostTx_ok [OF inv fresh] ls show ?thesis by auto
  next
    case Some
    with r gl_ok_refl [OF inv] show ?thesis by auto
  qed
qed

lemma create_draft_ok:
  assumes inv: "gl_inv db" and fresh: "pid \<notin> pd_id ` set (gl_periods db)"
    "eid \<notin> je_id ` set (gl_entries db)"
    and a: "req_amounts_ok D (cq_lines req)"
    and run: "create_draft D N db pid eid now actor req = Inr (db2, e, td, ae)"
  shows "gl_ok db db2" "e \<in> set (gl_entries db2)" "je_id e = eid" "je_status e = EntryPendingApproval"
proof -
  obtain d db1 p els inp where h: "EnsureOpenForDateTx db pid now d = Inr (db1, p)"
    "draft_lines D db 0 (cq_lines req) = Inr (els, td, ae)"
    "CreateDraftTx N db1 eid inp = Inr (db2, e)" "ce_lines inp = els"
    by (rule create_draft_InrE [OF run])
  have am: "amounts_ok (ce_lines inp)" using draft_lines_amounts [OF h(2) a] h(4) by simp
  have 1: "gl_ok db db1" by (rule EnsureOpen_ok [OF inv fresh(1) h(1)])
  then have "gl_ok db1 db2"
    using fresh(2) EnsureOpen_Inr(1) [OF h(1)] h(3) am
    by (intro CreateDraftTx_ok) (simp_all add: gl_ok_def)
  with 1 show "gl_ok db db2" by (rule gl_ok_trans)
  from CreateDraftTx_Inr [OF h(3) am]
  show "e \<in> set (gl_entries db2)" "je_id e = eid" "je_status e = EntryPendingApproval" by simp_all
qed

end

lemma set_workflow_instance_ok:
  assumes inv: "gl_inv db" and e: "e \<in> set (gl_entries db)" "je_id e = eid"
    "je_status e = EntryPendingApproval"
  shows "gl_ok db (set_workflow_instance eid wid db)"
proof -
  let ?f = "\<lambda>e. e\<lparr>je_workflow_instance_id := Some wid\<rparr>"
  have only: "x = e" if "x \<in> set (gl_entries db)" "je_id x = eid" for x
    using that e inv by (auto simp: gl_inv_def distinct_map dest: inj_onD)
  have nos: "entry_nos (map (\<lambda>e. if je_id e = eid then ?f e else e) es) = entry_nos es" for es
    by (induction es) (auto split: option.splits)
  have ids: "map je_id (map (\<lambda>e. if je_id e = eid then ?f e else e) es) = map je_id es"
    for es :: "journal_entry list"
    by simp
  have "numbered (map (\<lambda>e. if je_id e = eid then ?f e else e) (gl_entries db))"
    using inv unfolding gl_inv_def numbered_def nos by auto
  moreover have "\<forall>x\<in>set (map (\<lambda>e. if je_id e = eid then ?f e else e) (gl_entries db)). entry_ok x"
    using inv by (auto simp: gl_inv_def entry_ok_def)
  moreover have "gl_keeps db (set_workflow_instance eid wid db)"
    using only e(3) by (force simp: gl_keeps_def set_workflow_instance_def)
  moreover have "distinct (map je_id (map (\<lambda>e. if je_id e = eid then ?f e else e) (gl_entries db)))"
    using inv unfolding ids gl_inv_def by simp
  ultimately show ?thesis
    using inv unfolding gl_ok_def gl_inv_def
    by (simp add: set_workflow_instance_def del: map_map)
qed

end
