(* ===== verification/Outbox.thy ===== *)
theory Outbox
  imports LedgerInvariants RetryWorker
begin

text \<open>
  The transactional outbox of GL postings: the client that writes a row inside a business
  transaction (services/savings/internal/posting/client.go), the worker that replays the rows
  against the accounting service (services/savings/cmd/posting-dispatcher/main.go) and the
  operator's replay (internal/store/posting_outbox_store.go).

  The payload column holds the JSON of the request the accounting service's endpoint reads, the
  record \<open>post_request\<close>. The accounting service is a function of the request and its own state
  to a reply; its instance on the ledger is in OutboxProperties. Parsing of a source reference as
  a UUID (github.com/google/uuid) is the parameter \<open>uuidParse\<close>.
\<close>

definition maxAttempts :: nat where
  "maxAttempts = 12"

definition backoffBaseUnit :: int where
  "backoffBaseUnit = seconds 5"

definition backoffMaxUnit :: int where
  "backoffMaxUnit = hours 1"

record outbox_row =
  ob_id :: uuid
  ob_tenant_id :: uuid
  ob_payload :: post_request
  ob_attempts :: nat
  ob_last_error :: "string option"
  ob_enqueued_at :: instant
  ob_dispatched_at :: "instant option"
  ob_posted_je_id :: "uuid option"

record client_post_input =
  in_tenant_id :: uuid
  in_entry_date :: "date option"
  in_value_date :: "date option"
  in_source_module :: string
  in_source_ref :: string
  in_narration :: string
  in_lines :: "post_line list"

section \<open>The client\<close>

text \<open>\<open>Format("2006-01-02")\<close> of a date of a four-digit year.\<close>

definition format_date :: "date \<Rightarrow> string" where
  "format_date d = pad_left 4 (show_nat (nat (d_year d))) @ ''-'' @
     pad_left 2 (show_nat (d_month d)) @ ''-'' @ pad_left 2 (show_nat (d_day d))"

definition fixed_amount :: "decimal_lib \<Rightarrow> decimal \<Rightarrow> string" where
  "fixed_amount D x = (if x = 0 then [] else dFixed D 2 x)"

definition line_dto :: "decimal_lib \<Rightarrow> post_line \<Rightarrow> post_line_dto" where
  "line_dto D l = \<lparr> dl_account_code = pl_account_code l, dl_debit = fixed_amount D (pl_debit l),
     dl_credit = fixed_amount D (pl_credit l), dl_narration = pl_narration l \<rparr>"

text \<open>The body both entry points build.\<close>

definition post_body :: "decimal_lib \<Rightarrow> client_post_input \<Rightarrow> post_request" where
  "post_body D inp = \<lparr> pq_tenant_id = in_tenant_id inp,
     pq_entry_date = (case in_entry_date inp of None \<Rightarrow> [] | Some d \<Rightarrow> format_date d),
     pq_value_date = (case in_value_date inp of None \<Rightarrow> [] | Some d \<Rightarrow> format_date d),
     pq_source_module = in_source_module inp, pq_source_ref = in_source_ref inp,
     pq_narration = in_narration inp, pq_lines = map (line_dto D) (in_lines inp) \<rparr>"

text \<open>\<open>Client.PostTx\<close>: a new row in the caller's transaction, nothing in dry-run mode.\<close>

definition OutboxPostTx ::
  "decimal_lib \<Rightarrow> bool \<Rightarrow> outbox_row list \<Rightarrow> uuid \<Rightarrow> instant \<Rightarrow> client_post_input
    \<Rightarrow> string + outbox_row list" where
  "OutboxPostTx D dryRun ob new_id now inp =
     (if dryRun then Inr ob
      else if length (in_lines inp) < 2 then Inl ''posting: at least two lines required''
      else if in_source_module inp = [] \<or> in_source_ref inp = []
      then Inl ''posting: source_module and source_ref are required''
      else Inr (ob @ [\<lparr> ob_id = new_id, ob_tenant_id = in_tenant_id inp, ob_payload = post_body D inp,
             ob_attempts = 0, ob_last_error = None, ob_enqueued_at = now, ob_dispatched_at = None,
             ob_posted_je_id = None \<rparr>]))"

datatype post_reply = NoReply string | Reply nat string

text \<open>\<open>Client.Post\<close>: the reply's error, if any, and the server's next state.\<close>

definition ClientPost ::
  "(post_request \<Rightarrow> 's \<Rightarrow> 's \<times> post_reply) \<Rightarrow> decimal_lib \<Rightarrow> bool \<Rightarrow> client_post_input \<Rightarrow> 's
    \<Rightarrow> 's \<times> string option" where
  "ClientPost send D dryRun inp s =
     (if dryRun then (s, Some ''posting client disabled (no accounting base URL)'')
      else if length (in_lines inp) < 2 then (s, Some ''posting: at least two lines required'')
      else case send (post_body D inp) s of
          (s', NoReply e) \<Rightarrow> (s', Some (''posting: send: '' @ e))
        | (s', Reply code body) \<Rightarrow>
            (s', if code \<ge> 300
                 then Some (''posting: accounting returned '' @ show_nat code @ '': '' @ body) else None))"

section \<open>The dispatcher\<close>

text \<open>The delay from the time a row was enqueued, and the scan.\<close>

definition not_before :: "outbox_row \<Rightarrow> instant" where
  "not_before r = ob_enqueued_at r + min (2 ^ ob_attempts r * backoffBaseUnit) backoffMaxUnit"

definition pending_now :: "instant \<Rightarrow> outbox_row \<Rightarrow> bool" where
  "pending_now now r \<longleftrightarrow> ob_dispatched_at r = None \<and> ob_attempts r < maxAttempts \<and> not_before r \<le> now"

definition pickPending :: "outbox_row list \<Rightarrow> instant \<Rightarrow> outbox_row list" where
  "pickPending ob now = take 100 (sort_key ob_enqueued_at (filter (pending_now now) ob))"

definition update_outbox :: "uuid \<Rightarrow> (outbox_row \<Rightarrow> outbox_row) \<Rightarrow> outbox_row list \<Rightarrow> outbox_row list" where
  "update_outbox rid f ob = map (\<lambda>r. if ob_id r = rid then f r else r) ob"

definition recordFailure :: "outbox_row \<Rightarrow> string \<Rightarrow> outbox_row list \<Rightarrow> outbox_row list" where
  "recordFailure c err ob = update_outbox (ob_id c)
     (\<lambda>r. r\<lparr>ob_attempts := ob_attempts r + 1, ob_last_error := Some err\<rparr>) ob"

definition read_amount :: "decimal_lib \<Rightarrow> string \<Rightarrow> string \<Rightarrow> string + decimal" where
  "read_amount D side s =
     (if s = [] then Inr 0
      else case dParse D s of None \<Rightarrow> Inl (''parse '' @ side @ '' '' @ s) | Some d \<Rightarrow> Inr d)"

fun read_lines :: "decimal_lib \<Rightarrow> post_line_dto list \<Rightarrow> string + post_line list" where
  "read_lines D [] = Inr []"
| "read_lines D (l # ls) =
     bind_res (read_amount D ''debit'' (dl_debit l)) (\<lambda>d.
     bind_res (read_amount D ''credit'' (dl_credit l)) (\<lambda>c.
     bind_res (read_lines D ls) (\<lambda>ps.
       Inr (\<lparr> pl_account_code = dl_account_code l, pl_debit = d, pl_credit = c,
              pl_narration = dl_narration l \<rparr> # ps))))"

text \<open>The input rebuilt from a payload; a date that does not parse is left out.\<close>

definition rebuild :: "decimal_lib \<Rightarrow> post_request \<Rightarrow> string + client_post_input" where
  "rebuild D p = bind_res (read_lines D (pq_lines p)) (\<lambda>ls.
     Inr \<lparr> in_tenant_id = pq_tenant_id p, in_entry_date = parse_date (pq_entry_date p),
           in_value_date = parse_date (pq_value_date p), in_source_module = pq_source_module p,
           in_source_ref = pq_source_ref p, in_narration = pq_narration p, in_lines = ls \<rparr>)"

text \<open>
  \<open>processRow\<close> for a candidate of an earlier scan. The row lock is held to the end, so another
  worker skips the row; the transaction's commit can fail (\<open>commits = False\<close>), which leaves the
  row as it was whatever the server did.
\<close>

definition processRow ::
  "(post_request \<Rightarrow> 's \<Rightarrow> 's \<times> post_reply) \<Rightarrow> (string \<Rightarrow> uuid option) \<Rightarrow> decimal_lib \<Rightarrow> bool \<Rightarrow> bool
    \<Rightarrow> instant \<Rightarrow> outbox_row list \<Rightarrow> 's \<Rightarrow> outbox_row \<Rightarrow> outbox_row list \<times> 's" where
  "processRow send uuidParse D dryRun commits now ob s c =
     (if \<not> (\<exists>r\<in>set ob. ob_id r = ob_id c \<and> ob_dispatched_at r = None) then (ob, s)
      else
        (case rebuild D (ob_payload c) of
           Inl e \<Rightarrow> (if commits then recordFailure c e ob else ob, s)
         | Inr inp \<Rightarrow>
             (case ClientPost send D dryRun inp s of
                (s', Some e) \<Rightarrow> (if commits then recordFailure c e ob else ob, s')
              | (s', None) \<Rightarrow>
                  (if commits
                   then update_outbox (ob_id c) (\<lambda>r. r\<lparr>ob_dispatched_at := Some now,
                          ob_posted_je_id := (case uuidParse (in_source_ref inp) of
                            Some u \<Rightarrow> if u = uuid_Nil then None else Some u | None \<Rightarrow> None),
                          ob_last_error := None\<rparr>) ob
                   else ob, s'))))"

definition drain ::
  "(post_request \<Rightarrow> 's \<Rightarrow> 's \<times> post_reply) \<Rightarrow> (string \<Rightarrow> uuid option) \<Rightarrow> decimal_lib \<Rightarrow> bool
    \<Rightarrow> instant \<Rightarrow> outbox_row list \<times> 's \<Rightarrow> outbox_row list \<times> 's" where
  "drain send uuidParse D dryRun now st =
     fold (\<lambda>c (ob, s). processRow send uuidParse D dryRun True now ob s c) (pickPending (fst st) now) st"

definition ReplayTx :: "outbox_row list \<Rightarrow> uuid \<Rightarrow> string + outbox_row list" where
  "ReplayTx ob rid =
     (if \<exists>r\<in>set ob. ob_id r = rid \<and> ob_dispatched_at r = None
      then Inr (map (\<lambda>r. if ob_id r = rid \<and> ob_dispatched_at r = None
             then r\<lparr>ob_attempts := 0, ob_last_error := None\<rparr> else r) ob)
      else Inl ''no rows in result set'')"

section \<open>The body survives the trip\<close>

lemma list_all_pad [simp]: "list_all is_digit (pad_left w (show_nat n))"
  by (intro pad_left_digits show_nat_digits)

lemma length_show_nat: "n < 10 ^ Suc k \<Longrightarrow> length (show_nat n) \<le> Suc k"
proof (induction n arbitrary: k rule: show_nat.induct)
  case (1 n)
  show ?case
  proof (cases "n < 10")
    case True
    then show ?thesis by (subst show_nat.simps) simp
  next
    case False
    then obtain j where k: "k = Suc j" using "1.prems" by (cases k) auto
    with False 1 have "length (show_nat (n div 10)) \<le> Suc j" by simp
    with False k show ?thesis by (subst show_nat.simps) simp
  qed
qed

lemma length_pad: "n < 10 ^ w \<Longrightarrow> 0 < w \<Longrightarrow> length (pad_left w (show_nat n)) = w"
  using length_show_nat [of n "w - 1"] by (simp add: pad_left_def)

lemma parse_format_date:
  assumes "valid_date d" "0 \<le> d_year d" "d_year d \<le> 9999"
  shows "parse_date (format_date d) = Some d"
proof -
  let ?y = "pad_left 4 (show_nat (nat (d_year d)))" and ?m = "pad_left 2 (show_nat (d_month d))"
    and ?d = "pad_left 2 (show_nat (d_day d))"
  have b: "d_month d \<le> 12" "d_day d \<le> 31"
    using assms(1) days_in_bounds(2) [of "d_year d" "d_month d"] by (auto simp: valid_date_def)
  have l: "length ?y = 4" "length ?m = 2" "length ?d = 2"
    using assms b by (auto intro!: length_pad)
  define s where "s = format_date d"
  have s: "s = ?y @ ''-'' @ ?m @ ''-'' @ ?d" by (simp add: s_def format_date_def)
  have p: "length s = 10" "s ! 4 = CHR ''-''" "s ! 7 = CHR ''-''" "take 4 s = ?y"
    "take 2 (drop 5 s) = ?m" "drop 8 s = ?d"
    using l by (simp_all add: s nth_append)
  have "Date (d_year d) (d_month d) (d_day d) = d" by simp
  with p assms show ?thesis by (simp add: parse_date_def flip: s_def)
qed

definition lines_scaled2 :: "post_line list \<Rightarrow> bool" where
  "lines_scaled2 ls \<longleftrightarrow> (\<forall>l\<in>set ls. scaled 2 (pl_debit l) \<and> scaled 2 (pl_credit l))"

definition date_ok :: "date option \<Rightarrow> bool" where
  "date_ok d \<longleftrightarrow> (\<forall>x. d = Some x \<longrightarrow> valid_date x \<and> 0 \<le> d_year x \<and> d_year x \<le> 9999)"

context decimal_text
begin

lemma fixed_parse:
  assumes "scaled 2 x"
  shows "read_amount D side (fixed_amount D x) = Inr x" "0 \<le> x \<Longrightarrow> parseAmt D (fixed_amount D x) = Inr x"
  using parse_fixed_exact [OF assms] by (auto simp: read_amount_def parseAmt_def fixed_amount_def)

lemma fixed_scaled: "parseAmt D (fixed_amount D x) = Inr d \<Longrightarrow> scaled 2 d"
  using parse_fixed [of 2 x] r2.repr [of x]
  by (auto simp: parseAmt_def fixed_amount_def split: if_splits)

lemma read_lines_dto: "lines_scaled2 ls \<Longrightarrow> read_lines D (map (line_dto D) ls) = Inr ls"
  by (induction ls) (auto simp: lines_scaled2_def line_dto_def fixed_parse)

lemma parsePostLines_dto:
  "lines_scaled2 ls \<Longrightarrow> \<forall>l\<in>set ls. pl_account_code l \<noteq> [] \<and> 0 \<le> pl_debit l \<and> 0 \<le> pl_credit l \<Longrightarrow>
    parsePostLines D i (map (line_dto D) ls) = Inr ls"
  by (induction ls arbitrary: i) (auto simp: lines_scaled2_def line_dto_def fixed_parse)

lemma parse_opt_date:
  "date_ok d \<Longrightarrow> parse_date (case d of None \<Rightarrow> [] | Some x \<Rightarrow> format_date x) = d"
  by (cases d) (auto simp: date_ok_def parse_format_date parse_date_def [of "[]"])

lemma rebuild_body:
  "lines_scaled2 (in_lines inp) \<Longrightarrow> date_ok (in_entry_date inp) \<Longrightarrow> date_ok (in_value_date inp) \<Longrightarrow>
    rebuild D (post_body D inp) = Inr inp"
  by (simp add: rebuild_def post_body_def read_lines_dto parse_opt_date)

lemma body_amounts_ok: "req_amounts_ok D (pq_lines (post_body D inp))"
  by (auto simp: req_amounts_ok_def post_body_def line_dto_def dest: fixed_scaled)

end

section \<open>Attempts\<close>

definition the_row :: "uuid \<Rightarrow> outbox_row list \<Rightarrow> outbox_row option" where
  "the_row rid ob = find (\<lambda>r. ob_id r = rid) ob"

text \<open>One attempt at a row at a given instant, from a fresh scan of it.\<close>

definition attempt_row ::
  "(post_request \<Rightarrow> 's \<Rightarrow> 's \<times> post_reply) \<Rightarrow> (string \<Rightarrow> uuid option) \<Rightarrow> decimal_lib \<Rightarrow> bool \<Rightarrow> instant
    \<Rightarrow> uuid \<Rightarrow> outbox_row list \<times> 's \<Rightarrow> outbox_row list \<times> 's" where
  "attempt_row send uuidParse D dryRun now rid st =
     (case the_row rid (fst st) of None \<Rightarrow> st
      | Some r \<Rightarrow> processRow send uuidParse D dryRun True now (fst st) (snd st) r)"

definition row_attempts :: "uuid \<Rightarrow> outbox_row list \<times> 's \<Rightarrow> nat" where
  "row_attempts rid st = (case the_row rid (fst st) of None \<Rightarrow> 0 | Some r \<Rightarrow> ob_attempts r)"

text \<open>Due for an hour: the delay is at most an hour from the time the row was enqueued.\<close>

definition row_due :: "instant \<Rightarrow> uuid \<Rightarrow> outbox_row list \<times> 's \<Rightarrow> bool" where
  "row_due now rid st \<longleftrightarrow> (\<exists>r. the_row rid (fst st) = Some r \<and> ob_dispatched_at r = None \<and>
     ob_attempts r < maxAttempts \<and> ob_enqueued_at r + backoffMaxUnit \<le> now)"

definition row_settled :: "uuid \<Rightarrow> outbox_row list \<times> 's \<Rightarrow> bool" where
  "row_settled rid st \<longleftrightarrow> (\<exists>r. the_row rid (fst st) = Some r \<and>
     (ob_dispatched_at r \<noteq> None \<or> maxAttempts \<le> ob_attempts r))"

lemma due_pending: "row_due now rid st \<Longrightarrow> \<exists>r. the_row rid (fst st) = Some r \<and> pending_now now r"
  by (auto simp: row_due_def pending_now_def not_before_def)

lemma the_row_update:
  "the_row rid (update_outbox rid f ob) = map_option f (the_row rid ob)" if "\<And>r. ob_id (f r) = ob_id r"
  by (induction ob) (simp_all add: the_row_def update_outbox_def that)

lemma the_row_Some: "the_row rid ob = Some r \<Longrightarrow> r \<in> set ob \<and> ob_id r = rid"
  by (auto simp: the_row_def find_Some_iff)

lemma attempt_row_cases:
  assumes r: "the_row rid ob = Some r"
  obtains "fst (attempt_row send uuidParse D dryRun now rid (ob, s)) = ob"
      "\<not> (\<exists>r\<in>set ob. ob_id r = rid \<and> ob_dispatched_at r = None)"
  | e where "the_row rid (fst (attempt_row send uuidParse D dryRun now rid (ob, s)))
      = Some (r\<lparr>ob_attempts := ob_attempts r + 1, ob_last_error := Some e\<rparr>)"
  | je where "the_row rid (fst (attempt_row send uuidParse D dryRun now rid (ob, s)))
      = Some (r\<lparr>ob_dispatched_at := Some now, ob_posted_je_id := je, ob_last_error := None\<rparr>)"
proof (cases "\<exists>r\<in>set ob. ob_id r = rid \<and> ob_dispatched_at r = None")
  case False
  then show thesis using r the_row_Some [OF r] by (intro that(1)) (auto simp: attempt_row_def processRow_def)
next
  case True
  have run: "attempt_row send uuidParse D dryRun now rid (ob, s) = processRow send uuidParse D dryRun True now ob s r"
    using r by (simp add: attempt_row_def)
  have id: "ob_id r = rid" using the_row_Some [OF r] by simp
  show thesis
  proof (cases "rebuild D (ob_payload r)")
    case (Inl e)
    then show thesis using True r id unfolding run
      by (intro that(2) [of e]) (simp add: run processRow_def recordFailure_def the_row_update)
  next
    case (Inr inp)
    obtain s1 res where p: "ClientPost send D dryRun inp s = (s1, res)" by force
    show thesis
    proof (cases res)
      case (Some e)
      then show thesis using True r id Inr p
        by (intro that(2) [of e]) (simp add: run processRow_def recordFailure_def the_row_update)
    next
      case None
      then show thesis using True r id Inr p
        by (intro that(3)) (simp add: run processRow_def the_row_update)
    qed
  qed
qed

interpretation outbox: retry_worker "row_due now rid" "row_settled rid" "row_attempts rid"
    "attempt_row send uuidParse D dryRun now rid" maxAttempts
  for now rid send uuidParse D dryRun
proof (unfold_locales, goal_cases)
  case (1 st)
  then show ?case by (auto simp: row_due_def row_attempts_def)
next
  case (2 st)
  obtain ob s where st: "st = (ob, s)" by force
  from 2 obtain r where r: "the_row rid ob = Some r" "ob_dispatched_at r = None" "ob_attempts r < maxAttempts"
    "ob_enqueued_at r + backoffMaxUnit \<le> now" by (auto simp: row_due_def st)
  show ?case
    by (rule attempt_row_cases [OF r(1), of send uuidParse D dryRun now s])
      (use r the_row_Some [OF r(1)] in \<open>auto simp: st row_settled_def row_due_def row_attempts_def\<close>)
next
  case (3 st)
  obtain ob s where st: "st = (ob, s)" by force
  from 3 obtain r where r: "the_row rid ob = Some r" "ob_dispatched_at r \<noteq> None \<or> maxAttempts \<le> ob_attempts r"
    by (auto simp: row_settled_def st)
  show ?case
    by (rule attempt_row_cases [OF r(1), of send uuidParse D dryRun now s])
      (use r in \<open>auto simp: st row_settled_def\<close>)
qed

end
