(* ===== verification/LedgerSystem.thy ===== *)
theory LedgerSystem
  imports LedgerInvariants
begin

text \<open>
  The ledger as a transition system: every handler keeps \<open>gl_inv\<close> and never changes a posted
  or rejected entry. Requests whose amounts have more than two decimal places are left out of
  the steps (see \<open>req_amounts_ok\<close>); what happens to them is the subject of a property of its
  own in LedgerProperties.
\<close>

lemma ApproveJournal_ok:
  assumes inv: "gl_inv db" and fresh: "pid \<notin> pd_id ` set (gl_periods db)"
    and run: "ApproveJournal db pid now actor eid = Inr (db', e)"
  shows "gl_ok db db'"
proof -
  from run obtain e0 :: journal_entry and db1 p where h: "EnsureOpenForDateTx db pid now (je_entry_date e0) = Inr (db1, p)"
    "ApproveAndPostTx db1 now eid actor = Inr (db', e)"
    by (auto simp: ApproveJournal_def)
  have 1: "gl_ok db db1" by (rule EnsureOpen_ok [OF inv fresh h(1)])
  then have "gl_ok db1 db'" by (intro ApproveAndPostTx_ok [OF _ h(2)]) (simp add: gl_ok_def)
  with 1 show ?thesis by (rule gl_ok_trans)
qed

lemma ResolveJournal_ok:
  assumes inv: "gl_inv db" and run: "ResolveJournal ex got ag db now env = Inr (db', r)"
  shows "gl_ok db db'"
  using run gl_ok_refl [OF inv] ApproveAndPostTx_ok [OF inv] RejectTx_ok [OF inv]
  by (auto simp: ResolveJournal_def Let_def split: if_splits option.splits)

lemma map_periods_ok:
  assumes "gl_inv db" "\<And>p. pd_id (f p) = pd_id p \<and> pd_year (f p) = pd_year p \<and> pd_month (f p) = pd_month p"
  shows "gl_ok db (db\<lparr>gl_periods := map f (gl_periods db)\<rparr>)"
proof -
  have "map pd_id (map f ps) = map pd_id ps"
    "map (\<lambda>p. (pd_year p, pd_month p)) (map f ps) = map (\<lambda>p. (pd_year p, pd_month p)) ps" for ps
    using assms(2) by simp_all
  with assms(1) show ?thesis
    by (intro gl_ok_entries) (simp_all add: gl_inv_def del: map_map)
qed

lemma ClosePeriod_ok:
  "gl_inv db \<Longrightarrow> ClosePeriod db now actor pid notes = Inr db' \<Longrightarrow> gl_ok db db'"
  by (auto simp: ClosePeriod_def ClosePeriodTx_def split: if_splits intro!: map_periods_ok)

lemma ReopenPeriod_ok:
  "gl_inv db \<Longrightarrow> ReopenPeriod db now actor pid reason = Inr db' \<Longrightarrow> gl_ok db db'"
  by (auto simp: ReopenPeriod_def ReopenTx_def split: if_splits intro!: map_periods_ok)

lemma LockAllPeriods_ok: "gl_inv db \<Longrightarrow> gl_ok db (LockAllPeriodsInYearTx db now year user)"
  unfolding LockAllPeriodsInYearTx_def by (rule map_periods_ok) auto

lemma CreateAccount_ok:
  assumes "gl_inv db" "new_id \<notin> ac_id ` set (gl_accounts db)"
    "CreateAccount db new_id req = Inr (db', a)"
  shows "gl_ok db db'"
  using assms
  by (auto simp: CreateAccount_def CreateAccountTx_def Let_def split: if_splits option.splits
      intro!: gl_ok_entries) (auto simp: gl_inv_def)

lemma UpdateAccountTx_Inr:
  "UpdateAccountTx db aid inp = Inr (db', a) \<Longrightarrow>
    db' = db\<lparr>gl_accounts := map (\<lambda>a. if ac_id a = aid \<and> \<not> ac_is_system_locked a
      then a\<lparr>ac_name := uai_name inp, ac_type := uai_type inp,
             ac_parent_id := uai_parent_id inp, ac_is_active := uai_is_active inp,
             ac_description := uai_description inp\<rparr> else a) (gl_accounts db)\<rparr>"
  by (auto simp: UpdateAccountTx_def Let_def split: option.splits if_splits)

lemma UpdateAccount_ok:
  assumes inv: "gl_inv db" and run: "UpdateAccount db aid req = Inr (db', a)"
  shows "gl_ok db db'"
proof -
  obtain inp where "UpdateAccountTx db aid inp = Inr (db', a)"
    using run by (auto simp: UpdateAccount_def split: if_splits)
  note d = UpdateAccountTx_Inr [OF this]
  let ?f = "\<lambda>a. if ac_id a = aid \<and> \<not> ac_is_system_locked a
      then a\<lparr>ac_name := uai_name inp, ac_type := uai_type inp,
             ac_parent_id := uai_parent_id inp, ac_is_active := uai_is_active inp,
             ac_description := uai_description inp\<rparr> else a"
  have "map ac_id (map ?f as) = map ac_id as" "map ac_code (map ?f as) = map ac_code as" for as :: "account list"
    by simp_all
  with inv show ?thesis
    unfolding d by (intro gl_ok_entries) (simp_all add: gl_inv_def del: map_map)
qed

context money_column
begin

lemma CreateJournal_ok:
  assumes inv: "gl_inv db" and fresh: "pid \<notin> pd_id ` set (gl_periods db)"
    "eid \<notin> je_id ` set (gl_entries db)"
    and a: "req_amounts_ok D (cq_lines req)"
  shows "gl_ok db (fst (CreateJournal D N wfs db pid eid now actor req))"
proof (cases "create_draft D N db pid eid now actor req")
  case (Inl e)
  then show ?thesis using gl_ok_refl [OF inv] by (simp add: CreateJournal_def)
next
  case (Inr r)
  obtain db1 e td ae where r: "r = (db1, e, td, ae)" by (metis prod_cases4)
  note c = create_draft_ok [OF inv fresh a, of now actor db1 e td ae, unfolded Inr r, OF refl]
  have w: "gl_ok db (set_workflow_instance (je_id e) wid db1)" for wid
    using c set_workflow_instance_ok [of db1 e "je_id e" wid] gl_ok_trans
    by (auto simp: gl_ok_def gl_keeps_def)
  show ?thesis
    using c(1) w by (simp add: CreateJournal_def Inr r split: option.splits sum.splits)
qed

end

lemma find_snoc: "find Q xs = None \<Longrightarrow> Q x \<Longrightarrow> find Q (xs @ [x]) = Some x"
  by (induction xs) (auto split: if_splits)

lemma EnsureOpen_again:
  "EnsureOpenForDateTx db pid now d = Inr (db1, p) \<Longrightarrow> EnsureOpenForDateTx db1 pid2 now2 d = Inr (db1, p)"
  by (auto simp: EnsureOpenForDateTx_def OpenOrCreateTx_def Let_def find_snoc split: option.splits if_splits)

subsection \<open>The closing entry\<close>

lemma scaled_sum: "(\<And>x. x \<in> set xs \<Longrightarrow> scaled n (f x)) \<Longrightarrow> scaled n (sum_list (map f xs))"
  by (rule scaled_sum_list) auto

lemma scaled_uminus [intro]: "scaled n x \<Longrightarrow> scaled n (- x)"
  using scaled_diff [of n 0 x] by simp

lemma account_net_scaled: "gl_inv db \<Longrightarrow> scaled 2 (account_net db aid d)"
  unfolding account_net_def gl_inv_def entry_ok_def lines_scaled_def
  by (intro scaled_sum scaled_diff) auto

lemma closing_balance_scaled:
  "gl_inv db \<Longrightarrow> c \<in> set (PLBalancesAsOfTx db d) \<Longrightarrow> scaled 2 (cl_balance c)"
  by (auto simp: PLBalancesAsOfTx_def Let_def intro!: scaled_uminus account_net_scaled)

lemma closing_amounts:
  assumes "gl_inv db" "closing_totals (PLBalancesAsOfTx db d) = (ti, te)"
  shows "post_amounts_ok (map closing_post_line (PLBalancesAsOfTx db d) @ surplus_line y (ti - te))"
proof -
  note b = closing_balance_scaled [OF assms(1)]
  have "scaled 2 ti" "scaled 2 te"
    using assms(2) b by (auto simp: closing_totals_def intro!: scaled_sum)
  then show ?thesis
    using b by (auto simp: post_amounts_ok_def closing_post_line_def surplus_line_def)
qed

lemma RecordCloseTx_frame:
  "RecordCloseTx N db c = Inr (db', c') \<Longrightarrow> gl_entries db' = gl_entries db \<and>
    gl_periods db' = gl_periods db \<and> gl_accounts db' = gl_accounts db \<and> c' = c"
  by (auto simp: RecordCloseTx_def split: if_splits)

text \<open>The parts of a successful close.\<close>

lemma executeCloseTx_InrE:
  assumes "executeCloseTx N db pid eid now today year user notes = Inr (db', c)"
  obtains db1 p db2 e db3 ti te inp where
    "\<not> IsClosedTx db year"
    "EnsureOpenForDateTx db pid now (Date year 12 31) = Inr (db1, p)"
    "PLBalancesAsOfTx db1 (Date year 12 31) \<noteq> []"
    "closing_totals (PLBalancesAsOfTx db1 (Date year 12 31)) = (ti, te)"
    "PostTx N db1 pid eid now today inp = Inr (db2, e)" "pi_entry_date inp = Some (Date year 12 31)"
    "pi_source_module inp = ''accounting.fiscal-year-close''"
    "pi_lines inp = map closing_post_line (PLBalancesAsOfTx db1 (Date year 12 31))
       @ surplus_line (show_nat (nat year)) (ti - te)"
    "RecordCloseTx N db2 c = Inr (db3, c)"
    "fc_net_surplus c = ti - te" "fc_total_income c = ti" "fc_total_expense c = te"
    "fc_closing_entry_id c = je_id e" "fc_year c = year"
    "db' = LockAllPeriodsInYearTx db3 now year user"
proof -
  let ?fy = "Date year 12 31" and ?y = "show_nat (nat year)"
  from assms obtain db1 p where 1: "\<not> IsClosedTx db year" "EnsureOpenForDateTx db pid now ?fy = Inr (db1, p)"
    by (auto simp: executeCloseTx_def Let_def split: if_splits)
  obtain ti te where t: "closing_totals (PLBalancesAsOfTx db1 ?fy) = (ti, te)" by (metis surj_pair)
  define inp where "inp = \<lparr> pi_entry_date = Some ?fy, pi_value_date = Some ?fy,
    pi_entry_type = Some TypeAdjustment,
    pi_source_module = ''accounting.fiscal-year-close'', pi_source_ref = ?y,
    pi_narration = ''Year-end closing entry for FY '' @ ?y,
    pi_lines = map closing_post_line (PLBalancesAsOfTx db1 ?fy) @ surplus_line ?y (ti - te),
    pi_posted_by = Some user \<rparr>"
  from assms 1 t have ne: "PLBalancesAsOfTx db1 ?fy \<noteq> []"
    by (auto simp: executeCloseTx_def Let_def)
  obtain db2 e where post: "PostTx N db1 pid eid now today inp = Inr (db2, e)"
    using assms 1 t ne unfolding inp_def
    by (auto simp: executeCloseTx_def Let_def simp del: append.simps)
  define rec where "rec = \<lparr> fc_year = year, fc_fy_start = Date year 1 1, fc_fy_end = ?fy,
    fc_closing_entry_id = je_id e, fc_total_income = ti, fc_total_expense = te,
    fc_net_surplus = ti - te,
    fc_income_accounts = length (filter (\<lambda>c. cl_class c = ClassIncome) (PLBalancesAsOfTx db1 ?fy)),
    fc_expense_accounts = length (filter (\<lambda>c. cl_class c \<noteq> ClassIncome) (PLBalancesAsOfTx db1 ?fy)),
    fc_closed_by = user, fc_notes = notes \<rparr>"
  have "bind_res (RecordCloseTx N db2 rec) (\<lambda>(db3, recorded).
      Inr (LockAllPeriodsInYearTx db3 now year user, recorded)) = Inr (db', c)"
    using assms 1 t ne post unfolding inp_def rec_def
    by (simp add: executeCloseTx_def Let_def del: append.simps)
  then obtain db3 where r: "RecordCloseTx N db2 rec = Inr (db3, c)"
    "db' = LockAllPeriodsInYearTx db3 now year user" by auto
  with RecordCloseTx_frame [OF r(1)] have "c = rec" by simp
  then show thesis
    using 1 t ne post r by (intro that [of db1 p ti te inp db2 e db3]) (simp_all add: inp_def rec_def)
qed

context money_column
begin

lemma CloseYear_ok:
  assumes inv: "gl_inv db" and fresh: "pid \<notin> pd_id ` set (gl_periods db)"
    "eid \<notin> je_id ` set (gl_entries db)"
    and run: "executeCloseTx N db pid eid now today year user notes = Inr (db', c)"
  shows "gl_ok db db'"
  using run
proof (rule executeCloseTx_InrE)
  fix db1 p db2 e db3 ti te inp
  assume h: "EnsureOpenForDateTx db pid now (Date year 12 31) = Inr (db1, p)"
    "closing_totals (PLBalancesAsOfTx db1 (Date year 12 31)) = (ti, te)"
    "PostTx N db1 pid eid now today inp = Inr (db2, e)" "pi_entry_date inp = Some (Date year 12 31)"
    "pi_lines inp = map closing_post_line (PLBalancesAsOfTx db1 (Date year 12 31))
       @ surplus_line (show_nat (nat year)) (ti - te)"
    "RecordCloseTx N db2 c = Inr (db3, c)" "db' = LockAllPeriodsInYearTx db3 now year user"
  have 1: "gl_ok db db1" by (rule EnsureOpen_ok [OF inv fresh(1) h(1)])
  then have inv1: "gl_inv db1" by (simp add: gl_ok_def)
  have am: "post_amounts_ok (pi_lines inp)" using closing_amounts [OF inv1 h(2)] h(5) by simp
  obtain els ip db1' p' where post: "EnsureOpenForDateTx db1 pid now (Date year 12 31) = Inr (db1', p')"
    "InsertPostedTx N db1' eid now ip = Inr (db2, e)" "ip_lines ip = els"
    "resolve_lines db1' 0 [] (pi_lines inp) = Inr els"
    by (rule PostTx_InrE [OF h(3)]) (simp add: h(4))
  have "db1' = db1"
    using post(1) EnsureOpen_again [OF h(1)] by simp
  with post fresh(2) EnsureOpen_Inr(1) [OF h(1)] resolve_lines_amounts_ok [OF post(4) am] inv1
  have 2: "gl_ok db1 db2" by (intro InsertPostedTx_ok) simp_all
  have "gl_inv db3" "gl_keeps db2 db3"
    using 2 RecordCloseTx_frame [OF h(6)] by (simp_all add: gl_ok_def gl_inv_def gl_keeps_def)
  then have "gl_ok db2 db3" by (simp add: gl_ok_def)
  with 1 2 LockAllPeriods_ok [OF \<open>gl_inv db3\<close>] show ?thesis
    unfolding h(7) using gl_ok_trans by blast
qed

end

text \<open>The net effect of an entry on an account, from its lines.\<close>

definition lines_net :: "uuid \<Rightarrow> journal_line list \<Rightarrow> decimal" where
  "lines_net aid ls = sum_list (map (\<lambda>l. jl_debit l - jl_credit l) (filter (\<lambda>l. jl_account_id l = aid) ls))"

lemma account_net_snoc:
  "account_net (db\<lparr>gl_entries := es @ [e]\<rparr>) aid d =
     account_net (db\<lparr>gl_entries := es\<rparr>) aid d +
     (if je_status e = EntryPosted \<and> je_entry_date e \<le> d then lines_net aid (je_lines e) else 0)"
  by (simp add: account_net_def lines_net_def)

definition acct_id :: "gl_db \<Rightarrow> string \<Rightarrow> uuid" where
  "acct_id db code = (case GetByCodeTx db code of Inr a \<Rightarrow> ac_id a | Inl _ \<Rightarrow> 0)"

lemma resolve_ref_map:
  "resolve_ref db i ls = Inr els \<Longrightarrow>
    els = map (\<lambda>l. \<lparr> el_account_id = acct_id db (pl_account_code l), el_debit = pl_debit l,
      el_credit = pl_credit l, el_narration = pl_narration l \<rparr>) ls"
  by (induction ls arbitrary: i els) (auto simp: acct_id_def split: sum.splits if_splits)

lemma lines_net_store:
  assumes "store_lines N els = Inr ls"
  shows "lines_net aid ls =
    sum_list (map (\<lambda>el. N (el_debit el) - N (el_credit el)) (filter (\<lambda>el. el_account_id el = aid) els))"
proof -
  have ls: "ls = map (\<lambda>(i, el). store_line N (i + 1) el) (zip [0..<length els] els)"
    using assms by (simp add: store_lines_def Let_def split: if_splits)
  have "lines_net aid (map (\<lambda>(i, el). store_line N (i + 1) el) (zip [k..<k + length els] els)) =
    sum_list (map (\<lambda>el. N (el_debit el) - N (el_credit el)) (filter (\<lambda>el. el_account_id el = aid) els))" for k
  proof (induction els arbitrary: k)
    case (Cons el els)
    have "[k..<k + length (el # els)] = k # [Suc k..<Suc k + length els]"
      by (subst upt_rec) simp
    with Cons.IH [of "Suc k"] show ?case by (simp add: lines_net_def store_line_def)
  qed (simp add: lines_net_def)
  from this [of 0] show ?thesis by (simp add: ls)
qed

lemma filter_unique:
  "distinct (map f xs) \<Longrightarrow> x \<in> set xs \<Longrightarrow> filter (\<lambda>y. f y = f x) xs = [x]"
proof (induction xs)
  case (Cons y ys)
  show ?case
  proof (cases "x = y")
    case True
    with Cons.prems(1) have "filter (\<lambda>y. f y = f x) ys = []" by (auto simp: filter_empty_conv) (metis imageI)
    with True show ?thesis by simp
  next
    case False
    with Cons show ?thesis by (auto simp: image_iff)
  qed
qed simp

lemma find_unique:
  "distinct (map f xs) \<Longrightarrow> x \<in> set xs \<Longrightarrow> find (\<lambda>y. f y = f x) xs = Some x"
  by (induction xs) (auto dest: image_eqI [where f = f])

lemma GetByCode_mem:
  "gl_inv db \<Longrightarrow> a \<in> set (gl_accounts db) \<Longrightarrow> GetByCodeTx db (ac_code a) = Inr a"
  using find_unique [of ac_code "gl_accounts db" a] by (simp add: GetByCodeTx_def gl_inv_def)

lemma GetByCode_Inr:
  "GetByCodeTx db c = Inr a \<Longrightarrow> a \<in> set (gl_accounts db) \<and> ac_code a = c"
  by (auto simp: GetByCodeTx_def find_Some_iff split: option.splits)

lemma PL_acct_id:
  "gl_inv db \<Longrightarrow> c \<in> set (PLBalancesAsOfTx db d) \<Longrightarrow> acct_id db (cl_account_code c) = cl_account_id c"
  by (auto simp: PLBalancesAsOfTx_def Let_def acct_id_def GetByCode_mem)

text \<open>The closing lines move each income and expense account by the opposite of its balance.\<close>

lemma closing_net:
  assumes inv: "gl_inv db" and a: "a \<in> set (gl_accounts db)" "ac_class a \<in> {ClassIncome, ClassExpense}"
    "ac_is_active a"
  shows "sum_list (map (\<lambda>c. pl_debit (closing_post_line c) - pl_credit (closing_post_line c))
      (filter (\<lambda>c. cl_account_id c = ac_id a) (PLBalancesAsOfTx db d))) = - account_net db (ac_id a) d"
proof -
  let ?accts = "sort_key ac_code (filter (\<lambda>a. ac_class a \<in> {ClassIncome, ClassExpense} \<and> ac_is_active a)
                  (gl_accounts db))"
  define line where "line = (\<lambda>a :: account. \<lparr> cl_account_code = ac_code a, cl_account_id = ac_id a,
    cl_account_name = ac_name a, cl_class = ac_class a,
    cl_balance = (if ac_class a = ClassIncome then - account_net db (ac_id a) d
                  else account_net db (ac_id a) d) \<rparr>)"
  have PL: "PLBalancesAsOfTx db d = filter (\<lambda>c. cl_balance c \<noteq> 0) (map line ?accts)"
    by (simp add: PLBalancesAsOfTx_def Let_def line_def)
  have "distinct ?accts" "inj_on ac_id (set ?accts)"
    using inv by (auto simp: gl_inv_def distinct_map distinct_sort intro: inj_on_subset)
  then have "distinct (map ac_id ?accts)" by (simp add: distinct_map del: set_sort)
  moreover have "a \<in> set ?accts" using a by simp
  ultimately have one: "filter (\<lambda>x. ac_id x = ac_id a) ?accts = [a]" by (rule filter_unique)
  have sw: "filter (\<lambda>c. cl_account_id c = ac_id a) (filter (\<lambda>c. cl_balance c \<noteq> 0) (map line xs))
      = filter (\<lambda>c. cl_balance c \<noteq> 0) (map line (filter (\<lambda>x. ac_id x = ac_id a) xs))" for xs
    by (induction xs) (auto simp: line_def)
  have "filter (\<lambda>c. cl_account_id c = ac_id a) (PLBalancesAsOfTx db d)
      = filter (\<lambda>c. cl_balance c \<noteq> 0) [line a]"
    unfolding PL sw one by simp
  then show ?thesis
    using a(2) by (auto simp: line_def closing_post_line_def)
qed

lemma account_net_cong: "gl_entries db' = gl_entries db \<Longrightarrow> account_net db' aid d = account_net db aid d"
  by (simp add: account_net_def)

context money_column
begin

lemma lines_net_exact:
  assumes "store_lines N els = Inr ls" "amounts_ok els"
  shows "lines_net aid ls =
    sum_list (map (\<lambda>el. el_debit el - el_credit el) (filter (\<lambda>el. el_account_id el = aid) els))"
  unfolding lines_net_store [OF assms(1)]
  using assms(2) by (intro arg_cong [where f = sum_list] map_cong refl) (auto simp: amounts_ok_def exact)

lemma close_zeroes:
  assumes inv: "gl_inv db" and fresh: "pid \<notin> pd_id ` set (gl_periods db)"
    and run: "executeCloseTx N db pid eid now today year user notes = Inr (db', c)"
    and re: "\<forall>b\<in>set (gl_accounts db). ac_code b = ''3010'' \<longrightarrow> ac_class b \<notin> {ClassIncome, ClassExpense}"
    and a: "a \<in> set (gl_accounts db)" "ac_class a \<in> {ClassIncome, ClassExpense}" "ac_is_active a"
  shows "account_net db' (ac_id a) (Date year 12 31) = 0"
  using run
proof (rule executeCloseTx_InrE)
  let ?fy = "Date year 12 31" and ?sur = "surplus_line (show_nat (nat year))"
  fix db1 p db2 e db3 ti te inp
  assume h: "EnsureOpenForDateTx db pid now ?fy = Inr (db1, p)"
    "closing_totals (PLBalancesAsOfTx db1 ?fy) = (ti, te)"
    "PostTx N db1 pid eid now today inp = Inr (db2, e)" "pi_entry_date inp = Some ?fy"
    "pi_lines inp = map closing_post_line (PLBalancesAsOfTx db1 ?fy) @ ?sur (ti - te)"
    "RecordCloseTx N db2 c = Inr (db3, c)" "db' = LockAllPeriodsInYearTx db3 now year user"
  have inv1: "gl_inv db1" using EnsureOpen_ok [OF inv fresh h(1)] by (simp add: gl_ok_def)
  have acc: "gl_accounts db1 = gl_accounts db" by (rule EnsureOpen_Inr(2) [OF h(1)])
  obtain db1' p' els ip where post: "EnsureOpenForDateTx db1 pid now ?fy = Inr (db1', p')"
    "resolve_lines db1' 0 [] (pi_lines inp) = Inr els"
    "InsertPostedTx N db1' eid now ip = Inr (db2, e)" "ip_lines ip = els" "ip_entry_date ip = ?fy"
    by (rule PostTx_InrE [OF h(3)]) (simp add: h(4))
  have db1': "db1' = db1" using post(1) EnsureOpen_again [OF h(1)] by simp
  have am: "amounts_ok els"
    using resolve_lines_amounts_ok [OF post(2)] closing_amounts [OF inv1 h(2)] h(5) by simp
  note ins = InsertPostedTx_Inr [OF post(3), unfolded post(4), OF am, unfolded db1' post(5)]
  have els: "els = map (\<lambda>l. \<lparr> el_account_id = acct_id db1 (pl_account_code l), el_debit = pl_debit l,
      el_credit = pl_credit l, el_narration = pl_narration l \<rparr>) (pi_lines inp)"
    and ref: "resolve_ref db1 0 (pi_lines inp) = Inr els"
    using post(2) resolve_lines_ref [of db1 "[]" 0] resolve_ref_map [of db1 0 "pi_lines inp" els]
    by (simp_all add: db1')
  have sur: "acct_id db1 (pl_account_code l) \<noteq> ac_id a" if l: "l \<in> set (?sur x)" "l \<in> set (pi_lines inp)" for l x
  proof
    assume eq: "acct_id db1 (pl_account_code l) = ac_id a"
    have res: "l \<in> set ls \<Longrightarrow> resolve_ref db1 i ls = Inr es \<Longrightarrow>
        \<exists>b. GetByCodeTx db1 (pl_account_code l) = Inr b" for ls i es
      by (induction ls arbitrary: i es) (auto split: sum.splits if_splits)
    obtain b where b: "GetByCodeTx db1 (pl_account_code l) = Inr b" using res [OF l(2) ref] by blast
    have "pl_account_code l = ''3010''" using l(1) by (auto simp: surplus_line_def split: if_splits)
    then have "b \<in> set (gl_accounts db)" "ac_code b = ''3010''" "ac_id b = ac_id a"
      using GetByCode_Inr [OF b] eq b acc by (simp_all add: acct_id_def)
    moreover from this have "b = a" using inv a(1) by (auto simp: gl_inv_def distinct_map dest: inj_onD)
    ultimately show False using re a(2) by auto
  qed
  let ?d = "\<lambda>l. pl_debit l - pl_credit l"
  have "lines_net (ac_id a) (je_lines e)
      = sum_list (map ?d (filter (\<lambda>l. acct_id db1 (pl_account_code l) = ac_id a) (pi_lines inp)))"
    unfolding lines_net_exact [OF ins(9) am] els by (simp add: filter_map comp_def)
  also have "filter (\<lambda>l. acct_id db1 (pl_account_code l) = ac_id a) (pi_lines inp)
      = map closing_post_line (filter (\<lambda>c. cl_account_id c = ac_id a) (PLBalancesAsOfTx db1 ?fy))"
  proof -
    have "filter (\<lambda>l. acct_id db1 (pl_account_code l) = ac_id a) (?sur (ti - te)) = []"
      using sur h(5) by (auto simp: filter_empty_conv)
    moreover have "filter (\<lambda>c. acct_id db1 (cl_account_code c) = ac_id a) (PLBalancesAsOfTx db1 ?fy)
        = filter (\<lambda>c. cl_account_id c = ac_id a) (PLBalancesAsOfTx db1 ?fy)"
      using PL_acct_id [OF inv1] by (intro filter_cong) auto
    moreover have "pl_account_code (closing_post_line c) = cl_account_code c" for c
      by (simp add: closing_post_line_def)
    ultimately show ?thesis
      by (simp only: h(5) filter_append filter_map comp_def append_Nil2)
  qed
  finally have "lines_net (ac_id a) (je_lines e) = - account_net db1 (ac_id a) ?fy"
    using closing_net [OF inv1, of a ?fy] a by (simp add: acc comp_def)
  then have "account_net db2 (ac_id a) ?fy = 0"
    unfolding ins(1) account_net_snoc using ins(4,6) by simp
  moreover have "gl_entries db' = gl_entries db2"
    using RecordCloseTx_frame [OF h(6)] by (simp add: h(7) LockAllPeriodsInYearTx_def)
  ultimately show ?thesis by (simp add: account_net_def)
qed

end

section \<open>The ledger's steps\<close>

text \<open>New rows get fresh ids; amounts in requests have at most two decimals.\<close>

inductive gl_step :: "decimal_lib \<Rightarrow> (decimal \<Rightarrow> decimal) \<Rightarrow> gl_db \<Rightarrow> gl_db \<Rightarrow> bool" for D N where
  post: "pid \<notin> pd_id ` set (gl_periods db) \<Longrightarrow> eid \<notin> je_id ` set (gl_entries db) \<Longrightarrow>
    req_amounts_ok D (pq_lines req) \<Longrightarrow>
    Post D N tok hdr db pid eid now today req = Inr (db', out) \<Longrightarrow> gl_step D N db db'"
| create: "pid \<notin> pd_id ` set (gl_periods db) \<Longrightarrow> eid \<notin> je_id ` set (gl_entries db) \<Longrightarrow>
    req_amounts_ok D (cq_lines creq) \<Longrightarrow>
    CreateJournal D N wfs db pid eid now actor creq = (db', res) \<Longrightarrow> gl_step D N db db'"
| approve: "pid \<notin> pd_id ` set (gl_periods db) \<Longrightarrow>
    ApproveJournal db pid now actor eid = Inr (db', e) \<Longrightarrow> gl_step D N db db'"
| reject: "RejectJournal db now actor eid reason = Inr db' \<Longrightarrow> gl_step D N db db'"
| resolve: "ResolveJournal expected got agent db now env = Inr (db', r) \<Longrightarrow> gl_step D N db db'"
| close_period: "ClosePeriod db now actor pid notes = Inr db' \<Longrightarrow> gl_step D N db db'"
| reopen_period: "ReopenPeriod db now actor pid reason = Inr db' \<Longrightarrow> gl_step D N db db'"
| create_account: "aid \<notin> ac_id ` set (gl_accounts db) \<Longrightarrow>
    CreateAccount db aid areq = Inr (db', a) \<Longrightarrow> gl_step D N db db'"
| update_account: "UpdateAccount db aid ureq = Inr (db', a) \<Longrightarrow> gl_step D N db db'"
| close_year: "pid \<notin> pd_id ` set (gl_periods db) \<Longrightarrow> eid \<notin> je_id ` set (gl_entries db) \<Longrightarrow>
    CloseYear N db pid eid now today user year notes = Inr (db', c) \<Longrightarrow> gl_step D N db db'"

text \<open>A new tenant's ledger: a chart of accounts and nothing else.\<close>

definition gl_init :: "account list \<Rightarrow> gl_db" where
  "gl_init accts = \<lparr> gl_accounts = accts, gl_periods = [], gl_entries = [], gl_closes = [] \<rparr>"

definition chart_ok :: "account list \<Rightarrow> bool" where
  "chart_ok accts \<longleftrightarrow> distinct (map ac_id accts) \<and> distinct (map ac_code accts)"

lemma gl_init_inv: "chart_ok accts \<Longrightarrow> gl_inv (gl_init accts)"
  by (simp add: gl_init_def chart_ok_def gl_inv_def numbered_def)

context money_column
begin

theorem gl_step_ok: "gl_inv db \<Longrightarrow> gl_step D N db db' \<Longrightarrow> gl_ok db db'"
proof (erule gl_step.cases, goal_cases)
  case (1 pid d eid req tok hdr now today d' out)
  then show ?case using Post_ok by blast
next
  case (2 pid d eid creq wfs now actor d' res)
  then show ?case using CreateJournal_ok [of d pid eid D creq wfs now actor] by simp
next
  case (3 pid d now actor eid d' e)
  then show ?case using ApproveJournal_ok by blast
next
  case (4 d now actor eid reason d')
  then show ?case using RejectTx_ok by (simp add: RejectJournal_def)
next
  case (5 expected got agent d now env d' r)
  then show ?case using ResolveJournal_ok by blast
next
  case (6 d now actor pid nts d')
  then show ?case using ClosePeriod_ok by blast
next
  case (7 d now actor pid reason d')
  then show ?case using ReopenPeriod_ok by blast
next
  case (8 aid d areq d' a)
  then show ?case using CreateAccount_ok by blast
next
  case (9 d aid ureq d' a)
  then show ?case using UpdateAccount_ok by blast
next
  case (10 pid d eid now today user year nts d' c)
  then show ?case using CloseYear_ok by (auto simp: CloseYear_def split: if_splits)
qed

lemma gl_steps_ok: "(gl_step D N)\<^sup>*\<^sup>* db db' \<Longrightarrow> gl_inv db \<Longrightarrow> gl_ok db db'"
proof (induction rule: rtranclp_induct)
  case base
  then show ?case by (rule gl_ok_refl)
next
  case (step y z)
  then have "gl_ok db y" by blast
  moreover from this step(2) have "gl_ok y z" by (intro gl_step_ok) (simp_all add: gl_ok_def)
  ultimately show ?case by (rule gl_ok_trans)
qed

lemma gl_reachable: "chart_ok accts \<Longrightarrow> (gl_step D N)\<^sup>*\<^sup>* (gl_init accts) db \<Longrightarrow> gl_inv db"
  using gl_steps_ok gl_init_inv by (auto simp: gl_ok_def)

end

end
