(* ===== verification/LedgerProperties.thy ===== *)
theory LedgerProperties
  imports LedgerSystem
begin

text \<open>
  The properties of the general ledger, over the reachable states of \<open>gl_step\<close>, with a small
  chart of accounts on which the witnesses run.
\<close>

section \<open>A ledger\<close>

definition ex_account :: "uuid \<Rightarrow> string \<Rightarrow> account_class \<Rightarrow> account" where
  "ex_account i code cls = \<lparr> ac_id = i, ac_code = code, ac_name = code, ac_class = cls,
     ac_type = ''t'', ac_parent_id = None, ac_normal_balance = NormalDebit,
     ac_currency_code = ''KES'', ac_is_active = True, ac_is_system_locked = True,
     ac_description = None \<rparr>"

definition ex_chart :: "account list" where
  "ex_chart = [ex_account 1 ''1000'' ClassAsset, ex_account 2 ''2000'' ClassLiability,
     ex_account 3 ''3010'' ClassEquity, ex_account 4 ''4000'' ClassIncome,
     ex_account 5 ''5000'' ClassExpense]"

definition ex_line :: "string \<Rightarrow> string \<Rightarrow> string \<Rightarrow> post_line_dto" where
  "ex_line code d c = \<lparr> dl_account_code = code, dl_debit = d, dl_credit = c, dl_narration = [] \<rparr>"

definition ex_post :: "string \<Rightarrow> string \<Rightarrow> post_line_dto list \<Rightarrow> post_request" where
  "ex_post day ref ls = \<lparr> pq_tenant_id = 1, pq_entry_date = day, pq_value_date = [],
     pq_source_module = ''savings'', pq_source_ref = ref, pq_narration = ''n'', pq_lines = ls \<rparr>"

abbreviation ex_N :: "decimal \<Rightarrow> decimal" where
  "ex_N \<equiv> round_half_up 2"

text \<open>Amounts the runs use, as the parser and the column type read them.\<close>

lemma ex_amounts [simp]:
  "parseAmt shop_decimal [] = Inr 0"
  "parseAmt shop_decimal ''100.50'' = Inr (201/2)"
  "parseAmt shop_decimal ''0.005'' = Inr (1/200)"
  "parseAmt shop_decimal ''0.01'' = Inr (1/100)"
  by (simp_all add: parseAmt_def shop_decimal_def dec_parse_def dec_parse_abs_def is_digit_def
      read_digits_def digit_val_def)

lemma ex_scaled [simp]: "scaled 2 (201/2)" "scaled 2 (1/100)"
  unfolding scaled_iff by (rule exI [of _ 10050], simp) (rule exI [of _ 1], simp)

lemma ex_N_values [simp]:
  "ex_N 0 = 0" "ex_N (201/2) = 201/2" "ex_N (1/100) = 1/100" "ex_N (1/200) = 1/100"
  by (simp_all add: pg.exact) (simp add: round_half_up_def round_away_def floor_eq_iff)

lemma ex_dates [simp]:
  "parse_date ''2025-03-10'' = Some (Date 2025 3 10)"
  "parse_date ''2025-12-31'' = Some (Date 2025 12 31)"
  by code_simp+

definition ex_jl :: "nat \<Rightarrow> uuid \<Rightarrow> decimal \<Rightarrow> decimal \<Rightarrow> journal_line" where
  "ex_jl n acc d c = \<lparr> jl_line_no = n, jl_account_id = acc, jl_debit = d, jl_credit = c, jl_narration = [] \<rparr>"

definition ex_entry1 :: journal_entry where
  "ex_entry1 = \<lparr> je_id = 20, je_entry_no = Some (entry_no_of 1), je_entry_date = Date 2025 3 10,
     je_value_date = Date 2025 3 10, je_period_year = 2025, je_period_month = 3,
     je_entry_type = TypeAuto, je_source_module = ''savings'', je_source_ref = ''tx1'',
     je_narration = ''n'', je_status = EntryPosted, je_total_debits = 201/2,
     je_total_credits = 201/2, je_created_by = None, je_posted_by = None, je_posted_at = Some 1000,
     je_rejected_by = None, je_rejected_at = None, je_rejection_reason = [],
     je_workflow_instance_id = None, je_lines = [ex_jl 1 1 (201/2) 0, ex_jl 2 4 0 (201/2)] \<rparr>"

definition ex_period :: "uuid \<Rightarrow> nat \<Rightarrow> period" where
  "ex_period i m = \<lparr> pd_id = i, pd_year = 2025, pd_month = m, pd_status = PeriodOpen,
     pd_opened_at = Some 1000, pd_opened_by = None, pd_closed_at = None, pd_closed_by = None,
     pd_notes = [] \<rparr>"

definition ex_gl1 :: gl_db where
  "ex_gl1 = \<lparr> gl_accounts = ex_chart, gl_periods = [ex_period 10 3], gl_entries = [ex_entry1],
     gl_closes = [] \<rparr>"

definition ex_req1 :: post_request where
  "ex_req1 = ex_post ''2025-03-10'' ''tx1'' [ex_line ''1000'' ''100.50'' [], ex_line ''4000'' [] ''100.50'']"

lemmas ex_eval = gl_init_def ex_chart_def ex_account_def ex_post_def ex_line_def ex_req1_def
  ex_entry1_def ex_jl_def ex_period_def
lemmas post_eval = Post_def validate_post_def opt_date_def find_posted_def post_write_def PostTx_def
  EnsureOpenForDateTx_def OpenOrCreateTx_def InsertPostedTx_def validateLines_def store_lines_def
  store_line_def line_check_def nextEntryNoTx_def entry_values_def List.map_filter_def GetByCodeTx_def

lemma ex_gl1_post:
  "Post shop_decimal ex_N [] [] (gl_init ex_chart) 10 20 1000 (Date 2025 6 30) ex_req1
     = Inr (ex_gl1, Created ex_entry1)"
  by (simp add: post_eval ex_eval ex_gl1_def Let_def)

lemma ex_chart_ok: "chart_ok ex_chart"
  by (simp add: chart_ok_def ex_chart_def ex_account_def)

lemma ex_scaled_eq:
  assumes "d * k = m" "k \<noteq> 0" "scaled 2 (m / k)"
  shows "scaled 2 d"
proof -
  have "d = m / k" using assms(1,2) by (simp add: eq_divide_eq)
  with assms(3) show ?thesis by simp
qed

lemma ex_req1_amounts: "req_amounts_ok shop_decimal (pq_lines ex_req1)"
  by (auto simp: req_amounts_ok_def ex_req1_def ex_post_def ex_line_def intro: ex_scaled_eq)

lemma ex_gl1_reach: "(gl_step shop_decimal ex_N)\<^sup>*\<^sup>* (gl_init ex_chart) ex_gl1"
  by (rule r_into_rtranclp, rule gl_step.post [OF _ _ ex_req1_amounts ex_gl1_post])
    (simp_all add: gl_init_def)

text \<open>A manual journal of user 7 for the same month, its approval by user 8, and the close of the
  month before the workflow answers.\<close>

definition ex_req2 :: create_entry_req where
  "ex_req2 = \<lparr> cq_entry_date = ''2025-03-10'', cq_value_date = [], cq_entry_type = [],
     cq_narration = ''m'', cq_lines = [ex_line ''5000'' ''100.50'' [], ex_line ''1000'' [] ''100.50''] \<rparr>"

definition ex_entry2 :: journal_entry where
  "ex_entry2 = \<lparr> je_id = 21, je_entry_no = None, je_entry_date = Date 2025 3 10,
     je_value_date = Date 2025 3 10, je_period_year = 2025, je_period_month = 3,
     je_entry_type = TypeManual, je_source_module = [], je_source_ref = [],
     je_narration = ''m'', je_status = EntryPendingApproval, je_total_debits = 201/2,
     je_total_credits = 201/2, je_created_by = Some 7, je_posted_by = None, je_posted_at = None,
     je_rejected_by = None, je_rejected_at = None, je_rejection_reason = [],
     je_workflow_instance_id = Some 77, je_lines = [ex_jl 1 5 (201/2) 0, ex_jl 2 1 0 (201/2)] \<rparr>"

definition ex_posted2 :: "instant \<Rightarrow> uuid \<Rightarrow> journal_entry" where
  "ex_posted2 now u = ex_entry2\<lparr>je_status := EntryPosted, je_entry_no := Some (entry_no_of 2),
     je_posted_by := Some u, je_posted_at := Some now\<rparr>"

definition ex_gl2 :: gl_db where
  "ex_gl2 = ex_gl1\<lparr>gl_entries := [ex_entry1, ex_entry2]\<rparr>"

definition ex_gl3 :: gl_db where
  "ex_gl3 = ex_gl1\<lparr>gl_entries := [ex_entry1, ex_posted2 3000 8]\<rparr>"

definition ex_closed_period :: period where
  "ex_closed_period = (ex_period 10 3)\<lparr>pd_status := PeriodClosed, pd_closed_at := Some 3000,
     pd_closed_by := Some 9\<rparr>"

definition ex_gl4 :: gl_db where
  "ex_gl4 = ex_gl2\<lparr>gl_periods := [ex_closed_period]\<rparr>"

definition ex_gl5 :: gl_db where
  "ex_gl5 = ex_gl4\<lparr>gl_entries := [ex_entry1, ex_posted2 4000 7]\<rparr>"

lemma ex_gl2_create:
  "CreateJournal shop_decimal ex_N (Some (\<lambda>_ _ _. Inr 77)) ex_gl1 11 21 2000 7 ex_req2
     = (ex_gl2, Inr ex_entry2)"
  by (simp add: CreateJournal_def create_draft_def opt_date_def parse_entry_type_def ex_req2_def
      CreateDraftTx_def set_workflow_instance_def ex_gl1_def ex_gl2_def ex_entry2_def post_eval ex_eval
      errLine_def map_err_def Let_def)

lemma ex_next2 [simp]: "nextEntryNoTx ex_gl2 = entry_no_of 2" "nextEntryNoTx ex_gl4 = entry_no_of 2"
  by (simp_all add: ex_gl4_def ex_gl2_def ex_entry2_def ex_entry1_def nextEntryNoTx_def entry_values_def
      List.map_filter_def numeral_2_eq_2)

lemma ex_gl3_approve: "ApproveJournal ex_gl2 12 3000 8 21 = Inr (ex_gl3, ex_posted2 3000 8)"
proof -
  have "EnsureOpenForDateTx ex_gl2 12 3000 (Date 2025 3 10) = Inr (ex_gl2, ex_period 10 3)"
    "GetEntryTx ex_gl2 21 = Inr ex_entry2" "pending_row ex_gl2 21"
    "update_pending 21 (\<lambda>e. e\<lparr>je_status := EntryPosted, je_entry_no := Some (entry_no_of 2),
       je_posted_by := Some 8, je_posted_at := Some 3000\<rparr>) ex_gl2 = ex_gl3"
    "GetEntryTx ex_gl3 21 = Inr (ex_posted2 3000 8)"
    by (simp_all add: EnsureOpenForDateTx_def OpenOrCreateTx_def ex_gl2_def ex_gl1_def ex_gl3_def
        ex_posted2_def ex_entry2_def ex_entry1_def ex_period_def GetEntryTx_def pending_row_def
        update_pending_def)
  then show ?thesis by (simp add: ApproveJournal_def ApproveAndPostTx_def ex_entry2_def Let_def)
qed

lemma ex_gl4_close: "ClosePeriod ex_gl2 3000 9 10 [] = Inr ex_gl4"
  by (simp add: ClosePeriod_def ClosePeriodTx_def ex_gl4_def ex_gl2_def ex_gl1_def ex_period_def
      ex_closed_period_def)

definition ex_envelope :: resolve_envelope where
  "ex_envelope = \<lparr> re_tenant_id = 1, re_event = ''approved'', re_instance_id = 77 \<rparr>"

lemma ex_gl5_resolve:
  "ResolveJournal [] [] ''nexus-workflow/1.0'' ex_gl4 4000 ex_envelope = Inr (ex_gl5, Some (ex_posted2 4000 7))"
proof -
  have "GetEntryTx ex_gl4 21 = Inr ex_entry2" "pending_row ex_gl4 21"
    "find (\<lambda>e. je_workflow_instance_id e = Some 77) (gl_entries ex_gl4) = Some ex_entry2"
    "update_pending 21 (\<lambda>e. e\<lparr>je_status := EntryPosted, je_entry_no := Some (entry_no_of 2),
       je_posted_by := Some 7, je_posted_at := Some 4000\<rparr>) ex_gl4 = ex_gl5"
    "GetEntryTx ex_gl5 21 = Inr (ex_posted2 4000 7)"
    by (simp_all add: ex_gl5_def ex_gl4_def ex_gl2_def ex_gl1_def
        ex_posted2_def ex_entry2_def ex_entry1_def GetEntryTx_def pending_row_def update_pending_def)
  then show ?thesis
    by (simp add: ResolveJournal_def ApproveAndPostTx_def ex_envelope_def callback_authorised_def
        has_prefix_def ex_entry2_def Let_def)
qed

lemma ex_gl2_step: "gl_step shop_decimal ex_N ex_gl1 ex_gl2"
  by (rule gl_step.create [OF _ _ _ ex_gl2_create])
    (auto simp: ex_gl1_def ex_period_def ex_entry1_def req_amounts_ok_def ex_req2_def ex_line_def
      intro: ex_scaled_eq)

lemma ex_gl3_step: "gl_step shop_decimal ex_N ex_gl2 ex_gl3"
  by (rule gl_step.approve [OF _ ex_gl3_approve]) (simp add: ex_gl2_def ex_gl1_def ex_period_def)

lemma ex_gl3_steps: "(gl_step shop_decimal ex_N)\<^sup>*\<^sup>* ex_gl1 ex_gl3"
  using ex_gl2_step ex_gl3_step by (meson r_into_rtranclp rtranclp.rtrancl_into_rtrancl)

lemma ex_gl2_reach: "(gl_step shop_decimal ex_N)\<^sup>*\<^sup>* (gl_init ex_chart) ex_gl2"
  using ex_gl1_reach ex_gl2_step by (rule rtranclp.rtrancl_into_rtrancl)

lemma ex_gl4_reach: "(gl_step shop_decimal ex_N)\<^sup>*\<^sup>* (gl_init ex_chart) ex_gl4"
  using ex_gl2_reach gl_step.close_period [OF ex_gl4_close] by (rule rtranclp.rtrancl_into_rtrancl)

section \<open>The books balance\<close>

definition posted_lines :: "gl_db \<Rightarrow> journal_line list" where
  "posted_lines db = concat (map je_lines (filter (\<lambda>e. je_status e = EntryPosted) (gl_entries db)))"

lemma balanced_net: "lines_balanced ls \<Longrightarrow> sum_list (map line_net ls) = 0"
proof -
  have "sum_list (map line_net ls) = sum_list (map jl_debit ls) - sum_list (map jl_credit ls)"
    by (induction ls) (simp_all add: line_net_def)
  then show "lines_balanced ls \<Longrightarrow> ?thesis" by (simp add: lines_balanced_def)
qed

lemma concat_net:
  "\<forall>e\<in>set es. lines_balanced (je_lines e) \<Longrightarrow> sum_list (map line_net (concat (map je_lines es))) = 0"
  by (induction es) (auto simp: balanced_net)



section \<open>Entries do not change, numbers do not repeat\<close>



lemma entry_nos_distinct:
  "distinct (entry_nos es) \<Longrightarrow> e1 \<in> set es \<Longrightarrow> e2 \<in> set es \<Longrightarrow>
    je_entry_no e1 = Some s \<Longrightarrow> je_entry_no e2 = Some s \<Longrightarrow> e1 = e2"
proof (induction es)
  case (Cons x xs)
  have "s \<in> set (entry_nos xs)" if "e \<in> set xs" "je_entry_no e = Some s" for e
    using that by (induction xs) (auto split: option.splits)
  with Cons show ?case by (auto split: option.splits)
qed simp

text \<open>Entry numbers: in every reachable state an entry has a number exactly when it is posted,
  two posted entries with the same number are the same entry, every number has the form
  \<open>JE-000001\<close>, and the next number the ledger hands out is not in use.\<close>

theorem entry_numbers:
  assumes "rounding 2 N" and "chart_ok accts" and "(gl_step D N)\<^sup>*\<^sup>* (gl_init accts) db"
  shows "(\<forall>e\<in>set (gl_entries db). (je_entry_no e \<noteq> None) = (je_status e = EntryPosted)) \<and>
    (\<forall>e1\<in>set (gl_entries db). \<forall>e2\<in>set (gl_entries db).
       je_status e1 = EntryPosted \<and> je_entry_no e1 = je_entry_no e2 \<longrightarrow> e1 = e2) \<and>
    (\<forall>e\<in>set (gl_entries db). \<forall>s. je_entry_no e = Some s \<longrightarrow> (\<exists>n. s = entry_no_of n)) \<and>
    (\<forall>e\<in>set (gl_entries db). je_entry_no e \<noteq> Some (nextEntryNoTx db))"
proof -
  have "gl_inv db"
    by (rule money_column.gl_reachable [OF money_column.intro [OF assms(1)] assms(2,3)])
  then have n: "numbered (gl_entries db)" by (simp add: gl_inv_def)
  have mem: "s \<in> set (entry_nos es)" if "e \<in> set es" "je_entry_no e = Some s" for e s es
    using that by (induction es) (auto split: option.splits)
  have "e1 = e2" if h: "e1 \<in> set (gl_entries db)" "e2 \<in> set (gl_entries db)"
    "je_status e1 = EntryPosted" "je_entry_no e1 = je_entry_no e2" for e1 e2
  proof -
    obtain s where s: "je_entry_no e1 = Some s" using n h(1,3) by (auto simp: numbered_def)
    show ?thesis using n entry_nos_distinct [OF _ h(1,2) s] s h(4) by (simp add: numbered_def)
  qed
  moreover have "je_entry_no e \<noteq> Some (nextEntryNoTx db)" if "e \<in> set (gl_entries db)" for e
    using mem [OF that] nextEntryNo_fresh [of db] by blast
  ultimately show ?thesis using n mem by (auto simp: numbered_def)
qed

theorem entry_numbers_witness:
  "je_entry_no ex_entry1 \<noteq> Some (nextEntryNoTx ex_gl2) \<and> je_status ex_entry2 = EntryPendingApproval"
  using entry_numbers [OF pg.rounding_axioms ex_chart_ok ex_gl2_reach]
  by (simp add: ex_gl2_def ex_entry2_def)

section \<open>Maker and checker\<close>

lemma ApproveAndPostTx_Inr:
  assumes "ApproveAndPostTx db now eid u = Inr (db', e)"
  obtains e0 where "e0 \<in> set (gl_entries db)" "je_id e0 = eid" "je_status e0 = EntryPendingApproval"
    "db' = update_pending eid (\<lambda>e. e\<lparr>je_status := EntryPosted, je_entry_no := Some (nextEntryNoTx db),
       je_posted_by := Some u, je_posted_at := Some now\<rparr>) db"
    "GetEntryTx db' eid = Inr e"
  using assms by (auto simp: ApproveAndPostTx_def pending_row_def Let_def split: if_splits)

lemma update_pending_mem:
  "e \<in> set (gl_entries (update_pending eid f db)) \<Longrightarrow>
    \<exists>x\<in>set (gl_entries db). e = (if je_id x = eid \<and> je_status x = EntryPendingApproval then f x else x)"
  by (auto simp: update_pending_def)

lemma GetEntryTx_Inr: "GetEntryTx db eid = Inr e \<Longrightarrow> e \<in> set (gl_entries db) \<and> je_id e = eid"
  by (auto simp: GetEntryTx_def find_Some_iff split: option.splits)

lemma entry_id_unique:
  "gl_inv db \<Longrightarrow> e1 \<in> set (gl_entries db) \<Longrightarrow> e2 \<in> set (gl_entries db) \<Longrightarrow> je_id e1 = je_id e2 \<Longrightarrow> e1 = e2"
  by (auto simp: gl_inv_def distinct_map dest: inj_onD)

definition period_closed :: "gl_db \<Rightarrow> date \<Rightarrow> bool" where
  "period_closed db d \<longleftrightarrow> (\<exists>p\<in>set (gl_periods db).
     pd_year p = d_year d \<and> pd_month p = d_month d \<and> pd_status p = PeriodClosed)"

lemma EnsureOpen_not_closed:
  assumes "gl_inv db" "EnsureOpenForDateTx db pid now d = Inr (db', p)"
  shows "\<not> period_closed db d"
proof
  assume "period_closed db d"
  then obtain q where q: "q \<in> set (gl_periods db)" "pd_year q = d_year d" "pd_month q = d_month d"
    "pd_status q = PeriodClosed" by (auto simp: period_closed_def)
  from assms(1) have d: "distinct (map (\<lambda>p. (pd_year p, pd_month p)) (gl_periods db))"
    by (simp add: gl_inv_def)
  have "find (\<lambda>p. pd_year p = d_year d \<and> pd_month p = d_month d) (gl_periods db) = Some q"
    using find_unique [OF d q(1)] q(2,3) by simp
  with assms(2) q(4) show False by (simp add: EnsureOpenForDateTx_def OpenOrCreateTx_def)
qed

text \<open>Maker and checker: when a manual journal is approved, the entry was pending, somebody
  other than its creator approved it, its period is not closed, and it is posted under the next
  number with the approver recorded and its date, lines and totals as the creator entered them.\<close>

theorem approval_maker_checker:
  assumes "rounding 2 N" and "chart_ok accts" and "(gl_step D N)\<^sup>*\<^sup>* (gl_init accts) db"
    and "ApproveJournal db pid now actor eid = Inr (db', e)"
  shows "\<exists>e0\<in>set (gl_entries db). je_id e0 = eid \<and> je_status e0 = EntryPendingApproval \<and>
    je_created_by e0 \<noteq> Some actor \<and> \<not> period_closed db (je_entry_date e0) \<and>
    e = e0\<lparr>je_status := EntryPosted, je_entry_no := Some (nextEntryNoTx db),
           je_posted_by := Some actor, je_posted_at := Some now\<rparr> \<and> e \<in> set (gl_entries db')"
proof -
  have inv: "gl_inv db"
    by (rule money_column.gl_reachable [OF money_column.intro [OF assms(1)] assms(2,3)])
  obtain e0 :: journal_entry and db1 p where h: "GetEntryTx db eid = Inr e0" "je_created_by e0 \<noteq> Some actor"
    "je_status e0 = EntryPendingApproval" "EnsureOpenForDateTx db pid now (je_entry_date e0) = Inr (db1, p)"
    "ApproveAndPostTx db1 now eid actor = Inr (db', e)"
    using assms(4) by (auto simp: ApproveJournal_def)
  let ?f = "\<lambda>e. e\<lparr>je_status := EntryPosted, je_entry_no := Some (nextEntryNoTx db1),
       je_posted_by := Some actor, je_posted_at := Some now\<rparr>"
  have e0: "e0 \<in> set (gl_entries db)" "je_id e0 = eid" using GetEntryTx_Inr [OF h(1)] by simp_all
  have es: "gl_entries db1 = gl_entries db" by (rule EnsureOpen_Inr(1) [OF h(4)])
  obtain e1 where d: "db' = update_pending eid ?f db1" "GetEntryTx db' eid = Inr e"
    by (rule ApproveAndPostTx_Inr [OF h(5)]) blast
  then have e: "e \<in> set (gl_entries db')" "je_id e = eid" using GetEntryTx_Inr by blast+
  obtain x where x: "x \<in> set (gl_entries db)"
    "e = (if je_id x = eid \<and> je_status x = EntryPendingApproval then ?f x else x)"
    using update_pending_mem e(1) unfolding d(1) es [symmetric] by blast
  have "je_id x = eid" using x(2) e(2) by (cases "je_id x = eid \<and> je_status x = EntryPendingApproval") simp_all
  then have "x = e0" using e0 by (intro entry_id_unique [OF inv x(1)]) simp_all
  with x(2) e0 h(3) have "e = ?f e0" by simp
  then show ?thesis
    using e0 e(1) h(2,3) EnsureOpen_not_closed [OF inv h(4)] es by (intro bexI [of _ e0]) (simp_all add: nextEntryNoTx_def)
qed

theorem approval_maker_checker_witness:
  "\<exists>e0\<in>set (gl_entries ex_gl2). je_id e0 = 21 \<and> je_created_by e0 \<noteq> Some 8"
  using approval_maker_checker [OF pg.rounding_axioms ex_chart_ok ex_gl2_reach ex_gl3_approve] by blast

section \<open>Closed periods\<close>

lemma PostTx_frame:
  assumes inv: "gl_inv db" and run: "PostTx N db pid eid now today inp = Inr (db', e)"
  shows "gl_entries db' = gl_entries db @ [e]" "\<not> period_closed db (je_entry_date e)"
proof -
  obtain db1 p els ip where h:
    "EnsureOpenForDateTx db pid now (the_default today (pi_entry_date inp)) = Inr (db1, p)"
    "InsertPostedTx N db1 eid now ip = Inr (db', e)"
    "ip_entry_date ip = the_default today (pi_entry_date inp)"
    by (rule PostTx_InrE [OF run])
  have "gl_entries db' = gl_entries db1 @ [e]" "je_entry_date e = ip_entry_date ip"
    using h(2) by (auto simp: InsertPostedTx_def Let_def)
  then show "gl_entries db' = gl_entries db @ [e]" "\<not> period_closed db (je_entry_date e)"
    using EnsureOpen_Inr(1) [OF h(1)] EnsureOpen_not_closed [OF inv h(1)] h(3) by simp_all
qed

lemma Post_frame:
  assumes inv: "gl_inv db" and run: "Post D N tok hdr db pid eid now today req = Inr (db', out)"
  shows "gl_entries db' = gl_entries db \<or>
    (\<exists>e. gl_entries db' = gl_entries db @ [e] \<and> \<not> period_closed db (je_entry_date e))"
proof -
  from run obtain v where r: "(case find_posted db (pq_source_module req) (pq_source_ref req) of
          Some e \<Rightarrow> Inr (db, Idempotent e)
        | None \<Rightarrow> bind_res (post_write N db pid eid now today req v) (\<lambda>(db', e).
            Inr (db', Created e))) = Inr (db', out)"
    by (auto simp: Post_def split: if_splits)
  show ?thesis
  proof (cases "find_posted db (pq_source_module req) (pq_source_ref req)")
    case None
    with r obtain e inp where "PostTx N db pid eid now today inp = Inr (db', e)"
      by (auto simp: post_write_def split: sum.splits prod.splits)
    from PostTx_frame [OF inv this] show ?thesis by blast
  next
    case Some
    with r show ?thesis by simp
  qed
qed

lemma CreateJournal_frame:
  assumes "eid \<notin> je_id ` set (gl_entries db)"
    and "CreateJournal D N wfs db pid eid now actor req = (db', res)"
    and "e \<in> set (gl_entries db')" "je_status e = EntryPosted"
  shows "e \<in> set (gl_entries db)"
proof (cases "create_draft D N db pid eid now actor req")
  case (Inl x)
  with assms show ?thesis by (simp add: CreateJournal_def)
next
  case (Inr r)
  obtain db1 n td ae where r: "r = (db1, n, td, ae)" by (metis prod_cases4)
  obtain d db0 p inp where h: "EnsureOpenForDateTx db pid now d = Inr (db0, p)"
    "CreateDraftTx N db0 eid inp = Inr (db1, n)"
    by (rule create_draft_InrE [OF Inr [unfolded r]]) blast
  have es: "gl_entries db1 = gl_entries db @ [n]" "je_id n = eid" "je_status n = EntryPendingApproval"
    using h(2) EnsureOpen_Inr(1) [OF h(1)] by (auto simp: CreateDraftTx_def Let_def)
  have "db' = db1 \<or> (\<exists>wid. db' = set_workflow_instance eid wid db1)"
    using assms(2) es(2) by (auto simp: CreateJournal_def Inr r split: option.splits sum.splits)
  with assms(1,3,4) es show ?thesis
    by (auto simp: set_workflow_instance_def image_iff split: if_splits; metis)
qed

lemma update_pending_posted:
  assumes "e \<in> set (gl_entries (update_pending eid f db))" "e \<notin> set (gl_entries db)"
  obtains e0 where "e0 \<in> set (gl_entries db)" "je_id e0 = eid" "je_status e0 = EntryPendingApproval" "e = f e0"
  using update_pending_mem [OF assms(1)] assms(2) by (auto split: if_splits)

lemma ApproveJournal_frame:
  assumes inv: "gl_inv db" and run: "ApproveJournal db pid now actor eid = Inr (db', r)"
    and e: "e \<in> set (gl_entries db')" "e \<notin> set (gl_entries db)"
  shows "\<not> period_closed db (je_entry_date e)"
proof -
  obtain e0 :: journal_entry and db1 p where h: "GetEntryTx db eid = Inr e0"
    "EnsureOpenForDateTx db pid now (je_entry_date e0) = Inr (db1, p)"
    "ApproveAndPostTx db1 now eid actor = Inr (db', r)"
    using run by (auto simp: ApproveJournal_def)
  let ?f = "\<lambda>e. e\<lparr>je_status := EntryPosted, je_entry_no := Some (nextEntryNoTx db1),
       je_posted_by := Some actor, je_posted_at := Some now\<rparr>"
  have es: "gl_entries db1 = gl_entries db" by (rule EnsureOpen_Inr(1) [OF h(2)])
  have d: "db' = update_pending eid ?f db1" by (rule ApproveAndPostTx_Inr [OF h(3)])
  obtain x where x: "x \<in> set (gl_entries db)" "je_id x = eid" "e = ?f x"
    using e update_pending_posted [of e eid ?f db1] unfolding d es by metis
  then have "x = e0" using GetEntryTx_Inr [OF h(1)] by (intro entry_id_unique [OF inv]) simp_all
  then show ?thesis using x(3) EnsureOpen_not_closed [OF inv h(2)] by simp
qed

lemma ResolveJournal_frame:
  assumes inv: "gl_inv db" and run: "ResolveJournal ex got ag db now env = Inr (db', r)"
    and e: "e \<in> set (gl_entries db')" "e \<notin> set (gl_entries db)"
  shows "\<exists>e0\<in>set (gl_entries db). je_id e0 = je_id e \<and> je_status e0 = EntryPendingApproval \<and>
    je_workflow_instance_id e0 = Some (re_instance_id env)"
proof -
  obtain e0 where f: "find (\<lambda>e. je_workflow_instance_id e = Some (re_instance_id env)) (gl_entries db) = Some e0"
    using run e by (auto simp: ResolveJournal_def split: if_splits option.splits)
  obtain g where d: "db' = update_pending (je_id e0) g db" "\<And>x. je_id (g x) = je_id x"
  proof -
    obtain x :: journal_entry where x: "GetEntryTx db (je_id e0) = Inr x"
      using run f by (auto simp: ResolveJournal_def split: if_splits)
    have id: "je_id x = je_id e0" using GetEntryTx_Inr [OF x] by simp
    consider db2 y u where "ApproveAndPostTx db now (je_id e0) u = Inr (db2, y)" "db' = db2"
      | u reason where "RejectTx db now (je_id e0) u reason = Inr db'"
      using run e f x id by (auto simp: ResolveJournal_def Let_def split: if_splits)
    then show thesis
    proof cases
      case 1
      show thesis by (rule ApproveAndPostTx_Inr [OF 1(1)], rule that, unfold 1(2)) (assumption, simp)
    next
      case 2
      then show thesis
        by (intro that [of "\<lambda>e. e\<lparr>je_status := EntryRejected, je_rejected_by := Some u,
          je_rejected_at := Some now, je_rejection_reason := reason\<rparr>"])
          (simp_all add: RejectTx_def split: if_splits)
    qed
  qed
  obtain x where x: "x \<in> set (gl_entries db)" "je_id x = je_id e0" "je_status x = EntryPendingApproval" "e = g x"
    using e update_pending_posted [of e "je_id e0" g db] unfolding d(1) by metis
  have "e0 \<in> set (gl_entries db)" "je_workflow_instance_id e0 = Some (re_instance_id env)"
    using f by (auto simp: find_Some_iff)
  moreover from this have "x = e0" using x by (intro entry_id_unique [OF inv]) simp_all
  ultimately show ?thesis using x d(2) by (intro bexI [of _ e0]) simp_all
qed

lemma executeCloseTx_frame:
  assumes inv: "gl_inv db" and run: "executeCloseTx N db pid eid now today year user nts = Inr (db', c)"
  shows "\<exists>e. gl_entries db' = gl_entries db @ [e] \<and> \<not> period_closed db (je_entry_date e)"
  using run
proof (rule executeCloseTx_InrE)
  fix db1 p db2 e db3 ti te inp
  assume h: "EnsureOpenForDateTx db pid now (Date year 12 31) = Inr (db1, p)"
    "PostTx N db1 pid eid now today inp = Inr (db2, e)" "pi_entry_date inp = Some (Date year 12 31)"
    "RecordCloseTx N db2 c = Inr (db3, c)" "db' = LockAllPeriodsInYearTx db3 now year user"
  obtain db1' els ip where i: "InsertPostedTx N db1' eid now ip = Inr (db2, e)" "ip_entry_date ip = Date year 12 31"
    "EnsureOpenForDateTx db1 pid now (Date year 12 31) = Inr (db1', p)"
    using EnsureOpen_again [OF h(1)] by (rule_tac PostTx_InrE [OF h(2)]) (auto simp: h(3))
  have "gl_entries db2 = gl_entries db1' @ [e]" "je_entry_date e = Date year 12 31"
    using i(1,2) by (auto simp: InsertPostedTx_def Let_def)
  then have "gl_entries db' = gl_entries db @ [e]" "\<not> period_closed db (je_entry_date e)"
    using EnsureOpen_Inr(1) [OF h(1)] EnsureOpen_Inr(1) [OF i(3)] EnsureOpen_not_closed [OF inv h(1)]
      RecordCloseTx_frame [OF h(4)] by (simp_all add: h(5) LockAllPeriodsInYearTx_def)
  then show ?thesis by blast
qed

lemma entries_same:
  "ClosePeriod db now u p nts = Inr db' \<Longrightarrow> gl_entries db' = gl_entries db"
  "ReopenPeriod db now u p nts = Inr db' \<Longrightarrow> gl_entries db' = gl_entries db"
  "CreateAccount db i creq = Inr (db', a) \<Longrightarrow> gl_entries db' = gl_entries db"
  "UpdateAccount db i ureq = Inr (db', a) \<Longrightarrow> gl_entries db' = gl_entries db"
  by (auto simp: ClosePeriod_def ClosePeriodTx_def ReopenPeriod_def ReopenTx_def CreateAccount_def
      CreateAccountTx_def UpdateAccount_def Let_def dest!: UpdateAccountTx_Inr split: if_splits option.splits)

text \<open>C9. A closed period is shut: a step that puts a new posted entry into a month that was
  closed before the step can only be the workflow's callback on a pending entry with that
  workflow instance. Posts, new journals, approvals and year-end closes never do.\<close>

theorem closed_period_shut:
  assumes "rounding 2 N" and "chart_ok accts" and "(gl_step D N)\<^sup>*\<^sup>* (gl_init accts) db"
    and "gl_step D N db db'"
    and "e \<in> set (gl_entries db')" "je_status e = EntryPosted" "e \<notin> set (gl_entries db)"
    and "period_closed db (je_entry_date e)"
  shows "(\<exists>expected got agent now env r. ResolveJournal expected got agent db now env = Inr (db', r)) \<and>
    (\<exists>e0\<in>set (gl_entries db). je_id e0 = je_id e \<and> je_status e0 = EntryPendingApproval \<and>
       je_workflow_instance_id e0 \<noteq> None)"
proof -
  note new = assms(5-8)
  have inv: "gl_inv db"
    by (rule money_column.gl_reachable [OF money_column.intro [OF assms(1)] assms(2,3)])
  have same: "gl_entries db' = gl_entries db \<Longrightarrow> False" using new by simp
  from assms(4) show ?thesis
  proof cases
    case (post pid eid req tok hdr now today out)
    then show ?thesis using Post_frame [OF inv post(4)] new by auto
  next
    case (create pid eid creq wfs now actor res)
    then show ?thesis using CreateJournal_frame new by blast
  next
    case (approve pid now actor eid x)
    then show ?thesis using ApproveJournal_frame [OF inv approve(2)] new by blast
  next
    case (reject now actor eid reason)
    then have "RejectTx db now eid actor reason = Inr db'" by (simp add: RejectJournal_def)
    then have d: "db' = update_pending eid (\<lambda>e. e\<lparr>je_status := EntryRejected,
       je_rejected_by := Some actor, je_rejected_at := Some now, je_rejection_reason := reason\<rparr>) db"
      by (auto simp: RejectTx_def split: if_splits)
    show ?thesis
      by (rule update_pending_posted [OF new(1) [unfolded d] new(3)]) (use new(2) in simp)
  next
    case (resolve expected got agent now env r)
    then show ?thesis using ResolveJournal_frame [OF inv resolve new(1,3)] by blast
  next
    case (close_year pid eid now today user year nts c)
    then have "executeCloseTx N db pid eid now today year user nts = Inr (db', c)"
      by (auto simp: CloseYear_def split: if_splits)
    from executeCloseTx_frame [OF inv this] show ?thesis using new by auto
  next
    case (close_period now actor pid nts)
    then show ?thesis using same entries_same(1) by blast
  next
    case (reopen_period now actor pid reason)
    then show ?thesis using same entries_same(2) by blast
  next
    case (create_account aid areq a)
    then show ?thesis using same entries_same(3) by blast
  next
    case (update_account aid ureq a)
    then show ?thesis using same entries_same(4) by blast
  qed
qed

theorem closed_period_shut_witness:
  "\<exists>e0\<in>set (gl_entries ex_gl4). je_id e0 = 21 \<and> je_workflow_instance_id e0 \<noteq> None"
proof -
  have "ex_posted2 4000 7 \<in> set (gl_entries ex_gl5)" "je_status (ex_posted2 4000 7) = EntryPosted"
    "ex_posted2 4000 7 \<notin> set (gl_entries ex_gl4)" "period_closed ex_gl4 (je_entry_date (ex_posted2 4000 7))"
    "je_id (ex_posted2 4000 7) = 21"
    by (simp_all add: ex_gl5_def ex_gl4_def ex_gl2_def ex_gl1_def ex_posted2_def ex_entry2_def ex_entry1_def
        period_closed_def ex_closed_period_def ex_period_def)
  with closed_period_shut [OF pg.rounding_axioms ex_chart_ok ex_gl4_reach gl_step.resolve [OF ex_gl5_resolve],
      of "ex_posted2 4000 7"] show ?thesis by auto
qed

text \<open>That exception does happen: the callback of an approved instance posts an entry into a month
  closed since the entry was created.\<close>

lemma callback_posts_into_closed_period:
  "(gl_step shop_decimal ex_N)\<^sup>*\<^sup>* (gl_init ex_chart) ex_gl4 \<and>
   ResolveJournal [] [] ''nexus-workflow/1.0'' ex_gl4 4000 ex_envelope = Inr (ex_gl5, Some (ex_posted2 4000 7)) \<and>
   period_closed ex_gl4 (je_entry_date (ex_posted2 4000 7)) \<and> je_status (ex_posted2 4000 7) = EntryPosted"
  using ex_gl4_reach ex_gl5_resolve
  by (simp add: period_closed_def ex_gl4_def ex_closed_period_def ex_period_def ex_posted2_def ex_entry2_def)

section \<open>Posting twice\<close>

lemma find_exists: "x \<in> set xs \<Longrightarrow> P x \<Longrightarrow> \<exists>y. find P xs = Some y \<and> y \<in> set xs \<and> P y"
  by (induction xs) auto

lemma find_posted_Some:
  "find_posted db m r = Some e \<Longrightarrow> e \<in> set (gl_entries db) \<and> je_source_module e = m \<and>
    je_source_ref e = r \<and> je_status e = EntryPosted"
  by (auto simp: find_posted_def find_Some_iff)

lemma validate_post_today:
  "validate_post D today req = Inr v \<Longrightarrow> \<exists>v'. validate_post D today' req = Inr v'"
  by (auto simp: validate_post_def opt_date_def split: if_splits option.splits)

lemma Post_InrD:
  assumes "Post D N tok hdr db pid eid now today req = Inr (db', out)"
  obtains v where "\<not> (tok \<noteq> [] \<and> hdr \<noteq> tok)" "validate_post D today req = Inr v"
    "(case find_posted db (pq_source_module req) (pq_source_ref req) of
          Some e \<Rightarrow> Inr (db, Idempotent e)
        | None \<Rightarrow> bind_res (post_write N db pid eid now today req v) (\<lambda>(db', e).
            Inr (db', Created e))) = Inr (db', out)"
  using assms by (auto simp: Post_def split: if_splits)

lemma post_write_Inr:
  assumes "post_write N db pid eid now today req v = Inr (db', e)"
  shows "gl_entries db' = gl_entries db @ [e]" "je_status e = EntryPosted" "je_id e = eid"
    "je_source_module e = pq_source_module req" "je_source_ref e = pq_source_ref req"
proof -
  obtain inp where "PostTx N db pid eid now today inp = Inr (db', e)"
    "pi_source_module inp = pq_source_module req" "pi_source_ref inp = pq_source_ref req"
    using assms by (auto simp: post_write_def split: sum.splits prod.splits)
  then obtain db1 p ip where h: "EnsureOpenForDateTx db pid now (the_default today (pi_entry_date inp)) = Inr (db1, p)"
    "InsertPostedTx N db1 eid now ip = Inr (db', e)"
    "ip_source_module ip = pq_source_module req" "ip_source_ref ip = pq_source_ref req"
    by (metis PostTx_InrE)
  then show "gl_entries db' = gl_entries db @ [e]" "je_status e = EntryPosted" "je_id e = eid"
    "je_source_module e = pq_source_module req" "je_source_ref e = pq_source_ref req"
    using EnsureOpen_Inr(1) [OF h(1)] by (auto simp: InsertPostedTx_def Let_def)
qed

lemma Post_posted:
  assumes "Post D N tok hdr db pid eid now today req = Inr (db', out)"
  shows "\<exists>e\<in>set (gl_entries db'). je_source_module e = pq_source_module req \<and>
    je_source_ref e = pq_source_ref req \<and> je_status e = EntryPosted"
proof -
  obtain v where v: "(case find_posted db (pq_source_module req) (pq_source_ref req) of
          Some e \<Rightarrow> Inr (db, Idempotent e)
        | None \<Rightarrow> bind_res (post_write N db pid eid now today req v) (\<lambda>(db', e).
            Inr (db', Created e))) = Inr (db', out)"
    by (rule Post_InrD [OF assms])
  show ?thesis
  proof (cases "find_posted db (pq_source_module req) (pq_source_ref req)")
    case None
    with v obtain e where "post_write N db pid eid now today req v = Inr (db', e)" by auto
    from post_write_Inr [OF this] show ?thesis by simp
  next
    case (Some e)
    with v have "db' = db" by simp
    with find_posted_Some [OF Some] show ?thesis by blast
  qed
qed

text \<open>C36. A post is idempotent in its source: once a request has posted, the same request sent
  again after any further requests returns a posted entry with that source and changes nothing.\<close>

theorem post_idempotent:
  assumes "rounding 2 N" and "chart_ok accts" and "(gl_step D N)\<^sup>*\<^sup>* (gl_init accts) db"
    and "pid \<notin> pd_id ` set (gl_periods db)" and "eid \<notin> je_id ` set (gl_entries db)"
    and "req_amounts_ok D (pq_lines req)"
    and "Post D N tok hdr db pid eid now today req = Inr (db1, out)"
    and "(gl_step D N)\<^sup>*\<^sup>* db1 db2"
  shows "\<exists>e\<in>set (gl_entries db2). je_status e = EntryPosted \<and>
    je_source_module e = pq_source_module req \<and> je_source_ref e = pq_source_ref req \<and>
    Post D N tok hdr db2 pid2 eid2 now2 today2 req = Inr (db2, Idempotent e)"
proof -
  note mc = money_column.intro [OF assms(1)]
  let ?Q = "\<lambda>e. je_source_module e = pq_source_module req \<and> je_source_ref e = pq_source_ref req \<and>
     je_status e = EntryPosted"
  have inv: "gl_inv db" by (rule money_column.gl_reachable [OF mc assms(2,3)])
  have inv1: "gl_inv db1"
    using money_column.Post_ok [OF mc inv assms(4-7)] by (simp add: gl_ok_def)
  obtain v where v: "\<not> (tok \<noteq> [] \<and> hdr \<noteq> tok)" "validate_post D today req = Inr v"
    by (rule Post_InrD [OF assms(7)])
  obtain e where e: "e \<in> set (gl_entries db1)" "?Q e" using Post_posted [OF assms(7)] by blast
  then have "e \<in> set (gl_entries db2)"
    using money_column.gl_steps_ok [OF mc assms(8) inv1] by (simp add: gl_ok_def gl_keeps_def)
  from find_exists [of _ _ ?Q, OF this e(2)] obtain y where y:
    "find_posted db2 (pq_source_module req) (pq_source_ref req) = Some y" "y \<in> set (gl_entries db2)" "?Q y"
    by (auto simp: find_posted_def)
  obtain v2 where "validate_post D today2 req = Inr v2" using validate_post_today [OF v(2)] by blast
  with v(1) y show ?thesis by (intro bexI [of _ y]) (simp_all add: Post_def)
qed

theorem post_idempotent_witness:
  "\<exists>e. Post shop_decimal ex_N [] [] ex_gl3 50 51 9000 (Date 2026 1 1) ex_req1 = Inr (ex_gl3, Idempotent e)"
  using post_idempotent [OF pg.rounding_axioms ex_chart_ok _ _ _ ex_req1_amounts ex_gl1_post ex_gl3_steps,
      where ?pid2.0 = 50 and ?eid2.0 = 51 and ?now2.0 = 9000 and ?today2.0 = "Date 2026 1 1"]
  by (auto simp: gl_init_def)

lemma EnsureOpen_periods:
  "EnsureOpenForDateTx db pid now d = Inr (db, p) \<Longrightarrow> gl_periods db' = gl_periods db \<Longrightarrow>
    EnsureOpenForDateTx db' pid2 now2 d = Inr (db', p)"
proof -
  have "db\<lparr>gl_periods := gl_periods db @ [q]\<rparr> \<noteq> db" for q
    by (metis append_self_conv gl_db.select_convs(2) gl_db.surjective gl_db.update_convs(2) not_Cons_self2)
  then show "EnsureOpenForDateTx db pid now d = Inr (db, p) \<Longrightarrow> gl_periods db' = gl_periods db \<Longrightarrow>
    EnsureOpenForDateTx db' pid2 now2 d = Inr (db', p)"
    by (auto simp: EnsureOpenForDateTx_def OpenOrCreateTx_def Let_def split: option.splits if_splits)
qed

lemma resolve_lines_accounts:
  "gl_accounts db' = gl_accounts db \<Longrightarrow> resolve_lines db' i c ls = resolve_lines db i c ls"
proof (induction ls arbitrary: i c)
  case (Cons l ls)
  then have "GetByCodeTx db' x = GetByCodeTx db x" for x by (simp add: GetByCodeTx_def)
  with Cons show ?case by (simp split: option.splits sum.splits)
qed simp

lemma InsertPosted_again:
  "InsertPostedTx N db eid now ip = Inr (db1, e) \<Longrightarrow>
    \<exists>e'. InsertPostedTx N db' eid' now' ip = Inr (db'\<lparr>gl_entries := gl_entries db' @ [e']\<rparr>, e')"
  by (auto simp: InsertPostedTx_def Let_def)

lemma PostTx_again:
  assumes "PostTx N db pid eid now today inp = Inr (db1, e)" "pi_entry_date inp = Some d"
  shows "\<exists>r. PostTx N db1 pid2 eid2 now2 today2 inp = Inr r"
proof -
  obtain db0 p where o: "EnsureOpenForDateTx db pid now d = Inr (db0, p)"
    using assms by (auto simp: PostTx_def Let_def)
  obtain els ip where i: "resolve_lines db0 0 [] (pi_lines inp) = Inr els"
    "InsertPostedTx N db0 eid now ip = Inr (db1, e)"
    "ip = \<lparr> ip_entry_date = d, ip_value_date = the_default d (pi_value_date inp),
       ip_entry_type = the_default TypeAuto (pi_entry_type inp), ip_source_module = pi_source_module inp,
       ip_source_ref = pi_source_ref inp, ip_narration = pi_narration inp, ip_lines = els,
       ip_posted_by = pi_posted_by inp \<rparr>"
    using assms o by (auto simp: PostTx_def Let_def)
  have f: "gl_periods db1 = gl_periods db0" "gl_accounts db1 = gl_accounts db0"
    using i(2) by (auto simp: InsertPostedTx_def Let_def)
  have "EnsureOpenForDateTx db1 pid2 now2 d = Inr (db1, p)"
    using EnsureOpen_periods [OF EnsureOpen_again [OF o] f(1)] .
  moreover have "resolve_lines db1 0 [] (pi_lines inp) = Inr els"
    using resolve_lines_accounts [OF f(2)] i(1) by simp
  moreover obtain e' where "InsertPostedTx N db1 eid2 now2 ip = Inr (db1\<lparr>gl_entries := gl_entries db1 @ [e']\<rparr>, e')"
    using InsertPosted_again [OF i(2)] by blast
  ultimately show ?thesis using assms(2) i(3) by (simp add: PostTx_def Let_def)
qed

text \<open>The look-up and the post are separate transactions and nothing in the second repeats the
  first: when two requests with one source both find no earlier entry and then write one after the
  other, the second write succeeds too, and the journal holds two posted entries for the source.\<close>

theorem post_race_duplicates:
  assumes "validate_post D today req = Inr v"
    and "find_posted db (pq_source_module req) (pq_source_ref req) = None"
    and "post_write N db pid eid now today req v = Inr (db1, e1)"
    and "eid2 \<noteq> eid"
  shows "\<exists>db2 e2. post_write N db1 pid2 eid2 now2 today2 req v = Inr (db2, e2) \<and> e1 \<noteq> e2 \<and>
    (\<forall>e\<in>{e1, e2}. e \<in> set (gl_entries db2) \<and> je_status e = EntryPosted \<and>
       je_source_module e = pq_source_module req \<and> je_source_ref e = pq_source_ref req)"
proof -
  obtain ed vd ls where v: "v = (ed, vd, ls)" by (metis prod_cases3)
  obtain r where "PostTx N db1 pid2 eid2 now2 today2
          \<lparr> pi_entry_date = Some ed, pi_value_date = Some vd,
            pi_entry_type = Some TypeAuto, pi_source_module = pq_source_module req,
            pi_source_ref = pq_source_ref req, pi_narration = pq_narration req,
            pi_lines = ls, pi_posted_by = None \<rparr> = Inr r"
    using PostTx_again [of N db pid eid now today _ db1 e1 ed] assms(3)
    by (force simp: post_write_def v split: sum.splits)
  then obtain db2 e2 where w: "post_write N db1 pid2 eid2 now2 today2 req v = Inr (db2, e2)"
    by (cases r) (simp add: post_write_def v)
  have "e1 \<noteq> e2" using post_write_Inr(3) [OF assms(3)] post_write_Inr(3) [OF w] assms(4) by auto
  moreover have "{e1, e2} \<subseteq> set (gl_entries db2)"
    using post_write_Inr(1) [OF assms(3)] post_write_Inr(1) [OF w] by simp
  ultimately show ?thesis
    using w post_write_Inr [OF assms(3)] post_write_Inr [OF w] by (intro exI conjI) auto
qed

theorem post_race_duplicates_witness:
  "\<exists>v db2 e2. validate_post shop_decimal (Date 2025 6 30) ex_req1 = Inr v \<and>
     post_write ex_N ex_gl1 10 22 2000 (Date 2025 6 30) ex_req1 v = Inr (db2, e2)"
proof -
  obtain v where v: "validate_post shop_decimal (Date 2025 6 30) ex_req1 = Inr v"
    "find_posted (gl_init ex_chart) (pq_source_module ex_req1) (pq_source_ref ex_req1) = None"
    "post_write ex_N (gl_init ex_chart) 10 20 1000 (Date 2025 6 30) ex_req1 v = Inr (ex_gl1, ex_entry1)"
    by (rule Post_InrD [OF ex_gl1_post]) (auto simp: find_posted_def gl_init_def split: option.splits)
  from post_race_duplicates [OF v, of 22 10 2000 "Date 2025 6 30"] v(1) show ?thesis by auto
qed

text \<open>The engine's look-up of account codes with its cache returns what one look-up per line
  would: the same lines, and on an unknown or inactive account the same error at the same line.\<close>

lemma resolve_lines_reference: "resolve_lines db 0 [] ls = resolve_ref db 0 ls"
  by (rule resolve_lines_ref) simp

section \<open>When a post is accepted\<close>

lemma EnsureOpen_iff:
  assumes "gl_inv db"
  shows "(\<exists>r. EnsureOpenForDateTx db pid now d = Inr r) \<longleftrightarrow> \<not> period_closed db d"
proof
  assume "\<exists>r. EnsureOpenForDateTx db pid now d = Inr r"
  then obtain db' p where "EnsureOpenForDateTx db pid now d = Inr (db', p)" by auto
  then show "\<not> period_closed db d" by (rule EnsureOpen_not_closed [OF assms])
next
  assume n: "\<not> period_closed db d"
  show "\<exists>r. EnsureOpenForDateTx db pid now d = Inr r"
  proof (cases "find (\<lambda>p. pd_year p = d_year d \<and> pd_month p = d_month d) (gl_periods db)")
    case None
    then show ?thesis by (simp add: EnsureOpenForDateTx_def OpenOrCreateTx_def Let_def)
  next
    case (Some p)
    then have "p \<in> set (gl_periods db)" "pd_year p = d_year d" "pd_month p = d_month d"
      by (auto simp: find_Some_iff)
    with n have "pd_status p = PeriodOpen" by (cases "pd_status p") (auto simp: period_closed_def)
    with Some show ?thesis by (simp add: EnsureOpenForDateTx_def OpenOrCreateTx_def)
  qed
qed

definition account_ready :: "gl_db \<Rightarrow> string \<Rightarrow> bool" where
  "account_ready db code \<longleftrightarrow> (\<exists>a. GetByCodeTx db code = Inr a \<and> ac_is_active a)"

lemma resolve_ref_iff: "(\<exists>els. resolve_ref db i ls = Inr els) \<longleftrightarrow> (\<forall>l\<in>set ls. account_ready db (pl_account_code l))"
proof (induction ls arbitrary: i)
  case (Cons l ls)
  from Cons [of "i + 1"] show ?case
    by (auto simp: account_ready_def split: sum.splits if_splits)
qed simp

lemma validate_from_iff:
  "(\<exists>r. validate_from i d c els = Inr r) \<longleftrightarrow> d + sum_list (map el_debit els) = c + sum_list (map el_credit els) \<and>
    (\<forall>el\<in>set els. (0 < el_debit el) \<noteq> (0 < el_credit el))"
proof (induction els arbitrary: i d c)
  case (Cons el els)
  from Cons [of "i + 1" "d + el_debit el" "c + el_credit el"] show ?case
    by (auto simp: Let_def add.assoc)
qed simp

context money_column
begin

lemma store_lines_iff:
  assumes "amounts_ok els" "\<forall>el\<in>set els. 0 \<le> el_debit el \<and> 0 \<le> el_credit el"
    "\<forall>el\<in>set els. (0 < el_debit el) \<noteq> (0 < el_credit el)"
  shows "\<exists>ls. store_lines N els = Inr ls"
proof -
  have "line_check (store_line N k el)" if el: "el \<in> set els" for k el
  proof -
    have "N (el_debit el) = el_debit el" "N (el_credit el) = el_credit el"
      using assms(1) el by (simp_all add: amounts_ok_def exact)
    moreover have "0 \<le> el_debit el" "0 \<le> el_credit el" "(0 < el_debit el) \<noteq> (0 < el_credit el)"
      using assms(2,3) el by simp_all
    ultimately show ?thesis unfolding line_check_def store_line_def by (simp; linarith)
  qed
  then have "list_all line_check (map (\<lambda>(i, el). store_line N (i + 1) el) (zip [0..<length els] els))"
    by (auto simp: list_all_iff dest: set_zip_rightD)
  then show ?thesis by (simp add: store_lines_def Let_def)
qed

lemma InsertPosted_iff:
  assumes a: "amounts_ok (ip_lines inp)" "\<forall>el\<in>set (ip_lines inp). 0 \<le> el_debit el \<and> 0 \<le> el_credit el"
  shows "(\<exists>r. InsertPostedTx N db eid now inp = Inr r) \<longleftrightarrow> 2 \<le> length (ip_lines inp) \<and>
    sum_list (map el_debit (ip_lines inp)) = sum_list (map el_credit (ip_lines inp)) \<and>
    (\<forall>el\<in>set (ip_lines inp). (0 < el_debit el) \<noteq> (0 < el_credit el))" (is "?L \<longleftrightarrow> ?R")
proof
  assume ?L
  then obtain td tc where v: "validateLines (ip_lines inp) = Inr (td, tc)"
    by (auto simp: InsertPostedTx_def)
  then show ?R using validateLines_Inr [OF v] by auto
next
  assume r: ?R
  then obtain td tc where v: "validateLines (ip_lines inp) = Inr (td, tc)"
    using validate_from_iff [of 0 0 0 "ip_lines inp"] by (auto simp: validateLines_def)
  obtain ls where s: "store_lines N (ip_lines inp) = Inr ls" using store_lines_iff [OF a] r by blast
  have "0 \<le> td" "0 \<le> tc"
    using validateLines_Inr(2,3) [OF v] a(2) by (auto intro!: sum_list_nonneg)
  then have "0 \<le> N td" "0 \<le> N tc" by (simp_all add: of_nonneg)
  with v s show ?L by (simp add: InsertPostedTx_def Let_def)
qed

lemma PostTx_iff:
  assumes inv: "gl_inv db" and a: "post_amounts_ok (pi_lines inp)"
    "\<forall>l\<in>set (pi_lines inp). 0 \<le> pl_debit l \<and> 0 \<le> pl_credit l"
  shows "(\<exists>r. PostTx N db pid eid now today inp = Inr r) \<longleftrightarrow>
    \<not> period_closed db (the_default today (pi_entry_date inp)) \<and>
    (\<forall>l\<in>set (pi_lines inp). account_ready db (pl_account_code l)) \<and> 2 \<le> length (pi_lines inp) \<and>
    sum_list (map pl_debit (pi_lines inp)) = sum_list (map pl_credit (pi_lines inp)) \<and>
    (\<forall>l\<in>set (pi_lines inp). (0 < pl_debit l) \<noteq> (0 < pl_credit l))"
proof (cases "EnsureOpenForDateTx db pid now (the_default today (pi_entry_date inp))")
  case (Inl x)
  then show ?thesis using EnsureOpen_iff [OF inv, of pid now "the_default today (pi_entry_date inp)"]
    by (auto simp: PostTx_def Let_def)
next
  case (Inr r)
  obtain db1 p where r: "r = (db1, p)" by force
  have o: "\<not> period_closed db (the_default today (pi_entry_date inp))"
    using EnsureOpen_not_closed [OF inv Inr [unfolded r]] .
  have acc: "account_ready db1 c = account_ready db c" for c
    using EnsureOpen_Inr(2) [OF Inr [unfolded r]] by (simp add: account_ready_def GetByCodeTx_def)
  note ref = resolve_ref_iff [of db1 0 "pi_lines inp", folded resolve_lines_ref [OF cache_ok_Nil], unfolded acc]
  show ?thesis
  proof (cases "resolve_lines db1 0 [] (pi_lines inp)")
    case i: (Inl x)
    then show ?thesis using ref Inr r by (auto simp: PostTx_def Let_def)
  next
    case i: (Inr els)
    have el: "els = map (\<lambda>l. \<lparr> el_account_id = acct_id db1 (pl_account_code l), el_debit = pl_debit l,
        el_credit = pl_credit l, el_narration = pl_narration l \<rparr>) (pi_lines inp)"
      using i resolve_lines_ref [OF cache_ok_Nil] resolve_ref_map by metis
    have "amounts_ok els" using resolve_lines_amounts_ok [OF i a(1)] .
    then show ?thesis
      using ref i Inr r o a(2) InsertPosted_iff
      by (simp add: PostTx_def Let_def el comp_def)
  qed
qed

end

text \<open>C37. When a post is accepted: with amounts of at most two decimals and none negative, the
  engine posts exactly when the month of the entry date is not closed, every account code is in
  the chart and active, there are two lines or more, each line has exactly one positive side, and
  the debits equal the credits.\<close>

theorem post_accepted_iff:
  assumes "rounding 2 N" and "chart_ok accts" and "(gl_step D N)\<^sup>*\<^sup>* (gl_init accts) db"
    and "post_amounts_ok (pi_lines inp)"
    and "\<forall>l\<in>set (pi_lines inp). 0 \<le> pl_debit l \<and> 0 \<le> pl_credit l"
  shows "(\<exists>db' e. PostTx N db pid eid now today inp = Inr (db', e)) \<longleftrightarrow>
    \<not> period_closed db (the_default today (pi_entry_date inp)) \<and>
    (\<forall>l\<in>set (pi_lines inp). \<exists>a. GetByCodeTx db (pl_account_code l) = Inr a \<and> ac_is_active a) \<and>
    2 \<le> length (pi_lines inp) \<and>
    sum_list (map pl_debit (pi_lines inp)) = sum_list (map pl_credit (pi_lines inp)) \<and>
    (\<forall>l\<in>set (pi_lines inp). (0 < pl_debit l) \<noteq> (0 < pl_credit l))"
  using money_column.PostTx_iff [OF money_column.intro [OF assms(1)]
      money_column.gl_reachable [OF money_column.intro [OF assms(1)] assms(2,3)] assms(4,5)]
  by (simp add: account_ready_def)

definition ex_lines3 :: "post_line list" where
  "ex_lines3 = [\<lparr> pl_account_code = ''1000'', pl_debit = 5, pl_credit = 0, pl_narration = [] \<rparr>,
     \<lparr> pl_account_code = ''4000'', pl_debit = 0, pl_credit = 5, pl_narration = [] \<rparr>]"

definition ex_input3 :: post_input where
  "ex_input3 = \<lparr> pi_entry_date = Some (Date 2025 4 1), pi_value_date = None, pi_entry_type = None,
     pi_source_module = ''x'', pi_source_ref = ''y'', pi_narration = ''n'', pi_lines = ex_lines3,
     pi_posted_by = None \<rparr>"

theorem post_accepted_iff_witness:
  "\<exists>db' e. PostTx ex_N ex_gl4 30 31 5000 (Date 2025 4 1) ex_input3 = Inr (db', e)"
proof -
  have s: "scaled 2 5" using scaled_simps(2) [of 2 5] by simp
  have "post_amounts_ok (pi_lines ex_input3)"
    "\<forall>l\<in>set (pi_lines ex_input3). 0 \<le> pl_debit l \<and> 0 \<le> pl_credit l"
    by (simp_all add: ex_input3_def ex_lines3_def post_amounts_ok_def s)
  from post_accepted_iff [OF pg.rounding_axioms ex_chart_ok ex_gl4_reach this] show ?thesis
    by (simp add: ex_input3_def ex_lines3_def GetByCodeTx_def ex_gl4_def ex_gl2_def ex_gl1_def
        ex_chart_def ex_account_def period_closed_def ex_closed_period_def ex_period_def)
qed

section \<open>Amounts below a cent\<close>

definition ex_req3 :: post_request where
  "ex_req3 = ex_post ''2025-03-10'' ''tx3''
     [ex_line ''1000'' ''0.005'' [], ex_line ''5000'' ''0.005'' [], ex_line ''4000'' [] ''0.01'']"

text \<open>The balance check runs before the amounts are rounded to the column's two places: a post
  of debits 0.005 and 0.005 against a credit of 0.01 is accepted, and the entry it stores has
  debits of 0.02 and credits of 0.01 under stored totals of 0.01 on both sides.\<close>

theorem subcent_post_unbalanced:
  "\<exists>db' e. Post shop_decimal (round_half_up 2) [] [] (gl_init ex_chart) 10 20 1000 (Date 2025 6 30) ex_req3
      = Inr (db', Created e) \<and>
    sum_list (map jl_debit (je_lines e)) = 1/50 \<and> sum_list (map jl_credit (je_lines e)) = 1/100 \<and>
    je_total_debits e = 1/100 \<and> je_total_credits e = 1/100 \<and> je_status e = EntryPosted"
  by (simp add: post_eval ex_eval ex_req3_def Let_def)

section \<open>Closing a fiscal year\<close>

lemma CloseYear_InrD:
  "CloseYear N db pid eid now today u y nts = Inr (db', c) \<Longrightarrow>
    2000 \<le> y \<and> y \<le> 2999 \<and> executeCloseTx N db pid eid now today y u nts = Inr (db', c)"
  by (auto simp: CloseYear_def split: if_splits)

text \<open>The periods of the year that have a row are closed, and the close is on record.\<close>

lemma executeCloseTx_closed:
  assumes "executeCloseTx N db pid eid now today y u nts = Inr (db', c)"
  shows "IsClosedTx db' y" "\<forall>p\<in>set (gl_periods db'). pd_year p = y \<longrightarrow> pd_status p = PeriodClosed"
    "\<forall>p\<in>set (gl_periods db'). pd_month p = 12 \<and> pd_year p = y \<or>
       (pd_year p, pd_month p) \<in> (\<lambda>p. (pd_year p, pd_month p)) ` set (gl_periods db)"
    "gl_accounts db' = gl_accounts db"
proof -
  have "IsClosedTx db' y \<and> (\<forall>p\<in>set (gl_periods db'). pd_year p = y \<longrightarrow> pd_status p = PeriodClosed) \<and>
    (\<forall>p\<in>set (gl_periods db'). pd_month p = 12 \<and> pd_year p = y \<or>
       (pd_year p, pd_month p) \<in> (\<lambda>p. (pd_year p, pd_month p)) ` set (gl_periods db)) \<and>
    gl_accounts db' = gl_accounts db"
    using assms
  proof (rule executeCloseTx_InrE)
    fix db1 p db2 e db3 inp
    assume h: "EnsureOpenForDateTx db pid now (Date y 12 31) = Inr (db1, p)"
      "PostTx N db1 pid eid now today inp = Inr (db2, e)" "pi_entry_date inp = Some (Date y 12 31)"
      "RecordCloseTx N db2 c = Inr (db3, c)" "fc_year c = y" "db' = LockAllPeriodsInYearTx db3 now y u"
    obtain db1' p' ip where i: "EnsureOpenForDateTx db1 pid now (Date y 12 31) = Inr (db1', p')"
      "InsertPostedTx N db1' eid now ip = Inr (db2, e)"
      by (rule PostTx_InrE [OF h(2)]) (simp add: h(3))
    have "db1' = db1" using i(1) EnsureOpen_again [OF h(1)] by simp
    then have f: "gl_periods db3 = gl_periods db1" "gl_accounts db3 = gl_accounts db"
      using i(2) RecordCloseTx_frame [OF h(4)] EnsureOpen_Inr(2) [OF h(1)]
      by (auto simp: InsertPostedTx_def Let_def)
    have "IsClosedTx db3 y" using h(4,5) by (auto simp: RecordCloseTx_def IsClosedTx_def split: if_splits)
    moreover have "pd_status q = PeriodOpen \<or> pd_status q = PeriodClosed" for q
      by (cases "pd_status q") simp_all
    ultimately show ?thesis
      using f EnsureOpen_Inr(6-8) [OF h(1)]
      by (auto simp: h(6) LockAllPeriodsInYearTx_def IsClosedTx_def image_iff split: if_splits; metis)
  qed
  then show "IsClosedTx db' y" "\<forall>p\<in>set (gl_periods db'). pd_year p = y \<longrightarrow> pd_status p = PeriodClosed"
    "\<forall>p\<in>set (gl_periods db'). pd_month p = 12 \<and> pd_year p = y \<or>
       (pd_year p, pd_month p) \<in> (\<lambda>p. (pd_year p, pd_month p)) ` set (gl_periods db)"
    "gl_accounts db' = gl_accounts db" by blast+
qed

definition not_pl :: "account list \<Rightarrow> string \<Rightarrow> bool" where
  "not_pl accts code \<longleftrightarrow> (\<forall>a\<in>set accts. ac_code a = code \<longrightarrow> ac_class a \<notin> {ClassIncome, ClassExpense})"

text \<open>The closing entry balances by construction, so what can fail is a line's side or its account.\<close>

lemma closing_lines_sum:
  assumes "closing_totals cls = (ti, te)"
  shows "sum_list (map pl_debit (map closing_post_line cls @ surplus_line y (ti - te)))
    = sum_list (map pl_credit (map closing_post_line cls @ surplus_line y (ti - te)))"
proof -
  have t: "ti = sum_list (map cl_balance (filter (\<lambda>c. cl_class c = ClassIncome) cls))"
    "te = sum_list (map cl_balance (filter (\<lambda>c. cl_class c \<noteq> ClassIncome) cls))"
    using assms by (simp_all add: closing_totals_def)
  have "sum_list (map (\<lambda>x. pl_debit (closing_post_line x)) cls) = ti"
    "sum_list (map (\<lambda>x. pl_credit (closing_post_line x)) cls) = te"
    unfolding t by (induction cls) (simp_all add: closing_post_line_def)
  then show ?thesis by (simp add: surplus_line_def comp_def)
qed

lemma closing_line_account:
  assumes "gl_inv db" "c \<in> set (PLBalancesAsOfTx db d)"
  shows "account_ready db (cl_account_code c)"
  using assms GetByCode_mem [OF assms(1)] by (auto simp: PLBalancesAsOfTx_def Let_def account_ready_def)

lemma closing_line_sides:
  "cl_balance c \<noteq> 0 \<Longrightarrow>
    ((0 < pl_debit (closing_post_line c)) \<noteq> (0 < pl_credit (closing_post_line c))) = (0 < cl_balance c)"
  by (simp add: closing_post_line_def)

lemma surplus_sides: "l \<in> set (surplus_line y n) \<Longrightarrow> (0 < pl_debit l) \<noteq> (0 < pl_credit l)"
  by (auto simp: surplus_line_def split: if_splits)

lemma surplus_3010: "n \<noteq> 0 \<Longrightarrow> \<exists>l\<in>set (surplus_line y n). pl_account_code l = ''3010''"
  by (simp add: surplus_line_def)

lemma closing_length:
  assumes "cls \<noteq> []" "\<forall>c\<in>set cls. 0 < cl_balance c" "closing_totals cls = (ti, te)"
  shows "2 \<le> length (map closing_post_line cls @ surplus_line y (ti - te))"
proof (cases cls)
  case (Cons c cs)
  then show ?thesis
    using assms by (cases cs; cases "cl_class c = ClassIncome") (auto simp: closing_totals_def surplus_line_def)
qed (use assms in simp)

lemma PostTx_sides:
  assumes "PostTx N db pid eid now today inp = Inr (db', e)" "l \<in> set (pi_lines inp)"
  shows "(0 < pl_debit l) \<noteq> (0 < pl_credit l)" "\<exists>db1 a. EnsureOpenForDateTx db pid now
    (the_default today (pi_entry_date inp)) = Inr db1 \<and> GetByCodeTx (fst db1) (pl_account_code l) = Inr a \<and> ac_is_active a"
proof -
  obtain db1 p els ip where h: "EnsureOpenForDateTx db pid now (the_default today (pi_entry_date inp)) = Inr (db1, p)"
    "resolve_lines db1 0 [] (pi_lines inp) = Inr els" "InsertPostedTx N db1 eid now ip = Inr (db', e)" "ip_lines ip = els"
    by (rule PostTx_InrE [OF assms(1)])
  obtain td tc where v: "validateLines els = Inr (td, tc)" using h(3,4) by (auto simp: InsertPostedTx_def)
  have r: "resolve_ref db1 0 (pi_lines inp) = Inr els" using h(2) resolve_lines_ref [OF cache_ok_Nil] by metis
  show "(0 < pl_debit l) \<noteq> (0 < pl_credit l)"
    using validateLines_Inr(5) [OF v] assms(2) unfolding resolve_ref_map [OF r] by auto
  show "\<exists>db1 a. EnsureOpenForDateTx db pid now
    (the_default today (pi_entry_date inp)) = Inr db1 \<and> GetByCodeTx (fst db1) (pl_account_code l) = Inr a \<and> ac_is_active a"
    using resolve_ref_iff [of db1 0 "pi_lines inp"] r assms(2) h(1) by (auto simp: account_ready_def)
qed

lemma account_ready_cong: "gl_accounts db' = gl_accounts db \<Longrightarrow> account_ready db' c = account_ready db c"
  by (simp add: account_ready_def GetByCodeTx_def)

lemma PL_cong:
  "gl_accounts db' = gl_accounts db \<Longrightarrow> gl_entries db' = gl_entries db \<Longrightarrow>
    PLBalancesAsOfTx db' d = PLBalancesAsOfTx db d"
  by (simp add: PLBalancesAsOfTx_def account_net_def Let_def)

lemma PostTx_closes:
  "PostTx N db pid eid now today inp = Inr (db', e) \<Longrightarrow> gl_closes db' = gl_closes db"
  by (erule PostTx_InrE) (auto simp: InsertPostedTx_def Let_def dest: EnsureOpen_Inr(3))

definition closable :: "gl_db \<Rightarrow> int \<Rightarrow> bool" where
  "closable db year \<longleftrightarrow>
    \<not> IsClosedTx db year \<and> \<not> period_closed db (Date year 12 31) \<and>
    PLBalancesAsOfTx db (Date year 12 31) \<noteq> [] \<and>
    (\<forall>c\<in>set (PLBalancesAsOfTx db (Date year 12 31)). 0 < cl_balance c) \<and>
    (fst (closing_totals (PLBalancesAsOfTx db (Date year 12 31))) \<noteq>
       snd (closing_totals (PLBalancesAsOfTx db (Date year 12 31))) \<longrightarrow>
     (\<exists>a. GetByCodeTx db ''3010'' = Inr a \<and> ac_is_active a))"

lemma executeCloseTx_closable:
  assumes inv: "gl_inv db" and run: "executeCloseTx N db pid eid now today year user nts = Inr (db', c)"
  shows "closable db year"
  using run
proof (rule executeCloseTx_InrE)
  let ?fy = "Date year 12 31"
  fix db1 p db2 e ti te inp
  assume h: "\<not> IsClosedTx db year" "EnsureOpenForDateTx db pid now ?fy = Inr (db1, p)"
    "PLBalancesAsOfTx db1 ?fy \<noteq> []" "closing_totals (PLBalancesAsOfTx db1 ?fy) = (ti, te)"
    "PostTx N db1 pid eid now today inp = Inr (db2, e)" "pi_entry_date inp = Some ?fy"
    "pi_lines inp = map closing_post_line (PLBalancesAsOfTx db1 ?fy)
       @ surplus_line (show_nat (nat year)) (ti - te)"
  have PL: "PLBalancesAsOfTx db1 ?fy = PLBalancesAsOfTx db ?fy"
    using EnsureOpen_Inr(1,2) [OF h(2)] by (intro PL_cong) simp_all
  have "0 < cl_balance c" if c: "c \<in> set (PLBalancesAsOfTx db1 ?fy)" for c
  proof -
    have "cl_balance c \<noteq> 0" using c by (auto simp: PLBalancesAsOfTx_def Let_def)
    then show ?thesis
      using PostTx_sides(1) [OF h(5), of "closing_post_line c"] c h(7) closing_line_sides by simp
  qed
  moreover have "\<exists>a. GetByCodeTx db ''3010'' = Inr a \<and> ac_is_active a" if n: "ti \<noteq> te"
  proof -
    obtain l where l: "l \<in> set (pi_lines inp)" "pl_account_code l = ''3010''"
      using surplus_3010 [of "ti - te" "show_nat (nat year)"] n by (auto simp: h(7))
    show ?thesis
      using PostTx_sides(2) [OF h(5) l(1)] EnsureOpen_again [OF h(2)] EnsureOpen_Inr(2) [OF h(2)]
      by (auto simp: l(2) h(6) GetByCodeTx_def)
  qed
  ultimately show ?thesis using h(1,3,4) EnsureOpen_not_closed [OF inv h(2)] by (simp add: PL closable_def)
qed

lemma closable_CloseYear:
  assumes "rounding 2 N" and inv: "gl_inv db" and fresh: "pid \<notin> pd_id ` set (gl_periods db)"
    and yr: "2000 \<le> year" "year \<le> 2999" "user \<noteq> uuid_Nil" and cl: "closable db year"
  shows "\<exists>db' c. CloseYear N db pid eid now today user year nts = Inr (db', c)"
proof -
  let ?fy = "Date year 12 31"
  note mc = money_column.intro [OF assms(1)] and r = cl [unfolded closable_def]
  obtain db1 p where o: "EnsureOpenForDateTx db pid now ?fy = Inr (db1, p)"
    using EnsureOpen_iff [OF inv, of pid now ?fy] r by auto
  note o' = EnsureOpen_again [OF o]
  have inv1: "gl_inv db1" using EnsureOpen_ok [OF inv fresh o] by (simp add: gl_ok_def)
  have PL: "PLBalancesAsOfTx db1 ?fy = PLBalancesAsOfTx db ?fy"
    using EnsureOpen_Inr(1,2) [OF o] by (intro PL_cong) simp_all
  obtain ti te where t: "closing_totals (PLBalancesAsOfTx db1 ?fy) = (ti, te)" by (metis surj_pair)
  define inp where "inp = \<lparr> pi_entry_date = Some ?fy, pi_value_date = Some ?fy,
    pi_entry_type = Some TypeAdjustment,
    pi_source_module = ''accounting.fiscal-year-close'', pi_source_ref = show_nat (nat year),
    pi_narration = ''Year-end closing entry for FY '' @ show_nat (nat year),
    pi_lines = map closing_post_line (PLBalancesAsOfTx db1 ?fy) @ surplus_line (show_nat (nat year)) (ti - te),
    pi_posted_by = Some user \<rparr>"
  have pos: "\<forall>c\<in>set (PLBalancesAsOfTx db1 ?fy). 0 < cl_balance c" using r PL by simp
  have am: "post_amounts_ok (pi_lines inp)" using closing_amounts [OF inv1 t] by (simp add: inp_def)
  have nn: "\<forall>l\<in>set (pi_lines inp). 0 \<le> pl_debit l \<and> 0 \<le> pl_credit l"
    using pos by (auto simp: inp_def closing_post_line_def surplus_line_def)
  have acc: "account_ready db1 code = account_ready db code" for code
    by (rule account_ready_cong [OF EnsureOpen_Inr(2) [OF o]])
  have "\<forall>c\<in>set (PLBalancesAsOfTx db ?fy). account_ready db (cl_account_code c)"
    using closing_line_account [OF inv1, where d = ?fy] by (simp add: acc PL)
  then have "\<forall>l\<in>set (pi_lines inp). account_ready db1 (pl_account_code l)"
    using r t unfolding acc
    by (auto simp: inp_def closing_post_line_def surplus_line_def PL account_ready_def [of db "''3010''"])
  moreover have "\<forall>l\<in>set (pi_lines inp). (0 < pl_debit l) \<noteq> (0 < pl_credit l)"
    using pos surplus_sides by (simp add: inp_def ball_Un closing_post_line_def)
  moreover have "2 \<le> length (pi_lines inp)"
    using closing_length [OF _ pos t] r PL by (simp add: inp_def)
  moreover have "\<not> period_closed db1 ?fy" using EnsureOpen_not_closed [OF inv1 o'] .
  ultimately have "\<exists>res. PostTx N db1 pid eid now today inp = Inr res"
    using closing_lines_sum [OF t, of "show_nat (nat year)"]
    by (subst money_column.PostTx_iff [OF mc inv1 am nn]) (simp add: inp_def)
  then obtain db2 e where post: "PostTx N db1 pid eid now today inp = Inr (db2, e)" by auto
  have "gl_closes db2 = gl_closes db"
    using PostTx_closes [OF post] EnsureOpen_Inr(3) [OF o] by simp
  then have "\<not> IsClosedTx db2 year" using r by (simp add: IsClosedTx_def)
  then show ?thesis
    using yr r o t PL post unfolding inp_def
    by (simp add: CloseYear_def executeCloseTx_def RecordCloseTx_def Let_def del: append.simps)
qed

lemma CloseYear_iff:
  assumes "rounding 2 N" and "gl_inv db" and "pid \<notin> pd_id ` set (gl_periods db)"
    and "2000 \<le> year" "year \<le> 2999" "user \<noteq> uuid_Nil"
  shows "(\<exists>db' c. CloseYear N db pid eid now today user year nts = Inr (db', c)) \<longleftrightarrow> closable db year"
proof
  assume "\<exists>db' c. CloseYear N db pid eid now today user year nts = Inr (db', c)"
  then obtain db' c where "CloseYear N db pid eid now today user year nts = Inr (db', c)" by blast
  from CloseYear_InrD [OF this] show "closable db year"
    using executeCloseTx_closable [OF assms(2)] by metis
qed (rule closable_CloseYear [OF assms])

text \<open>When a year can be closed: exactly when it is not closed yet, its December is not closed,
  there is something to close, every income and expense balance has its natural sign, and the
  retained earnings account 3010 is in the chart and active unless the year breaks even. One
  account with a balance on the wrong side blocks the close.\<close>

theorem year_close_accepted_iff:
  assumes "rounding 2 N" and "chart_ok accts" and "(gl_step D N)\<^sup>*\<^sup>* (gl_init accts) db"
    and "pid \<notin> pd_id ` set (gl_periods db)"
    and "2000 \<le> year" "year \<le> 2999" "user \<noteq> uuid_Nil"
  shows "(\<exists>db' c. CloseYear N db pid eid now today user year nts = Inr (db', c)) \<longleftrightarrow>
    \<not> IsClosedTx db year \<and> \<not> period_closed db (Date year 12 31) \<and>
    PLBalancesAsOfTx db (Date year 12 31) \<noteq> [] \<and>
    (\<forall>c\<in>set (PLBalancesAsOfTx db (Date year 12 31)). 0 < cl_balance c) \<and>
    (fst (closing_totals (PLBalancesAsOfTx db (Date year 12 31))) \<noteq>
       snd (closing_totals (PLBalancesAsOfTx db (Date year 12 31))) \<longrightarrow>
     (\<exists>a. GetByCodeTx db ''3010'' = Inr a \<and> ac_is_active a))"
  unfolding closable_def [symmetric]
  by (rule CloseYear_iff [OF assms(1) money_column.gl_reachable [OF money_column.intro [OF assms(1)] assms(2,3)]
      assms(4-7)])

text \<open>The books of the example at the end of 2025, closed by user 9.\<close>

lemma ex_PL: "PLBalancesAsOfTx ex_gl1 (Date 2025 12 31)
  = [\<lparr> cl_account_code = ''4000'', cl_account_id = 4, cl_account_name = ''4000'',
       cl_class = ClassIncome, cl_balance = 201/2 \<rparr>]"
  by (simp add: PLBalancesAsOfTx_def account_net_def ex_gl1_def ex_chart_def ex_account_def
      ex_entry1_def ex_jl_def Let_def less_eq_date_def less_date_def)

lemma ex_close_runs:
  "\<exists>db' c. CloseYear ex_N ex_gl1 60 61 8000 (Date 2026 1 5) 9 2025 [] = Inr (db', c)"
proof -
  have "(60::nat) \<notin> pd_id ` set (gl_periods ex_gl1)" "(2000::int) \<le> 2025" "(2025::int) \<le> 2999"
    "(9::nat) \<noteq> uuid_Nil"
    by (simp_all add: ex_gl1_def ex_period_def)
  from CloseYear_iff [OF pg.rounding_axioms pg.gl_reachable [OF ex_chart_ok ex_gl1_reach] this, of 61 8000 "Date 2026 1 5" "[]"]
  show ?thesis
    unfolding closable_def ex_PL
    by (simp add: closing_totals_def IsClosedTx_def period_closed_def GetByCodeTx_def ex_gl1_def ex_chart_def
        ex_account_def ex_period_def)
qed

theorem year_close_accepted_iff_witness:
  "0 < cl_balance (hd (PLBalancesAsOfTx ex_gl1 (Date 2025 12 31)))"
proof -
  have "(60::nat) \<notin> pd_id ` set (gl_periods ex_gl1)" "(2000::int) \<le> 2025" "(2025::int) \<le> 2999"
    "(9::nat) \<noteq> uuid_Nil"
    by (simp_all add: ex_gl1_def ex_period_def)
  from year_close_accepted_iff [OF pg.rounding_axioms ex_chart_ok ex_gl1_reach this, of 61 8000 "Date 2026 1 5" "[]"]
  show ?thesis using ex_close_runs by (auto simp: ex_PL)
qed

text \<open>A successful year-end close leaves every active income and expense account with a zero
  balance at 31 December, marks the year closed, closes each of its periods that has a row, and
  makes a second close of the year fail.\<close>

theorem year_close_zeroes:
  assumes "rounding 2 N" and "chart_ok accts" and "(gl_step D N)\<^sup>*\<^sup>* (gl_init accts) db"
    and "pid \<notin> pd_id ` set (gl_periods db)" and "not_pl (gl_accounts db) ''3010''"
    and "CloseYear N db pid eid now today user year nts = Inr (db', c)"
  shows "(\<forall>a\<in>set (gl_accounts db'). ac_class a \<in> {ClassIncome, ClassExpense} \<and> ac_is_active a \<longrightarrow>
       account_net db' (ac_id a) (Date year 12 31) = 0) \<and>
    IsClosedTx db' year \<and>
    (\<forall>p\<in>set (gl_periods db'). pd_year p = year \<longrightarrow> pd_status p = PeriodClosed) \<and>
    (\<forall>pid2 eid2 now2 today2 user2 nts2. \<exists>err.
       CloseYear N db' pid2 eid2 now2 today2 user2 year nts2 = Inl err)"
proof -
  note mc = money_column.intro [OF assms(1)]
  have inv: "gl_inv db" by (rule money_column.gl_reachable [OF mc assms(2,3)])
  have run: "executeCloseTx N db pid eid now today year user nts = Inr (db', c)"
    using CloseYear_InrD [OF assms(6)] by simp
  have "account_net db' (ac_id a) (Date year 12 31) = 0"
    if "a \<in> set (gl_accounts db')" "ac_class a \<in> {ClassIncome, ClassExpense}" "ac_is_active a" for a
    using money_column.close_zeroes [OF mc inv assms(4) run _ _ that(2,3)] assms(5) that(1)
      executeCloseTx_closed(4) [OF run] by (simp add: not_pl_def)
  then show ?thesis
    using executeCloseTx_closed [OF run] by (auto simp: CloseYear_def executeCloseTx_def map_err_def Let_def)
qed

theorem year_close_zeroes_witness:
  "\<exists>db' c. CloseYear ex_N ex_gl1 60 61 8000 (Date 2026 1 5) 9 2025 [] = Inr (db', c) \<and> IsClosedTx db' 2025"
proof -
  obtain db' c where run: "CloseYear ex_N ex_gl1 60 61 8000 (Date 2026 1 5) 9 2025 [] = Inr (db', c)"
    using ex_close_runs by blast
  have "(60::nat) \<notin> pd_id ` set (gl_periods ex_gl1)" "not_pl (gl_accounts ex_gl1) ''3010''"
    by (simp_all add: ex_gl1_def ex_period_def not_pl_def ex_chart_def ex_account_def)
  from year_close_zeroes [OF pg.rounding_axioms ex_chart_ok ex_gl1_reach this run] run show ?thesis by blast
qed

text \<open>A month of a closed year that never had a period row is still open: after a successful close,
  a post dated in such a month is accepted under the same conditions as before the close.\<close>

theorem closed_year_still_open:
  assumes "rounding 2 N" and "chart_ok accts" and "(gl_step D N)\<^sup>*\<^sup>* (gl_init accts) db"
    and "pid \<notin> pd_id ` set (gl_periods db)" and "eid \<notin> je_id ` set (gl_entries db)"
    and "CloseYear N db pid eid now today user year nts = Inr (db', c)"
    and "month \<noteq> 12" and "\<forall>p\<in>set (gl_periods db). \<not> (pd_year p = year \<and> pd_month p = month)"
    and "pi_entry_date inp = Some (Date year month day)"
    and "\<exists>r. PostTx N db pid2 eid2 now2 today2 inp = Inr r"
    and "post_amounts_ok (pi_lines inp)" and "\<forall>l\<in>set (pi_lines inp). 0 \<le> pl_debit l \<and> 0 \<le> pl_credit l"
  shows "\<exists>db2 e. PostTx N db' pid2 eid2 now2 today2 inp = Inr (db2, e) \<and> je_entry_date e = Date year month day"
proof -
  note mc = money_column.intro [OF assms(1)]
  have inv: "gl_inv db" by (rule money_column.gl_reachable [OF mc assms(2,3)])
  have run: "executeCloseTx N db pid eid now today year user nts = Inr (db', c)"
    using CloseYear_InrD [OF assms(6)] by simp
  have inv': "gl_inv db'"
    using money_column.CloseYear_ok [OF mc inv assms(4,5) run] by (simp add: gl_ok_def)
  have "\<not> period_closed db' (Date year month day)"
    using executeCloseTx_closed(3) [OF run] assms(7,8) by (force simp: period_closed_def)
  then have "\<exists>r. PostTx N db' pid2 eid2 now2 today2 inp = Inr r"
    using money_column.PostTx_iff [OF mc inv assms(11,12), of pid2 eid2 now2 today2] assms(9,10)
      executeCloseTx_closed(4) [OF run]
    by (subst money_column.PostTx_iff [OF mc inv' assms(11,12)]) (simp add: account_ready_def GetByCodeTx_def)
  then show ?thesis using assms(9) by (auto simp: PostTx_def InsertPostedTx_def Let_def)
qed

theorem closed_year_still_open_witness:
  "\<exists>db' c db2 e. CloseYear ex_N ex_gl1 60 61 8000 (Date 2026 1 5) 9 2025 [] = Inr (db', c) \<and>
     PostTx ex_N db' 70 71 9000 (Date 2026 1 6) ex_input3 = Inr (db2, e) \<and> je_entry_date e = Date 2025 4 1"
proof -
  obtain db' c where run: "CloseYear ex_N ex_gl1 60 61 8000 (Date 2026 1 5) 9 2025 [] = Inr (db', c)"
    using ex_close_runs by blast
  have s: "scaled 2 5" using scaled_simps(2) [of 2 5] by simp
  have am: "post_amounts_ok (pi_lines ex_input3)"
    "\<forall>l\<in>set (pi_lines ex_input3). 0 \<le> pl_debit l \<and> 0 \<le> pl_credit l"
    by (simp_all add: ex_input3_def ex_lines3_def post_amounts_ok_def s)
  have "\<exists>r. PostTx ex_N ex_gl1 70 71 9000 (Date 2026 1 6) ex_input3 = Inr r"
    by (subst pg.PostTx_iff [OF pg.gl_reachable [OF ex_chart_ok ex_gl1_reach] am])
      (simp add: ex_input3_def ex_lines3_def account_ready_def GetByCodeTx_def ex_gl1_def
        ex_chart_def ex_account_def period_closed_def ex_period_def)
  moreover have "(60::nat) \<notin> pd_id ` set (gl_periods ex_gl1)" "(61::nat) \<notin> je_id ` set (gl_entries ex_gl1)"
    "(4::nat) \<noteq> 12" "\<forall>p\<in>set (gl_periods ex_gl1). \<not> (pd_year p = 2025 \<and> pd_month p = 4)"
    "pi_entry_date ex_input3 = Some (Date 2025 4 1)"
    by (simp_all add: ex_gl1_def ex_period_def ex_entry1_def ex_input3_def)
  ultimately show ?thesis
    using closed_year_still_open [OF pg.rounding_axioms ex_chart_ok ex_gl1_reach _ _ run _ _ _ _ am,
        of 4 1 70 71 9000 "Date 2026 1 6"] run by blast
qed

end
