(* ===== verification/OutboxProperties.thy ===== *)
theory OutboxProperties
  imports Outbox LedgerProperties
begin

text \<open>
  The outbox and the ledger together: the posting dispatcher's requests reach the ledger's
  endpoint over a network that may lose a request or a reply, the dispatcher's own commit may
  fail, and other requests change the ledger in between. Then each dispatched row has exactly
  one posted entry with its source.
\<close>

section \<open>The accounting service as the server\<close>

datatype fault = NoFault | LostRequest | LostReply

definition http_code :: "gl_error \<Rightarrow> nat" where
  "http_code e = (case e of GlBadRequest _ \<Rightarrow> 400 | GlUnauthorized \<Rightarrow> 401 | GlConflict _ \<Rightarrow> 409 | _ \<Rightarrow> 500)"

definition post_reply_of :: "gl_db \<Rightarrow> gl_error + (gl_db \<times> post_outcome) \<Rightarrow> gl_db \<times> post_reply" where
  "post_reply_of db r = (case r of
     Inl e \<Rightarrow> (db, Reply (http_code e) (err_text e))
   | Inr (db', Idempotent _) \<Rightarrow> (db', Reply 200 [])
   | Inr (db', Created _) \<Rightarrow> (db', Reply 201 []))"

definition ledger_send ::
  "fault \<Rightarrow> decimal_lib \<Rightarrow> (decimal \<Rightarrow> decimal) \<Rightarrow> string \<Rightarrow> string \<Rightarrow> uuid \<Rightarrow> uuid \<Rightarrow> instant \<Rightarrow> date
    \<Rightarrow> post_request \<Rightarrow> gl_db \<Rightarrow> gl_db \<times> post_reply" where
  "ledger_send fault D N tok hdr pid eid now today req db =
     (case fault of
        LostRequest \<Rightarrow> (db, NoReply ''timeout'')
      | LostReply \<Rightarrow> (fst (post_reply_of db (Post D N tok hdr db pid eid now today req)), NoReply ''timeout'')
      | NoFault \<Rightarrow> post_reply_of db (Post D N tok hdr db pid eid now today req))"

lemma http_code_error: "300 \<le> http_code e"
  by (simp add: http_code_def split: gl_error.split)

lemma ledger_send_step:
  assumes "ledger_send fault D N tok hdr pid eid now today req db = (db', rep)"
    and "pid \<notin> pd_id ` set (gl_periods db)" "eid \<notin> je_id ` set (gl_entries db)"
    and "req_amounts_ok D (pq_lines req)"
  shows "db' = db \<or> gl_step D N db db'"
proof -
  have "db' = db \<or> (\<exists>out. Post D N tok hdr db pid eid now today req = Inr (db', out))"
    using assms(1) by (auto simp: ledger_send_def post_reply_of_def split: fault.splits sum.splits prod.splits post_outcome.splits)
  then show ?thesis using gl_step.post [OF assms(2-4)] by blast
qed

lemma ledger_send_ok:
  assumes "ledger_send fault D N tok hdr pid eid now today req db = (db', Reply code body)" "code < 300"
  shows "\<exists>e\<in>set (gl_entries db'). je_source_module e = pq_source_module req \<and>
    je_source_ref e = pq_source_ref req \<and> je_status e = EntryPosted"
proof -
  obtain out where "Post D N tok hdr db pid eid now today req = Inr (db', out)"
    using assms http_code_error
    by (auto simp: ledger_send_def post_reply_of_def not_less [symmetric]
        split: fault.splits sum.splits prod.splits post_outcome.splits)
  then show ?thesis by (rule Post_posted)
qed

section \<open>One entry per source\<close>

definition fy_module :: string where
  "fy_module = ''accounting.fiscal-year-close''"

definition src_unique :: "gl_db \<Rightarrow> bool" where
  "src_unique db \<longleftrightarrow>
     (\<forall>e\<in>set (gl_entries db). je_status e \<noteq> EntryPosted \<longrightarrow> je_source_module e = []) \<and>
     (\<forall>e1\<in>set (gl_entries db). \<forall>e2\<in>set (gl_entries db).
        je_source_module e1 \<notin> {[], fy_module} \<and> je_source_module e2 = je_source_module e1 \<and>
        je_source_ref e2 = je_source_ref e1 \<longrightarrow> e1 = e2)"

lemma find_posted_None:
  "find_posted db m r = None \<Longrightarrow> e \<in> set (gl_entries db) \<Longrightarrow> je_status e = EntryPosted \<Longrightarrow>
    \<not> (je_source_module e = m \<and> je_source_ref e = r)"
  by (auto simp: find_posted_def find_None_iff)

text \<open>What a step may add: entries without a source, a year's closing entry, or one new source.\<close>

definition src_frame :: "gl_db \<Rightarrow> gl_db \<Rightarrow> bool" where
  "src_frame db db' \<longleftrightarrow> (\<forall>e\<in>set (gl_entries db'). e \<in> set (gl_entries db) \<or> je_source_module e = [] \<or>
     je_status e = EntryPosted \<and> (je_source_module e = fy_module \<or>
       gl_entries db' = gl_entries db @ [e] \<and> find_posted db (je_source_module e) (je_source_ref e) = None))"

lemma src_frame_same: "gl_entries db' = gl_entries db \<Longrightarrow> src_frame db db'"
  by (simp add: src_frame_def)

lemma src_frame_unique:
  assumes u: "src_unique db" and f: "src_frame db db'"
  shows "src_unique db'"
proof -
  have "je_source_module e = []" if "e \<in> set (gl_entries db')" "je_status e \<noteq> EntryPosted" for e
    using u f that by (auto simp: src_unique_def src_frame_def)
  moreover have "e1 = e2" if h: "e1 \<in> set (gl_entries db')" "e2 \<in> set (gl_entries db')"
    "je_source_module e1 \<notin> {[], fy_module}" "je_source_module e2 = je_source_module e1"
    "je_source_ref e2 = je_source_ref e1" for e1 e2
  proof -
    have new: "gl_entries db' = gl_entries db @ [e] \<and> (\<forall>x\<in>set (gl_entries db).
        \<not> (je_source_module x = je_source_module e \<and> je_source_ref x = je_source_ref e))"
      if e: "e \<in> {e1, e2}" "e \<notin> set (gl_entries db)" for e
    proof -
      have m: "e \<in> set (gl_entries db')" "je_source_module e \<notin> {[], fy_module}" using e(1) h by auto
      then have n: "gl_entries db' = gl_entries db @ [e]"
        "find_posted db (je_source_module e) (je_source_ref e) = None"
        using f e(2) by (auto simp: src_frame_def)
      have "\<not> (je_source_module x = je_source_module e \<and> je_source_ref x = je_source_ref e)"
        if "x \<in> set (gl_entries db)" for x
        using find_posted_None [OF n(2) that] u that m(2) by (auto simp: src_unique_def)
      with n(1) show ?thesis by blast
    qed
    show ?thesis
    proof (cases "e1 \<in> set (gl_entries db) \<and> e2 \<in> set (gl_entries db)")
      case True
      then show ?thesis using u h(3-5) unfolding src_unique_def by metis
    next
      case False
      then obtain e where "e \<in> {e1, e2}" "e \<notin> set (gl_entries db)" by blast
      from new [OF this] this show ?thesis using h by auto
    qed
  qed
  ultimately show ?thesis unfolding src_unique_def by blast
qed

lemma update_pending_frame:
  assumes "src_unique db" "\<And>e. je_source_module (f e) = je_source_module e"
  shows "src_frame db (update_pending eid f db)"
  using assms by (force simp: src_frame_def src_unique_def update_pending_def)

lemma Post_src:
  assumes "Post D N tok hdr db pid eid now today req = Inr (db', out)"
  shows "src_frame db db'"
proof -
  obtain v where v: "(case find_posted db (pq_source_module req) (pq_source_ref req) of
          Some e \<Rightarrow> Inr (db, Idempotent e)
        | None \<Rightarrow> bind_res (post_write N db pid eid now today req v) (\<lambda>(db', e).
            Inr (db', Created e))) = Inr (db', out)"
    by (rule Post_InrD [OF assms])
  show ?thesis
  proof (cases "find_posted db (pq_source_module req) (pq_source_ref req)")
    case None
    with v obtain e where "post_write N db pid eid now today req v = Inr (db', e)" by auto
    from post_write_Inr [OF this] None show ?thesis by (simp add: src_frame_def)
  next
    case (Some e)
    with v show ?thesis by (simp add: src_frame_same)
  qed
qed

lemma CreateJournal_src:
  assumes "eid \<notin> je_id ` set (gl_entries db)"
    and "CreateJournal D N wfs db pid eid now actor req = (db', res)"
  shows "src_frame db db'"
proof (cases "create_draft D N db pid eid now actor req")
  case (Inl x)
  with assms show ?thesis by (simp add: CreateJournal_def src_frame_same)
next
  case (Inr r)
  obtain db1 n td ae where r: "r = (db1, n, td, ae)" by (metis prod_cases4)
  obtain d db0 p inp where h: "EnsureOpenForDateTx db pid now d = Inr (db0, p)"
    "CreateDraftTx N db0 eid inp = Inr (db1, n)"
    by (rule create_draft_InrE [OF Inr [unfolded r]]) blast
  have es: "gl_entries db1 = gl_entries db @ [n]" "je_id n = eid" "je_source_module n = []"
    using h(2) EnsureOpen_Inr(1) [OF h(1)] by (auto simp: CreateDraftTx_def Let_def)
  have "db' = db1 \<or> (\<exists>wid. db' = set_workflow_instance eid wid db1)"
    using assms(2) es(2) by (auto simp: CreateJournal_def Inr r split: option.splits sum.splits)
  with assms(1) es show ?thesis
    by (auto simp: src_frame_def set_workflow_instance_def image_iff; metis)
qed

lemma executeCloseTx_src:
  assumes "executeCloseTx N db pid eid now today year user nts = Inr (db', c)"
  shows "src_frame db db'"
  using assms
proof (rule executeCloseTx_InrE)
  fix db1 p db2 e db3 inp
  assume h: "EnsureOpenForDateTx db pid now (Date year 12 31) = Inr (db1, p)"
    "PostTx N db1 pid eid now today inp = Inr (db2, e)" "pi_entry_date inp = Some (Date year 12 31)"
    "pi_source_module inp = ''accounting.fiscal-year-close''"
    "RecordCloseTx N db2 c = Inr (db3, c)" "db' = LockAllPeriodsInYearTx db3 now year user"
  obtain db1' p' ip where i: "EnsureOpenForDateTx db1 pid now (Date year 12 31) = Inr (db1', p')"
    "InsertPostedTx N db1' eid now ip = Inr (db2, e)" "ip_source_module ip = pi_source_module inp"
    by (rule PostTx_InrE [OF h(2)]) (simp add: h(3))
  have "db1' = db1" using i(1) EnsureOpen_again [OF h(1)] by simp
  then have "gl_entries db' = gl_entries db @ [e]" "je_status e = EntryPosted" "je_source_module e = fy_module"
    using i(2,3) RecordCloseTx_frame [OF h(5)] EnsureOpen_Inr(1) [OF h(1)]
    by (auto simp: InsertPostedTx_def Let_def h(4,6) LockAllPeriodsInYearTx_def fy_module_def)
  then show ?thesis by (simp add: src_frame_def)
qed

lemma ResolveJournal_src:
  assumes u: "src_unique db" and run: "ResolveJournal ex got ag db now env = Inr (db', r)"
  shows "src_frame db db'"
proof -
  have "db' = db \<or> (\<exists>eid now u r. ApproveAndPostTx db now eid u = Inr (db', r)) \<or>
      (\<exists>eid now u reason. RejectTx db now eid u reason = Inr db')"
    using run by (auto simp: ResolveJournal_def Let_def split: if_splits option.splits)
  then show ?thesis
    using update_pending_frame [OF u] src_frame_same
    by (auto simp: ApproveAndPostTx_def RejectTx_def Let_def split: if_splits)
qed

lemma ApproveJournal_src:
  assumes u: "src_unique db" and run: "ApproveJournal db pid now actor eid = Inr (db', r)"
  shows "src_frame db db'"
proof -
  obtain d db1 p where h: "EnsureOpenForDateTx db pid now d = Inr (db1, p)"
    "ApproveAndPostTx db1 now eid actor = Inr (db', r)"
    using run by (auto simp: ApproveJournal_def)
  have es: "gl_entries db1 = gl_entries db" by (rule EnsureOpen_Inr(1) [OF h(1)])
  then have "src_unique db1" using u by (simp add: src_unique_def)
  from update_pending_frame [OF this] h(2) have "src_frame db1 db'"
    by (auto simp: ApproveAndPostTx_def Let_def split: if_splits)
  then show ?thesis by (simp add: src_frame_def es find_posted_def)
qed

lemma gl_step_unique:
  assumes u: "src_unique db" and st: "gl_step D N db db'"
  shows "src_unique db'"
proof -
  have "src_frame db db'"
    using st
  proof cases
    case (post pid eid req tok hdr now today out)
    then show ?thesis using Post_src by blast
  next
    case (create pid eid creq wfs now actor res)
    then show ?thesis using CreateJournal_src by blast
  next
    case (approve pid now actor eid x)
    then show ?thesis using ApproveJournal_src [OF u] by blast
  next
    case (reject now actor eid reason)
    then have "RejectTx db now eid actor reason = Inr db'" by (simp add: RejectJournal_def)
    then show ?thesis using update_pending_frame [OF u] by (auto simp: RejectTx_def split: if_splits)
  next
    case (resolve expected got agent now env r)
    then show ?thesis using ResolveJournal_src [OF u] by blast
  next
    case (close_year pid eid now today user year nts c)
    from executeCloseTx_src [OF CloseYear_InrD [OF this(3), THEN conjunct2, THEN conjunct2]] show ?thesis .
  next
    case (close_period now actor pid nts)
    then show ?thesis using src_frame_same entries_same(1) by blast
  next
    case (reopen_period now actor pid reason)
    then show ?thesis using src_frame_same entries_same(2) by blast
  next
    case (create_account aid areq a)
    then show ?thesis using src_frame_same entries_same(3) by blast
  next
    case (update_account aid ureq a)
    then show ?thesis using src_frame_same entries_same(4) by blast
  qed
  with u show ?thesis by (rule src_frame_unique)
qed

section \<open>The two services together\<close>

inductive ob_step ::
  "decimal_lib \<Rightarrow> (decimal \<Rightarrow> decimal) \<Rightarrow> outbox_row list \<times> gl_db \<Rightarrow> outbox_row list \<times> gl_db \<Rightarrow> bool" for D N where
  enqueue: "rid \<notin> ob_id ` set ob \<Longrightarrow> in_source_module inp \<noteq> fy_module \<Longrightarrow>
    OutboxPostTx D dry ob rid now inp = Inr ob' \<Longrightarrow> ob_step D N (ob, gl) (ob', gl)"
| process: "r \<in> set ob \<Longrightarrow> pid \<notin> pd_id ` set (gl_periods gl) \<Longrightarrow> eid \<notin> je_id ` set (gl_entries gl) \<Longrightarrow>
    processRow (ledger_send fault D N tok hdr pid eid now today) uuidParse D dry commits clk ob gl
      (r\<lparr>ob_attempts := k\<rparr>) = (ob', gl') \<Longrightarrow> ob_step D N (ob, gl) (ob', gl')"
| replay: "ReplayTx ob rid = Inr ob' \<Longrightarrow> ob_step D N (ob, gl) (ob', gl)"
| ledger: "gl_step D N gl gl' \<Longrightarrow> ob_step D N (ob, gl) (ob, gl')"

text \<open>The invariant: a dispatched row has its entry.\<close>

definition delivered :: "gl_db \<Rightarrow> outbox_row \<Rightarrow> bool" where
  "delivered gl r \<longleftrightarrow> (\<exists>e\<in>set (gl_entries gl). je_status e = EntryPosted \<and>
     je_source_module e = pq_source_module (ob_payload r) \<and> je_source_ref e = pq_source_ref (ob_payload r))"

definition ob_inv :: "outbox_row list \<times> gl_db \<Rightarrow> bool" where
  "ob_inv st \<longleftrightarrow> (case st of (ob, gl) \<Rightarrow> gl_inv gl \<and> src_unique gl \<and> distinct (map ob_id ob) \<and>
     (\<forall>r\<in>set ob. pq_source_module (ob_payload r) \<notin> {[], fy_module} \<and>
        (ob_dispatched_at r \<noteq> None \<longrightarrow> delivered gl r)))"

lemma delivered_mono: "gl_keeps gl gl' \<Longrightarrow> delivered gl r \<Longrightarrow> delivered gl' r"
  by (auto simp: delivered_def gl_keeps_def)

lemma rebuild_fields:
  "rebuild D p = Inr inp \<Longrightarrow> in_source_module inp = pq_source_module p \<and> in_source_ref inp = pq_source_ref p"
  by (auto simp: rebuild_def)

lemma post_body_fields [simp]:
  "pq_source_module (post_body D inp) = in_source_module inp"
  "pq_source_ref (post_body D inp) = in_source_ref inp"
  by (simp_all add: post_body_def)

text \<open>What one processing of a row can do: nothing, one request and a failure, or one request that
  the server accepted and the stamp.\<close>

definition stamp :: "instant \<Rightarrow> uuid option \<Rightarrow> outbox_row \<Rightarrow> outbox_row" where
  "stamp now je r = r\<lparr>ob_dispatched_at := Some now, ob_posted_je_id := je, ob_last_error := None\<rparr>"

lemma processRow_cases:
  assumes "processRow send uuidParse D dry commits now ob s c = (ob', s')"
  obtains (idle) "s' = s" "ob' = ob"
  | (failed) "s' = s \<or> (\<exists>inp rep. send (post_body D inp) s = (s', rep))"
      "ob' = ob \<or> (\<exists>e. ob' = recordFailure c e ob)"
  | (accepted) inp code body je where "rebuild D (ob_payload c) = Inr inp"
      "send (post_body D inp) s = (s', Reply code body)" "code < 300"
      "ob' = ob \<or> ob' = update_outbox (ob_id c) (stamp now je) ob"
proof (cases "\<exists>r\<in>set ob. ob_id r = ob_id c \<and> ob_dispatched_at r = None")
  case False
  with assms show thesis by (intro idle) (auto simp: processRow_def)
next
  case True
  show thesis
  proof (cases "rebuild D (ob_payload c)")
    case (Inl e)
    with True assms show thesis by (intro failed) (auto simp: processRow_def split: if_splits)
  next
    case (Inr inp)
    obtain s1 r where p: "ClientPost send D dry inp s = (s1, r)" by force
    show thesis
    proof (cases r)
      case (Some e)
      with True assms Inr p have "s' = s1" "ob' = ob \<or> ob' = recordFailure c e ob"
        by (auto simp: processRow_def split: if_splits)
      with p show thesis
        by (intro failed) (auto simp: ClientPost_def split: if_splits prod.splits post_reply.splits)
    next
      case None
      with True assms Inr p have "s' = s1" and o: "ob' = ob \<or>
          ob' = update_outbox (ob_id c) (stamp now (case uuidParse (in_source_ref inp) of
            Some u \<Rightarrow> if u = uuid_Nil then None else Some u | None \<Rightarrow> None)) ob"
        by (auto simp: processRow_def stamp_def [abs_def] split: if_splits)
      obtain code body where "send (post_body D inp) s = (s', Reply code body)" "code < 300"
        using p None \<open>s' = s1\<close>
        by (auto simp: ClientPost_def split: if_splits prod.splits post_reply.splits)
      with Inr o accepted show thesis by blast
    qed
  qed
qed

lemma update_outbox_ids:
  "(\<And>r. ob_id (f r) = ob_id r) \<Longrightarrow> map ob_id (update_outbox rid f ob) = map ob_id ob"
  by (simp add: update_outbox_def)

lemma update_outbox_mem:
  "r \<in> set (update_outbox rid f ob) \<Longrightarrow> r \<in> set ob \<or> (\<exists>x\<in>set ob. ob_id x = rid \<and> r = f x)"
  by (auto simp: update_outbox_def)

lemma row_unique:
  "distinct (map ob_id ob) \<Longrightarrow> x \<in> set ob \<Longrightarrow> y \<in> set ob \<Longrightarrow> ob_id x = ob_id y \<Longrightarrow> x = y"
  by (auto simp: distinct_map dest: inj_onD)

text \<open>A change of the ledger and of rows that neither stamps nor alters payloads keeps the invariant.\<close>

lemma ob_inv_rows:
  assumes "ob_inv (ob, gl)" "gl_inv gl'" "src_unique gl'" "gl_keeps gl gl'" "distinct (map ob_id ob')"
    and "\<And>r. r \<in> set ob' \<Longrightarrow> pq_source_module (ob_payload r) \<notin> {[], fy_module} \<and>
      (ob_dispatched_at r \<noteq> None \<longrightarrow> delivered gl' r \<or>
       (\<exists>x\<in>set ob. ob_payload x = ob_payload r \<and> ob_dispatched_at x \<noteq> None))"
  shows "ob_inv (ob', gl')"
proof -
  have "delivered gl' r" if "r \<in> set ob'" "ob_dispatched_at r \<noteq> None" for r
  proof -
    note m = assms(6) [OF that(1)] that(2)
    consider "delivered gl' r" | x where "x \<in> set ob" "ob_payload x = ob_payload r" "ob_dispatched_at x \<noteq> None"
      using m by blast
    then show ?thesis
    proof cases
      case 2
      then have "delivered gl x" using assms(1) by (auto simp: ob_inv_def)
      with 2(2) have "delivered gl r" by (simp add: delivered_def)
      then show ?thesis by (rule delivered_mono [OF assms(4)])
    qed
  qed
  with assms show ?thesis by (auto simp: ob_inv_def)
qed

context money_column
begin

lemma ledger_unchanged_or_step:
  assumes "gl_inv gl" "src_unique gl" "gl' = gl \<or> gl_step D N gl gl'"
  shows "gl_inv gl'" "src_unique gl'" "gl_keeps gl gl'"
  using assms gl_step_ok [OF assms(1), of D gl'] gl_ok_refl [OF assms(1)] gl_step_unique [OF assms(2)]
  by (auto simp: gl_ok_def)

end

lemma ob_step_inv:
  assumes dt: "decimal_text D" and mc: "money_column N" and inv: "ob_inv st" and st: "ob_step D N st st'"
  shows "ob_inv st'"
  using st
proof cases
  case (enqueue rid ob inp dry now ob' gl)
  have g: "gl_inv gl" "src_unique gl" using inv enqueue(1) by (simp_all add: ob_inv_def)
  note un = money_column.ledger_unchanged_or_step [OF mc g, of gl D]
  show ?thesis unfolding enqueue(2)
    by (rule ob_inv_rows [OF inv [unfolded enqueue(1)] _ _ _ _])
      (use enqueue inv un in \<open>auto simp: OutboxPostTx_def ob_inv_def split: if_splits\<close>)
next
  case (process r ob pid gl eid fault tok hdr now today uuidParse dry commits clk k ob' gl')
  have g: "gl_inv gl" "src_unique gl" and d: "distinct (map ob_id ob)"
    using inv process(1) by (simp_all add: ob_inv_def)
  let ?send = "ledger_send fault D N tok hdr pid eid now today" and ?c = "r\<lparr>ob_attempts := k\<rparr>"
  have step: "gl' = gl \<or> gl_step D N gl gl'" if "?send (post_body D inp) gl = (gl', rep)" for inp rep
    using ledger_send_step [OF that process(4,5) decimal_text.body_amounts_ok [OF dt]] .
  have keep: "ob_inv (ob', gl')"
    if gs: "gl' = gl \<or> gl_step D N gl gl'" and o: "ob' = ob \<or> (\<exists>e. ob' = recordFailure ?c e ob)"
  proof -
    note un = money_column.ledger_unchanged_or_step [OF mc g gs]
    have "distinct (map ob_id ob')"
      using o d update_outbox_ids by (auto simp: recordFailure_def)
    then show ?thesis
      by (intro ob_inv_rows [OF inv [unfolded process(1)] un])
        (use o inv process(1) in \<open>auto simp: recordFailure_def ob_inv_def update_outbox_def split: if_splits\<close>)
  qed
  show ?thesis unfolding process(2)
    using process(6)
  proof (cases rule: processRow_cases)
    case idle
    then show "ob_inv (ob', gl')" using keep by blast
  next
    case failed
    then show "ob_inv (ob', gl')" using keep step by blast
  next
    case (accepted inp code body je)
    have gs: "gl' = gl \<or> gl_step D N gl gl'" using step [OF accepted(2)] .
    show "ob_inv (ob', gl')"
    proof (cases "ob' = ob")
      case True
      then show ?thesis using keep gs by blast
    next
      case False
      with accepted(4) have o: "ob' = update_outbox (ob_id r) (stamp clk je) ob" by simp
      note un = money_column.ledger_unchanged_or_step [OF mc g gs]
      have del: "delivered gl' r"
        using ledger_send_ok [OF accepted(2,3)] rebuild_fields [OF accepted(1)] by (auto simp: delivered_def)
      have "distinct (map ob_id ob')" unfolding o using d by (subst update_outbox_ids) (simp_all add: stamp_def)
      then show ?thesis
      proof (rule ob_inv_rows [OF inv [unfolded process(1)] un])
        fix x
        assume x: "x \<in> set ob'"
        show "pq_source_module (ob_payload x) \<notin> {[], fy_module} \<and> (ob_dispatched_at x \<noteq> None \<longrightarrow>
          delivered gl' x \<or> (\<exists>y\<in>set ob. ob_payload y = ob_payload x \<and> ob_dispatched_at y \<noteq> None))"
          using update_outbox_mem [OF x [unfolded o]]
        proof
          assume "x \<in> set ob"
          then show ?thesis using inv process(1) by (auto simp: ob_inv_def)
        next
          assume "\<exists>y\<in>set ob. ob_id y = ob_id r \<and> x = stamp clk je y"
          then obtain y where y: "y \<in> set ob" "ob_id y = ob_id r" "x = stamp clk je y" by blast
          have "y = r" using row_unique [OF d y(1) process(3) y(2)] .
          then have "delivered gl' x" "ob_payload x = ob_payload r" using del y(3) by (simp_all add: stamp_def delivered_def)
          then show ?thesis using inv process(1,3) by (auto simp: ob_inv_def)
        qed
      qed
    qed
  qed
next
  case (replay ob rid ob' gl)
  have g: "gl_inv gl" "src_unique gl" using inv replay(1) by (simp_all add: ob_inv_def)
  note un = money_column.ledger_unchanged_or_step [OF mc g, of gl D]
  have d: "map ob_id ob' = map ob_id ob" using replay(3) by (auto simp: ReplayTx_def split: if_splits)
  show ?thesis unfolding replay(2)
    by (rule ob_inv_rows [OF inv [unfolded replay(1)]])
      (use replay inv un d in \<open>auto simp: ReplayTx_def ob_inv_def split: if_splits\<close>)
next
  case (ledger gl gl' ob)
  have g: "gl_inv gl" "src_unique gl" using inv ledger(1) by (simp_all add: ob_inv_def)
  note un = money_column.ledger_unchanged_or_step [OF mc g disjI2 [OF ledger(3)]]
  show ?thesis unfolding ledger(2)
    by (rule ob_inv_rows [OF inv [unfolded ledger(1)] un]) (use inv ledger(1) in \<open>auto simp: ob_inv_def\<close>)
qed

lemma ob_reachable:
  assumes dt: "decimal_text D" and mc: "money_column N" and ch: "chart_ok accts"
    and run: "(ob_step D N)\<^sup>*\<^sup>* ([], gl_init accts) st"
  shows "ob_inv st"
  using run
proof (induction rule: rtranclp_induct)
  case base
  show ?case using gl_init_inv [OF ch] by (simp add: ob_inv_def src_unique_def gl_init_def)
next
  case (step y z)
  then show ?case using ob_step_inv [OF dt mc] by blast
qed

text \<open>A run: a deposit is enqueued, its request reaches the ledger but the dispatcher's commit fails,
  and the second attempt finds the entry and stamps the row.\<close>

definition ex_client :: client_post_input where
  "ex_client = \<lparr> in_tenant_id = 1, in_entry_date = Some (Date 2025 3 10), in_value_date = None,
     in_source_module = ''savings'', in_source_ref = ''tx1'', in_narration = ''n'',
     in_lines = [\<lparr> pl_account_code = ''1000'', pl_debit = 201/2, pl_credit = 0, pl_narration = [] \<rparr>,
       \<lparr> pl_account_code = ''4000'', pl_debit = 0, pl_credit = 201/2, pl_narration = [] \<rparr>] \<rparr>"

definition ex_row0 :: outbox_row where
  "ex_row0 = \<lparr> ob_id = 5, ob_tenant_id = 1, ob_payload = ex_req1, ob_attempts = 0, ob_last_error = None,
     ob_enqueued_at = 100, ob_dispatched_at = None, ob_posted_je_id = None \<rparr>"

definition ex_row1 :: outbox_row where
  "ex_row1 = ex_row0\<lparr>ob_dispatched_at := Some 300\<rparr>"

lemma digit_chars: "digit 0 = CHR ''0''" "digit (Suc 0) = CHR ''1''" "digit 1 = CHR ''1''"
  "digit 2 = CHR ''2''" "digit 3 = CHR ''3''" "digit 5 = CHR ''5''"
  by (simp_all add: digit_def char_of_def bit_iff_odd)

lemma ex_fixed: "dFixed shop_decimal 2 (201/2) = ''100.50''"
proof -
  have "round_away ((201/2) * 10 ^ 2) = 10050" by (simp add: round_away_def floor_eq_iff)
  moreover have "show_nat 10050 = ''10050''" by (simp add: show_nat.simps digit_chars)
  then have "dec_fixed_abs 2 10050 = ''100.50''" by (simp add: dec_fixed_abs_def pad_left_def Let_def)
  ultimately show ?thesis by (simp add: shop_decimal_def dec_fixed_def Let_def)
qed

lemma ex_body: "post_body shop_decimal ex_client = ex_req1"
proof -
  have "show_nat 2025 = ''2025''" "show_nat 3 = ''3''" "show_nat 10 = ''10''"
    by (simp_all add: show_nat.simps digit_chars)
  then have "format_date (Date 2025 3 10) = ''2025-03-10''"
    by (simp add: format_date_def pad_left_def digit_chars)
  then show ?thesis
    by (simp add: post_body_def ex_client_def ex_req1_def ex_post_def ex_line_def line_dto_def fixed_amount_def ex_fixed)
qed

lemma ex_enqueue: "OutboxPostTx shop_decimal False [] 5 100 ex_client = Inr [ex_row0]"
  by (simp add: OutboxPostTx_def ex_row0_def ex_body) (simp add: ex_client_def)

lemma ex_client_ok: "lines_scaled2 (in_lines ex_client)" "date_ok (in_entry_date ex_client)"
  "date_ok (in_value_date ex_client)"
  by (simp_all add: ex_client_def lines_scaled2_def date_ok_def valid_date_def days_in_def)

text \<open>C40. What is put on the outbox is what the ledger reads: for dates of four-digit years and amounts
  of at most two decimals, the dispatcher rebuilds the client's input from the payload exactly, and
  the ledger's endpoint parses the request's lines back to the client's lines when none is negative
  and each has an account code.\<close>

theorem post_body_roundtrip:
  assumes "decimal_text D" and "lines_scaled2 (in_lines inp)"
    and "date_ok (in_entry_date inp)" and "date_ok (in_value_date inp)"
  shows "rebuild D (post_body D inp) = Inr inp \<and>
    ((\<forall>l\<in>set (in_lines inp). pl_account_code l \<noteq> [] \<and> 0 \<le> pl_debit l \<and> 0 \<le> pl_credit l) \<longrightarrow>
       parsePostLines D 0 (pq_lines (post_body D inp)) = Inr (in_lines inp)) \<and>
    req_amounts_ok D (pq_lines (post_body D inp))"
  using decimal_text.rebuild_body [OF assms] decimal_text.parsePostLines_dto [OF assms(1,2), of 0]
    decimal_text.body_amounts_ok [OF assms(1), of inp]
  by (simp add: post_body_def)

theorem post_body_roundtrip_witness: "rebuild shop_decimal ex_req1 = Inr ex_client"
  using post_body_roundtrip [OF shop.decimal_text_axioms ex_client_ok] by (simp add: ex_body)

lemma ex_rebuild: "rebuild shop_decimal ex_req1 = Inr ex_client"
  using shop.rebuild_body [OF ex_client_ok] by (simp add: ex_body)

lemma ex_lines2: "length (in_lines ex_client) = 2" "in_source_ref ex_client = ''tx1''"
  by (simp_all add: ex_client_def)

lemma ex_process1:
  "processRow (ledger_send NoFault shop_decimal ex_N [] [] 10 20 1000 (Date 2025 6 30)) (\<lambda>_. None)
     shop_decimal False False 200 [ex_row0] (gl_init ex_chart) (ex_row0\<lparr>ob_attempts := 0\<rparr>)
     = ([ex_row0], ex_gl1)"
  using ex_gl1_post
  by (simp add: processRow_def ex_row0_def ex_rebuild ClientPost_def ex_lines2 ex_body ledger_send_def post_reply_of_def)

lemma ex_post_again:
  "Post shop_decimal ex_N [] [] ex_gl1 11 21 2000 (Date 2025 6 30) ex_req1 = Inr (ex_gl1, Idempotent ex_entry1)"
proof -
  obtain v where v: "validate_post shop_decimal (Date 2025 6 30) ex_req1 = Inr v"
    by (rule Post_InrD [OF ex_gl1_post])
  have "find_posted ex_gl1 (pq_source_module ex_req1) (pq_source_ref ex_req1) = Some ex_entry1"
    by (simp add: find_posted_def ex_gl1_def ex_entry1_def ex_req1_def ex_post_def)
  with v show ?thesis by (simp add: Post_def)
qed

lemma ex_process2:
  "processRow (ledger_send NoFault shop_decimal ex_N [] [] 11 21 2000 (Date 2025 6 30)) (\<lambda>_. None)
     shop_decimal False True 300 [ex_row0] ex_gl1 (ex_row0\<lparr>ob_attempts := 0\<rparr>)
     = ([ex_row1], ex_gl1)"
  using ex_post_again
  by (simp add: processRow_def ex_row0_def ex_row1_def ex_rebuild ClientPost_def ex_lines2 ex_body
      ledger_send_def post_reply_of_def update_outbox_def)

lemma ex_ob_reach: "(ob_step shop_decimal ex_N)\<^sup>*\<^sup>* ([], gl_init ex_chart) ([ex_row1], ex_gl1)"
proof -
  have 1: "ob_step shop_decimal ex_N ([], gl_init ex_chart) ([ex_row0], gl_init ex_chart)"
    by (rule ob_step.enqueue [OF _ _ ex_enqueue]) (simp_all add: ex_client_def fy_module_def)
  have 2: "ob_step shop_decimal ex_N ([ex_row0], gl_init ex_chart) ([ex_row0], ex_gl1)"
    by (rule ob_step.process [OF _ _ _ ex_process1]) (simp_all add: gl_init_def)
  have 3: "ob_step shop_decimal ex_N ([ex_row0], ex_gl1) ([ex_row1], ex_gl1)"
    by (rule ob_step.process [OF _ _ _ ex_process2]) (simp_all add: ex_gl1_def ex_period_def ex_entry1_def)
  from 1 2 3 show ?thesis by (meson r_into_rtranclp rtranclp.rtrancl_into_rtrancl)
qed



text \<open>The back-off is measured from the time the row was enqueued and is at most one hour, so an
  hour after that every remaining attempt is due at once: from then on twelve attempts at one and
  the same instant leave the row dispatched, or with its attempts used up, in which case no later
  scan picks it.\<close>

theorem outbox_attempts_end:
  assumes "the_row rid ob = Some r" and "ob_dispatched_at r = None" and "ob_attempts r < maxAttempts"
    and "ob_enqueued_at r + hours 1 \<le> now"
  shows "pending_now now r \<and>
    (\<exists>ob' s' r'. (attempt_row send uuidParse D dry now rid ^^ 12) (ob, s) = (ob', s') \<and>
      the_row rid ob' = Some r' \<and>
      (ob_dispatched_at r' \<noteq> None \<or> (\<forall>later. r' \<notin> set (pickPending ob' later))))"
proof -
  obtain ob' s' where st: "(attempt_row send uuidParse D dry now rid ^^ 12) (ob, s) = (ob', s')" by force
  have due: "row_due now rid (ob, s)" using assms by (simp add: row_due_def backoffMaxUnit_def)
  then have "row_settled rid ((attempt_row send uuidParse D dry now rid ^^ 12) (ob, s))"
    by (rule outbox.settles) (simp add: maxAttempts_def)
  then obtain r' where r': "the_row rid ob' = Some r'" "ob_dispatched_at r' \<noteq> None \<or> maxAttempts \<le> ob_attempts r'"
    by (auto simp: row_settled_def st)
  have "r' \<notin> set (pickPending ob' later)" if "maxAttempts \<le> ob_attempts r'" for later
    using that by (auto simp: pickPending_def pending_now_def dest: in_set_takeD)
  then show ?thesis using due_pending [OF due] assms(1) st r' by auto
qed

theorem outbox_attempts_end_witness:
  "pending_now (hours 2) ex_row0"
  using outbox_attempts_end [of 5 "[ex_row0]" ex_row0 "hours 2" "\<lambda>_ s. (s, NoReply ''down'')" "\<lambda>_. None" shop_decimal False "()"]
  by (simp add: the_row_def ex_row0_def maxAttempts_def)

end
