(* ===== verification/FinanceStore.thy ===== *)
theory FinanceStore
  imports Outbox
begin

text \<open>
  The tables the finance executors read and write, the executors' inputs
  (services/finance/types/types.go) and their posting client
  (services/finance/posting/posting.go), for one tenant: row level security keeps every
  statement inside the tenant of the transaction.

  The record \<open>fin_env\<close> gathers what the statements take from outside: the decimal library, the
  coercion of a value to \<open>numeric(18,2)\<close>, the transaction's clock and the printing of a UUID
  (github.com/google/uuid). Ids are drawn from a supply kept in the state (\<open>gen_random_uuid()\<close>,
  \<open>uuid.New()\<close>). The random transaction numbers are not kept: nothing reads them back.
\<close>

text \<open>A \<open>time.Time\<close>: its UTC date and the nanoseconds of the day.\<close>

datatype go_time = GoTime (gt_date: date) (gt_nanos: int)

definition time_IsZero :: "go_time \<Rightarrow> bool" where
  "time_IsZero t \<longleftrightarrow> t = GoTime (Date 1 1 1) 0"

record fin_env =
  env_dec :: decimal_lib
  env_col :: "decimal \<Rightarrow> decimal"
  env_now :: instant
  env_time :: go_time
  env_uuid :: "uuid \<Rightarrow> string"

section \<open>Tables\<close>

record loan_row =
  ln_id :: uuid
  ln_loan_no :: string
  ln_counterparty_id :: uuid
  ln_status :: string
  ln_created_at :: instant
  ln_penalty_paid :: decimal
  ln_penalty_balance :: decimal
  ln_interest_paid :: decimal
  ln_interest_balance :: decimal
  ln_principal_repaid :: decimal
  ln_principal_balance :: decimal
  ln_fees_paid :: decimal
  ln_fees_balance :: decimal
  ln_last_repayment_at :: "instant option"

record deposit_row =
  da_id :: uuid
  da_account_no :: string
  da_counterparty_id :: uuid
  da_product_id :: uuid
  da_status :: string
  da_current_balance :: decimal
  da_available_balance :: decimal
  da_created_at :: instant
  da_last_activity_at :: "instant option"
  da_last_deposit_at :: "instant option"

record deposit_product =
  dp_id :: uuid
  dp_code :: string
  dp_segment :: string
  dp_product_type :: string

record fee_due_row =
  fd_id :: uuid
  fd_counterparty_id :: uuid
  fd_fee_code :: string
  fd_amount_due :: decimal
  fd_status :: string

record fee_entry =
  fe_code :: string
  fe_label :: string
  fe_gl_credit_code :: string

record loan_txn =
  lt_id :: uuid
  lt_loan_id :: uuid
  lt_counterparty_id :: uuid
  lt_amount :: decimal
  lt_principal :: decimal
  lt_interest :: decimal
  lt_fee :: decimal
  lt_penalty :: decimal
  lt_value_date :: date
  lt_channel :: string
  lt_channel_ref :: string
  lt_narration :: string
  lt_initiated_by :: uuid
  lt_external_ref :: string

record deposit_txn =
  dt_id :: uuid
  dt_account_id :: uuid
  dt_counterparty_id :: uuid
  dt_txn_type :: string
  dt_amount :: decimal
  dt_value_date :: date
  dt_channel :: string
  dt_channel_ref :: string
  dt_narration :: string
  dt_balance_after :: decimal
  dt_initiated_by :: uuid
  dt_external_ref :: string

record fin_db =
  fn_loans :: "loan_row list"
  fn_deposits :: "deposit_row list"
  fn_products :: "deposit_product list"
  fn_fees_due :: "fee_due_row list"
  fn_fee_catalog :: "fee_entry list"
  fn_loan_txns :: "loan_txn list"
  fn_deposit_txns :: "deposit_txn list"
  fn_outbox :: "outbox_row list"
  fn_supply :: uuid

section \<open>Inputs and results\<close>

record allocation =
  al_penalty :: decimal
  al_interest :: decimal
  al_principal :: decimal
  al_fees :: decimal

definition alloc_Total :: "allocation \<Rightarrow> decimal" where
  "alloc_Total a = al_penalty a + al_interest a + al_principal a + al_fees a"

definition alloc_zero :: allocation where
  "alloc_zero = \<lparr> al_penalty = 0, al_interest = 0, al_principal = 0, al_fees = 0 \<rparr>"

record repay_input =
  ri_tenant_id :: uuid
  ri_loan_id :: uuid
  ri_allocation :: allocation
  ri_channel :: string
  ri_channel_ref :: string
  ri_narration :: string
  ri_value_date :: go_time
  ri_initiated_by :: uuid
  ri_external_ref :: string

record deposit_input =
  di_tenant_id :: uuid
  di_account_id :: uuid
  di_amount :: decimal
  di_channel :: string
  di_channel_ref :: string
  di_narration :: string
  di_value_date :: go_time
  di_initiated_by :: uuid
  di_external_ref :: string

record opening_input =
  oi_tenant_id :: uuid
  oi_account_id :: uuid
  oi_counterparty_id :: uuid
  oi_amount :: decimal
  oi_channel :: string
  oi_channel_ref :: string
  oi_narration :: string
  oi_value_date :: go_time
  oi_initiated_by :: uuid
  oi_liability_code :: string

record fee_input =
  fi_tenant_id :: uuid
  fi_fee_code :: string
  fi_amount :: decimal
  fi_channel :: string
  fi_value_date :: go_time
  fi_external_ref :: string

record fin_result =
  fr_txn_id :: uuid
  fr_outbox_id :: uuid

datatype fin_error =
    FinRequired string
  | FinAmount string
  | FinNoLoan uuid
  | FinNoAccount uuid
  | FinStatus string
  | FinExceeds string decimal decimal
  | FinNonZeroBalance uuid decimal
  | FinConcurrent uuid
  | FinFeeCode string
  | FinPosting string
  | FinDb string

section \<open>The posting client\<close>

text \<open>A time that is not zero is written as its date.\<close>

definition body_date :: "go_time \<Rightarrow> date option" where
  "body_date t = (if time_IsZero t then None else Some (gt_date t))"

text \<open>The body is built as the savings client builds it (\<open>post_body\<close>).\<close>

definition FinPostTx ::
  "fin_env \<Rightarrow> client_post_input \<Rightarrow> 'a fin_db_scheme \<Rightarrow> fin_error + ('a fin_db_scheme \<times> uuid)" where
  "FinPostTx E inp db =
     (if length (in_lines inp) < 2
      then Inl (FinPosting ''finance/posting: at least two lines required'')
      else if in_source_module inp = [] \<or> in_source_ref inp = []
      then Inl (FinPosting ''finance/posting: source_module and source_ref required'')
      else Inr (db\<lparr>fn_outbox := fn_outbox db @ [\<lparr> ob_id = fn_supply db, ob_tenant_id = in_tenant_id inp,
                    ob_payload = post_body (env_dec E) inp, ob_attempts = 0, ob_last_error = None,
                    ob_enqueued_at = env_now E, ob_dispatched_at = None, ob_posted_je_id = None \<rparr>],
                  fn_supply := fn_supply db + 1\<rparr>, fn_supply db))"

end
