(* ===== verification/FinanceExecutors.thy ===== *)
theory FinanceExecutors
  imports FinanceStore
begin

text \<open>
  The finance executors (services/finance/executor/loan.go, deposit.go, fee.go,
  opening_deposit.go): each checks its input and the row it locks, moves the balance, writes
  the transaction row and queues one journal entry in the posting outbox. An error leaves no
  new tables: the caller's transaction rolls back.
\<close>

definition dot :: string where
  "dot = utf8 [32, 194, 183, 32]"

definition arrow :: string where
  "arrow = utf8 [32, 226, 134, 146, 32]"

definition value_date_of :: "fin_env \<Rightarrow> go_time \<Rightarrow> go_time" where
  "value_date_of E t = (if time_IsZero t then env_time E else t)"

definition src_ref :: "fin_env \<Rightarrow> string \<Rightarrow> uuid \<Rightarrow> string" where
  "src_ref E ext txn = (if ext \<noteq> [] then ext @ '':'' @ env_uuid E txn else env_uuid E txn)"

definition debit_line :: "string \<Rightarrow> decimal \<Rightarrow> string \<Rightarrow> post_line" where
  "debit_line code x narr = \<lparr> pl_account_code = code, pl_debit = x, pl_credit = 0, pl_narration = narr \<rparr>"

definition credit_line :: "string \<Rightarrow> decimal \<Rightarrow> string \<Rightarrow> post_line" where
  "credit_line code x narr = \<lparr> pl_account_code = code, pl_debit = 0, pl_credit = x, pl_narration = narr \<rparr>"

section \<open>Loan repayment\<close>

definition update_loan :: "uuid \<Rightarrow> (loan_row \<Rightarrow> loan_row) \<Rightarrow> 'a fin_db_scheme \<Rightarrow> 'a fin_db_scheme" where
  "update_loan lid f db = db\<lparr>fn_loans := map (\<lambda>l. if ln_id l = lid then f l else l) (fn_loans db)\<rparr>"

definition find_loan :: "'a fin_db_scheme \<Rightarrow> uuid \<Rightarrow> loan_row option" where
  "find_loan db lid = find (\<lambda>l. ln_id l = lid) (fn_loans db)"

definition apply_allocation :: "fin_env \<Rightarrow> allocation \<Rightarrow> loan_row \<Rightarrow> loan_row" where
  "apply_allocation E a l = l\<lparr>
     ln_penalty_paid := env_col E (ln_penalty_paid l + al_penalty a),
     ln_penalty_balance := env_col E (ln_penalty_balance l - al_penalty a),
     ln_interest_paid := env_col E (ln_interest_paid l + al_interest a),
     ln_interest_balance := env_col E (ln_interest_balance l - al_interest a),
     ln_principal_repaid := env_col E (ln_principal_repaid l + al_principal a),
     ln_principal_balance := env_col E (ln_principal_balance l - al_principal a),
     ln_fees_paid := env_col E (ln_fees_paid l + al_fees a),
     ln_fees_balance := env_col E (ln_fees_balance l - al_fees a),
     ln_last_repayment_at := Some (env_now E)\<rparr>"

definition credit_if :: "string \<Rightarrow> decimal \<Rightarrow> string \<Rightarrow> post_line list" where
  "credit_if code x narr = (if x = 0 then [] else [credit_line code x narr])"

definition repayment_lines :: "allocation \<Rightarrow> post_line list" where
  "repayment_lines a =
     debit_line ''1099'' (alloc_Total a) (''M-PESA clearing'' @ arrow @ ''loan repayment'') #
     credit_if ''1200'' (al_principal a) ''Loan principal'' @
     credit_if ''4100'' (al_interest a) ''Loan interest'' @
     credit_if ''4200'' (al_fees a) ''Loan fees'' @
     credit_if ''4250'' (al_penalty a) ''Loan penalty''"

definition postRepaymentGL ::
  "fin_env \<Rightarrow> repay_input \<Rightarrow> uuid \<Rightarrow> go_time \<Rightarrow> 'a fin_db_scheme \<Rightarrow> fin_error + ('a fin_db_scheme \<times> uuid)" where
  "postRepaymentGL E inp txn vd db = FinPostTx E
     \<lparr> in_tenant_id = ri_tenant_id inp, in_entry_date = body_date vd, in_value_date = body_date vd,
       in_source_module = ''finance.executor.repay_loan'', in_source_ref = src_ref E (ri_external_ref inp) txn,
       in_narration = ''Loan repayment'' @ dot @ ri_channel inp,
       in_lines = repayment_lines (ri_allocation inp) \<rparr> db"

definition repayable :: "string \<Rightarrow> bool" where
  "repayable st \<longleftrightarrow> st = ''active'' \<or> st = ''in_arrears'' \<or> st = ''restructured''"

definition allocation_fits :: "allocation \<Rightarrow> loan_row \<Rightarrow> fin_error + unit" where
  "allocation_fits a l =
     bind_res (ensure (al_penalty a \<le> ln_penalty_balance l)
       (FinExceeds ''penalty'' (al_penalty a) (ln_penalty_balance l))) (\<lambda>_.
     bind_res (ensure (al_interest a \<le> ln_interest_balance l)
       (FinExceeds ''interest'' (al_interest a) (ln_interest_balance l))) (\<lambda>_.
     bind_res (ensure (al_principal a \<le> ln_principal_balance l)
       (FinExceeds ''principal'' (al_principal a) (ln_principal_balance l))) (\<lambda>_.
     ensure (al_fees a \<le> ln_fees_balance l) (FinExceeds ''fees'' (al_fees a) (ln_fees_balance l)))))"

definition loan_txn_of :: "fin_env \<Rightarrow> repay_input \<Rightarrow> loan_row \<Rightarrow> go_time \<Rightarrow> uuid \<Rightarrow> loan_txn" where
  "loan_txn_of E inp l vd txn =
     (let a = ri_allocation inp in
      \<lparr> lt_id = txn, lt_loan_id = ri_loan_id inp, lt_counterparty_id = ln_counterparty_id l,
        lt_amount = env_col E (- alloc_Total a), lt_principal = env_col E (al_principal a),
        lt_interest = env_col E (al_interest a), lt_fee = env_col E (al_fees a),
        lt_penalty = env_col E (al_penalty a), lt_value_date = gt_date vd, lt_channel = ri_channel inp,
        lt_channel_ref = ri_channel_ref inp,
        lt_narration = (if ri_narration inp = [] then ''Repayment'' @ dot @ ri_channel inp else ri_narration inp),
        lt_initiated_by = ri_initiated_by inp, lt_external_ref = ri_external_ref inp \<rparr>)"

definition RepayLoanTx ::
  "fin_env \<Rightarrow> repay_input \<Rightarrow> 'a fin_db_scheme \<Rightarrow> fin_error + ('a fin_db_scheme \<times> fin_result)" where
  "RepayLoanTx E inp db =
     bind_res (ensure (ri_loan_id inp \<noteq> uuid_Nil \<and> ri_tenant_id inp \<noteq> uuid_Nil)
       (FinRequired ''tenant_id + loan_id'')) (\<lambda>_.
     bind_res (ensure (0 < alloc_Total (ri_allocation inp)) (FinAmount ''allocation must sum > 0'')) (\<lambda>_.
     case find_loan db (ri_loan_id inp) of
       None \<Rightarrow> Inl (FinNoLoan (ri_loan_id inp))
     | Some l \<Rightarrow>
         bind_res (ensure (repayable (ln_status l)) (FinStatus (ln_status l))) (\<lambda>_.
         bind_res (allocation_fits (ri_allocation inp) l) (\<lambda>_.
           let vd = value_date_of E (ri_value_date inp); txn = fn_supply db;
               db1 = update_loan (ri_loan_id inp) (apply_allocation E (ri_allocation inp)) db;
               db2 = db1\<lparr>fn_loan_txns := fn_loan_txns db1 @ [loan_txn_of E inp l vd txn],
                         fn_supply := txn + 1\<rparr>
           in bind_res (postRepaymentGL E inp txn vd db2) (\<lambda>(db3, ob).
                Inr (db3, \<lparr> fr_txn_id = txn, fr_outbox_id = ob \<rparr>))))))"

section \<open>Deposit\<close>

definition update_deposit :: "uuid \<Rightarrow> (deposit_row \<Rightarrow> deposit_row) \<Rightarrow> 'a fin_db_scheme \<Rightarrow> 'a fin_db_scheme" where
  "update_deposit aid f db = db\<lparr>fn_deposits := map (\<lambda>d. if da_id d = aid then f d else d) (fn_deposits db)\<rparr>"

definition find_deposit :: "'a fin_db_scheme \<Rightarrow> uuid \<Rightarrow> deposit_row option" where
  "find_deposit db aid = find (\<lambda>d. da_id d = aid) (fn_deposits db)"

definition find_product :: "'a fin_db_scheme \<Rightarrow> uuid \<Rightarrow> deposit_product option" where
  "find_product db pid = find (\<lambda>p. dp_id p = pid) (fn_products db)"

text \<open>
  \<open>UPDATE ... WHERE id = $1 AND current_balance = $3\<close>: both balances become the new balance, if
  exactly one row matched.
\<close>

definition bump_balance :: "fin_env \<Rightarrow> uuid \<Rightarrow> decimal \<Rightarrow> decimal \<Rightarrow> 'a fin_db_scheme
    \<Rightarrow> fin_error + 'a fin_db_scheme" where
  "bump_balance E aid new old db =
     (if length (filter (\<lambda>d. da_id d = aid \<and> da_current_balance d = old) (fn_deposits db)) \<noteq> 1
      then Inl (FinConcurrent aid)
      else Inr (update_deposit aid (\<lambda>d. if da_current_balance d = old
             then d\<lparr>da_current_balance := env_col E new, da_available_balance := env_col E new,
                    da_last_activity_at := Some (env_now E), da_last_deposit_at := Some (env_now E)\<rparr>
             else d) db))"

definition deposit_channels :: "string list" where
  "deposit_channels = [''cash'', ''mpesa'', ''airtel_money'', ''bank_transfer'', ''standing_order'',
     ''direct_debit'', ''payroll'', ''internal'']"

text \<open>The insert: the cast of the channel to its enumeration and the CHECK on the amount.\<close>

definition insert_deposit_txn :: "fin_env \<Rightarrow> deposit_txn \<Rightarrow> 'a fin_db_scheme \<Rightarrow> fin_error + 'a fin_db_scheme" where
  "insert_deposit_txn E t db =
     (if dt_channel t \<noteq> [] \<and> dt_channel t \<notin> set deposit_channels then Inl (FinDb ''deposit_channel'')
      else if env_col E (dt_amount t) = 0 then Inl (FinDb ''amount <> 0'')
      else Inr (db\<lparr>fn_deposit_txns := fn_deposit_txns db @
             [t\<lparr>dt_amount := env_col E (dt_amount t), dt_balance_after := env_col E (dt_balance_after t)\<rparr>],
             fn_supply := fn_supply db + 1\<rparr>))"

definition DepositTx ::
  "fin_env \<Rightarrow> deposit_input \<Rightarrow> 'a fin_db_scheme \<Rightarrow> fin_error + ('a fin_db_scheme \<times> fin_result)" where
  "DepositTx E inp db =
     bind_res (ensure (di_account_id inp \<noteq> uuid_Nil \<and> di_tenant_id inp \<noteq> uuid_Nil)
       (FinRequired ''tenant_id + account_id'')) (\<lambda>_.
     bind_res (ensure (0 < di_amount inp) (FinAmount ''deposit amount must be > 0'')) (\<lambda>_.
     case find_deposit db (di_account_id inp) of
       None \<Rightarrow> Inl (FinNoAccount (di_account_id inp))
     | Some d \<Rightarrow>
         bind_res (ensure (find_product db (da_product_id d) \<noteq> None) (FinNoAccount (di_account_id inp))) (\<lambda>_.
         bind_res (ensure (da_status d = ''active'') (FinStatus (da_status d))) (\<lambda>_.
         let new = da_current_balance d + di_amount inp; vd = value_date_of E (di_value_date inp) in
         bind_res (bump_balance E (di_account_id inp) new (da_current_balance d) db) (\<lambda>db1.
         let txn = fn_supply db1 in
         bind_res (insert_deposit_txn E
             \<lparr> dt_id = txn, dt_account_id = di_account_id inp, dt_counterparty_id = da_counterparty_id d,
               dt_txn_type = ''deposit'', dt_amount = di_amount inp, dt_value_date = gt_date vd,
               dt_channel = di_channel inp, dt_channel_ref = di_channel_ref inp,
               dt_narration = (if di_narration inp = [] then ''Deposit'' @ dot @ di_channel inp
                               else di_narration inp),
               dt_balance_after = new, dt_initiated_by = di_initiated_by inp,
               dt_external_ref = di_external_ref inp \<rparr> db1) (\<lambda>db2.
         bind_res (FinPostTx E
             \<lparr> in_tenant_id = di_tenant_id inp, in_entry_date = body_date vd, in_value_date = body_date vd,
               in_source_module = ''finance.executor.deposit'', in_source_ref = src_ref E (di_external_ref inp) txn,
               in_narration = ''Deposit'' @ dot @ di_channel inp,
               in_lines = [debit_line ''1099'' (di_amount inp) (''M-PESA clearing'' @ arrow @ ''savings''),
                           credit_line ''2000'' (di_amount inp) ''Member savings credit''] \<rparr> db2) (\<lambda>(db3, ob).
           Inr (db3, \<lparr> fr_txn_id = txn, fr_outbox_id = ob \<rparr>))))))))"

section \<open>Fees\<close>

text \<open>
  The write-back: every unpaid row of the fee code, whoever owes it. Its error is discarded.
\<close>

definition reduce_fee :: "fin_env \<Rightarrow> string \<Rightarrow> decimal \<Rightarrow> fee_due_row \<Rightarrow> fee_due_row" where
  "reduce_fee E code x r =
     (if fd_fee_code r = code \<and> fd_status r \<noteq> ''paid'' \<and> 0 < fd_amount_due r
      then r\<lparr>fd_amount_due := env_col E (max (fd_amount_due r - x) 0),
             fd_status := (if fd_amount_due r - x \<le> 0 then ''paid'' else ''partial'')\<rparr>
      else r)"

definition PostFeeTx ::
  "fin_env \<Rightarrow> fee_input \<Rightarrow> 'a fin_db_scheme \<Rightarrow> fin_error + ('a fin_db_scheme \<times> fin_result)" where
  "PostFeeTx E inp db =
     bind_res (ensure (fi_tenant_id inp \<noteq> uuid_Nil) (FinRequired ''tenant_id'')) (\<lambda>_.
     bind_res (ensure (fi_fee_code inp \<noteq> []) (FinRequired ''fee_code'')) (\<lambda>_.
     bind_res (ensure (0 < fi_amount inp) (FinAmount ''fee amount must be > 0'')) (\<lambda>_.
     case find (\<lambda>f. fe_code f = fi_fee_code inp) (fn_fee_catalog db) of
       None \<Rightarrow> Inl (FinFeeCode (fi_fee_code inp))
     | Some f \<Rightarrow>
         let db1 = db\<lparr>fn_fees_due := map (reduce_fee E (fi_fee_code inp) (fi_amount inp)) (fn_fees_due db),
                      fn_supply := fn_supply db + 1\<rparr>;
             vd = value_date_of E (fi_value_date inp); txn = fn_supply db
         in bind_res (FinPostTx E
             \<lparr> in_tenant_id = fi_tenant_id inp, in_entry_date = body_date vd, in_value_date = body_date vd,
               in_source_module = ''finance.executor.fee'',
               in_source_ref = (if fi_external_ref inp \<noteq> [] then fi_external_ref inp @ '':fee:'' @ fi_fee_code inp
                                else env_uuid E txn),
               in_narration = ''Fee'' @ dot @ fe_label f,
               in_lines = [debit_line ''1099'' (fi_amount inp) (''M-PESA clearing'' @ arrow @ ''fees''),
                           credit_line (fe_gl_credit_code f) (fi_amount inp) (fe_label f)] \<rparr> db1) (\<lambda>(db2, ob).
           Inr (db2, \<lparr> fr_txn_id = txn, fr_outbox_id = ob \<rparr>)))))"

section \<open>Opening deposit\<close>

definition to_lower :: "string \<Rightarrow> string" where
  "to_lower = map (\<lambda>c. if CHR ''A'' \<le> c \<and> c \<le> CHR ''Z'' then char_of (of_char c + 32 :: nat) else c)"

definition openingChannelCashAccount :: "string \<Rightarrow> string" where
  "openingChannelCashAccount channel =
     (let c = to_lower channel in
      if c = [] then ''1099''
      else if c = ''mpesa'' then ''1030''
      else if c = ''airtel_money'' then ''1040''
      else if c \<in> {''bank_transfer'', ''standing_order'', ''direct_debit'', ''payroll''} then ''1020''
      else if c = ''internal'' then ''2000''
      else ''1000'')"

definition openingLiabilityCodeForProduct :: "'a fin_db_scheme \<Rightarrow> uuid \<Rightarrow> string" where
  "openingLiabilityCodeForProduct db pid = (case find_product db pid of
     None \<Rightarrow> ''2000''
   | Some p \<Rightarrow>
       if dp_segment p = ''bosa'' then ''2050''
       else if dp_product_type p = ''ordinary'' then ''2000''
       else if dp_product_type p = ''holiday'' then ''2010''
       else if dp_product_type p = ''emergency'' then ''2020''
       else if dp_product_type p = ''goal'' then ''2030''
       else if dp_product_type p = ''junior'' then ''2040''
       else if dp_product_type p = ''fixed'' then ''2100''
       else if dp_product_type p = ''member_deposit'' then ''2050''
       else ''2000'')"

definition PostOpeningDepositTx ::
  "fin_env \<Rightarrow> opening_input \<Rightarrow> 'a fin_db_scheme \<Rightarrow> fin_error + ('a fin_db_scheme \<times> uuid)" where
  "PostOpeningDepositTx E inp db =
     bind_res (ensure (oi_account_id inp \<noteq> uuid_Nil \<and> oi_tenant_id inp \<noteq> uuid_Nil \<and>
         oi_counterparty_id inp \<noteq> uuid_Nil) (FinRequired ''tenant_id, account_id, counterparty_id'')) (\<lambda>_.
     bind_res (ensure (0 < oi_amount inp) (FinAmount ''opening deposit amount must be > 0'')) (\<lambda>_.
     case find_deposit db (oi_account_id inp) of
       None \<Rightarrow> Inl (FinNoAccount (oi_account_id inp))
     | Some d \<Rightarrow>
         bind_res (ensure (da_status d = ''active'') (FinStatus (da_status d))) (\<lambda>_.
         bind_res (ensure (da_current_balance d = 0)
           (FinNonZeroBalance (oi_account_id inp) (da_current_balance d))) (\<lambda>_.
         bind_res (bump_balance E (oi_account_id inp) (oi_amount inp) 0 db) (\<lambda>db1.
         let narr = (if oi_narration inp = [] then ''Opening deposit'' else oi_narration inp);
             vd = value_date_of E (oi_value_date inp); txn = fn_supply db1 in
         bind_res (insert_deposit_txn E
             \<lparr> dt_id = txn, dt_account_id = oi_account_id inp, dt_counterparty_id = oi_counterparty_id inp,
               dt_txn_type = ''opening_balance'', dt_amount = oi_amount inp, dt_value_date = gt_date vd,
               dt_channel = oi_channel inp, dt_channel_ref = oi_channel_ref inp, dt_narration = narr,
               dt_balance_after = oi_amount inp, dt_initiated_by = oi_initiated_by inp,
               dt_external_ref = [] \<rparr> db1) (\<lambda>db2.
         let liab = (if oi_liability_code inp = [] then openingLiabilityCodeForProduct db2 (da_product_id d)
                     else oi_liability_code inp) in
         bind_res (FinPostTx E
             \<lparr> in_tenant_id = oi_tenant_id inp, in_entry_date = body_date vd, in_value_date = body_date vd,
               in_source_module = ''savings.deposits.opening'', in_source_ref = env_uuid E txn,
               in_narration = narr,
               in_lines = [debit_line (openingChannelCashAccount (oi_channel inp)) (oi_amount inp) ''Opening cash leg'',
                           credit_line liab (oi_amount inp) ''Member savings credited (opening)''] \<rparr> db2)
           (\<lambda>(db3, ob). Inr (db3, txn))))))))"

end
