(* ===== verification/MpesaStore.thy ===== *)
theory MpesaStore
  imports FinanceExecutors WorkflowStore
begin

text \<open>
  The M-PESA service's tables and the reads the distribution engine and the resolver make
  (services/mpesa/internal/domain/types.go, internal/store/inbound_event_store.go,
  distribution_balances.go, resolver_lookups.go, distribution_run_store.go), for one tenant. The
  tables of the savings, member and workflow services it shares a database with are part of the
  state: \<open>mp_db\<close> extends the finance tables. A query without ORDER BY reads the rows in the order
  of the table.
\<close>

datatype inbound_status = InboundReceived | InboundDistributed | InboundFailed

datatype resolved_via =
    ViaMemberNo | ViaCPNumber | ViaLoanNo | ViaDepositAccountNo | ViaMSISDN | ViaUnallocated

datatype mp_error =
    MpNotFound
  | MpScanNull \<comment> \<open>a NULL column read into a Go string\<close>
  | MpInvalid string
  | MpReplay inbound_status
  | MpRequired string
  | MpOutbox string
  | MpApply string
  | MpFinance fin_error
  | MpWorkflow string
  | MpDb string

text \<open>The legs of a waterfall; a policy may name one the engine does not know.\<close>

datatype leg =
    LegFeesDue | LegLoanPenaltyDue | LegLoanInterestDue | LegLoanPrincipalDue | LegLoanFeesDue
  | LegBOSATopUp | LegFOSATopUp | LegUnknown string

record split =
  sp_leg :: leg
  sp_amount :: decimal
  sp_target_ref :: string
  sp_target_id :: "uuid option"

text \<open>An inbound event as the stores hand it to the engine, and its row.\<close>

record inbound_event =
  ie_id :: uuid
  ie_transaction_id :: string
  ie_transaction_time :: "go_time option"
  ie_amount :: string
  ie_msisdn :: string
  ie_bill_ref :: string
  ie_status :: inbound_status
  ie_resolved_member_id :: "uuid option"
  ie_resolved_via :: "resolved_via option"

record event_row =
  ev_id :: uuid
  ev_paybill_id :: uuid
  ev_shortcode :: string
  ev_transaction_id :: string
  ev_transaction_time :: "go_time option"
  ev_amount :: decimal
  ev_msisdn :: "string option"
  ev_bill_ref :: "string option"
  ev_status :: inbound_status
  ev_resolved_member_id :: "uuid option"
  ev_resolved_via :: "resolved_via option"
  ev_workflow_instance_id :: "uuid option"
  ev_received_at :: instant
  ev_attempts :: nat
  ev_error_text :: "mp_error option"
  ev_distribution_run_id :: "uuid option"
  ev_locked_by :: "uuid option"

datatype run_status = RunPending | RunPosted | RunFailed

record run_row =
  rn_id :: uuid
  rn_inbound_event_id :: uuid
  rn_splits :: "split list"
  rn_status :: run_status
  rn_cash_account_code :: string
  rn_clearing_account_code :: string
  rn_resolved_member_id :: "uuid option"
  rn_resolved_via :: "resolved_via option"
  rn_amount :: decimal
  rn_posting_journal_id :: "uuid option"

record paybill =
  pb_id :: uuid
  pb_tenant_id :: uuid
  pb_label :: string
  pb_shortcode :: string
  pb_strict_validation :: bool
  pb_allow_msisdn_fallback :: bool
  pb_webhook_token :: string

record member_row =
  mm_member_no :: string
  mm_counterparty_id :: "uuid option"

record counterparty_row =
  cp_id :: uuid
  cp_number :: string
  cp_phone :: string

record mp_db = fin_db +
  mp_events :: "event_row list"
  mp_runs :: "run_row list"
  mp_paybills :: "paybill list"
  mp_members :: "member_row list"
  mp_counterparties :: "counterparty_row list"
  mp_wf :: wf_db

section \<open>Inbound events\<close>

definition nullIfEmpty :: "string \<Rightarrow> string option" where
  "nullIfEmpty s = (if s = [] then None else Some s)"

text \<open>
  The scan of a row: the amount column as text, and no NULL fits into the Go strings for the
  phone number and the bill reference.
\<close>

definition scan_event :: "decimal_lib \<Rightarrow> event_row \<Rightarrow> mp_error + inbound_event" where
  "scan_event D r = (case (ev_msisdn r, ev_bill_ref r) of
     (Some ms, Some br) \<Rightarrow> Inr \<lparr> ie_id = ev_id r, ie_transaction_id = ev_transaction_id r,
       ie_transaction_time = ev_transaction_time r, ie_amount = dFixed D 2 (ev_amount r), ie_msisdn = ms,
       ie_bill_ref = br, ie_status = ev_status r, ie_resolved_member_id = ev_resolved_member_id r,
       ie_resolved_via = ev_resolved_via r \<rparr>
   | _ \<Rightarrow> Inl MpScanNull)"

definition find_event :: "'a mp_db_scheme \<Rightarrow> uuid \<Rightarrow> event_row option" where
  "find_event db eid = find (\<lambda>r. ev_id r = eid) (mp_events db)"

definition update_event :: "uuid \<Rightarrow> (event_row \<Rightarrow> event_row) \<Rightarrow> 'a mp_db_scheme \<Rightarrow> 'a mp_db_scheme" where
  "update_event eid f db = db\<lparr>mp_events := map (\<lambda>r. if ev_id r = eid then f r else r) (mp_events db)\<rparr>"

definition EventByIDTx :: "decimal_lib \<Rightarrow> 'a mp_db_scheme \<Rightarrow> uuid \<Rightarrow> mp_error + inbound_event" where
  "EventByIDTx D db eid = (case find_event db eid of None \<Rightarrow> Inl MpNotFound | Some r \<Rightarrow> scan_event D r)"

record record_input =
  re_paybill_id :: uuid
  re_shortcode :: string
  re_transaction_id :: string
  re_transaction_time :: "go_time option"
  re_amount :: string
  re_msisdn :: string
  re_bill_ref :: string

text \<open>
  \<open>RecordTx\<close>: a receipt seen before is returned as it is; a new one is inserted. The amount goes
  through the column's reading of text, \<open>env_numeric\<close>. A row that does not scan is an error, and
  then the insert rolls back.
\<close>

definition RecordTx ::
  "fin_env \<Rightarrow> (string \<Rightarrow> decimal option) \<Rightarrow> 'a mp_db_scheme \<Rightarrow> record_input
    \<Rightarrow> mp_error + ('a mp_db_scheme \<times> inbound_event \<times> bool)" where
  "RecordTx E numeric db inp =
     (case find (\<lambda>r. ev_transaction_id r = re_transaction_id inp) (mp_events db) of
        Some r \<Rightarrow> bind_res (scan_event (env_dec E) r) (\<lambda>e. Inr (db, e, False))
      | None \<Rightarrow>
          (case numeric (re_amount inp) of
             None \<Rightarrow> Inl (MpDb ''invalid input syntax for type numeric'')
           | Some x \<Rightarrow>
               let r = \<lparr> ev_id = fn_supply db, ev_paybill_id = re_paybill_id inp, ev_shortcode = re_shortcode inp,
                     ev_transaction_id = re_transaction_id inp, ev_transaction_time = re_transaction_time inp,
                     ev_amount = x, ev_msisdn = nullIfEmpty (re_msisdn inp),
                     ev_bill_ref = nullIfEmpty (re_bill_ref inp), ev_status = InboundReceived,
                     ev_resolved_member_id = None, ev_resolved_via = None, ev_workflow_instance_id = None,
                     ev_received_at = env_now E, ev_attempts = 0, ev_error_text = None,
                     ev_distribution_run_id = None, ev_locked_by = None \<rparr>
               in bind_res (scan_event (env_dec E) r) (\<lambda>e.
                    Inr (db\<lparr>mp_events := mp_events db @ [r], fn_supply := fn_supply db + 1\<rparr>, e, True))))"

definition UpdateResolutionTx ::
  "'a mp_db_scheme \<Rightarrow> uuid \<Rightarrow> uuid option \<Rightarrow> resolved_via \<Rightarrow> uuid option \<Rightarrow> mp_error + 'a mp_db_scheme" where
  "UpdateResolutionTx db eid mid via wfid =
     (if find_event db eid = None then Inl MpNotFound
      else Inr (update_event eid (\<lambda>r. r\<lparr>ev_resolved_member_id := mid, ev_resolved_via := Some via,
             ev_workflow_instance_id := wfid\<rparr>) db))"

section \<open>Balances\<close>

record loan_components =
  lc_loan_id :: uuid
  lc_loan_no :: string
  lc_penalty :: decimal
  lc_interest :: decimal
  lc_principal :: decimal
  lc_fees :: decimal

definition AnyOutstanding :: "loan_components \<Rightarrow> bool" where
  "AnyOutstanding lc \<longleftrightarrow> lc_penalty lc \<noteq> 0 \<or> lc_interest lc \<noteq> 0 \<or> lc_principal lc \<noteq> 0 \<or> lc_fees lc \<noteq> 0"

record deposit_account =
  dt_acct_id :: uuid
  dt_account_no :: string
  dt_product_code :: string

definition components_of :: "loan_row \<Rightarrow> loan_components" where
  "components_of l = \<lparr> lc_loan_id = ln_id l, lc_loan_no = ln_loan_no l, lc_penalty = ln_penalty_balance l,
     lc_interest = ln_interest_balance l, lc_principal = ln_principal_balance l, lc_fees = ln_fees_balance l \<rparr>"

definition PrimaryActiveLoanTx :: "'a mp_db_scheme \<Rightarrow> uuid \<Rightarrow> mp_error + loan_components" where
  "PrimaryActiveLoanTx db cp =
     (case sort_key ln_created_at (filter (\<lambda>l. ln_counterparty_id l = cp \<and>
             (ln_status l = ''active'' \<or> ln_status l = ''in_arrears'')) (fn_loans db)) of
        [] \<Rightarrow> Inl MpNotFound
      | l # _ \<Rightarrow> Inr (components_of l))"

definition LoanByNoTx :: "'a mp_db_scheme \<Rightarrow> string \<Rightarrow> mp_error + loan_components" where
  "LoanByNoTx db no =
     (if TrimSpace no = [] then Inl MpNotFound
      else case find (\<lambda>l. ln_loan_no l = no) (fn_loans db) of
          None \<Rightarrow> Inl MpNotFound | Some l \<Rightarrow> Inr (components_of l))"

text \<open>The join of an account with its product.\<close>

definition account_of :: "'a fin_db_scheme \<Rightarrow> deposit_row \<Rightarrow> deposit_account option" where
  "account_of db d = map_option (\<lambda>p. \<lparr> dt_acct_id = da_id d, dt_account_no = da_account_no d,
     dt_product_code = dp_code p \<rparr>) (find_product db (da_product_id d))"

definition DepositAccountsTx :: "'a mp_db_scheme \<Rightarrow> uuid \<Rightarrow> mp_error + deposit_account list" where
  "DepositAccountsTx db cp = Inr (List.map_filter (account_of db)
     (sort_key da_created_at (filter (\<lambda>d. da_counterparty_id d = cp \<and> da_status d = ''active'') (fn_deposits db))))"

definition DepositAccountByNoTx :: "'a mp_db_scheme \<Rightarrow> string \<Rightarrow> mp_error + deposit_account" where
  "DepositAccountByNoTx db no =
     (if TrimSpace no = [] then Inl MpNotFound
      else case List.map_filter (account_of db) (filter (\<lambda>d. da_account_no d = no) (fn_deposits db)) of
          [] \<Rightarrow> Inl MpNotFound | a # _ \<Rightarrow> Inr a)"

definition FeesDueTx :: "'a mp_db_scheme \<Rightarrow> uuid \<Rightarrow> mp_error + decimal" where
  "FeesDueTx db cp = Inr (sum_list (map fd_amount_due (filter (\<lambda>r. fd_counterparty_id r = cp \<and>
     (fd_status r = ''open'' \<or> fd_status r = ''partial'') \<and> 0 < fd_amount_due r) (fn_fees_due db))))"

section \<open>Lookups\<close>

definition orNotFound :: "'a option \<Rightarrow> mp_error + 'a" where
  "orNotFound x = (case x of None \<Rightarrow> Inl MpNotFound | Some y \<Rightarrow> Inr y)"

text \<open>A NULL counterparty scans into the nil UUID.\<close>

definition ByMemberNoTx :: "'a mp_db_scheme \<Rightarrow> string \<Rightarrow> mp_error + uuid" where
  "ByMemberNoTx db no = (if TrimSpace no = [] then Inl MpNotFound
     else orNotFound (map_option (\<lambda>m. the_default uuid_Nil (mm_counterparty_id m))
       (find (\<lambda>m. mm_member_no m = no) (mp_members db))))"

definition ByCPNumberTx :: "'a mp_db_scheme \<Rightarrow> string \<Rightarrow> mp_error + uuid" where
  "ByCPNumberTx db no = (if TrimSpace no = [] then Inl MpNotFound
     else orNotFound (map_option cp_id (find (\<lambda>c. cp_number c = no) (mp_counterparties db))))"

definition ByLoanNoTx :: "'a mp_db_scheme \<Rightarrow> string \<Rightarrow> mp_error + uuid" where
  "ByLoanNoTx db no = (if TrimSpace no = [] then Inl MpNotFound
     else orNotFound (map_option ln_counterparty_id (find (\<lambda>l. ln_loan_no l = no) (fn_loans db))))"

definition ByDepositAccountNoTx :: "'a mp_db_scheme \<Rightarrow> string \<Rightarrow> mp_error + uuid" where
  "ByDepositAccountNoTx db no = (if TrimSpace no = [] then Inl MpNotFound
     else orNotFound (map_option da_counterparty_id (find (\<lambda>d. da_account_no d = no) (fn_deposits db))))"

definition TrimPrefix :: "string \<Rightarrow> string \<Rightarrow> string" where
  "TrimPrefix s p = (if take (length p) s = p then drop (length p) s else s)"

definition MsisdnDigits :: "string \<Rightarrow> string" where
  "MsisdnDigits s =
     (let digits = TrimPrefix (TrimPrefix (filter is_digit s) ''254'') ''0''
      in if length digits < 9 then [] else digits)"

text \<open>SQL's \<open>right(s, n)\<close> and Go's slice from the end.\<close>

definition last_chars :: "nat \<Rightarrow> string \<Rightarrow> string" where
  "last_chars n s = drop (length s - n) s"

definition ByMSISDNTx :: "'a mp_db_scheme \<Rightarrow> string \<Rightarrow> mp_error + uuid" where
  "ByMSISDNTx db msisdn =
     (let normalized = MsisdnDigits msisdn
      in if normalized = [] then Inl MpNotFound
         else orNotFound (map_option cp_id
           (find (\<lambda>c. last_chars 9 (filter is_digit (cp_phone c)) = last_chars 9 normalized)
             (mp_counterparties db))))"

section \<open>Runs and the distributor's writes\<close>

record create_run_input =
  cri_tenant_id :: uuid
  cri_inbound_event_id :: uuid
  cri_resolved_member_id :: "uuid option"
  cri_resolved_via :: "resolved_via option"
  cri_amount :: decimal
  cri_splits :: "split list"
  cri_cash_account_code :: string
  cri_clearing_account_code :: string

definition CreateRunTx ::
  "fin_env \<Rightarrow> 'a mp_db_scheme \<Rightarrow> create_run_input \<Rightarrow> mp_error + ('a mp_db_scheme \<times> uuid)" where
  "CreateRunTx E db inp =
     (if cri_tenant_id inp = uuid_Nil \<or> cri_inbound_event_id inp = uuid_Nil
      then Inl (MpRequired ''tenant_id + inbound_event_id'')
      else Inr (db\<lparr>mp_runs := mp_runs db @ [\<lparr> rn_id = fn_supply db,
             rn_inbound_event_id = cri_inbound_event_id inp, rn_splits = cri_splits inp, rn_status = RunPending,
             rn_cash_account_code = cri_cash_account_code inp,
             rn_clearing_account_code = cri_clearing_account_code inp,
             rn_resolved_member_id = cri_resolved_member_id inp, rn_resolved_via = cri_resolved_via inp,
             rn_amount = env_col E (cri_amount inp), rn_posting_journal_id = None \<rparr>],
           fn_supply := fn_supply db + 1\<rparr>, fn_supply db))"

definition update_run :: "uuid \<Rightarrow> (run_row \<Rightarrow> run_row) \<Rightarrow> 'a mp_db_scheme \<Rightarrow> 'a mp_db_scheme" where
  "update_run rid f db = db\<lparr>mp_runs := map (\<lambda>r. if rn_id r = rid then f r else r) (mp_runs db)\<rparr>"

definition MarkRunPostedTx :: "'a mp_db_scheme \<Rightarrow> uuid \<Rightarrow> uuid option \<Rightarrow> mp_error + 'a mp_db_scheme" where
  "MarkRunPostedTx db rid ref =
     (if \<not> (\<exists>r\<in>set (mp_runs db). rn_id r = rid) then Inl MpNotFound
      else Inr (update_run rid (\<lambda>r. r\<lparr>rn_status := RunPosted, rn_posting_journal_id := ref\<rparr>) db))"

definition MarkRunFailedTx :: "'a mp_db_scheme \<Rightarrow> uuid \<Rightarrow> mp_error + 'a mp_db_scheme" where
  "MarkRunFailedTx db rid =
     (if \<not> (\<exists>r\<in>set (mp_runs db). rn_id r = rid) then Inl MpNotFound
      else Inr (update_run rid (\<lambda>r. r\<lparr>rn_status := RunFailed\<rparr>) db))"

text \<open>The oldest received event with attempts left, among the rows no other worker holds.\<close>

definition LeaseNextTx :: "uuid set \<Rightarrow> uuid \<Rightarrow> 'a mp_db_scheme \<Rightarrow> mp_error + ('a mp_db_scheme \<times> uuid)" where
  "LeaseNextTx held worker db =
     (case sort_key ev_received_at (filter (\<lambda>r. ev_status r = InboundReceived \<and> ev_attempts r < 6 \<and>
             ev_id r \<notin> held) (mp_events db)) of
        [] \<Rightarrow> Inl MpNotFound
      | r # _ \<Rightarrow> Inr (update_event (ev_id r) (\<lambda>r. r\<lparr>ev_locked_by := Some worker\<rparr>) db, ev_id r))"

definition MarkDistributedTx :: "'a mp_db_scheme \<Rightarrow> uuid \<Rightarrow> uuid \<Rightarrow> mp_error + 'a mp_db_scheme" where
  "MarkDistributedTx db eid rid =
     (if find_event db eid = None then Inl MpNotFound
      else Inr (update_event eid (\<lambda>r. r\<lparr>ev_status := InboundDistributed, ev_distribution_run_id := Some rid,
             ev_error_text := None, ev_locked_by := None\<rparr>) db))"

definition RecordAttemptFailureTx ::
  "'a mp_db_scheme \<Rightarrow> uuid \<Rightarrow> mp_error \<Rightarrow> mp_error + ('a mp_db_scheme \<times> nat)" where
  "RecordAttemptFailureTx db eid err =
     (case find_event db eid of
        None \<Rightarrow> Inl MpNotFound
      | Some r \<Rightarrow> Inr (update_event eid (\<lambda>r. r\<lparr>ev_attempts := ev_attempts r + 1, ev_error_text := Some err,
             ev_locked_by := None\<rparr>) db, ev_attempts r + 1))"

definition MarkEventFailedTx :: "'a mp_db_scheme \<Rightarrow> uuid \<Rightarrow> mp_error + 'a mp_db_scheme" where
  "MarkEventFailedTx db eid =
     (if find_event db eid = None then Inl MpNotFound
      else Inr (update_event eid (\<lambda>r. r\<lparr>ev_status := InboundFailed, ev_locked_by := None\<rparr>) db))"

end
