(* ===== verification/MpesaEngine.thy ===== *)
theory MpesaEngine
  imports MpesaStore
begin

text \<open>
  The resolver (services/mpesa/internal/distribution/resolver.go), which matches a payment's
  reference to a member, and the engine (engine.go), which plans how the amount is split. Both
  work over an interface of reads, the records \<open>lookups\<close> and \<open>balances\<close>; the stores'
  implementations are \<open>db_lookups\<close> and \<open>db_balances\<close>.
\<close>

section \<open>The resolver\<close>

record lookups =
  lk_member_no :: "string \<Rightarrow> mp_error + uuid"
  lk_cp_number :: "string \<Rightarrow> mp_error + uuid"
  lk_loan_no :: "string \<Rightarrow> mp_error + uuid"
  lk_deposit_account_no :: "string \<Rightarrow> mp_error + uuid"
  lk_msisdn :: "string \<Rightarrow> mp_error + uuid"

definition db_lookups :: "'a mp_db_scheme \<Rightarrow> lookups" where
  "db_lookups db = \<lparr> lk_member_no = ByMemberNoTx db, lk_cp_number = ByCPNumberTx db,
     lk_loan_no = ByLoanNoTx db, lk_deposit_account_no = ByDepositAccountNoTx db, lk_msisdn = ByMSISDNTx db \<rparr>"

record decision =
  dc_member_id :: uuid
  dc_via :: resolved_via

record resolve_input =
  rv_bill_ref :: string
  rv_msisdn :: string
  rv_allow_msisdn_fallback :: bool

definition tryLookup :: "(string \<Rightarrow> mp_error + uuid) \<Rightarrow> string \<Rightarrow> mp_error + uuid" where
  "tryLookup f key = (if key = [] then Inl MpNotFound else f key)"

definition isMiss :: "mp_error + uuid \<Rightarrow> bool" where
  "isMiss r \<longleftrightarrow> r = Inl MpNotFound"

definition decided :: "resolved_via \<Rightarrow> mp_error + uuid \<Rightarrow> mp_error + decision" where
  "decided via r = bind_res r (\<lambda>u. Inr \<lparr> dc_member_id = u, dc_via = via \<rparr>)"

definition Resolve :: "lookups \<Rightarrow> resolve_input \<Rightarrow> mp_error + decision" where
  "Resolve look inp =
     (let r1 = tryLookup (lk_member_no look) (rv_bill_ref inp) in
      if \<not> isMiss r1 then decided ViaMemberNo r1 else
      let r2 = tryLookup (lk_cp_number look) (rv_bill_ref inp) in
      if \<not> isMiss r2 then decided ViaCPNumber r2 else
      let r3 = tryLookup (lk_loan_no look) (rv_bill_ref inp) in
      if \<not> isMiss r3 then decided ViaLoanNo r3 else
      let r4 = tryLookup (lk_deposit_account_no look) (rv_bill_ref inp) in
      if \<not> isMiss r4 then decided ViaDepositAccountNo r4 else
      if rv_allow_msisdn_fallback inp then
        let r5 = tryLookup (lk_msisdn look) (rv_msisdn inp) in
        if \<not> isMiss r5 then decided ViaMSISDN r5
        else Inr \<lparr> dc_member_id = uuid_Nil, dc_via = ViaUnallocated \<rparr>
      else Inr \<lparr> dc_member_id = uuid_Nil, dc_via = ViaUnallocated \<rparr>)"

section \<open>The engine\<close>

record balances =
  bl_primary_active_loan :: "uuid \<Rightarrow> mp_error + loan_components"
  bl_loan_by_no :: "string \<Rightarrow> mp_error + loan_components"
  bl_deposit_accounts :: "uuid \<Rightarrow> mp_error + deposit_account list"
  bl_deposit_account_by_no :: "string \<Rightarrow> mp_error + deposit_account"
  bl_fees_due :: "uuid \<Rightarrow> mp_error + decimal"

definition db_balances :: "'a mp_db_scheme \<Rightarrow> balances" where
  "db_balances db = \<lparr> bl_primary_active_loan = PrimaryActiveLoanTx db, bl_loan_by_no = LoanByNoTx db,
     bl_deposit_accounts = DepositAccountsTx db, bl_deposit_account_by_no = DepositAccountByNoTx db,
     bl_fees_due = FeesDueTx db \<rparr>"

definition DefaultWaterfall :: "leg list" where
  "DefaultWaterfall = [LegFeesDue, LegLoanPenaltyDue, LegLoanInterestDue, LegLoanPrincipalDue, LegLoanFeesDue,
     LegBOSATopUp, LegFOSATopUp]"

record plan =
  pn_event_id :: uuid
  pn_amount :: decimal
  pn_splits :: "split list"
  pn_leftover :: decimal

definition decMin :: "decimal \<Rightarrow> decimal \<Rightarrow> decimal" where
  "decMin a b = (if a < b then a else b)"

definition isFOSA :: "string \<Rightarrow> bool" where
  "isFOSA code \<longleftrightarrow> \<not> length code < 4 \<and> (take 4 code = ''FOSA'' \<or> take 4 code = ''fosa'')"

text \<open>The loop of \<open>pickDepositTargets\<close> with its two results so far.\<close>

definition pick_target ::
  "deposit_account \<Rightarrow> deposit_account option \<times> deposit_account option
    \<Rightarrow> deposit_account option \<times> deposit_account option" where
  "pick_target a bf = (case bf of (bosa, fosa) \<Rightarrow>
     if isFOSA (dt_product_code a) \<and> fosa = None then (bosa, Some a)
     else if bosa = None then (Some a, fosa)
     else (bosa, fosa))"

definition pickDepositTargets :: "deposit_account list \<Rightarrow> deposit_account option \<times> deposit_account option" where
  "pickDepositTargets accounts = fold pick_target accounts (None, None)"

definition loan_leg :: "decimal \<Rightarrow> loan_components option \<Rightarrow> (loan_components \<Rightarrow> decimal)
    \<Rightarrow> decimal \<times> string \<times> uuid option" where
  "loan_leg remaining loan bal = (case loan of
     None \<Rightarrow> (0, [], None)
   | Some lc \<Rightarrow> (decMin remaining (bal lc), lc_loan_no lc, Some (lc_loan_id lc)))"

definition planLeg ::
  "leg \<Rightarrow> decimal \<Rightarrow> bool \<Rightarrow> decimal \<Rightarrow> loan_components option \<Rightarrow> deposit_account option
    \<Rightarrow> deposit_account option \<Rightarrow> decimal \<times> string \<times> uuid option" where
  "planLeg lg remaining isLast fees loan bosa fosa = (case lg of
     LegFeesDue \<Rightarrow> (decMin remaining fees, ''fees_due'', None)
   | LegLoanPenaltyDue \<Rightarrow> loan_leg remaining loan lc_penalty
   | LegLoanInterestDue \<Rightarrow> loan_leg remaining loan lc_interest
   | LegLoanPrincipalDue \<Rightarrow> loan_leg remaining loan lc_principal
   | LegLoanFeesDue \<Rightarrow> loan_leg remaining loan lc_fees
   | LegBOSATopUp \<Rightarrow> (case bosa of
       None \<Rightarrow> (0, [], None)
     | Some b \<Rightarrow> (if \<not> isLast \<and> fosa \<noteq> None then 0 else remaining, dt_account_no b, Some (dt_acct_id b)))
   | LegFOSATopUp \<Rightarrow> (case fosa of
       None \<Rightarrow> (case bosa of
           None \<Rightarrow> (0, [], None)
         | Some b \<Rightarrow> if isLast then (remaining, dt_account_no b, Some (dt_acct_id b)) else (0, [], None))
     | Some f \<Rightarrow> (remaining, dt_account_no f, Some (dt_acct_id f)))
   | LegUnknown _ \<Rightarrow> (0, [], None))"

text \<open>The waterfall's loop: the splits it appends and what remains after it.\<close>

fun walk ::
  "decimal \<Rightarrow> loan_components option \<Rightarrow> deposit_account option \<Rightarrow> deposit_account option
    \<Rightarrow> leg list \<Rightarrow> decimal \<Rightarrow> split list \<times> decimal" where
  "walk fees loan bosa fosa [] remaining = ([], remaining)"
| "walk fees loan bosa fosa (lg # legs) remaining =
     (case planLeg lg remaining (legs = []) fees loan bosa fosa of (amt, ref, tid) \<Rightarrow>
        if amt = 0 then walk fees loan bosa fosa legs remaining
        else (let s = \<lparr> sp_leg = lg, sp_amount = amt, sp_target_ref = ref, sp_target_id = tid \<rparr>;
                  rest = remaining - amt
              in if rest = 0 then ([s], rest)
                 else case walk fees loan bosa fosa legs rest of (ss, left) \<Rightarrow> (s # ss, left)))"

definition runWaterfall :: "balances \<Rightarrow> uuid \<Rightarrow> decimal \<Rightarrow> leg list \<Rightarrow> plan \<Rightarrow> mp_error + plan" where
  "runWaterfall B cp amount waterfall0 pln =
     (let waterfall = (if waterfall0 = [] then DefaultWaterfall else waterfall0) in
      bind_res (case bl_primary_active_loan B cp of
                  Inr l \<Rightarrow> Inr (Some l)
                | Inl e \<Rightarrow> if e = MpNotFound then Inr None else Inl e) (\<lambda>loan.
      bind_res (bl_deposit_accounts B cp) (\<lambda>deposits.
      bind_res (bl_fees_due B cp) (\<lambda>fees.
        case pickDepositTargets deposits of (bosa, fosa) \<Rightarrow>
        case walk fees loan bosa fosa waterfall amount of (splits, left) \<Rightarrow>
          Inr (pln\<lparr>pn_splits := splits, pn_leftover := left\<rparr>)))))"

text \<open>The loop over the components of a loan the payer named.\<close>

fun walk_loan :: "loan_components \<Rightarrow> (leg \<times> decimal) list \<Rightarrow> decimal \<Rightarrow> split list" where
  "walk_loan lc [] remaining =
     (if 0 < remaining
      then [\<lparr> sp_leg = LegLoanPrincipalDue, sp_amount = remaining, sp_target_ref = lc_loan_no lc,
              sp_target_id = Some (lc_loan_id lc) \<rparr>]
      else [])"
| "walk_loan lc ((lg, bal) # legs) remaining =
     (let amt = decMin remaining bal in
      if amt = 0 then walk_loan lc legs remaining
      else (let s = \<lparr> sp_leg = lg, sp_amount = amt, sp_target_ref = lc_loan_no lc,
                      sp_target_id = Some (lc_loan_id lc) \<rparr>;
                rest = remaining - amt
            in if rest = 0 then [s] else s # walk_loan lc legs rest))"

definition runDirectLoan :: "balances \<Rightarrow> inbound_event \<Rightarrow> decimal \<Rightarrow> plan \<Rightarrow> mp_error + plan" where
  "runDirectLoan B event amount pln =
     (case bl_loan_by_no B (ie_bill_ref event) of
        Inl e \<Rightarrow> if e = MpNotFound then Inr (pln\<lparr>pn_leftover := amount\<rparr>) else Inl e
      | Inr lc \<Rightarrow> Inr (pln\<lparr>pn_splits := walk_loan lc [(LegLoanPenaltyDue, lc_penalty lc),
            (LegLoanInterestDue, lc_interest lc), (LegLoanPrincipalDue, lc_principal lc),
            (LegLoanFeesDue, lc_fees lc)] amount\<rparr>))"

definition runDirectDeposit :: "balances \<Rightarrow> inbound_event \<Rightarrow> decimal \<Rightarrow> plan \<Rightarrow> mp_error + plan" where
  "runDirectDeposit B event amount pln =
     (case bl_deposit_account_by_no B (ie_bill_ref event) of
        Inl e \<Rightarrow> if e = MpNotFound then Inr (pln\<lparr>pn_leftover := amount\<rparr>) else Inl e
      | Inr da \<Rightarrow> Inr (pln\<lparr>pn_splits := [\<lparr>
            sp_leg = (if isFOSA (dt_product_code da) then LegFOSATopUp else LegBOSATopUp), sp_amount = amount,
            sp_target_ref = dt_account_no da, sp_target_id = Some (dt_acct_id da) \<rparr>]\<rparr>))"

definition Run :: "decimal_lib \<Rightarrow> balances \<Rightarrow> inbound_event \<Rightarrow> leg list \<Rightarrow> mp_error + plan" where
  "Run D B event waterfall =
     (case dParse D (ie_amount event) of
        None \<Rightarrow> Inl (MpInvalid ''amount'')
      | Some amount \<Rightarrow>
          bind_res (ensure (0 < amount) (MpInvalid ''non-positive amount'')) (\<lambda>_.
          bind_res (ensure (\<not> (ie_resolved_member_id event = None \<and>
              (case ie_resolved_via event of None \<Rightarrow> False | Some v \<Rightarrow> v \<noteq> ViaUnallocated)))
            (MpInvalid ''resolved_via but resolved_member_id is null'')) (\<lambda>_.
            let pln = \<lparr> pn_event_id = ie_id event, pn_amount = amount, pn_splits = [], pn_leftover = 0 \<rparr>;
                via = the_default ViaUnallocated (ie_resolved_via event)
            in if via = ViaLoanNo then runDirectLoan B event amount pln
               else if via = ViaDepositAccountNo then runDirectDeposit B event amount pln
               else case ie_resolved_member_id event of
                   None \<Rightarrow> Inr (pln\<lparr>pn_leftover := amount\<rparr>)
                 | Some cp \<Rightarrow> runWaterfall B cp amount waterfall pln)))"

end
