(* ===== verification/MpesaDistributor.thy ===== *)
theory MpesaDistributor
  imports MpesaEngine
begin

text \<open>
  The M-PESA service's writers: the webhook that records and resolves a payment
  (services/mpesa/internal/handler/webhook.go), the workflow client it raises tasks with
  (internal/workflowclient/client.go), the applier that turns a plan into loan, deposit and fee
  postings (internal/applier/applier.go), the orchestrator (internal/distribution/orchestrator.go,
  posting.go) and the worker that leases events (cmd/distributor/main.go).

  Audit entries and logs are written and forgotten; nothing reads them and they are left out.
\<close>

text \<open>What the process is configured with; \<open>cf_numeric\<close> reads text into a \<open>numeric(18,2)\<close> column.\<close>

record mp_config =
  cf_cash :: string
  cf_clearing :: string
  cf_apply :: bool
  cf_numeric :: "string \<Rightarrow> decimal option"
  cf_err_text :: "mp_error \<Rightarrow> string"

section \<open>The workflow client\<close>

record client_task =
  tk_tenant_id :: uuid
  tk_process_kind :: string
  tk_subject_kind :: string
  tk_subject_id :: uuid
  tk_context :: "(string \<times> json) list"
  tk_summary :: string
  tk_source_url :: string

definition client_level :: "level_def \<Rightarrow> level_state" where
  "client_level l = \<lparr> ls_order = ld_level_order l, ls_name = ld_name l, ls_status = LvlWaiting,
     ls_approver_roles = ld_approver_roles l, ls_approver_user_ids = ld_approver_user_ids l,
     ls_quorum = ld_quorum l, ls_condition = ld_condition_expr l, ls_sla_hours = ld_sla_hours l,
     ls_sla_due_at = None, ls_approved_by = [], ls_entered_at = None, ls_completed_at = None,
     ls_escalation_role = ld_escalation_role l, ls_escalation_user = ld_escalation_user l \<rparr>"

definition firstSLA :: "level_def list \<Rightarrow> int option" where
  "firstSLA lvls = (case List.map_filter ld_sla_hours lvls of [] \<Rightarrow> None | h # _ \<Rightarrow> Some h)"

text \<open>The row is written directly: status and level take the columns' defaults.\<close>

definition ClientCreateInstanceTx ::
  "wf_db \<Rightarrow> uuid \<Rightarrow> instant \<Rightarrow> client_task \<Rightarrow> mp_error + wf_db" where
  "ClientCreateInstanceTx db new_id now inp =
     (if tk_tenant_id inp = uuid_Nil \<or> tk_process_kind inp = [] \<or> tk_subject_kind inp = [] \<or>
         tk_subject_id inp = uuid_Nil
      then Inl (MpRequired ''tenant_id, process_kind, subject_kind, subject_id'')
      else case find (\<lambda>d. wd_process_kind d = tk_process_kind inp \<and> wd_active d) (db_definitions db) of
          None \<Rightarrow> Inl (MpWorkflow ''no active workflow definition'')
        | Some d \<Rightarrow>
            let lvls = sort_key ld_level_order (wd_levels d) in
            if lvls = [] then Inl (MpWorkflow ''definition has no levels'')
            else Inr (fst (CreateInstanceTx db new_id now
              \<lparr> ci_definition_id = wd_id d, ci_process_kind = tk_process_kind inp,
                ci_subject_kind = tk_subject_kind inp, ci_subject_id = tk_subject_id inp,
                ci_context = tk_context inp, ci_callback_url = [], ci_callback_secret = [],
                ci_initiator_id = None, ci_levels_snapshot = map client_level lvls,
                ci_starting_level = 0, ci_starting_status = StatusPending, ci_summary = tk_summary inp,
                ci_source_url = tk_source_url inp,
                ci_sla_breach_at = (case firstSLA lvls of
                    Some h \<Rightarrow> if h > 0 then Some (now + hours h) else None | None \<Rightarrow> None) \<rparr>)))"

definition no_definition :: mp_error where
  "no_definition = MpWorkflow ''no active workflow definition''"

definition reconciliation :: string where
  "reconciliation = ''mpesa_unallocated_reconciliation''"

section \<open>The webhook\<close>

record c2b_body =
  cb_trans_id :: string
  cb_trans_time :: string
  cb_trans_amount :: string
  cb_bill_ref_number :: string
  cb_msisdn :: string

record daraja_result =
  dr_code :: int
  dr_desc :: string

text \<open>\<open>time.Parse("20060102150405", s[:14])\<close>: digits only, and each field in its range.\<close>

definition parseDarajaTime :: "string \<Rightarrow> go_time option" where
  "parseDarajaTime s0 =
     (let s = TrimSpace s0; t = take 14 s; num = (\<lambda>i n. read_digits (take n (drop i t)));
          d = Date (int (num 0 4)) (num 4 2) (num 6 2)
      in if length s < 14 \<or> \<not> list_all is_digit t then None
         else if valid_date d \<and> num 8 2 < 24 \<and> num 10 2 < 60 \<and> num 12 2 < 60
         then Some (GoTime d (hours (int (num 8 2)) + seconds (60 * int (num 10 2) + int (num 12 2))))
         else None)"

definition ByIDAndToken :: "'a mp_db_scheme \<Rightarrow> uuid \<Rightarrow> string \<Rightarrow> mp_error + paybill" where
  "ByIDAndToken db pid tok = (if tok = [] then Inl MpNotFound
     else orNotFound (find (\<lambda>p. pb_id p = pid \<and> pb_webhook_token p = tok) (mp_paybills db)))"

text \<open>\<open>None\<close> for a path or a body that does not parse.\<close>

definition Validation :: "'a mp_db_scheme \<Rightarrow> uuid option \<Rightarrow> string \<Rightarrow> c2b_body option \<Rightarrow> daraja_result" where
  "Validation db path tok body =
     (let result = (\<lambda>c t. \<lparr> dr_code = c, dr_desc = t \<rparr>) in
      case path of None \<Rightarrow> result 1 ''Rejected: invalid paybill id''
      | Some pid \<Rightarrow> (case ByIDAndToken db pid tok of
          Inl _ \<Rightarrow> result 1 ''Rejected: unauthorised''
        | Inr pb \<Rightarrow>
            if \<not> pb_strict_validation pb then result 0 ''Accepted''
            else (case body of None \<Rightarrow> result 1 ''Rejected: malformed payload''
              | Some b \<Rightarrow> (case Resolve (db_lookups db) \<lparr> rv_bill_ref = cb_bill_ref_number b,
                      rv_msisdn = cb_msisdn b, rv_allow_msisdn_fallback = False \<rparr> of
                  Inl _ \<Rightarrow> result 1 ''Rejected: temporary error''
                | Inr d \<Rightarrow> if dc_via d = ViaUnallocated then result 1 ''C2B00012: Invalid account number''
                          else result 0 ''Accepted''))))"

text \<open>\<open>resolveAndWire\<close>: the verdict on an event and, when nothing matched, a task, in one transaction.\<close>

definition resolveAndWire ::
  "fin_env \<Rightarrow> 'a mp_db_scheme \<Rightarrow> paybill \<Rightarrow> uuid \<Rightarrow> c2b_body \<Rightarrow> mp_error + 'a mp_db_scheme" where
  "resolveAndWire E db pb eid b =
     bind_res (Resolve (db_lookups db) \<lparr> rv_bill_ref = cb_bill_ref_number b, rv_msisdn = cb_msisdn b,
         rv_allow_msisdn_fallback = pb_allow_msisdn_fallback pb \<rparr>) (\<lambda>d.
     let mid = (if dc_member_id d \<noteq> uuid_Nil then Some (dc_member_id d) else None) in
     if dc_via d = ViaUnallocated
     then (case ClientCreateInstanceTx (mp_wf db) (fn_supply db) (env_now E)
              \<lparr> tk_tenant_id = pb_tenant_id pb, tk_process_kind = reconciliation,
                tk_subject_kind = ''mpesa_inbound_event'', tk_subject_id = eid,
                tk_context = [(''event_id'', JStr (env_uuid E eid)), (''transaction'', JStr (cb_trans_id b)),
                  (''amount'', JStr (cb_trans_amount b)), (''bill_ref'', JStr (cb_bill_ref_number b)),
                  (''msisdn'', JStr (cb_msisdn b)), (''paybill_label'', JStr (pb_label pb))],
                tk_summary = ''Unallocated M-PESA payment KES '' @ cb_trans_amount b @ '' from '' @
                  cb_msisdn b @ '' (paybill '' @ pb_label pb @ '')'',
                tk_source_url = ''/accounting/mpesa-reconciliation?event='' @ env_uuid E eid \<rparr> of
            Inl e \<Rightarrow> if e = no_definition then UpdateResolutionTx db eid mid (dc_via d) None else Inl e
          | Inr w \<Rightarrow> UpdateResolutionTx (db\<lparr>mp_wf := w, fn_supply := fn_supply db + 1\<rparr>) eid mid (dc_via d)
                       (Some (fn_supply db)))
     else UpdateResolutionTx db eid mid (dc_via d) None)"

datatype confirm_reply = Daraja daraja_result | HttpStatus nat

text \<open>
  The confirmation's first transaction, which records the event, and the reply. The second,
  \<open>resolveAndWire\<close>, runs only for a new event (\<open>Some\<close> of it) and its failure does not change the
  reply; between the two other transactions may commit.
\<close>

definition confirm_persist ::
  "mp_config \<Rightarrow> fin_env \<Rightarrow> 'a mp_db_scheme \<Rightarrow> uuid option \<Rightarrow> string \<Rightarrow> c2b_body option
    \<Rightarrow> 'a mp_db_scheme \<times> (paybill \<times> uuid \<times> c2b_body) option \<times> confirm_reply" where
  "confirm_persist cfg E db path tok body =
     (let result = (\<lambda>c t. Daraja \<lparr> dr_code = c, dr_desc = t \<rparr>) in
      case path of None \<Rightarrow> (db, None, result 1 ''Rejected: invalid paybill id'')
      | Some pid \<Rightarrow> (case ByIDAndToken db pid tok of
          Inl _ \<Rightarrow> (db, None, HttpStatus 401)
        | Inr pb \<Rightarrow> (case body of None \<Rightarrow> (db, None, result 0 ''Received'')
            | Some b \<Rightarrow> (case RecordTx E (cf_numeric cfg) db \<lparr> re_paybill_id = pb_id pb,
                    re_shortcode = pb_shortcode pb, re_transaction_id = cb_trans_id b,
                    re_transaction_time = parseDarajaTime (cb_trans_time b), re_amount = cb_trans_amount b,
                    re_msisdn = cb_msisdn b, re_bill_ref = cb_bill_ref_number b \<rparr> of
                  Inl _ \<Rightarrow> (db, None, result 1 ''Rejected: persistence error'')
                | Inr (db', e, inserted) \<Rightarrow>
                    (db', if inserted then Some (pb, ie_id e, b) else None, result 0 ''Received'')))))"

text \<open>The handler with nothing in between.\<close>

definition Confirmation ::
  "mp_config \<Rightarrow> fin_env \<Rightarrow> 'a mp_db_scheme \<Rightarrow> uuid option \<Rightarrow> string \<Rightarrow> c2b_body option
    \<Rightarrow> 'a mp_db_scheme \<times> confirm_reply" where
  "Confirmation cfg E db path tok body =
     (case confirm_persist cfg E db path tok body of
        (db1, None, r) \<Rightarrow> (db1, r)
      | (db1, Some (pb, eid, b), r) \<Rightarrow>
          (case resolveAndWire E db1 pb eid b of Inl _ \<Rightarrow> (db1, r) | Inr db2 \<Rightarrow> (db2, r)))"

section \<open>The applier\<close>

record apply_input =
  ai_tenant_id :: uuid
  ai_plan :: plan
  ai_external_ref :: string
  ai_channel :: string
  ai_channel_ref :: string
  ai_value_date :: go_time
  ai_initiated_by :: uuid

record apply_result =
  ar_leg :: leg
  ar_amount :: decimal
  ar_txn_id :: uuid
  ar_outbox_id :: uuid

text \<open>What the loop carries: the tables, the results, and the loan group not yet repaid.\<close>

record 'd apply_state =
  as_db :: 'd
  as_results :: "apply_result list"
  as_alloc :: allocation
  as_loan :: uuid

fun leg_text :: "leg \<Rightarrow> string" where
  "leg_text LegFeesDue = ''fees_due''"
| "leg_text LegLoanPenaltyDue = ''loan_penalty_due''"
| "leg_text LegLoanInterestDue = ''loan_interest_due''"
| "leg_text LegLoanPrincipalDue = ''loan_principal_due''"
| "leg_text LegLoanFeesDue = ''loan_fees_due''"
| "leg_text LegBOSATopUp = ''bosa_top_up''"
| "leg_text LegFOSATopUp = ''fosa_top_up''"
| "leg_text (LegUnknown s) = s"

definition map_fin :: "fin_error + 'b \<Rightarrow> mp_error + 'b" where
  "map_fin r = (case r of Inl e \<Rightarrow> Inl (MpFinance e) | Inr x \<Rightarrow> Inr x)"

definition flushLoan ::
  "fin_env \<Rightarrow> apply_input \<Rightarrow> 'a fin_db_scheme apply_state \<Rightarrow> mp_error + 'a fin_db_scheme apply_state" where
  "flushLoan E inp st =
     (if as_loan st = uuid_Nil \<or> alloc_Total (as_alloc st) = 0
      then Inr (st\<lparr>as_alloc := alloc_zero, as_loan := uuid_Nil\<rparr>)
      else bind_res (map_fin (RepayLoanTx E
          \<lparr> ri_tenant_id = ai_tenant_id inp, ri_loan_id = as_loan st, ri_allocation = as_alloc st,
            ri_channel = ai_channel inp, ri_channel_ref = ai_channel_ref inp,
            ri_narration = ''M-PESA repayment'' @ dot @ ai_external_ref inp, ri_value_date = ai_value_date inp,
            ri_initiated_by = ai_initiated_by inp, ri_external_ref = ai_external_ref inp \<rparr> (as_db st)))
        (\<lambda>(db, res). Inr \<lparr> as_db = db,
           as_results = as_results st @ [\<lparr> ar_leg = LegLoanPrincipalDue, ar_amount = alloc_Total (as_alloc st),
             ar_txn_id = fr_txn_id res, ar_outbox_id = fr_outbox_id res \<rparr>],
           as_alloc = alloc_zero, as_loan = uuid_Nil \<rparr>))"

definition feeCodeForSplit :: "split \<Rightarrow> string" where
  "feeCodeForSplit sp =
     (if sp_target_ref sp \<noteq> [] \<and> sp_target_ref sp \<noteq> ''fees_due'' then sp_target_ref sp else ''MPESA_INCOMING'')"

definition add_to :: "leg \<Rightarrow> decimal \<Rightarrow> allocation \<Rightarrow> allocation" where
  "add_to lg x a = (case lg of
     LegLoanPenaltyDue \<Rightarrow> a\<lparr>al_penalty := al_penalty a + x\<rparr>
   | LegLoanInterestDue \<Rightarrow> a\<lparr>al_interest := al_interest a + x\<rparr>
   | LegLoanPrincipalDue \<Rightarrow> a\<lparr>al_principal := al_principal a + x\<rparr>
   | LegLoanFeesDue \<Rightarrow> a\<lparr>al_fees := al_fees a + x\<rparr>
   | _ \<Rightarrow> a)"

definition apply_loan_split ::
  "fin_env \<Rightarrow> apply_input \<Rightarrow> split \<Rightarrow> 'a fin_db_scheme apply_state \<Rightarrow> mp_error + 'a fin_db_scheme apply_state" where
  "apply_loan_split E inp sp st =
     (case sp_target_id sp of
        None \<Rightarrow> Inl (MpApply ''loan split missing target_id'')
      | Some tid \<Rightarrow>
          bind_res (if as_loan st \<noteq> uuid_Nil \<and> as_loan st \<noteq> tid then flushLoan E inp st else Inr st) (\<lambda>st1.
            Inr (st1\<lparr>as_loan := tid, as_alloc := add_to (sp_leg sp) (sp_amount sp) (as_alloc st1)\<rparr>)))"

definition apply_deposit_split ::
  "fin_env \<Rightarrow> apply_input \<Rightarrow> split \<Rightarrow> 'a fin_db_scheme apply_state \<Rightarrow> mp_error + 'a fin_db_scheme apply_state" where
  "apply_deposit_split E inp sp st =
     bind_res (flushLoan E inp st) (\<lambda>st1.
     case sp_target_id sp of
       None \<Rightarrow> Inl (MpApply ''deposit split missing target_id'')
     | Some tid \<Rightarrow>
         bind_res (map_fin (DepositTx E
             \<lparr> di_tenant_id = ai_tenant_id inp, di_account_id = tid, di_amount = sp_amount sp,
               di_channel = ''mpesa'', di_channel_ref = ai_channel_ref inp,
               di_narration = ''M-PESA '' @ leg_text (sp_leg sp) @ dot @ ai_external_ref inp,
               di_value_date = ai_value_date inp, di_initiated_by = ai_initiated_by inp,
               di_external_ref = ai_external_ref inp \<rparr> (as_db st1))) (\<lambda>(db, res).
           Inr (st1\<lparr>as_db := db, as_results := as_results st1 @ [\<lparr> ar_leg = sp_leg sp, ar_amount = sp_amount sp,
             ar_txn_id = fr_txn_id res, ar_outbox_id = fr_outbox_id res \<rparr>]\<rparr>)))"

definition apply_fee_split ::
  "fin_env \<Rightarrow> apply_input \<Rightarrow> split \<Rightarrow> 'a fin_db_scheme apply_state \<Rightarrow> mp_error + 'a fin_db_scheme apply_state" where
  "apply_fee_split E inp sp st =
     bind_res (flushLoan E inp st) (\<lambda>st1.
     bind_res (map_fin (PostFeeTx E
         \<lparr> fi_tenant_id = ai_tenant_id inp, fi_fee_code = feeCodeForSplit sp, fi_amount = sp_amount sp,
           fi_channel = ''mpesa'', fi_value_date = ai_value_date inp, fi_external_ref = ai_external_ref inp \<rparr>
         (as_db st1))) (\<lambda>(db, res).
       Inr (st1\<lparr>as_db := db, as_results := as_results st1 @ [\<lparr> ar_leg = sp_leg sp, ar_amount = sp_amount sp,
         ar_txn_id = fr_txn_id res, ar_outbox_id = fr_outbox_id res \<rparr>]\<rparr>)))"

definition apply_split ::
  "fin_env \<Rightarrow> apply_input \<Rightarrow> split \<Rightarrow> 'a fin_db_scheme apply_state \<Rightarrow> mp_error + 'a fin_db_scheme apply_state" where
  "apply_split E inp sp st = (case sp_leg sp of
     LegLoanPenaltyDue \<Rightarrow> apply_loan_split E inp sp st
   | LegLoanInterestDue \<Rightarrow> apply_loan_split E inp sp st
   | LegLoanPrincipalDue \<Rightarrow> apply_loan_split E inp sp st
   | LegLoanFeesDue \<Rightarrow> apply_loan_split E inp sp st
   | LegBOSATopUp \<Rightarrow> apply_deposit_split E inp sp st
   | LegFOSATopUp \<Rightarrow> apply_deposit_split E inp sp st
   | LegFeesDue \<Rightarrow> apply_fee_split E inp sp st
   | LegUnknown _ \<Rightarrow> Inr st)"

fun apply_splits ::
  "fin_env \<Rightarrow> apply_input \<Rightarrow> split list \<Rightarrow> 'a fin_db_scheme apply_state \<Rightarrow> mp_error + 'a fin_db_scheme apply_state" where
  "apply_splits E inp [] st = Inr st"
| "apply_splits E inp (sp # sps) st = bind_res (apply_split E inp sp st) (apply_splits E inp sps)"

definition ApplyPlanTx ::
  "fin_env \<Rightarrow> apply_input \<Rightarrow> 'a fin_db_scheme \<Rightarrow> mp_error + ('a fin_db_scheme \<times> apply_result list)" where
  "ApplyPlanTx E inp db =
     (if ai_external_ref inp = [] then Inl (MpApply ''ExternalValidationRef is required'')
      else bind_res (apply_splits E inp (pn_splits (ai_plan inp))
             \<lparr> as_db = db, as_results = [], as_alloc = alloc_zero, as_loan = uuid_Nil \<rparr>) (\<lambda>st.
           bind_res (flushLoan E inp st) (\<lambda>st. Inr (as_db st, as_results st))))"

section \<open>The orchestrator\<close>

definition PostCashLegTx ::
  "fin_env \<Rightarrow> 'a fin_db_scheme \<Rightarrow> uuid \<Rightarrow> uuid \<Rightarrow> decimal \<Rightarrow> string \<Rightarrow> string \<Rightarrow> go_time
    \<Rightarrow> mp_error + ('a fin_db_scheme \<times> uuid)" where
  "PostCashLegTx E db tenant eid amount cash clearing vd =
     (if cash = [] \<or> clearing = [] then Inl (MpOutbox ''missing account code'')
      else if amount \<le> 0 then Inl (MpOutbox ''non-positive amount'')
      else let x = dFixed (env_dec E) 2 amount;
               d = (case body_date vd of None \<Rightarrow> [] | Some d \<Rightarrow> format_date d);
               body = \<lparr> pq_tenant_id = tenant, pq_entry_date = d, pq_value_date = d,
                 pq_source_module = ''mpesa.distribution.cash_leg'', pq_source_ref = env_uuid E eid,
                 pq_narration = ''M-PESA C2B inbound '' @ utf8 [226, 128, 148] @ '' parked in clearing'',
                 pq_lines = [\<lparr> dl_account_code = cash, dl_debit = x, dl_credit = [], dl_narration = ''M-PESA receipts'' \<rparr>,
                   \<lparr> dl_account_code = clearing, dl_debit = [], dl_credit = x, dl_narration = ''M-PESA clearing'' \<rparr>] \<rparr>
           in Inr (db\<lparr>fn_outbox := fn_outbox db @ [\<lparr> ob_id = fn_supply db, ob_tenant_id = tenant,
                  ob_payload = body, ob_attempts = 0, ob_last_error = None, ob_enqueued_at = env_now E,
                  ob_dispatched_at = None, ob_posted_je_id = None \<rparr>],
                fn_supply := fn_supply db + 1\<rparr>, fn_supply db))"

record process_result =
  pr_event_id :: uuid
  pr_run_id :: uuid
  pr_splits :: "split list"
  pr_leftover :: decimal

definition Process ::
  "mp_config \<Rightarrow> fin_env \<Rightarrow> 'a mp_db_scheme \<Rightarrow> uuid \<Rightarrow> uuid \<Rightarrow> mp_error + ('a mp_db_scheme \<times> process_result)" where
  "Process cfg E db tenant eid =
     bind_res (EventByIDTx (env_dec E) db eid) (\<lambda>event.
     bind_res (ensure (ie_status event = InboundReceived) (MpReplay (ie_status event))) (\<lambda>_.
     bind_res (Run (env_dec E) (db_balances db) event []) (\<lambda>pln.
     bind_res (CreateRunTx E db \<lparr> cri_tenant_id = tenant, cri_inbound_event_id = eid,
         cri_resolved_member_id = ie_resolved_member_id event, cri_resolved_via = ie_resolved_via event,
         cri_amount = pn_amount pln, cri_splits = pn_splits pln, cri_cash_account_code = cf_cash cfg,
         cri_clearing_account_code = cf_clearing cfg \<rparr>) (\<lambda>(db1, rid).
     let vd = (case ie_transaction_time event of None \<Rightarrow> env_time E | Some t \<Rightarrow> t) in
     bind_res (PostCashLegTx E db1 tenant eid (pn_amount pln) (cf_cash cfg) (cf_clearing cfg) vd) (\<lambda>(db2, ob).
     bind_res (if cf_apply cfg \<and> pn_splits pln \<noteq> []
         then bind_res (ApplyPlanTx E \<lparr> ai_tenant_id = tenant, ai_plan = pln,
                ai_external_ref = ie_transaction_id event, ai_channel = ''mpesa'',
                ai_channel_ref = ie_transaction_id event, ai_value_date = vd, ai_initiated_by = uuid_Nil \<rparr> db2)
              (\<lambda>(db3, _). Inr db3)
         else Inr db2) (\<lambda>db3.
     bind_res (MarkRunPostedTx db3 rid (Some ob)) (\<lambda>db4.
     bind_res (MarkDistributedTx db4 eid rid) (\<lambda>db5.
       Inr (db5, \<lparr> pr_event_id = eid, pr_run_id = rid, pr_splits = pn_splits pln,
                   pr_leftover = pn_leftover pln \<rparr>)))))))))"

definition HardFailAttempts :: nat where
  "HardFailAttempts = 6"

text \<open>An error of the workflow client is logged: the event still fails.\<close>

definition RecordFailure ::
  "mp_config \<Rightarrow> fin_env \<Rightarrow> 'a mp_db_scheme \<Rightarrow> uuid \<Rightarrow> uuid \<Rightarrow> mp_error \<Rightarrow> mp_error + 'a mp_db_scheme" where
  "RecordFailure cfg E db tenant eid cause =
     bind_res (RecordAttemptFailureTx db eid cause) (\<lambda>(db1, attempts).
     if attempts < HardFailAttempts then Inr db1
     else bind_res (MarkEventFailedTx db1 eid) (\<lambda>db2.
       Inr (case ClientCreateInstanceTx (mp_wf db2) (fn_supply db2) (env_now E)
              \<lparr> tk_tenant_id = tenant, tk_process_kind = reconciliation,
                tk_subject_kind = ''mpesa_inbound_event'', tk_subject_id = eid,
                tk_context = [(''event_id'', JStr (env_uuid E eid)), (''attempts'', JInt (int attempts)),
                  (''last_error'', JStr (cf_err_text cfg cause)), (''distributor'', JStr ''phase3'')],
                tk_summary = ''M-PESA distribution hard-failed after '' @ show_nat attempts @ '' attempts'',
                tk_source_url = ''/accounting/mpesa-reconciliation?event='' @ env_uuid E eid \<rparr> of
            Inl _ \<Rightarrow> db2 | Inr w \<Rightarrow> db2\<lparr>mp_wf := w, fn_supply := fn_supply db2 + 1\<rparr>)))"

section \<open>The worker\<close>

text \<open>
  \<open>processOneEvent\<close>. Its first transaction leases an event and processes it; \<open>held\<close> are the rows
  other workers have locked, and \<open>commits = False\<close> when the commit fails. An error rolls it back,
  and a second transaction records the failure.
\<close>

definition lease_and_process ::
  "mp_config \<Rightarrow> fin_env \<Rightarrow> bool \<Rightarrow> uuid set \<Rightarrow> uuid \<Rightarrow> uuid \<Rightarrow> 'a mp_db_scheme
    \<Rightarrow> (uuid \<times> (mp_error + 'a mp_db_scheme)) option" where
  "lease_and_process cfg E commits held worker tenant db =
     (case LeaseNextTx held worker db of
        Inl _ \<Rightarrow> None
      | Inr (db1, eid) \<Rightarrow> Some (eid, bind_res (Process cfg E db1 tenant eid) (\<lambda>(db2, _).
          if commits then Inr db2 else Inl (MpDb ''commit''))))"

definition processOneEvent ::
  "mp_config \<Rightarrow> fin_env \<Rightarrow> bool \<Rightarrow> uuid set \<Rightarrow> uuid \<Rightarrow> uuid \<Rightarrow> 'a mp_db_scheme \<Rightarrow> 'a mp_db_scheme \<times> bool" where
  "processOneEvent cfg E commits held worker tenant db =
     (case lease_and_process cfg E commits held worker tenant db of
        None \<Rightarrow> (db, False)
      | Some (_, Inr db2) \<Rightarrow> (db2, True)
      | Some (eid, Inl e) \<Rightarrow>
          (case RecordFailure cfg E db tenant eid e of Inl _ \<Rightarrow> (db, True) | Inr db' \<Rightarrow> (db', True)))"

end
