(* ===== verification/MpesaPlan.thy ===== *)
theory MpesaPlan
  imports MpesaDistributor
begin

text \<open>
  What a plan of the engine promises. The engine's reads are the interface \<open>balances_port\<close>:
  balances owed are amounts of money (not negative, two places). Inside it: a plan splits the
  whole amount into positive parts, and the waterfall pays the dues in the order of its legs.
  The interpretation at the end discharges the interface for the reads of the database.
\<close>

definition money :: "decimal \<Rightarrow> bool" where
  "money x \<longleftrightarrow> 0 \<le> x \<and> scaled 2 x"

lemma money_simps [simp]: "money 0"
  by (simp add: money_def)

lemma money_nonneg: "money x \<Longrightarrow> 0 \<le> x"
  by (simp add: money_def)

lemma money_min: "money x \<Longrightarrow> money y \<Longrightarrow> money (min x y)"
  by (simp add: money_def min_def)

lemma money_add: "money x \<Longrightarrow> money y \<Longrightarrow> money (x + y)"
  by (auto simp: money_def)

lemma money_diff: "money x \<Longrightarrow> money y \<Longrightarrow> y \<le> x \<Longrightarrow> money (x - y)"
  by (auto simp: money_def)

definition components_ok :: "loan_components \<Rightarrow> bool" where
  "components_ok lc \<longleftrightarrow> lc_loan_id lc \<noteq> uuid_Nil \<and> money (lc_penalty lc) \<and> money (lc_interest lc) \<and>
     money (lc_principal lc) \<and> money (lc_fees lc)"

lemma decMin_min [simp]: "decMin a b = min a b"
  by (simp add: decMin_def min_def)

definition loan_legs :: "leg set" where
  "loan_legs = {LegLoanPenaltyDue, LegLoanInterestDue, LegLoanPrincipalDue, LegLoanFeesDue}"

text \<open>A part is a positive amount of money for a leg; a loan's part names the loan.\<close>

definition split_ok :: "leg set \<Rightarrow> split \<Rightarrow> bool" where
  "split_ok legs s \<longleftrightarrow> 0 < sp_amount s \<and> scaled 2 (sp_amount s) \<and> sp_leg s \<in> legs \<and>
     (sp_leg s \<in> loan_legs \<longrightarrow> sp_target_id s \<noteq> Some uuid_Nil)"

definition split_total :: "split list \<Rightarrow> decimal" where
  "split_total ss = sum_list (map sp_amount ss)"

definition leg_total :: "leg \<Rightarrow> split list \<Rightarrow> decimal" where
  "leg_total lg ss = split_total (filter (\<lambda>s. sp_leg s = lg) ss)"

lemma split_total_simps [simp]:
  "split_total [] = 0"
  "split_total (s # ss) = sp_amount s + split_total ss"
  "split_total (ss @ ts) = split_total ss + split_total ts"
  by (simp_all add: split_total_def)

lemma leg_total_simps [simp]:
  "leg_total lg [] = 0"
  "leg_total lg (s # ss) = (if sp_leg s = lg then sp_amount s else 0) + leg_total lg ss"
  "leg_total lg (ss @ ts) = leg_total lg ss + leg_total lg ts"
  by (simp_all add: leg_total_def)

section \<open>The waterfall\<close>

text \<open>What a leg is owed.\<close>

fun due_of :: "decimal \<Rightarrow> loan_components option \<Rightarrow> leg \<Rightarrow> decimal" where
  "due_of fees loan LegFeesDue = fees"
| "due_of fees (Some lc) LegLoanPenaltyDue = lc_penalty lc"
| "due_of fees (Some lc) LegLoanInterestDue = lc_interest lc"
| "due_of fees (Some lc) LegLoanPrincipalDue = lc_principal lc"
| "due_of fees (Some lc) LegLoanFeesDue = lc_fees lc"
| "due_of fees loan lg = 0"

definition due_legs :: "leg list" where
  "due_legs = [LegFeesDue, LegLoanPenaltyDue, LegLoanInterestDue, LegLoanPrincipalDue, LegLoanFeesDue]"

definition dues_ok :: "decimal \<Rightarrow> loan_components option \<Rightarrow> bool" where
  "dues_ok fees loan \<longleftrightarrow> money fees \<and> (\<forall>lc. loan = Some lc \<longrightarrow> components_ok lc)"

lemma due_of_money: "dues_ok fees loan \<Longrightarrow> money (due_of fees loan lg)"
  by (induction fees loan lg rule: due_of.induct) (auto simp: dues_ok_def components_ok_def)

lemma planLeg_amount:
  assumes "dues_ok fees loan" "money r" "planLeg lg r isLast fees loan bosa fosa = (amt, ref, tid)"
  shows "money amt" "amt \<le> r" "lg \<in> loan_legs \<Longrightarrow> tid \<noteq> Some uuid_Nil"
  using assms money_nonneg [OF assms(2)]
  by (auto simp: planLeg_def loan_leg_def dues_ok_def components_ok_def money_min loan_legs_def
      split: leg.splits option.splits if_splits)

lemma planLeg_due:
  assumes "dues_ok fees loan" "money r" "lg \<in> set due_legs" "planLeg lg r isLast fees loan bosa fosa = (amt, ref, tid)"
  shows "amt = min r (due_of fees loan lg)"
  using assms by (auto simp: planLeg_def loan_leg_def due_legs_def money_def split: option.splits)

lemma walk_zero: "dues_ok fees loan \<Longrightarrow> walk fees loan bosa fosa legs 0 = ([], 0)"
proof (induction legs)
  case (Cons lg legs)
  obtain amt ref tid where p: "planLeg lg 0 (legs = []) fees loan bosa fosa = (amt, ref, tid)"
    by (metis prod.collapse)
  have "amt = 0" using planLeg_amount [OF Cons.prems _ p] by (simp add: money_def)
  with p Cons show ?case by simp
qed simp

text \<open>Leaving the loop when nothing remains is the same as going on.\<close>

lemma walk_step:
  assumes "dues_ok fees loan" "planLeg lg r (legs = []) fees loan bosa fosa = (amt, ref, tid)"
  shows "walk fees loan bosa fosa (lg # legs) r =
    ((if amt = 0 then [] else [\<lparr> sp_leg = lg, sp_amount = amt, sp_target_ref = ref, sp_target_id = tid \<rparr>]) @
       fst (walk fees loan bosa fosa legs (r - amt)), snd (walk fees loan bosa fosa legs (r - amt)))"
  using assms walk_zero [OF assms(1), of bosa fosa legs] by (auto simp: Let_def split: prod.split)

declare walk.simps(2) [simp del]

lemma walk_ok:
  assumes d: "dues_ok fees loan"
  shows "money r \<Longrightarrow> walk fees loan bosa fosa legs r = (ss, left) \<Longrightarrow>
    split_total ss + left = r \<and> money left \<and> (\<forall>s\<in>set ss. split_ok (set legs) s)"
proof (induction legs arbitrary: r ss left)
  case (Cons lg legs)
  obtain amt ref tid where p: "planLeg lg r (legs = []) fees loan bosa fosa = (amt, ref, tid)"
    by (metis prod.collapse)
  note a = planLeg_amount [OF d Cons.prems(1) p]
  obtain ss' left' where w: "walk fees loan bosa fosa legs (r - amt) = (ss', left')" by force
  have ih: "split_total ss' + left' = r - amt" "money left'"
    "\<forall>s\<in>set ss'. split_ok (set legs) s"
    using Cons.IH [OF money_diff [OF Cons.prems(1) a(1,2)] w] by auto
  have "ss = (if amt = 0 then [] else [\<lparr> sp_leg = lg, sp_amount = amt, sp_target_ref = ref, sp_target_id = tid \<rparr>]) @ ss'"
    "left = left'"
    using Cons.prems(2) w by (simp_all add: walk_step [OF d p])
  with ih a show ?case by (auto simp: money_def split_ok_def)
qed (simp add: money_def)

text \<open>The legs that are owed something, in front of the rest.\<close>

lemma walk_dues:
  assumes d: "dues_ok fees loan"
  shows "money r \<Longrightarrow> distinct ls \<Longrightarrow> set ls \<subseteq> set due_legs \<Longrightarrow> post \<noteq> [] \<Longrightarrow>
    (\<forall>lg\<in>set ls. lg \<notin> set post \<longrightarrow> leg_total lg (fst (walk fees loan bosa fosa (ls @ post) r)) =
       max 0 (min (due_of fees loan lg) (r - sum_list (map (due_of fees loan) (takeWhile (\<lambda>x. x \<noteq> lg) ls))))) \<and>
    (\<forall>lg. lg \<notin> set ls \<longrightarrow> leg_total lg (fst (walk fees loan bosa fosa (ls @ post) r)) =
       leg_total lg (fst (walk fees loan bosa fosa post (max 0 (r - sum_list (map (due_of fees loan) ls)))))) \<and>
    snd (walk fees loan bosa fosa (ls @ post) r) =
      snd (walk fees loan bosa fosa post (max 0 (r - sum_list (map (due_of fees loan) ls))))"
proof (induction ls arbitrary: r)
  case Nil
  then show ?case by (simp add: money_def)
next
  case (Cons lg ls)
  let ?D = "due_of fees loan"
  obtain amt ref tid where p: "planLeg lg r ((ls @ post) = []) fees loan bosa fosa = (amt, ref, tid)"
    by (metis prod.collapse)
  have amt: "amt = min r (?D lg)" using planLeg_due [OF d Cons.prems(1) _ p] Cons.prems(3) by simp
  have dn: "0 \<le> ?D x" for x using due_of_money [OF d, of x] by (simp add: money_def)
  then have sn: "0 \<le> sum_list (map ?D xs)" for xs by (induction xs) (auto simp: add_nonneg_nonneg)
  have m: "money (r - amt)" by (rule money_diff [OF Cons.prems(1) planLeg_amount(1,2) [OF d Cons.prems(1) p]])
  have rest: "max 0 (r - amt - x) = max 0 (r - (?D lg + x))" if "0 \<le> x" for x
    using that dn [of lg] Cons.prems(1) by (auto simp: amt money_def min_def max_def)
  have clip: "max 0 (min y (r - amt - x)) = max 0 (min y (r - (?D lg + x)))" if "0 \<le> x" for x y
    using that dn [of lg] Cons.prems(1) by (auto simp: amt money_def min_def max_def)
  have nosplit: "leg_total lg (fst (walk fees loan bosa fosa (ls @ post) (r - amt))) = 0" if "lg \<notin> set post"
  proof -
    obtain ss left where w: "walk fees loan bosa fosa (ls @ post) (r - amt) = (ss, left)" by force
    have "\<forall>s\<in>set ss. sp_leg s \<noteq> lg" using walk_ok [OF d m w] that Cons.prems(2) by (auto simp: split_ok_def)
    then have "filter (\<lambda>s. sp_leg s = lg) ss = []" by (simp add: filter_empty_conv)
    then show ?thesis by (simp add: w leg_total_def)
  qed
  have own: "max 0 (min (?D lg) r) = amt" using dn [of lg] Cons.prems(1) by (auto simp: amt money_def min_def)
  have fst_eq: "leg_total x (fst (walk fees loan bosa fosa ((lg # ls) @ post) r)) =
      (if x = lg then amt else 0) + leg_total x (fst (walk fees loan bosa fosa (ls @ post) (r - amt)))" for x
    using walk_step [OF d p] by simp
  have snd_eq: "snd (walk fees loan bosa fosa ((lg # ls) @ post) r) = snd (walk fees loan bosa fosa (ls @ post) (r - amt))"
    using walk_step [OF d p] by simp
  note ih = Cons.IH [OF m]
  show ?case
    using ih Cons.prems nosplit own unfolding fst_eq snd_eq
    by (auto simp: rest [OF sn] clip [OF sn])
qed

section \<open>A loan the payer named\<close>

lemma walk_loan_ok:
  assumes "money r" "\<forall>(lg, x)\<in>set cs. money x \<and> lg \<in> loan_legs" "lc_loan_id lc \<noteq> uuid_Nil"
  shows "split_total (walk_loan lc cs r) = r \<and>
    (\<forall>s\<in>set (walk_loan lc cs r). split_ok loan_legs s \<and> sp_target_id s = Some (lc_loan_id lc))"
  using assms
proof (induction lc cs r rule: walk_loan.induct)
  case (1 lc r)
  then show ?case by (auto simp: money_def split_ok_def loan_legs_def)
next
  case (2 lc lg bal legs r)
  have mn: "money (min r bal)" "money (r - min r bal)" using 2(3,4) by (auto intro: money_min money_diff)
  have ok: "0 < min r bal \<Longrightarrow> split_ok loan_legs \<lparr> sp_leg = lg, sp_amount = min r bal,
      sp_target_ref = lc_loan_no lc, sp_target_id = Some (lc_loan_id lc) \<rparr>"
    using mn(1) 2(4,5) by (simp add: split_ok_def money_def)
  have pos: "0 < min r bal \<longleftrightarrow> min r bal \<noteq> 0" using mn(1) by (auto simp: money_def)
  consider "min r bal = 0" | "min r bal \<noteq> 0" "r - min r bal = 0" | "min r bal \<noteq> 0" "r - min r bal \<noteq> 0" by blast
  then show ?case
  proof cases
    case 1
    then show ?thesis using 2 by (auto simp: Let_def)
  next
    case 2
    with ok pos show ?thesis by (auto simp: Let_def)
  next
    case 3
    have ih: "split_total (walk_loan lc legs (r - min r bal)) = r - min r bal \<and>
        (\<forall>s\<in>set (walk_loan lc legs (r - min r bal)). split_ok loan_legs s \<and> sp_target_id s = Some (lc_loan_id lc))"
      using 2(2) [OF refl _ refl refl, simplified] 3 mn(2) 2(4,5) by simp
    have "walk_loan lc ((lg, bal) # legs) r = \<lparr> sp_leg = lg, sp_amount = min r bal,
        sp_target_ref = lc_loan_no lc, sp_target_id = Some (lc_loan_id lc) \<rparr> # walk_loan lc legs (r - min r bal)"
      using 3 by (auto simp: Let_def)
    then show ?thesis using ih ok pos 3(1) by simp
  qed
qed

section \<open>The interface\<close>

lemma loan_split_ok: "split_ok loan_legs s \<Longrightarrow> split_ok (set DefaultWaterfall) s"
  by (auto simp: split_ok_def loan_legs_def DefaultWaterfall_def)

definition plan_ok :: "decimal \<Rightarrow> plan \<Rightarrow> bool" where
  "plan_ok amount p \<longleftrightarrow> pn_amount p = amount \<and> split_total (pn_splits p) + pn_leftover p = amount \<and>
     money (pn_leftover p) \<and> (\<forall>s\<in>set (pn_splits p). split_ok (set DefaultWaterfall) s)"

locale balances_port =
  fixes B :: "'s \<Rightarrow> balances" and ok :: "'s \<Rightarrow> bool"
  assumes primary_ok: "ok s \<Longrightarrow> bl_primary_active_loan (B s) cp = Inr lc \<Longrightarrow> components_ok lc"
    and by_no_ok: "ok s \<Longrightarrow> bl_loan_by_no (B s) no = Inr lc \<Longrightarrow> components_ok lc"
    and fees_ok: "ok s \<Longrightarrow> bl_fees_due (B s) cp = Inr x \<Longrightarrow> money x"
begin

lemma waterfall_InrE:
  assumes "ok s" "runWaterfall (B s) cp amount wfl pln = Inr p"
  obtains loan deposits fees bosa fosa ss left where
    "bl_primary_active_loan (B s) cp = (case loan of None \<Rightarrow> Inl MpNotFound | Some l \<Rightarrow> Inr l)"
    "bl_deposit_accounts (B s) cp = Inr deposits" "bl_fees_due (B s) cp = Inr fees"
    "pickDepositTargets deposits = (bosa, fosa)" "dues_ok fees loan"
    "walk fees loan bosa fosa (if wfl = [] then DefaultWaterfall else wfl) amount = (ss, left)"
    "p = pln\<lparr>pn_splits := ss, pn_leftover := left\<rparr>"
proof -
  obtain loan where l: "(case bl_primary_active_loan (B s) cp of Inr l \<Rightarrow> Inr (Some l)
      | Inl e \<Rightarrow> if e = MpNotFound then Inr None else Inl e) = (Inr loan :: mp_error + loan_components option)"
    using assms(2) by (auto simp: runWaterfall_def Let_def)
  obtain deposits where dp: "bl_deposit_accounts (B s) cp = Inr deposits"
    using assms(2) l by (auto simp: runWaterfall_def Let_def)
  obtain fees where f: "bl_fees_due (B s) cp = Inr fees"
    using assms(2) l dp by (auto simp: runWaterfall_def Let_def)
  obtain bosa fosa where t: "pickDepositTargets deposits = (bosa, fosa)" by force
  obtain ss left where w: "walk fees loan bosa fosa (if wfl = [] then DefaultWaterfall else wfl) amount = (ss, left)" by force
  have l': "bl_primary_active_loan (B s) cp = (case loan of None \<Rightarrow> Inl MpNotFound | Some l \<Rightarrow> Inr l)"
    using l by (auto split: sum.splits if_splits)
  have "dues_ok fees loan"
    using fees_ok [OF assms(1) f] primary_ok [OF assms(1)] l' by (auto simp: dues_ok_def)
  moreover have "p = pln\<lparr>pn_splits := ss, pn_leftover := left\<rparr>"
    using assms(2) l dp f t w by (simp add: runWaterfall_def Let_def)
  ultimately show thesis using that l' dp f t w by blast
qed

lemma Run_ok:
  assumes "ok s" "Run D (B s) event [] = Inr p" "dParse D (ie_amount event) = Some amount" "scaled 2 amount"
  shows "0 < amount \<and> plan_ok amount p \<and> pn_event_id p = ie_id event"
proof -
  let ?p0 = "\<lparr> pn_event_id = ie_id event, pn_amount = amount, pn_splits = [], pn_leftover = 0 \<rparr>"
  have pos: "0 < amount" using assms(2,3) by (auto simp: Run_def)
  then have m: "money amount" using assms(4) by (simp add: money_def)
  have r: "runDirectLoan (B s) event amount ?p0 = Inr p \<or> runDirectDeposit (B s) event amount ?p0 = Inr p \<or>
      Inr p = (Inr (?p0\<lparr>pn_leftover := amount\<rparr>) :: mp_error + plan) \<or>
      (\<exists>cp. runWaterfall (B s) cp amount [] ?p0 = Inr p)"
    using assms(2,3) by (auto simp: Run_def Let_def split: if_splits option.splits)
  consider "runDirectLoan (B s) event amount ?p0 = Inr p" | "runDirectDeposit (B s) event amount ?p0 = Inr p"
    | "p = ?p0\<lparr>pn_leftover := amount\<rparr>" | cp where "runWaterfall (B s) cp amount [] ?p0 = Inr p"
    using r by auto
  then have "plan_ok amount p \<and> pn_event_id p = ie_id event"
  proof cases
    case 1
    show ?thesis
    proof (cases "bl_loan_by_no (B s) (ie_bill_ref event)")
      case (Inl e)
      then show ?thesis using 1 m by (auto simp: runDirectLoan_def plan_ok_def split: if_splits)
    next
      case (Inr lc)
      have c: "components_ok lc" by (rule by_no_ok [OF assms(1) Inr])
      show ?thesis using 1 Inr c
          walk_loan_ok [OF m, of "[(LegLoanPenaltyDue, lc_penalty lc), (LegLoanInterestDue, lc_interest lc),
            (LegLoanPrincipalDue, lc_principal lc), (LegLoanFeesDue, lc_fees lc)]" lc]
        by (auto simp: runDirectLoan_def plan_ok_def components_ok_def loan_legs_def loan_split_ok
            simp del: walk_loan.simps)
    qed
  next
    case 2
    then show ?thesis using m pos
      by (auto simp: runDirectDeposit_def plan_ok_def money_def split_ok_def DefaultWaterfall_def loan_legs_def
          split: sum.splits if_splits)
  next
    case 3
    then show ?thesis using m by (simp add: plan_ok_def)
  next
    case 4
    from waterfall_InrE [OF assms(1) 4] obtain fees loan bosa fosa ss left where
      "dues_ok fees loan" "walk fees loan bosa fosa DefaultWaterfall amount = (ss, left)"
      "p = ?p0\<lparr>pn_splits := ss, pn_leftover := left\<rparr>" by metis
    then show ?thesis using walk_ok [OF _ m] by (simp add: plan_ok_def)
  qed
  with pos show ?thesis by blast
qed

end

text \<open>The reads of the database satisfy it when the balances stored are amounts of money.\<close>

definition loan_ok :: "loan_row \<Rightarrow> bool" where
  "loan_ok l \<longleftrightarrow> ln_id l \<noteq> uuid_Nil \<and> money (ln_penalty_balance l) \<and> money (ln_interest_balance l) \<and> money (ln_principal_balance l) \<and>
     money (ln_fees_balance l)"

definition fin_ok :: "'a fin_db_scheme \<Rightarrow> bool" where
  "fin_ok db \<longleftrightarrow> (\<forall>l\<in>set (fn_loans db). loan_ok l) \<and> (\<forall>r\<in>set (fn_fees_due db). scaled 2 (fd_amount_due r)) \<and>
     (\<forall>d\<in>set (fn_deposits db). scaled 2 (da_current_balance d)) \<and>
     distinct (map ln_id (fn_loans db)) \<and> distinct (map da_id (fn_deposits db))"

lemma components_of_ok: "loan_ok l \<Longrightarrow> components_ok (components_of l)"
  by (simp add: loan_ok_def components_ok_def components_of_def)

lemma PrimaryActiveLoanTx_Inr:
  assumes "PrimaryActiveLoanTx db cp = Inr lc"
  obtains l where "l \<in> set (fn_loans db)" "lc = components_of l" "ln_counterparty_id l = cp"
    "ln_status l = ''active'' \<or> ln_status l = ''in_arrears''"
proof -
  obtain l ls where s: "sort_key ln_created_at (filter (\<lambda>l. ln_counterparty_id l = cp \<and>
      (ln_status l = ''active'' \<or> ln_status l = ''in_arrears'')) (fn_loans db)) = l # ls"
    and lc: "lc = components_of l"
    using assms by (auto simp: PrimaryActiveLoanTx_def split: list.splits)
  have "l \<in> set (sort_key ln_created_at (filter (\<lambda>l. ln_counterparty_id l = cp \<and>
      (ln_status l = ''active'' \<or> ln_status l = ''in_arrears'')) (fn_loans db)))" by (simp add: s)
  then show thesis using that lc by auto
qed

lemma find_SomeD: "find P xs = Some x \<Longrightarrow> x \<in> set xs \<and> P x"
  by (auto simp: find_Some_iff)

lemma LoanByNoTx_Inr:
  assumes "LoanByNoTx db no = Inr lc"
  obtains l where "l \<in> set (fn_loans db)" "lc = components_of l" "ln_loan_no l = no"
  using assms by (auto simp: LoanByNoTx_def split: if_splits option.splits dest!: find_SomeD)

lemma FeesDueTx_money:
  assumes "fin_ok db" "FeesDueTx db cp = Inr x" shows "money x"
proof -
  let ?f = "filter (\<lambda>r. fd_counterparty_id r = cp \<and> (fd_status r = ''open'' \<or> fd_status r = ''partial'') \<and>
      0 < fd_amount_due r) (fn_fees_due db)"
  have x: "x = sum_list (map fd_amount_due ?f)" using assms(2) by (simp add: FeesDueTx_def)
  have "scaled 2 x" unfolding x by (rule scaled_sum_list) (use assms(1) in \<open>auto simp: fin_ok_def\<close>)
  moreover have "0 \<le> x" unfolding x by (rule sum_list_nonneg) auto
  ultimately show ?thesis by (simp add: money_def)
qed

interpretation db_port: balances_port db_balances fin_ok
proof (unfold_locales, goal_cases)
  case (1 s cp lc)
  then show ?case by (auto simp: db_balances_def fin_ok_def components_of_ok elim!: PrimaryActiveLoanTx_Inr)
next
  case (2 s no lc)
  then show ?case by (auto simp: db_balances_def fin_ok_def components_of_ok elim!: LoanByNoTx_Inr)
next
  case (3 s cp x)
  then show ?case by (auto simp: db_balances_def intro: FeesDueTx_money)
qed

end
