(* ===== verification/QueuedEntries.thy ===== *)
theory QueuedEntries
  imports Outbox
begin

text \<open>
  What a queued row says to the ledger: the net of an account over its lines, over several rows, and
  whether the two sides of a row agree.
\<close>

definition dto_amount :: "decimal_lib \<Rightarrow> string \<Rightarrow> decimal" where
  "dto_amount D s = (if s = [] then 0 else the_default 0 (dParse D s))"

definition dto_net :: "decimal_lib \<Rightarrow> post_line_dto \<Rightarrow> decimal" where
  "dto_net D l = dto_amount D (dl_credit l) - dto_amount D (dl_debit l)"

text \<open>Credits less debits of an account over queued rows, and a row whose two sides agree.\<close>

definition row_net :: "decimal_lib \<Rightarrow> string \<Rightarrow> outbox_row \<Rightarrow> decimal" where
  "row_net D code r = sum_list (map (dto_net D) (filter (\<lambda>l. dl_account_code l = code) (pq_lines (ob_payload r))))"

definition queued_net :: "decimal_lib \<Rightarrow> string \<Rightarrow> outbox_row list \<Rightarrow> decimal" where
  "queued_net D code rows = sum_list (map (row_net D code) rows)"

definition row_balanced :: "decimal_lib \<Rightarrow> outbox_row \<Rightarrow> bool" where
  "row_balanced D r \<longleftrightarrow> sum_list (map (dto_net D) (pq_lines (ob_payload r))) = 0"

lemma queued_net_simps [simp]:
  "queued_net D code [] = 0"
  "queued_net D code (r # rs) = row_net D code r + queued_net D code rs"
  "queued_net D code (rs @ ss) = queued_net D code rs + queued_net D code ss"
  by (simp_all add: queued_net_def)

lemma dto_amount_fixed: "decimal_text D \<Longrightarrow> scaled 2 x \<Longrightarrow> dto_amount D (fixed_amount D x) = x"
  by (simp add: dto_amount_def fixed_amount_def decimal_text.parse_fixed_exact decimal_text.fixed_nonempty)

lemma line_dto_net:
  "decimal_text D \<Longrightarrow> scaled 2 (pl_debit l) \<Longrightarrow> scaled 2 (pl_credit l) \<Longrightarrow>
    dto_net D (line_dto D l) = pl_credit l - pl_debit l"
  by (simp add: dto_net_def line_dto_def dto_amount_fixed)

definition pl_net :: "post_line \<Rightarrow> decimal" where
  "pl_net l = pl_credit l - pl_debit l"

lemma body_net:
  assumes "decimal_text D" "lines_scaled2 (in_lines inp)" "ob_payload r = post_body D inp"
  shows "row_net D code r = sum_list (map pl_net (filter (\<lambda>l. pl_account_code l = code) (in_lines inp)))"
    and "row_balanced D r \<longleftrightarrow> sum_list (map pl_net (in_lines inp)) = 0"
proof -
  have net: "dto_net D (line_dto D l) = pl_net l" if "l \<in> set (in_lines inp)" for l
    using assms(1,2) that by (simp add: lines_scaled2_def line_dto_net pl_net_def)
  have code: "(\<lambda>l. dl_account_code l = code) \<circ> line_dto D = (\<lambda>l. pl_account_code l = code)"
    by (simp add: fun_eq_iff line_dto_def)
  show "row_net D code r = sum_list (map pl_net (filter (\<lambda>l. pl_account_code l = code) (in_lines inp)))"
    by (auto simp: row_net_def assms(3) post_body_def filter_map code net intro!: arg_cong [where f = sum_list])
  show "row_balanced D r \<longleftrightarrow> sum_list (map pl_net (in_lines inp)) = 0"
    by (simp add: row_balanced_def assms(3) post_body_def net comp_def cong: map_cong)
qed

end
