(* ===== verification/MpesaMoves.thy ===== *)
theory MpesaMoves
  imports MpesaPlan QueuedEntries
begin

text \<open>
  What the executors and the applier do to the money: a step takes \<open>l\<close> off the loans' balances,
  adds \<open>d\<close> to the deposit balances and queues journal entries that together debit the clearing
  account 1099 with \<open>x\<close> (\<open>fin_move\<close>). Steps compose by adding their amounts.
\<close>

definition env_ok :: "fin_env \<Rightarrow> bool" where
  "env_ok E \<longleftrightarrow> decimal_text (env_dec E) \<and> rounding 2 (env_col E)"

lemma env_col_exact: "env_ok E \<Longrightarrow> scaled 2 x \<Longrightarrow> env_col E x = x"
  unfolding env_ok_def using rounding.exact by blast

lemma env_col_scaled: "env_ok E \<Longrightarrow> scaled 2 (env_col E x)"
  unfolding env_ok_def using rounding.repr by blast

section \<open>Moves\<close>

definition loan_outstanding :: "loan_row \<Rightarrow> decimal" where
  "loan_outstanding l = ln_penalty_balance l + ln_interest_balance l + ln_principal_balance l + ln_fees_balance l"

definition loans_total :: "'a fin_db_scheme \<Rightarrow> decimal" where
  "loans_total db = sum_list (map loan_outstanding (fn_loans db))"

definition deposits_total :: "'a fin_db_scheme \<Rightarrow> decimal" where
  "deposits_total db = sum_list (map da_current_balance (fn_deposits db))"

definition executor_modules :: "string set" where
  "executor_modules = {''finance.executor.repay_loan'', ''finance.executor.deposit'', ''finance.executor.fee''}"

definition fin_move :: "decimal_lib \<Rightarrow> 'a fin_db_scheme \<Rightarrow> 'a fin_db_scheme \<Rightarrow> decimal \<Rightarrow> decimal \<Rightarrow> decimal \<Rightarrow> bool" where
  "fin_move D db db' l d x \<longleftrightarrow> fin_ok db' \<and> loans_total db' = loans_total db - l \<and>
     deposits_total db' = deposits_total db + d \<and> fn_fee_catalog db' = fn_fee_catalog db \<and>
     fn_supply db \<le> fn_supply db' \<and> fin_db.more db' = fin_db.more db \<and>
     (\<exists>rows. fn_outbox db' = fn_outbox db @ rows \<and> queued_net D ''1099'' rows = - x \<and>
        (\<forall>r\<in>set rows. pq_source_module (ob_payload r) \<in> executor_modules \<and> row_balanced D r))"

lemma fin_move_refl: "fin_ok db \<Longrightarrow> fin_move D db db 0 0 0"
  by (simp add: fin_move_def)

lemma fin_move_trans:
  assumes "fin_move D db db' l d x" "fin_move D db' db'' l' d' x'"
  shows "fin_move D db db'' (l + l') (d + d') (x + x')"
proof -
  obtain rows rows' where r: "fn_outbox db' = fn_outbox db @ rows" "queued_net D ''1099'' rows = - x"
      "\<forall>r\<in>set rows. pq_source_module (ob_payload r) \<in> executor_modules \<and> row_balanced D r"
    and r': "fn_outbox db'' = fn_outbox db' @ rows'" "queued_net D ''1099'' rows' = - x'"
      "\<forall>r\<in>set rows'. pq_source_module (ob_payload r) \<in> executor_modules \<and> row_balanced D r"
    using assms by (auto simp: fin_move_def)
  have "fn_outbox db'' = fn_outbox db @ (rows @ rows') \<and> queued_net D ''1099'' (rows @ rows') = - (x + x') \<and>
      (\<forall>r\<in>set (rows @ rows'). pq_source_module (ob_payload r) \<in> executor_modules \<and> row_balanced D r)"
    using r r' by auto
  moreover have "fn_supply db \<le> fn_supply db''" using assms unfolding fin_move_def by (meson order_trans)
  ultimately show ?thesis using assms unfolding fin_move_def by (intro conjI exI) (auto simp: algebra_simps)
qed

lemma FinPostTx_Inr:
  assumes "FinPostTx E inp db = Inr (db', oid)"
  obtains row where "db' = db\<lparr>fn_outbox := fn_outbox db @ [row], fn_supply := fn_supply db + 1\<rparr>"
    "ob_payload row = post_body (env_dec E) inp" "ob_id row = fn_supply db"
proof -
  have "db' = db\<lparr>fn_outbox := fn_outbox db @ [\<lparr> ob_id = fn_supply db, ob_tenant_id = in_tenant_id inp,
      ob_payload = post_body (env_dec E) inp, ob_attempts = 0, ob_last_error = None,
      ob_enqueued_at = env_now E, ob_dispatched_at = None, ob_posted_je_id = None \<rparr>],
      fn_supply := fn_supply db + 1\<rparr>"
    using assms by (auto simp: FinPostTx_def split: if_splits)
  then show thesis by (rule that) simp_all
qed

text \<open>One queued entry on top of a change of the balances.\<close>

lemma fin_move_post:
  assumes e: "env_ok E" and p: "FinPostTx E inp db1 = Inr (db2, oid)"
    and "in_source_module inp \<in> executor_modules" "lines_scaled2 (in_lines inp)"
    and "sum_list (map pl_net (in_lines inp)) = 0"
    and "sum_list (map pl_net (filter (\<lambda>l. pl_account_code l = ''1099'') (in_lines inp))) = - x"
    and "fin_ok db1" "loans_total db1 = loans_total db - l" "deposits_total db1 = deposits_total db + d"
    and "fn_fee_catalog db1 = fn_fee_catalog db" "fn_supply db \<le> fn_supply db1"
    and "fin_db.more db1 = fin_db.more db" "fn_outbox db1 = fn_outbox db"
  shows "fin_move (env_dec E) db db2 l d x"
proof -
  obtain row where r: "db2 = db1\<lparr>fn_outbox := fn_outbox db1 @ [row], fn_supply := fn_supply db1 + 1\<rparr>"
    "ob_payload row = post_body (env_dec E) inp" "ob_id row = fn_supply db1"
    by (rule FinPostTx_Inr [OF p])
  have dt: "decimal_text (env_dec E)" using e by (simp add: env_ok_def)
  note net = body_net [OF dt assms(4) r(2)]
  have "pq_source_module (ob_payload row) = in_source_module inp" by (simp add: r(2) post_body_def)
  moreover have "fin_ok db2" "loans_total db2 = loans_total db1" "deposits_total db2 = deposits_total db1"
    using assms(7) by (simp_all add: r(1) fin_ok_def loans_total_def deposits_total_def)
  ultimately show ?thesis
    using assms(3,5,6,8-13) unfolding fin_move_def by (auto simp: r(1) net)
qed

section \<open>The executors\<close>

lemma sum_list_update_key:
  fixes g :: "'a \<Rightarrow> rat"
  assumes "distinct (map k xs)" "y \<in> set xs" "k y = i"
  shows "sum_list (map g (map (\<lambda>z. if k z = i then h z else z) xs)) = sum_list (map g xs) + g (h y) - g y"
  using assms
proof (induction xs)
  case (Cons z xs)
  show ?case
  proof (cases "k z = i")
    case True
    with Cons.prems have z: "z = y" by force
    with Cons.prems True have "\<forall>w\<in>set xs. k w \<noteq> i" by (auto simp: image_iff)
    then have "map (\<lambda>z. if k z = i then h z else z) xs = xs" by (simp add: map_idI)
    with z True show ?thesis by simp
  next
    case False
    with Cons show ?thesis by auto
  qed
qed simp

definition alloc_ok :: "allocation \<Rightarrow> bool" where
  "alloc_ok a \<longleftrightarrow> money (al_penalty a) \<and> money (al_interest a) \<and> money (al_principal a) \<and> money (al_fees a)"

lemma alloc_Total_money: "alloc_ok a \<Longrightarrow> money (alloc_Total a)"
  by (simp add: alloc_ok_def alloc_Total_def money_add)

lemma apply_allocation_ok:
  assumes "env_ok E" "loan_ok l" "alloc_ok a" "allocation_fits a l = Inr ()"
  shows "loan_ok (apply_allocation E a l)"
    "loan_outstanding (apply_allocation E a l) = loan_outstanding l - alloc_Total a"
proof -
  have m: "money (ln_penalty_balance l - al_penalty a)" "money (ln_interest_balance l - al_interest a)"
    "money (ln_principal_balance l - al_principal a)" "money (ln_fees_balance l - al_fees a)"
    using assms(2-4) by (auto simp: loan_ok_def alloc_ok_def allocation_fits_def intro: money_diff)
  then have "env_col E (ln_penalty_balance l - al_penalty a) = ln_penalty_balance l - al_penalty a"
    "env_col E (ln_interest_balance l - al_interest a) = ln_interest_balance l - al_interest a"
    "env_col E (ln_principal_balance l - al_principal a) = ln_principal_balance l - al_principal a"
    "env_col E (ln_fees_balance l - al_fees a) = ln_fees_balance l - al_fees a"
    using env_col_exact [OF assms(1)] by (auto simp: money_def)
  with m assms(2) show "loan_ok (apply_allocation E a l)"
    "loan_outstanding (apply_allocation E a l) = loan_outstanding l - alloc_Total a"
    by (simp_all add: loan_ok_def apply_allocation_def loan_outstanding_def alloc_Total_def)
qed

lemma repayment_lines_net:
  "sum_list (map pl_net (repayment_lines a)) = 0"
  "sum_list (map pl_net (filter (\<lambda>l. pl_account_code l = ''1099'') (repayment_lines a))) = - alloc_Total a"
  "alloc_ok a \<Longrightarrow> lines_scaled2 (repayment_lines a)"
  using alloc_Total_money [of a]
  by (auto simp: repayment_lines_def debit_line_def credit_line_def credit_if_def pl_net_def alloc_Total_def
      lines_scaled2_def alloc_ok_def money_def)

lemma RepayLoanTx_move:
  assumes e: "env_ok E" and ok: "fin_ok db" and a: "alloc_ok (ri_allocation inp)"
    and run: "RepayLoanTx E inp db = Inr (db', res)"
  shows "fin_move (env_dec E) db db' (alloc_Total (ri_allocation inp)) 0 (alloc_Total (ri_allocation inp))"
proof -
  let ?a = "ri_allocation inp"
  obtain l where l: "find_loan db (ri_loan_id inp) = Some l" and fits: "allocation_fits ?a l = Inr ()"
    using run by (auto simp: RepayLoanTx_def Let_def split: option.splits)
  let ?vd = "value_date_of E (ri_value_date inp)"
  let ?db1 = "update_loan (ri_loan_id inp) (apply_allocation E ?a) db"
  let ?db2 = "?db1\<lparr>fn_loan_txns := fn_loan_txns ?db1 @ [loan_txn_of E inp l ?vd (fn_supply db)],
                   fn_supply := fn_supply db + 1\<rparr>"
  obtain oid where p: "postRepaymentGL E inp (fn_supply db) ?vd ?db2 = Inr (db', oid)"
    using run l fits by (auto simp: RepayLoanTx_def Let_def)
  have lm: "l \<in> set (fn_loans db)" "ln_id l = ri_loan_id inp"
    using l by (auto simp: find_loan_def dest: find_SomeD)
  have uniq: "x = l" if "x \<in> set (fn_loans db)" "ln_id x = ri_loan_id inp" for x
    using ok lm that by (auto simp: fin_ok_def distinct_map inj_on_def)
  have lok: "loan_ok l" using ok lm by (simp add: fin_ok_def)
  note up = apply_allocation_ok [OF e lok a fits]
  have ids: "map ln_id (map (\<lambda>x. if ln_id x = ri_loan_id inp then apply_allocation E ?a x else x) (fn_loans db))
      = map ln_id (fn_loans db)"
    by (simp add: apply_allocation_def)
  have f2: "fin_ok ?db2"
    using ok up(1) uniq ids by (auto simp: fin_ok_def update_loan_def simp del: map_map)
  have t2: "loans_total ?db2 = loans_total db - alloc_Total ?a"
    using sum_list_update_key [of ln_id "fn_loans db" l "ri_loan_id inp" loan_outstanding "apply_allocation E ?a"]
      ok lm up(2) by (simp add: loans_total_def update_loan_def fin_ok_def)
  show ?thesis
    by (rule fin_move_post [OF e p [unfolded postRepaymentGL_def] _ _ _ _ f2 t2])
      (simp_all add: executor_modules_def repayment_lines_net a deposits_total_def update_loan_def)
qed

lemma DepositTx_move:
  assumes e: "env_ok E" and ok: "fin_ok db" and a: "scaled 2 (di_amount inp)"
    and run: "DepositTx E inp db = Inr (db', res)"
  shows "fin_move (env_dec E) db db' 0 (di_amount inp) (di_amount inp)"
proof -
  obtain d where d: "find_deposit db (di_account_id inp) = Some d"
    using run by (auto simp: DepositTx_def Let_def split: option.splits)
  let ?new = "da_current_balance d + di_amount inp"
  let ?f = "\<lambda>d'. if da_current_balance d' = da_current_balance d
     then d'\<lparr>da_current_balance := env_col E ?new, da_available_balance := env_col E ?new,
             da_last_activity_at := Some (env_now E), da_last_deposit_at := Some (env_now E)\<rparr> else d'"
  let ?db1 = "update_deposit (di_account_id inp) ?f db"
  obtain t dinp oid where p: "FinPostTx E dinp (?db1\<lparr>fn_deposit_txns := fn_deposit_txns ?db1 @ [t],
      fn_supply := fn_supply ?db1 + 1\<rparr>) = Inr (db', oid)"
    "in_source_module dinp = ''finance.executor.deposit''"
    "in_lines dinp = [debit_line ''1099'' (di_amount inp) (''M-PESA clearing'' @ arrow @ ''savings''),
                      credit_line ''2000'' (di_amount inp) ''Member savings credit'']"
    using run d by (fastforce simp: DepositTx_def Let_def bump_balance_def insert_deposit_txn_def split: if_splits)
  let ?db2 = "?db1\<lparr>fn_deposit_txns := fn_deposit_txns ?db1 @ [t], fn_supply := fn_supply ?db1 + 1\<rparr>"
  have dm: "d \<in> set (fn_deposits db)" "da_id d = di_account_id inp"
    using d by (auto simp: find_deposit_def dest: find_SomeD)
  have uniq: "x = d" if "x \<in> set (fn_deposits db)" "da_id x = di_account_id inp" for x
    using ok dm that by (auto simp: fin_ok_def distinct_map inj_on_def)
  have sc: "scaled 2 ?new" using ok dm(1) a by (auto simp: fin_ok_def)
  note col = env_col_exact [OF e sc]
  have ids: "map da_id (map (\<lambda>x. if da_id x = di_account_id inp then ?f x else x) (fn_deposits db))
      = map da_id (fn_deposits db)" by simp
  have f2: "fin_ok ?db2"
    using ok sc col ids by (auto simp: fin_ok_def update_deposit_def simp del: map_map)
  have t2: "deposits_total ?db2 = deposits_total db + di_amount inp"
    using sum_list_update_key [of da_id "fn_deposits db" d "di_account_id inp" da_current_balance ?f]
      ok dm col by (simp add: deposits_total_def update_deposit_def fin_ok_def)
  show ?thesis
    by (rule fin_move_post [OF e p(1) _ _ _ _ f2 _ t2])
      (use a in \<open>simp_all add: p(2,3) executor_modules_def debit_line_def credit_line_def pl_net_def
        lines_scaled2_def loans_total_def update_deposit_def\<close>)
qed

definition catalog_ok :: "'a fin_db_scheme \<Rightarrow> bool" where
  "catalog_ok db \<longleftrightarrow> (\<forall>f\<in>set (fn_fee_catalog db). fe_gl_credit_code f \<noteq> ''1099'')"

lemma PostFeeTx_move:
  assumes e: "env_ok E" and ok: "fin_ok db" "catalog_ok db" and a: "scaled 2 (fi_amount inp)"
    and run: "PostFeeTx E inp db = Inr (db', res)"
  shows "fin_move (env_dec E) db db' 0 0 (fi_amount inp)"
proof -
  obtain f where f: "find (\<lambda>f. fe_code f = fi_fee_code inp) (fn_fee_catalog db) = Some f"
    using run by (auto simp: PostFeeTx_def Let_def split: option.splits)
  then have g: "fe_gl_credit_code f \<noteq> ''1099''" using ok(2) by (auto simp: catalog_ok_def dest: find_SomeD)
  let ?db1 = "db\<lparr>fn_fees_due := map (reduce_fee E (fi_fee_code inp) (fi_amount inp)) (fn_fees_due db),
      fn_supply := fn_supply db + 1\<rparr>"
  obtain inp' oid where p: "FinPostTx E inp' ?db1 = Inr (db', oid)"
    "in_source_module inp' = ''finance.executor.fee''"
    "in_lines inp' = [debit_line ''1099'' (fi_amount inp) (''M-PESA clearing'' @ arrow @ ''fees''),
                      credit_line (fe_gl_credit_code f) (fi_amount inp) (fe_label f)]"
    using run f by (fastforce simp: PostFeeTx_def Let_def)
  have f1: "fin_ok ?db1"
    using ok(1) env_col_scaled [OF e] by (auto simp: fin_ok_def reduce_fee_def)
  show ?thesis
    by (rule fin_move_post [OF e p(1) _ _ _ _ f1])
      (use a g in \<open>simp_all add: p(2,3) executor_modules_def debit_line_def credit_line_def pl_net_def
        lines_scaled2_def loans_total_def deposits_total_def\<close>)
qed

section \<open>The applier\<close>

definition state_ok :: "'a fin_db_scheme apply_state \<Rightarrow> bool" where
  "state_ok st \<longleftrightarrow> fin_ok (as_db st) \<and> catalog_ok (as_db st) \<and> alloc_ok (as_alloc st) \<and>
     (as_loan st = uuid_Nil \<longrightarrow> as_alloc st = alloc_zero)"

definition pending :: "'a fin_db_scheme apply_state \<Rightarrow> decimal" where
  "pending st = alloc_Total (as_alloc st)"

definition loan_part :: "split \<Rightarrow> decimal" where
  "loan_part s = (if sp_leg s \<in> loan_legs then sp_amount s else 0)"

definition deposit_part :: "split \<Rightarrow> decimal" where
  "deposit_part s = (if sp_leg s \<in> {LegBOSATopUp, LegFOSATopUp} then sp_amount s else 0)"

text \<open>A step of the applier that accounts for amounts \<open>l\<close>, \<open>d\<close>, \<open>x\<close>, the pending group included.\<close>

definition apply_move :: "decimal_lib \<Rightarrow> 'a fin_db_scheme apply_state \<Rightarrow> 'a fin_db_scheme apply_state
    \<Rightarrow> decimal \<Rightarrow> decimal \<Rightarrow> decimal \<Rightarrow> bool" where
  "apply_move D st st' l d x \<longleftrightarrow> state_ok st' \<and>
     fin_move D (as_db st) (as_db st') (l + pending st - pending st') d (x + pending st - pending st')"

lemma alloc_zero_simps [simp]: "alloc_ok alloc_zero" "alloc_Total alloc_zero = 0"
  by (simp_all add: alloc_zero_def alloc_ok_def alloc_Total_def)

lemma catalog_move: "catalog_ok db \<Longrightarrow> fin_move D db db' l d x \<Longrightarrow> catalog_ok db'"
  by (simp add: catalog_ok_def fin_move_def)

lemma apply_move_trans:
  assumes "apply_move D st st' l d x" "apply_move D st' st'' l' d' x'"
  shows "apply_move D st st'' (l + l') (d + d') (x + x')"
  using assms fin_move_trans [of D "as_db st" "as_db st'" _ _ _ "as_db st''"]
  unfolding apply_move_def by (fastforce simp: algebra_simps)

lemma map_fin_Inr [simp]: "map_fin r = Inr x \<longleftrightarrow> r = Inr x"
  by (simp add: map_fin_def split: sum.split)

lemma flushLoan_move:
  assumes e: "env_ok E" and ok: "state_ok st" and run: "flushLoan E inp st = Inr st'"
  shows "apply_move (env_dec E) st st' 0 0 0" "as_loan st' = uuid_Nil" "as_alloc st' = alloc_zero"
proof -
  have "apply_move (env_dec E) st st' 0 0 0 \<and> as_loan st' = uuid_Nil \<and> as_alloc st' = alloc_zero"
  proof (cases "as_loan st = uuid_Nil \<or> alloc_Total (as_alloc st) = 0")
    case True
    then have st': "st' = st\<lparr>as_alloc := alloc_zero, as_loan := uuid_Nil\<rparr>"
      using run by (auto simp: flushLoan_def)
    have "pending st = 0" using True ok by (auto simp: pending_def state_ok_def)
    with ok show ?thesis by (simp add: st' apply_move_def state_ok_def pending_def fin_move_refl)
  next
    case False
    obtain rinp db res where p: "RepayLoanTx E rinp (as_db st) = Inr (db, res)" "ri_allocation rinp = as_alloc st"
      "as_db st' = db" "as_alloc st' = alloc_zero" "as_loan st' = uuid_Nil"
      using run False by (clarsimp simp: flushLoan_def)
    have m: "fin_move (env_dec E) (as_db st) db (pending st) 0 (pending st)"
      using RepayLoanTx_move [OF e _ _ p(1)] ok p(2) by (simp add: state_ok_def pending_def)
    then show ?thesis using p(3-5) ok catalog_move [OF _ m]
      by (simp add: apply_move_def state_ok_def pending_def fin_move_def)
  qed
  then show "apply_move (env_dec E) st st' 0 0 0" "as_loan st' = uuid_Nil" "as_alloc st' = alloc_zero" by auto
qed

lemma add_to_ok:
  assumes "alloc_ok a" "0 < x" "scaled 2 x" "lg \<in> loan_legs"
  shows "alloc_ok (add_to lg x a)" "alloc_Total (add_to lg x a) = alloc_Total a + x"
proof -
  have "money x" using assms by (simp add: money_def)
  with assms show "alloc_ok (add_to lg x a)" "alloc_Total (add_to lg x a) = alloc_Total a + x"
    by (auto simp: add_to_def loan_legs_def alloc_ok_def alloc_Total_def money_add)
qed

lemma apply_loan_split_move:
  assumes e: "env_ok E" and ok: "state_ok st" and s: "split_ok legs sp" "sp_leg sp \<in> loan_legs"
    and run: "apply_loan_split E inp sp st = Inr st'"
  shows "apply_move (env_dec E) st st' (sp_amount sp) 0 (sp_amount sp)"
proof -
  obtain tid st1 where t: "sp_target_id sp = Some tid"
      "(if as_loan st \<noteq> uuid_Nil \<and> as_loan st \<noteq> tid then flushLoan E inp st else Inr st) = Inr st1"
    and st': "st' = st1\<lparr>as_loan := tid, as_alloc := add_to (sp_leg sp) (sp_amount sp) (as_alloc st1)\<rparr>"
    using run by (auto simp: apply_loan_split_def split: option.splits)
  have m1: "apply_move (env_dec E) st st1 0 0 0"
    using t(2) flushLoan_move(1) [OF e ok] ok
    by (auto simp: apply_move_def state_ok_def fin_move_refl split: if_splits)
  then have ok1: "state_ok st1" by (simp add: apply_move_def)
  have a: "alloc_ok (add_to (sp_leg sp) (sp_amount sp) (as_alloc st1))"
    "alloc_Total (add_to (sp_leg sp) (sp_amount sp) (as_alloc st1)) = alloc_Total (as_alloc st1) + sp_amount sp"
    using add_to_ok [of "as_alloc st1" "sp_amount sp" "sp_leg sp"] ok1 s by (auto simp: state_ok_def split_ok_def)
  have "tid \<noteq> uuid_Nil" using s t(1) by (simp add: split_ok_def)
  then have "apply_move (env_dec E) st1 st' (sp_amount sp) 0 (sp_amount sp)"
    using a ok1 by (simp add: apply_move_def st' state_ok_def pending_def fin_move_refl)
  from apply_move_trans [OF m1 this] show ?thesis by simp
qed

lemma apply_deposit_split_move:
  assumes e: "env_ok E" and ok: "state_ok st" and s: "split_ok legs sp"
    and run: "apply_deposit_split E inp sp st = Inr st'"
  shows "apply_move (env_dec E) st st' 0 (sp_amount sp) (sp_amount sp)"
proof -
  obtain st1 where f: "flushLoan E inp st = Inr st1"
    using run by (auto simp: apply_deposit_split_def)
  note m1 = flushLoan_move [OF e ok f]
  have ok1: "state_ok st1" using m1(1) by (simp add: apply_move_def)
  obtain dinp db res where p: "DepositTx E dinp (as_db st1) = Inr (db, res)" "di_amount dinp = sp_amount sp"
    "as_db st' = db" "as_alloc st' = as_alloc st1" "as_loan st' = as_loan st1"
    using run f by (fastforce simp: apply_deposit_split_def split: option.splits)
  have m2: "fin_move (env_dec E) (as_db st1) db 0 (sp_amount sp) (sp_amount sp)"
    using DepositTx_move [OF e _ _ p(1)] ok1 s p(2) by (simp add: state_ok_def split_ok_def)
  then have "apply_move (env_dec E) st1 st' 0 (sp_amount sp) (sp_amount sp)"
    using p(3-5) ok1 catalog_move [OF _ m2] by (simp add: apply_move_def state_ok_def pending_def fin_move_def)
  from apply_move_trans [OF m1(1) this] show ?thesis by simp
qed

lemma apply_fee_split_move:
  assumes e: "env_ok E" and ok: "state_ok st" and s: "split_ok legs sp"
    and run: "apply_fee_split E inp sp st = Inr st'"
  shows "apply_move (env_dec E) st st' 0 0 (sp_amount sp)"
proof -
  obtain st1 where f: "flushLoan E inp st = Inr st1"
    using run by (auto simp: apply_fee_split_def)
  note m1 = flushLoan_move [OF e ok f]
  have ok1: "state_ok st1" using m1(1) by (simp add: apply_move_def)
  obtain finp db res where p: "PostFeeTx E finp (as_db st1) = Inr (db, res)" "fi_amount finp = sp_amount sp"
    "as_db st' = db" "as_alloc st' = as_alloc st1" "as_loan st' = as_loan st1"
    using run f by (fastforce simp: apply_fee_split_def)
  have m2: "fin_move (env_dec E) (as_db st1) db 0 0 (sp_amount sp)"
    using PostFeeTx_move [OF e _ _ _ p(1)] ok1 s p(2) by (simp add: state_ok_def split_ok_def)
  then have "apply_move (env_dec E) st1 st' 0 0 (sp_amount sp)"
    using p(3-5) ok1 catalog_move [OF _ m2] by (simp add: apply_move_def state_ok_def pending_def fin_move_def)
  from apply_move_trans [OF m1(1) this] show ?thesis by simp
qed

lemma apply_split_move:
  assumes "env_ok E" "state_ok st" "split_ok (set DefaultWaterfall) sp" "apply_split E inp sp st = Inr st'"
  shows "apply_move (env_dec E) st st' (loan_part sp) (deposit_part sp) (sp_amount sp)"
  using assms apply_loan_split_move [OF assms(1-3)] apply_deposit_split_move [OF assms(1-3)]
    apply_fee_split_move [OF assms(1-3)]
  by (auto simp: apply_split_def loan_part_def deposit_part_def loan_legs_def split_ok_def DefaultWaterfall_def
      split: leg.splits)

lemma apply_splits_move:
  assumes "env_ok E"
  shows "state_ok st \<Longrightarrow> \<forall>s\<in>set sps. split_ok (set DefaultWaterfall) s \<Longrightarrow> apply_splits E inp sps st = Inr st' \<Longrightarrow>
    apply_move (env_dec E) st st' (sum_list (map loan_part sps)) (sum_list (map deposit_part sps)) (split_total sps)"
proof (induction sps arbitrary: st)
  case Nil
  then show ?case by (simp add: apply_move_def fin_move_refl state_ok_def)
next
  case (Cons sp sps)
  obtain st1 where s: "apply_split E inp sp st = Inr st1" "apply_splits E inp sps st1 = Inr st'"
    using Cons.prems(3) by auto
  have m: "apply_move (env_dec E) st st1 (loan_part sp) (deposit_part sp) (sp_amount sp)"
    by (rule apply_split_move [OF assms Cons.prems(1) _ s(1)]) (use Cons.prems in simp)
  then have "state_ok st1" by (simp add: apply_move_def)
  from apply_move_trans [OF m Cons.IH [OF this _ s(2)]] Cons.prems(2) show ?case by simp
qed

lemma ApplyPlanTx_move:
  assumes e: "env_ok E" and ok: "fin_ok db" "catalog_ok db"
    and s: "\<forall>s\<in>set (pn_splits (ai_plan inp)). split_ok (set DefaultWaterfall) s"
    and run: "ApplyPlanTx E inp db = Inr (db', res)"
  shows "fin_move (env_dec E) db db' (sum_list (map loan_part (pn_splits (ai_plan inp))))
    (sum_list (map deposit_part (pn_splits (ai_plan inp)))) (split_total (pn_splits (ai_plan inp)))"
proof -
  let ?st = "\<lparr> as_db = db, as_results = [], as_alloc = alloc_zero, as_loan = uuid_Nil \<rparr>"
  obtain st1 st2 where r: "apply_splits E inp (pn_splits (ai_plan inp)) ?st = Inr st1"
    "flushLoan E inp st1 = Inr st2" "as_db st2 = db'"
    using run by (auto simp: ApplyPlanTx_def split: if_splits)
  have ok0: "state_ok ?st" using ok by (simp add: state_ok_def)
  have m1: "apply_move (env_dec E) ?st st1 (sum_list (map loan_part (pn_splits (ai_plan inp))))
      (sum_list (map deposit_part (pn_splits (ai_plan inp)))) (split_total (pn_splits (ai_plan inp)))"
    by (rule apply_splits_move [OF e ok0 s r(1)])
  then have ok1: "state_ok st1" by (simp add: apply_move_def)
  note m2 = flushLoan_move [OF e ok1 r(2)]
  have "pending ?st = 0" "pending st2 = 0" by (simp_all add: pending_def m2(3))
  with apply_move_trans [OF m1 m2(1)] r(3) show ?thesis by (simp add: apply_move_def)
qed

end
