(* ===== verification/MpesaSystem.thy ===== *)
theory MpesaSystem
  imports MpesaMoves
begin

text \<open>
  The M-PESA service as a whole: the webhook's two transactions, any number of distributor workers
  and the other services that share the database, interleaved one transaction at a time. The
  invariant says that an event has its one run and its one cash entry exactly when it is
  distributed, and that what the clearing account holds is what the runs left over.
\<close>

section \<open>One event\<close>

lemma find_event_mem: "find_event db eid = Some r \<Longrightarrow> r \<in> set (mp_events db) \<and> ev_id r = eid"
  by (auto simp: find_event_def dest: find_SomeD)

lemma find_update_event:
  assumes "\<And>r. ev_id (f r) = ev_id r"
  shows "find_event (update_event eid f db) k = map_option (\<lambda>r. if ev_id r = eid then f r else r) (find_event db k)"
proof -
  have "find (\<lambda>r. ev_id r = k) (map (\<lambda>r. if ev_id r = eid then f r else r) xs) =
      map_option (\<lambda>r. if ev_id r = eid then f r else r) (find (\<lambda>r. ev_id r = k) xs)" for xs
    by (induction xs) (auto simp: assms)
  then show ?thesis by (simp add: find_event_def update_event_def)
qed

definition run_of :: "mp_config \<Rightarrow> fin_env \<Rightarrow> event_row \<Rightarrow> plan \<Rightarrow> uuid \<Rightarrow> run_row" where
  "run_of cfg E r pln rid = \<lparr> rn_id = rid, rn_inbound_event_id = ev_id r, rn_splits = pn_splits pln,
     rn_status = RunPending, rn_cash_account_code = cf_cash cfg, rn_clearing_account_code = cf_clearing cfg,
     rn_resolved_member_id = ev_resolved_member_id r, rn_resolved_via = ev_resolved_via r,
     rn_amount = env_col E (pn_amount pln), rn_posting_journal_id = None \<rparr>"

text \<open>A successful \<open>Process\<close>, step by step: \<open>db1\<close> has the run, \<open>db2\<close> the cash entry, \<open>db3\<close> the postings.\<close>

lemma Process_InrE:
  assumes "Process cfg E db tenant eid = Inr (db', res)"
  obtains r event pln db1 db2 db3 ob vd where
    "find_event db eid = Some r" "scan_event (env_dec E) r = Inr event" "ev_status r = InboundReceived"
    "Run (env_dec E) (db_balances db) event [] = Inr pln"
    "db1 = db\<lparr>mp_runs := mp_runs db @ [run_of cfg E r pln (fn_supply db)], fn_supply := fn_supply db + 1\<rparr>"
    "PostCashLegTx E db1 tenant eid (pn_amount pln) (cf_cash cfg) (cf_clearing cfg) vd = Inr (db2, ob)"
    "if cf_apply cfg \<and> pn_splits pln \<noteq> []
     then \<exists>inp rs. ApplyPlanTx E inp db2 = Inr (db3, rs) \<and> ai_plan inp = pln else db3 = db2"
    "db' = update_event eid (\<lambda>r. r\<lparr>ev_status := InboundDistributed, ev_distribution_run_id := Some (fn_supply db),
        ev_error_text := None, ev_locked_by := None\<rparr>)
      (update_run (fn_supply db) (\<lambda>r. r\<lparr>rn_status := RunPosted, rn_posting_journal_id := Some ob\<rparr>) db3)"
    "res = \<lparr> pr_event_id = eid, pr_run_id = fn_supply db, pr_splits = pn_splits pln, pr_leftover = pn_leftover pln \<rparr>"
proof -
  obtain event where e: "EventByIDTx (env_dec E) db eid = Inr event" and st: "ie_status event = InboundReceived"
    using assms by (auto simp: Process_def)
  obtain r where r: "find_event db eid = Some r" "scan_event (env_dec E) r = Inr event"
    using e by (auto simp: EventByIDTx_def split: option.splits)
  have ev: "ev_status r = InboundReceived" "ie_resolved_member_id event = ev_resolved_member_id r"
    "ie_resolved_via event = ev_resolved_via r" "ev_id r = eid"
    using r st find_event_mem [OF r(1)] by (auto simp: scan_event_def split: option.splits)
  obtain pln where p: "Run (env_dec E) (db_balances db) event [] = Inr pln"
    using assms e st by (auto simp: Process_def)
  let ?db1 = "db\<lparr>mp_runs := mp_runs db @ [run_of cfg E r pln (fn_supply db)], fn_supply := fn_supply db + 1\<rparr>"
  let ?vd = "case ie_transaction_time event of None \<Rightarrow> env_time E | Some t \<Rightarrow> t"
  have c: "CreateRunTx E db \<lparr> cri_tenant_id = tenant, cri_inbound_event_id = eid,
         cri_resolved_member_id = ie_resolved_member_id event, cri_resolved_via = ie_resolved_via event,
         cri_amount = pn_amount pln, cri_splits = pn_splits pln, cri_cash_account_code = cf_cash cfg,
         cri_clearing_account_code = cf_clearing cfg \<rparr> = Inr (?db1, fn_supply db)"
    using assms e st p ev by (auto simp: Process_def CreateRunTx_def run_of_def split: if_splits)
  obtain db2 ob where l: "PostCashLegTx E ?db1 tenant eid (pn_amount pln) (cf_cash cfg) (cf_clearing cfg) ?vd = Inr (db2, ob)"
    using assms e st p c by (auto simp: Process_def Let_def)
  define inp where "inp = \<lparr> ai_tenant_id = tenant, ai_plan = pln, ai_external_ref = ie_transaction_id event,
      ai_channel = ''mpesa'', ai_channel_ref = ie_transaction_id event, ai_value_date = ?vd, ai_initiated_by = uuid_Nil \<rparr>"
  have rest: "bind_res (if cf_apply cfg \<and> pn_splits pln \<noteq> []
         then bind_res (ApplyPlanTx E inp db2) (\<lambda>(db3, _). Inr db3) else Inr db2) (\<lambda>db3.
     bind_res (MarkRunPostedTx db3 (fn_supply db) (Some ob)) (\<lambda>db4.
     bind_res (MarkDistributedTx db4 eid (fn_supply db)) (\<lambda>db5.
       Inr (db5, \<lparr> pr_event_id = eid, pr_run_id = fn_supply db, pr_splits = pn_splits pln,
                   pr_leftover = pn_leftover pln \<rparr>)))) = Inr (db', res)"
    unfolding inp_def using assms e st p c l
    by (simp add: Process_def Let_def del: bind_res_Inr_iff split del: if_split)
  obtain db3 where a: "(if cf_apply cfg \<and> pn_splits pln \<noteq> []
         then bind_res (ApplyPlanTx E inp db2) (\<lambda>(db3, _). Inr db3) else Inr db2) = Inr db3"
    and m: "bind_res (MarkRunPostedTx db3 (fn_supply db) (Some ob)) (\<lambda>db4.
     bind_res (MarkDistributedTx db4 eid (fn_supply db)) (\<lambda>db5.
       Inr (db5, \<lparr> pr_event_id = eid, pr_run_id = fn_supply db, pr_splits = pn_splits pln,
                   pr_leftover = pn_leftover pln \<rparr>))) = Inr (db', res)"
    using rest unfolding bind_res_Inr_iff by blast
  have "ai_plan inp = pln" by (simp add: inp_def)
  then have a': "if cf_apply cfg \<and> pn_splits pln \<noteq> []
     then \<exists>inp rs. ApplyPlanTx E inp db2 = Inr (db3, rs) \<and> ai_plan inp = pln else db3 = db2"
    using a by (auto split: if_splits)
  show thesis
    by (rule that [OF r ev(1) p refl l a']) (use m in \<open>auto simp: MarkRunPostedTx_def MarkDistributedTx_def split: if_splits\<close>)
qed

text \<open>Whatever the plan, the executors leave the M-PESA service's own tables alone.\<close>

lemma more_eqI: "fin_db.more db' = fin_db.more db \<Longrightarrow> mp_events db' = mp_events db \<and> mp_runs db' = mp_runs db"
  for db db' :: "'a mp_db_scheme"
  by (cases db; cases db') simp

lemma FinPostTx_more: "FinPostTx E inp db = Inr (db', oid) \<Longrightarrow> fin_db.more db' = fin_db.more db"
  by (erule FinPostTx_Inr) simp

lemma RepayLoanTx_more: "RepayLoanTx E inp db = Inr (db', res) \<Longrightarrow> fin_db.more db' = fin_db.more db"
  by (auto simp: RepayLoanTx_def postRepaymentGL_def Let_def update_loan_def split: option.splits
      dest!: FinPostTx_more)

lemma DepositTx_more: "DepositTx E inp db = Inr (db', res) \<Longrightarrow> fin_db.more db' = fin_db.more db"
  by (auto simp: DepositTx_def bump_balance_def insert_deposit_txn_def Let_def update_deposit_def
      split: option.splits if_splits dest!: FinPostTx_more)

lemma PostFeeTx_more: "PostFeeTx E inp db = Inr (db', res) \<Longrightarrow> fin_db.more db' = fin_db.more db"
  by (auto simp: PostFeeTx_def Let_def split: option.splits dest!: FinPostTx_more)

lemma flushLoan_more: "flushLoan E inp st = Inr st' \<Longrightarrow> fin_db.more (as_db st') = fin_db.more (as_db st)"
  by (auto simp: flushLoan_def split: if_splits dest!: RepayLoanTx_more)

lemma apply_split_more: "apply_split E inp sp st = Inr st' \<Longrightarrow> fin_db.more (as_db st') = fin_db.more (as_db st)"
  by (auto simp: apply_split_def apply_loan_split_def apply_deposit_split_def apply_fee_split_def
      split: leg.splits option.splits if_splits dest!: flushLoan_more DepositTx_more PostFeeTx_more)

lemma apply_splits_more: "apply_splits E inp sps st = Inr st' \<Longrightarrow> fin_db.more (as_db st') = fin_db.more (as_db st)"
  by (induction sps arbitrary: st) (auto dest!: apply_split_more)

lemma ApplyPlanTx_more: "ApplyPlanTx E inp db = Inr (db', res) \<Longrightarrow> fin_db.more db' = fin_db.more db"
  by (auto simp: ApplyPlanTx_def split: if_splits dest!: apply_splits_more flushLoan_more)

lemma Process_events:
  assumes "Process cfg E db tenant eid = Inr (db', res)"
  shows "mp_events db' = mp_events (update_event eid (\<lambda>r. r\<lparr>ev_status := InboundDistributed,
    ev_distribution_run_id := Some (fn_supply db), ev_error_text := None, ev_locked_by := None\<rparr>) db)"
proof -
  obtain r pln db1 db2 db3 ob vd where p:
    "db1 = db\<lparr>mp_runs := mp_runs db @ [run_of cfg E r pln (fn_supply db)], fn_supply := fn_supply db + 1\<rparr>"
    "PostCashLegTx E db1 tenant eid (pn_amount pln) (cf_cash cfg) (cf_clearing cfg) vd = Inr (db2, ob)"
    "if cf_apply cfg \<and> pn_splits pln \<noteq> []
     then \<exists>inp rs. ApplyPlanTx E inp db2 = Inr (db3, rs) \<and> ai_plan inp = pln else db3 = db2"
    "db' = update_event eid (\<lambda>r. r\<lparr>ev_status := InboundDistributed, ev_distribution_run_id := Some (fn_supply db),
        ev_error_text := None, ev_locked_by := None\<rparr>)
      (update_run (fn_supply db) (\<lambda>r. r\<lparr>rn_status := RunPosted, rn_posting_journal_id := Some ob\<rparr>) db3)"
    by (rule Process_InrE [OF assms]) (rule that; assumption)
  have "fin_db.more db3 = fin_db.more db2" using p(3) by (auto split: if_splits dest: ApplyPlanTx_more)
  then have "mp_events db3 = mp_events db2" by (rule more_eqI [THEN conjunct1])
  also have "mp_events db2 = mp_events db" using p(1,2) by (auto simp: PostCashLegTx_def Let_def split: if_splits)
  finally show ?thesis by (simp add: p(4) update_event_def update_run_def)
qed

section \<open>What is queued\<close>

definition cash_module :: string where
  "cash_module = ''mpesa.distribution.cash_leg''"

definition mpesa_modules :: "string set" where
  "mpesa_modules = insert cash_module executor_modules"

definition req_net :: "decimal_lib \<Rightarrow> string \<Rightarrow> post_request \<Rightarrow> decimal" where
  "req_net D code q = sum_list (map (dto_net D) (filter (\<lambda>l. dl_account_code l = code) (pq_lines q)))"

lemma row_net_req: "row_net D code r = req_net D code (ob_payload r)"
  by (simp add: row_net_def req_net_def)

text \<open>The net of the clearing account over the M-PESA requests, and the cash entries of an event.\<close>

definition mpesa_net :: "decimal_lib \<Rightarrow> post_request list \<Rightarrow> decimal" where
  "mpesa_net D qs = sum_list (map (req_net D ''1099'') (filter (\<lambda>q. pq_source_module q \<in> mpesa_modules) qs))"

definition cash_reqs :: "(uuid \<Rightarrow> string) \<Rightarrow> uuid \<Rightarrow> post_request list \<Rightarrow> post_request list" where
  "cash_reqs U eid qs = filter (\<lambda>q. pq_source_module q = cash_module \<and> pq_source_ref q = U eid) qs"

definition queue :: "'a fin_db_scheme \<Rightarrow> post_request list" where
  "queue db = map ob_payload (fn_outbox db)"

lemma mpesa_net_append [simp]: "mpesa_net D (qs @ rs) = mpesa_net D qs + mpesa_net D rs"
  by (simp add: mpesa_net_def)

lemma cash_reqs_append [simp]: "cash_reqs U eid (qs @ rs) = cash_reqs U eid qs @ cash_reqs U eid rs"
  by (simp add: cash_reqs_def)

lemma cash_module_not_executor: "cash_module \<notin> executor_modules"
  by (simp add: cash_module_def executor_modules_def)

lemma executor_rows:
  assumes "\<forall>r\<in>set rows. pq_source_module (ob_payload r) \<in> executor_modules"
  shows "cash_reqs U eid (map ob_payload rows) = []"
    "mpesa_net D (map ob_payload rows) = queued_net D ''1099'' rows"
proof -
  show "cash_reqs U eid (map ob_payload rows) = []"
    using assms cash_module_not_executor by (auto simp: cash_reqs_def filter_empty_conv)
  have "filter (\<lambda>q. pq_source_module q \<in> mpesa_modules) (map ob_payload rows) = map ob_payload rows"
    using assms by (auto simp: mpesa_modules_def intro!: filter_True)
  then show "mpesa_net D (map ob_payload rows) = queued_net D ''1099'' rows"
    by (simp add: mpesa_net_def queued_net_def row_net_req [abs_def] comp_def)
qed

text \<open>The cash entry of an amount.\<close>

definition cash_entry :: "decimal_lib \<Rightarrow> mp_config \<Rightarrow> decimal \<Rightarrow> post_request \<Rightarrow> bool" where
  "cash_entry D cfg x q \<longleftrightarrow> map (\<lambda>l. (dl_account_code l, dl_debit l, dl_credit l)) (pq_lines q) =
     [(cf_cash cfg, dFixed D 2 x, []), (cf_clearing cfg, [], dFixed D 2 x)]"

lemma PostCashLegTx_Inr:
  assumes "PostCashLegTx E db tenant eid x (cf_cash cfg) (cf_clearing cfg) vd = Inr (db', ob)"
  obtains row where "db' = db\<lparr>fn_outbox := fn_outbox db @ [row], fn_supply := fn_supply db + 1\<rparr>"
    "pq_source_module (ob_payload row) = cash_module" "pq_source_ref (ob_payload row) = env_uuid E eid"
    "cash_entry (env_dec E) cfg x (ob_payload row)" "0 < x"
  using assms by (auto simp: PostCashLegTx_def Let_def cash_module_def cash_entry_def split: if_splits)

lemma cash_entry_net:
  assumes "decimal_text D" "scaled 2 x" "cash_entry D cfg x q" "cf_clearing cfg = ''1099''" "cf_cash cfg \<noteq> ''1099''"
  shows "req_net D ''1099'' q = x" "sum_list (map (dto_net D) (pq_lines q)) = 0"
proof -
  obtain n1 n2 where q: "pq_lines q =
      [\<lparr> dl_account_code = cf_cash cfg, dl_debit = dFixed D 2 x, dl_credit = [], dl_narration = n1 \<rparr>,
       \<lparr> dl_account_code = cf_clearing cfg, dl_debit = [], dl_credit = dFixed D 2 x, dl_narration = n2 \<rparr>]"
  proof -
    obtain l1 l2 where l: "pq_lines q = [l1, l2]"
      using assms(3) by (auto simp: cash_entry_def map_eq_Cons_conv)
    with assms(3) have "l1 = \<lparr> dl_account_code = cf_cash cfg, dl_debit = dFixed D 2 x, dl_credit = [], dl_narration = dl_narration l1 \<rparr>"
      "l2 = \<lparr> dl_account_code = cf_clearing cfg, dl_debit = [], dl_credit = dFixed D 2 x, dl_narration = dl_narration l2 \<rparr>"
      by (auto simp: cash_entry_def)
    with l that show thesis by metis
  qed
  show "req_net D ''1099'' q = x" "sum_list (map (dto_net D) (pq_lines q)) = 0"
    using assms by (simp_all add: q req_net_def dto_net_def dto_amount_def decimal_text.fixed_nonempty
        decimal_text.parse_fixed_exact)
qed

section \<open>The effect of an event\<close>

definition cfg_ok :: "mp_config \<Rightarrow> bool" where
  "cfg_ok cfg \<longleftrightarrow> cf_apply cfg \<and> cf_clearing cfg = ''1099'' \<and> cf_cash cfg \<noteq> ''1099'' \<and>
     (\<forall>s x. cf_numeric cfg s = Some x \<longrightarrow> scaled 2 x)"

lemma scan_event_Inr:
  assumes "scan_event D r = Inr event"
  shows "ie_amount event = dFixed D 2 (ev_amount r)" "ie_id event = ev_id r"
    "ie_resolved_member_id event = ev_resolved_member_id r" "ie_resolved_via event = ev_resolved_via r"
    "ev_bill_ref r = Some (ie_bill_ref event)" "ie_status event = ev_status r"
    "ie_transaction_id event = ev_transaction_id r"
  using assms by (auto simp: scan_event_def split: option.splits)

lemma Process_effect:
  assumes e: "env_ok E" and c: "cfg_ok cfg" and ok: "fin_ok db" "catalog_ok db"
    and am: "\<forall>r\<in>set (mp_events db). scaled 2 (ev_amount r)"
    and run: "Process cfg E db tenant eid = Inr (db', res)"
  obtains r pln ob row rows where
    "find_event db eid = Some r" "ev_status r = InboundReceived" "0 < ev_amount r" "plan_ok (ev_amount r) pln"
    "res = \<lparr> pr_event_id = eid, pr_run_id = fn_supply db, pr_splits = pn_splits pln, pr_leftover = pn_leftover pln \<rparr>"
    "fin_ok db'" "catalog_ok db'" "fn_supply db < fn_supply db'"
    "loans_total db' = loans_total db - sum_list (map loan_part (pn_splits pln))"
    "deposits_total db' = deposits_total db + sum_list (map deposit_part (pn_splits pln))"
    "fn_outbox db' = fn_outbox db @ row # rows"
    "pq_source_module (ob_payload row) = cash_module" "pq_source_ref (ob_payload row) = env_uuid E eid"
    "cash_entry (env_dec E) cfg (ev_amount r) (ob_payload row)"
    "\<forall>r\<in>set rows. pq_source_module (ob_payload r) \<in> executor_modules \<and> row_balanced (env_dec E) r"
    "queued_net (env_dec E) ''1099'' rows = - split_total (pn_splits pln)"
    "mp_events db' = map (\<lambda>r. if ev_id r = eid then r\<lparr>ev_status := InboundDistributed,
       ev_distribution_run_id := Some (fn_supply db), ev_error_text := None, ev_locked_by := None\<rparr> else r) (mp_events db)"
    "mp_runs db' = map (\<lambda>r. if rn_id r = fn_supply db then r\<lparr>rn_status := RunPosted, rn_posting_journal_id := Some ob\<rparr>
       else r) (mp_runs db @ [run_of cfg E r pln (fn_supply db)])"
proof -
  let ?D = "env_dec E"
  have dt: "decimal_text ?D" using e by (simp add: env_ok_def)
  obtain r event pln db1 db2 db3 ob vd where p:
    "find_event db eid = Some r" "scan_event ?D r = Inr event" "ev_status r = InboundReceived"
    "Run ?D (db_balances db) event [] = Inr pln"
    "db1 = db\<lparr>mp_runs := mp_runs db @ [run_of cfg E r pln (fn_supply db)], fn_supply := fn_supply db + 1\<rparr>"
    "PostCashLegTx E db1 tenant eid (pn_amount pln) (cf_cash cfg) (cf_clearing cfg) vd = Inr (db2, ob)"
    "if cf_apply cfg \<and> pn_splits pln \<noteq> []
     then \<exists>inp rs. ApplyPlanTx E inp db2 = Inr (db3, rs) \<and> ai_plan inp = pln else db3 = db2"
    "db' = update_event eid (\<lambda>r. r\<lparr>ev_status := InboundDistributed, ev_distribution_run_id := Some (fn_supply db),
        ev_error_text := None, ev_locked_by := None\<rparr>)
      (update_run (fn_supply db) (\<lambda>r. r\<lparr>rn_status := RunPosted, rn_posting_journal_id := Some ob\<rparr>) db3)"
    "res = \<lparr> pr_event_id = eid, pr_run_id = fn_supply db, pr_splits = pn_splits pln, pr_leftover = pn_leftover pln \<rparr>"
    by (rule Process_InrE [OF run])
  have sc: "scaled 2 (ev_amount r)" using am find_event_mem [OF p(1)] by blast
  have "dParse ?D (ie_amount event) = Some (ev_amount r)"
    using scan_event_Inr(1) [OF p(2)] decimal_text.parse_fixed_exact [OF dt sc] by simp
  from db_port.Run_ok [OF ok(1) p(4) this sc] have pln: "0 < ev_amount r" "plan_ok (ev_amount r) pln" by auto
  then have am: "pn_amount pln = ev_amount r" by (simp add: plan_ok_def)
  obtain row where row: "db2 = db1\<lparr>fn_outbox := fn_outbox db1 @ [row], fn_supply := fn_supply db1 + 1\<rparr>"
    "pq_source_module (ob_payload row) = cash_module" "pq_source_ref (ob_payload row) = env_uuid E eid"
    "cash_entry ?D cfg (ev_amount r) (ob_payload row)"
    by (rule PostCashLegTx_Inr [OF p(6)]) (use am in auto)
  have ok2: "fin_ok db2" "catalog_ok db2" using ok by (simp_all add: row(1) p(5) fin_ok_def catalog_ok_def)
  have mv: "fin_move ?D db2 db3 (sum_list (map loan_part (pn_splits pln)))
      (sum_list (map deposit_part (pn_splits pln))) (split_total (pn_splits pln))"
  proof (cases "pn_splits pln = []")
    case True
    then show ?thesis using p(7) ok2 by (simp add: fin_move_refl)
  next
    case False
    then obtain inp rs where a: "ApplyPlanTx E inp db2 = Inr (db3, rs)" "ai_plan inp = pln"
      using p(7) c by (auto simp: cfg_ok_def)
    show ?thesis using ApplyPlanTx_move [OF e ok2 _ a(1)] a(2) pln(2) by (simp add: plan_ok_def)
  qed
  then obtain rows where rows: "fn_outbox db3 = fn_outbox db2 @ rows" "queued_net ?D ''1099'' rows = - split_total (pn_splits pln)"
    "\<forall>r\<in>set rows. pq_source_module (ob_payload r) \<in> executor_modules \<and> row_balanced ?D r"
    by (auto simp: fin_move_def)
  have more: "mp_events db3 = mp_events db" "mp_runs db3 = mp_runs db @ [run_of cfg E r pln (fn_supply db)]"
  proof -
    have "fin_db.more db3 = fin_db.more db2" using mv by (simp add: fin_move_def)
    then have "mp_events db3 = mp_events db2" "mp_runs db3 = mp_runs db2" by (cases db3; cases db2; simp)+
    then show "mp_events db3 = mp_events db" "mp_runs db3 = mp_runs db @ [run_of cfg E r pln (fn_supply db)]"
      by (simp_all add: row(1) p(5))
  qed
  show thesis
    by (rule that [where ob = ob, OF p(1,3) pln p(9) _ _ _ _ _ _ row(2-4) rows(3,2)])
      (use mv rows(1) more ok(2) in \<open>simp_all add: p(8) update_event_def update_run_def row(1) p(5) fin_move_def
        fin_ok_def catalog_ok_def loans_total_def deposits_total_def\<close>)
qed

section \<open>Steps\<close>

text \<open>The tables, the payments recorded but not resolved yet, and the failures not recorded yet.\<close>

record mp_sys =
  ms_db :: mp_db
  ms_jobs :: "(paybill \<times> uuid \<times> c2b_body) list"
  ms_failures :: "(uuid \<times> uuid \<times> mp_error) list"

text \<open>
  What the other services do to the shared tables: they may change balances, fees and catalogues
  within their types and queue entries of their own, and the posting dispatcher updates its rows.
\<close>

definition others_keep :: "mp_db \<Rightarrow> mp_db \<Rightarrow> bool" where
  "others_keep db db' \<longleftrightarrow> mp_events db' = mp_events db \<and> mp_runs db' = mp_runs db \<and> fin_ok db' \<and> catalog_ok db' \<and>
     fn_supply db \<le> fn_supply db' \<and>
     (\<exists>qs. queue db' = queue db @ qs \<and> (\<forall>q\<in>set qs. pq_source_module q \<notin> mpesa_modules))"

inductive mp_step :: "mp_config \<Rightarrow> decimal_lib \<Rightarrow> (uuid \<Rightarrow> string) \<Rightarrow> mp_sys \<Rightarrow> mp_sys \<Rightarrow> bool"
  for cfg :: mp_config and D :: decimal_lib and U :: "uuid \<Rightarrow> string" where
  persist: "env_ok E \<Longrightarrow> env_dec E = D \<Longrightarrow> env_uuid E = U \<Longrightarrow>
    confirm_persist cfg E (ms_db s) path tok body = (db', job, reply) \<Longrightarrow>
    mp_step cfg D U s (s\<lparr>ms_db := db', ms_jobs := ms_jobs s @ (case job of None \<Rightarrow> [] | Some j \<Rightarrow> [j])\<rparr>)"
| resolve: "env_ok E \<Longrightarrow> env_dec E = D \<Longrightarrow> env_uuid E = U \<Longrightarrow> (pb, eid, b) \<in> set (ms_jobs s) \<Longrightarrow>
    resolveAndWire E (ms_db s) pb eid b = Inr db' \<Longrightarrow>
    mp_step cfg D U s (s\<lparr>ms_db := db', ms_jobs := remove1 (pb, eid, b) (ms_jobs s)\<rparr>)"
| unresolved: "j \<in> set (ms_jobs s) \<Longrightarrow> mp_step cfg D U s (s\<lparr>ms_jobs := remove1 j (ms_jobs s)\<rparr>)"
| processed: "env_ok E \<Longrightarrow> env_dec E = D \<Longrightarrow> env_uuid E = U \<Longrightarrow>
    lease_and_process cfg E commits held worker tenant (ms_db s) = Some (eid, Inr db') \<Longrightarrow>
    mp_step cfg D U s (s\<lparr>ms_db := db'\<rparr>)"
| failed: "env_ok E \<Longrightarrow> env_dec E = D \<Longrightarrow> env_uuid E = U \<Longrightarrow>
    lease_and_process cfg E commits held worker tenant (ms_db s) = Some (eid, Inl e) \<Longrightarrow>
    mp_step cfg D U s (s\<lparr>ms_failures := ms_failures s @ [(tenant, eid, e)]\<rparr>)"
| recorded: "env_ok E \<Longrightarrow> env_dec E = D \<Longrightarrow> env_uuid E = U \<Longrightarrow> (tenant, eid, e) \<in> set (ms_failures s) \<Longrightarrow>
    RecordFailure cfg E (ms_db s) tenant eid e = Inr db' \<Longrightarrow>
    mp_step cfg D U s (s\<lparr>ms_db := db', ms_failures := remove1 (tenant, eid, e) (ms_failures s)\<rparr>)"
| unrecorded: "f \<in> set (ms_failures s) \<Longrightarrow> mp_step cfg D U s (s\<lparr>ms_failures := remove1 f (ms_failures s)\<rparr>)"
| others: "others_keep (ms_db s) db' \<Longrightarrow> mp_step cfg D U s (s\<lparr>ms_db := db'\<rparr>)"

section \<open>The invariant\<close>

definition event_runs :: "uuid \<Rightarrow> 'a mp_db_scheme \<Rightarrow> run_row list" where
  "event_runs eid db = filter (\<lambda>r. rn_inbound_event_id r = eid) (mp_runs db)"

text \<open>Not paid out: no run, no cash entry. Paid out: one of each, for the event's amount.\<close>

definition untouched :: "(uuid \<Rightarrow> string) \<Rightarrow> mp_db \<Rightarrow> event_row \<Rightarrow> bool" where
  "untouched U db ev \<longleftrightarrow> cash_reqs U (ev_id ev) (queue db) = [] \<and> event_runs (ev_id ev) db = []"

definition paid_out :: "mp_config \<Rightarrow> decimal_lib \<Rightarrow> (uuid \<Rightarrow> string) \<Rightarrow> mp_db \<Rightarrow> event_row \<Rightarrow> bool" where
  "paid_out cfg D U db ev \<longleftrightarrow> (\<exists>q run. cash_reqs U (ev_id ev) (queue db) = [q] \<and>
     cash_entry D cfg (ev_amount ev) q \<and> event_runs (ev_id ev) db = [run] \<and> rn_status run = RunPosted \<and>
     rn_amount run = ev_amount ev)"

definition event_ok :: "mp_config \<Rightarrow> decimal_lib \<Rightarrow> (uuid \<Rightarrow> string) \<Rightarrow> mp_db \<Rightarrow> event_row \<Rightarrow> bool" where
  "event_ok cfg D U db ev \<longleftrightarrow> scaled 2 (ev_amount ev) \<and> ev_id ev < fn_supply db \<and>
     (case ev_status ev of
        InboundReceived \<Rightarrow> untouched U db ev
      | InboundDistributed \<Rightarrow> paid_out cfg D U db ev
      | InboundFailed \<Rightarrow> untouched U db ev \<or> paid_out cfg D U db ev)"

definition run_leftover :: "run_row \<Rightarrow> decimal" where
  "run_leftover r = rn_amount r - split_total (rn_splits r)"

definition mp_inv :: "mp_config \<Rightarrow> decimal_lib \<Rightarrow> (uuid \<Rightarrow> string) \<Rightarrow> mp_db \<Rightarrow> bool" where
  "mp_inv cfg D U db \<longleftrightarrow> fin_ok db \<and> catalog_ok db \<and>
     distinct (map ev_id (mp_events db)) \<and> distinct (map ev_transaction_id (mp_events db)) \<and>
     (\<forall>ev\<in>set (mp_events db). event_ok cfg D U db ev) \<and>
     (\<forall>q\<in>set (queue db). pq_source_module q = cash_module \<longrightarrow> pq_source_ref q \<in> U ` ev_id ` set (mp_events db)) \<and>
     (\<forall>r\<in>set (mp_runs db). rn_id r < fn_supply db \<and> rn_inbound_event_id r \<in> ev_id ` set (mp_events db)) \<and>
     mpesa_net D (queue db) = sum_list (map run_leftover (mp_runs db))"

text \<open>Rewriting fields of an event that the invariant does not read.\<close>

lemma mp_inv_update_event:
  assumes inv: "mp_inv cfg D U db"
    and f: "\<And>r. ev_id (f r) = ev_id r \<and> ev_transaction_id (f r) = ev_transaction_id r \<and> ev_amount (f r) = ev_amount r"
    and st: "\<And>r. r \<in> set (mp_events db) \<Longrightarrow> ev_id r = eid \<Longrightarrow> ev_status (f r) = ev_status r \<or> ev_status (f r) = InboundFailed"
  shows "mp_inv cfg D U (update_event eid f db)"
proof -
  let ?db = "update_event eid f db" and ?g = "\<lambda>r. if ev_id r = eid then f r else r"
  have ev: "mp_events ?db = map ?g (mp_events db)" by (simp add: update_event_def)
  have same: "queue ?db = queue db" "mp_runs ?db = mp_runs db" "fn_supply ?db = fn_supply db"
    "fin_ok ?db = fin_ok db" "catalog_ok ?db = catalog_ok db"
    by (simp_all add: update_event_def queue_def fin_ok_def catalog_ok_def)
  have ids: "ev_id \<circ> ?g = ev_id" "ev_transaction_id \<circ> ?g = ev_transaction_id" using f by (auto simp: fun_eq_iff)
  have "event_ok cfg D U ?db (?g r)" if r: "r \<in> set (mp_events db)" for r
  proof -
    have "event_ok cfg D U db r" using inv r by (simp add: mp_inv_def)
    then show ?thesis using f [of r] st [OF r]
      by (auto simp: event_ok_def untouched_def paid_out_def event_runs_def same split: inbound_status.splits)
  qed
  then have "\<forall>ev\<in>set (mp_events ?db). event_ok cfg D U ?db ev" unfolding ev by (auto simp only: set_map)
  moreover have dist: "map ev_id (mp_events ?db) = map ev_id (mp_events db)"
    "map ev_transaction_id (mp_events ?db) = map ev_transaction_id (mp_events db)" by (simp_all add: ev ids)
  moreover from dist(1) have "ev_id ` set (mp_events ?db) = ev_id ` set (mp_events db)" by (metis list.set_map)
  ultimately show ?thesis using inv unfolding mp_inv_def same by simp
qed

text \<open>Changes elsewhere, with entries of other modules.\<close>

lemma mp_inv_frame:
  assumes inv: "mp_inv cfg D U db" and "mp_events db' = mp_events db" "mp_runs db' = mp_runs db" "fin_ok db'" "catalog_ok db'"
    "fn_supply db \<le> fn_supply db'" "queue db' = queue db @ qs" "\<forall>q\<in>set qs. pq_source_module q \<notin> mpesa_modules"
  shows "mp_inv cfg D U db'"
proof -
  have none: "cash_reqs U eid qs = []" "mpesa_net D qs = 0" for eid
    using assms(8) by (auto simp: cash_reqs_def mpesa_net_def mpesa_modules_def filter_empty_conv filter_False)
  have "event_ok cfg D U db' ev" if "ev \<in> set (mp_events db)" for ev
    using inv that assms none unfolding mp_inv_def event_ok_def untouched_def paid_out_def event_runs_def
    by (fastforce split: inbound_status.splits)
  moreover have "pq_source_module q \<noteq> cash_module" if "q \<in> set qs" for q
    using assms(8) that by (auto simp: mpesa_modules_def)
  ultimately show ?thesis using inv assms none unfolding mp_inv_def by (fastforce dest: less_le_trans)
qed

section \<open>Every step keeps it\<close>

lemma RecordTx_cases:
  assumes "RecordTx E numeric db inp = Inr (db', e, ins)"
  obtains "db' = db"
  | r where "db' = db\<lparr>mp_events := mp_events db @ [r], fn_supply := fn_supply db + 1\<rparr>" "ev_id r = fn_supply db"
    "ev_status r = InboundReceived" "ev_transaction_id r \<notin> ev_transaction_id ` set (mp_events db)"
    "numeric (re_amount inp) = Some (ev_amount r)"
  using assms
  by (fastforce simp: RecordTx_def Let_def find_None_iff split: option.splits)

lemma mp_inv_persist:
  assumes inv: "mp_inv cfg D U db" and c: "cfg_ok cfg" and u: "inj U"
    and run: "confirm_persist cfg E db path tok body = (db', job, reply)"
  shows "mp_inv cfg D U db'"
proof -
  have "db' = db \<or> (\<exists>inp e ins. RecordTx E (cf_numeric cfg) db inp = Inr (db', e, ins))"
    using run by (fastforce simp: confirm_persist_def Let_def split: option.splits sum.splits prod.splits)
  then consider "db' = db" | inp e ins where "RecordTx E (cf_numeric cfg) db inp = Inr (db', e, ins)" by blast
  then show ?thesis
  proof cases
    case 1
    with inv show ?thesis by simp
  next
    case 2
    from 2 show ?thesis
    proof (cases rule: RecordTx_cases)
      case 1
      with inv show ?thesis by simp
    next
      case (2 r)
      have sc: "scaled 2 (ev_amount r)" using c 2(5) unfolding cfg_ok_def by blast
      have old: "ev_id ev < fn_supply db" if "ev \<in> set (mp_events db)" for ev
        using inv that by (auto simp: mp_inv_def event_ok_def)
      have q: "queue db' = queue db" by (simp add: 2(1) queue_def)
      have "cash_reqs U (fn_supply db) (queue db) = []"
        using inv old u by (fastforce simp: cash_reqs_def filter_empty_conv mp_inv_def inj_eq)
      moreover have "event_runs (fn_supply db) db = []"
        using inv old by (fastforce simp: event_runs_def filter_empty_conv mp_inv_def)
      ultimately have new: "event_ok cfg D U db' r"
        using 2 sc by (simp add: event_ok_def untouched_def queue_def event_runs_def)
      have kept: "event_ok cfg D U db' ev" if "ev \<in> set (mp_events db)" for ev
      proof -
        have "event_ok cfg D U db ev" using inv that by (simp add: mp_inv_def)
        then show ?thesis
          unfolding event_ok_def untouched_def paid_out_def event_runs_def q
          by (auto simp: 2(1) split: inbound_status.splits)
      qed
      have "fin_ok db' = fin_ok db" "catalog_ok db' = catalog_ok db" by (simp_all add: 2(1) fin_ok_def catalog_ok_def)
      moreover have "fn_supply db \<notin> ev_id ` set (mp_events db)" using old by force
      ultimately show ?thesis using inv new kept old 2
        unfolding mp_inv_def q by (auto simp: less_Suc_eq)
    qed
  qed
qed

lemma ClientCreateInstanceTx_db: "mp_inv cfg D U (db\<lparr>mp_wf := w, fn_supply := fn_supply db + 1\<rparr>)"
  if inv: "mp_inv cfg D U db"
  by (rule mp_inv_frame [OF inv, of _ "[]"])
    (use inv in \<open>simp_all add: mp_inv_def fin_ok_def catalog_ok_def queue_def\<close>)

lemma resolveAndWire_InrE:
  assumes "resolveAndWire E db pb eid b = Inr db'"
  obtains d mid via wfid where "UpdateResolutionTx d eid mid via wfid = Inr db'"
    "d = db \<or> (\<exists>w. d = db\<lparr>mp_wf := w, fn_supply := fn_supply db + 1\<rparr>)"
  using assms by (fastforce simp: resolveAndWire_def Let_def split: if_splits sum.splits)

lemma mp_inv_resolve:
  assumes inv: "mp_inv cfg D U db" and run: "resolveAndWire E db pb eid b = Inr db'"
  shows "mp_inv cfg D U db'"
proof -
  have upd: "mp_inv cfg D U d'" if i: "mp_inv cfg D U d" and r: "UpdateResolutionTx d eid mid via wfid = Inr d'" for d d' mid via wfid
  proof -
    have d': "d' = update_event eid (\<lambda>r. r\<lparr>ev_resolved_member_id := mid, ev_resolved_via := Some via,
        ev_workflow_instance_id := wfid\<rparr>) d"
      using r by (simp add: UpdateResolutionTx_def split: if_splits)
    show ?thesis unfolding d' by (rule mp_inv_update_event [OF i]) simp_all
  qed
  obtain d mid via wfid where "UpdateResolutionTx d eid mid via wfid = Inr db'"
    "d = db \<or> (\<exists>w. d = db\<lparr>mp_wf := w, fn_supply := fn_supply db + 1\<rparr>)"
    by (rule resolveAndWire_InrE [OF run]) (rule that; assumption)
  then show ?thesis using upd inv ClientCreateInstanceTx_db by blast
qed

lemma mp_inv_process:
  assumes inv: "mp_inv cfg D U db" and c: "cfg_ok cfg" and u: "inj U" and e: "env_ok E" "env_dec E = D" "env_uuid E = U"
    and run: "Process cfg E db tenant eid = Inr (db', res)"
  shows "mp_inv cfg D U db'"
proof -
  have dt: "decimal_text D" using e by (simp add: env_ok_def)
  have ok: "fin_ok db" "catalog_ok db" "\<forall>r\<in>set (mp_events db). scaled 2 (ev_amount r)"
    using inv by (auto simp: mp_inv_def event_ok_def)
  obtain r pln ob row rows where p: "find_event db eid = Some r" "ev_status r = InboundReceived" "plan_ok (ev_amount r) pln"
    "fin_ok db'" "catalog_ok db'" "fn_supply db < fn_supply db'" "fn_outbox db' = fn_outbox db @ row # rows"
    "pq_source_module (ob_payload row) = cash_module" "pq_source_ref (ob_payload row) = U eid"
    "cash_entry D cfg (ev_amount r) (ob_payload row)"
    "\<forall>r\<in>set rows. pq_source_module (ob_payload r) \<in> executor_modules \<and> row_balanced D r"
    "queued_net D ''1099'' rows = - split_total (pn_splits pln)"
    "mp_events db' = map (\<lambda>r. if ev_id r = eid then r\<lparr>ev_status := InboundDistributed,
       ev_distribution_run_id := Some (fn_supply db), ev_error_text := None, ev_locked_by := None\<rparr> else r) (mp_events db)"
    "mp_runs db' = map (\<lambda>r. if rn_id r = fn_supply db then r\<lparr>rn_status := RunPosted, rn_posting_journal_id := Some ob\<rparr>
       else r) (mp_runs db @ [run_of cfg E r pln (fn_supply db)])"
    by (rule Process_effect [OF e(1) c ok run, unfolded e(2,3)]) (rule that; assumption)
  have r: "r \<in> set (mp_events db)" "ev_id r = eid" using find_event_mem [OF p(1)] by auto
  have sc: "scaled 2 (ev_amount r)" using ok(3) r by blast
  have unique: "ev = r" if "ev \<in> set (mp_events db)" "ev_id ev = eid" for ev
    using inv r that by (auto simp: mp_inv_def distinct_map inj_on_def)
  define run where "run = (run_of cfg E r pln (fn_supply db))\<lparr>rn_status := RunPosted, rn_posting_journal_id := Some ob\<rparr>"
  have runs: "mp_runs db' = mp_runs db @ [run]"
    using inv by (auto simp: p(14) run_def run_of_def mp_inv_def intro!: map_idI)
  have run_f: "rn_inbound_event_id run = eid" "rn_amount run = ev_amount r" "rn_splits run = pn_splits pln"
    "rn_status run = RunPosted" "rn_id run = fn_supply db"
    using p(3) env_col_exact [OF e(1) sc] r by (simp_all add: run_def run_of_def plan_ok_def)
  note lt = p(6)
  have q: "queue db' = queue db @ ob_payload row # map ob_payload rows" by (simp add: p(7) queue_def)
  have exm: "\<forall>r\<in>set rows. pq_source_module (ob_payload r) \<in> executor_modules" using p(11) by blast
  note ex = executor_rows [OF exm]
  have cash: "cash_reqs U k (queue db') = cash_reqs U k (queue db) @ (if k = eid then [ob_payload row] else [])" for k
    using u p(8,9) ex(1) by (auto simp: q cash_reqs_def inj_eq)
  have ev_runs: "event_runs k db' = event_runs k db @ (if k = eid then [run] else [])" for k
    using run_f by (simp add: event_runs_def runs)
  have evs: "event_ok cfg D U db' ev'" if ev': "ev' \<in> set (mp_events db')" for ev'
  proof -
    obtain ev where ev: "ev \<in> set (mp_events db)" "ev' = (if ev_id ev = eid then ev\<lparr>ev_status := InboundDistributed,
       ev_distribution_run_id := Some (fn_supply db), ev_error_text := None, ev_locked_by := None\<rparr> else ev)"
      using ev' by (auto simp: p(13))
    have ok: "event_ok cfg D U db ev" using inv ev(1) by (simp add: mp_inv_def)
    show ?thesis
    proof (cases "ev_id ev = eid")
      case True
      then have "ev = r" using unique ev(1) by blast
      with ok p(2) True ev(2) p(6,10) run_f show ?thesis
        by (auto simp: event_ok_def untouched_def paid_out_def cash ev_runs)
    next
      case False
      with ok ev(2) p(6) show ?thesis
        by (auto simp: event_ok_def untouched_def paid_out_def cash ev_runs split: inbound_status.splits)
    qed
  qed
  have ids: "map ev_id (mp_events db') = map ev_id (mp_events db)"
    "map ev_transaction_id (mp_events db') = map ev_transaction_id (mp_events db)" by (simp_all add: p(13))
  then have idset: "ev_id ` set (mp_events db') = ev_id ` set (mp_events db)" by (metis list.set_map)
  have net: "mpesa_net D (queue db') = sum_list (map run_leftover (mp_runs db'))"
  proof -
    have "req_net D ''1099'' (ob_payload row) = ev_amount r"
      using cash_entry_net(1) [OF dt sc p(10)] c by (simp add: cfg_ok_def)
    then have "mpesa_net D (queue db') = mpesa_net D (queue db) + ev_amount r - split_total (pn_splits pln)"
      using ex(2) [of D] p(8,12) by (simp add: q mpesa_net_def mpesa_modules_def)
    then show ?thesis using inv run_f by (simp add: mp_inv_def runs run_leftover_def)
  qed
  have "eid \<in> ev_id ` set (mp_events db)" using r by blast
  moreover have "\<forall>q\<in>set (queue db'). pq_source_module q = cash_module \<longrightarrow> pq_source_ref q \<in> U ` ev_id ` set (mp_events db)"
    using inv p(9) calculation exm cash_module_not_executor by (fastforce simp: q mp_inv_def)
  moreover have "\<forall>r\<in>set (mp_runs db'). rn_id r < fn_supply db' \<and> rn_inbound_event_id r \<in> ev_id ` set (mp_events db)"
    using inv run_f calculation(1) lt by (auto simp: runs mp_inv_def)
  ultimately show ?thesis using inv p(4,5) evs net unfolding mp_inv_def ids idset by blast
qed

lemma mp_inv_record:
  assumes inv: "mp_inv cfg D U db" and run: "RecordFailure cfg E db tenant eid e = Inr db'"
  shows "mp_inv cfg D U db'"
proof -
  let ?f = "\<lambda>r. r\<lparr>ev_attempts := ev_attempts r + 1, ev_error_text := Some e, ev_locked_by := None\<rparr>"
  let ?g = "\<lambda>r. r\<lparr>ev_status := InboundFailed, ev_locked_by := None\<rparr>"
  have f: "mp_inv cfg D U (update_event eid ?f db)" by (rule mp_inv_update_event [OF inv]) simp_all
  have g: "mp_inv cfg D U (update_event eid ?g (update_event eid ?f db))"
    by (rule mp_inv_update_event [OF f]) simp_all
  have "db' \<in> {update_event eid ?f db, update_event eid ?g (update_event eid ?f db)} \<or>
      (\<exists>w. db' = (update_event eid ?g (update_event eid ?f db))\<lparr>mp_wf := w,
         fn_supply := fn_supply (update_event eid ?g (update_event eid ?f db)) + 1\<rparr>)"
    using run by (fastforce simp: RecordFailure_def RecordAttemptFailureTx_def MarkEventFailedTx_def Let_def
        split: option.splits if_splits sum.splits)
  then show ?thesis using f g ClientCreateInstanceTx_db by blast
qed

lemma LeaseNextTx_Inr:
  assumes "LeaseNextTx held worker db = Inr (db1, eid)"
  obtains r where "r \<in> set (mp_events db)" "ev_id r = eid" "ev_status r = InboundReceived" "ev_attempts r < 6"
    "db1 = update_event eid (\<lambda>r. r\<lparr>ev_locked_by := Some worker\<rparr>) db"
proof -
  let ?c = "filter (\<lambda>r. ev_status r = InboundReceived \<and> ev_attempts r < 6 \<and> ev_id r \<notin> held) (mp_events db)"
  show thesis
  proof (cases "sort_key ev_received_at ?c")
    case Nil
    with assms show thesis by (simp add: LeaseNextTx_def)
  next
    case (Cons r rs)
    have "r \<in> set (sort_key ev_received_at ?c)" unfolding Cons by simp
    then have "r \<in> set ?c" by (simp only: set_sort)
    moreover have "eid = ev_id r" "db1 = update_event (ev_id r) (\<lambda>r. r\<lparr>ev_locked_by := Some worker\<rparr>) db"
      using assms by (auto simp: LeaseNextTx_def Cons)
    ultimately show thesis using that [of r] by auto
  qed
qed

lemma lease_and_process_Inr:
  assumes "lease_and_process cfg E commits held worker tenant db = Some (eid, Inr db')"
  obtains res where "Process cfg E (update_event eid (\<lambda>r. r\<lparr>ev_locked_by := Some worker\<rparr>) db) tenant eid = Inr (db', res)"
proof -
  obtain db1 where l: "LeaseNextTx held worker db = Inr (db1, eid)"
    and p: "\<exists>res. Process cfg E db1 tenant eid = Inr (db', res)"
    using assms by (auto simp: lease_and_process_def split: sum.splits if_splits)
  have "db1 = update_event eid (\<lambda>r. r\<lparr>ev_locked_by := Some worker\<rparr>) db"
    by (rule LeaseNextTx_Inr [OF l]) simp
  with p that show thesis by blast
qed

lemma mp_step_inv:
  assumes c: "cfg_ok cfg" "inj U" and inv: "mp_inv cfg D U (ms_db s)" and st: "mp_step cfg D U s s'"
  shows "mp_inv cfg D U (ms_db s')"
  using st
proof cases
  case (persist E path tok body db' job reply)
  then show ?thesis using mp_inv_persist [OF inv c] by simp
next
  case (resolve E pb eid b db')
  then show ?thesis using mp_inv_resolve [OF inv] by simp
next
  case (processed E commits held worker tenant eid db')
  obtain res where p: "Process cfg E (update_event eid (\<lambda>r. r\<lparr>ev_locked_by := Some worker\<rparr>) (ms_db s)) tenant eid = Inr (db', res)"
    by (rule lease_and_process_Inr [OF processed(5)])
  have "mp_inv cfg D U (update_event eid (\<lambda>r. r\<lparr>ev_locked_by := Some worker\<rparr>) (ms_db s))"
    by (rule mp_inv_update_event [OF inv]) simp_all
  from mp_inv_process [OF this c processed(2-4) p] show ?thesis by (simp add: processed(1))
next
  case (recorded E tenant eid e db')
  then show ?thesis using mp_inv_record [OF inv] by simp
next
  case (others db')
  then show ?thesis using mp_inv_frame [OF inv] by (auto simp: others_keep_def)
qed (use inv in simp_all)

definition mp_start :: "mp_db \<Rightarrow> bool" where
  "mp_start db \<longleftrightarrow> mp_events db = [] \<and> mp_runs db = [] \<and> fin_ok db \<and> catalog_ok db \<and>
     (\<forall>q\<in>set (queue db). pq_source_module q \<notin> mpesa_modules)"

definition mp_init :: "mp_db \<Rightarrow> mp_sys" where
  "mp_init db = \<lparr> ms_db = db, ms_jobs = [], ms_failures = [] \<rparr>"

lemma mp_start_inv: "mp_start db \<Longrightarrow> mp_inv cfg D U db"
  by (auto simp: mp_start_def mp_inv_def mpesa_net_def filter_False mpesa_modules_def)

lemma mp_reachable:
  assumes "cfg_ok cfg" "inj U" "mp_start db" "(mp_step cfg D U)\<^sup>*\<^sup>* (mp_init db) s"
  shows "mp_inv cfg D U (ms_db s)"
  using assms(4)
proof induction
  case base
  then show ?case using mp_start_inv [OF assms(3)] by (simp add: mp_init_def)
next
  case (step s s')
  then show ?case using mp_step_inv [OF assms(1,2)] by blast
qed

section \<open>Attempts end\<close>

text \<open>One attempt of a worker at an event, the others being held.\<close>

definition attempt_event :: "mp_config \<Rightarrow> fin_env \<Rightarrow> bool \<Rightarrow> uuid \<Rightarrow> uuid \<Rightarrow> uuid \<Rightarrow> mp_db \<Rightarrow> mp_db" where
  "attempt_event cfg E commits worker tenant eid db = fst (processOneEvent cfg E commits (- {eid}) worker tenant db)"

definition event_due :: "uuid \<Rightarrow> mp_db \<Rightarrow> bool" where
  "event_due eid db \<longleftrightarrow> distinct (map ev_id (mp_events db)) \<and>
     (\<exists>r. find_event db eid = Some r \<and> ev_status r = InboundReceived \<and> ev_attempts r < HardFailAttempts)"

definition event_settled :: "uuid \<Rightarrow> mp_db \<Rightarrow> bool" where
  "event_settled eid db \<longleftrightarrow> distinct (map ev_id (mp_events db)) \<and>
     (\<exists>r. find_event db eid = Some r \<and> ev_status r \<noteq> InboundReceived)"

definition event_attempts :: "uuid \<Rightarrow> mp_db \<Rightarrow> nat" where
  "event_attempts eid db = (case find_event db eid of None \<Rightarrow> 0 | Some r \<Rightarrow> ev_attempts r)"

lemma find_key: "distinct (map k xs) \<Longrightarrow> x \<in> set xs \<Longrightarrow> find (\<lambda>y. k y = k x) xs = Some x"
  by (induction xs) auto

lemma find_event_unique:
  "distinct (map ev_id (mp_events db)) \<Longrightarrow> r \<in> set (mp_events db) \<Longrightarrow> find_event db (ev_id r) = Some r"
  unfolding find_event_def by (rule find_key)

lemma update_event_ids:
  "(\<And>r. ev_id (f r) = ev_id r) \<Longrightarrow> map ev_id (mp_events (update_event k f db)) = map ev_id (mp_events db)"
  by (simp add: update_event_def)

lemma attempt_settled: "event_settled eid db \<Longrightarrow> attempt_event cfg E commits worker tenant eid db = db"
proof -
  assume "event_settled eid db"
  then have "\<forall>r\<in>set (mp_events db). ev_id r = eid \<longrightarrow> ev_status r \<noteq> InboundReceived"
    by (auto simp: event_settled_def dest: find_event_unique)
  then have "filter (\<lambda>r. ev_status r = InboundReceived \<and> ev_attempts r < 6 \<and> ev_id r \<notin> - {eid}) (mp_events db) = []"
    by (auto simp: filter_empty_conv)
  then show "attempt_event cfg E commits worker tenant eid db = db"
    by (simp add: attempt_event_def processOneEvent_def lease_and_process_def LeaseNextTx_def)
qed

lemma lease_due:
  assumes "event_due eid db"
  shows "LeaseNextTx (- {eid}) worker db = Inr (update_event eid (\<lambda>r. r\<lparr>ev_locked_by := Some worker\<rparr>) db, eid)"
proof -
  obtain r where r: "find_event db eid = Some r" "ev_status r = InboundReceived" "ev_attempts r < 6"
    using assms by (auto simp: event_due_def HardFailAttempts_def)
  let ?c = "filter (\<lambda>r. ev_status r = InboundReceived \<and> ev_attempts r < 6 \<and> ev_id r \<notin> - {eid}) (mp_events db)"
  have "r \<in> set ?c" using r find_event_mem [OF r(1)] by auto
  then have m: "r \<in> set (sort_key ev_received_at ?c)" by (simp only: set_sort)
  show ?thesis
  proof (cases "sort_key ev_received_at ?c")
    case Nil
    from m have False unfolding Nil by simp
    then show ?thesis ..
  next
    case (Cons x xs)
    have "x \<in> set (sort_key ev_received_at ?c)" unfolding Cons by simp
    then have "x \<in> set ?c" by (simp only: set_sort)
    then have "ev_id x = eid" by simp
    then show ?thesis unfolding LeaseNextTx_def Cons by simp
  qed
qed

text \<open>What recording a failure writes: the event's row, and a workflow instance at the last attempt.\<close>

definition failed_row :: "mp_error \<Rightarrow> event_row \<Rightarrow> event_row" where
  "failed_row e r = r\<lparr>ev_attempts := ev_attempts r + 1, ev_error_text := Some e, ev_locked_by := None,
     ev_status := (if ev_attempts r + 1 < HardFailAttempts then ev_status r else InboundFailed)\<rparr>"

lemma RecordFailure_effect:
  assumes f: "find_event db eid = Some r"
  obtains db' where "RecordFailure cfg E db tenant eid e = Inr db'" "find_event db' eid = Some (failed_row e r)"
    "map ev_id (mp_events db') = map ev_id (mp_events db)" "fn_loans db' = fn_loans db" "fn_deposits db' = fn_deposits db"
    "fn_fees_due db' = fn_fees_due db" "fn_outbox db' = fn_outbox db" "mp_runs db' = mp_runs db"
    "fn_products db' = fn_products db" "fn_fee_catalog db' = fn_fee_catalog db"
proof -
  have id: "ev_id r = eid" using find_event_mem [OF f] by simp
  let ?f = "\<lambda>r. r\<lparr>ev_attempts := ev_attempts r + 1, ev_error_text := Some e, ev_locked_by := None\<rparr>"
  let ?g = "\<lambda>r. r\<lparr>ev_status := InboundFailed, ev_locked_by := None\<rparr>"
  let ?d1 = "update_event eid ?f db"
  let ?d2 = "update_event eid ?g ?d1"
  have f1: "find_event ?d1 eid = Some (?f r)" using f id by (simp add: find_update_event)
  have f2: "find_event ?d2 eid = Some (?g (?f r))"
    by (subst find_update_event, simp) (subst f1, simp add: id)
  show thesis
  proof (cases "ev_attempts r + 1 < HardFailAttempts")
    case True
    then show thesis using that [of ?d1] f f1
      by (simp add: RecordFailure_def RecordAttemptFailureTx_def failed_row_def update_event_ids) (simp add: update_event_def)
  next
    case False
    then obtain d where d: "RecordFailure cfg E db tenant eid e = Inr d" "d = ?d2 \<or> (\<exists>w n. d = ?d2\<lparr>mp_wf := w, fn_supply := n\<rparr>)"
      using f f1 by (fastforce simp: RecordFailure_def RecordAttemptFailureTx_def MarkEventFailedTx_def split: sum.splits)
    moreover have "find_event d eid = Some (failed_row e r)"
      using d(2) f2 False by (auto simp: find_event_def failed_row_def)
    moreover have "map ev_id (mp_events d) = map ev_id (mp_events db)"
      using d(2) by (auto simp: update_event_ids)
    ultimately show thesis using that [of d] by (auto simp: update_event_def)
  qed
qed

text \<open>The row after an attempt: settled, or one more attempt on record.\<close>

lemma attempt_due:
  assumes due: "event_due eid db" and e: "env_dec E = D"
  shows "event_settled eid (attempt_event cfg E commits worker tenant eid db) \<or>
    event_due eid (attempt_event cfg E commits worker tenant eid db) \<and>
    event_attempts eid (attempt_event cfg E commits worker tenant eid db) = Suc (event_attempts eid db)"
proof -
  let ?l = "update_event eid (\<lambda>r. r\<lparr>ev_locked_by := Some worker\<rparr>) db"
  obtain r where r: "distinct (map ev_id (mp_events db))" "find_event db eid = Some r" "ev_status r = InboundReceived"
    "ev_attempts r < HardFailAttempts"
    using due by (auto simp: event_due_def)
  have id: "ev_id r = eid" using find_event_mem [OF r(2)] by simp
  obtain res where lp: "lease_and_process cfg E commits (- {eid}) worker tenant db = Some (eid, res)"
    "res = bind_res (Process cfg E ?l tenant eid) (\<lambda>(db2, _). if commits then Inr db2 else Inl (MpDb ''commit''))"
    using lease_due [OF due, of worker] by (simp add: lease_and_process_def)
  show ?thesis
  proof (cases res)
    case (Inr db2)
    then obtain pr where p: "Process cfg E ?l tenant eid = Inr (db2, pr)" using lp(2) by (auto split: if_splits)
    have "mp_events db2 = mp_events (update_event eid (\<lambda>r. r\<lparr>ev_status := InboundDistributed,
        ev_distribution_run_id := Some (fn_supply ?l), ev_error_text := None, ev_locked_by := None\<rparr>) ?l)"
      using Process_events [OF p] .
    then have "event_settled eid db2"
      using r id by (simp add: event_settled_def find_event_def [of db2] update_event_ids
          flip: find_event_def [of "update_event _ _ _"]) (simp add: find_update_event)
    then show ?thesis using lp(1) Inr by (simp add: attempt_event_def processOneEvent_def)
  next
    case (Inl err)
    obtain d where d: "RecordFailure cfg E db tenant eid err = Inr d" "find_event d eid = Some (failed_row err r)"
      "map ev_id (mp_events d) = map ev_id (mp_events db)"
      by (rule RecordFailure_effect [OF r(2)]) (rule that; assumption)
    then have "attempt_event cfg E commits worker tenant eid db = d"
      using lp(1) Inl by (simp add: attempt_event_def processOneEvent_def)
    then show ?thesis using d(2,3) r
      by (auto simp: event_due_def event_settled_def event_attempts_def failed_row_def)
  qed
qed

interpretation distributor: retry_worker "event_due eid" "event_settled eid" "event_attempts eid"
    "attempt_event cfg E commits worker tenant eid" HardFailAttempts
  for eid cfg E commits worker tenant
proof (unfold_locales, goal_cases)
  case (1 db)
  then show ?case by (auto simp: event_due_def event_attempts_def)
next
  case (2 db)
  then show ?case by (rule attempt_due [OF _ refl])
next
  case (3 db)
  then show ?case by (simp add: attempt_settled)
qed

end
