(* ===== verification/MpesaExamples.thy ===== *)
theory MpesaExamples
  imports MpesaSystem LedgerProperties
begin

text \<open>
  Example data for the properties of the M-PESA service: one member with a loan and a savings
  account, a recorded payment, and the evaluation of one distribution of it.
\<close>

section \<open>An example\<close>

definition ex_mp_env :: fin_env where
  "ex_mp_env = \<lparr> env_dec = shop_decimal, env_col = round_half_up 2, env_now = 7,
     env_time = GoTime (Date 2026 5 26) 0, env_uuid = show_nat \<rparr>"

definition ex_mp_cfg :: mp_config where
  "ex_mp_cfg = \<lparr> cf_cash = ''1030'', cf_clearing = ''1099'', cf_apply = True,
     cf_numeric = (\<lambda>s. map_option (round_half_up 2) (dec_parse s)), cf_err_text = (\<lambda>_. ''error'') \<rparr>"

definition ex_loan :: loan_row where
  "ex_loan = \<lparr> ln_id = 11, ln_loan_no = ''L-1'', ln_counterparty_id = 5, ln_status = ''active'', ln_created_at = 0,
     ln_penalty_paid = 0, ln_penalty_balance = 10, ln_interest_paid = 0, ln_interest_balance = 20,
     ln_principal_repaid = 0, ln_principal_balance = 100, ln_fees_paid = 0, ln_fees_balance = 0,
     ln_last_repayment_at = None \<rparr>"

definition ex_deposit :: deposit_row where
  "ex_deposit = \<lparr> da_id = 21, da_account_no = ''DA-1'', da_counterparty_id = 5, da_product_id = 31,
     da_status = ''active'', da_current_balance = 40, da_available_balance = 40, da_created_at = 0,
     da_last_activity_at = None, da_last_deposit_at = None \<rparr>"

definition ex_paybill :: paybill where
  "ex_paybill = \<lparr> pb_id = 41, pb_tenant_id = 1, pb_label = ''main'', pb_shortcode = ''600'',
     pb_strict_validation = False, pb_allow_msisdn_fallback = False, pb_webhook_token = ''tok'' \<rparr>"

definition ex_mp :: mp_db where
  "ex_mp = \<lparr> fn_loans = [ex_loan], fn_deposits = [ex_deposit],
     fn_products = [\<lparr> dp_id = 31, dp_code = ''BOSA-1'', dp_segment = ''bosa'', dp_product_type = ''member_deposit'' \<rparr>],
     fn_fees_due = [], fn_fee_catalog = [], fn_loan_txns = [], fn_deposit_txns = [], fn_outbox = [], fn_supply = 100,
     mp_events = [], mp_runs = [], mp_paybills = [ex_paybill],
     mp_members = [\<lparr> mm_member_no = ''M-1'', mm_counterparty_id = Some 5 \<rparr>],
     mp_counterparties = [\<lparr> cp_id = 5, cp_number = ''CP-1'', cp_phone = ''0712345678'' \<rparr>],
     mp_wf = \<lparr> db_definitions = [], db_instances = Map.empty, db_actions = [] \<rparr> \<rparr>"

definition ex_event :: "resolved_via option \<Rightarrow> string \<Rightarrow> decimal \<Rightarrow> event_row" where
  "ex_event via bill x = \<lparr> ev_id = 100, ev_paybill_id = 41, ev_shortcode = ''600'', ev_transaction_id = ''RKT'',
     ev_transaction_time = None, ev_amount = x, ev_msisdn = Some ''254712345678'', ev_bill_ref = Some bill,
     ev_status = InboundReceived, ev_resolved_member_id = (if via = None then None else Some 5), ev_resolved_via = via,
     ev_workflow_instance_id = None, ev_received_at = 7, ev_attempts = 0, ev_error_text = None,
     ev_distribution_run_id = None, ev_locked_by = None \<rparr>"

definition ex_mp_with :: "event_row \<Rightarrow> mp_db" where
  "ex_mp_with ev = ex_mp\<lparr>mp_events := [ev], fn_supply := 101\<rparr>"

lemma ex_env_ok [simp]: "env_ok ex_mp_env"
  by (simp add: env_ok_def ex_mp_env_def shop.decimal_text_axioms round_half_up_rounding)

lemma ex_cfg_ok [simp]: "cfg_ok ex_mp_cfg"
  using round_half_up_rounding [of 2]
  by (auto simp: cfg_ok_def ex_mp_cfg_def rounding.repr)

lemma ex_fin_ok [simp]: "fin_ok (ex_mp_with ev)" "catalog_ok (ex_mp_with ev)" "fin_ok ex_mp" "catalog_ok ex_mp"
  by (simp_all add: fin_ok_def catalog_ok_def ex_mp_with_def ex_mp_def ex_loan_def ex_deposit_def loan_ok_def money_def)

section \<open>Evaluation\<close>

definition ex_inbound :: "resolved_via option \<Rightarrow> string \<Rightarrow> decimal \<Rightarrow> inbound_event" where
  "ex_inbound via bill x = \<lparr> ie_id = 100, ie_transaction_id = ''RKT'', ie_transaction_time = None,
     ie_amount = dFixed shop_decimal 2 x, ie_msisdn = ''254712345678'', ie_bill_ref = bill, ie_status = InboundReceived,
     ie_resolved_member_id = (if via = None then None else Some 5), ie_resolved_via = via \<rparr>"

definition ex_split :: "leg \<Rightarrow> decimal \<Rightarrow> string \<Rightarrow> uuid \<Rightarrow> split" where
  "ex_split lg x ref t = \<lparr> sp_leg = lg, sp_amount = x, sp_target_ref = ref, sp_target_id = Some t \<rparr>"

definition ex_plan :: plan where
  "ex_plan = \<lparr> pn_event_id = 100, pn_amount = 150, pn_splits = [ex_split LegLoanPenaltyDue 10 ''L-1'' 11,
     ex_split LegLoanInterestDue 20 ''L-1'' 11, ex_split LegLoanPrincipalDue 100 ''L-1'' 11,
     ex_split LegBOSATopUp 20 ''DA-1'' 21], pn_leftover = 0 \<rparr>"

abbreviation ex_row :: "resolved_via option \<Rightarrow> string \<Rightarrow> decimal \<Rightarrow> nat \<Rightarrow> uuid option \<Rightarrow> event_row" where
  "ex_row via bill x n w \<equiv> (ex_event via bill x)\<lparr>ev_attempts := n, ev_locked_by := w\<rparr>"

lemma ex_event_by_id: "EventByIDTx shop_decimal (ex_mp_with (ex_row via bill x n w)) 100 = Inr (ex_inbound via bill x)"
  by (simp add: EventByIDTx_def scan_event_def find_event_def ex_event_def ex_mp_with_def ex_inbound_def)

lemma ex_inbound_sel [simp]: "ie_id (ex_inbound via bill x) = 100" "ie_transaction_id (ex_inbound via bill x) = ''RKT''"
  "ie_transaction_time (ex_inbound via bill x) = None" "ie_amount (ex_inbound via bill x) = dFixed shop_decimal 2 x"
  "ie_bill_ref (ex_inbound via bill x) = bill" "ie_status (ex_inbound via bill x) = InboundReceived"
  "ie_resolved_member_id (ex_inbound via bill x) = (if via = None then None else Some 5)"
  "ie_resolved_via (ex_inbound via bill x) = via"
  by (simp_all add: ex_inbound_def)

lemmas ex_reads = db_balances_def PrimaryActiveLoanTx_def DepositAccountsTx_def FeesDueTx_def ex_mp_with_def ex_mp_def
  ex_loan_def ex_deposit_def components_of_def account_of_def find_product_def

lemma ex_run: "Run shop_decimal (db_balances (ex_mp_with ev)) (ex_inbound (Some ViaMemberNo) bill 150) [] = Inr ex_plan"
  by (simp add: Run_def shop.parse_fixed_exact runWaterfall_def ex_reads pickDepositTargets_def
      pick_target_def isFOSA_def DefaultWaterfall_def walk.simps planLeg_def loan_leg_def decMin_def Let_def ex_plan_def ex_split_def)

lemma ex_dec: "env_dec ex_mp_env = shop_decimal" "env_col ex_mp_env = round_half_up 2" by (simp_all add: ex_mp_env_def)

lemma bind_res_weak: "m = m' \<Longrightarrow> bind_res m f = bind_res m' f"
  by simp

lemmas ex_apply = ApplyPlanTx_def apply_split_def apply_loan_split_def ex_split_def add_to_def alloc_zero_def
  apply_deposit_split_def flushLoan_def alloc_Total_def map_fin_def
lemmas ex_repay = RepayLoanTx_def alloc_Total_def find_loan_def repayable_def allocation_fits_def Let_def
  postRepaymentGL_def FinPostTx_def repayment_lines_def credit_if_def half_exact src_ref_def map_fin_def
lemmas ex_bank = DepositTx_def find_deposit_def update_loan_def find_product_def bump_balance_def update_deposit_def
  insert_deposit_txn_def deposit_channels_def ex_dec half_exact FinPostTx_def src_ref_def Let_def map_fin_def
lemmas ex_mark = MarkRunPostedTx_def MarkDistributedTx_def find_event_def update_event_def update_run_def

lemma ex_process:
  "\<exists>r. Process ex_mp_cfg ex_mp_env (ex_mp_with (ex_row (Some ViaMemberNo) ''M-1'' 150 n w)) 1 100 = Inr r"
  unfolding Process_def ex_dec ex_event_by_id
  apply (simp add: ex_run CreateRunTx_def PostCashLegTx_def Let_def ex_mp_cfg_def
      ex_plan_def cong: bind_res_weak del: bind_res_Inr_iff split del: if_split)
  apply (simp add: ex_apply ex_repay ex_mp_with_def ex_mp_def ex_loan_def cong: bind_res_weak del: bind_res_Inr_iff split del: if_split)
  apply (simp add: ex_bank ex_deposit_def cong: bind_res_weak del: bind_res_Inr_iff split del: if_split)
  by (simp add: ex_apply ex_mark ex_event_def ex_mp_with_def ex_mp_def cong: bind_res_weak del: bind_res_Inr_iff split del: if_split)

lemma ex_process_unmatched:
  "\<exists>d r. Process ex_mp_cfg ex_mp_env (ex_mp_with (ex_row None ''M-1'' 150 n w)) 1 100 = Inr (d, r) \<and>
     mp_members d = [\<lparr> mm_member_no = ''M-1'', mm_counterparty_id = Some 5 \<rparr>]"
proof -
  have run: "Run shop_decimal B (ex_inbound None ''M-1'' 150) [] = Inr \<lparr> pn_event_id = 100, pn_amount = 150, pn_splits = [], pn_leftover = 150 \<rparr>" for B
    by (simp add: Run_def shop.parse_fixed_exact Let_def)
  show ?thesis
    unfolding Process_def ex_dec ex_event_by_id
    apply (simp add: run cong: bind_res_weak del: bind_res_Inr_iff split del: if_split)
      by (simp add: CreateRunTx_def PostCashLegTx_def Let_def ex_mp_cfg_def ex_mark ex_mp_with_def ex_mp_def ex_event_def
      cong: bind_res_weak del: bind_res_Inr_iff split del: if_split)
qed

definition ex_body :: c2b_body where
  "ex_body = \<lparr> cb_trans_id = ''RKT'', cb_trans_time = [], cb_trans_amount = ''150'', cb_bill_ref_number = ''M-1'',
     cb_msisdn = ''254712345678'' \<rparr>"

lemma ex_numeric: "cf_numeric ex_mp_cfg ''150'' = Some 150"
proof -
  have "dec_parse ''150'' = Some 150" by code_simp
  then show ?thesis by (simp add: ex_mp_cfg_def half_exact)
qed

lemma ex_persist:
  "confirm_persist ex_mp_cfg ex_mp_env ex_mp (Some 41) ''tok'' (Some ex_body) =
    (ex_mp_with (ex_event None ''M-1'' 150), Some (ex_paybill, 100, ex_body), Daraja \<lparr> dr_code = 0, dr_desc = ''Received'' \<rparr>)"
proof -
  have "parseDarajaTime [] = None" by (simp add: parseDarajaTime_def TrimSpace_def Let_def)
  then show ?thesis
    by (simp add: confirm_persist_def ByIDAndToken_def orNotFound_def RecordTx_def scan_event_def nullIfEmpty_def Let_def
        ex_body_def ex_numeric ex_mp_def ex_mp_with_def ex_paybill_def ex_event_def ex_mp_env_def)
qed

lemma ex_leased:
  assumes "Process ex_mp_cfg ex_mp_env (ex_mp_with (ex_row via bill x 0 (Some 9))) 1 100 = Inr r"
  shows "lease_and_process ex_mp_cfg ex_mp_env True {} 9 1 (ex_mp_with (ex_event via bill x)) = Some (100, Inr (fst r))"
proof -
  have "LeaseNextTx {} 9 (ex_mp_with (ex_event via bill x)) = Inr (ex_mp_with (ex_row via bill x 0 (Some 9)), 100)"
   by (simp add: LeaseNextTx_def ex_mp_with_def ex_mp_def update_event_def ex_event_def)
  with assms show ?thesis by (cases r) (simp add: lease_and_process_def del: bind_res_Inr_iff)
qed

lemma ex_start: "mp_start ex_mp"
  by (simp add: mp_start_def queue_def) (simp add: ex_mp_def)

text \<open>A payment recorded, and distributed before it is resolved.\<close>

lemma ex_reach:
  obtains s r where "(mp_step ex_mp_cfg shop_decimal show_nat)\<^sup>*\<^sup>* (mp_init ex_mp) s"
    "Process ex_mp_cfg ex_mp_env (ex_mp_with (ex_row None ''M-1'' 150 0 (Some 9))) 1 100 = Inr (ms_db s, r)"
proof -
  obtain d r where p: "Process ex_mp_cfg ex_mp_env (ex_mp_with (ex_row None ''M-1'' 150 0 (Some 9))) 1 100 = Inr (d, r)"
    using ex_process_unmatched by fastforce
  note E = ex_env_ok ex_dec(1)
  have u: "env_uuid ex_mp_env = show_nat" by (simp add: ex_mp_env_def)
  let ?s1 = "\<lparr> ms_db = ex_mp_with (ex_event None ''M-1'' 150), ms_jobs = [(ex_paybill, 100, ex_body)], ms_failures = [] \<rparr>"
  have "mp_step ex_mp_cfg shop_decimal show_nat (mp_init ex_mp) ?s1"
    using mp_step.persist [OF E u, of ex_mp_cfg "mp_init ex_mp"] ex_persist by (fastforce simp: mp_init_def)
  moreover have "mp_step ex_mp_cfg shop_decimal show_nat ?s1 (?s1\<lparr>ms_db := d\<rparr>)"
    by (rule mp_step.processed [OF E u, where commits = True and held = "{}" and worker = 9 and tenant = 1 and eid = 100])
      (use ex_leased [OF p] in simp)
  ultimately have "(mp_step ex_mp_cfg shop_decimal show_nat)\<^sup>*\<^sup>* (mp_init ex_mp) (?s1\<lparr>ms_db := d\<rparr>)"
    by (rule rtranclp.rtrancl_into_rtrancl [OF r_into_rtranclp])
  then show thesis by (rule that) (use p in simp)
qed

lemma ex_process_events:
  assumes "Process ex_mp_cfg ex_mp_env (ex_mp_with (ex_row via bill x n w)) 1 100 = Inr (d, r)"
  shows "\<exists>ev. mp_events d = [ev] \<and> ev_id ev = 100 \<and> ev_status ev = InboundDistributed \<and> ev_amount ev = x"
  using Process_events [OF assms] by (simp add: update_event_def) (simp add: ex_mp_with_def ex_event_def)

lemma ex_mp_scaled: "\<forall>r\<in>set (mp_events (ex_mp_with (ex_row via bill (numeral k) n w))). scaled 2 (ev_amount r)"
  by (simp add: ex_mp_with_def ex_event_def)

text \<open>A repayment of a penalty.\<close>

definition ex_repay_input :: repay_input where
  "ex_repay_input = \<lparr> ri_tenant_id = 1, ri_loan_id = 11, ri_allocation = \<lparr> al_penalty = 10, al_interest = 0, al_principal = 0, al_fees = 0 \<rparr>,
     ri_channel = ''mpesa'', ri_channel_ref = ''RKT'', ri_narration = [], ri_value_date = GoTime (Date 2026 5 26) 0,
     ri_initiated_by = 0, ri_external_ref = ''RKT'' \<rparr>"

end
