(* ===== verification/MpesaProperties.thy ===== *)
theory MpesaProperties
  imports MpesaExamples
begin

text \<open>
  The properties of the M-PESA service: each payment is distributed once, a distribution conserves
  money, and what happens to the payments that cannot be distributed.
\<close>

section \<open>Each payment once\<close>

text \<open>C4. Whatever the order in which confirmations, resolutions, distributor attempts, failure records and
  the other services' transactions commit, a payment has at most one cash entry in the posting outbox
  and at most one run; it has none while it is received, and exactly one of each, posted and for its
  amount, once it is distributed. No receipt number is recorded twice.\<close>

theorem payment_distributed_once:
  assumes "cfg_ok cfg" "inj U" "mp_start db0" "(mp_step cfg D U)\<^sup>*\<^sup>* (mp_init db0) s"
    and "ev \<in> set (mp_events (ms_db s))"
  shows "length (cash_reqs U (ev_id ev) (queue (ms_db s))) \<le> 1 \<and> length (event_runs (ev_id ev) (ms_db s)) \<le> 1 \<and>
    (ev_status ev = InboundReceived \<longrightarrow> cash_reqs U (ev_id ev) (queue (ms_db s)) = [] \<and> event_runs (ev_id ev) (ms_db s) = []) \<and>
    (ev_status ev = InboundDistributed \<longrightarrow> (\<exists>q run. cash_reqs U (ev_id ev) (queue (ms_db s)) = [q] \<and>
       cash_entry D cfg (ev_amount ev) q \<and> event_runs (ev_id ev) (ms_db s) = [run] \<and> rn_status run = RunPosted \<and>
       rn_amount run = ev_amount ev)) \<and>
    distinct (map ev_transaction_id (mp_events (ms_db s)))"
proof -
  have inv: "mp_inv cfg D U (ms_db s)" by (rule mp_reachable [OF assms(1-4)])
  then have "event_ok cfg D U (ms_db s) ev" using assms(5) by (simp add: mp_inv_def)
  then show ?thesis using inv
    by (auto simp: event_ok_def untouched_def paid_out_def mp_inv_def split: inbound_status.splits)
qed

theorem payment_distributed_once_witness:
  "\<exists>s ev q. (mp_step ex_mp_cfg shop_decimal show_nat)\<^sup>*\<^sup>* (mp_init ex_mp) s \<and> mp_events (ms_db s) = [ev] \<and>
     ev_status ev = InboundDistributed \<and> cash_reqs show_nat (ev_id ev) (queue (ms_db s)) = [q]"
proof -
  obtain s r where s: "(mp_step ex_mp_cfg shop_decimal show_nat)\<^sup>*\<^sup>* (mp_init ex_mp) s"
    "Process ex_mp_cfg ex_mp_env (ex_mp_with (ex_row None ''M-1'' 150 0 (Some 9))) 1 100 = Inr (ms_db s, r)"
    by (rule ex_reach)
  obtain ev where "mp_events (ms_db s) = [ev]" "ev_status ev = InboundDistributed" using ex_process_events [OF s(2)] by blast
  then show ?thesis
    using payment_distributed_once [OF ex_cfg_ok inj_show_nat ex_start s(1), of ev] s(1) by auto
qed

text \<open>C5. In every reachable state the clearing account's net over all M-PESA entries ever queued is the
  sum of what the runs left undistributed, and no loan balance is negative: money leaves clearing only
  for a loan, a deposit or a fee.\<close>

theorem clearing_holds_leftovers:
  assumes "cfg_ok cfg" "inj U" "mp_start db0" "(mp_step cfg D U)\<^sup>*\<^sup>* (mp_init db0) s"
  shows "mpesa_net D (queue (ms_db s)) = sum_list (map run_leftover (mp_runs (ms_db s))) \<and>
    (\<forall>l\<in>set (fn_loans (ms_db s)). 0 \<le> ln_penalty_balance l \<and> 0 \<le> ln_interest_balance l \<and>
       0 \<le> ln_principal_balance l \<and> 0 \<le> ln_fees_balance l)"
  using mp_reachable [OF assms] by (auto simp: mp_inv_def fin_ok_def loan_ok_def money_def)

theorem clearing_holds_leftovers_witness:
  "\<exists>s. (mp_step ex_mp_cfg shop_decimal show_nat)\<^sup>*\<^sup>* (mp_init ex_mp) s \<and>
     mpesa_net shop_decimal (queue (ms_db s)) = sum_list (map run_leftover (mp_runs (ms_db s)))"
  using clearing_holds_leftovers [OF ex_cfg_ok inj_show_nat ex_start] ex_reach by metis

section \<open>One payment\<close>

text \<open>C10. Processing a payment conserves money: the parts are positive and with the leftover make up the
  amount, the loans' balances fall by the loan parts, the deposit balances rise by the deposit parts,
  every queued entry balances, what the entries leave on the clearing account is the leftover, and the
  payment is distributed.\<close>

theorem process_conserves:
  assumes "env_ok E" "cfg_ok cfg" "fin_ok db" "catalog_ok db" "\<forall>r\<in>set (mp_events db). scaled 2 (ev_amount r)"
    and "Process cfg E db tenant eid = Inr (db', res)"
  shows "\<exists>r rows. find_event db eid = Some r \<and>
    split_total (pr_splits res) + pr_leftover res = ev_amount r \<and> 0 \<le> pr_leftover res \<and>
    (\<forall>s\<in>set (pr_splits res). 0 < sp_amount s) \<and>
    loans_total db' = loans_total db - sum_list (map loan_part (pr_splits res)) \<and>
    deposits_total db' = deposits_total db + sum_list (map deposit_part (pr_splits res)) \<and>
    fn_outbox db' = fn_outbox db @ rows \<and> (\<forall>row\<in>set rows. row_balanced (env_dec E) row) \<and>
    queued_net (env_dec E) ''1099'' rows = pr_leftover res \<and>
    (\<exists>r'. find_event db' eid = Some r' \<and> ev_status r' = InboundDistributed)"
proof -
  let ?D = "env_dec E"
  have dt: "decimal_text ?D" using assms(1) by (simp add: env_ok_def)
  obtain r pln ob row rows where p: "find_event db eid = Some r" "plan_ok (ev_amount r) pln"
    "res = \<lparr> pr_event_id = eid, pr_run_id = fn_supply db, pr_splits = pn_splits pln, pr_leftover = pn_leftover pln \<rparr>"
    "loans_total db' = loans_total db - sum_list (map loan_part (pn_splits pln))"
    "deposits_total db' = deposits_total db + sum_list (map deposit_part (pn_splits pln))"
    "fn_outbox db' = fn_outbox db @ row # rows" "cash_entry ?D cfg (ev_amount r) (ob_payload row)"
    "\<forall>r\<in>set rows. pq_source_module (ob_payload r) \<in> executor_modules \<and> row_balanced ?D r"
    "queued_net ?D ''1099'' rows = - split_total (pn_splits pln)"
    by (rule Process_effect [OF assms]) (rule that; assumption)
  have sc: "scaled 2 (ev_amount r)" using assms(5) find_event_mem [OF p(1)] by blast
  note cash = cash_entry_net [OF dt sc p(7)]
  have "row_balanced ?D row" "row_net ?D ''1099'' row = ev_amount r"
    using cash assms(2) by (simp_all add: cfg_ok_def row_balanced_def row_net_req)
  moreover have "\<exists>r'. find_event db' eid = Some r' \<and> ev_status r' = InboundDistributed"
  proof -
    have "find_event db' eid = find_event (update_event eid (\<lambda>r. r\<lparr>ev_status := InboundDistributed,
        ev_distribution_run_id := Some (fn_supply db), ev_error_text := None, ev_locked_by := None\<rparr>) db) eid"
      by (simp add: find_event_def Process_events [OF assms(6)])
    then show ?thesis using p(1) find_event_mem [OF p(1)] by (simp add: find_update_event)
  qed
  ultimately show ?thesis using p
    by (intro exI [of _ r] exI [of _ "row # rows"]) (auto simp: plan_ok_def split_ok_def money_def)
qed

theorem process_conserves_witness:
  "\<exists>db' res. Process ex_mp_cfg ex_mp_env (ex_mp_with (ex_row (Some ViaMemberNo) ''M-1'' 150 0 None)) 1 100 = Inr (db', res) \<and>
     split_total (pr_splits res) + pr_leftover res = 150"
proof -
  obtain db' res where p: "Process ex_mp_cfg ex_mp_env (ex_mp_with (ex_row (Some ViaMemberNo) ''M-1'' 150 0 None)) 1 100 = Inr (db', res)"
    using ex_process by fastforce
  have "find_event (ex_mp_with (ex_row (Some ViaMemberNo) ''M-1'' 150 0 None)) 100 = Some (ex_row (Some ViaMemberNo) ''M-1'' 150 0 None)"
    by (simp add: find_event_def ex_mp_with_def ex_event_def)
  with process_conserves [OF ex_env_ok ex_cfg_ok ex_fin_ok(1,2) ex_mp_scaled p] p show ?thesis by (auto simp: ex_event_def)
qed

text \<open>C24. The default waterfall is the reference: each due, in order of fees, penalty, interest, principal
  and loan fees, gets what the dues before it leave, up to what is owed; the rest goes to the FOSA
  account, or without one to the BOSA account, or without either is left over.\<close>

theorem waterfall_reference:
  assumes "fin_ok db" "Run D (db_balances db) event [] = Inr p" "dParse D (ie_amount event) = Some amount"
    and "scaled 2 amount" "ie_resolved_member_id event = Some cp" "ie_resolved_via event = Some via"
    and "via \<noteq> ViaLoanNo" "via \<noteq> ViaDepositAccountNo"
  shows "\<exists>fees loan deposits bosa fosa. FeesDueTx db cp = Inr fees \<and>
    PrimaryActiveLoanTx db cp = (case loan of None \<Rightarrow> Inl MpNotFound | Some l \<Rightarrow> Inr l) \<and>
    DepositAccountsTx db cp = Inr deposits \<and> pickDepositTargets deposits = (bosa, fosa) \<and>
    (\<forall>lg\<in>set due_legs. leg_total lg (pn_splits p) = max 0 (min (due_of fees loan lg)
       (amount - sum_list (map (due_of fees loan) (takeWhile (\<lambda>x. x \<noteq> lg) due_legs))))) \<and>
    (let rest = max 0 (amount - sum_list (map (due_of fees loan) due_legs)) in
     leg_total LegFOSATopUp (pn_splits p) = (if fosa \<noteq> None then rest else 0) \<and>
     leg_total LegBOSATopUp (pn_splits p) = (if fosa = None \<and> bosa \<noteq> None then rest else 0) \<and>
     pn_leftover p = (if fosa = None \<and> bosa = None then rest else 0))"
proof -
  let ?p0 = "\<lparr> pn_event_id = ie_id event, pn_amount = amount, pn_splits = [], pn_leftover = 0 \<rparr>"
  have run: "runWaterfall (db_balances db) cp amount [] ?p0 = Inr p" and pos: "0 < amount"
    using assms(2,3,5-8) by (auto simp: Run_def Let_def)
  have m: "money amount" using pos assms(4) by (simp add: money_def)
  obtain loan deposits fees bosa fosa ss left where w:
    "bl_primary_active_loan (db_balances db) cp = (case loan of None \<Rightarrow> Inl MpNotFound | Some l \<Rightarrow> Inr l)"
    "bl_deposit_accounts (db_balances db) cp = Inr deposits" "bl_fees_due (db_balances db) cp = Inr fees"
    "pickDepositTargets deposits = (bosa, fosa)" "dues_ok fees loan"
    "walk fees loan bosa fosa (if [] = ([] :: leg list) then DefaultWaterfall else []) amount = (ss, left)"
    "p = ?p0\<lparr>pn_splits := ss, pn_leftover := left\<rparr>"
    by (rule db_port.waterfall_InrE [OF assms(1) run])
  let ?tail = "[LegBOSATopUp, LegFOSATopUp]" and ?R = "max 0 (amount - sum_list (map (due_of fees loan) due_legs))"
  have dw: "DefaultWaterfall = due_legs @ ?tail" by (simp add: DefaultWaterfall_def due_legs_def)
  have ww: "walk fees loan bosa fosa (due_legs @ ?tail) amount = (ss, left)" using w(6) by (simp add: dw)
  have dl: "distinct due_legs" "\<forall>lg\<in>set due_legs. lg \<notin> set ?tail" by (simp_all add: due_legs_def)
  note wd = walk_dues [OF w(5) m dl(1) subset_refl, of ?tail bosa fosa, unfolded ww, simplified]
  have dues: "\<forall>lg\<in>set due_legs. leg_total lg ss = max 0 (min (due_of fees loan lg)
      (amount - sum_list (map (due_of fees loan) (takeWhile (\<lambda>x. x \<noteq> lg) due_legs))))"
    using wd dl(2) by auto
  have tail: "walk fees loan bosa fosa ?tail ?R = (fst (walk fees loan bosa fosa ?tail ?R), left)"
    "leg_total LegFOSATopUp ss = leg_total LegFOSATopUp (fst (walk fees loan bosa fosa ?tail ?R))"
    "leg_total LegBOSATopUp ss = leg_total LegBOSATopUp (fst (walk fees loan bosa fosa ?tail ?R))"
    using wd by (auto simp: due_legs_def prod_eq_iff)
  have "leg_total LegFOSATopUp ss = (if fosa \<noteq> None then ?R else 0) \<and>
     leg_total LegBOSATopUp ss = (if fosa = None \<and> bosa \<noteq> None then ?R else 0) \<and>
     left = (if fosa = None \<and> bosa = None then ?R else 0)"
    using tail by (cases fosa; cases bosa) (auto simp: walk.simps(2) planLeg_def Let_def split: if_splits)
  then show ?thesis using w(1-4,7) dues
    by (intro exI [of _ fees] exI [of _ loan] exI [of _ deposits] exI [of _ bosa] exI [of _ fosa])
      (simp add: db_balances_def Let_def)
qed

theorem waterfall_reference_witness:
  "leg_total LegLoanPenaltyDue (pn_splits ex_plan) = 10 \<and> leg_total LegBOSATopUp (pn_splits ex_plan) = 20 \<and>
   (\<exists>fees loan. leg_total LegLoanPenaltyDue (pn_splits ex_plan) = max 0 (min (due_of fees loan LegLoanPenaltyDue) (150 - due_of fees loan LegFeesDue)))"
  using waterfall_reference [OF ex_fin_ok(1) ex_run, where amount = 150 and cp = 5 and via = ViaMemberNo]
  by (simp add: shop.parse_fixed_exact ex_plan_def ex_split_def due_legs_def) blast

text \<open>An event is not tried for ever: after six attempts, whatever fails in them, it is distributed or
  marked failed.\<close>

theorem distribution_attempts_end:
  assumes "event_due eid db"
  shows "\<exists>r. find_event ((attempt_event cfg E commits worker tenant eid ^^ HardFailAttempts) db) eid = Some r \<and>
    ev_status r \<in> {InboundDistributed, InboundFailed}"
proof -
  have "event_settled eid ((attempt_event cfg E commits worker tenant eid ^^ HardFailAttempts) db)"
    by (rule distributor.settles [OF assms]) simp
  then obtain r where "find_event ((attempt_event cfg E commits worker tenant eid ^^ HardFailAttempts) db) eid = Some r"
    "ev_status r \<noteq> InboundReceived" by (auto simp: event_settled_def)
  then show ?thesis by (cases "ev_status r") auto
qed

theorem distribution_attempts_end_witness:
  "\<exists>r. find_event ((attempt_event ex_mp_cfg ex_mp_env False 9 1 100 ^^ HardFailAttempts) (ex_mp_with (ex_event None ''M-1'' 150))) 100 = Some r \<and>
    ev_status r \<in> {InboundDistributed, InboundFailed}"
  by (rule distribution_attempts_end)
    (simp add: event_due_def find_event_def ex_mp_with_def ex_event_def HardFailAttempts_def)

section \<open>Overpaying a named loan\<close>

lemma walk_loan_over:
  "\<forall>c\<in>set cs. 0 \<le> snd c \<Longrightarrow> sum_list (map snd cs) < r \<Longrightarrow>
    leg_total lg (walk_loan lc cs r) = sum_list (map snd (filter (\<lambda>c. fst c = lg) cs)) +
      (if lg = LegLoanPrincipalDue then r - sum_list (map snd cs) else 0)"
proof (induction lc cs r rule: walk_loan.induct)
  case (2 lc l bal legs r)
  have nn: "0 \<le> bal" "0 \<le> sum_list (map snd legs)" using 2(3) by (auto intro!: sum_list_nonneg)
  with 2(4) have m: "min r bal = bal" "r - bal \<noteq> 0" by simp_all
  show ?case
  proof (cases "bal = 0")
    case True
    then show ?thesis using 2(1) [OF refl] 2(3,4) m by (simp add: Let_def)
  next
    case False
    have "leg_total lg (walk_loan lc legs (r - bal)) = sum_list (map snd (filter (\<lambda>c. fst c = lg) legs)) +
        (if lg = LegLoanPrincipalDue then r - bal - sum_list (map snd legs) else 0)"
      using 2(2) [OF refl _ refl refl] False m 2(3,4) by simp
    moreover have "walk_loan lc ((l, bal) # legs) r = \<lparr> sp_leg = l, sp_amount = bal, sp_target_ref = lc_loan_no lc,
        sp_target_id = Some (lc_loan_id lc) \<rparr> # walk_loan lc legs (r - bal)"
      using False m by (simp add: Let_def)
    ultimately show ?thesis by simp
  qed
qed simp

definition add_split :: "split \<Rightarrow> allocation \<Rightarrow> allocation" where
  "add_split s = add_to (sp_leg s) (sp_amount s)"

text \<open>Parts of one loan are collected into one group.\<close>

lemma apply_loan_group:
  "\<forall>s\<in>set sps. sp_leg s \<in> loan_legs \<and> sp_target_id s = Some tid \<Longrightarrow> tid \<noteq> uuid_Nil \<Longrightarrow> as_loan st \<in> {uuid_Nil, tid} \<Longrightarrow>
    apply_splits E inp sps st = Inr (st\<lparr>as_loan := (if sps = [] then as_loan st else tid),
      as_alloc := fold add_split sps (as_alloc st)\<rparr>)"
proof (induction sps arbitrary: st)
  case (Cons sp sps)
  have one: "apply_split E inp sp st = Inr (st\<lparr>as_loan := tid, as_alloc := add_split sp (as_alloc st)\<rparr>)"
    using Cons.prems by (auto simp: apply_split_def apply_loan_split_def loan_legs_def add_split_def split: leg.splits)
  show ?case using Cons.IH [of "st\<lparr>as_loan := tid, as_alloc := add_split sp (as_alloc st)\<rparr>"] Cons.prems
    by (simp add: one)
qed simp

lemma fold_add_split:
  "al_penalty (fold add_split sps a) = al_penalty a + leg_total LegLoanPenaltyDue sps"
  "al_interest (fold add_split sps a) = al_interest a + leg_total LegLoanInterestDue sps"
  "al_principal (fold add_split sps a) = al_principal a + leg_total LegLoanPrincipalDue sps"
  "al_fees (fold add_split sps a) = al_fees a + leg_total LegLoanFeesDue sps"
  by (induction sps arbitrary: a) (auto simp: add_split_def add_to_def split: leg.splits)

text \<open>A payment naming a loan for more than the loan owes.\<close>

definition overpays :: "mp_db \<Rightarrow> uuid \<Rightarrow> loan_row \<Rightarrow> event_row \<Rightarrow> bool" where
  "overpays db eid l r \<longleftrightarrow> find_event db eid = Some r \<and> ev_resolved_via r = Some ViaLoanNo \<and>
     ev_resolved_member_id r \<noteq> None \<and> ev_msisdn r \<noteq> None \<and> ev_transaction_id r \<noteq> [] \<and>
     (\<exists>no. ev_bill_ref r = Some no \<and> LoanByNoTx db no = Inr (components_of l)) \<and>
     l \<in> set (fn_loans db) \<and> repayable (ln_status l) \<and> scaled 2 (ev_amount r) \<and> loan_outstanding l < ev_amount r"

lemma overpaid_process:
  assumes e: "env_ok E" and c: "cfg_ok cfg" "cf_cash cfg \<noteq> []" and ok: "fin_ok db" and t: "tenant \<noteq> uuid_Nil" "eid \<noteq> uuid_Nil"
    and o: "overpays db eid l r" and st: "ev_status r = InboundReceived"
  shows "Process cfg E db tenant eid = Inl (MpFinance (FinExceeds ''principal''
    (ln_principal_balance l + (ev_amount r - loan_outstanding l)) (ln_principal_balance l)))"
proof -
  let ?D = "env_dec E" and ?lc = "components_of l"
  obtain no ms cp where f: "find_event db eid = Some r" "ev_bill_ref r = Some no" "ev_msisdn r = Some ms"
    "ev_resolved_member_id r = Some cp" "LoanByNoTx db no = Inr ?lc"
    using o by (auto simp: overpays_def)
  have l: "l \<in> set (fn_loans db)" "loan_ok l" using o ok by (auto simp: overpays_def fin_ok_def)
  from l(2) have lc: "components_ok ?lc" by (rule components_of_ok)
  define event where "event = \<lparr> ie_id = ev_id r, ie_transaction_id = ev_transaction_id r,
       ie_transaction_time = ev_transaction_time r, ie_amount = dFixed ?D 2 (ev_amount r), ie_msisdn = ms,
       ie_bill_ref = no, ie_status = ev_status r, ie_resolved_member_id = ev_resolved_member_id r,
       ie_resolved_via = ev_resolved_via r \<rparr>"
  have ev: "EventByIDTx ?D db eid = Inr event" by (simp add: EventByIDTx_def f scan_event_def event_def)
  have am: "dParse ?D (ie_amount event) = Some (ev_amount r)"
    using o e by (simp add: event_def overpays_def env_ok_def decimal_text.parse_fixed_exact)
  have fields: "ie_id event = ev_id r" "ie_resolved_member_id event = Some cp"
    "ie_resolved_via event = ev_resolved_via r" "ie_bill_ref event = no" by (simp_all add: event_def f(4))
  have nn: "0 \<le> ln_penalty_balance l" "0 \<le> ln_interest_balance l" "0 \<le> ln_principal_balance l" "0 \<le> ln_fees_balance l"
    "ln_id l \<noteq> uuid_Nil" using l(2) by (auto simp: loan_ok_def money_def)
  have pos: "0 < ev_amount r" using o nn by (auto simp: overpays_def loan_outstanding_def)
  let ?cs = "[(LegLoanPenaltyDue, lc_penalty ?lc), (LegLoanInterestDue, lc_interest ?lc),
      (LegLoanPrincipalDue, lc_principal ?lc), (LegLoanFeesDue, lc_fees ?lc)]"
  define ss where "ss = walk_loan ?lc ?cs (ev_amount r)"
  have run: "Run ?D (db_balances db) event [] = Inr \<lparr> pn_event_id = ev_id r, pn_amount = ev_amount r,
      pn_splits = ss, pn_leftover = 0 \<rparr>"
    using o pos am fields by (simp add: Run_def overpays_def runDirectLoan_def db_balances_def f(5) ss_def
        del: walk_loan.simps)
  have sum: "sum_list (map snd ?cs) = loan_outstanding l"
    by (simp add: components_of_def loan_outstanding_def)
  have tot: "leg_total LegLoanPenaltyDue ss = ln_penalty_balance l" "leg_total LegLoanInterestDue ss = ln_interest_balance l"
    "leg_total LegLoanPrincipalDue ss = ln_principal_balance l + (ev_amount r - loan_outstanding l)"
    "leg_total LegLoanFeesDue ss = ln_fees_balance l"
    using o nn unfolding ss_def
    by (subst walk_loan_over, simp add: components_of_def, simp only: sum, simp add: overpays_def,
        simp add: components_of_def loan_outstanding_def)+
  have wl: "split_total ss = ev_amount r" "\<forall>s\<in>set ss. split_ok loan_legs s \<and> sp_target_id s = Some (ln_id l)"
    using walk_loan_ok [of "ev_amount r" ?cs ?lc] lc o pos unfolding ss_def
    by (auto simp: components_ok_def money_def overpays_def loan_legs_def components_of_def simp del: walk_loan.simps)
  then have ne: "ss \<noteq> []" using pos by auto
  define al where "al = fold add_split ss alloc_zero"
  have al: "al_penalty al = ln_penalty_balance l" "al_interest al = ln_interest_balance l" "al_fees al = ln_fees_balance l"
    "al_principal al = ln_principal_balance l + (ev_amount r - loan_outstanding l)"
    by (simp_all add: al_def fold_add_split tot) (simp_all add: alloc_zero_def)
  then have at: "alloc_Total al = ev_amount r" by (simp add: alloc_Total_def loan_outstanding_def)
  have fl: "find_loan d (ln_id l) = Some l" if "fn_loans d = fn_loans db" for d
    using find_key [of ln_id "fn_loans db" l] l ok that by (simp add: find_loan_def fin_ok_def)
  have ap: "ApplyPlanTx E inp d = Inl (MpFinance (FinExceeds ''principal''
      (ln_principal_balance l + (ev_amount r - loan_outstanding l)) (ln_principal_balance l)))"
    if "pn_splits (ai_plan inp) = ss" "ai_external_ref inp \<noteq> []" "ai_tenant_id inp = tenant" "fn_loans d = fn_loans db" for inp d
  proof -
    have g: "apply_splits E inp ss \<lparr> as_db = d, as_results = [], as_alloc = alloc_zero, as_loan = uuid_Nil \<rparr>
        = Inr \<lparr> as_db = d, as_results = [], as_alloc = al, as_loan = ln_id l \<rparr>"
      by (subst apply_loan_group [of ss "ln_id l"]) (use wl(2) ne nn(5) in \<open>simp_all add: split_ok_def al_def\<close>)
    show ?thesis using that t o nn pos
      by (simp add: ApplyPlanTx_def g flushLoan_def at RepayLoanTx_def fl allocation_fits_def al overpays_def map_fin_def)
  qed
  have post: "\<exists>d ob. PostCashLegTx E db1 tenant eid (ev_amount r) (cf_cash cfg) (cf_clearing cfg) vd = Inr (d, ob) \<and>
      fn_loans d = fn_loans db1" for db1 vd
    using c pos by (simp add: PostCashLegTx_def cfg_ok_def Let_def)
  define pln where "pln = \<lparr> pn_event_id = ev_id r, pn_amount = ev_amount r, pn_splits = ss, pn_leftover = 0 \<rparr>"
  define vd where "vd = (case ev_transaction_time r of None \<Rightarrow> env_time E | Some t \<Rightarrow> t)"
  obtain db1 rid where cr: "CreateRunTx E db \<lparr> cri_tenant_id = tenant, cri_inbound_event_id = eid,
         cri_resolved_member_id = Some cp, cri_resolved_via = ev_resolved_via r,
         cri_amount = ev_amount r, cri_splits = ss, cri_cash_account_code = cf_cash cfg,
         cri_clearing_account_code = cf_clearing cfg \<rparr> = Inr (db1, rid)" "fn_loans db1 = fn_loans db"
    using t by (simp add: CreateRunTx_def)
  obtain d ob where p: "PostCashLegTx E db1 tenant eid (ev_amount r) (cf_cash cfg) (cf_clearing cfg) vd = Inr (d, ob)"
    "fn_loans d = fn_loans db1" using post by blast
  have ap': "ApplyPlanTx E \<lparr> ai_tenant_id = tenant, ai_plan = pln, ai_external_ref = ev_transaction_id r,
      ai_channel = ''mpesa'', ai_channel_ref = ev_transaction_id r, ai_value_date = vd, ai_initiated_by = uuid_Nil \<rparr> d =
      Inl (MpFinance (FinExceeds ''principal'' (ln_principal_balance l + (ev_amount r - loan_outstanding l))
        (ln_principal_balance l)))"
    by (rule ap) (use o p(2) cr(2) in \<open>simp_all add: pln_def overpays_def\<close>)
  have ce: "cf_apply cfg" using c by (simp add: cfg_ok_def)
  have fs: "ie_status event = InboundReceived" "ie_transaction_time event = ev_transaction_time r"
    "ie_transaction_id event = ev_transaction_id r" by (simp_all add: event_def st)
  have pf: "pn_amount pln = ev_amount r" "pn_splits pln = ss" by (simp_all add: pln_def)
  show ?thesis
    unfolding Process_def
    by (simp add: ev fs fields run [folded pln_def] pf cr(1) Let_def p(1) ce ne ap' flip: vd_def)
qed

lemma overpays_frame:
  "overpays db eid l r \<Longrightarrow> fn_loans d = fn_loans db \<Longrightarrow> find_event d eid = Some r' \<Longrightarrow>
    r' = r\<lparr>ev_attempts := n, ev_error_text := t, ev_locked_by := w, ev_status := st\<rparr> \<Longrightarrow> overpays d eid l r'"
  using arg_cong [of "fn_loans d" "fn_loans db" "\<lambda>ls no. if TrimSpace no = [] then Inl MpNotFound
    else case find (\<lambda>l. ln_loan_no l = no) ls of None \<Rightarrow> Inl MpNotFound | Some l \<Rightarrow> Inr (components_of l)",
    folded LoanByNoTx_def]
  by (auto simp: overpays_def)

text \<open>What stays through the attempts.\<close>

definition still_owed :: "mp_db \<Rightarrow> uuid \<Rightarrow> event_row \<Rightarrow> mp_db \<Rightarrow> bool" where
  "still_owed db eid r d \<longleftrightarrow> fn_loans d = fn_loans db \<and> fn_deposits d = fn_deposits db \<and> fn_fees_due d = fn_fees_due db \<and>
     fn_outbox d = fn_outbox db \<and> mp_runs d = mp_runs db \<and> distinct (map ev_id (mp_events d)) \<and>
     (\<exists>n t w st. find_event d eid = Some (r\<lparr>ev_attempts := n, ev_error_text := t, ev_locked_by := w, ev_status := st\<rparr>) \<and>
        (st = InboundFailed \<or> st = InboundReceived \<and> n < HardFailAttempts))"

lemma still_owed_attempt:
  assumes e: "env_ok E" and c: "cfg_ok cfg" "cf_cash cfg \<noteq> []" and ok: "fin_ok db" and t: "tenant \<noteq> uuid_Nil" "eid \<noteq> uuid_Nil"
    and o: "overpays db eid l r" and k: "still_owed db eid r d"
  shows "still_owed db eid r (attempt_event cfg E commits worker tenant eid d)"
proof -
  obtain n t w st where r: "find_event d eid = Some (r\<lparr>ev_attempts := n, ev_error_text := t, ev_locked_by := w, ev_status := st\<rparr>)"
    "st = InboundFailed \<or> st = InboundReceived \<and> n < HardFailAttempts"
    using k by (auto simp: still_owed_def)
  let ?r = "r\<lparr>ev_attempts := n, ev_error_text := t, ev_locked_by := w, ev_status := st\<rparr>"
  show ?thesis
  proof (cases "st = InboundFailed")
    case True
    then have "event_settled eid d" using r k by (simp add: event_settled_def still_owed_def)
    then show ?thesis using k by (simp add: attempt_settled)
  next
    case False
    then have st: "st = InboundReceived" "n < HardFailAttempts" using r(2) by simp_all
    have due: "event_due eid d" using r(1) st k by (simp add: event_due_def still_owed_def)
    let ?l = "update_event eid (\<lambda>r. r\<lparr>ev_locked_by := Some worker\<rparr>) d"
    have rl: "find_event ?l eid = Some (?r\<lparr>ev_locked_by := Some worker\<rparr>)"
      using r(1) find_event_mem [OF r(1)] by (simp add: find_update_event)
    have "overpays ?l eid l (?r\<lparr>ev_locked_by := Some worker\<rparr>)"
      by (rule overpays_frame [where n = n and t = t and w = "Some worker" and st = st, OF o _ rl]) (use k in \<open>simp_all add: still_owed_def update_event_def\<close>)
    moreover have "fin_ok ?l" using ok k by (simp add: fin_ok_def still_owed_def update_event_def)
    ultimately obtain err where p: "Process cfg E ?l tenant eid = Inl err"
      using overpaid_process [OF e c _ t] st by fastforce
    obtain d' where d': "RecordFailure cfg E d tenant eid err = Inr d'" "find_event d' eid = Some (failed_row err ?r)"
      "map ev_id (mp_events d') = map ev_id (mp_events d)" "fn_loans d' = fn_loans d" "fn_deposits d' = fn_deposits d"
      "fn_fees_due d' = fn_fees_due d" "fn_outbox d' = fn_outbox d" "mp_runs d' = mp_runs d"
      by (rule RecordFailure_effect [OF r(1)]) (rule that; assumption)
    have "attempt_event cfg E commits worker tenant eid d = d'"
      using lease_due [OF due, of worker] p d'(1)
      by (simp add: attempt_event_def processOneEvent_def lease_and_process_def)
    moreover have "\<exists>n t w st. failed_row err ?r = r\<lparr>ev_attempts := n, ev_error_text := t, ev_locked_by := w, ev_status := st\<rparr> \<and>
        (st = InboundFailed \<or> st = InboundReceived \<and> n < HardFailAttempts)"
      using st by (auto simp: failed_row_def intro!: exI)
    ultimately show ?thesis using d'(2-8) k by (simp add: still_owed_def)
  qed
qed

text \<open>A payment that names a loan and exceeds what the loan owes is never applied: the plan puts the
  excess on the principal, the repayment refuses more principal than is owed, and every attempt fails;
  after six the event is marked failed. No balance moves, and nothing is queued: not even the cash
  received is booked.\<close>

theorem overpayment_hard_fails:
  assumes "env_ok E" "cfg_ok cfg" "cf_cash cfg \<noteq> []" "fin_ok db" "tenant \<noteq> uuid_Nil" "eid \<noteq> uuid_Nil"
    and "distinct (map ev_id (mp_events db))" "overpays db eid l r" "ev_status r = InboundReceived" "ev_attempts r < HardFailAttempts"
  shows "let d = (attempt_event cfg E commits worker tenant eid ^^ HardFailAttempts) db in
    fn_loans d = fn_loans db \<and> fn_deposits d = fn_deposits db \<and> fn_fees_due d = fn_fees_due db \<and>
    fn_outbox d = fn_outbox db \<and> mp_runs d = mp_runs db \<and>
    (\<exists>r'. find_event d eid = Some r' \<and> ev_status r' = InboundFailed)"
proof -
  have f: "find_event db eid = Some r" using assms(8) by (simp add: overpays_def)
  have "r = r\<lparr>ev_attempts := ev_attempts r, ev_error_text := ev_error_text r, ev_locked_by := ev_locked_by r,
      ev_status := InboundReceived\<rparr>" using assms(9) by simp
  then have k: "still_owed db eid r db" unfolding still_owed_def using assms(7,10) f by metis
  have "still_owed db eid r ((attempt_event cfg E commits worker tenant eid ^^ m) db)" for m
    by (induction m) (use k still_owed_attempt [OF assms(1-6,8)] in auto)
  from this [of HardFailAttempts] have "still_owed db eid r ((attempt_event cfg E commits worker tenant eid ^^ HardFailAttempts) db)" .
  moreover have "event_due eid db" using assms(7,9,10) f by (simp add: event_due_def)
  then have "event_settled eid ((attempt_event cfg E commits worker tenant eid ^^ HardFailAttempts) db)"
    by (rule distributor.settles) simp
  ultimately show ?thesis by (auto simp: still_owed_def event_settled_def Let_def)
qed

theorem overpayment_hard_fails_witness:
  "let d = (attempt_event ex_mp_cfg ex_mp_env True 9 1 100 ^^ HardFailAttempts) (ex_mp_with (ex_event (Some ViaLoanNo) ''L-1'' 200)) in
     fn_loans d = [ex_loan] \<and> fn_outbox d = [] \<and> (\<exists>r'. find_event d 100 = Some r' \<and> ev_status r' = InboundFailed)"
proof -
  have "overpays (ex_mp_with (ex_event (Some ViaLoanNo) ''L-1'' 200)) 100 ex_loan (ex_event (Some ViaLoanNo) ''L-1'' 200)"
    by (simp add: overpays_def find_event_def ex_mp_with_def ex_mp_def ex_event_def LoanByNoTx_def ex_loan_def repayable_def
        loan_outstanding_def TrimSpace_def is_space_def)
  from overpayment_hard_fails [OF ex_env_ok ex_cfg_ok _ ex_fin_ok(1) _ _ _ this, of 1 True 9] show ?thesis
    by (simp add: Let_def HardFailAttempts_def ex_event_def ex_mp_cfg_def) (simp add: ex_mp_with_def ex_mp_def)
qed

section \<open>Payments nobody is matched to\<close>

lemma Process_unresolved:
  assumes run: "Process cfg E db tenant eid = Inr (db', res)" and e: "env_ok E"
    and r: "find_event db eid = Some r" "scaled 2 (ev_amount r)" "ev_resolved_member_id r = None"
      "ev_resolved_via r \<in> {None, Some ViaUnallocated}"
  shows "pr_splits res = []" "pr_leftover res = ev_amount r" "fn_loans db' = fn_loans db" "fn_deposits db' = fn_deposits db"
    "fn_fees_due db' = fn_fees_due db"
proof -
  obtain event where ev: "EventByIDTx (env_dec E) db eid = Inr event" using run by (auto simp: Process_def)
  have f: "ie_amount event = dFixed (env_dec E) 2 (ev_amount r)" "ie_resolved_member_id event = None"
    "ie_resolved_via event = ev_resolved_via r"
    using ev r by (auto simp: EventByIDTx_def scan_event_def split: option.splits)
  have am: "dParse (env_dec E) (ie_amount event) = Some (ev_amount r)"
    using e r(2) by (simp add: f env_ok_def decimal_text.parse_fixed_exact)
  have pl: "pn_splits p = [] \<and> pn_leftover p = ev_amount r" if "Run (env_dec E) (db_balances db) event [] = Inr p" for p
    using that r(4) by (auto simp: Run_def am f(2,3) Let_def)
  note defs = Process_def ev CreateRunTx_def PostCashLegTx_def MarkRunPostedTx_def MarkDistributedTx_def
    update_event_def update_run_def Let_def
  show "pr_splits res = []" "pr_leftover res = ev_amount r" using run pl by (auto simp: Process_def ev Let_def)
  show "fn_loans db' = fn_loans db" "fn_deposits db' = fn_deposits db" "fn_fees_due db' = fn_fees_due db"
    using run pl by (auto simp: defs split: if_splits)
qed

text \<open>A payment processed before the webhook's second transaction has stored its verdict is left whole on
  the clearing account; when the verdict is then stored, the event is already distributed, and every
  later attempt to process it is refused: the member the payment names is never credited.\<close>

theorem unresolved_event_parked:
  assumes "env_ok E" "find_event db eid = Some r" "scaled 2 (ev_amount r)" "ev_resolved_member_id r = None"
    and "ev_resolved_via r \<in> {None, Some ViaUnallocated}" "Process cfg E db tenant eid = Inr (db', res)"
    and "resolveAndWire E2 db' pb eid b = Inr db''"
  shows "pr_splits res = [] \<and> pr_leftover res = ev_amount r \<and> fn_loans db'' = fn_loans db \<and> fn_deposits db'' = fn_deposits db \<and>
    Process cfg E3 db'' tenant eid = Inl (MpReplay InboundDistributed)"
proof -
  note u = Process_unresolved [OF assms(6,1-5)]
  obtain d mid via wfid where w: "UpdateResolutionTx d eid mid via wfid = Inr db''"
    "d = db' \<or> (\<exists>w. d = db'\<lparr>mp_wf := w, fn_supply := fn_supply db' + 1\<rparr>)"
    by (rule resolveAndWire_InrE [OF assms(7)]) (rule that; assumption)
  obtain msg where sc: "EventByIDTx (env_dec E) db eid = Inr msg" using assms(6) by (auto simp: Process_def)
  have id: "ev_id r = eid" using find_event_mem [OF assms(2)] by simp
  have "find_event d eid = find_event (update_event eid (\<lambda>r. r\<lparr>ev_status := InboundDistributed,
      ev_distribution_run_id := Some (fn_supply db), ev_error_text := None, ev_locked_by := None\<rparr>) db) eid"
    using w(2) by (auto simp: find_event_def Process_events [OF assms(6)])
  then have fd: "find_event d eid = Some (r\<lparr>ev_status := InboundDistributed,
      ev_distribution_run_id := Some (fn_supply db), ev_error_text := None, ev_locked_by := None\<rparr>)"
    using assms(2) id by (simp add: find_update_event)
  then have "\<exists>r''. find_event db'' eid = Some r'' \<and> ev_status r'' = InboundDistributed \<and>
      ev_msisdn r'' = ev_msisdn r \<and> ev_bill_ref r'' = ev_bill_ref r"
    using w(1) id by (auto simp: UpdateResolutionTx_def find_update_event)
  then have "Process cfg E3 db'' tenant eid = Inl (MpReplay InboundDistributed)"
    using sc assms(2) by (auto simp: Process_def EventByIDTx_def scan_event_def split: option.splits)
  moreover have "fn_loans db'' = fn_loans db'" "fn_deposits db'' = fn_deposits db'"
    using w by (auto simp: UpdateResolutionTx_def update_event_def split: if_splits)
  ultimately show ?thesis using u by simp
qed

theorem unresolved_event_parked_witness:
  "\<exists>db' res db''. Process ex_mp_cfg ex_mp_env (ex_mp_with (ex_row None ''M-1'' 150 0 None)) 1 100 = Inr (db', res) \<and>
     resolveAndWire ex_mp_env db' ex_paybill 100 ex_body = Inr db'' \<and> pr_leftover res = 150 \<and>
     Process ex_mp_cfg ex_mp_env db'' 1 100 = Inl (MpReplay InboundDistributed)"
proof -
  let ?db = "ex_mp_with (ex_row None ''M-1'' 150 0 None)"
  obtain db' res where p: "Process ex_mp_cfg ex_mp_env ?db 1 100 = Inr (db', res)"
    "mp_members db' = [\<lparr> mm_member_no = ''M-1'', mm_counterparty_id = Some 5 \<rparr>]" using ex_process_unmatched by blast
  have f: "find_event ?db 100 = Some (ex_row None ''M-1'' 150 0 None)" by (simp add: find_event_def ex_mp_with_def ex_event_def)
  obtain ev where "mp_events db' = [ev]" "ev_id ev = 100" using ex_process_events [OF p(1)] by blast
  then have "\<exists>db''. resolveAndWire ex_mp_env db' ex_paybill 100 ex_body = Inr db''"
    by (simp add: resolveAndWire_def Resolve_def tryLookup_def isMiss_def decided_def db_lookups_def ByMemberNoTx_def
        orNotFound_def p(2) ex_body_def TrimSpace_def is_space_def UpdateResolutionTx_def find_event_def Let_def)
  with unresolved_event_parked [OF ex_env_ok f _ _ _ p(1)] p(1) show ?thesis by (fastforce simp: ex_event_def)
qed

text \<open>A confirmation without a bill reference or without a phone number is never recorded: the empty
  text is stored as NULL, the row read back does not scan, and the reply is a rejection.\<close>

theorem empty_reference_rejected:
  assumes "ByIDAndToken db pid tok = Inr pb" "cb_bill_ref_number b = [] \<or> cb_msisdn b = []"
    and "\<forall>r\<in>set (mp_events db). ev_transaction_id r \<noteq> cb_trans_id b"
  shows "confirm_persist cfg E db (Some pid) tok (Some b) =
    (db, None, Daraja \<lparr> dr_code = 1, dr_desc = ''Rejected: persistence error'' \<rparr>)"
proof -
  have "find (\<lambda>r. ev_transaction_id r = cb_trans_id b) (mp_events db) = None"
    using assms(3) by (auto simp: find_None_iff)
  then show ?thesis using assms(1,2)
    by (auto simp: confirm_persist_def RecordTx_def scan_event_def nullIfEmpty_def Let_def split: option.splits)
qed

theorem empty_reference_rejected_witness:
  "confirm_persist ex_mp_cfg ex_mp_env ex_mp (Some 41) ''tok'' (Some (ex_body\<lparr>cb_bill_ref_number := []\<rparr>)) =
    (ex_mp, None, Daraja \<lparr> dr_code = 1, dr_desc = ''Rejected: persistence error'' \<rparr>)"
  by (rule empty_reference_rejected [where pb = ex_paybill])
    (simp_all add: ByIDAndToken_def orNotFound_def ex_mp_def ex_paybill_def)

text \<open>The lookups in the order they are tried.\<close>

definition lookups_in_order :: "'a mp_db_scheme \<Rightarrow> resolve_input \<Rightarrow> (resolved_via \<times> (mp_error + uuid)) list" where
  "lookups_in_order db inp =
     [(ViaMemberNo, ByMemberNoTx db (rv_bill_ref inp)), (ViaCPNumber, ByCPNumberTx db (rv_bill_ref inp)),
      (ViaLoanNo, ByLoanNoTx db (rv_bill_ref inp)), (ViaDepositAccountNo, ByDepositAccountNoTx db (rv_bill_ref inp))] @
     (if rv_allow_msisdn_fallback inp then [(ViaMSISDN, ByMSISDNTx db (rv_msisdn inp))] else [])"

lemma lookup_Inl:
  "ByMemberNoTx db k = Inl e \<Longrightarrow> e = MpNotFound" "ByCPNumberTx db k = Inl e \<Longrightarrow> e = MpNotFound"
  "ByLoanNoTx db k = Inl e \<Longrightarrow> e = MpNotFound" "ByDepositAccountNoTx db k = Inl e \<Longrightarrow> e = MpNotFound"
  "ByMSISDNTx db k = Inl e \<Longrightarrow> e = MpNotFound"
  by (auto simp: ByMemberNoTx_def ByCPNumberTx_def ByLoanNoTx_def ByDepositAccountNoTx_def ByMSISDNTx_def orNotFound_def Let_def
      split: if_splits option.splits)

lemma empty_key: "TrimSpace [] = []" "MsisdnDigits [] = []"
  by (simp_all add: TrimSpace_def MsisdnDigits_def TrimPrefix_def)

lemma tryLookup_store:
  "tryLookup (ByMemberNoTx db) k = ByMemberNoTx db k" "tryLookup (ByCPNumberTx db) k = ByCPNumberTx db k"
  "tryLookup (ByLoanNoTx db) k = ByLoanNoTx db k" "tryLookup (ByDepositAccountNoTx db) k = ByDepositAccountNoTx db k"
  "tryLookup (ByMSISDNTx db) k = ByMSISDNTx db k"
  by (simp_all add: tryLookup_def ByMemberNoTx_def ByCPNumberTx_def ByLoanNoTx_def ByDepositAccountNoTx_def ByMSISDNTx_def
      empty_key)

text \<open>A payment's reference always gets a verdict, the first hit among the member number, the
  counterparty number, the loan number, the deposit account number and, when the paybill allows it,
  the payer's phone; without a hit the payment is unallocated.\<close>

theorem resolve_first_match:
  "Resolve (db_lookups db) inp = Inr (case find (\<lambda>(via, r). \<exists>u. r = Inr u) (lookups_in_order db inp) of
     None \<Rightarrow> \<lparr> dc_member_id = uuid_Nil, dc_via = ViaUnallocated \<rparr>
   | Some (via, r) \<Rightarrow> \<lparr> dc_member_id = projr r, dc_via = via \<rparr>)"
  unfolding Resolve_def db_lookups_def lookups_in_order_def lookups.simps tryLookup_store
  by (cases "ByMemberNoTx db (rv_bill_ref inp)"; cases "ByCPNumberTx db (rv_bill_ref inp)";
      cases "ByLoanNoTx db (rv_bill_ref inp)"; cases "ByDepositAccountNoTx db (rv_bill_ref inp)";
      cases "ByMSISDNTx db (rv_msisdn inp)")
    (auto simp: isMiss_def decided_def Let_def dest: lookup_Inl)

section \<open>Failures recorded late\<close>

text \<open>The record of a failed attempt does not look at the event's status: when it commits after another
  worker has distributed the event, and five attempts are on record, the event is marked failed
  although its run is posted and its entries are queued.\<close>

theorem late_failure_overwrites:
  assumes "find_event db eid = Some r" "5 \<le> ev_attempts r" "Process cfg E db tenant eid = Inr (db', res)"
  shows "\<exists>db'' r''. RecordFailure cfg E2 db' tenant eid e = Inr db'' \<and> find_event db'' eid = Some r'' \<and>
    ev_status r'' = InboundFailed \<and> fn_outbox db'' = fn_outbox db' \<and> mp_runs db'' = mp_runs db' \<and>
    (\<exists>r'. find_event db' eid = Some r' \<and> ev_status r' = InboundDistributed)"
proof -
  let ?r = "r\<lparr>ev_status := InboundDistributed, ev_distribution_run_id := Some (fn_supply db), ev_error_text := None,
      ev_locked_by := None\<rparr>"
  have "find_event db' eid = find_event (update_event eid (\<lambda>r. r\<lparr>ev_status := InboundDistributed,
      ev_distribution_run_id := Some (fn_supply db), ev_error_text := None, ev_locked_by := None\<rparr>) db) eid"
    by (simp add: find_event_def Process_events [OF assms(3)])
  then have f: "find_event db' eid = Some ?r"
    using assms(1) find_event_mem [OF assms(1)] by (simp add: find_update_event)
  obtain db'' where d: "RecordFailure cfg E2 db' tenant eid e = Inr db''" "find_event db'' eid = Some (failed_row e ?r)"
    "fn_outbox db'' = fn_outbox db'" "mp_runs db'' = mp_runs db'"
    by (rule RecordFailure_effect [OF f]) (rule that; assumption)
  then show ?thesis using assms(2) f by (auto simp: failed_row_def HardFailAttempts_def)
qed

theorem late_failure_overwrites_witness:
  "\<exists>db' res db'' r''. Process ex_mp_cfg ex_mp_env (ex_mp_with (ex_row (Some ViaMemberNo) ''M-1'' 150 5 None)) 1 100 = Inr (db', res) \<and>
     RecordFailure ex_mp_cfg ex_mp_env db' 1 100 (MpDb ''commit'') = Inr db'' \<and> find_event db'' 100 = Some r'' \<and> ev_status r'' = InboundFailed"
proof -
  obtain db' res where p: "Process ex_mp_cfg ex_mp_env (ex_mp_with (ex_row (Some ViaMemberNo) ''M-1'' 150 5 None)) 1 100 = Inr (db', res)"
    using ex_process by fastforce
  have f: "find_event (ex_mp_with (ex_row (Some ViaMemberNo) ''M-1'' 150 5 None)) 100 = Some (ex_row (Some ViaMemberNo) ''M-1'' 150 5 None)"
    by (simp add: find_event_def ex_mp_with_def ex_event_def)
  show ?thesis using late_failure_overwrites [OF f _ p, where ?E2.0 = ex_mp_env and e = "MpDb ''commit''"] p by auto
qed

section \<open>The ledger the entries go to\<close>

lemma parsePostLines_codes: "parsePostLines D i ls = Inr ps \<Longrightarrow> map pl_account_code ps = map dl_account_code ls"
  by (induction ls arbitrary: i ps) (auto split: if_splits sum.splits)

text \<open>An entry that is posted afresh finds all its accounts in the chart.\<close>

lemma Post_accounts:
  assumes "Post D N tok hdr gl pid eid now today req = Inr (gl', out)"
    and "find_posted gl (pq_source_module req) (pq_source_ref req) = None" "l \<in> set (pq_lines req)"
  shows "account_ready gl (dl_account_code l)"
proof -
  obtain ed vd ps where v: "parsePostLines D 0 (pq_lines req) = Inr ps" "\<exists>e. post_write N gl pid eid now today req (ed, vd, ps) = Inr (gl', e)"
    using assms(1,2) by (auto simp: Post_def validate_post_def split: if_splits)
  then obtain inp e where p: "PostTx N gl pid eid now today inp = Inr (gl', e)" "pi_lines inp = ps"
    by (auto simp: post_write_def split: sum.splits)
  obtain db1 p' els where r: "EnsureOpenForDateTx gl pid now (the_default today (pi_entry_date inp)) = Inr (db1, p')"
    "resolve_lines db1 0 [] (pi_lines inp) = Inr els"
    by (rule PostTx_InrE [OF p(1)]) (rule that; assumption)
  have "\<forall>l\<in>set ps. account_ready db1 (pl_account_code l)"
    using r(2) resolve_ref_iff [of db1 0 ps] resolve_lines_ref [OF cache_ok_Nil, of db1 0 ps] p(2) by auto
  moreover have "dl_account_code l \<in> pl_account_code ` set ps"
    using parsePostLines_codes [OF v(1)] assms(3) by (metis image_eqI list.set_map)
  ultimately show ?thesis using EnsureOpen_Inr(2) [OF r(1)] by (auto simp: account_ready_def GetByCodeTx_def)
qed

text \<open>A loan repayment with a penalty part queues an entry that credits account 4250; a ledger whose chart
  has no active account 4250 refuses that entry whenever it is sent, so the loan is reduced and the
  money never leaves clearing in the books.\<close>

theorem penalty_unpostable:
  assumes "RepayLoanTx E inp db = Inr (db', res)" "0 < al_penalty (ri_allocation inp)"
    and "\<not> account_ready gl ''4250''"
  shows "\<exists>row. fn_outbox db' = fn_outbox db @ [row] \<and>
    (find_posted gl (pq_source_module (ob_payload row)) (pq_source_ref (ob_payload row)) = None \<longrightarrow>
      (\<forall>D N tok hdr pid eid now today. \<exists>e. Post D N tok hdr gl pid eid now today (ob_payload row) = Inl e))"
proof -
  obtain row where row: "fn_outbox db' = fn_outbox db @ [row]"
    "pq_lines (ob_payload row) = map (line_dto (env_dec E)) (repayment_lines (ri_allocation inp))"
    using assms(1)
    by (auto simp: RepayLoanTx_def postRepaymentGL_def FinPostTx_def post_body_def update_loan_def Let_def
        split: option.splits if_splits)
  have "\<exists>l\<in>set (pq_lines (ob_payload row)). dl_account_code l = ''4250''"
    using assms(2) by (auto simp: row(2) repayment_lines_def credit_if_def credit_line_def line_dto_def)
  then have "\<exists>e. Post D N tok hdr gl pid eid now today (ob_payload row) = Inl e"
    if "find_posted gl (pq_source_module (ob_payload row)) (pq_source_ref (ob_payload row)) = None" for D N tok hdr pid eid now today
    using Post_accounts [OF _ that] assms(3) by (cases "Post D N tok hdr gl pid eid now today (ob_payload row)") force+
  then show ?thesis using row(1) by blast
qed

theorem penalty_unpostable_witness:
  "\<exists>db' res row. RepayLoanTx ex_mp_env ex_repay_input ex_mp = Inr (db', res) \<and> fn_outbox db' = [row] \<and>
     (\<exists>e. Post shop_decimal (round_half_up 2) [] [] (gl_init ex_chart) 1 2 7 (Date 2026 5 26) (ob_payload row) = Inl e)"
proof -
  have "\<exists>r. RepayLoanTx ex_mp_env ex_repay_input ex_mp = Inr r"
    by (simp add: ex_repay ex_repay_input_def ex_mp_def ex_loan_def cong: bind_res_weak del: bind_res_Inr_iff split del: if_split)
  then obtain db' res where r: "RepayLoanTx ex_mp_env ex_repay_input ex_mp = Inr (db', res)" by fastforce
  have "\<not> account_ready (gl_init ex_chart) ''4250''"
    by (simp add: account_ready_def GetByCodeTx_def gl_init_def ex_chart_def ex_account_def)
  from penalty_unpostable [OF r _ this] show ?thesis using r
    by (force simp: find_posted_def gl_init_def ex_repay_input_def ex_mp_def)
qed

end
