(* ===== verification/SavingsStore.thy ===== *)
theory SavingsStore
  imports FinanceExecutors
begin

text \<open>
  The deposit tables of the savings service for one tenant
  (services/savings/internal/domain/deposit.go, internal/store/deposit_store.go,
  deposit_product_store.go, collateral_lien_store.go, approvals_store.go) and the operations on
  them. Columns that nothing here reads back (goal and guardian fields, notes, audit times) are left
  out. A PostgreSQL enumeration is a datatype; a channel arrives as text and stays a string.

  \<open>sv_env\<close> gathers what comes from outside: the decimal library, the coercion of a value to
  \<open>numeric(18,2)\<close>, the clock of the database (\<open>se_now\<close>, \<open>now()\<close>) and of the process
  (\<open>se_clock\<close>, \<open>time.Now()\<close>, in UTC), the printing of a UUID, and the service's configuration.
\<close>

section \<open>Instants\<close>

text \<open>Days since 1 January of year 1, and the instant of a time.\<close>

definition days_before_month :: "int \<Rightarrow> nat \<Rightarrow> int" where
  "days_before_month y m = int (sum_list (map (days_in y) [1..<m]))"

definition day_number :: "date \<Rightarrow> int" where
  "day_number d = (let y = d_year d - 1 in
     365 * y + y div 4 - y div 100 + y div 400 + days_before_month (d_year d) (d_month d) + int (d_day d) - 1)"

definition time_instant :: "go_time \<Rightarrow> instant" where
  "time_instant t = day_number (gt_date t) * hours 24 + gt_nanos t"

section \<open>Rows\<close>

datatype product_type = ProductOrdinary | ProductFixed | ProductJunior | ProductHoliday | ProductGoal
  | ProductEmergency | ProductGroup | ProductMemberDeposit

datatype segment = SegmentBOSA | SegmentFOSA

datatype eligibility = EligibilityIndividuals | EligibilityGroups | EligibilityMinors | EligibilityAll

datatype acct_status = AcctPending | AcctActive | AcctDormant | AcctSuspended | AcctMatured | AcctClosed

datatype dep_txn_type = TxnOpeningBalance | TxnDeposit | TxnWithdrawal | TxnDepTransferIn
  | TxnDepTransferOut | TxnInterestCredit | TxnFeeDebit | TxnReversal | TxnDepAdjustment | TxnGoalPayout

record dep_product =
  pd_id :: uuid
  pd_product_type :: product_type
  pd_segment :: segment
  pd_is_active :: bool
  pd_interest_eligible :: bool
  pd_min_opening_balance :: decimal
  pd_min_operating_balance :: decimal
  pd_max_balance :: "decimal option"
  pd_min_deposit_amount :: decimal
  pd_max_deposit_amount :: "decimal option"
  pd_min_withdrawal_amount :: decimal
  pd_max_withdrawal_amount :: "decimal option"
  pd_notice_period_days :: int
  pd_max_withdrawals_per_month :: "int option"
  pd_partial_withdrawal_allowed :: bool
  pd_large_withdrawal_threshold :: "decimal option"
  pd_lock_in_months :: int
  pd_default_term_months :: "int option"
  pd_eligibility :: eligibility
  pd_window_start :: "int option"
  pd_window_end :: "int option"

record dep_account =
  acc_id :: uuid
  acc_counterparty_id :: uuid
  acc_product_id :: uuid
  acc_account_no :: string
  acc_status :: acct_status
  acc_current_balance :: decimal
  acc_available_balance :: decimal
  acc_opened_at :: "go_time option"
  acc_matures_at :: "go_time option"
  acc_closed_at :: "go_time option"
  acc_last_activity_at :: "go_time option"
  acc_last_deposit_at :: "go_time option"
  acc_last_withdrawal_at :: "go_time option"
  acc_fixed_term_months :: "int option"
  acc_notice_given_at :: "go_time option"
  acc_notice_amount :: "decimal option"
  acc_is_joint :: bool
  acc_required_signers :: int

record dep_txn =
  tx_id :: uuid
  tx_account_id :: uuid
  tx_counterparty_id :: uuid
  tx_txn_no :: string
  tx_type :: dep_txn_type
  tx_amount :: decimal
  tx_value_date :: date
  tx_channel :: "string option"
  tx_channel_ref :: "string option"
  tx_narration :: "string option"
  tx_counterparty_account_id :: "uuid option"
  tx_counterparty_txn_id :: "uuid option"
  tx_reverses_txn_id :: "uuid option"
  tx_reversed_by_txn_id :: "uuid option"
  tx_reversal_reason :: "string option"
  tx_balance_after :: decimal
  tx_initiated_by :: uuid
  tx_authorized_by :: "uuid option"
  tx_authorization_reason :: "string option"
  tx_posted_at :: go_time

record daily_balance =
  dy_account_id :: uuid
  dy_snapshot_date :: date
  dy_balance :: decimal
  dy_product_id :: uuid
  dy_counterparty_id :: uuid

text \<open>An active or ended claim on an account's balance, of either lien table.\<close>

record lien_row =
  li_account_id :: uuid
  li_loan_id :: "uuid option"
  li_amount :: decimal
  li_status :: string

record counterparty =
  cp_id :: uuid
  cp_member_no :: string
  cp_full_name :: string
  cp_status :: string

section \<open>Payloads, approvals and the tables\<close>

record deposit_payload =
  dpl_account_id :: uuid
  dpl_amount :: decimal
  dpl_channel :: string
  dpl_channel_ref :: string
  dpl_narration :: string
  dpl_value_date :: string
  dpl_bypass_duplicate_check :: bool

record withdrawal_payload =
  wpl_account_id :: uuid
  wpl_amount :: decimal
  wpl_channel :: string
  wpl_channel_ref :: string
  wpl_narration :: string
  wpl_reason :: string

record transfer_payload =
  tpl_from_account_id :: uuid
  tpl_to_account_id :: uuid
  tpl_amount :: decimal
  tpl_narration :: string

datatype payload = PayDeposit deposit_payload | PayWithdrawal withdrawal_payload | PayTransfer transfer_payload

datatype approval_status = ApprovalPending | ApprovalApproved | ApprovalDeclined | ApprovalCancelled
  | ApprovalExecError

record approval =
  pa_id :: uuid
  pa_status :: approval_status
  pa_payload :: payload
  pa_maker :: uuid
  pa_checker :: "uuid option"
  pa_result_txn_id :: "uuid option"
  pa_result_error :: "string option"

text \<open>An instance written for the workflow engine, as far as its callback reads it.\<close>

record wf_row =
  wi_id :: uuid
  wi_process_kind :: string
  wi_payload :: payload
  wi_initiator :: uuid

text \<open>A withdrawal of a joint account that waits for its owners.\<close>

record joint_row =
  jw_id :: uuid
  jw_account_id :: uuid
  jw_amount :: decimal

record toggles =
  tg_deposit :: bool
  tg_withdrawal :: bool
  tg_deposit_transfer :: bool
  tg_allow_self :: bool

record sv_db =
  sv_products :: "dep_product list"
  sv_accounts :: "dep_account list"
  sv_txns :: "dep_txn list"
  sv_daily :: "daily_balance list"
  sv_liens :: "lien_row list"
  sv_bosa_liens :: "lien_row list"
  sv_counterparties :: "counterparty list"
  sv_toggles :: toggles
  sv_wf_kinds :: "string list" \<comment> \<open>process kinds with an active definition\<close>
  sv_instances :: "wf_row list"
  sv_approvals :: "approval list"
  sv_joint :: "joint_row list"
  sv_seq :: "string \<times> int \<Rightarrow> nat"
  sv_outbox :: "outbox_row list"
  sv_supply :: uuid

record sv_env =
  se_dec :: decimal_lib
  se_col :: "decimal \<Rightarrow> decimal"
  se_now :: go_time
  se_clock :: go_time
  se_uuid :: "uuid \<Rightarrow> string"
  se_tenant :: uuid
  se_posting :: "bool option" \<comment> \<open>no client, or its dry-run flag\<close>
  se_workflow :: bool
  se_liens :: bool
  se_joint :: bool
  se_lookback :: int

datatype sv_error =
    ErrNotFound
  | ErrProductInactive | ErrProductIneligible | ErrMemberIneligibleStatus | ErrAccountNotActive
  | ErrBelowMinOpeningBalance | ErrBelowMinDeposit | ErrAboveMaxDeposit | ErrBelowMinWithdrawal
  | ErrAboveMaxWithdrawal | ErrWouldBreachMinBalance | ErrWouldExceedMaxBalance | ErrInsufficientBalance
  | ErrLockInActive | ErrOutsideWithdrawalWindow | ErrPartialWithdrawalNotAllowed | ErrFrequencyCapReached
  | ErrNoticePeriodNotMet | ErrDuplicateTransaction | ErrCannotReverseReversal | ErrAlreadyReversed
  | ErrBOSAWithdrawForbidden
  | ErrApprovalNotPending | ErrApprovalSelfDenied
  | SvMsg string | SvBadRequest string | SvConflict string | SvNotFound string | SvUnauthorized
  | SvForbidden string | SvDb string | SvOutbox string
  | SvCashBlocked | SvPanic

end
