(* ===== verification/DepositStore.thy ===== *)
theory DepositStore
  imports SavingsStore
begin

text \<open>
  The deposit store (services/savings/internal/store/deposit_store.go): accounts, the signed ledger
  \<open>deposit_transactions\<close>, the daily snapshots, and the posting routine \<open>PostTxnTx\<close>. A
  function returns the new tables only when the transaction can go on; an error rolls it back.
\<close>

section \<open>Reading\<close>

definition GetDepAccountTx :: "'a sv_db_scheme \<Rightarrow> uuid \<Rightarrow> sv_error + dep_account" where
  "GetDepAccountTx db aid = (case find (\<lambda>a. acc_id a = aid) (sv_accounts db) of
     None \<Rightarrow> Inl ErrNotFound | Some a \<Rightarrow> Inr a)"

definition GetTxnTx :: "'a sv_db_scheme \<Rightarrow> uuid \<Rightarrow> sv_error + dep_txn" where
  "GetTxnTx db tid = (case find (\<lambda>t. tx_id t = tid) (sv_txns db) of
     None \<Rightarrow> Inl ErrNotFound | Some t \<Rightarrow> Inr t)"

definition GetProductTx :: "'a sv_db_scheme \<Rightarrow> uuid \<Rightarrow> sv_error + dep_product" where
  "GetProductTx db pid = (case find (\<lambda>p. pd_id p = pid) (sv_products db) of
     None \<Rightarrow> Inl ErrNotFound | Some p \<Rightarrow> Inr p)"

definition GetByIDTx :: "'a sv_db_scheme \<Rightarrow> uuid \<Rightarrow> sv_error + counterparty" where
  "GetByIDTx db cid = (case find (\<lambda>c. cp_id c = cid) (sv_counterparties db) of
     None \<Rightarrow> Inl ErrNotFound | Some c \<Rightarrow> Inr c)"

definition active_lien :: "uuid \<Rightarrow> lien_row \<Rightarrow> bool" where
  "active_lien aid l \<longleftrightarrow> li_account_id l = aid \<and> li_status l \<in> {''active'', ''partially_released''}"

definition SumActiveDepositLiensTx :: "'a sv_db_scheme \<Rightarrow> uuid \<Rightarrow> decimal" where
  "SumActiveDepositLiensTx db aid =
     sum_list (map li_amount (filter (active_lien aid) (sv_liens db))) +
     sum_list (map li_amount (filter (active_lien aid) (sv_bosa_liens db)))"

text \<open>Withdrawals, not reversed, since the first of the month.\<close>

definition WithdrawalCountThisMonthTx :: "'a sv_db_scheme \<Rightarrow> uuid \<Rightarrow> go_time \<Rightarrow> int" where
  "WithdrawalCountThisMonthTx db aid now =
     (let monthStart = GoTime (Date (d_year (gt_date now)) (d_month (gt_date now)) 1) 0 in
      int (length (filter (\<lambda>t. tx_account_id t = aid \<and> tx_type t = TxnWithdrawal \<and>
        tx_reversed_by_txn_id t = None \<and> time_instant monthStart \<le> time_instant (tx_posted_at t)) (sv_txns db))))"

definition DuplicateExistsTx :: "sv_env \<Rightarrow> 'a sv_db_scheme \<Rightarrow> uuid \<Rightarrow> decimal \<Rightarrow> string \<Rightarrow> int \<Rightarrow> bool" where
  "DuplicateExistsTx E db aid amount ref lookback =
     (ref \<noteq> [] \<and> (\<exists>t\<in>set (sv_txns db). tx_account_id t = aid \<and> tx_channel_ref t = Some ref \<and>
        \<bar>tx_amount t\<bar> = \<bar>amount\<bar> \<and>
        time_instant (se_now E) - seconds (lookback div 1000000000) < time_instant (tx_posted_at t)))"

section \<open>Writing\<close>

definition update_acct :: "uuid \<Rightarrow> (dep_account \<Rightarrow> dep_account) \<Rightarrow> 'a sv_db_scheme \<Rightarrow> 'a sv_db_scheme" where
  "update_acct aid f db = db\<lparr>sv_accounts := map (\<lambda>a. if acc_id a = aid then f a else a) (sv_accounts db)\<rparr>"

definition update_txn :: "uuid \<Rightarrow> (dep_txn \<Rightarrow> dep_txn) \<Rightarrow> 'a sv_db_scheme \<Rightarrow> 'a sv_db_scheme" where
  "update_txn tid f db = db\<lparr>sv_txns := map (\<lambda>t. if tx_id t = tid then f t else t) (sv_txns db)\<rparr>"

definition SetWithdrawalNoticeTx :: "sv_env \<Rightarrow> uuid \<Rightarrow> decimal \<Rightarrow> 'a sv_db_scheme \<Rightarrow> 'a sv_db_scheme" where
  "SetWithdrawalNoticeTx E aid amount = update_acct aid
     (\<lambda>a. a\<lparr>acc_notice_given_at := Some (se_now E), acc_notice_amount := Some (se_col E amount)\<rparr>)"

definition ClearWithdrawalNoticeTx :: "uuid \<Rightarrow> 'a sv_db_scheme \<Rightarrow> 'a sv_db_scheme" where
  "ClearWithdrawalNoticeTx aid = update_acct aid
     (\<lambda>a. a\<lparr>acc_notice_given_at := None, acc_notice_amount := None\<rparr>)"

definition SetStatusTx :: "sv_env \<Rightarrow> uuid \<Rightarrow> acct_status \<Rightarrow> bool \<Rightarrow> 'a sv_db_scheme \<Rightarrow> 'a sv_db_scheme" where
  "SetStatusTx E aid st is_closed = update_acct aid
     (\<lambda>a. if is_closed
          then a\<lparr>acc_status := st, acc_closed_at := (case acc_closed_at a of
                   None \<Rightarrow> Some (se_now E) | Some t \<Rightarrow> Some t)\<rparr>
          else a\<lparr>acc_status := st\<rparr>)"

text \<open>\<open>nextSeq\<close> (share_store.go): the counter of the kind and year, printed with five digits.\<close>

definition nextSeq :: "sv_env \<Rightarrow> string \<Rightarrow> string \<Rightarrow> 'a sv_db_scheme \<Rightarrow> 'a sv_db_scheme \<times> string" where
  "nextSeq E kind prefix db =
     (let year = d_year (gt_date (se_clock E)); n = sv_seq db (kind, year) + 1 in
      (db\<lparr>sv_seq := (sv_seq db)((kind, year) := n)\<rparr>,
       prefix @ ''-'' @ show_nat (nat year) @ ''-'' @ pad_left 5 (show_nat n)))"

record open_input =
  op_counterparty_id :: uuid
  op_product_id :: uuid
  op_fixed_term_months :: "int option"

definition add_months_time :: "go_time \<Rightarrow> int \<Rightarrow> go_time" where
  "add_months_time t n = GoTime (add_months (gt_date t) n) (gt_nanos t)"

definition CreateDepAccountTx ::
  "sv_env \<Rightarrow> open_input \<Rightarrow> string \<Rightarrow> 'a sv_db_scheme \<Rightarrow> 'a sv_db_scheme \<times> dep_account" where
  "CreateDepAccountTx E inp no db =
     (let a = \<lparr> acc_id = sv_supply db, acc_counterparty_id = op_counterparty_id inp,
          acc_product_id = op_product_id inp, acc_account_no = no, acc_status = AcctActive,
          acc_current_balance = 0, acc_available_balance = 0, acc_opened_at = Some (se_clock E),
          acc_matures_at = (case op_fixed_term_months inp of None \<Rightarrow> None
            | Some n \<Rightarrow> if 0 < n then Some (add_months_time (se_clock E) n) else None),
          acc_closed_at = None, acc_last_activity_at = None, acc_last_deposit_at = None,
          acc_last_withdrawal_at = None, acc_fixed_term_months = op_fixed_term_months inp,
          acc_notice_given_at = None, acc_notice_amount = None, acc_is_joint = False,
          acc_required_signers = 1 \<rparr>
      in (db\<lparr>sv_accounts := sv_accounts db @ [a], sv_supply := sv_supply db + 1\<rparr>, a))"

section \<open>Posting\<close>

record post_dep_input =
  pt_account :: "dep_account option"
  pt_type :: dep_txn_type
  pt_amount :: decimal
  pt_value_date :: "date option"
  pt_channel :: "string option"
  pt_channel_ref :: "string option"
  pt_narration :: "string option"
  pt_counterparty_account :: "dep_account option"
  pt_counterparty_txn_id :: "uuid option"
  pt_reverses_txn_id :: "uuid option"
  pt_reversal_reason :: "string option"
  pt_initiated_by :: uuid
  pt_authorized_by :: "uuid option"
  pt_authorization_reason :: "string option"

definition post_dep_input :: "dep_account \<Rightarrow> dep_txn_type \<Rightarrow> decimal \<Rightarrow> uuid \<Rightarrow> post_dep_input" where
  "post_dep_input a ty amount by = \<lparr> pt_account = Some a, pt_type = ty, pt_amount = amount, pt_value_date = None,
     pt_channel = None, pt_channel_ref = None, pt_narration = None, pt_counterparty_account = None,
     pt_counterparty_txn_id = None, pt_reverses_txn_id = None, pt_reversal_reason = None,
     pt_initiated_by = by, pt_authorized_by = None, pt_authorization_reason = None \<rparr>"

definition signFor :: "dep_txn_type \<Rightarrow> decimal" where
  "signFor t = (if t \<in> {TxnDeposit, TxnDepTransferIn, TxnInterestCredit, TxnOpeningBalance} then 1
     else if t \<in> {TxnWithdrawal, TxnDepTransferOut, TxnFeeDebit, TxnGoalPayout} then - 1
     else 0)"

definition signed_amount :: "dep_txn_type \<Rightarrow> decimal \<Rightarrow> decimal" where
  "signed_amount t x = (if signFor t = 0 then x else \<bar>x\<bar> * signFor t)"

text \<open>
  The compare-and-set of the cached balances. The new balance, not the old minus holds, also becomes
  the available balance.
\<close>

definition cas_balance ::
  "sv_env \<Rightarrow> uuid \<Rightarrow> decimal \<Rightarrow> decimal \<Rightarrow> decimal \<Rightarrow> 'a sv_db_scheme \<Rightarrow> sv_error + 'a sv_db_scheme" where
  "cas_balance E aid new signed old db =
     (if length (filter (\<lambda>a. acc_id a = aid \<and> acc_current_balance a = old) (sv_accounts db)) \<noteq> 1
      then Inl (SvMsg ''concurrent balance update'')
      else Inr (update_acct aid (\<lambda>a. if acc_current_balance a = old
        then a\<lparr>acc_current_balance := se_col E new, acc_available_balance := se_col E new,
               acc_last_activity_at := Some (se_now E),
               acc_last_deposit_at := (if 0 < signed then Some (se_now E) else acc_last_deposit_at a),
               acc_last_withdrawal_at := (if signed < 0 then Some (se_now E) else acc_last_withdrawal_at a)\<rparr>
        else a) db))"

text \<open>The insert: the cast of the channel, the CHECK on the amount, the coerced values read back.\<close>

definition insert_txn :: "sv_env \<Rightarrow> dep_txn \<Rightarrow> 'a sv_db_scheme \<Rightarrow> sv_error + ('a sv_db_scheme \<times> dep_txn)" where
  "insert_txn E t db =
     (if \<exists>c. tx_channel t = Some c \<and> c \<notin> set deposit_channels then Inl (SvDb ''deposit_channel'')
      else if se_col E (tx_amount t) = 0 then Inl (SvDb ''amount <> 0'')
      else let t' = t\<lparr>tx_amount := se_col E (tx_amount t), tx_balance_after := se_col E (tx_balance_after t)\<rparr>
        in Inr (db\<lparr>sv_txns := sv_txns db @ [t'], sv_supply := sv_supply db + 1\<rparr>, t'))"

definition upsert_daily :: "sv_env \<Rightarrow> daily_balance \<Rightarrow> 'a sv_db_scheme \<Rightarrow> 'a sv_db_scheme" where
  "upsert_daily E d db =
     (let same = (\<lambda>r. dy_account_id r = dy_account_id d \<and> dy_snapshot_date r = dy_snapshot_date d) in
      db\<lparr>sv_daily := (if \<exists>r\<in>set (sv_daily db). same r
           then map (\<lambda>r. if same r then r\<lparr>dy_balance := se_col E (dy_balance d)\<rparr> else r) (sv_daily db)
           else sv_daily db @ [d\<lparr>dy_balance := se_col E (dy_balance d)\<rparr>])\<rparr>)"

definition txn_row :: "sv_env \<Rightarrow> post_dep_input \<Rightarrow> dep_account \<Rightarrow> decimal \<Rightarrow> string \<Rightarrow> uuid \<Rightarrow> dep_txn" where
  "txn_row E inp a signed no tid =
     \<lparr> tx_id = tid, tx_account_id = acc_id a, tx_counterparty_id = acc_counterparty_id a,
       tx_txn_no = no, tx_type = pt_type inp, tx_amount = signed,
       tx_value_date = the_default (gt_date (se_clock E)) (pt_value_date inp),
       tx_channel = pt_channel inp, tx_channel_ref = pt_channel_ref inp, tx_narration = pt_narration inp,
       tx_counterparty_account_id = map_option acc_id (pt_counterparty_account inp),
       tx_counterparty_txn_id = pt_counterparty_txn_id inp, tx_reverses_txn_id = pt_reverses_txn_id inp,
       tx_reversed_by_txn_id = None, tx_reversal_reason = pt_reversal_reason inp,
       tx_balance_after = acc_current_balance a + signed, tx_initiated_by = pt_initiated_by inp,
       tx_authorized_by = pt_authorized_by inp, tx_authorization_reason = pt_authorization_reason inp,
       tx_posted_at = se_now E \<rparr>"

definition PostTxnTx ::
  "sv_env \<Rightarrow> post_dep_input \<Rightarrow> 'a sv_db_scheme \<Rightarrow> sv_error + ('a sv_db_scheme \<times> dep_txn)" where
  "PostTxnTx E inp db = (case pt_account inp of
     None \<Rightarrow> Inl (SvMsg ''post: account is required'')
   | Some a \<Rightarrow>
       bind_res (ensure (pt_amount inp \<noteq> 0) (SvMsg ''post: amount must be non-zero'')) (\<lambda>_.
       let signed = signed_amount (pt_type inp) (pt_amount inp); new = acc_current_balance a + signed in
       bind_res (ensure (0 \<le> new) ErrInsufficientBalance) (\<lambda>_.
       bind_res (cas_balance E (acc_id a) new signed (acc_current_balance a) db) (\<lambda>db1.
       let (db2, no) = nextSeq E ''deposit_txn'' ''DPT'' db1 in
       bind_res (insert_txn E
           (txn_row E inp a signed no (sv_supply db2)) db2) (\<lambda>(db3, t).
       let db4 = (case pt_reverses_txn_id inp of None \<Rightarrow> db3
           | Some oid \<Rightarrow> update_txn oid (\<lambda>r. r\<lparr>tx_reversed_by_txn_id := Some (tx_id t)\<rparr>) db3)
       in Inr (upsert_daily E
           \<lparr> dy_account_id = acc_id a, dy_snapshot_date = gt_date (se_clock E), dy_balance = new,
             dy_product_id = acc_product_id a, dy_counterparty_id = acc_counterparty_id a \<rparr> db4, t))))))"

definition LinkCounterpartyTxnTx :: "uuid \<Rightarrow> uuid \<Rightarrow> 'a sv_db_scheme \<Rightarrow> 'a sv_db_scheme" where
  "LinkCounterpartyTxnTx tid cid = update_txn tid (\<lambda>t. t\<lparr>tx_counterparty_txn_id := Some cid\<rparr>)"

definition inflow :: "dep_txn_type \<Rightarrow> bool" where
  "inflow t \<longleftrightarrow> t \<in> {TxnDeposit, TxnOpeningBalance, TxnDepTransferIn, TxnInterestCredit}"

text \<open>
  \<open>ReverseDepositTx\<close> from the transaction row it read: the row is not locked, so it may be older
  than the tables.
\<close>

definition reverse_read ::
  "sv_env \<Rightarrow> dep_txn \<Rightarrow> string \<Rightarrow> uuid \<Rightarrow> 'a sv_db_scheme \<Rightarrow> sv_error + ('a sv_db_scheme \<times> dep_txn)" where
  "reverse_read E orig reason user db =
     bind_res (ensure (inflow (tx_type orig))
       (SvMsg ''only inflow deposit transactions can be reversed by this path'')) (\<lambda>_.
     bind_res (ensure (tx_reversed_by_txn_id orig = None) ErrAlreadyReversed) (\<lambda>_.
     bind_res (GetDepAccountTx db (tx_account_id orig)) (\<lambda>acct.
     bind_res (PostTxnTx E ((post_dep_input acct TxnWithdrawal \<bar>tx_amount orig\<bar> user)
         \<lparr>pt_channel := tx_channel orig, pt_channel_ref := tx_channel_ref orig,
          pt_narration := Some (''Reversal of '' @ tx_txn_no orig @ '': '' @ reason),
          pt_reverses_txn_id := Some (tx_id orig), pt_reversal_reason := Some reason\<rparr>) db) (\<lambda>(db1, rv).
     Inr (update_txn (tx_id orig) (\<lambda>t. t\<lparr>tx_reversed_by_txn_id := Some (tx_id rv)\<rparr>) db1, rv)))))"

definition ReverseDepositTx ::
  "sv_env \<Rightarrow> uuid \<Rightarrow> string \<Rightarrow> uuid \<Rightarrow> 'a sv_db_scheme \<Rightarrow> sv_error + ('a sv_db_scheme \<times> dep_txn)" where
  "ReverseDepositTx E tid reason user db =
     bind_res (GetTxnTx db tid) (\<lambda>orig. reverse_read E orig reason user db)"

section \<open>The daily snapshot\<close>

definition SnapshotForDateTx :: "sv_env \<Rightarrow> date \<Rightarrow> 'a sv_db_scheme \<Rightarrow> 'a sv_db_scheme" where
  "SnapshotForDateTx E d db = fold (\<lambda>a. upsert_daily E
       \<lparr> dy_account_id = acc_id a, dy_snapshot_date = d, dy_balance = acc_current_balance a,
         dy_product_id = acc_product_id a, dy_counterparty_id = acc_counterparty_id a \<rparr>)
     (filter (\<lambda>a. acc_status a \<noteq> AcctClosed) (sv_accounts db)) db"

end
