(* ===== verification/DepositLedger.thy ===== *)
theory DepositLedger
  imports DepositStore
begin

text \<open>
  What a posted transaction does to the deposit tables, and the invariant of the ledger: the cached
  balance of an account is the sum of its transactions. A request with a fraction of a cent is
  rounded twice, once in the balance and once in the row, so the two can drift by a cent per row; the
  flag \<open>cents\<close> of the invariant says that every request was in whole cents.
\<close>

section \<open>The effect of a post\<close>

definition of_account :: "uuid \<Rightarrow> 'a sv_db_scheme \<Rightarrow> dep_txn list" where
  "of_account aid db = filter (\<lambda>t. tx_account_id t = aid) (sv_txns db)"

definition ledger_sum :: "uuid \<Rightarrow> 'a sv_db_scheme \<Rightarrow> decimal" where
  "ledger_sum aid db = sum_list (map tx_amount (of_account aid db))"

definition mark_reversed :: "uuid option \<Rightarrow> uuid \<Rightarrow> dep_txn \<Rightarrow> dep_txn" where
  "mark_reversed orig rid t = (if orig = Some (tx_id t) then t\<lparr>tx_reversed_by_txn_id := Some rid\<rparr> else t)"

lemma mark_reversed_simps [simp]:
  "mark_reversed None rid t = t"
  "tx_id (mark_reversed orig rid t) = tx_id t"
  "tx_account_id (mark_reversed orig rid t) = tx_account_id t"
  "tx_amount (mark_reversed orig rid t) = tx_amount t"
  "tx_balance_after (mark_reversed orig rid t) = tx_balance_after t"
  "tx_type (mark_reversed orig rid t) = tx_type t"
  "tx_channel_ref (mark_reversed orig rid t) = tx_channel_ref t"
  by (simp_all add: mark_reversed_def)

lemma mark_reversed_None: "mark_reversed None rid = id"
  by (simp add: fun_eq_iff)

lemma mark_reversed_Some:
  "mark_reversed (Some oid) rid = (\<lambda>t. if tx_id t = oid then t\<lparr>tx_reversed_by_txn_id := Some rid\<rparr> else t)"
  by (auto simp: fun_eq_iff mark_reversed_def)

definition daily_after :: "sv_env \<Rightarrow> daily_balance \<Rightarrow> daily_balance list \<Rightarrow> daily_balance list" where
  "daily_after E d ds = (let same = (\<lambda>r. dy_account_id r = dy_account_id d \<and> dy_snapshot_date r = dy_snapshot_date d) in
     if \<exists>r\<in>set ds. same r then map (\<lambda>r. if same r then r\<lparr>dy_balance := se_col E (dy_balance d)\<rparr> else r) ds
     else ds @ [d\<lparr>dy_balance := se_col E (dy_balance d)\<rparr>])"

lemma upsert_daily_eq: "upsert_daily E d db = db\<lparr>sv_daily := daily_after E d (sv_daily db)\<rparr>"
  by (simp add: upsert_daily_def daily_after_def Let_def)

text \<open>The account row after a post of \<open>signed\<close>.\<close>

definition posted_account :: "sv_env \<Rightarrow> decimal \<Rightarrow> dep_account \<Rightarrow> dep_account" where
  "posted_account E signed a = a\<lparr>acc_current_balance := se_col E (acc_current_balance a + signed),
     acc_available_balance := se_col E (acc_current_balance a + signed),
     acc_last_activity_at := Some (se_now E),
     acc_last_deposit_at := (if 0 < signed then Some (se_now E) else acc_last_deposit_at a),
     acc_last_withdrawal_at := (if signed < 0 then Some (se_now E) else acc_last_withdrawal_at a)\<rparr>"

lemma posted_account_simps [simp]:
  "acc_id (posted_account E s a) = acc_id a"
  "acc_counterparty_id (posted_account E s a) = acc_counterparty_id a"
  "acc_product_id (posted_account E s a) = acc_product_id a"
  "acc_account_no (posted_account E s a) = acc_account_no a"
  "acc_status (posted_account E s a) = acc_status a"
  "acc_current_balance (posted_account E s a) = se_col E (acc_current_balance a + s)"
  "acc_available_balance (posted_account E s a) = se_col E (acc_current_balance a + s)"
  by (simp_all add: posted_account_def)

definition post_accounts :: "sv_env \<Rightarrow> dep_account \<Rightarrow> decimal \<Rightarrow> dep_account list \<Rightarrow> dep_account list" where
  "post_accounts E a signed = map (\<lambda>b. if acc_id b = acc_id a \<and> acc_current_balance b = acc_current_balance a
     then posted_account E signed b else b)"

definition posted_db ::
  "sv_env \<Rightarrow> dep_account \<Rightarrow> decimal \<Rightarrow> uuid option \<Rightarrow> dep_txn \<Rightarrow> daily_balance list \<Rightarrow> (string \<times> int \<Rightarrow> nat)
    \<Rightarrow> 'a sv_db_scheme \<Rightarrow> 'a sv_db_scheme" where
  "posted_db E a signed orig t dy sq db = db\<lparr>sv_accounts := post_accounts E a signed (sv_accounts db),
     sv_txns := map (mark_reversed orig (tx_id t)) (sv_txns db @ [t]), sv_daily := dy, sv_seq := sq,
     sv_supply := sv_supply db + 1\<rparr>"

lemma cas_balance_Inr:
  "cas_balance E (acc_id a) (acc_current_balance a + s) s (acc_current_balance a) db = Inr db1 \<longleftrightarrow>
     length (filter (\<lambda>b. acc_id b = acc_id a \<and> acc_current_balance b = acc_current_balance a) (sv_accounts db)) = 1 \<and>
     db1 = db\<lparr>sv_accounts := post_accounts E a s (sv_accounts db)\<rparr>"
proof -
  have "map (\<lambda>b. if acc_id b = acc_id a then if acc_current_balance b = acc_current_balance a
      then b\<lparr>acc_current_balance := se_col E (acc_current_balance a + s),
        acc_available_balance := se_col E (acc_current_balance a + s), acc_last_activity_at := Some (se_now E),
        acc_last_deposit_at := (if 0 < s then Some (se_now E) else acc_last_deposit_at b),
        acc_last_withdrawal_at := (if s < 0 then Some (se_now E) else acc_last_withdrawal_at b)\<rparr> else b
      else b) (sv_accounts db) = post_accounts E a s (sv_accounts db)"
    by (simp add: post_accounts_def posted_account_def)
  then show ?thesis by (auto simp: cas_balance_def update_acct_def)
qed

lemma insert_txn_InrD:
  "insert_txn E t0 db = Inr (db', t) \<Longrightarrow> se_col E (tx_amount t0) \<noteq> 0 \<and>
     t = t0\<lparr>tx_amount := se_col E (tx_amount t0), tx_balance_after := se_col E (tx_balance_after t0)\<rparr> \<and>
     db' = db\<lparr>sv_txns := sv_txns db @ [t], sv_supply := sv_supply db + 1\<rparr>"
  by (auto simp: insert_txn_def Let_def split: if_splits)

lemma PostTxnTx_E:
  assumes "PostTxnTx E inp db = Inr (db', t)"
  obtains a dy sq where
    "pt_account inp = Some a" "pt_amount inp \<noteq> 0"
    "0 \<le> acc_current_balance a + signed_amount (pt_type inp) (pt_amount inp)"
    "length (filter (\<lambda>b. acc_id b = acc_id a \<and> acc_current_balance b = acc_current_balance a) (sv_accounts db)) = 1"
    "se_col E (signed_amount (pt_type inp) (pt_amount inp)) \<noteq> 0"
    "db' = posted_db E a (signed_amount (pt_type inp) (pt_amount inp)) (pt_reverses_txn_id inp) t dy sq db"
    "tx_id t = sv_supply db" "tx_account_id t = acc_id a" "tx_counterparty_id t = acc_counterparty_id a"
    "tx_type t = pt_type inp" "tx_amount t = se_col E (signed_amount (pt_type inp) (pt_amount inp))"
    "tx_balance_after t = se_col E (acc_current_balance a + signed_amount (pt_type inp) (pt_amount inp))"
    "tx_reversed_by_txn_id t = None" "tx_reverses_txn_id t = pt_reverses_txn_id inp"
    "tx_channel_ref t = pt_channel_ref inp" "tx_posted_at t = se_now E"
proof -
  from assms obtain a where a: "pt_account inp = Some a"
    by (auto simp: PostTxnTx_def split: option.splits)
  let ?s = "signed_amount (pt_type inp) (pt_amount inp)"
  note post = assms [unfolded PostTxnTx_def a option.case Let_def]
  from post have nz: "pt_amount inp \<noteq> 0" "0 \<le> acc_current_balance a + ?s"
    unfolding bind_ensure_Inr by simp_all
  from post obtain db1 where cas:
      "cas_balance E (acc_id a) (acc_current_balance a + ?s) ?s (acc_current_balance a) db = Inr db1"
    and post': "(case nextSeq E ''deposit_txn'' ''DPT'' db1 of (db2, no) \<Rightarrow>
      bind_res (insert_txn E (txn_row E inp a ?s no (sv_supply db2)) db2) (\<lambda>(db3, t).
        Inr (upsert_daily E \<lparr> dy_account_id = acc_id a, dy_snapshot_date = gt_date (se_clock E),
          dy_balance = acc_current_balance a + ?s, dy_product_id = acc_product_id a, dy_counterparty_id = acc_counterparty_id a \<rparr>
          (case pt_reverses_txn_id inp of None \<Rightarrow> db3
           | Some oid \<Rightarrow> update_txn oid (\<lambda>r. r\<lparr>tx_reversed_by_txn_id := Some (tx_id t)\<rparr>) db3), t))) = Inr (db', t)"
    unfolding bind_ensure_Inr by (auto elim!: bind_resE)
  obtain db2 no where sq: "nextSeq E ''deposit_txn'' ''DPT'' db1 = (db2, no)" by force
  have ins: "\<exists>db3. insert_txn E (txn_row E inp a ?s no (sv_supply db2)) db2 = Inr (db3, t) \<and>
    db' = upsert_daily E \<lparr> dy_account_id = acc_id a, dy_snapshot_date = gt_date (se_clock E),
      dy_balance = acc_current_balance a + ?s, dy_product_id = acc_product_id a, dy_counterparty_id = acc_counterparty_id a \<rparr>
      (case pt_reverses_txn_id inp of None \<Rightarrow> db3
           | Some oid \<Rightarrow> update_txn oid (\<lambda>r. r\<lparr>tx_reversed_by_txn_id := Some (tx_id t)\<rparr>) db3)"
    using post' unfolding sq prod.case by (auto elim!: bind_resE)
  then obtain db3 where ins: "insert_txn E (txn_row E inp a ?s no (sv_supply db2)) db2 = Inr (db3, t)"
    and db': "db' = upsert_daily E \<lparr> dy_account_id = acc_id a, dy_snapshot_date = gt_date (se_clock E),
      dy_balance = acc_current_balance a + ?s, dy_product_id = acc_product_id a, dy_counterparty_id = acc_counterparty_id a \<rparr>
      (case pt_reverses_txn_id inp of None \<Rightarrow> db3
           | Some oid \<Rightarrow> update_txn oid (\<lambda>r. r\<lparr>tx_reversed_by_txn_id := Some (tx_id t)\<rparr>) db3)"
    by blast
  from cas have l: "length (filter (\<lambda>b. acc_id b = acc_id a \<and> acc_current_balance b = acc_current_balance a) (sv_accounts db)) = 1"
    and db1: "db1 = db\<lparr>sv_accounts := post_accounts E a ?s (sv_accounts db)\<rparr>"
    by (simp_all add: cas_balance_Inr)
  obtain sq where db2: "db2 = db1\<lparr>sv_seq := sq\<rparr>"
    using sq by (auto simp: nextSeq_def Let_def)
  from insert_txn_InrD [OF ins] have i: "se_col E ?s \<noteq> 0"
    "t = (txn_row E inp a ?s no (sv_supply db))\<lparr>tx_amount := se_col E ?s,
       tx_balance_after := se_col E (acc_current_balance a + ?s)\<rparr>"
    and db3: "db3 = db\<lparr>sv_accounts := post_accounts E a ?s (sv_accounts db), sv_txns := sv_txns db @ [t],
      sv_seq := sq, sv_supply := sv_supply db + 1\<rparr>"
    by (simp_all add: db2 db1 txn_row_def)
  let ?dy = "daily_after E \<lparr> dy_account_id = acc_id a, dy_snapshot_date = gt_date (se_clock E),
      dy_balance = acc_current_balance a + ?s, dy_product_id = acc_product_id a,
      dy_counterparty_id = acc_counterparty_id a \<rparr> (sv_daily db)"
  have "db' = posted_db E a ?s (pt_reverses_txn_id inp) t ?dy sq db"
    unfolding db' upsert_daily_eq
    by (cases "pt_reverses_txn_id inp")
      (simp_all add: db3 posted_db_def update_txn_def mark_reversed_None mark_reversed_Some)
  from that [OF a nz l i(1) this] show thesis
    by (simp add: i(2) txn_row_def)
qed

section \<open>The invariant\<close>

definition sv_env_ok :: "sv_env \<Rightarrow> bool" where
  "sv_env_ok E \<longleftrightarrow> decimal_text (se_dec E) \<and> rounding 2 (se_col E)"

definition txn_ok :: "dep_txn \<Rightarrow> bool" where
  "txn_ok t \<longleftrightarrow> scaled 2 (tx_amount t) \<and> tx_amount t \<noteq> 0 \<and> 0 \<le> tx_balance_after t \<and>
     (signFor (tx_type t) \<noteq> 0 \<longrightarrow> 0 < signFor (tx_type t) * tx_amount t)"

text \<open>How far a balance can be from the sum of \<open>n\<close> rows.\<close>

definition drift :: "bool \<Rightarrow> nat \<Rightarrow> decimal" where
  "drift cents n = (if cents then 0 else of_nat n / 100)"

lemma drift_simps [simp]: "drift True n = 0" "drift cents 0 = 0"
  by (simp_all add: drift_def)

lemma drift_Suc: "drift cents (Suc n) = drift cents n + drift cents 1"
  by (simp add: drift_def add_divide_distrib)

definition account_ok :: "bool \<Rightarrow> 'a sv_db_scheme \<Rightarrow> dep_account \<Rightarrow> bool" where
  "account_ok cents db a \<longleftrightarrow> 0 \<le> acc_current_balance a \<and> scaled 2 (acc_current_balance a) \<and>
     acc_available_balance a = acc_current_balance a \<and>
     \<bar>acc_current_balance a - ledger_sum (acc_id a) db\<bar> \<le> drift cents (length (of_account (acc_id a) db)) \<and>
     (of_account (acc_id a) db \<noteq> [] \<longrightarrow>
       acc_current_balance a = tx_balance_after (last (of_account (acc_id a) db)))"

definition ledger_ok :: "bool \<Rightarrow> 'a sv_db_scheme \<Rightarrow> bool" where
  "ledger_ok cents db \<longleftrightarrow>
     distinct (map acc_id (sv_accounts db)) \<and> (\<forall>a\<in>set (sv_accounts db). acc_id a < sv_supply db) \<and>
     distinct (map tx_id (sv_txns db)) \<and> (\<forall>t\<in>set (sv_txns db). tx_id t < sv_supply db) \<and>
     (\<forall>t\<in>set (sv_txns db). txn_ok t \<and> (\<exists>a\<in>set (sv_accounts db). acc_id a = tx_account_id t)) \<and>
     (\<forall>a\<in>set (sv_accounts db). account_ok cents db a)"

lemma txn_ok_mark [simp]: "txn_ok (mark_reversed orig rid t) = txn_ok t"
  by (simp add: txn_ok_def)

lemma ledger_ok_account:
  "ledger_ok cents db \<Longrightarrow> a \<in> set (sv_accounts db) \<Longrightarrow> account_ok cents db a"
  by (simp add: ledger_ok_def)

lemma posted_db_simps [simp]:
  "sv_accounts (posted_db E a s orig t dy sq db) = post_accounts E a s (sv_accounts db)"
  "sv_txns (posted_db E a s orig t dy sq db) = map (mark_reversed orig (tx_id t)) (sv_txns db @ [t])"
  "sv_daily (posted_db E a s orig t dy sq db) = dy"
  "sv_supply (posted_db E a s orig t dy sq db) = sv_supply db + 1"
  "sv_outbox (posted_db E a s orig t dy sq db) = sv_outbox db"
  "sv_products (posted_db E a s orig t dy sq db) = sv_products db"
  "sv_counterparties (posted_db E a s orig t dy sq db) = sv_counterparties db"
  "sv_approvals (posted_db E a s orig t dy sq db) = sv_approvals db"
  "sv_instances (posted_db E a s orig t dy sq db) = sv_instances db"
  by (simp_all add: posted_db_def)

lemma of_account_posted:
  "of_account aid (posted_db E a s orig t dy sq db) =
     map (mark_reversed orig (tx_id t)) (of_account aid db @ (if tx_account_id t = aid then [t] else []))"
  by (simp add: of_account_def filter_map comp_def)

lemma map_acc_id_post [simp]: "map acc_id (post_accounts E a s as) = map acc_id as"
  by (simp add: post_accounts_def)

lemma post_accounts_cases:
  assumes "distinct (map acc_id as)"
    and "length (filter (\<lambda>b. acc_id b = acc_id a \<and> acc_current_balance b = acc_current_balance a) as) = 1"
    and "c \<in> set (post_accounts E a s as)"
  obtains b where "b \<in> set as" "acc_id b = acc_id a" "acc_current_balance b = acc_current_balance a"
      "c = posted_account E s b"
  | "c \<in> set as" "acc_id c \<noteq> acc_id a"
proof -
  from assms(2) obtain b where "filter (\<lambda>b. acc_id b = acc_id a \<and> acc_current_balance b = acc_current_balance a) as = [b]"
    by (cases "filter (\<lambda>b. acc_id b = acc_id a \<and> acc_current_balance b = acc_current_balance a) as") auto
  then have b: "b \<in> set as" "acc_id b = acc_id a" "acc_current_balance b = acc_current_balance a"
    by (auto dest!: filter_eq_ConsD)
  have uniq: "b' = b" if "b' \<in> set as" "acc_id b' = acc_id a" for b'
    using assms(1) b that by (simp add: distinct_map inj_on_def)
  from assms(3) obtain d where d: "d \<in> set as"
    "c = (if acc_id d = acc_id a \<and> acc_current_balance d = acc_current_balance a then posted_account E s d else d)"
    by (auto simp: post_accounts_def)
  show thesis
  proof (cases "acc_id d = acc_id a")
    case True
    with uniq d(1) have "d = b" by blast
    with b d show thesis by (intro that(1) [of b]) simp_all
  next
    case False
    with d show thesis by (intro that(2)) simp_all
  qed
qed

text \<open>Rounding the sum and the summand: exact in whole cents, at most a cent apart otherwise.\<close>

context rounding
begin

lemma add_exact: "scaled n b \<Longrightarrow> scaled n s \<Longrightarrow> rnd (b + s) = b + rnd s"
  by (simp add: exact scaled_add)

lemma add_drift: "scaled n b \<Longrightarrow> \<bar>rnd (b + s) - (b + rnd s)\<bar> \<le> 1 / 10 ^ n"
proof -
  have "1 / (2 * 10 ^ n) + 1 / (2 * 10 ^ n) = (1 / 10 ^ n :: decimal)" by (simp add: field_simps)
  with near [of "b + s"] near [of s] show ?thesis by arith
qed

end

lemma signFor_cases: "signFor ty = 0 \<or> signFor ty = 1 \<or> signFor ty = - 1"
  by (simp add: signFor_def)

lemma signed_amount_sign: "x \<noteq> 0 \<Longrightarrow> signFor ty \<noteq> 0 \<Longrightarrow> 0 < signFor ty * signed_amount ty x"
  using signFor_cases [of ty] by (auto simp: signed_amount_def)

lemma scaled_minus [intro]: "scaled n x \<Longrightarrow> scaled n (- x)"
  by (simp add: scaled_def)

lemma scaled_abs: "scaled n x \<Longrightarrow> scaled n \<bar>x\<bar>"
  by (cases "0 \<le> x") (simp_all add: scaled_minus)

lemma scaled_signed: "scaled n x \<Longrightarrow> scaled n (signed_amount ty x)"
  using signFor_cases [of ty] scaled_abs [of n x] scaled_minus [OF scaled_abs [of n x]]
  by (elim disjE) (simp_all add: signed_amount_def)

lemma col_sign:
  assumes "rounding 2 col" "0 < sg * (s :: decimal)" "col s \<noteq> 0" "sg = 1 \<or> sg = - 1"
  shows "0 < sg * col s"
  using assms(2-4) rounding.of_nonneg [OF assms(1), of s] rounding.of_nonpos [OF assms(1), of s]
  by (elim disjE) simp_all

lemma posted_account_ok:
  assumes col: "rounding 2 (se_col E)" and b: "account_ok cents db b"
    and new: "0 \<le> acc_current_balance b + s" and cents: "cents \<longrightarrow> scaled 2 s"
    and t: "tx_account_id t = acc_id b" "tx_amount t = se_col E s" "tx_balance_after t = se_col E (acc_current_balance b + s)"
    and db': "of_account (acc_id b) db' = map (mark_reversed orig rid) (of_account (acc_id b) db @ [t])"
  shows "account_ok cents db' (posted_account E s b)"
proof -
  have sum: "ledger_sum (acc_id b) db' = ledger_sum (acc_id b) db + se_col E s"
    by (simp add: ledger_sum_def db' t comp_def)
  have sc: "scaled 2 (acc_current_balance b)" using b by (simp add: account_ok_def)
  have d: "\<bar>se_col E (acc_current_balance b + s) - (acc_current_balance b + se_col E s)\<bar> \<le> drift cents 1"
    using rounding.add_exact [OF col sc, of s] rounding.add_drift [OF col sc, of s] cents
    by (cases cents) (simp_all add: drift_def)
  have "\<bar>acc_current_balance b - ledger_sum (acc_id b) db\<bar> \<le> drift cents (length (of_account (acc_id b) db))"
    using b by (simp add: account_ok_def)
  with d have "\<bar>se_col E (acc_current_balance b + s) - ledger_sum (acc_id b) db'\<bar>
      \<le> drift cents (Suc (length (of_account (acc_id b) db)))"
    unfolding sum drift_Suc by arith
  then show ?thesis
    using rounding.of_nonneg [OF col new] rounding.repr [OF col, of "acc_current_balance b + s"]
    by (simp add: account_ok_def db' t last_map)
qed

lemma post_txn_ok:
  assumes "PostTxnTx E inp db = Inr (db', t)" "rounding 2 (se_col E)"
  shows "txn_ok t"
proof -
  from assms(1) show ?thesis
  proof (rule PostTxnTx_E)
    fix a dy sq
    let ?s = "signed_amount (pt_type inp) (pt_amount inp)"
    assume h: "pt_amount inp \<noteq> 0" "0 \<le> acc_current_balance a + ?s" "se_col E ?s \<noteq> 0" "tx_type t = pt_type inp"
      "tx_amount t = se_col E ?s" "tx_balance_after t = se_col E (acc_current_balance a + ?s)"
    have "0 < signFor (pt_type inp) * se_col E ?s" if "signFor (pt_type inp) \<noteq> 0"
      using col_sign [OF assms(2) signed_amount_sign [OF h(1) that] h(3)] signFor_cases [of "pt_type inp"] that by blast
    then show ?thesis
      using h rounding.repr [OF assms(2)] rounding.of_nonneg [OF assms(2) h(2)] by (simp add: txn_ok_def)
  qed
qed

lemma account_ok_frame:
  "of_account (acc_id a) db' = map (mark_reversed orig rid) (of_account (acc_id a) db) \<Longrightarrow>
    account_ok cents db a \<Longrightarrow> account_ok cents db' a"
  by (simp add: account_ok_def ledger_sum_def comp_def last_map)

lemma post_ledger_ok [ledger_intros]:
  assumes post: "PostTxnTx E inp db = Inr (db', t)" and ok: "ledger_ok cents db" and E: "sv_env_ok E"
    and cents: "cents \<longrightarrow> scaled 2 (pt_amount inp)"
  shows "ledger_ok cents db'"
  using post
proof (rule PostTxnTx_E)
  fix a dy sq
  let ?s = "signed_amount (pt_type inp) (pt_amount inp)"
  assume new: "0 \<le> acc_current_balance a + ?s"
    and l: "length (filter (\<lambda>b. acc_id b = acc_id a \<and> acc_current_balance b = acc_current_balance a) (sv_accounts db)) = 1"
    and db': "db' = posted_db E a ?s (pt_reverses_txn_id inp) t dy sq db"
    and t: "tx_id t = sv_supply db" "tx_account_id t = acc_id a" "tx_amount t = se_col E ?s"
      "tx_balance_after t = se_col E (acc_current_balance a + ?s)"
  have col: "rounding 2 (se_col E)" using E by (simp add: sv_env_ok_def)
  have dist: "distinct (map acc_id (sv_accounts db))" using ok by (simp add: ledger_ok_def)
  have acc: "account_ok cents db' c \<and> acc_id c < sv_supply db'" if c: "c \<in> set (sv_accounts db')" for c
    using dist l c [unfolded db' posted_db_simps]
  proof (rule post_accounts_cases)
    fix b
    assume b: "b \<in> set (sv_accounts db)" "acc_id b = acc_id a" "acc_current_balance b = acc_current_balance a"
      "c = posted_account E ?s b"
    have "account_ok cents db b" "acc_id b < sv_supply db" using ok b(1) by (auto simp: ledger_ok_def)
    then show ?thesis
      using posted_account_ok [OF col _ _ _ _ _ _ of_account_posted [of "acc_id b" E a ?s "pt_reverses_txn_id inp" t dy sq db, simplified t(2) b(2) [symmetric] if_True refl], of cents ?s]
        b new t cents scaled_signed by (simp add: db')
  next
    assume c: "c \<in> set (sv_accounts db)" "acc_id c \<noteq> acc_id a"
    then have "account_ok cents db c" "acc_id c < sv_supply db" using ok by (auto simp: ledger_ok_def)
    moreover have "of_account (acc_id c) db' = map (mark_reversed (pt_reverses_txn_id inp) (tx_id t)) (of_account (acc_id c) db)"
      using c(2) by (simp add: db' of_account_posted t)
    ultimately show ?thesis by (auto simp: db' intro: account_ok_frame)
  qed
  have ids: "map acc_id (sv_accounts db') = map acc_id (sv_accounts db)"
    by (simp only: db' posted_db_simps map_acc_id_post)
  have ex: "(\<exists>x\<in>set (sv_accounts db'). acc_id x = i) \<longleftrightarrow> (\<exists>x\<in>set (sv_accounts db). acc_id x = i)" for i
    using arg_cong [OF ids, of set] by (auto simp: image_iff) (metis image_iff)+
  have own: "\<exists>x\<in>set (sv_accounts db). acc_id x = acc_id a"
    using l by (cases "filter (\<lambda>b. acc_id b = acc_id a \<and> acc_current_balance b = acc_current_balance a) (sv_accounts db)")
      (auto dest!: filter_eq_ConsD)
  have txns: "txn_ok u \<and> (\<exists>x\<in>set (sv_accounts db'). acc_id x = tx_account_id u) \<and> tx_id u < sv_supply db'"
    if "u \<in> set (sv_txns db')" for u
    using that ok own post_txn_ok [OF post col] unfolding ex
    by (auto simp: db' t ledger_ok_def less_Suc_eq)
  have "tx_id \<circ> mark_reversed (pt_reverses_txn_id inp) (sv_supply db) = tx_id" by (simp add: fun_eq_iff)
  then have "distinct (map tx_id (sv_txns db'))"
    using ok by (auto simp: db' t ledger_ok_def)
  then show ?thesis using acc txns dist ids by (simp add: ledger_ok_def)
qed

section \<open>Updates that leave the ledger alone\<close>

definition same_money :: "(dep_account \<Rightarrow> dep_account) \<Rightarrow> bool" where
  "same_money f \<longleftrightarrow> (\<forall>a. acc_id (f a) = acc_id a \<and> acc_current_balance (f a) = acc_current_balance a \<and>
     acc_available_balance (f a) = acc_available_balance a)"

definition same_entry :: "(dep_txn \<Rightarrow> dep_txn) \<Rightarrow> bool" where
  "same_entry g \<longleftrightarrow> (\<forall>t. tx_id (g t) = tx_id t \<and> tx_account_id (g t) = tx_account_id t \<and>
     tx_amount (g t) = tx_amount t \<and> tx_balance_after (g t) = tx_balance_after t \<and> tx_type (g t) = tx_type t)"

lemma ledger_ok_frame:
  assumes ok: "ledger_ok cents db"
    and "sv_accounts db' = map f (sv_accounts db)" "same_money f"
    and "sv_txns db' = map g (sv_txns db)" "same_entry g" and "sv_supply db \<le> sv_supply db'"
  shows "ledger_ok cents db'"
proof -
  note f = assms(3) [unfolded same_money_def, rule_format] and g = assms(5) [unfolded same_entry_def, rule_format]
  have ids: "acc_id \<circ> f = acc_id" "tx_id \<circ> g = tx_id" by (simp_all add: fun_eq_iff f g)
  have of: "of_account aid db' = map g (of_account aid db)" for aid
    by (simp add: of_account_def assms(4) filter_map comp_def g)
  have "account_ok cents db' (f a) = account_ok cents db a" for a
    by (simp add: account_ok_def ledger_sum_def of f g comp_def last_map)
  moreover have "txn_ok (g t) = txn_ok t" for t by (simp add: txn_ok_def g)
  ultimately show ?thesis
    using ok assms(6) unfolding ledger_ok_def assms(2,4) map_map ids
    by (auto simp: f g intro: less_le_trans)
qed

lemma ledger_ok_same:
  "ledger_ok cents db \<Longrightarrow> sv_accounts db' = sv_accounts db \<Longrightarrow> sv_txns db' = sv_txns db \<Longrightarrow>
    sv_supply db \<le> sv_supply db' \<Longrightarrow> ledger_ok cents db'"
  by (erule ledger_ok_frame [where f = id and g = id]) (simp_all add: same_money_def same_entry_def)

lemma update_acct_ok: "ledger_ok cents db \<Longrightarrow> same_money f \<Longrightarrow> ledger_ok cents (update_acct aid f db)"
  by (erule ledger_ok_frame [where f = "\<lambda>a. if acc_id a = aid then f a else a" and g = id])
    (simp_all add: update_acct_def same_money_def same_entry_def)

lemma update_txn_ok: "ledger_ok cents db \<Longrightarrow> same_entry g \<Longrightarrow> ledger_ok cents (update_txn tid g db)"
  by (erule ledger_ok_frame [where f = id and g = "\<lambda>t. if tx_id t = tid then g t else t"])
    (simp_all add: update_txn_def same_money_def same_entry_def)

lemma notice_ledger_ok [ledger_intros]:
  "ledger_ok cents db \<Longrightarrow> ledger_ok cents (SetWithdrawalNoticeTx E aid x db)"
  "ledger_ok cents db \<Longrightarrow> ledger_ok cents (ClearWithdrawalNoticeTx aid db)"
  "ledger_ok cents db \<Longrightarrow> ledger_ok cents (SetStatusTx E aid st cl db)"
  "ledger_ok cents db \<Longrightarrow> ledger_ok cents (LinkCounterpartyTxnTx tid cid db)"
  by (auto simp: SetWithdrawalNoticeTx_def ClearWithdrawalNoticeTx_def SetStatusTx_def LinkCounterpartyTxnTx_def
      same_money_def same_entry_def intro!: update_acct_ok update_txn_ok)

lemma snapshot_same:
  "sv_accounts (SnapshotForDateTx E d db) = sv_accounts db \<and> sv_txns (SnapshotForDateTx E d db) = sv_txns db \<and>
     sv_supply (SnapshotForDateTx E d db) = sv_supply db"
proof -
  have "sv_accounts (fold (\<lambda>a. upsert_daily E (h a)) as db) = sv_accounts db \<and>
      sv_txns (fold (\<lambda>a. upsert_daily E (h a)) as db) = sv_txns db \<and>
      sv_supply (fold (\<lambda>a. upsert_daily E (h a)) as db) = sv_supply db" for h as db
    by (induction as arbitrary: db) (simp_all add: upsert_daily_eq)
  then show ?thesis by (simp add: SnapshotForDateTx_def)
qed

lemma snapshot_ledger_ok [ledger_intros]: "ledger_ok cents db \<Longrightarrow> ledger_ok cents (SnapshotForDateTx E d db)"
  by (erule ledger_ok_same) (simp_all add: snapshot_same)

lemma create_ledger_ok [ledger_intros]:
  assumes ok: "ledger_ok cents db"
  shows "ledger_ok cents (fst (CreateDepAccountTx E inp no db))"
proof -
  obtain a where c: "fst (CreateDepAccountTx E inp no db) =
      db\<lparr>sv_accounts := sv_accounts db @ [a], sv_supply := sv_supply db + 1\<rparr>"
    and a: "acc_id a = sv_supply db" "acc_current_balance a = 0" "acc_available_balance a = 0"
    by (rule that, simp add: CreateDepAccountTx_def Let_def) simp_all
  have "of_account (sv_supply db) db = []"
    using ok by (force simp: of_account_def ledger_ok_def filter_empty_conv)
  then have "account_ok cents (fst (CreateDepAccountTx E inp no db)) a"
    by (simp add: account_ok_def c a of_account_def ledger_sum_def)
  moreover have "account_ok cents (fst (CreateDepAccountTx E inp no db)) b = account_ok cents db b" for b
    by (simp add: account_ok_def c of_account_def ledger_sum_def)
  moreover have "sv_supply db \<notin> acc_id ` set (sv_accounts db)" using ok by (auto simp: ledger_ok_def)
  ultimately show ?thesis using ok by (auto simp: c a ledger_ok_def less_Suc_eq)
qed

lemma reverse_ledger_ok [ledger_intros]:
  assumes "reverse_read E orig reason user db = Inr (db', rv)" "ledger_ok cents db" "sv_env_ok E" "txn_ok orig"
  shows "ledger_ok cents db'"
proof -
  from assms(1) obtain acct inp db1 where post: "PostTxnTx E inp db = Inr (db1, rv)" "pt_amount inp = \<bar>tx_amount orig\<bar>"
    and db': "db' = update_txn (tx_id orig) (\<lambda>t. t\<lparr>tx_reversed_by_txn_id := Some (tx_id rv)\<rparr>) db1"
    unfolding reverse_read_def bind_ensure_Inr by (auto elim!: bind_resE simp: post_dep_input_def)
  from post(1) assms(2,3) have "ledger_ok cents db1"
    by (rule post_ledger_ok) (use assms(4) in \<open>simp add: post(2) txn_ok_def scaled_abs\<close>)
  then show ?thesis unfolding db' by (rule update_txn_ok) (simp add: same_entry_def)
qed

end
