(* ===== verification/DepositRules.thy ===== *)
theory DepositRules
  imports SavingsStore
begin

text \<open>
  The product rules of services/savings/internal/domain/deposit.go: what a deposit and a withdrawal
  have to satisfy before anything is posted, and the codes of the chart of accounts
  (internal/postingops/postingops.go).
\<close>

definition ValidateBOSAConstraints :: "dep_product \<Rightarrow> sv_error + unit" where
  "ValidateBOSAConstraints p =
     (if pd_segment p \<noteq> SegmentBOSA then Inr ()
      else if pd_partial_withdrawal_allowed p then Inl (SvMsg ''BOSA products cannot allow partial withdrawals'')
      else if pd_notice_period_days p \<noteq> 0 then Inl (SvMsg ''BOSA products cannot have a notice period'')
      else Inr ())"

definition EligibleForProduct :: "dep_product \<Rightarrow> string \<Rightarrow> string \<Rightarrow> sv_error + unit" where
  "EligibleForProduct p memberKind memberStatus =
     (if memberStatus \<in> {''blacklisted'', ''exited'', ''deceased'', ''rejected''}
      then Inl ErrMemberIneligibleStatus
      else case pd_eligibility p of
          EligibilityAll \<Rightarrow> Inr ()
        | EligibilityIndividuals \<Rightarrow> ensure (memberKind = ''individual'') ErrProductIneligible
        | EligibilityMinors \<Rightarrow> ensure (memberKind = ''minor'') ErrProductIneligible
        | EligibilityGroups \<Rightarrow> ensure (memberKind = ''group'') ErrProductIneligible)"

definition exceeds :: "decimal \<Rightarrow> decimal option \<Rightarrow> bool" where
  "exceeds x cap = (case cap of None \<Rightarrow> False | Some m \<Rightarrow> m < x)"

definition EvaluateDeposit :: "dep_product \<Rightarrow> dep_account \<Rightarrow> decimal \<Rightarrow> sv_error + unit" where
  "EvaluateDeposit p a amount =
     bind_res (ensure (pd_is_active p) ErrProductInactive) (\<lambda>_.
     bind_res (ensure (acc_status a = AcctActive \<or> acc_status a = AcctPending) ErrAccountNotActive) (\<lambda>_.
     bind_res (ensure (0 < amount) (SvMsg ''deposit amount must be positive'')) (\<lambda>_.
     bind_res (ensure (\<not> (0 < pd_min_deposit_amount p \<and> amount < pd_min_deposit_amount p)) ErrBelowMinDeposit) (\<lambda>_.
     bind_res (ensure (\<not> exceeds amount (pd_max_deposit_amount p)) ErrAboveMaxDeposit) (\<lambda>_.
     ensure (\<not> exceeds (acc_current_balance a + amount) (pd_max_balance p)) ErrWouldExceedMaxBalance)))))"

definition monthInWindow :: "int \<Rightarrow> int \<Rightarrow> int \<Rightarrow> bool" where
  "monthInWindow month start end =
     (if start \<le> end then start \<le> month \<and> month \<le> end else start \<le> month \<or> month \<le> end)"

definition outside_window :: "dep_product \<Rightarrow> go_time \<Rightarrow> bool" where
  "outside_window p now = (case (pd_window_start p, pd_window_end p) of
     (Some s, Some e) \<Rightarrow> \<not> monthInWindow (int (d_month (gt_date now))) s e | _ \<Rightarrow> False)"

definition locked_in :: "dep_product \<Rightarrow> dep_account \<Rightarrow> go_time \<Rightarrow> bool" where
  "locked_in p a now = (0 < pd_lock_in_months p \<and> (case acc_opened_at a of None \<Rightarrow> False
     | Some t \<Rightarrow> time_instant now < time_instant (GoTime (add_months (gt_date t) (pd_lock_in_months p)) (gt_nanos t))))"

definition breaches_min :: "dep_product \<Rightarrow> dep_account \<Rightarrow> decimal \<Rightarrow> bool" where
  "breaches_min p a amount = (0 < pd_min_operating_balance p \<and>
     acc_current_balance a - amount < pd_min_operating_balance p \<and>
     (acc_current_balance a - amount \<noteq> 0 \<or> pd_partial_withdrawal_allowed p))"

definition notice_met :: "dep_product \<Rightarrow> dep_account \<Rightarrow> decimal \<Rightarrow> go_time \<Rightarrow> bool" where
  "notice_met p a amount now = (case (acc_notice_given_at a, acc_notice_amount a) of
     (Some t, Some x) \<Rightarrow>
       \<not> time_instant now - time_instant t < pd_notice_period_days p * hours 24 \<and> \<not> x < amount
   | _ \<Rightarrow> False)"

definition EvaluateWithdrawal ::
  "dep_product \<Rightarrow> dep_account \<Rightarrow> decimal \<Rightarrow> go_time \<Rightarrow> int \<Rightarrow> sv_error + unit" where
  "EvaluateWithdrawal p a amount now monthlyCount =
     bind_res (ensure (pd_is_active p) ErrProductInactive) (\<lambda>_.
     bind_res (ensure (acc_status a = AcctActive \<or> acc_status a = AcctMatured) ErrAccountNotActive) (\<lambda>_.
     bind_res (ensure (0 < amount) (SvMsg ''withdrawal amount must be positive'')) (\<lambda>_.
     bind_res (ensure (\<not> (0 < pd_min_withdrawal_amount p \<and> amount < pd_min_withdrawal_amount p))
       ErrBelowMinWithdrawal) (\<lambda>_.
     bind_res (ensure (\<not> exceeds amount (pd_max_withdrawal_amount p)) ErrAboveMaxWithdrawal) (\<lambda>_.
     bind_res (ensure (amount \<le> acc_available_balance a) ErrInsufficientBalance) (\<lambda>_.
     bind_res (ensure (\<not> locked_in p a now) ErrLockInActive) (\<lambda>_.
     bind_res (ensure (\<not> breaches_min p a amount) ErrWouldBreachMinBalance) (\<lambda>_.
     bind_res (ensure (pd_partial_withdrawal_allowed p \<or> amount = acc_current_balance a)
       ErrPartialWithdrawalNotAllowed) (\<lambda>_.
     bind_res (ensure (\<not> outside_window p now) ErrOutsideWithdrawalWindow) (\<lambda>_.
     bind_res (ensure (\<not> (case pd_max_withdrawals_per_month p of None \<Rightarrow> False | Some m \<Rightarrow> m \<le> monthlyCount))
       ErrFrequencyCapReached) (\<lambda>_.
     ensure (0 < pd_notice_period_days p \<longrightarrow> notice_met p a amount now) ErrNoticePeriodNotMet)))))))))))"

definition IsLargeWithdrawal :: "dep_product \<Rightarrow> decimal \<Rightarrow> bool" where
  "IsLargeWithdrawal p amount = exceeds amount (pd_large_withdrawal_threshold p)"

section \<open>Codes\<close>

definition depositLiabilityCode :: "segment \<Rightarrow> product_type \<Rightarrow> string" where
  "depositLiabilityCode s t = (if s = SegmentBOSA then ''2050'' else case t of
     ProductOrdinary \<Rightarrow> ''2000'' | ProductHoliday \<Rightarrow> ''2010'' | ProductEmergency \<Rightarrow> ''2020''
   | ProductGoal \<Rightarrow> ''2030'' | ProductJunior \<Rightarrow> ''2040'' | ProductFixed \<Rightarrow> ''2100''
   | ProductGroup \<Rightarrow> ''2000'' | ProductMemberDeposit \<Rightarrow> ''2050'')"

text \<open>The cash-side account: postingops' table, which the handlers' own unused table differs from.\<close>

definition channelCashAccount :: "string \<Rightarrow> string" where
  "channelCashAccount ch =
     (if ch = ''mpesa'' then ''1030'' else if ch = ''airtel_money'' then ''1040''
      else if ch \<in> {''bank_transfer'', ''standing_order'', ''payroll'', ''direct_debit''} then ''1020''
      else if ch = ''internal'' then ''2000'' else ''1000'')"

section \<open>What the rules promise\<close>

lemma EvaluateDeposit_Inr: "EvaluateDeposit p a x = Inr u \<Longrightarrow> 0 < x \<and> pd_is_active p"
  by (simp add: EvaluateDeposit_def bind_ensure_Inr)

lemma EvaluateWithdrawal_Inr:
  "EvaluateWithdrawal p a x now n = Inr u \<Longrightarrow> 0 < x \<and> x \<le> acc_available_balance a \<and> pd_is_active p"
  by (simp add: EvaluateWithdrawal_def bind_ensure_Inr)

end
