(* ===== verification/DepositHandlers.thy ===== *)
theory DepositHandlers
  imports DepositLedger DepositRules
begin

text \<open>
  The requests on deposit accounts: the executors and their journal entries
  (services/savings/internal/handler/deposit_executors.go, internal/postingops/postingops.go), the
  approval queue (handler/queue_approval.go) and the handlers of handler/deposit.go. The optional
  receipt writer is taken as not configured; notifications and the touch of the member's activity
  time are left out.
\<close>

section \<open>Journal entries\<close>

definition sv_post :: "sv_env \<Rightarrow> client_post_input \<Rightarrow> 'a sv_db_scheme \<Rightarrow> sv_error + 'a sv_db_scheme" where
  "sv_post E inp db = (case se_posting E of None \<Rightarrow> Inr db
     | Some dry \<Rightarrow> (case OutboxPostTx (se_dec E) dry (sv_outbox db) (sv_supply db) (time_instant (se_now E)) inp of
         Inl e \<Rightarrow> Inl (SvOutbox e)
       | Inr ob \<Rightarrow> Inr (db\<lparr>sv_outbox := ob, sv_supply := sv_supply db + 1\<rparr>)))"

definition resolveLiabilityAcctTx :: "'a sv_db_scheme \<Rightarrow> uuid \<Rightarrow> string" where
  "resolveLiabilityAcctTx db pid = (case GetProductTx db pid of Inl _ \<Rightarrow> ''2000''
     | Inr p \<Rightarrow> depositLiabilityCode (pd_segment p) (pd_product_type p))"

definition entry_input :: "sv_env \<Rightarrow> string \<Rightarrow> string \<Rightarrow> string \<Rightarrow> post_line list \<Rightarrow> client_post_input" where
  "entry_input E m ref narr ls = \<lparr> in_tenant_id = se_tenant E, in_entry_date = Some (gt_date (se_clock E)),
     in_value_date = None, in_source_module = m, in_source_ref = ref, in_narration = narr, in_lines = ls \<rparr>"

definition PostDepositTx ::
  "sv_env \<Rightarrow> dep_txn \<Rightarrow> dep_account \<Rightarrow> string \<Rightarrow> 'a sv_db_scheme \<Rightarrow> sv_error + 'a sv_db_scheme" where
  "PostDepositTx E t a ch db = sv_post E (entry_input E ''savings.deposits'' (se_uuid E (tx_id t))
     (''Deposit '' @ dFixed (se_dec E) 2 (tx_amount t) @ '' to a/c '' @ acc_account_no a)
     [debit_line (channelCashAccount ch) (tx_amount t) ''Cash received'',
      credit_line (resolveLiabilityAcctTx db (acc_product_id a)) (tx_amount t) ''Member savings credited'']) db"

text \<open>The amount handed over is the transaction's, which is negative.\<close>

definition PostWithdrawalTx ::
  "sv_env \<Rightarrow> dep_txn \<Rightarrow> dep_account \<Rightarrow> string \<Rightarrow> 'a sv_db_scheme \<Rightarrow> sv_error + 'a sv_db_scheme" where
  "PostWithdrawalTx E t a ch db = sv_post E (entry_input E ''savings.deposits'' (se_uuid E (tx_id t))
     (''Withdrawal '' @ dFixed (se_dec E) 2 (tx_amount t) @ '' from a/c '' @ acc_account_no a)
     [debit_line (resolveLiabilityAcctTx db (acc_product_id a)) (tx_amount t) ''Member savings debited'',
      credit_line (channelCashAccount ch) (tx_amount t) ''Cash paid out'']) db"

definition PostDepositTransferTx ::
  "sv_env \<Rightarrow> dep_txn \<Rightarrow> dep_account \<Rightarrow> dep_account \<Rightarrow> 'a sv_db_scheme \<Rightarrow> sv_error + 'a sv_db_scheme" where
  "PostDepositTransferTx E t from_a to_a db =
     (if tx_amount t = 0 then Inr db
      else sv_post E (entry_input E ''savings.deposits.transfer'' (se_uuid E (tx_id t))
        (''Deposit transfer '' @ acc_account_no from_a @ arrow @ acc_account_no to_a @ dot @
          dFixed (se_dec E) 2 (tx_amount t))
        [debit_line (resolveLiabilityAcctTx db (acc_product_id from_a)) (tx_amount t)
           (''Transfer out ('' @ acc_account_no from_a @ '')''),
         credit_line (resolveLiabilityAcctTx db (acc_product_id to_a)) (tx_amount t)
           (''Transfer in ('' @ acc_account_no to_a @ '')'')]) db)"

section \<open>Executors\<close>

definition strNilIfEmpty :: "string \<Rightarrow> string option" where
  "strNilIfEmpty s = (if s = [] then None else Some s)"

definition loadProductAccount ::
  "'a sv_db_scheme \<Rightarrow> uuid \<Rightarrow> sv_error + (dep_product \<times> dep_account \<times> counterparty)" where
  "loadProductAccount db aid = (case GetDepAccountTx db aid of
     Inl e \<Rightarrow> Inl (if e = ErrNotFound then SvNotFound ''deposit account not found'' else e)
   | Inr a \<Rightarrow> bind_res (GetProductTx db (acc_product_id a)) (\<lambda>p.
       bind_res (GetByIDTx db (acc_counterparty_id a)) (\<lambda>m. Inr (p, a, m))))"

definition lookback :: "sv_env \<Rightarrow> int" where
  "lookback E = (if 0 < se_lookback E then se_lookback E else seconds 600)"

definition parse_value_date :: "string \<Rightarrow> sv_error + date option" where
  "parse_value_date s = (if s = [] then Inr None
     else case parse_date s of None \<Rightarrow> Inl (SvMsg ''value_date must be YYYY-MM-DD'') | Some d \<Rightarrow> Inr (Some d))"

definition ExecuteDepositTx ::
  "sv_env \<Rightarrow> deposit_payload \<Rightarrow> uuid \<Rightarrow> 'a sv_db_scheme \<Rightarrow> sv_error + ('a sv_db_scheme \<times> dep_txn \<times> dep_account)" where
  "ExecuteDepositTx E p maker db =
     bind_res (parse_value_date (dpl_value_date p)) (\<lambda>vd.
     bind_res (loadProductAccount db (dpl_account_id p)) (\<lambda>(prod, acct, _).
     bind_res (EvaluateDeposit prod acct (dpl_amount p)) (\<lambda>_.
     bind_res (ensure (\<not> (dpl_channel_ref p \<noteq> [] \<and> \<not> dpl_bypass_duplicate_check p \<and>
         DuplicateExistsTx E db (dpl_account_id p) (dpl_amount p) (dpl_channel_ref p) (lookback E)))
       ErrDuplicateTransaction) (\<lambda>_.
     bind_res (PostTxnTx E ((post_dep_input acct TxnDeposit (dpl_amount p) maker)
         \<lparr>pt_value_date := vd, pt_channel := Some (dpl_channel p), pt_channel_ref := strNilIfEmpty (dpl_channel_ref p),
          pt_narration := strNilIfEmpty (dpl_narration p)\<rparr>) db) (\<lambda>(db1, t).
     bind_res (GetDepAccountTx db1 (dpl_account_id p)) (\<lambda>updated. Inr (db1, t, updated)))))))"

definition ExecuteWithdrawalTx ::
  "sv_env \<Rightarrow> withdrawal_payload \<Rightarrow> uuid \<Rightarrow> 'a sv_db_scheme \<Rightarrow> sv_error + ('a sv_db_scheme \<times> dep_txn \<times> dep_account)" where
  "ExecuteWithdrawalTx E p maker db =
     bind_res (loadProductAccount db (wpl_account_id p)) (\<lambda>(prod, acct, _).
     bind_res (EvaluateWithdrawal prod acct (wpl_amount p) (se_clock E)
       (WithdrawalCountThisMonthTx db (wpl_account_id p) (se_clock E))) (\<lambda>_.
     bind_res (ensure (\<not> (IsLargeWithdrawal prod (wpl_amount p) \<and> wpl_reason p = []))
       (SvMsg ''withdrawal exceeds the product's large-withdrawal threshold; reason is required'')) (\<lambda>_.
     bind_res (PostTxnTx E ((post_dep_input acct TxnWithdrawal (wpl_amount p) maker)
         \<lparr>pt_channel := Some (wpl_channel p), pt_channel_ref := strNilIfEmpty (wpl_channel_ref p),
          pt_narration := strNilIfEmpty (wpl_narration p), pt_authorized_by := Some maker,
          pt_authorization_reason := strNilIfEmpty (wpl_reason p)\<rparr>) db) (\<lambda>(db1, t).
     let db2 = ClearWithdrawalNoticeTx (wpl_account_id p) db1 in
     bind_res (GetDepAccountTx db2 (wpl_account_id p)) (\<lambda>updated. Inr (db2, t, updated))))))"

type_synonym txn_leg = "dep_txn \<times> dep_account"

definition ExecuteDepTransferTx ::
  "sv_env \<Rightarrow> transfer_payload \<Rightarrow> uuid \<Rightarrow> 'a sv_db_scheme \<Rightarrow> sv_error + ('a sv_db_scheme \<times> txn_leg \<times> txn_leg)" where
  "ExecuteDepTransferTx E p maker db =
     bind_res (loadProductAccount db (tpl_from_account_id p)) (\<lambda>(fromProduct, fromAcct, fromMember).
     bind_res (loadProductAccount db (tpl_to_account_id p)) (\<lambda>(toProduct, toAcct, toMember).
     bind_res (ensure (cp_id fromMember = cp_id toMember)
       (SvMsg ''transfer endpoints are restricted to the same member's accounts'')) (\<lambda>_.
     bind_res (EvaluateWithdrawal fromProduct fromAcct (tpl_amount p) (se_clock E)
       (WithdrawalCountThisMonthTx db (tpl_from_account_id p) (se_clock E))) (\<lambda>_.
     bind_res (EvaluateDeposit toProduct toAcct (tpl_amount p)) (\<lambda>_.
     let narr = (if tpl_narration p = [] then ''Transfer between own deposit accounts'' else tpl_narration p) in
     bind_res (PostTxnTx E ((post_dep_input fromAcct TxnDepTransferOut (tpl_amount p) maker)
         \<lparr>pt_channel := Some ''internal'', pt_narration := Some narr, pt_counterparty_account := Some toAcct\<rparr>) db)
       (\<lambda>(db1, outTxn).
     bind_res (GetDepAccountTx db1 (tpl_from_account_id p)) (\<lambda>fromAcct'.
     bind_res (PostTxnTx E ((post_dep_input toAcct TxnDepTransferIn (tpl_amount p) maker)
         \<lparr>pt_channel := Some ''internal'', pt_narration := Some narr, pt_counterparty_account := Some fromAcct',
          pt_counterparty_txn_id := Some (tx_id outTxn)\<rparr>) db1) (\<lambda>(db2, inTxn).
     let db3 = LinkCounterpartyTxnTx (tx_id outTxn) (tx_id inTxn) db2 in
     bind_res (GetDepAccountTx db3 (tpl_to_account_id p)) (\<lambda>toAcct'.
       Inr (db3, (outTxn, fromAcct'), (inTxn, toAcct')))))))))))"

text \<open>The executor of an approved payload and the entry it queues; the recorded transaction.\<close>

definition run_payload ::
  "sv_env \<Rightarrow> payload \<Rightarrow> uuid \<Rightarrow> 'a sv_db_scheme \<Rightarrow> sv_error + ('a sv_db_scheme \<times> uuid)" where
  "run_payload E pl maker db = (case pl of
     PayDeposit p \<Rightarrow> bind_res (ExecuteDepositTx E p maker db) (\<lambda>(db1, t, a).
       bind_res (PostDepositTx E t a (dpl_channel p) db1) (\<lambda>db2. Inr (db2, tx_id t)))
   | PayWithdrawal p \<Rightarrow> bind_res (ExecuteWithdrawalTx E p maker db) (\<lambda>(db1, t, a).
       bind_res (PostWithdrawalTx E t a (wpl_channel p) db1) (\<lambda>db2. Inr (db2, tx_id t)))
   | PayTransfer p \<Rightarrow> bind_res (ExecuteDepTransferTx E p maker db) (\<lambda>(db1, (t, a), (_, b)).
       bind_res (PostDepositTransferTx E t a b db1) (\<lambda>db2. Inr (db2, tx_id t))))"

section \<open>The approval queue\<close>

fun process_kind :: "payload \<Rightarrow> string" where
  "process_kind (PayDeposit _) = ''cash_deposit''"
| "process_kind (PayWithdrawal _) = ''cash_withdrawal''"
| "process_kind (PayTransfer _) = ''cash_account_transfer''"

text \<open>With an active definition of the kind the workflow engine gets an instance, otherwise the
  legacy table a row.\<close>

definition queueApproval ::
  "sv_env \<Rightarrow> payload \<Rightarrow> uuid \<Rightarrow> 'a sv_db_scheme \<Rightarrow> 'a sv_db_scheme \<times> uuid" where
  "queueApproval E pl maker db =
     (if se_workflow E \<and> process_kind pl \<in> set (sv_wf_kinds db)
      then (db\<lparr>sv_instances := sv_instances db @ [\<lparr> wi_id = sv_supply db, wi_process_kind = process_kind pl,
              wi_payload = pl, wi_initiator = maker \<rparr>], sv_supply := sv_supply db + 1\<rparr>, sv_supply db)
      else (db\<lparr>sv_approvals := sv_approvals db @ [\<lparr> pa_id = sv_supply db, pa_status = ApprovalPending,
              pa_payload = pl, pa_maker = maker, pa_checker = None, pa_result_txn_id = None,
              pa_result_error = None \<rparr>], sv_supply := sv_supply db + 1\<rparr>, sv_supply db))"

text \<open>What a handler answers: the transactions it posted, or that somebody has to approve.\<close>

datatype outcome = Posted "uuid list" | Pending uuid

end
