(* ===== verification/DepositRequests.thy ===== *)
theory DepositRequests
  imports DepositHandlers
begin

text \<open>
  The HTTP handlers of services/savings/internal/handler/deposit.go, the legacy approvals
  (handler/pending_approvals.go, store/approvals_store.go) and the workflow engine's terminal
  callback (handler/wf_terminal_callback.go, handler/wf_callbacks). A handler is a function from the
  tables to the tables it commits; \<open>Inl\<close> is an error answer and a rollback.
\<close>

section \<open>Deposits and withdrawals\<close>

definition executeDepositInlineTx ::
  "sv_env \<Rightarrow> deposit_payload \<Rightarrow> uuid \<Rightarrow> 'a sv_db_scheme \<Rightarrow> sv_error + ('a sv_db_scheme \<times> outcome)" where
  "executeDepositInlineTx E p user db =
     bind_res (loadProductAccount db (dpl_account_id p)) (\<lambda>_.
     if tg_deposit (sv_toggles db)
     then (let (db1, i) = queueApproval E (PayDeposit p) user db in Inr (db1, Pending i))
     else bind_res (ExecuteDepositTx E p user db) (\<lambda>(db1, t, a).
       bind_res (PostDepositTx E t a (dpl_channel p) db1) (\<lambda>db2. Inr (db2, Posted [tx_id t]))))"

text \<open>
  The refusal of cash loads the account on a nil transaction, which panics before the refusal is
  written.
\<close>

definition Deposit ::
  "sv_env \<Rightarrow> uuid \<Rightarrow> deposit_payload \<Rightarrow> 'a sv_db_scheme \<Rightarrow> sv_error + ('a sv_db_scheme \<times> outcome)" where
  "Deposit E user p db =
     bind_res (ensure (0 < dpl_amount p) (SvBadRequest ''amount must be positive'')) (\<lambda>_.
     bind_res (ensure (dpl_channel p \<in> set deposit_channels) (SvBadRequest ''valid channel is required'')) (\<lambda>_.
     bind_res (ensure (dpl_channel p \<noteq> ''cash'') SvPanic) (\<lambda>_.
     bind_res (ensure (dpl_value_date p = [] \<or> parse_date (dpl_value_date p) \<noteq> None)
       (SvBadRequest ''value_date must be YYYY-MM-DD'')) (\<lambda>_.
     bind_res (ensure (user \<noteq> uuid_Nil) SvUnauthorized) (\<lambda>_.
     executeDepositInlineTx E p user db)))))"

text \<open>The handler's transaction from the account it loaded on.\<close>

definition withdraw_acct ::
  "sv_env \<Rightarrow> uuid \<Rightarrow> withdrawal_payload \<Rightarrow> dep_account \<Rightarrow> 'a sv_db_scheme \<Rightarrow> sv_error + ('a sv_db_scheme \<times> outcome)" where
  "withdraw_acct E user p acct db =
     (if acc_is_joint acct \<and> se_joint E
      then Inr (db\<lparr>sv_joint := sv_joint db @ [\<lparr> jw_id = sv_supply db, jw_account_id = acc_id acct,
                  jw_amount = wpl_amount p \<rparr>], sv_supply := sv_supply db + 1\<rparr>, Pending (sv_supply db))
      else if se_liens E \<and> acc_current_balance acct - SumActiveDepositLiensTx db (wpl_account_id p) < wpl_amount p
      then Inl (SvConflict (''Withdrawal blocked: KES '' @ dFixed (se_dec E) 2 (SumActiveDepositLiensTx db (wpl_account_id p)) @
        '' of this account is liened to loan collateral. Available: KES '' @
        dFixed (se_dec E) 2 (acc_current_balance acct - SumActiveDepositLiensTx db (wpl_account_id p)) @ ''.''))
      else if tg_withdrawal (sv_toggles db)
      then (let (db1, i) = queueApproval E (PayWithdrawal p) user db in Inr (db1, Pending i))
      else bind_res (ExecuteWithdrawalTx E p user db) (\<lambda>(db1, t, a).
        bind_res (PostWithdrawalTx E t a (wpl_channel p) db1) (\<lambda>db2. Inr (db2, Posted [tx_id t]))))"

definition withdraw_tx ::
  "sv_env \<Rightarrow> uuid \<Rightarrow> withdrawal_payload \<Rightarrow> 'a sv_db_scheme \<Rightarrow> sv_error + ('a sv_db_scheme \<times> outcome)" where
  "withdraw_tx E user p db =
     bind_res (loadProductAccount db (wpl_account_id p)) (\<lambda>(product, acct, _).
     bind_res (ensure (pd_segment product \<noteq> SegmentBOSA) ErrBOSAWithdrawForbidden) (\<lambda>_.
     bind_res (ensure (acc_status acct \<noteq> AcctDormant) (SvConflict ''Withdrawal blocked: account is dormant. File a reactivation request first.'')) (\<lambda>_.
     withdraw_acct E user p acct db)))"

definition Withdraw ::
  "sv_env \<Rightarrow> uuid \<Rightarrow> withdrawal_payload \<Rightarrow> 'a sv_db_scheme \<Rightarrow> sv_error + ('a sv_db_scheme \<times> outcome)" where
  "Withdraw E user p db =
     bind_res (ensure (0 < wpl_amount p) (SvBadRequest ''amount must be positive'')) (\<lambda>_.
     bind_res (ensure (wpl_channel p \<in> set deposit_channels) (SvBadRequest ''valid channel is required'')) (\<lambda>_.
     bind_res (ensure (wpl_channel p \<noteq> ''cash'') SvPanic) (\<lambda>_.
     withdraw_tx E user p db)))"

definition GiveWithdrawalNotice ::
  "sv_env \<Rightarrow> uuid \<Rightarrow> decimal \<Rightarrow> 'a sv_db_scheme \<Rightarrow> sv_error + 'a sv_db_scheme" where
  "GiveWithdrawalNotice E aid amount db =
     bind_res (ensure (0 < amount) (SvBadRequest ''amount must be positive'')) (\<lambda>_.
     bind_res (loadProductAccount db aid) (\<lambda>(_, acct, _).
     bind_res (ensure (amount \<le> acc_available_balance acct) ErrInsufficientBalance) (\<lambda>_.
     Inr (SetWithdrawalNoticeTx E aid amount db))))"

text \<open>An inline transfer queues no journal entry.\<close>

definition TransferBetweenOwn ::
  "sv_env \<Rightarrow> uuid \<Rightarrow> transfer_payload \<Rightarrow> 'a sv_db_scheme \<Rightarrow> sv_error + ('a sv_db_scheme \<times> outcome)" where
  "TransferBetweenOwn E user p db =
     bind_res (ensure (tpl_to_account_id p \<noteq> uuid_Nil \<and> tpl_to_account_id p \<noteq> tpl_from_account_id p)
       (SvBadRequest ''to_account_id must be a different account'')) (\<lambda>_.
     bind_res (ensure (0 < tpl_amount p) (SvBadRequest ''amount must be positive'')) (\<lambda>_.
     if tg_deposit_transfer (sv_toggles db)
     then bind_res (loadProductAccount db (tpl_from_account_id p)) (\<lambda>_.
       let (db1, i) = queueApproval E (PayTransfer p) user db in Inr (db1, Pending i))
     else bind_res (ExecuteDepTransferTx E p user db) (\<lambda>(db1, (t, _), (u, _)).
       Inr (db1, Posted [tx_id t, tx_id u]))))"

section \<open>Opening an account\<close>

record open_req =
  oq_counterparty_id :: uuid
  oq_product_id :: uuid
  oq_opening_deposit :: decimal
  oq_opening_channel :: "string option"
  oq_opening_channel_ref :: "string option"
  oq_fixed_term_months :: "int option"
  oq_goal_target_amount :: "decimal option"
  oq_goal_target_date :: "string option"
  oq_guardian :: "uuid option"
  oq_group_org_id :: "uuid option"

definition opening_term :: "dep_product \<Rightarrow> open_req \<Rightarrow> sv_error + int option" where
  "opening_term p q = (case pd_product_type p of
     ProductFixed \<Rightarrow> (case oq_fixed_term_months q of
         Some n \<Rightarrow> Inr (Some n)
       | None \<Rightarrow> (let v = the_default 0 (pd_default_term_months p) in
           if v \<le> 0 then Inl (SvBadRequest ''fixed deposit requires fixed_term_months'') else Inr (Some v)))
   | ProductJunior \<Rightarrow> (if oq_guardian q = None then Inl (SvBadRequest ''junior account requires guardian_member_id'')
       else Inr (oq_fixed_term_months q))
   | ProductGoal \<Rightarrow> (if oq_goal_target_amount q = None \<or> oq_goal_target_date q \<in> {None, Some []}
       then Inl (SvBadRequest ''goal account requires goal_target_amount and goal_target_date'')
       else Inr (oq_fixed_term_months q))
   | ProductGroup \<Rightarrow> (if oq_group_org_id q = None then Inl (SvBadRequest ''group account requires group_org_id'')
       else Inr (oq_fixed_term_months q))
   | _ \<Rightarrow> Inr (oq_fixed_term_months q))"

text \<open>The two phases: the account, then its opening deposit.\<close>

definition open_phases ::
  "sv_env \<Rightarrow> uuid \<Rightarrow> open_req \<Rightarrow> int option \<Rightarrow> 'a sv_db_scheme \<Rightarrow> sv_error + ('a sv_db_scheme \<times> dep_account \<times> outcome option)" where
  "open_phases E user q term_months db =
     (let (db1, no) = nextSeq E ''deposit_account'' ''DPA'' db;
          (db2, acct) = CreateDepAccountTx E \<lparr> op_counterparty_id = oq_counterparty_id q,
            op_product_id = oq_product_id q, op_fixed_term_months = term_months \<rparr> no db1
      in if \<not> 0 < oq_opening_deposit q then Inr (db2, acct, None)
         else bind_res (executeDepositInlineTx E \<lparr> dpl_account_id = acc_id acct, dpl_amount = oq_opening_deposit q,
             dpl_channel = the_default ''internal'' (oq_opening_channel q),
             dpl_channel_ref = the_default [] (oq_opening_channel_ref q),
             dpl_narration = ''Opening deposit'' @ dot @ no, dpl_value_date = [],
             dpl_bypass_duplicate_check = False \<rparr> user db2) (\<lambda>(db3, out). Inr (db3, acct, Some out)))"

definition open_tx ::
  "sv_env \<Rightarrow> uuid \<Rightarrow> open_req \<Rightarrow> 'a sv_db_scheme \<Rightarrow> sv_error + ('a sv_db_scheme \<times> dep_account \<times> outcome option)" where
  "open_tx E user q db =
     bind_res (GetProductTx db (oq_product_id q)) (\<lambda>product.
     bind_res (ensure (pd_is_active product) ErrProductInactive) (\<lambda>_.
     bind_res (GetByIDTx db (oq_counterparty_id q)) (\<lambda>member.
     bind_res (EligibleForProduct product ''individual'' (cp_status member)) (\<lambda>_.
     bind_res (opening_term product q) (\<lambda>term_months.
     bind_res (ensure (pd_min_opening_balance product \<le> oq_opening_deposit q) ErrBelowMinOpeningBalance) (\<lambda>_.
     bind_res (ensure (\<not> (0 < oq_opening_deposit q \<and> oq_opening_channel q = None))
       (SvBadRequest ''opening_channel is required when opening_deposit > 0'')) (\<lambda>_.
     open_phases E user q term_months db)))))))"

definition Open ::
  "sv_env \<Rightarrow> uuid \<Rightarrow> open_req \<Rightarrow> 'a sv_db_scheme \<Rightarrow> sv_error + ('a sv_db_scheme \<times> dep_account \<times> outcome option)" where
  "Open E user q db =
     bind_res (ensure (oq_counterparty_id q \<noteq> uuid_Nil \<and> oq_product_id q \<noteq> uuid_Nil)
       (SvBadRequest ''counterparty_id and product_id are required'')) (\<lambda>_.
     bind_res (ensure (\<not> (0 < oq_opening_deposit q \<and> oq_opening_channel q = Some ''cash'')) SvCashBlocked) (\<lambda>_.
     bind_res (ensure (user \<noteq> uuid_Nil) SvUnauthorized) (\<lambda>_.
     bind_res (ensure (oq_goal_target_date q \<in> {None, Some []} \<or> parse_date (the (oq_goal_target_date q)) \<noteq> None)
       (SvBadRequest ''goal_target_date must be YYYY-MM-DD'')) (\<lambda>_.
     open_tx E user q db))))"

section \<open>Reversals and adjustments\<close>

text \<open>\<open>Reverse\<close> from the row it read: the read takes no lock.\<close>

definition reverse_handler ::
  "sv_env \<Rightarrow> dep_txn \<Rightarrow> string \<Rightarrow> uuid \<Rightarrow> 'a sv_db_scheme \<Rightarrow> sv_error + ('a sv_db_scheme \<times> dep_txn)" where
  "reverse_handler E orig reason user db =
     bind_res (ensure (tx_type orig \<noteq> TxnReversal) ErrCannotReverseReversal) (\<lambda>_.
     bind_res (ensure (tx_reversed_by_txn_id orig = None) ErrAlreadyReversed) (\<lambda>_.
     bind_res (GetDepAccountTx db (tx_account_id orig)) (\<lambda>acct.
     bind_res (ensure (0 \<le> acc_current_balance acct - tx_amount orig) ErrInsufficientBalance) (\<lambda>_.
     PostTxnTx E ((post_dep_input acct TxnReversal (- tx_amount orig) user)
         \<lparr>pt_channel := Some ''internal'', pt_narration := Some (''Reversal of '' @ tx_txn_no orig @ '': '' @ reason),
          pt_reverses_txn_id := Some (tx_id orig), pt_reversal_reason := Some reason,
          pt_authorized_by := Some user, pt_authorization_reason := Some reason\<rparr>) db))))"

definition Reverse ::
  "sv_env \<Rightarrow> uuid \<Rightarrow> uuid \<Rightarrow> string \<Rightarrow> 'a sv_db_scheme \<Rightarrow> sv_error + ('a sv_db_scheme \<times> dep_txn)" where
  "Reverse E user tid reason db =
     bind_res (ensure (tid \<noteq> uuid_Nil \<and> reason \<noteq> []) (SvBadRequest ''txn_id and reason are required'')) (\<lambda>_.
     bind_res (GetTxnTx db tid) (\<lambda>orig. reverse_handler E orig reason user db))"

definition Adjust ::
  "sv_env \<Rightarrow> uuid \<Rightarrow> uuid \<Rightarrow> decimal \<Rightarrow> string \<Rightarrow> 'a sv_db_scheme \<Rightarrow> sv_error + ('a sv_db_scheme \<times> dep_txn)" where
  "Adjust E user aid amount reason db =
     bind_res (ensure (amount \<noteq> 0) (SvBadRequest ''amount must be non-zero (signed)'')) (\<lambda>_.
     bind_res (ensure (reason \<noteq> []) (SvBadRequest ''reason is required for adjustment'')) (\<lambda>_.
     bind_res (loadProductAccount db aid) (\<lambda>(_, acct, _).
     bind_res (ensure (0 \<le> acc_current_balance acct + amount) ErrInsufficientBalance) (\<lambda>_.
     PostTxnTx E ((post_dep_input acct TxnDepAdjustment amount user)
         \<lparr>pt_channel := Some ''internal'', pt_narration := Some reason, pt_authorized_by := Some user,
          pt_authorization_reason := Some reason\<rparr>) db))))"

section \<open>Legacy approvals\<close>

definition update_approval :: "uuid \<Rightarrow> (approval \<Rightarrow> approval) \<Rightarrow> 'a sv_db_scheme \<Rightarrow> 'a sv_db_scheme" where
  "update_approval i f db = db\<lparr>sv_approvals := map (\<lambda>a. if pa_id a = i then f a else a) (sv_approvals db)\<rparr>"

definition GetApprovalTx :: "'a sv_db_scheme \<Rightarrow> uuid \<Rightarrow> sv_error + approval" where
  "GetApprovalTx db i = (case find (\<lambda>a. pa_id a = i) (sv_approvals db) of
     None \<Rightarrow> Inl ErrNotFound | Some a \<Rightarrow> Inr a)"

text \<open>The three decisions write only a row that is still pending; none means no row to scan.\<close>

definition mark_decided ::
  "uuid \<Rightarrow> approval_status \<Rightarrow> uuid \<Rightarrow> uuid option \<Rightarrow> 'a sv_db_scheme \<Rightarrow> sv_error + 'a sv_db_scheme" where
  "mark_decided i st user txn db =
     (if \<exists>a\<in>set (sv_approvals db). pa_id a = i \<and> pa_status a = ApprovalPending
      then Inr (update_approval i (\<lambda>a. if pa_status a = ApprovalPending
        then a\<lparr>pa_status := st, pa_checker := Some user,
               pa_result_txn_id := (if st = ApprovalApproved then txn else pa_result_txn_id a)\<rparr> else a) db)
      else Inl (SvMsg ''no rows in result set''))"

definition MarkApprovedTx :: "uuid \<Rightarrow> uuid \<Rightarrow> uuid option \<Rightarrow> 'a sv_db_scheme \<Rightarrow> sv_error + 'a sv_db_scheme" where
  "MarkApprovedTx i user txn = mark_decided i ApprovalApproved user txn"

definition MarkDeclinedTx :: "uuid \<Rightarrow> uuid \<Rightarrow> 'a sv_db_scheme \<Rightarrow> sv_error + 'a sv_db_scheme" where
  "MarkDeclinedTx i user = mark_decided i ApprovalDeclined user None"

definition MarkCancelledTx :: "uuid \<Rightarrow> uuid \<Rightarrow> 'a sv_db_scheme \<Rightarrow> sv_error + 'a sv_db_scheme" where
  "MarkCancelledTx i user = mark_decided i ApprovalCancelled user None"

definition MarkExecErrorTx :: "uuid \<Rightarrow> string \<Rightarrow> 'a sv_db_scheme \<Rightarrow> 'a sv_db_scheme" where
  "MarkExecErrorTx i msg = update_approval i
     (\<lambda>a. a\<lparr>pa_status := ApprovalExecError, pa_result_error := Some msg\<rparr>)"

text \<open>A transaction's body leaves tables and a result; an error result discards the tables.\<close>

definition WithTenantTx ::
  "('a sv_db_scheme \<Rightarrow> 'a sv_db_scheme \<times> (sv_error + 'b)) \<Rightarrow> 'a sv_db_scheme \<Rightarrow> sv_error + ('a sv_db_scheme \<times> 'b)" where
  "WithTenantTx body db = (case body db of (_, Inl e) \<Rightarrow> Inl e | (db', Inr x) \<Rightarrow> Inr (db', x))"

text \<open>The body of \<open>Approve\<close> from the row \<open>pa\<close> it read. An executor that failed has changed
  nothing the body keeps, since PostgreSQL refuses to go on in a failed transaction or the error is
  returned.\<close>

definition approve_body ::
  "sv_env \<Rightarrow> (sv_error \<Rightarrow> string) \<Rightarrow> approval \<Rightarrow> uuid \<Rightarrow> 'a sv_db_scheme \<Rightarrow> 'a sv_db_scheme \<times> (sv_error + uuid)" where
  "approve_body E show_err pa checker db =
     (if pa_status pa \<noteq> ApprovalPending then (db, Inl ErrApprovalNotPending)
      else if pa_maker pa = checker \<and> \<not> tg_allow_self (sv_toggles db) then (db, Inl ErrApprovalSelfDenied)
      else case run_payload E (pa_payload pa) (pa_maker pa) db of
          Inl e \<Rightarrow> (MarkExecErrorTx (pa_id pa) (show_err e) db, Inl e)
        | Inr (db1, txn) \<Rightarrow>
            (case MarkApprovedTx (pa_id pa) checker (Some txn) db1 of
               Inl e \<Rightarrow> (db1, Inl e) | Inr db2 \<Rightarrow> (db2, Inr txn)))"

definition approve_read ::
  "sv_env \<Rightarrow> (sv_error \<Rightarrow> string) \<Rightarrow> approval \<Rightarrow> uuid \<Rightarrow> 'a sv_db_scheme \<Rightarrow> sv_error + ('a sv_db_scheme \<times> uuid)" where
  "approve_read E show_err pa checker db = WithTenantTx (approve_body E show_err pa checker) db"

definition decline_read :: "approval \<Rightarrow> uuid \<Rightarrow> string \<Rightarrow> 'a sv_db_scheme \<Rightarrow> sv_error + 'a sv_db_scheme" where
  "decline_read pa checker note db =
     bind_res (ensure (note \<noteq> []) (SvBadRequest ''a note is required to decline'')) (\<lambda>_.
     bind_res (ensure (pa_status pa = ApprovalPending) ErrApprovalNotPending) (\<lambda>_.
     MarkDeclinedTx (pa_id pa) checker db))"

definition cancel_read :: "approval \<Rightarrow> uuid \<Rightarrow> 'a sv_db_scheme \<Rightarrow> sv_error + 'a sv_db_scheme" where
  "cancel_read pa user db =
     bind_res (ensure (pa_status pa = ApprovalPending) ErrApprovalNotPending) (\<lambda>_.
     bind_res (ensure (pa_maker pa = user) (SvForbidden ''only the maker can cancel a pending approval'')) (\<lambda>_.
     MarkCancelledTx (pa_id pa) user db))"

text \<open>\<open>ResolveFromWorkflow\<close> from the row it read: a decided row is acknowledged as it is.\<close>

definition resolve_read ::
  "sv_env \<Rightarrow> string \<Rightarrow> approval \<Rightarrow> 'a sv_db_scheme \<Rightarrow> sv_error + 'a sv_db_scheme" where
  "resolve_read E event pa db =
     (if pa_status pa \<noteq> ApprovalPending then Inr db
      else if event = ''approved''
      then bind_res (run_payload E (pa_payload pa) (pa_maker pa) db) (\<lambda>(db1, txn).
        MarkApprovedTx (pa_id pa) (pa_maker pa) (Some txn) db1)
      else if event = ''rejected'' \<or> event = ''cancelled'' then MarkDeclinedTx (pa_id pa) (pa_maker pa) db
      else Inl (SvBadRequest (''unsupported event: '' @ event)))"

section \<open>The terminal callback\<close>

text \<open>
  What the callbacks of the three cash kinds do with an instance; the instance comes from the request
  body and no table records that it was handled. The context the engine sends back is the one
  \<open>queueApproval\<close> wrote, so its payload is of the instance's kind; any other is taken as
  undecodable. The registry also holds the kinds of other components, which the tables here do not
  concern: they count as not registered.
\<close>

definition cash_callback ::
  "sv_env \<Rightarrow> string \<Rightarrow> uuid option \<Rightarrow> payload \<Rightarrow> 'a sv_db_scheme \<Rightarrow> sv_error + 'a sv_db_scheme" where
  "cash_callback E status initiator pl db =
     (if status \<noteq> ''approved'' then Inr db
      else case initiator of
          None \<Rightarrow> Inl (SvMsg ''instance.initiator_id is required for executor maker attribution'')
        | Some maker \<Rightarrow>
            if maker = uuid_Nil then Inl (SvMsg ''instance.initiator_id is required for executor maker attribution'')
            else bind_res (run_payload E pl maker db) (\<lambda>(db1, _). Inr db1))"

definition Handle ::
  "sv_env \<Rightarrow> bool \<Rightarrow> string \<Rightarrow> wf_row \<Rightarrow> 'a sv_db_scheme \<Rightarrow> sv_error + 'a sv_db_scheme" where
  "Handle E trusted status inst db =
     bind_res (ensure trusted SvUnauthorized) (\<lambda>_.
     bind_res (ensure (wi_process_kind inst \<noteq> [])
       (SvBadRequest ''instance.id, instance.tenant_id, instance.process_kind are required'')) (\<lambda>_.
     bind_res (ensure (wi_process_kind inst \<in> {''cash_deposit'', ''cash_withdrawal'', ''cash_account_transfer''})
       (SvNotFound ''no callback registered for process_kind'')) (\<lambda>_.
     bind_res (ensure (wi_process_kind inst = process_kind (wi_payload inst))
       (SvMsg ''decode context'')) (\<lambda>_.
     cash_callback E status (Some (wi_initiator inst)) (wi_payload inst) db))))"

text \<open>The Collection Desk's void of a posted deposit line, from the row it read.\<close>

definition ExecuteDepositReverseTx ::
  "sv_env \<Rightarrow> uuid \<Rightarrow> string \<Rightarrow> uuid \<Rightarrow> 'a sv_db_scheme \<Rightarrow> sv_error + ('a sv_db_scheme \<times> dep_txn \<times> dep_account)" where
  "ExecuteDepositReverseTx E tid reason maker db =
     bind_res (ReverseDepositTx E tid reason maker db) (\<lambda>(db1, rv).
     bind_res (GetDepAccountTx db1 (tx_account_id rv)) (\<lambda>a. Inr (db1, rv, a)))"

end
