(* ===== verification/DepositSystem.thy ===== *)
theory DepositSystem
  imports DepositRequests
begin

text \<open>
  The deposit accounts under every sequence of requests. A transaction is one step, with two
  exceptions the code leaves open: a reversal and a decision on an approval act on a row they read
  without a lock, which may be any row seen earlier (the sets \<open>T\<close> and \<open>A\<close>). The engine
  may deliver the callback of an instance any number of times. \<open>cents\<close> says that requests carry
  whole cents.
\<close>

fun payload_amount :: "payload \<Rightarrow> decimal" where
  "payload_amount (PayDeposit p) = dpl_amount p"
| "payload_amount (PayWithdrawal p) = wpl_amount p"
| "payload_amount (PayTransfer p) = tpl_amount p"

text \<open>What the rest of the service may do to the tables the requests only read.\<close>

definition settings_change :: "'a sv_db_scheme \<Rightarrow> 'a sv_db_scheme \<Rightarrow> bool" where
  "settings_change db db' \<longleftrightarrow> (\<exists>ps ls bs cs tg ks. db' = db\<lparr>sv_products := ps, sv_liens := ls, sv_bosa_liens := bs,
     sv_counterparties := cs, sv_toggles := tg, sv_wf_kinds := ks\<rparr>)"

inductive dep_write :: "bool \<Rightarrow> dep_txn set \<Rightarrow> approval set \<Rightarrow> sv_env \<Rightarrow> 'a sv_db_scheme \<Rightarrow> 'a sv_db_scheme \<Rightarrow> bool"
  for cents T A E db where
  w_open: "Open E u q db = Inr (db', r) \<Longrightarrow> cents \<longrightarrow> scaled 2 (oq_opening_deposit q) \<Longrightarrow> dep_write cents T A E db db'"
| w_deposit: "Deposit E u p db = Inr (db', r) \<Longrightarrow> cents \<longrightarrow> scaled 2 (dpl_amount p) \<Longrightarrow> dep_write cents T A E db db'"
| w_withdraw: "Withdraw E u wp db = Inr (db', r) \<Longrightarrow> cents \<longrightarrow> scaled 2 (wpl_amount wp) \<Longrightarrow> dep_write cents T A E db db'"
| w_notice: "GiveWithdrawalNotice E aid x db = Inr db' \<Longrightarrow> dep_write cents T A E db db'"
| w_transfer: "TransferBetweenOwn E u tp db = Inr (db', r) \<Longrightarrow> cents \<longrightarrow> scaled 2 (tpl_amount tp) \<Longrightarrow>
    dep_write cents T A E db db'"
| w_reverse: "orig \<in> T \<Longrightarrow> reverse_handler E orig reason u db = Inr (db', t) \<Longrightarrow> dep_write cents T A E db db'"
| w_void: "orig \<in> T \<Longrightarrow> reverse_read E orig reason u db = Inr (db', t) \<Longrightarrow> dep_write cents T A E db db'"
| w_adjust: "Adjust E u aid x reason db = Inr (db', t) \<Longrightarrow> cents \<longrightarrow> scaled 2 x \<Longrightarrow> dep_write cents T A E db db'"
| w_approve: "pa \<in> A \<Longrightarrow> approve_read E sh pa u db = Inr (db', txn) \<Longrightarrow> dep_write cents T A E db db'"
| w_decline: "pa \<in> A \<Longrightarrow> decline_read pa u note db = Inr db' \<Longrightarrow> dep_write cents T A E db db'"
| w_cancel: "pa \<in> A \<Longrightarrow> cancel_read pa u db = Inr db' \<Longrightarrow> dep_write cents T A E db db'"
| w_resolve: "pa \<in> A \<Longrightarrow> resolve_read E event pa db = Inr db' \<Longrightarrow> dep_write cents T A E db db'"
| w_callback: "inst \<in> set (sv_instances db) \<Longrightarrow> Handle E True status inst db = Inr db' \<Longrightarrow> dep_write cents T A E db db'"
| w_snapshot: "dep_write cents T A E db (SnapshotForDateTx E d db)"
| w_status: "dep_write cents T A E db (SetStatusTx E aid st cl db)"
| w_settings: "settings_change db db' \<Longrightarrow> dep_write cents T A E db db'"

text \<open>The rows seen so far grow by what the tables hold.\<close>

type_synonym 'a dep_sys = "'a sv_db_scheme \<times> dep_txn set \<times> approval set"

inductive dep_step :: "bool \<Rightarrow> 'a dep_sys \<Rightarrow> 'a dep_sys \<Rightarrow> bool" for cents where
  "sv_env_ok E \<Longrightarrow> dep_write cents T A E db db' \<Longrightarrow>
    dep_step cents (db, T, A) (db', T \<union> set (sv_txns db'), A \<union> set (sv_approvals db'))"

inductive_cases dep_stepE: "dep_step cents s s'"

definition dep_start :: "'a dep_sys \<Rightarrow> bool" where
  "dep_start s \<longleftrightarrow> (case s of (db, T, A) \<Rightarrow> sv_accounts db = [] \<and> sv_txns db = [] \<and> sv_approvals db = [] \<and>
     sv_instances db = [] \<and> T = {} \<and> A = {})"

inductive dep_reach :: "bool \<Rightarrow> 'a dep_sys \<Rightarrow> bool" for cents where
  reach_start: "dep_start s \<Longrightarrow> dep_reach cents s"
| reach_step: "dep_reach cents s \<Longrightarrow> dep_step cents s s' \<Longrightarrow> dep_reach cents s'"

section \<open>The invariant\<close>

definition whole :: "bool \<Rightarrow> payload \<Rightarrow> bool" where
  "whole cents pl \<longleftrightarrow> (cents \<longrightarrow> scaled 2 (payload_amount pl))"

definition queue_ok :: "bool \<Rightarrow> 'a sv_db_scheme \<Rightarrow> bool" where
  "queue_ok cents db \<longleftrightarrow> (\<forall>a\<in>set (sv_approvals db). whole cents (pa_payload a)) \<and>
     (\<forall>i\<in>set (sv_instances db). whole cents (wi_payload i)) \<and>
     distinct (map pa_id (sv_approvals db)) \<and> (\<forall>a\<in>set (sv_approvals db). pa_id a < sv_supply db)"

definition dep_inv :: "bool \<Rightarrow> 'a dep_sys \<Rightarrow> bool" where
  "dep_inv cents s \<longleftrightarrow> (case s of (db, T, A) \<Rightarrow> ledger_ok cents db \<and> queue_ok cents db \<and> (\<forall>t\<in>T. txn_ok t) \<and>
     (\<forall>a\<in>A. whole cents (pa_payload a)))"

text \<open>Posting entries touches the queue of entries only.\<close>

lemma sv_post_same:
  assumes "sv_post E inp db = Inr db'"
  shows "\<exists>ob n. db' = db\<lparr>sv_outbox := ob, sv_supply := sv_supply db + n\<rparr>"
proof (cases "se_posting E")
  case None
  then have "db' = db\<lparr>sv_outbox := sv_outbox db, sv_supply := sv_supply db + 0\<rparr>" using assms by (simp add: sv_post_def)
  then show ?thesis by blast
next
  case (Some dry)
  then have "\<exists>ob. db' = db\<lparr>sv_outbox := ob, sv_supply := sv_supply db + 1\<rparr>"
    using assms by (auto simp: sv_post_def split: sum.splits)
  then show ?thesis by blast
qed

lemma entry_same:
  "PostDepositTx E t a ch db = Inr db' \<Longrightarrow> \<exists>ob n. db' = db\<lparr>sv_outbox := ob, sv_supply := sv_supply db + n\<rparr>"
  "PostWithdrawalTx E t a ch db = Inr db' \<Longrightarrow> \<exists>ob n. db' = db\<lparr>sv_outbox := ob, sv_supply := sv_supply db + n\<rparr>"
  "PostDepositTransferTx E t a b db = Inr db' \<Longrightarrow> \<exists>ob n. db' = db\<lparr>sv_outbox := ob, sv_supply := sv_supply db + n\<rparr>"
proof -
  show "PostDepositTx E t a ch db = Inr db' \<Longrightarrow> \<exists>ob n. db' = db\<lparr>sv_outbox := ob, sv_supply := sv_supply db + n\<rparr>"
    unfolding PostDepositTx_def by (rule sv_post_same)
  show "PostWithdrawalTx E t a ch db = Inr db' \<Longrightarrow> \<exists>ob n. db' = db\<lparr>sv_outbox := ob, sv_supply := sv_supply db + n\<rparr>"
    unfolding PostWithdrawalTx_def by (rule sv_post_same)
  assume p: "PostDepositTransferTx E t a b db = Inr db'"
  show "\<exists>ob n. db' = db\<lparr>sv_outbox := ob, sv_supply := sv_supply db + n\<rparr>"
  proof (cases "tx_amount t = 0")
    case True
    with p have "db' = db\<lparr>sv_outbox := sv_outbox db, sv_supply := sv_supply db + 0\<rparr>"
      by (simp add: PostDepositTransferTx_def)
    then show ?thesis by blast
  next
    case False
    with p show ?thesis unfolding PostDepositTransferTx_def by (simp add: sv_post_same)
  qed
qed

section \<open>What the executors do\<close>

lemma GetDepAccountTx_Inr:
  "GetDepAccountTx db aid = Inr a \<Longrightarrow> a \<in> set (sv_accounts db) \<and> acc_id a = aid"
  by (auto simp: GetDepAccountTx_def find_Some_iff split: option.splits)

lemma loadProductAccount_Inr:
  "loadProductAccount db aid = Inr (p, a, m) \<Longrightarrow> GetDepAccountTx db aid = Inr a \<and>
     GetProductTx db (acc_product_id a) = Inr p \<and> GetByIDTx db (acc_counterparty_id a) = Inr m"
  by (auto simp: loadProductAccount_def split: sum.splits elim!: bind_resE)

text \<open>A deposit or withdrawal is one post of the account it loaded, once the rules hold.\<close>

lemma ExecuteDepositTx_E:
  assumes "ExecuteDepositTx E p maker db = Inr (db', t, a)"
  obtains prod acct m inp where
    "loadProductAccount db (dpl_account_id p) = Inr (prod, acct, m)"
    "EvaluateDeposit prod acct (dpl_amount p) = Inr ()"
    "dpl_channel_ref p = [] \<or> dpl_bypass_duplicate_check p \<or>
       \<not> DuplicateExistsTx E db (dpl_account_id p) (dpl_amount p) (dpl_channel_ref p) (lookback E)"
    "PostTxnTx E inp db = Inr (db', t)" "pt_account inp = Some acct" "pt_type inp = TxnDeposit"
    "pt_amount inp = dpl_amount p" "pt_reverses_txn_id inp = None" "pt_channel_ref inp = strNilIfEmpty (dpl_channel_ref p)"
    "GetDepAccountTx db' (dpl_account_id p) = Inr a"
proof -
  from assms obtain prod acct m inp where h:
    "loadProductAccount db (dpl_account_id p) = Inr (prod, acct, m)"
    "EvaluateDeposit prod acct (dpl_amount p) = Inr ()"
    "\<not> (dpl_channel_ref p \<noteq> [] \<and> \<not> dpl_bypass_duplicate_check p \<and>
       DuplicateExistsTx E db (dpl_account_id p) (dpl_amount p) (dpl_channel_ref p) (lookback E))"
    "PostTxnTx E inp db = Inr (db', t)" "pt_account inp = Some acct" "pt_type inp = TxnDeposit"
    "pt_amount inp = dpl_amount p" "pt_reverses_txn_id inp = None" "pt_channel_ref inp = strNilIfEmpty (dpl_channel_ref p)"
    "GetDepAccountTx db' (dpl_account_id p) = Inr a"
    unfolding ExecuteDepositTx_def bind_ensure_Inr
    by (auto elim!: bind_resE simp: post_dep_input_def bind_ensure_Inr)
  then show thesis by (intro that) auto
qed

lemma ExecuteWithdrawalTx_E:
  assumes "ExecuteWithdrawalTx E p maker db = Inr (db', t, a)"
  obtains prod acct m inp db1 where
    "loadProductAccount db (wpl_account_id p) = Inr (prod, acct, m)"
    "EvaluateWithdrawal prod acct (wpl_amount p) (se_clock E)
       (WithdrawalCountThisMonthTx db (wpl_account_id p) (se_clock E)) = Inr ()"
    "IsLargeWithdrawal prod (wpl_amount p) \<Longrightarrow> wpl_reason p \<noteq> []"
    "PostTxnTx E inp db = Inr (db1, t)" "pt_account inp = Some acct" "pt_type inp = TxnWithdrawal"
    "pt_amount inp = wpl_amount p" "pt_reverses_txn_id inp = None"
    "db' = ClearWithdrawalNoticeTx (wpl_account_id p) db1" "GetDepAccountTx db' (wpl_account_id p) = Inr a"
proof -
  from assms obtain prod acct m inp db1 where h:
    "loadProductAccount db (wpl_account_id p) = Inr (prod, acct, m)"
    "EvaluateWithdrawal prod acct (wpl_amount p) (se_clock E)
       (WithdrawalCountThisMonthTx db (wpl_account_id p) (se_clock E)) = Inr ()"
    "IsLargeWithdrawal prod (wpl_amount p) \<longrightarrow> wpl_reason p \<noteq> []"
    "PostTxnTx E inp db = Inr (db1, t)" "pt_account inp = Some acct" "pt_type inp = TxnWithdrawal"
    "pt_amount inp = wpl_amount p" "pt_reverses_txn_id inp = None"
    "db' = ClearWithdrawalNoticeTx (wpl_account_id p) db1" "GetDepAccountTx db' (wpl_account_id p) = Inr a"
    unfolding ExecuteWithdrawalTx_def Let_def
    by (auto elim!: bind_resE simp: post_dep_input_def bind_ensure_Inr)
  then show thesis by (intro that) auto
qed

lemma ExecuteDepTransferTx_E:
  assumes "ExecuteDepTransferTx E p maker db = Inr (db', (t, a), (u, b))"
  obtains prod acct m prod' acct' m' inp inp' db1 db2 where
    "loadProductAccount db (tpl_from_account_id p) = Inr (prod, acct, m)"
    "loadProductAccount db (tpl_to_account_id p) = Inr (prod', acct', m')"
    "cp_id m = cp_id m'"
    "EvaluateWithdrawal prod acct (tpl_amount p) (se_clock E)
       (WithdrawalCountThisMonthTx db (tpl_from_account_id p) (se_clock E)) = Inr ()"
    "EvaluateDeposit prod' acct' (tpl_amount p) = Inr ()"
    "PostTxnTx E inp db = Inr (db1, t)" "pt_account inp = Some acct" "pt_type inp = TxnDepTransferOut"
    "pt_amount inp = tpl_amount p" "pt_reverses_txn_id inp = None"
    "PostTxnTx E inp' db1 = Inr (db2, u)" "pt_account inp' = Some acct'" "pt_type inp' = TxnDepTransferIn"
    "pt_amount inp' = tpl_amount p" "pt_reverses_txn_id inp' = None"
    "db' = LinkCounterpartyTxnTx (tx_id t) (tx_id u) db2"
proof -
  from assms obtain prod acct m prod' acct' m' inp inp' db1 db2 where h:
    "loadProductAccount db (tpl_from_account_id p) = Inr (prod, acct, m)"
    "loadProductAccount db (tpl_to_account_id p) = Inr (prod', acct', m')"
    "cp_id m = cp_id m'"
    "EvaluateWithdrawal prod acct (tpl_amount p) (se_clock E)
       (WithdrawalCountThisMonthTx db (tpl_from_account_id p) (se_clock E)) = Inr ()"
    "EvaluateDeposit prod' acct' (tpl_amount p) = Inr ()"
    "PostTxnTx E inp db = Inr (db1, t)" "pt_account inp = Some acct" "pt_type inp = TxnDepTransferOut"
    "pt_amount inp = tpl_amount p" "pt_reverses_txn_id inp = None"
    "PostTxnTx E inp' db1 = Inr (db2, u)" "pt_account inp' = Some acct'" "pt_type inp' = TxnDepTransferIn"
    "pt_amount inp' = tpl_amount p" "pt_reverses_txn_id inp' = None"
    "db' = LinkCounterpartyTxnTx (tx_id t) (tx_id u) db2"
    unfolding ExecuteDepTransferTx_def Let_def
    by (auto elim!: bind_resE simp: post_dep_input_def bind_ensure_Inr)
  then show thesis by (rule that)
qed

section \<open>Preservation\<close>

definition same_queue :: "'a sv_db_scheme \<Rightarrow> 'a sv_db_scheme \<Rightarrow> bool" where
  "same_queue db db' \<longleftrightarrow> sv_approvals db' = sv_approvals db \<and> sv_instances db' = sv_instances db \<and>
     sv_supply db \<le> sv_supply db'"

lemma same_queue_refl [simp]: "same_queue db db"
  by (simp add: same_queue_def)

lemma same_queue_trans: "same_queue db db1 \<Longrightarrow> same_queue db1 db2 \<Longrightarrow> same_queue db db2"
  by (simp add: same_queue_def)

lemma same_queue_updates [simp]:
  "same_queue db (update_acct aid f db)"
  "same_queue db (update_txn tid g db)"
  "same_queue db (ClearWithdrawalNoticeTx aid db)"
  "same_queue db (SetWithdrawalNoticeTx E aid x db)"
  "same_queue db (SetStatusTx E aid st cl db)"
  "same_queue db (LinkCounterpartyTxnTx tid cid db)"
  by (simp_all add: same_queue_def update_acct_def update_txn_def ClearWithdrawalNoticeTx_def
      SetWithdrawalNoticeTx_def SetStatusTx_def LinkCounterpartyTxnTx_def)

lemma snapshot_same_queue: "same_queue db (SnapshotForDateTx E d db)"
proof -
  have "same_queue db' (fold (\<lambda>a. upsert_daily E (h a)) as db')" for h as and db' :: "'a sv_db_scheme"
  proof (induction as arbitrary: db')
    case (Cons a as)
    have "same_queue db' (upsert_daily E (h a) db')" by (simp add: upsert_daily_eq same_queue_def)
    with Cons show ?case by (auto intro: same_queue_trans)
  qed simp
  then show ?thesis by (simp add: SnapshotForDateTx_def)
qed

lemma post_same_queue: "PostTxnTx E inp db = Inr (db', t) \<Longrightarrow> same_queue db db'"
  by (erule PostTxnTx_E) (simp add: same_queue_def)

text \<open>Decided approvals are never touched.\<close>

definition decided_kept :: "'a sv_db_scheme \<Rightarrow> 'a sv_db_scheme \<Rightarrow> bool" where
  "decided_kept db db' \<longleftrightarrow> (\<forall>a\<in>set (sv_approvals db). pa_status a \<noteq> ApprovalPending \<longrightarrow> a \<in> set (sv_approvals db'))"

lemma decided_kept_same: "sv_approvals db' = sv_approvals db \<Longrightarrow> decided_kept db db'"
  by (simp add: decided_kept_def)

lemma decided_kept_trans: "decided_kept db db1 \<Longrightarrow> decided_kept db1 db2 \<Longrightarrow> decided_kept db db2"
  by (simp add: decided_kept_def)

text \<open>A step that keeps the ledger's invariant and the queue, and does not shrink the supply.\<close>

definition ledger_move :: "bool \<Rightarrow> 'a sv_db_scheme \<Rightarrow> 'a sv_db_scheme \<Rightarrow> bool" where
  "ledger_move cents db db' \<longleftrightarrow> same_queue db db' \<and> (ledger_ok cents db \<longrightarrow> ledger_ok cents db')"

lemma ledger_move_trans: "ledger_move cents db db1 \<Longrightarrow> ledger_move cents db1 db2 \<Longrightarrow> ledger_move cents db db2"
  by (auto simp: ledger_move_def intro: same_queue_trans)

lemma post_move:
  "PostTxnTx E inp db = Inr (db', t) \<Longrightarrow> sv_env_ok E \<Longrightarrow> cents \<longrightarrow> scaled 2 (pt_amount inp) \<Longrightarrow> ledger_move cents db db'"
  by (auto simp: ledger_move_def intro: post_same_queue post_ledger_ok)

lemma entry_move:
  assumes "\<exists>ob n. db' = db\<lparr>sv_outbox := ob, sv_supply := sv_supply db + n\<rparr>"
  shows "ledger_move cents db db'"
proof -
  from assms obtain ob n where db': "db' = db\<lparr>sv_outbox := ob, sv_supply := sv_supply db + n\<rparr>" by blast
  have "ledger_ok cents db \<Longrightarrow> ledger_ok cents db'" by (erule ledger_ok_same) (simp_all add: db')
  then show ?thesis by (simp add: ledger_move_def same_queue_def db')
qed

lemmas entry_moves = entry_same [THEN entry_move]

lemma executors_move:
  assumes E: "sv_env_ok E"
  shows "ExecuteDepositTx E dp maker db = Inr (db', t, a) \<Longrightarrow> cents \<longrightarrow> scaled 2 (dpl_amount dp) \<Longrightarrow>
      ledger_move cents db db'"
    and "ExecuteWithdrawalTx E wp maker db = Inr (db', t, a) \<Longrightarrow> cents \<longrightarrow> scaled 2 (wpl_amount wp) \<Longrightarrow>
      ledger_move cents db db'"
    and "ExecuteDepTransferTx E tp maker db = Inr (db', (t, a), (u, b)) \<Longrightarrow> cents \<longrightarrow> scaled 2 (tpl_amount tp) \<Longrightarrow>
      ledger_move cents db db'"
proof -
  show "ExecuteDepositTx E dp maker db = Inr (db', t, a) \<Longrightarrow> cents \<longrightarrow> scaled 2 (dpl_amount dp) \<Longrightarrow> ledger_move cents db db'"
    by (erule ExecuteDepositTx_E) (simp add: post_move [OF _ E])
  show "ExecuteWithdrawalTx E wp maker db = Inr (db', t, a) \<Longrightarrow> cents \<longrightarrow> scaled 2 (wpl_amount wp) \<Longrightarrow> ledger_move cents db db'"
    by (erule ExecuteWithdrawalTx_E, rule ledger_move_trans, erule post_move [OF _ E])
      (simp_all add: ledger_move_def notice_ledger_ok)
  show "ExecuteDepTransferTx E tp maker db = Inr (db', (t, a), (u, b)) \<Longrightarrow> cents \<longrightarrow> scaled 2 (tpl_amount tp) \<Longrightarrow> ledger_move cents db db'"
    by (erule ExecuteDepTransferTx_E, rule ledger_move_trans, erule post_move [OF _ E], simp,
        rule ledger_move_trans, erule post_move [OF _ E])
      (simp_all add: ledger_move_def notice_ledger_ok)
qed

lemma run_payload_move:
  assumes "run_payload E pl maker db = Inr (db', txn)" "sv_env_ok E" "whole cents pl"
  shows "ledger_move cents db db'"
proof (cases pl)
  case (PayDeposit p)
  with assms obtain db1 t a where "ExecuteDepositTx E p maker db = Inr (db1, t, a)"
    "PostDepositTx E t a (dpl_channel p) db1 = Inr db'" by (auto simp: run_payload_def elim!: bind_resE)
  with assms PayDeposit show ?thesis
    by (intro ledger_move_trans [OF executors_move(1) entry_moves(1)]) (simp_all add: whole_def)
next
  case (PayWithdrawal p)
  with assms obtain db1 t a where "ExecuteWithdrawalTx E p maker db = Inr (db1, t, a)"
    "PostWithdrawalTx E t a (wpl_channel p) db1 = Inr db'" by (auto simp: run_payload_def elim!: bind_resE)
  with assms PayWithdrawal show ?thesis
    by (intro ledger_move_trans [OF executors_move(2) entry_moves(2)]) (simp_all add: whole_def)
next
  case (PayTransfer p)
  with assms obtain db1 t a u b where "ExecuteDepTransferTx E p maker db = Inr (db1, (t, a), (u, b))"
    "PostDepositTransferTx E t a b db1 = Inr db'" by (auto simp: run_payload_def elim!: bind_resE)
  with assms PayTransfer show ?thesis
    by (intro ledger_move_trans [OF executors_move(3) entry_moves(3)]) (simp_all add: whole_def)
qed

lemma queueApproval_ok:
  assumes "queueApproval E pl maker db = (db', i)" "whole cents pl" "ledger_ok cents db" "queue_ok cents db"
  shows "ledger_ok cents db' \<and> queue_ok cents db' \<and> decided_kept db db'"
proof -
  have "sv_accounts db' = sv_accounts db" "sv_txns db' = sv_txns db" "sv_supply db \<le> sv_supply db'"
    using assms(1) by (auto simp: queueApproval_def split: if_splits)
  with assms(3) have "ledger_ok cents db'" by (rule ledger_ok_same)
  moreover have "queue_ok cents db'"
    using assms(1,2,4) by (force simp: queueApproval_def queue_ok_def less_Suc_eq split: if_splits)
  moreover have "decided_kept db db'"
    using assms(1) by (auto simp: queueApproval_def decided_kept_def split: if_splits)
  ultimately show ?thesis by simp
qed

lemma move_ok:
  "ledger_move cents db db' \<Longrightarrow> ledger_ok cents db \<Longrightarrow> queue_ok cents db \<Longrightarrow> ledger_ok cents db' \<and> queue_ok cents db' \<and> decided_kept db db'"
  by (auto simp: ledger_move_def same_queue_def queue_ok_def decided_kept_same intro: less_le_trans)

text \<open>The whole handlers.\<close>

lemma inline_ok:
  assumes "executeDepositInlineTx E p user db = Inr (db', out)" "sv_env_ok E" "cents \<longrightarrow> scaled 2 (dpl_amount p)"
    and "ledger_ok cents db" "queue_ok cents db"
  shows "ledger_ok cents db' \<and> queue_ok cents db' \<and> decided_kept db db'"
proof (cases "tg_deposit (sv_toggles db)")
  case True
  with assms(1) obtain i where "queueApproval E (PayDeposit p) user db = (db', i)"
    by (auto simp: executeDepositInlineTx_def elim!: bind_resE split: prod.splits)
  then show ?thesis by (rule queueApproval_ok [OF _ _ assms(4,5)]) (use assms(3) in \<open>simp add: whole_def\<close>)
next
  case False
  with assms(1) obtain db1 t a where "ExecuteDepositTx E p user db = Inr (db1, t, a)"
    "PostDepositTx E t a (dpl_channel p) db1 = Inr db'"
    by (auto simp: executeDepositInlineTx_def elim!: bind_resE)
  then have "ledger_move cents db db'" using assms(2,3)
    by (intro ledger_move_trans [OF executors_move(1) entry_moves(1)]) simp_all
  then show ?thesis using assms(4,5) by (rule move_ok)
qed

lemma withdraw_ok:
  assumes "Withdraw E user p db = Inr (db', out)" "sv_env_ok E" "cents \<longrightarrow> scaled 2 (wpl_amount p)"
    and "ledger_ok cents db" "queue_ok cents db"
  shows "ledger_ok cents db' \<and> queue_ok cents db' \<and> decided_kept db db'"
proof -
  from assms(1) have "withdraw_tx E user p db = Inr (db', out)" by (simp add: Withdraw_def bind_ensure_Inr)
  then obtain acct where rest: "withdraw_acct E user p acct db = Inr (db', out)"
    by (auto simp: withdraw_tx_def bind_ensure_Inr elim!: bind_resE)
  consider (joint) j n where "db' = db\<lparr>sv_joint := j, sv_supply := sv_supply db + n\<rparr>"
    | (queued) i where "queueApproval E (PayWithdrawal p) user db = (db', i)"
    | (posted) db1 t a where "ExecuteWithdrawalTx E p user db = Inr (db1, t, a)"
        "PostWithdrawalTx E t a (wpl_channel p) db1 = Inr db'"
  proof (cases "acc_is_joint acct \<and> se_joint E")
    case True
    with rest have "db' = db\<lparr>sv_joint := sv_joint db @ [\<lparr> jw_id = sv_supply db, jw_account_id = acc_id acct,
        jw_amount = wpl_amount p \<rparr>], sv_supply := sv_supply db + 1\<rparr>" by (simp add: withdraw_acct_def)
    then show thesis by (rule that(1))
  next
    case False
    note rest = rest [unfolded withdraw_acct_def if_not_P [OF False]]
    show thesis
    proof (cases "tg_withdrawal (sv_toggles db)")
      case True
      with rest obtain i where "queueApproval E (PayWithdrawal p) user db = (db', i)"
        by (auto split: prod.splits if_splits)
      then show thesis by (rule that(2))
    next
      case False
      with rest show thesis by (auto elim!: bind_resE intro: that(3) split: if_splits)
    qed
  qed
  then show ?thesis
  proof cases
    case joint
    have "ledger_ok cents db'" using assms(4) by (rule ledger_ok_same) (simp_all add: joint)
    then show ?thesis using assms(5) by (auto simp: joint queue_ok_def decided_kept_same)
  next
    case queued
    then show ?thesis by (rule queueApproval_ok [OF _ _ assms(4,5)]) (use assms(3) in \<open>simp add: whole_def\<close>)
  next
    case posted
    then have "ledger_move cents db db'" using assms(2,3)
      by (intro ledger_move_trans [OF executors_move(2) entry_moves(2)]) simp_all
    then show ?thesis using assms(4,5) by (rule move_ok)
  qed
qed

lemma transfer_ok:
  assumes "TransferBetweenOwn E user p db = Inr (db', out)" "sv_env_ok E" "cents \<longrightarrow> scaled 2 (tpl_amount p)"
    and "ledger_ok cents db" "queue_ok cents db"
  shows "ledger_ok cents db' \<and> queue_ok cents db' \<and> decided_kept db db'"
proof (cases "tg_deposit_transfer (sv_toggles db)")
  case True
  with assms(1) obtain i where "queueApproval E (PayTransfer p) user db = (db', i)"
    by (auto simp: TransferBetweenOwn_def bind_ensure_Inr elim!: bind_resE split: prod.splits)
  then show ?thesis by (rule queueApproval_ok [OF _ _ assms(4,5)]) (use assms(3) in \<open>simp add: whole_def\<close>)
next
  case False
  with assms(1) obtain t a u b where "ExecuteDepTransferTx E p user db = Inr (db', (t, a), (u, b))"
    by (auto simp: TransferBetweenOwn_def bind_ensure_Inr elim!: bind_resE)
  then have "ledger_move cents db db'" using executors_move(3) assms(2,3) by blast
  then show ?thesis using assms(4,5) by (rule move_ok)
qed

lemma open_ok:
  assumes "Open E user q db = Inr (db', r)" "sv_env_ok E" "cents \<longrightarrow> scaled 2 (oq_opening_deposit q)"
    and "ledger_ok cents db" "queue_ok cents db"
  shows "ledger_ok cents db' \<and> queue_ok cents db' \<and> decided_kept db db'"
proof -
  from assms(1) have "open_tx E user q db = Inr (db', r)" by (simp add: Open_def bind_ensure_Inr)
  then obtain term_months where rest: "open_phases E user q term_months db = Inr (db', r)"
    by (auto simp: open_tx_def bind_ensure_Inr elim!: bind_resE)
  obtain db1 no where n: "nextSeq E ''deposit_account'' ''DPA'' db = (db1, no)" by force
  define inp where "inp = \<lparr> op_counterparty_id = oq_counterparty_id q,
           op_product_id = oq_product_id q, op_fixed_term_months = term_months \<rparr>"
  obtain db2 acct where c: "CreateDepAccountTx E inp no db1 = (db2, acct)" by force
  have rest: "db' = db2 \<or> (\<exists>p out. dpl_amount p = oq_opening_deposit q \<and>
      executeDepositInlineTx E p user db2 = Inr (db', out))"
  proof (cases "0 < oq_opening_deposit q")
    case True
    with rest obtain p out where "executeDepositInlineTx E p user db2 = Inr (db', out)" "dpl_amount p = oq_opening_deposit q"
      by (auto simp: open_phases_def n c inp_def [symmetric] elim!: bind_resE)
    then show ?thesis by blast
  next
    case False
    with rest show ?thesis by (simp add: open_phases_def n c inp_def [symmetric])
  qed
  have "ledger_ok cents db1" using assms(4)
    by (rule ledger_ok_same) (use n in \<open>auto simp: nextSeq_def Let_def\<close>)
  from create_ledger_ok [OF this, of E inp no] have l: "ledger_ok cents db2" by (simp add: c)
  have "queue_ok cents db2" using n c assms(5)
    by (auto simp: nextSeq_def CreateDepAccountTx_def Let_def queue_ok_def less_Suc_eq)
  note ok2 = l this
  have "sv_approvals db2 = sv_approvals db"
    using n c by (auto simp: nextSeq_def CreateDepAccountTx_def Let_def)
  then have k: "decided_kept db db2" by (rule decided_kept_same)
  from rest show ?thesis
  proof (elim disjE exE conjE)
    fix p out
    assume "dpl_amount p = oq_opening_deposit q" "executeDepositInlineTx E p user db2 = Inr (db', out)"
    then show ?thesis using inline_ok [OF _ assms(2) _ ok2] assms(3) decided_kept_trans [OF k] by simp
  qed (simp add: ok2 k)
qed

section \<open>Decisions\<close>

definition decided_by :: "approval_status \<Rightarrow> uuid \<Rightarrow> uuid option \<Rightarrow> approval \<Rightarrow> approval" where
  "decided_by st user txn a = (if pa_status a = ApprovalPending
     then a\<lparr>pa_status := st, pa_checker := Some user,
       pa_result_txn_id := (if st = ApprovalApproved then txn else pa_result_txn_id a)\<rparr> else a)"

lemma decided_by_simps [simp]:
  "pa_id (decided_by st user txn a) = pa_id a"
  "pa_payload (decided_by st user txn a) = pa_payload a"
  "pa_maker (decided_by st user txn a) = pa_maker a"
  "pa_status a \<noteq> ApprovalPending \<Longrightarrow> decided_by st user txn a = a"
  by (simp_all add: decided_by_def)

lemma mark_decided_Inr:
  "mark_decided i st user txn db = Inr db' \<longleftrightarrow>
     (\<exists>a\<in>set (sv_approvals db). pa_id a = i \<and> pa_status a = ApprovalPending) \<and>
     db' = db\<lparr>sv_approvals := map (\<lambda>a. if pa_id a = i then decided_by st user txn a else a) (sv_approvals db)\<rparr>"
  by (auto simp: mark_decided_def update_approval_def decided_by_def cong: if_cong)

lemma mark_decided_ok:
  assumes "mark_decided i st user txn db = Inr db'" "ledger_ok cents db" "queue_ok cents db"
  shows "ledger_ok cents db' \<and> queue_ok cents db' \<and> decided_kept db db'"
proof -
  have db': "db' = db\<lparr>sv_approvals := map (\<lambda>a. if pa_id a = i then decided_by st user txn a else a) (sv_approvals db)\<rparr>"
    using assms(1) by (simp add: mark_decided_Inr)
  have "ledger_ok cents db'" using assms(2) by (rule ledger_ok_same) (simp_all add: db')
  moreover have "map pa_id (sv_approvals db') = map pa_id (sv_approvals db)" by (simp add: db')
  moreover have "decided_kept db db'" by (force simp: db' decided_kept_def)
  ultimately show ?thesis using assms(3) by (auto simp: db' queue_ok_def simp del: map_map)
qed

text \<open>A decision that went through: the executor, then the mark on a row still pending.\<close>

lemma approve_read_E:
  assumes "approve_read E sh pa user db = Inr (db', txn)"
  obtains db1 where "pa_status pa = ApprovalPending" "pa_maker pa \<noteq> user \<or> tg_allow_self (sv_toggles db)"
    "run_payload E (pa_payload pa) (pa_maker pa) db = Inr (db1, txn)"
    "mark_decided (pa_id pa) ApprovalApproved user (Some txn) db1 = Inr db'"
  using assms by (auto simp: approve_read_def WithTenantTx_def approve_body_def MarkApprovedTx_def split: if_splits sum.splits)

lemma resolve_read_cases:
  assumes "resolve_read E event pa db = Inr db'"
  obtains (replay) "pa_status pa \<noteq> ApprovalPending" "db' = db"
  | (approved) db1 txn where "pa_status pa = ApprovalPending" "event = ''approved''"
      "run_payload E (pa_payload pa) (pa_maker pa) db = Inr (db1, txn)"
      "mark_decided (pa_id pa) ApprovalApproved (pa_maker pa) (Some txn) db1 = Inr db'"
  | (declined) "pa_status pa = ApprovalPending" "event = ''rejected'' \<or> event = ''cancelled''"
      "mark_decided (pa_id pa) ApprovalDeclined (pa_maker pa) None db = Inr db'"
  using assms by (auto simp: resolve_read_def MarkApprovedTx_def MarkDeclinedTx_def elim!: bind_resE split: if_splits)

lemma run_and_mark_ok:
  assumes "run_payload E pl maker db = Inr (db1, t)" "mark_decided i st user txn db1 = Inr db'" "sv_env_ok E"
    "whole cents pl" "ledger_ok cents db" "queue_ok cents db"
  shows "ledger_ok cents db' \<and> queue_ok cents db' \<and> decided_kept db db'"
  using mark_decided_ok [OF assms(2)] move_ok [OF run_payload_move [OF assms(1,3,4)] assms(5,6)] decided_kept_trans by blast

lemma Handle_E:
  assumes "Handle E trusted status inst db = Inr db'"
  obtains "status \<noteq> ''approved''" "db' = db"
  | txn where "run_payload E (wi_payload inst) (wi_initiator inst) db = Inr (db', txn)" "status = ''approved''"
      "wi_initiator inst \<noteq> uuid_Nil"
  using assms by (auto simp: Handle_def bind_ensure_Inr cash_callback_def elim!: bind_resE split: if_splits)

section \<open>Every step keeps the invariant\<close>

lemma reverse_handler_E:
  assumes "reverse_handler E orig reason u db = Inr (db', t)"
  obtains inp acct where "PostTxnTx E inp db = Inr (db', t)" "pt_amount inp = - tx_amount orig"
    "pt_type inp = TxnReversal" "pt_account inp = Some acct" "GetDepAccountTx db (tx_account_id orig) = Inr acct"
    "pt_reverses_txn_id inp = Some (tx_id orig)" "tx_reversed_by_txn_id orig = None" "tx_type orig \<noteq> TxnReversal"
  using assms unfolding reverse_handler_def bind_ensure_Inr
  by (auto elim!: bind_resE simp: post_dep_input_def bind_ensure_Inr)

lemma Adjust_E:
  assumes "Adjust E u aid x reason db = Inr (db', t)"
  obtains inp acct where "PostTxnTx E inp db = Inr (db', t)" "pt_amount inp = x" "pt_type inp = TxnDepAdjustment"
    "pt_account inp = Some acct" "GetDepAccountTx db aid = Inr acct" "x \<noteq> 0" "reason \<noteq> []"
  using assms unfolding Adjust_def bind_ensure_Inr
  by (auto elim!: bind_resE simp: post_dep_input_def bind_ensure_Inr dest!: loadProductAccount_Inr)

lemma reverse_same_queue: "reverse_read E orig reason u db = Inr (db', t) \<Longrightarrow> same_queue db db'"
  unfolding reverse_read_def bind_ensure_Inr
  by (auto elim!: bind_resE dest!: post_same_queue intro: same_queue_trans)

lemma write_ok:
  assumes "dep_write cents T A E db db'" and E: "sv_env_ok E" and ok: "ledger_ok cents db" "queue_ok cents db"
    and T: "\<forall>t\<in>T. txn_ok t" and A: "\<forall>a\<in>A. whole cents (pa_payload a)"
  shows "ledger_ok cents db' \<and> queue_ok cents db' \<and> decided_kept db db'"
  using assms(1)
proof cases
  case w_open then show ?thesis using open_ok E ok by blast
next
  case (w_deposit u p r)
  then have "executeDepositInlineTx E p u db = Inr (db', r)"
    by (simp add: Deposit_def bind_ensure_Inr)
  then show ?thesis using inline_ok w_deposit(2) E ok by blast
next
  case w_withdraw then show ?thesis using withdraw_ok E ok by blast
next
  case (w_notice aid x)
  then have "db' = SetWithdrawalNoticeTx E aid x db"
    by (auto simp: GiveWithdrawalNotice_def bind_ensure_Inr elim!: bind_resE)
  then show ?thesis using move_ok [of cents db db', OF _ ok] by (simp add: ledger_move_def notice_ledger_ok)
next
  case w_transfer then show ?thesis using transfer_ok E ok by blast
next
  case (w_reverse orig reason u t)
  from w_reverse(2) obtain inp acct where "PostTxnTx E inp db = Inr (db', t)" "pt_amount inp = - tx_amount orig"
    by (rule reverse_handler_E)
  moreover have "scaled 2 (tx_amount orig)" using T w_reverse(1) by (simp add: txn_ok_def)
  ultimately show ?thesis using move_ok [OF post_move [OF _ E] ok] by (simp add: scaled_minus)
next
  case (w_void orig reason u t)
  then have "ledger_move cents db db'" using T E reverse_ledger_ok [OF w_void(2)] reverse_same_queue [OF w_void(2)]
    by (simp add: ledger_move_def)
  then show ?thesis using ok by (rule move_ok)
next
  case (w_adjust u aid x reason t)
  from w_adjust(1) obtain inp acct where "PostTxnTx E inp db = Inr (db', t)" "pt_amount inp = x"
    by (rule Adjust_E)
  then show ?thesis using move_ok [OF post_move [OF _ E] ok] w_adjust(2) by simp
next
  case (w_approve pa sh u txn)
  have pl: "whole cents (pa_payload pa)" using A w_approve(1) by blast
  from w_approve(2) show ?thesis
  proof (rule approve_read_E)
    fix db1
    assume "run_payload E (pa_payload pa) (pa_maker pa) db = Inr (db1, txn)"
      "mark_decided (pa_id pa) ApprovalApproved u (Some txn) db1 = Inr db'"
    then show ?thesis by (rule run_and_mark_ok [OF _ _ E pl ok])
  qed
next
  case (w_decline pa u msg)
  then have "mark_decided (pa_id pa) ApprovalDeclined u None db = Inr db'"
    by (simp add: decline_read_def bind_ensure_Inr MarkDeclinedTx_def)
  then show ?thesis using ok by (rule mark_decided_ok)
next
  case (w_cancel pa u)
  then have "mark_decided (pa_id pa) ApprovalCancelled u None db = Inr db'"
    by (simp add: cancel_read_def bind_ensure_Inr MarkCancelledTx_def)
  then show ?thesis using ok by (rule mark_decided_ok)
next
  case (w_resolve pa event)
  have pl: "whole cents (pa_payload pa)" using A w_resolve(1) by blast
  from w_resolve(2) show ?thesis
  proof (cases rule: resolve_read_cases)
    case replay
    with ok show ?thesis by (simp add: decided_kept_same)
  next
    case approved
    then show ?thesis by (intro run_and_mark_ok [OF _ _ E pl ok])
  next
    case declined
    then show ?thesis using mark_decided_ok [OF _ ok] by simp
  qed
next
  case (w_callback inst status)
  then have pl: "whole cents (wi_payload inst)" using ok by (simp add: queue_ok_def)
  from w_callback(2) show ?thesis
  proof (rule Handle_E)
    fix txn
    assume "run_payload E (wi_payload inst) (wi_initiator inst) db = Inr (db', txn)"
    then show ?thesis using move_ok [OF run_payload_move [OF _ E pl] ok] by simp
  qed (simp add: ok decided_kept_same)
next
  case (w_snapshot d)
  then show ?thesis using move_ok [of cents db db', OF _ ok]
    by (simp add: ledger_move_def snapshot_ledger_ok snapshot_same_queue)
next
  case (w_status aid st cl)
  then show ?thesis using move_ok [of cents db db', OF _ ok] by (simp add: ledger_move_def notice_ledger_ok)
next
  case w_settings
  then obtain ps ls bs cs tg ks where db': "db' = db\<lparr>sv_products := ps, sv_liens := ls, sv_bosa_liens := bs,
     sv_counterparties := cs, sv_toggles := tg, sv_wf_kinds := ks\<rparr>" by (auto simp: settings_change_def)
  have "ledger_ok cents db'" using ok(1) by (rule ledger_ok_same) (simp_all add: db')
  then show ?thesis using ok(2) by (simp add: db' queue_ok_def decided_kept_same)
qed

lemma dep_step_inv: "dep_step cents s s' \<Longrightarrow> dep_inv cents s \<Longrightarrow> dep_inv cents s'"
proof (elim dep_stepE)
  fix E T A db db'
  assume "s = (db, T, A)" "s' = (db', T \<union> set (sv_txns db'), A \<union> set (sv_approvals db'))"
    "sv_env_ok E" "dep_write cents T A E db db'" "dep_inv cents s"
  then show "dep_inv cents s'" using write_ok [of cents T A E db db']
    by (auto simp: dep_inv_def ledger_ok_def queue_ok_def)
qed

lemma dep_reach_inv: "dep_reach cents s \<Longrightarrow> dep_inv cents s"
proof (induction rule: dep_reach.induct)
  case (reach_start s)
  then show ?case by (auto simp: dep_start_def dep_inv_def ledger_ok_def queue_ok_def)
next
  case (reach_step s s')
  then show ?case by (blast intro: dep_step_inv)
qed

end
