(* ===== verification/DepositBalances.thy ===== *)
theory DepositBalances
  imports DepositSystem
begin

text \<open>
  What the operations do to the balances alone, in whole cents: a post is a step of the map from
  accounts to balances (\<open>abs_post\<close>), a deposit adds to one of them, the total is the sum; and
  what they read of the liens, which is nothing.
\<close>

section \<open>Posts\<close>

definition balance_of :: "'a sv_db_scheme \<Rightarrow> uuid \<Rightarrow> decimal option" where
  "balance_of db i = map_option acc_current_balance (find (\<lambda>a. acc_id a = i) (sv_accounts db))"

text \<open>The specification: an account is a number that never goes below zero.\<close>

definition abs_post :: "uuid \<Rightarrow> decimal \<Rightarrow> (uuid \<Rightarrow> decimal option) \<Rightarrow> (uuid \<Rightarrow> decimal option) option" where
  "abs_post i x m = (case m i of None \<Rightarrow> None
     | Some b \<Rightarrow> if b + x < 0 then None else Some (m(i \<mapsto> b + x)))"

lemma post_accounts_unique:
  assumes "distinct (map acc_id as)"
    and "length (filter (\<lambda>b. acc_id b = acc_id a \<and> acc_current_balance b = acc_current_balance a) as) = 1"
  shows "post_accounts E a s as = map (\<lambda>b. if acc_id b = acc_id a then posted_account E s b else b) as"
    and "\<exists>b\<in>set as. acc_id b = acc_id a \<and> acc_current_balance b = acc_current_balance a"
proof -
  show ex: "\<exists>b\<in>set as. acc_id b = acc_id a \<and> acc_current_balance b = acc_current_balance a"
    using assms(2) by (metis (mono_tags, lifting) filter_False list.size(3) zero_neq_one)
  then have "acc_current_balance c = acc_current_balance a" if "c \<in> set as" "acc_id c = acc_id a" for c
    using that assms(1) by (metis distinct_map inj_onD)
  then show "post_accounts E a s as = map (\<lambda>b. if acc_id b = acc_id a then posted_account E s b else b) as"
    by (simp add: post_accounts_def)
qed

lemma find_acct:
  "distinct (map acc_id as) \<Longrightarrow> b \<in> set as \<Longrightarrow> find (\<lambda>a. acc_id a = acc_id b) as = Some b"
  by (induction as) (auto simp: image_iff)

lemma find_acct_id: "find (\<lambda>a. acc_id a = i) as = Some b \<Longrightarrow> acc_id b = i"
  by (auto simp: find_Some_iff)

lemma find_acct_map:
  "(\<And>a. acc_id (f a) = acc_id a) \<Longrightarrow>
    find (\<lambda>a. acc_id a = i) (map f as) = map_option f (find (\<lambda>a. acc_id a = i) as)"
  by (induction as) auto

lemma balance_of_Some:
  assumes "distinct (map acc_id (sv_accounts db))"
  shows "balance_of db i = Some x \<longleftrightarrow> (\<exists>b\<in>set (sv_accounts db). acc_id b = i \<and> acc_current_balance b = x)"
proof
  assume "balance_of db i = Some x"
  then show "\<exists>b\<in>set (sv_accounts db). acc_id b = i \<and> acc_current_balance b = x"
    by (auto simp: balance_of_def find_Some_iff)
next
  assume "\<exists>b\<in>set (sv_accounts db). acc_id b = i \<and> acc_current_balance b = x"
  then show "balance_of db i = Some x" using find_acct [OF assms] by (auto simp: balance_of_def)
qed

lemma ledger_ok_parts:
  assumes "ledger_ok cents db"
  shows "distinct (map acc_id (sv_accounts db))"
    and "a \<in> set (sv_accounts db) \<Longrightarrow> scaled 2 (acc_current_balance a)"
  using assms by (simp_all add: ledger_ok_def account_ok_def)

text \<open>In whole cents a post adds the signed amount to one balance.\<close>

lemma post_balance:
  assumes "PostTxnTx E inp db = Inr (db', t)" "pt_account inp = Some a" "ledger_ok cents db" "sv_env_ok E"
    "scaled 2 (pt_amount inp)"
  shows "balance_of db (acc_id a) = Some (acc_current_balance a)"
    and "0 \<le> acc_current_balance a + signed_amount (pt_type inp) (pt_amount inp)"
    and "balance_of db' = (balance_of db)(acc_id a \<mapsto> acc_current_balance a + signed_amount (pt_type inp) (pt_amount inp))"
    and "tx_amount t = signed_amount (pt_type inp) (pt_amount inp)"
    and "sv_accounts db' = map (\<lambda>b. if acc_id b = acc_id a
      then posted_account E (signed_amount (pt_type inp) (pt_amount inp)) b else b) (sv_accounts db)"
proof -
  let ?s = "signed_amount (pt_type inp) (pt_amount inp)"
  from assms(1) obtain dy sq where p: "0 \<le> acc_current_balance a + ?s"
    "length (filter (\<lambda>b. acc_id b = acc_id a \<and> acc_current_balance b = acc_current_balance a) (sv_accounts db)) = 1"
    "db' = posted_db E a ?s (pt_reverses_txn_id inp) t dy sq db" "tx_amount t = se_col E ?s"
    by (rule PostTxnTx_E) (simp add: assms(2))
  note d = ledger_ok_parts(1) [OF assms(3)] and u = post_accounts_unique [OF ledger_ok_parts(1) [OF assms(3)] p(2)]
  from u(2) obtain b where b: "b \<in> set (sv_accounts db)" "acc_id b = acc_id a" "acc_current_balance b = acc_current_balance a"
    by blast
  have sc: "scaled 2 (acc_current_balance a)" "scaled 2 ?s"
    using ledger_ok_parts(2) [OF assms(3) b(1)] b(3) assms(5) by (simp_all add: scaled_signed)
  have col: "rounding 2 (se_col E)" using assms(4) by (simp add: sv_env_ok_def)
  show bal: "balance_of db (acc_id a) = Some (acc_current_balance a)" using b d by (auto simp: balance_of_Some)
  show accts: "sv_accounts db' = map (\<lambda>b. if acc_id b = acc_id a then posted_account E ?s b else b) (sv_accounts db)"
    by (simp add: p(3) u(1))
  show "tx_amount t = ?s" using rounding.exact [OF col sc(2)] p(4) by simp
  have ex: "se_col E (acc_current_balance a + ?s) = acc_current_balance a + ?s"
    using rounding.exact [OF col scaled_add [OF sc]] .
  show "balance_of db' = (balance_of db)(acc_id a \<mapsto> acc_current_balance a + ?s)"
  proof
    fix i
    show "balance_of db' i = ((balance_of db)(acc_id a \<mapsto> acc_current_balance a + ?s)) i"
    proof (cases "i = acc_id a")
      case True
      from find_acct [OF d b(1)] b True show ?thesis
        by (simp add: balance_of_def accts find_acct_map ex)
    next
      case False
      then have "balance_of db' i = balance_of db i"
      proof (cases "find (\<lambda>a. acc_id a = i) (sv_accounts db)")
        case (Some c)
        with find_acct_id [OF Some] False show ?thesis by (simp add: balance_of_def accts find_acct_map)
      qed (simp add: balance_of_def accts find_acct_map)
      with False show ?thesis by simp
    qed
  qed
  show "0 \<le> acc_current_balance a + ?s" by (rule p(1))
qed

lemma one_account:
  "distinct (map acc_id as) \<Longrightarrow> b \<in> set as \<Longrightarrow>
    length (filter (\<lambda>c. acc_id c = acc_id b \<and> acc_current_balance c = acc_current_balance b) as) = 1"
proof (induction as)
  case (Cons c as)
  then show ?case
  proof (cases "c = b")
    case True
    with Cons.prems(1) have "filter (\<lambda>c. acc_id c = acc_id b \<and> acc_current_balance c = acc_current_balance b) as = []"
      by (auto simp: filter_empty_conv image_iff)
    with True show ?thesis by simp
  next
    case False
    with Cons have "acc_id c \<noteq> acc_id b" by (auto simp: image_iff)
    with Cons False show ?thesis by simp
  qed
qed simp

lemma PostTxnTx_Inr:
  assumes "pt_account inp = Some a" "pt_amount inp \<noteq> 0"
    "0 \<le> acc_current_balance a + signed_amount (pt_type inp) (pt_amount inp)"
    "length (filter (\<lambda>b. acc_id b = acc_id a \<and> acc_current_balance b = acc_current_balance a) (sv_accounts db)) = 1"
    "se_col E (signed_amount (pt_type inp) (pt_amount inp)) \<noteq> 0"
    "pt_channel inp \<in> insert None (Some ` set deposit_channels)"
  shows "\<exists>db' t. PostTxnTx E inp db = Inr (db', t)"
  using assms
  by (auto simp: PostTxnTx_def cas_balance_def Let_def nextSeq_def insert_txn_def txn_row_def split: option.splits)

section \<open>Totals\<close>

definition total_balance :: "'a sv_db_scheme \<Rightarrow> decimal" where
  "total_balance db = sum_list (map acc_current_balance (sv_accounts db))"

lemma sum_one_account:
  "distinct (map acc_id as) \<Longrightarrow> b \<in> set as \<Longrightarrow>
    sum_list (map (\<lambda>c. if acc_id c = acc_id b then f c else g c) as) = (sum_list (map g as) :: decimal) + f b - g b"
proof (induction as)
  case (Cons c as)
  show ?case
  proof (cases "c = b")
    case True
    with Cons.prems(1) have "sum_list (map (\<lambda>c. if acc_id c = acc_id b then f c else g c) as) = sum_list (map g as)"
      by (intro arg_cong [where f = sum_list] map_cong) (auto simp: image_iff)
    with True show ?thesis by simp
  next
    case False
    with Cons have "acc_id c \<noteq> acc_id b" by (auto simp: image_iff)
    with Cons False show ?thesis by simp
  qed
qed simp

lemma post_total:
  assumes "PostTxnTx E inp db = Inr (db', t)" "pt_account inp = Some a" "ledger_ok cents db" "sv_env_ok E"
    "scaled 2 (pt_amount inp)"
  shows "total_balance db' = total_balance db + signed_amount (pt_type inp) (pt_amount inp)"
proof -
  let ?s = "signed_amount (pt_type inp) (pt_amount inp)"
  note pb = post_balance [OF assms] and d = ledger_ok_parts [OF assms(3)]
  from pb(1) obtain b where b: "b \<in> set (sv_accounts db)" "acc_id b = acc_id a" "acc_current_balance b = acc_current_balance a"
    using d(1) by (auto simp: balance_of_Some)
  have col: "rounding 2 (se_col E)" using assms(4) by (simp add: sv_env_ok_def)
  have "se_col E (acc_current_balance b + ?s) = acc_current_balance b + ?s"
    by (rule rounding.exact [OF col scaled_add [OF d(2) [OF b(1)] scaled_signed [OF assms(5)]]])
  moreover have "map acc_current_balance (sv_accounts db') = map (\<lambda>c. if acc_id c = acc_id b
      then se_col E (acc_current_balance c + ?s) else acc_current_balance c) (sv_accounts db)"
    by (simp add: pb(5) b(2))
  ultimately show ?thesis
    by (simp add: total_balance_def sum_one_account [OF d(1) b(1)] del: map_map)
qed

section \<open>Deposits\<close>

lemma deposit_balance:
  assumes "run_payload E (PayDeposit p) maker db = Inr (db', txn)" "ledger_ok True db" "sv_env_ok E" "scaled 2 (dpl_amount p)"
  shows "0 < dpl_amount p" "length (sv_txns db') = length (sv_txns db) + 1"
    and "\<exists>x. balance_of db (dpl_account_id p) = Some x \<and>
      balance_of db' = (balance_of db)(dpl_account_id p \<mapsto> x + dpl_amount p)"
proof -
  from assms(1) obtain db1 t a where e: "ExecuteDepositTx E p maker db = Inr (db1, t, a)"
    "PostDepositTx E t a (dpl_channel p) db1 = Inr db'" by (auto simp: run_payload_def elim!: bind_resE)
  from e(1) obtain prod acct m inp where h: "loadProductAccount db (dpl_account_id p) = Inr (prod, acct, m)"
    "EvaluateDeposit prod acct (dpl_amount p) = Inr ()" "PostTxnTx E inp db = Inr (db1, t)" "pt_account inp = Some acct"
    "pt_type inp = TxnDeposit" "pt_amount inp = dpl_amount p" by (rule ExecuteDepositTx_E)
  show pos: "0 < dpl_amount p" using EvaluateDeposit_Inr [OF h(2)] by simp
  have id: "acc_id acct = dpl_account_id p" using h(1) by (auto dest!: loadProductAccount_Inr GetDepAccountTx_Inr)
  have s: "signed_amount TxnDeposit (dpl_amount p) = dpl_amount p" using pos by (simp add: signed_amount_def signFor_def)
  have sc: "scaled 2 (pt_amount inp)" using assms(4) h(6) by simp
  note pb = post_balance [OF h(3,4) assms(2,3) sc, unfolded h(5,6) s id]
  obtain ob n where db': "db' = db1\<lparr>sv_outbox := ob, sv_supply := sv_supply db1 + n\<rparr>" using entry_same(1) [OF e(2)] by blast
  then have "balance_of db' = balance_of db1" by (simp add: balance_of_def [abs_def])
  with pb(3) show "\<exists>x. balance_of db (dpl_account_id p) = Some x \<and> balance_of db' = (balance_of db)(dpl_account_id p \<mapsto> x + dpl_amount p)"
    by (intro exI [of _ "acc_current_balance acct"]) (simp add: pb(1))
  have "length (sv_txns db1) = length (sv_txns db) + 1" using h(3) by (rule PostTxnTx_E) simp
  then show "length (sv_txns db') = length (sv_txns db) + 1" by (simp add: db')
qed

section \<open>Liens\<close>

definition with_liens :: "lien_row list \<Rightarrow> lien_row list \<Rightarrow> 'a sv_db_scheme \<Rightarrow> 'a sv_db_scheme" where
  "with_liens ls bs db = db\<lparr>sv_liens := ls, sv_bosa_liens := bs\<rparr>"

lemma with_liens_reads [simp]:
  "GetDepAccountTx (with_liens ls bs db) = GetDepAccountTx db"
  "GetProductTx (with_liens ls bs db) = GetProductTx db"
  "GetByIDTx (with_liens ls bs db) = GetByIDTx db"
  "WithdrawalCountThisMonthTx (with_liens ls bs db) = WithdrawalCountThisMonthTx db"
  "DuplicateExistsTx E (with_liens ls bs db) = DuplicateExistsTx E db"
  "sv_outbox (with_liens ls bs db) = sv_outbox db" "sv_supply (with_liens ls bs db) = sv_supply db"
  by (simp_all add: with_liens_def fun_eq_iff GetDepAccountTx_def GetProductTx_def GetByIDTx_def
      WithdrawalCountThisMonthTx_def DuplicateExistsTx_def Let_def)

lemma with_liens_loads [simp]:
  "loadProductAccount (with_liens ls bs db) = loadProductAccount db"
  "resolveLiabilityAcctTx (with_liens ls bs db) = resolveLiabilityAcctTx db"
  by (auto simp: fun_eq_iff loadProductAccount_def resolveLiabilityAcctTx_def split: sum.splits)

abbreviation on_tables :: "('d \<Rightarrow> 'd) \<Rightarrow> 'e + 'd \<times> 'x \<Rightarrow> 'e + 'd \<times> 'x" where
  "on_tables f \<equiv> map_sum id (map_prod f id)"

lemma PostTxnTx_liens:
  "PostTxnTx E inp (with_liens ls bs db) = on_tables (with_liens ls bs) (PostTxnTx E inp db)"
  by (auto simp: PostTxnTx_def cas_balance_def nextSeq_def insert_txn_def update_acct_def update_txn_def txn_row_def
      upsert_daily_eq with_liens_def Let_def bind_res_def split: option.splits sum.splits)

lemma sv_post_liens: "sv_post E inp (with_liens ls bs db) = map_sum id (with_liens ls bs) (sv_post E inp db)"
  by (auto simp: sv_post_def with_liens_def split: option.splits sum.splits)

lemma liens_updates [simp]:
  "ClearWithdrawalNoticeTx aid (with_liens ls bs db) = with_liens ls bs (ClearWithdrawalNoticeTx aid db)"
  "LinkCounterpartyTxnTx tid cid (with_liens ls bs db) = with_liens ls bs (LinkCounterpartyTxnTx tid cid db)"
  by (simp_all add: ClearWithdrawalNoticeTx_def LinkCounterpartyTxnTx_def update_acct_def update_txn_def with_liens_def)

lemma bind_map_sum: "bind_res (map_sum id g m) h = bind_res m (\<lambda>x. h (g x))"
  by (cases m) simp_all

lemma map_sum_bind: "map_sum id g (bind_res m h) = bind_res m (\<lambda>x. map_sum id g (h x))"
  by (cases m) simp_all

lemma executors_liens:
  "ExecuteDepositTx E dp maker (with_liens ls bs db) = on_tables (with_liens ls bs) (ExecuteDepositTx E dp maker db)"
  "ExecuteWithdrawalTx E wp maker (with_liens ls bs db) = on_tables (with_liens ls bs) (ExecuteWithdrawalTx E wp maker db)"
  "ExecuteDepTransferTx E tp maker (with_liens ls bs db) = on_tables (with_liens ls bs) (ExecuteDepTransferTx E tp maker db)"
  by (simp_all add: ExecuteDepositTx_def ExecuteWithdrawalTx_def ExecuteDepTransferTx_def PostTxnTx_liens Let_def
      bind_map_sum map_sum_bind case_prod_unfold)

lemma entries_liens:
  "PostDepositTx E t a ch (with_liens ls bs db) = map_sum id (with_liens ls bs) (PostDepositTx E t a ch db)"
  "PostWithdrawalTx E t a ch (with_liens ls bs db) = map_sum id (with_liens ls bs) (PostWithdrawalTx E t a ch db)"
  "PostDepositTransferTx E t a b (with_liens ls bs db) = map_sum id (with_liens ls bs) (PostDepositTransferTx E t a b db)"
  by (simp_all add: PostDepositTx_def PostWithdrawalTx_def PostDepositTransferTx_def sv_post_liens)

end
