(* ===== verification/DepositExamples.thy ===== *)
theory DepositExamples
  imports DepositBalances
begin

text \<open>
  Example data for the properties of deposit accounts: one member, one ordinary product without
  limits, two accounts, and the requests made of them in a row.
\<close>

definition ex_sv_env :: sv_env where
  "ex_sv_env = \<lparr> se_dec = shop_decimal, se_col = round_half_up 2, se_now = GoTime (Date 2026 5 26) 7,
     se_clock = GoTime (Date 2026 5 26) 7, se_uuid = show_nat, se_tenant = 1, se_posting = Some False,
     se_workflow = True, se_liens = True, se_joint = False, se_lookback = 0 \<rparr>"

definition ex_product :: dep_product where
  "ex_product = \<lparr> pd_id = 31, pd_product_type = ProductOrdinary, pd_segment = SegmentFOSA, pd_is_active = True,
     pd_interest_eligible = True, pd_min_opening_balance = 0, pd_min_operating_balance = 0, pd_max_balance = None,
     pd_min_deposit_amount = 0, pd_max_deposit_amount = None, pd_min_withdrawal_amount = 0,
     pd_max_withdrawal_amount = None, pd_notice_period_days = 0, pd_max_withdrawals_per_month = None,
     pd_partial_withdrawal_allowed = True, pd_large_withdrawal_threshold = None, pd_lock_in_months = 0,
     pd_default_term_months = None, pd_eligibility = EligibilityAll, pd_window_start = None, pd_window_end = None \<rparr>"

definition ex_member :: counterparty where
  "ex_member = \<lparr> cp_id = 5, cp_member_no = ''M-1'', cp_full_name = ''Ada'', cp_status = ''active'' \<rparr>"

definition ex_acct :: "uuid \<Rightarrow> decimal \<Rightarrow> dep_account" where
  "ex_acct i x = \<lparr> acc_id = i, acc_counterparty_id = 5, acc_product_id = 31, acc_account_no = ''DPA'',
     acc_status = AcctActive, acc_current_balance = x, acc_available_balance = x, acc_opened_at = None,
     acc_matures_at = None, acc_closed_at = None, acc_last_activity_at = None, acc_last_deposit_at = None,
     acc_last_withdrawal_at = None, acc_fixed_term_months = None, acc_notice_given_at = None,
     acc_notice_amount = None, acc_is_joint = False, acc_required_signers = 1 \<rparr>"

definition ex_toggles :: "bool \<Rightarrow> toggles" where
  "ex_toggles b = \<lparr> tg_deposit = b, tg_withdrawal = b, tg_deposit_transfer = b, tg_allow_self = False \<rparr>"

definition ex_sv :: "bool \<Rightarrow> dep_account list \<Rightarrow> sv_db" where
  "ex_sv b accts = \<lparr> sv_products = [ex_product], sv_accounts = accts, sv_txns = [], sv_daily = [], sv_liens = [],
     sv_bosa_liens = [], sv_counterparties = [ex_member], sv_toggles = ex_toggles b, sv_wf_kinds = [],
     sv_instances = [], sv_approvals = [], sv_joint = [], sv_seq = (\<lambda>_. 0), sv_outbox = [], sv_supply = 100 \<rparr>"

definition ex_deposit_p :: "uuid \<Rightarrow> decimal \<Rightarrow> deposit_payload" where
  "ex_deposit_p i x = \<lparr> dpl_account_id = i, dpl_amount = x, dpl_channel = ''mpesa'', dpl_channel_ref = [],
     dpl_narration = [], dpl_value_date = [], dpl_bypass_duplicate_check = False \<rparr>"

definition ex_withdrawal_p :: "uuid \<Rightarrow> decimal \<Rightarrow> withdrawal_payload" where
  "ex_withdrawal_p i x = \<lparr> wpl_account_id = i, wpl_amount = x, wpl_channel = ''mpesa'', wpl_channel_ref = [],
     wpl_narration = [], wpl_reason = [] \<rparr>"

definition ex_transfer_p :: "uuid \<Rightarrow> uuid \<Rightarrow> decimal \<Rightarrow> transfer_payload" where
  "ex_transfer_p i j x = \<lparr> tpl_from_account_id = i, tpl_to_account_id = j, tpl_amount = x, tpl_narration = [] \<rparr>"

lemma ex_sv_env_ok [simp]: "sv_env_ok ex_sv_env"
  by (simp add: sv_env_ok_def ex_sv_env_def shop.decimal_text_axioms round_half_up_rounding)

lemmas ex_sv_data = ex_sv_env_def ex_product_def ex_member_def ex_acct_def ex_toggles_def ex_sv_def
  ex_deposit_p_def ex_withdrawal_p_def ex_transfer_p_def

lemmas ex_sv_ops = PostTxnTx_def signed_amount_def signFor_def cas_balance_def nextSeq_def insert_txn_def
  txn_row_def upsert_daily_def update_acct_def update_txn_def post_dep_input_def loadProductAccount_def
  GetDepAccountTx_def GetProductTx_def GetByIDTx_def EvaluateDeposit_def exceeds_def
  strNilIfEmpty_def parse_value_date_def deposit_channels_def half_exact

lemmas ex_withdrawal_ops = EvaluateWithdrawal_def locked_in_def breaches_min_def outside_window_def IsLargeWithdrawal_def
  ClearWithdrawalNoticeTx_def PostWithdrawalTx_def PostDepositTx_def PostDepositTransferTx_def sv_post_def OutboxPostTx_def
  entry_input_def resolveLiabilityAcctTx_def ExecuteDepTransferTx_def LinkCounterpartyTxnTx_def

end
