(* ===== verification/DepositProperties.thy ===== *)
theory DepositProperties
  imports DepositExamples
begin

text \<open>
  The properties of the deposit accounts: the ledger's invariant, what a post does, what an approval
  and a repeated callback execute, and what the queued entries say to the ledger.
\<close>

section \<open>The ledger\<close>

text \<open>An account opened with sixty shillings.\<close>

lemma ex_dep_start: "dep_start (ex_sv False [], {}, {})"
  by (simp add: dep_start_def ex_sv_def)

definition ex_open :: open_req where
  "ex_open = \<lparr> oq_counterparty_id = 5, oq_product_id = 31, oq_opening_deposit = 60,
     oq_opening_channel = Some ''mpesa'', oq_opening_channel_ref = None, oq_fixed_term_months = None,
     oq_goal_target_amount = None, oq_goal_target_date = None, oq_guardian = None, oq_group_org_id = None \<rparr>"

lemma ex_opened:
  "\<exists>db r. Open ex_sv_env 9 ex_open (ex_sv False []) = Inr (db, r) \<and>
     map acc_current_balance (sv_accounts db) = [60] \<and> map tx_amount (sv_txns db) = [60]"
  by (simp add: Open_def open_tx_def ex_open_def opening_term_def EligibleForProduct_def open_phases_def
      CreateDepAccountTx_def executeDepositInlineTx_def ExecuteDepositTx_def PostDepositTx_def sv_post_def
      OutboxPostTx_def entry_input_def resolveLiabilityAcctTx_def ex_sv_ops ex_sv_data Let_def del: bind_res_Inr_iff)

lemma ex_reached:
  "\<exists>db T A. dep_reach True (db :: sv_db, T, A) \<and> map acc_current_balance (sv_accounts db) = [60] \<and>
     map tx_amount (sv_txns db) = [60]"
proof -
  obtain db r where o: "Open ex_sv_env 9 ex_open (ex_sv False []) = Inr (db, r)"
    "map acc_current_balance (sv_accounts db) = [60]" "map tx_amount (sv_txns db) = [60]"
    using ex_opened by (elim exE conjE) (rule that)
  have "dep_step True (ex_sv False [], {}, {}) (db, {} \<union> set (sv_txns db), {} \<union> set (sv_approvals db))"
    by (rule dep_step.intros [OF ex_sv_env_ok]) (rule w_open [OF o(1)], simp add: ex_open_def)
  then have "dep_reach True (db, {} \<union> set (sv_txns db), {} \<union> set (sv_approvals db))"
    using dep_reach.intros ex_dep_start by blast
  with o(2,3) show ?thesis by (intro exI conjI)
qed

text \<open>C6. After any sequence of requests, approvals and callbacks a deposit account has a balance of
  at least zero, its available balance is that balance, it differs from the sum of the account's
  transactions by nothing when requests are in whole cents and by at most a cent per transaction
  otherwise, and it is the balance recorded by the last transaction.\<close>

theorem deposit_ledger_agrees:
  assumes "dep_reach cents (db, T, A)" and "a \<in> set (sv_accounts db)"
  shows "0 \<le> acc_current_balance a \<and> acc_available_balance a = acc_current_balance a \<and>
    \<bar>acc_current_balance a - ledger_sum (acc_id a) db\<bar>
      \<le> (if cents then 0 else of_nat (length (of_account (acc_id a) db)) / 100) \<and>
    (of_account (acc_id a) db = [] \<or>
      acc_current_balance a = tx_balance_after (last (of_account (acc_id a) db)))"
  using dep_reach_inv [OF assms(1)] assms(2)
  by (auto simp: dep_inv_def ledger_ok_def account_ok_def drift_def)

theorem deposit_ledger_agrees_witness:
  "\<exists>db T A a. dep_reach True (db :: sv_db, T, A) \<and> sv_accounts db = [a] \<and> acc_current_balance a = 60 \<and>
     ledger_sum (acc_id a) db = 60"
proof -
  obtain db T A where r: "dep_reach True (db :: sv_db, T, A)" "map acc_current_balance (sv_accounts db) = [60]"
    using ex_reached by (elim exE conjE) (rule that)
  then obtain a where a: "sv_accounts db = [a]" "acc_current_balance a = 60" by auto
  with deposit_ledger_agrees [OF r(1), of a] have "ledger_sum (acc_id a) db = 60" by simp
  with a r(1) show ?thesis by blast
qed

text \<open>C38. Every transaction on file has an amount in whole cents that is not zero, of the sign of its
  type: deposits, incoming transfers, interest and opening balances credit, withdrawals, outgoing
  transfers, fees and goal payouts debit; its account exists and no two transactions share an id.\<close>

theorem deposit_rows_typed:
  assumes "dep_reach cents (db, T, A)"
  shows "distinct (map tx_id (sv_txns db)) \<and> list_all (\<lambda>t. scaled 2 (tx_amount t) \<and>
    (if inflow (tx_type t) then 0 < tx_amount t
     else if tx_type t \<in> {TxnWithdrawal, TxnDepTransferOut, TxnFeeDebit, TxnGoalPayout} then tx_amount t < 0
     else tx_amount t \<noteq> 0) \<and>
    (\<exists>a\<in>set (sv_accounts db). acc_id a = tx_account_id t)) (sv_txns db)"
proof -
  have ok: "ledger_ok cents db" using dep_reach_inv [OF assms] by (simp add: dep_inv_def)
  have "scaled 2 (tx_amount t) \<and> (if inflow (tx_type t) then 0 < tx_amount t
     else if tx_type t \<in> {TxnWithdrawal, TxnDepTransferOut, TxnFeeDebit, TxnGoalPayout} then tx_amount t < 0
     else tx_amount t \<noteq> 0) \<and> (\<exists>a\<in>set (sv_accounts db). acc_id a = tx_account_id t)"
    if "t \<in> set (sv_txns db)" for t
  proof -
    have t: "txn_ok t" "\<exists>a\<in>set (sv_accounts db). acc_id a = tx_account_id t"
      using ok that by (simp_all add: ledger_ok_def)
    then show ?thesis by (cases "tx_type t") (simp_all add: txn_ok_def signFor_def inflow_def)
  qed
  then show ?thesis using ok by (simp add: ledger_ok_def list_all_iff)
qed

theorem deposit_rows_typed_witness:
  "\<exists>db T A t. dep_reach True (db :: sv_db, T, A) \<and> sv_txns db = [t] \<and> tx_amount t = 60 \<and> scaled 2 (tx_amount t)"
proof -
  obtain db T A where r: "dep_reach True (db :: sv_db, T, A)" "map tx_amount (sv_txns db) = [60]"
    using ex_reached by (elim exE conjE) (rule that)
  then obtain t where t: "sv_txns db = [t]" "tx_amount t = 60" by auto
  with deposit_rows_typed [OF r(1)] have "scaled 2 (tx_amount t)" by simp
  with t r(1) show ?thesis by blast
qed

section \<open>What a post does to the balances\<close>

text \<open>C14. With requests in whole cents a post implements the specification: it succeeds exactly when
  the copy of the account it was given still has the stored balance and the new balance is not
  negative, and then it changes that balance by the signed amount and no other; a copy of an account
  that has moved since is refused.\<close>

theorem post_refines_balance:
  assumes "dep_reach True (db, T, A)" and E: "sv_env_ok E" and acct: "pt_account inp = Some a"
    and amount: "pt_amount inp \<noteq> 0" "scaled 2 (pt_amount inp)"
    and chan: "pt_channel inp \<in> insert None (Some ` set deposit_channels)"
  shows "(case PostTxnTx E inp db of Inl e \<Rightarrow> None | Inr (db', t) \<Rightarrow> Some (balance_of db')) =
    (if balance_of db (acc_id a) = Some (acc_current_balance a)
     then abs_post (acc_id a) (signed_amount (pt_type inp) (pt_amount inp)) (balance_of db) else None)"
proof -
  let ?s = "signed_amount (pt_type inp) (pt_amount inp)"
  have ok: "ledger_ok True db" using dep_reach_inv [OF assms(1)] by (simp add: dep_inv_def)
  have col: "rounding 2 (se_col E)" using E by (simp add: sv_env_ok_def)
  have s: "scaled 2 ?s" "?s \<noteq> 0"
    using scaled_signed [OF amount(2)] amount(1) signFor_cases [of "pt_type inp"] by (auto simp: signed_amount_def)
  show ?thesis
  proof (cases "PostTxnTx E inp db")
    case (Inr r)
    then obtain db' t where r: "PostTxnTx E inp db = Inr (db', t)" by (cases r) simp
    from post_balance [OF r acct ok E amount(2)] show ?thesis by (simp add: r abs_post_def)
  next
    case (Inl e)
    have "acc_current_balance a + ?s < 0" if bal: "balance_of db (acc_id a) = Some (acc_current_balance a)"
    proof (rule ccontr)
      assume "\<not> acc_current_balance a + ?s < 0"
      moreover obtain b where b: "b \<in> set (sv_accounts db)" "acc_id b = acc_id a" "acc_current_balance b = acc_current_balance a"
        using bal ledger_ok_parts(1) [OF ok] by (auto simp: balance_of_Some)
      moreover have "length (filter (\<lambda>b. acc_id b = acc_id a \<and> acc_current_balance b = acc_current_balance a) (sv_accounts db)) = 1"
        using one_account [OF ledger_ok_parts(1) [OF ok] b(1)] b(2,3) by simp
      moreover have "se_col E ?s \<noteq> 0" using rounding.exact [OF col s(1)] s(2) by simp
      ultimately show False using PostTxnTx_Inr [OF acct amount(1) _ _ _ chan, of db E] Inl by auto
    qed
    then show ?thesis by (simp add: Inl abs_post_def)
  qed
qed

definition ex_post :: "dep_account \<Rightarrow> decimal \<Rightarrow> post_dep_input" where
  "ex_post a x = post_dep_input a TxnWithdrawal x 9"

theorem post_refines_balance_witness:
  "\<exists>db T A a. dep_reach True (db :: sv_db, T, A) \<and> a \<in> set (sv_accounts db) \<and>
     (case PostTxnTx ex_sv_env (ex_post a 20) db of Inl e \<Rightarrow> None | Inr (db', t) \<Rightarrow> Some (balance_of db' (acc_id a))) = Some (Some 40) \<and>
     (\<exists>e. PostTxnTx ex_sv_env (ex_post a 70) db = Inl e)"
proof -
  obtain db T A where r: "dep_reach True (db :: sv_db, T, A)" "map acc_current_balance (sv_accounts db) = [60]"
    using ex_reached by (elim exE conjE) (rule that)
  then obtain a where a: "sv_accounts db = [a]" "acc_current_balance a = 60" by auto
  then have bal: "balance_of db (acc_id a) = Some 60" by (simp add: balance_of_def)
  have s: "signed_amount TxnWithdrawal x = - \<bar>x\<bar>" for x by (simp add: signed_amount_def signFor_def)
  have p: "pt_account (ex_post a x) = Some a" "pt_amount (ex_post a x) = x" "pt_channel (ex_post a x) = None"
    "pt_type (ex_post a x) = TxnWithdrawal" for x
    by (simp_all add: ex_post_def post_dep_input_def)
  from post_refines_balance [OF r(1) ex_sv_env_ok p(1), of 20] have "(case PostTxnTx ex_sv_env (ex_post a 20) db of
      Inl e \<Rightarrow> None | Inr (db', t) \<Rightarrow> Some (balance_of db')) = Some ((balance_of db)(acc_id a \<mapsto> 40))"
    by (simp add: p s abs_post_def bal a(2))
  moreover from post_refines_balance [OF r(1) ex_sv_env_ok p(1), of 70] have "(case PostTxnTx ex_sv_env (ex_post a 70) db of
      Inl e \<Rightarrow> None | Inr (db', t) \<Rightarrow> Some (balance_of db')) = None"
    by (simp add: p s abs_post_def bal a(2))
  ultimately show ?thesis using r(1) a(1)
    by (intro exI [of _ db] exI [of _ T] exI [of _ A] exI [of _ a]) (auto split: sum.splits prod.splits)
qed

section \<open>Approvals\<close>

lemma mark_decided_refused:
  assumes "distinct (map pa_id (sv_approvals db))" "a \<in> set (sv_approvals db)" "pa_status a \<noteq> ApprovalPending"
  shows "mark_decided (pa_id a) st user txn db = Inl (SvMsg ''no rows in result set'')"
proof -
  have "b = a" if "b \<in> set (sv_approvals db)" "pa_id b = pa_id a" for b
    using that assms(1,2) by (metis distinct_map inj_onD)
  with assms(3) show ?thesis by (auto simp: mark_decided_def)
qed

text \<open>An account opened with a deposit that waits for approval, and the approval declined.\<close>

lemma ex_queued:
  "\<exists>db r. Open ex_sv_env 9 ex_open (ex_sv True []) = Inr (db, r) \<and> map pa_status (sv_approvals db) = [ApprovalPending]"
  by (simp add: Open_def open_tx_def ex_open_def opening_term_def EligibleForProduct_def open_phases_def
      CreateDepAccountTx_def executeDepositInlineTx_def queueApproval_def ex_sv_ops ex_sv_data Let_def del: bind_res_Inr_iff)

lemma ex_declined:
  "\<exists>db T A a. dep_reach True (db :: sv_db, T, A) \<and> a \<in> set (sv_approvals db) \<and> pa_status a = ApprovalDeclined"
proof -
  obtain db r where o: "Open ex_sv_env 9 ex_open (ex_sv True []) = Inr (db, r)" "map pa_status (sv_approvals db) = [ApprovalPending]"
    using ex_queued by (elim exE conjE) (rule that)
  from o(2) obtain a where a: "sv_approvals db = [a]" "pa_status a = ApprovalPending" by auto
  let ?db = "db\<lparr>sv_approvals := [decided_by ApprovalDeclined 8 None a]\<rparr>"
  have dec: "decline_read a 8 ''no'' db = Inr ?db"
    by (simp add: decline_read_def a MarkDeclinedTx_def mark_decided_Inr)
  have "dep_step True (ex_sv True [], {}, {}) (db, {} \<union> set (sv_txns db), {} \<union> set (sv_approvals db))"
    by (rule dep_step.intros [OF ex_sv_env_ok]) (rule w_open [OF o(1)], simp add: ex_open_def)
  moreover have "dep_start (ex_sv True [], {}, {})" by (simp add: dep_start_def ex_sv_def)
  ultimately have "dep_reach True (db, {} \<union> set (sv_txns db), {} \<union> set (sv_approvals db))"
    using dep_reach.intros by blast
  moreover have "dep_step True (db, {} \<union> set (sv_txns db), {} \<union> set (sv_approvals db))
      (?db, ({} \<union> set (sv_txns db)) \<union> set (sv_txns ?db), ({} \<union> set (sv_approvals db)) \<union> set (sv_approvals ?db))"
    by (rule dep_step.intros [OF ex_sv_env_ok], rule w_decline [OF _ dec]) (simp add: a)
  ultimately have "dep_reach True (?db, ({} \<union> set (sv_txns db)) \<union> set (sv_txns ?db), ({} \<union> set (sv_approvals db)) \<union> set (sv_approvals ?db))"
    by (rule reach_step)
  then show ?thesis by (intro exI conjI) (assumption, simp, simp add: decided_by_def a)
qed

text \<open>C17. A decided legacy approval never changes again and is never executed again: whatever happens
  next it stays on file as it is; approving it, from however old a copy of the row, fails and rolls the
  executor back; declining and cancelling fail; and a repeated resolution by the workflow engine fails or
  changes nothing.\<close>

theorem approval_executes_once:
  assumes "dep_reach cents (db, T, A)" and "a \<in> set (sv_approvals db)" "pa_status a \<noteq> ApprovalPending"
    and "pa_id pa = pa_id a" and "sv_env_ok E"
  shows "(\<forall>r. approve_read E sh pa u db \<noteq> Inr r) \<and> (\<forall>msg r. decline_read pa u msg db \<noteq> Inr r) \<and>
    (\<forall>r. cancel_read pa u db \<noteq> Inr r) \<and> (\<forall>event r. resolve_read E event pa db = Inr r \<longrightarrow> r = db) \<and>
    (\<forall>s. dep_step cents (db, T, A) s \<longrightarrow> a \<in> set (sv_approvals (fst s)))"
proof -
  have inv: "dep_inv cents (db, T, A)" by (rule dep_reach_inv [OF assms(1)])
  then have q: "queue_ok cents db" and l: "ledger_ok cents db" and TA: "\<forall>t\<in>T. txn_ok t" "\<forall>a\<in>A. whole cents (pa_payload a)"
    by (simp_all add: dep_inv_def)
  have refused: "mark_decided (pa_id pa) st u' txn db1 \<noteq> Inr r" if "same_queue db db1" for st u' txn db1 r
    using mark_decided_refused [of db1 a st u' txn] that q assms(2-4) by (simp add: queue_ok_def same_queue_def)
  have run: "same_queue db db1" if "run_payload E pl m db = Inr (db1, t)" for pl m db1 t
    using run_payload_move [OF that assms(5), of False] by (simp add: whole_def ledger_move_def)
  have "approve_read E sh pa u db \<noteq> Inr r" for r
    using refused run by (cases r) (auto elim!: approve_read_E)
  moreover have "decline_read pa u msg db \<noteq> Inr r \<and> cancel_read pa u db \<noteq> Inr r" for msg r
    using refused [OF same_queue_refl] by (auto simp: decline_read_def cancel_read_def bind_ensure_Inr MarkDeclinedTx_def MarkCancelledTx_def)
  moreover have "r = db" if "resolve_read E event pa db = Inr r" for event r
    using that by (cases rule: resolve_read_cases) (use refused run same_queue_refl in blast)+
  moreover have "a \<in> set (sv_approvals (fst s))" if "dep_step cents (db, T, A) s" for s
    using that
  proof (rule dep_stepE)
    fix E' T' A' db0 db'
    assume "(db, T, A) = (db0, T', A')" "s = (db', T' \<union> set (sv_txns db'), A' \<union> set (sv_approvals db'))"
      "sv_env_ok E'" "dep_write cents T' A' E' db0 db'"
    then show ?thesis using write_ok [of cents T A E' db db'] l q TA assms(2,3) by (auto simp: decided_kept_def)
  qed
  ultimately show ?thesis by blast
qed

theorem approval_executes_once_witness:
  "\<exists>db T A a. dep_reach True (db :: sv_db, T, A) \<and> a \<in> set (sv_approvals db) \<and> pa_status a = ApprovalDeclined \<and>
     (\<forall>sh r. approve_read ex_sv_env sh (a\<lparr>pa_status := ApprovalPending\<rparr>) 8 db \<noteq> Inr r)"
proof -
  obtain db T A a where d: "dep_reach True (db :: sv_db, T, A)" "a \<in> set (sv_approvals db)" "pa_status a = ApprovalDeclined"
    using ex_declined by blast
  then have "pa_status a \<noteq> ApprovalPending" by simp
  from approval_executes_once [OF d(1,2) this _ ex_sv_env_ok, of "a\<lparr>pa_status := ApprovalPending\<rparr>"]
  have "\<forall>sh r. approve_read ex_sv_env sh (a\<lparr>pa_status := ApprovalPending\<rparr>) 8 db \<noteq> Inr r" by simp
  with d show ?thesis by blast
qed

section \<open>Queued entries\<close>

lemma negative_first_line:
  assumes "decimal_text D" "scaled 2 x" "x < 0" "pq_lines req = line_dto D (debit_line code x narr) # ls"
  shows "\<exists>e. Post D N tok hdr gl pid eid now today req = Inl e"
proof -
  have "parseAmt D (dl_debit (line_dto D (debit_line code x narr))) = Inl ''must be non-negative''"
    using assms(1-3) by (simp add: parseAmt_def line_dto_def debit_line_def fixed_amount_def
        decimal_text.parse_fixed_exact decimal_text.fixed_nonempty)
  then have "parsePostLines D 0 (pq_lines req) \<noteq> Inr ps" for ps
    by (simp add: assms(4))
  then show ?thesis by (cases "Post D N tok hdr gl pid eid now today req") (auto simp: Post_def validate_post_def split: if_splits)
qed

lemma sv_post_row:
  "sv_post E inp db = Inr db' \<Longrightarrow> se_posting E = Some False \<Longrightarrow>
    \<exists>row. sv_outbox db' = sv_outbox db @ [row] \<and> ob_payload row = post_body (se_dec E) inp"
  by (auto simp: sv_post_def OutboxPostTx_def split: if_splits)

lemma post_outbox: "PostTxnTx E inp db = Inr (db', t) \<Longrightarrow> sv_outbox db' = sv_outbox db"
  by (erule PostTxnTx_E) simp

lemma outflow_amount:
  assumes "PostTxnTx E inp db = Inr (db', t)" "sv_env_ok E" "pt_type inp \<in> {TxnWithdrawal, TxnDepTransferOut}"
  shows "scaled 2 (tx_amount t)" "tx_amount t < 0"
proof -
  have "txn_ok t" using post_txn_ok [OF assms(1)] assms(2) by (simp add: sv_env_ok_def)
  moreover have "tx_type t = pt_type inp" using assms(1) by (rule PostTxnTx_E)
  ultimately show "scaled 2 (tx_amount t)" "tx_amount t < 0"
    using assms(3) by (auto simp: txn_ok_def signFor_def)
qed

lemma withdrawal_entry_refused:
  assumes "ExecuteWithdrawalTx E p maker db = Inr (db1, t, a)" "PostWithdrawalTx E t a ch db1 = Inr db'"
    and "sv_env_ok E" "se_posting E = Some False"
  shows "\<exists>row. sv_outbox db' = sv_outbox db @ [row] \<and>
    (\<forall>N tok hdr gl pid eid now today. \<exists>e. Post (se_dec E) N tok hdr gl pid eid now today (ob_payload row) = Inl e)"
  using assms(1)
proof (rule ExecuteWithdrawalTx_E)
  fix inp db2
  assume p: "PostTxnTx E inp db = Inr (db2, t)" "pt_type inp = TxnWithdrawal"
    "db1 = ClearWithdrawalNoticeTx (wpl_account_id p) db2"
  from p(3) have o: "sv_outbox db1 = sv_outbox db" using post_outbox [OF p(1)]
    by (simp add: ClearWithdrawalNoticeTx_def update_acct_def)
  obtain row where row: "sv_outbox db' = sv_outbox db1 @ [row]"
    "pq_lines (ob_payload row) = line_dto (se_dec E) (debit_line (resolveLiabilityAcctTx db1 (acc_product_id a))
        (tx_amount t) ''Member savings debited'') # [line_dto (se_dec E) (credit_line (channelCashAccount ch) (tx_amount t) ''Cash paid out'')]"
    using sv_post_row [OF assms(2) [unfolded PostWithdrawalTx_def] assms(4)] by (auto simp: post_body_def entry_input_def)
  have "decimal_text (se_dec E)" using assms(3) by (simp add: sv_env_ok_def)
  from negative_first_line [OF this outflow_amount [OF p(1) assms(3)] row(2)] p(2) row(1) o show ?thesis by auto
qed

lemma transfer_entry_refused:
  assumes "ExecuteDepTransferTx E p maker db = Inr (db1, (t, a), (u, b))" "PostDepositTransferTx E t a b db1 = Inr db'"
    and "sv_env_ok E" "se_posting E = Some False"
  shows "\<exists>row. sv_outbox db' = sv_outbox db @ [row] \<and>
    (\<forall>N tok hdr gl pid eid now today. \<exists>e. Post (se_dec E) N tok hdr gl pid eid now today (ob_payload row) = Inl e)"
  using assms(1)
proof (rule ExecuteDepTransferTx_E)
  fix inp inp' db2 db3
  assume p: "PostTxnTx E inp db = Inr (db2, t)" "pt_type inp = TxnDepTransferOut" "PostTxnTx E inp' db2 = Inr (db3, u)"
    "db1 = LinkCounterpartyTxnTx (tx_id t) (tx_id u) db3"
  note neg = outflow_amount [OF p(1) assms(3)]
  from p(4) have o: "sv_outbox db1 = sv_outbox db" using post_outbox [OF p(1)] post_outbox [OF p(3)]
    by (simp add: LinkCounterpartyTxnTx_def update_txn_def)
  have "tx_amount t \<noteq> 0" using neg(2) p(2) by simp
  with assms(2) have "\<exists>n. sv_post E (entry_input E ''savings.deposits.transfer'' (se_uuid E (tx_id t)) n
        [debit_line (resolveLiabilityAcctTx db1 (acc_product_id a)) (tx_amount t) (''Transfer out ('' @ acc_account_no a @ '')''),
         credit_line (resolveLiabilityAcctTx db1 (acc_product_id b)) (tx_amount t) (''Transfer in ('' @ acc_account_no b @ '')'')]) db1
      = Inr db'" by (auto simp: PostDepositTransferTx_def)
  then obtain row code narr l where row: "sv_outbox db' = sv_outbox db1 @ [row]"
    "pq_lines (ob_payload row) = line_dto (se_dec E) (debit_line code (tx_amount t) narr) # [l]"
    using sv_post_row [OF _ assms(4)] by (fastforce simp: post_body_def entry_input_def)
  have "decimal_text (se_dec E)" using assms(3) by (simp add: sv_env_ok_def)
  from negative_first_line [OF this neg row(2)] p(2) row(1) o show ?thesis by auto
qed



section \<open>Transfers and reversals\<close>


lemma reach_write:
  "dep_reach True (db, T, A) \<Longrightarrow> dep_write True T A ex_sv_env db db' \<Longrightarrow>
    dep_reach True (db', T \<union> set (sv_txns db'), A \<union> set (sv_approvals db'))"
  by (blast intro: dep_reach.intros dep_step.intros ex_sv_env_ok)

text \<open>Two accounts of the member with sixty shillings each.\<close>

lemma ex_two:
  "\<exists>db1 r1 db2 r2 db3 t a u b. Open ex_sv_env 9 ex_open (ex_sv False []) = Inr (db1, r1) \<and>
     Open ex_sv_env 9 ex_open db1 = Inr (db2, r2) \<and>
     ExecuteDepTransferTx ex_sv_env (ex_transfer_p 100 103 20) 9 db2 = Inr (db3, (t, a), (u, b))"
  by (simp add: Open_def open_tx_def ex_open_def opening_term_def EligibleForProduct_def open_phases_def
      CreateDepAccountTx_def executeDepositInlineTx_def ExecuteDepositTx_def ex_withdrawal_ops ex_sv_ops ex_sv_data Let_def
      del: bind_res_Inr_iff)

lemma ex_transfer_reached:
  "\<exists>db T A r. dep_reach True (db :: sv_db, T, A) \<and> ExecuteDepTransferTx ex_sv_env (ex_transfer_p 100 103 20) 9 db = Inr r"
proof -
  obtain db1 r1 db2 r2 db3 t a u b where o: "Open ex_sv_env 9 ex_open (ex_sv False []) = Inr (db1, r1)"
    "Open ex_sv_env 9 ex_open db1 = Inr (db2, r2)"
    "ExecuteDepTransferTx ex_sv_env (ex_transfer_p 100 103 20) 9 db2 = Inr (db3, (t, a), (u, b))"
    using ex_two by (elim exE conjE) (rule that)
  have c: "True \<longrightarrow> scaled 2 (oq_opening_deposit ex_open)" by (simp add: ex_open_def)
  from reach_write [OF reach_start [OF ex_dep_start] w_open [OF o(1) c]]
  obtain T A where "dep_reach True (db1, T, A)" by blast
  from reach_write [OF this w_open [OF o(2) c]] o(3) show ?thesis by blast
qed


text \<open>A reversal takes the amount of the row it read from the balance of that row's account and from
  nowhere else: every other row, the other leg of a transfer among them, stays as it was, so reversing
  one leg changes the total of the accounts by that leg's amount.\<close>

theorem reversal_one_sided:
  assumes "dep_reach True (db, T, A)" "orig \<in> T" and E: "sv_env_ok E"
    and ex: "reverse_handler E orig reason user db = Inr (db', rv)"
  shows "tx_amount rv = - tx_amount orig \<and> total_balance db' = total_balance db - tx_amount orig \<and>
    (\<exists>x. balance_of db (tx_account_id orig) = Some x \<and>
      balance_of db' = (balance_of db)(tx_account_id orig \<mapsto> x - tx_amount orig)) \<and>
    (\<forall>t\<in>set (sv_txns db). tx_id t \<noteq> tx_id orig \<longrightarrow> t \<in> set (sv_txns db'))"
proof -
  have ok: "ledger_ok True db" and to: "txn_ok orig"
    using dep_reach_inv [OF assms(1)] assms(2) by (simp_all add: dep_inv_def)
  from ex obtain inp acct where h: "PostTxnTx E inp db = Inr (db', rv)" "pt_amount inp = - tx_amount orig"
    "pt_type inp = TxnReversal" "pt_account inp = Some acct" "GetDepAccountTx db (tx_account_id orig) = Inr acct"
    "pt_reverses_txn_id inp = Some (tx_id orig)" by (rule reverse_handler_E)
  have sc: "scaled 2 (pt_amount inp)" using to by (simp add: h(2) txn_ok_def scaled_minus)
  have s: "signed_amount TxnReversal (- tx_amount orig) = - tx_amount orig" by (simp add: signed_amount_def signFor_def)
  have id: "acc_id acct = tx_account_id orig" using GetDepAccountTx_Inr [OF h(5)] by simp
  note pb = post_balance [OF h(1,4) ok E sc, unfolded h(2,3) s id]
  have "t \<in> set (sv_txns db')" if "t \<in> set (sv_txns db)" "tx_id t \<noteq> tx_id orig" for t
    using h(1)
  proof (rule PostTxnTx_E)
    fix a dy sq
    assume "db' = posted_db E a (signed_amount (pt_type inp) (pt_amount inp)) (pt_reverses_txn_id inp) rv dy sq db"
    then have "sv_txns db' = map (mark_reversed (Some (tx_id orig)) (tx_id rv)) (sv_txns db @ [rv])" by (simp add: h(6))
    moreover have "mark_reversed (Some (tx_id orig)) (tx_id rv) t = t" using that(2) by (simp add: mark_reversed_def)
    ultimately show ?thesis using that(1) by (force simp: image_iff)
  qed
  then show ?thesis using pb post_total [OF h(1,4) ok E sc] by (simp add: h(2,3) s)
qed

lemma ex_reversed:
  "\<exists>db r db' rv. Open ex_sv_env 9 ex_open (ex_sv False []) = Inr (db, r) \<and> map tx_amount (sv_txns db) = [60] \<and>
     reverse_handler ex_sv_env (hd (sv_txns db)) ''error'' 9 db = Inr (db', rv)"
  by (simp add: Open_def open_tx_def ex_open_def opening_term_def EligibleForProduct_def open_phases_def reverse_handler_def
      CreateDepAccountTx_def executeDepositInlineTx_def ExecuteDepositTx_def ex_withdrawal_ops ex_sv_ops ex_sv_data Let_def
      del: bind_res_Inr_iff)

theorem reversal_one_sided_witness:
  "\<exists>db T A orig db' rv. dep_reach True (db :: sv_db, T, A) \<and> orig \<in> T \<and> tx_amount orig = 60 \<and>
     reverse_handler ex_sv_env orig ''error'' 9 db = Inr (db', rv) \<and> total_balance db' = total_balance db - 60"
proof -
  obtain db r where o: "Open ex_sv_env 9 ex_open (ex_sv False []) = Inr (db, r)"
    "map tx_amount (sv_txns db) = [60]" "\<exists>db' rv. reverse_handler ex_sv_env (hd (sv_txns db)) ''error'' 9 db = Inr (db', rv)"
    using ex_reversed by (elim exE conjE) (rule that, assumption, assumption, intro exI, assumption)
  have c: "True \<longrightarrow> scaled 2 (oq_opening_deposit ex_open)" by (simp add: ex_open_def)
  note r = reach_write [OF reach_start [OF ex_dep_start] w_open [OF o(1) c]]
  from o(2) obtain t where t: "sv_txns db = [t]" "tx_amount t = 60" by auto
  from o(3) obtain db' rv where v: "reverse_handler ex_sv_env t ''error'' 9 db = Inr (db', rv)" by (auto simp: t)
  have m: "t \<in> {} \<union> set (sv_txns db)" by (simp add: t)
  from reversal_one_sided [OF r m ex_sv_env_ok v] t(2) have "total_balance db' = total_balance db - 60" by simp
  with r m v t(2) show ?thesis by blast
qed

section \<open>Callbacks\<close>


definition ex_wf :: sv_db where
  "ex_wf = (ex_sv True [])\<lparr>sv_wf_kinds := [''cash_deposit'']\<rparr>"

lemmas ex_open_ops = Open_def open_tx_def ex_open_def opening_term_def EligibleForProduct_def open_phases_def ex_wf_def
  CreateDepAccountTx_def executeDepositInlineTx_def queueApproval_def Handle_def cash_callback_def run_payload_def
  ExecuteDepositTx_def

lemma ex_instance:
  "\<exists>db r p. Open ex_sv_env 9 ex_open ex_wf = Inr (db, r) \<and> map wi_payload (sv_instances db) = [PayDeposit p]"
  by (simp add: ex_open_ops ex_withdrawal_ops ex_sv_ops ex_sv_data Let_def del: bind_res_Inr_iff)

lemma ex_delivered:
  "\<exists>db r db1 db2. Open ex_sv_env 9 ex_open ex_wf = Inr (db, r) \<and>
     Handle ex_sv_env True ''approved'' (hd (sv_instances db)) db = Inr db1 \<and>
     Handle ex_sv_env True ''approved'' (hd (sv_instances db)) db1 = Inr db2"
  by (simp add: ex_open_ops ex_withdrawal_ops ex_sv_ops ex_sv_data Let_def del: bind_res_Inr_iff)


section \<open>Liens\<close>

text \<open>What an approved deposit, withdrawal or transfer does is independent of the liens on the accounts:
  with other liens on file the same rows are written and the same errors returned, so a lien placed while
  the request waits does not stop it.\<close>

theorem executors_ignore_liens:
  "run_payload E pl maker (with_liens ls bs db) =
    (case run_payload E pl maker db of Inl e \<Rightarrow> Inl e | Inr (db', txn) \<Rightarrow> Inr (with_liens ls bs db', txn))"
proof -
  have "run_payload E pl maker (with_liens ls bs db) = on_tables (with_liens ls bs) (run_payload E pl maker db)"
    by (cases pl) (simp_all add: run_payload_def executors_liens entries_liens bind_map_sum map_sum_bind case_prod_unfold)
  then show ?thesis by (cases "run_payload E pl maker db") auto
qed

text \<open>A withdrawal executed at once leaves at least the sum of the active liens in the account, of a
  product that is not a member deposit, and never from a dormant account.\<close>

theorem withdrawal_keeps_liens:
  assumes "dep_reach True (db, T, A)" and E: "sv_env_ok E" "se_liens E" and sc: "scaled 2 (wpl_amount p)"
    and w: "Withdraw E user p db = Inr (db', Posted ids)"
  shows "\<exists>acct prod. GetDepAccountTx db (wpl_account_id p) = Inr acct \<and> GetProductTx db (acc_product_id acct) = Inr prod \<and>
    pd_segment prod \<noteq> SegmentBOSA \<and> acc_status acct \<noteq> AcctDormant \<and>
    balance_of db' = (balance_of db)(wpl_account_id p \<mapsto> acc_current_balance acct - wpl_amount p) \<and>
    SumActiveDepositLiensTx db (wpl_account_id p) \<le> acc_current_balance acct - wpl_amount p"
proof -
  have ok: "ledger_ok True db" using dep_reach_inv [OF assms(1)] by (simp add: dep_inv_def)
  from w have pos: "0 < wpl_amount p" and "withdraw_tx E user p db = Inr (db', Posted ids)"
    by (simp_all add: Withdraw_def bind_ensure_Inr)
  then obtain prod acct m where l: "loadProductAccount db (wpl_account_id p) = Inr (prod, acct, m)"
    "pd_segment prod \<noteq> SegmentBOSA" "acc_status acct \<noteq> AcctDormant" "withdraw_acct E user p acct db = Inr (db', Posted ids)"
    by (auto simp: withdraw_tx_def bind_ensure_Inr elim!: bind_resE)
  from l(4) have li: "\<not> acc_current_balance acct - SumActiveDepositLiensTx db (wpl_account_id p) < wpl_amount p"
    using E(2) by (auto simp: withdraw_acct_def split: if_splits)
  from l(4) obtain db1 t a where e: "ExecuteWithdrawalTx E p user db = Inr (db1, t, a)" "PostWithdrawalTx E t a (wpl_channel p) db1 = Inr db'"
    by (auto simp: withdraw_acct_def Let_def elim!: bind_resE split: if_splits prod.splits)
  from e(1) obtain prod' acct' m' inp db2 where h: "loadProductAccount db (wpl_account_id p) = Inr (prod', acct', m')"
    "PostTxnTx E inp db = Inr (db2, t)" "pt_account inp = Some acct'" "pt_type inp = TxnWithdrawal" "pt_amount inp = wpl_amount p"
    "db1 = ClearWithdrawalNoticeTx (wpl_account_id p) db2" by (rule ExecuteWithdrawalTx_E)
  have s: "signed_amount TxnWithdrawal (wpl_amount p) = - wpl_amount p" using pos by (simp add: signed_amount_def signFor_def)
  have id: "acc_id acct = wpl_account_id p" "acct' = acct"
    using h(1) l(1) by (auto dest!: loadProductAccount_Inr GetDepAccountTx_Inr)
  have sc': "scaled 2 (pt_amount inp)" using sc h(5) by simp
  note pb = post_balance [OF h(2,3) ok E(1) sc', unfolded h(4,5) s id]
  obtain ob n where "db' = db1\<lparr>sv_outbox := ob, sv_supply := sv_supply db1 + n\<rparr>" using entry_same(2) [OF e(2)] by blast
  then have "balance_of db' = balance_of db1" by (simp add: balance_of_def [abs_def])
  moreover have "balance_of db1 = balance_of db2"
    by (rule ext) (simp add: h(6) ClearWithdrawalNoticeTx_def update_acct_def balance_of_def find_acct_map option.map_comp comp_def if_distrib cong: if_cong)
  ultimately show ?thesis using pb(3) l li by (auto dest!: loadProductAccount_Inr)
qed

lemma ex_withdrawn:
  "\<exists>db r db' ids. Open ex_sv_env 9 ex_open (ex_sv False []) = Inr (db, r) \<and>
     Withdraw ex_sv_env 9 (ex_withdrawal_p 100 25) db = Inr (db', Posted ids)"
  by (simp add: ex_open_ops Withdraw_def withdraw_tx_def withdraw_acct_def ExecuteWithdrawalTx_def SumActiveDepositLiensTx_def
      ex_withdrawal_ops ex_sv_ops ex_sv_data Let_def del: bind_res_Inr_iff)

theorem withdrawal_keeps_liens_witness:
  "\<exists>db T A db' ids acct. dep_reach True (db :: sv_db, T, A) \<and>
     Withdraw ex_sv_env 9 (ex_withdrawal_p 100 25) db = Inr (db', Posted ids) \<and> GetDepAccountTx db 100 = Inr acct \<and>
     SumActiveDepositLiensTx db 100 \<le> acc_current_balance acct - 25"
proof -
  obtain db r db' ids where o: "Open ex_sv_env 9 ex_open (ex_sv False []) = Inr (db, r)"
    "Withdraw ex_sv_env 9 (ex_withdrawal_p 100 25) db = Inr (db', Posted ids)"
    using ex_withdrawn by (elim exE conjE) (rule that)
  have c: "True \<longrightarrow> scaled 2 (oq_opening_deposit ex_open)" by (simp add: ex_open_def)
  note r = reach_write [OF reach_start [OF ex_dep_start] w_open [OF o(1) c]]
  have "se_liens ex_sv_env" "scaled 2 (wpl_amount (ex_withdrawal_p 100 25))" by (simp_all add: ex_sv_env_def ex_withdrawal_p_def)
  from withdrawal_keeps_liens [OF r ex_sv_env_ok this o(2)] obtain acct where "GetDepAccountTx db 100 = Inr acct"
    "SumActiveDepositLiensTx db 100 \<le> acc_current_balance acct - 25" by (auto simp: ex_withdrawal_p_def)
  with r o(2) show ?thesis by (intro exI conjI)
qed

end
