(* ===== verification/LoanSchedule.thy ===== *)
theory LoanSchedule
  imports DepositStore
begin

text \<open>
  The amortization tables of services/savings/internal/domain/loan_amortization.go. Each of the four
  repayment methods is a loop over the installments, here a recursion on how many are left. The
  annuity of the reducing-balance method is computed in \<open>float64\<close>
  (\<open>p * r / (1.0 - math.Pow(1.0+r, -n))\<close>): its value, read back by
  \<open>decimal.NewFromFloat\<close>, is the argument \<open>pmt\<close>, and \<open>annuity\<close> is what it
  approximates.
\<close>

section \<open>The generator\<close>

datatype interest_method = InterestFlat | InterestReducing

datatype repayment_method = RepayReducingBalance | RepayFlatRate | RepayBullet | RepayInterestOnly

record schedule_row =
  sr_installment_no :: nat
  sr_due_date :: go_time
  sr_principal_due :: decimal
  sr_interest_due :: decimal
  sr_fee_due :: decimal
  sr_total_due :: decimal
  sr_outstanding_after :: decimal

definition firstDueDate :: "go_time \<Rightarrow> int \<Rightarrow> go_time" where
  "firstDueDate disbursed grace = add_months_time disbursed (grace + 1)"

definition schedule_row :: "go_time \<Rightarrow> nat \<Rightarrow> decimal \<Rightarrow> decimal \<Rightarrow> decimal \<Rightarrow> schedule_row" where
  "schedule_row firstDue i p intr remaining = \<lparr> sr_installment_no = i,
     sr_due_date = add_months_time firstDue (int i - 1), sr_principal_due = p, sr_interest_due = intr,
     sr_fee_due = 0, sr_total_due = p + intr, sr_outstanding_after = remaining \<rparr>"

definition pay_down :: "decimal \<Rightarrow> decimal \<Rightarrow> decimal" where
  "pay_down remaining p = (if remaining - p < 0 then 0 else remaining - p)"

fun reducing_rows ::
  "decimal_lib \<Rightarrow> decimal \<Rightarrow> decimal \<Rightarrow> go_time \<Rightarrow> nat \<Rightarrow> nat \<Rightarrow> decimal \<Rightarrow> schedule_row list" where
  "reducing_rows D r inst firstDue i 0 remaining = []"
| "reducing_rows D r inst firstDue i (Suc k) remaining =
     (let interestDue = (if r = 0 then 0 else dRound D 2 (remaining * r));
          principalDue = (if k = 0 then remaining else if r = 0 then inst else inst - interestDue)
      in schedule_row firstDue i principalDue interestDue (pay_down remaining principalDue) #
         reducing_rows D r inst firstDue (Suc i) k (pay_down remaining principalDue))"

definition monthly_rate :: "decimal_lib \<Rightarrow> decimal \<Rightarrow> decimal" where
  "monthly_rate D annualRatePct = dDiv D annualRatePct 1200"

definition scheduleReducingBalance ::
  "decimal_lib \<Rightarrow> (decimal \<Rightarrow> decimal \<Rightarrow> nat \<Rightarrow> decimal) \<Rightarrow> decimal \<Rightarrow> decimal \<Rightarrow> nat \<Rightarrow> go_time \<Rightarrow> schedule_row list" where
  "scheduleReducingBalance D pmt P annualRatePct n firstDue =
     (let r = monthly_rate D annualRatePct;
          installment = (if r = 0 then dRound D 2 (dDiv D P (of_nat n)) else dRound D 2 (pmt P r n))
      in reducing_rows D r installment firstDue 1 n P)"

fun flat_rows ::
  "decimal_lib \<Rightarrow> decimal \<Rightarrow> decimal \<Rightarrow> decimal \<Rightarrow> nat \<Rightarrow> go_time \<Rightarrow> nat \<Rightarrow> nat \<Rightarrow> decimal \<Rightarrow> schedule_row list" where
  "flat_rows D principalPer interestPer totalInterest n firstDue i 0 remaining = []"
| "flat_rows D principalPer interestPer totalInterest n firstDue i (Suc k) remaining =
     (let p = (if k = 0 then remaining else principalPer);
          intr = (if k = 0 then dRound D 2 (totalInterest - interestPer * of_nat (n - 1)) else interestPer)
      in schedule_row firstDue i p intr (pay_down remaining p) #
         flat_rows D principalPer interestPer totalInterest n firstDue (Suc i) k (pay_down remaining p))"

definition simple_interest :: "decimal_lib \<Rightarrow> decimal \<Rightarrow> decimal \<Rightarrow> nat \<Rightarrow> decimal" where
  "simple_interest D P annualRatePct n =
     dRound D 2 (dDiv D (P * annualRatePct) 100 * dDiv D (of_nat n) 12)"

definition scheduleFlatRate ::
  "decimal_lib \<Rightarrow> decimal \<Rightarrow> decimal \<Rightarrow> nat \<Rightarrow> go_time \<Rightarrow> schedule_row list" where
  "scheduleFlatRate D P annualRatePct n firstDue =
     (let totalInterest = simple_interest D P annualRatePct n;
          principalPer = dRound D 2 (dDiv D P (of_nat n));
          interestPer = dRound D 2 (dDiv D totalInterest (of_nat n))
      in flat_rows D principalPer interestPer totalInterest n firstDue 1 n P)"

text \<open>Both interest methods compute simple interest.\<close>

definition scheduleBullet ::
  "decimal_lib \<Rightarrow> decimal \<Rightarrow> decimal \<Rightarrow> nat \<Rightarrow> go_time \<Rightarrow> interest_method \<Rightarrow> schedule_row list" where
  "scheduleBullet D P annualRatePct n firstDue im =
     (let interest = (case im of InterestFlat \<Rightarrow> simple_interest D P annualRatePct n
            | InterestReducing \<Rightarrow> simple_interest D P annualRatePct n)
      in [(schedule_row firstDue 1 P interest 0)
            \<lparr>sr_due_date := add_months_time firstDue (int n - 1)\<rparr>])"

fun interest_only_rows :: "decimal \<Rightarrow> go_time \<Rightarrow> nat \<Rightarrow> nat \<Rightarrow> decimal \<Rightarrow> schedule_row list" where
  "interest_only_rows monthlyInt firstDue i 0 remaining = []"
| "interest_only_rows monthlyInt firstDue i (Suc k) remaining =
     (let p = (if k = 0 then remaining else 0)
      in schedule_row firstDue i p monthlyInt (remaining - p) #
         interest_only_rows monthlyInt firstDue (Suc i) k (remaining - p))"

definition scheduleInterestOnly ::
  "decimal_lib \<Rightarrow> decimal \<Rightarrow> decimal \<Rightarrow> nat \<Rightarrow> go_time \<Rightarrow> schedule_row list" where
  "scheduleInterestOnly D P annualRatePct n firstDue =
     interest_only_rows (dRound D 2 (dDiv D (P * annualRatePct) 1200)) firstDue 1 n P"

definition GenerateSchedule ::
  "decimal_lib \<Rightarrow> (decimal \<Rightarrow> decimal \<Rightarrow> nat \<Rightarrow> decimal) \<Rightarrow> decimal \<Rightarrow> decimal \<Rightarrow> int \<Rightarrow> int \<Rightarrow> go_time
    \<Rightarrow> interest_method \<Rightarrow> repayment_method \<Rightarrow> schedule_row list" where
  "GenerateSchedule D pmt P annualRatePct termMonths gracePeriodMonths disbursementDate im rm =
     (if termMonths \<le> 0 \<or> P \<le> 0 then []
      else let firstDue = firstDueDate disbursementDate gracePeriodMonths; n = nat termMonths in
        (case rm of
           RepayReducingBalance \<Rightarrow> scheduleReducingBalance D pmt P annualRatePct n firstDue
         | RepayFlatRate \<Rightarrow> scheduleFlatRate D P annualRatePct n firstDue
         | RepayBullet \<Rightarrow> scheduleBullet D P annualRatePct n firstDue im
         | RepayInterestOnly \<Rightarrow> scheduleInterestOnly D P annualRatePct n firstDue))"

text \<open>The exact annuity.\<close>

definition annuity :: "decimal \<Rightarrow> decimal \<Rightarrow> nat \<Rightarrow> decimal" where
  "annuity p r n = p * r / (1 - 1 / (1 + r) ^ n)"

section \<open>Paying a principal down\<close>

text \<open>
  Every method builds rows that pay a remaining principal down, never below zero; \<open>overshoot\<close>
  is by how much the rows ask for more than what remained.
\<close>

fun pays_down :: "decimal \<Rightarrow> schedule_row list \<Rightarrow> bool" where
  "pays_down x [] = (x = 0)"
| "pays_down x (s # ss) \<longleftrightarrow> sr_outstanding_after s = pay_down x (sr_principal_due s) \<and>
     pays_down (sr_outstanding_after s) ss"

fun overshoot :: "decimal \<Rightarrow> schedule_row list \<Rightarrow> decimal" where
  "overshoot x [] = 0"
| "overshoot x (s # ss) = max 0 (sr_principal_due s - x) + overshoot (sr_outstanding_after s) ss"

definition principal_sum :: "schedule_row list \<Rightarrow> decimal" where
  "principal_sum ss = sum_list (map sr_principal_due ss)"

definition interest_sum :: "schedule_row list \<Rightarrow> decimal" where
  "interest_sum ss = sum_list (map sr_interest_due ss)"

lemma sums_simps [simp]:
  "principal_sum [] = 0" "principal_sum (s # ss) = sr_principal_due s + principal_sum ss"
  "interest_sum [] = 0" "interest_sum (s # ss) = sr_interest_due s + interest_sum ss"
  by (simp_all add: principal_sum_def interest_sum_def)

lemma schedule_row_simps [simp]:
  "sr_installment_no (schedule_row f i p t x) = i"
  "sr_due_date (schedule_row f i p t x) = add_months_time f (int i - 1)"
  "sr_principal_due (schedule_row f i p t x) = p"
  "sr_interest_due (schedule_row f i p t x) = t"
  "sr_fee_due (schedule_row f i p t x) = 0"
  "sr_total_due (schedule_row f i p t x) = p + t"
  "sr_outstanding_after (schedule_row f i p t x) = x"
  by (simp_all add: schedule_row_def)

lemma pay_down_all [simp]: "pay_down x x = 0"
  by (simp add: pay_down_def)

lemma pay_down_nonneg [simp]: "0 \<le> pay_down x p"
  by (simp add: pay_down_def)

lemma pays_down_sum: "pays_down x ss \<Longrightarrow> principal_sum ss = x + overshoot x ss"
  by (induction x ss rule: pays_down.induct) (auto simp: pay_down_def max_def split: if_splits)

lemma overshoot_nonneg: "0 \<le> overshoot x ss"
  by (induction x ss rule: overshoot.induct) simp_all

lemma reducing_pays_down: "0 < k \<Longrightarrow> pays_down x (reducing_rows D r inst f i k x)"
  by (induction D r inst f i k x rule: reducing_rows.induct) (auto simp: Let_def)

lemma flat_pays_down: "0 < k \<Longrightarrow> pays_down x (flat_rows D p t w n f i k x)"
  by (induction D p t w n f i k x rule: flat_rows.induct) (auto simp: Let_def)

lemma interest_only_pays_down: "0 < k \<Longrightarrow> 0 \<le> x \<Longrightarrow> pays_down x (interest_only_rows t f i k x)"
  by (induction t f i k x rule: interest_only_rows.induct) (auto simp: Let_def pay_down_def)

section \<open>Numbers and due dates\<close>

text \<open>The rows are numbered from \<open>i\<close> and fall due a month apart.\<close>

definition numbered_from :: "go_time \<Rightarrow> nat \<Rightarrow> nat \<Rightarrow> schedule_row list \<Rightarrow> bool" where
  "numbered_from f i k ss \<longleftrightarrow> map sr_installment_no ss = [i..<i + k] \<and>
     map sr_due_date ss = map (\<lambda>j. add_months_time f (int j - 1)) [i..<i + k]"

lemma numbered_from_Nil [simp]: "numbered_from f i 0 []"
  by (simp add: numbered_from_def)

lemma numbered_from_Cons [simp]:
  "numbered_from f i (Suc k) (schedule_row f i p t x # ss) \<longleftrightarrow> numbered_from f (Suc i) k ss"
proof -
  have "[i..<i + Suc k] = i # [Suc i..<Suc i + k]" by (simp add: upt_conv_Cons)
  then show ?thesis by (simp add: numbered_from_def)
qed

lemma reducing_numbered: "numbered_from f i k (reducing_rows D r inst f i k x)"
  by (induction D r inst f i k x rule: reducing_rows.induct) (auto simp: Let_def)

lemma flat_numbered: "numbered_from f i k (flat_rows D p t w n f i k x)"
  by (induction D p t w n f i k x rule: flat_rows.induct) (auto simp: Let_def)

lemma interest_only_numbered: "numbered_from f i k (interest_only_rows t f i k x)"
  by (induction t f i k x rule: interest_only_rows.induct) (auto simp: Let_def)

definition row_adds_up :: "schedule_row \<Rightarrow> bool" where
  "row_adds_up s \<longleftrightarrow> sr_total_due s = sr_principal_due s + sr_interest_due s + sr_fee_due s \<and> sr_fee_due s = 0"

lemma row_adds_up_schedule_row [simp]: "row_adds_up (schedule_row f i p t x)"
  by (simp add: row_adds_up_def)

lemma reducing_adds_up: "list_all row_adds_up (reducing_rows D r inst f i k x)"
  by (induction D r inst f i k x rule: reducing_rows.induct) (simp_all add: Let_def)

lemma flat_adds_up: "list_all row_adds_up (flat_rows D p t w n f i k x)"
  by (induction D p t w n f i k x rule: flat_rows.induct) (simp_all add: Let_def)

lemma interest_only_adds_up: "list_all row_adds_up (interest_only_rows t f i k x)"
  by (induction t f i k x rule: interest_only_rows.induct) (simp_all add: Let_def)

section \<open>Flat rate\<close>

lemma flat_no_overshoot:
  "0 \<le> p \<Longrightarrow> of_nat (k - 1) * p \<le> x \<Longrightarrow> overshoot x (flat_rows D p t w n f i k x) = 0"
proof (induction k arbitrary: i x)
  case 0
  then show ?case by simp
next
  case (Suc k)
  show ?case
  proof (cases k)
    case 0
    then show ?thesis by simp
  next
    case (Suc l)
    have "p + of_nat l * p \<le> x" using Suc.prems(2) unfolding Suc by (simp add: distrib_right)
    moreover have "0 \<le> of_nat l * p" using Suc.prems(1) by simp
    ultimately have le: "p \<le> x" "p + of_nat l * p \<le> x" by linarith+
    have "flat_rows D p t w n f i (Suc (Suc l)) x = schedule_row f i p t (x - p) # flat_rows D p t w n f (Suc i) (Suc l) (x - p)"
      unfolding flat_rows.simps(2) [of D p t w n f i "Suc l" x] using le(1) by (simp add: Let_def pay_down_def del: flat_rows.simps)
    then show ?thesis using Suc.IH [of "x - p" "Suc i"] Suc.prems(1) le by (simp add: Suc del: flat_rows.simps)
  qed
qed

lemma flat_interest_sum:
  "0 < k \<Longrightarrow> interest_sum (flat_rows D p t w n f i k x) = of_nat (k - 1) * t + dRound D 2 (w - t * of_nat (n - 1))"
proof (induction k arbitrary: i x)
  case (Suc k)
  then show ?case by (cases k) (simp_all add: Let_def algebra_simps)
qed simp

lemma flat_interest_nonneg:
  "0 \<le> t \<Longrightarrow> 0 \<le> dRound D 2 (w - t * of_nat (n - 1)) \<Longrightarrow>
    list_all (\<lambda>s. 0 \<le> sr_interest_due s) (flat_rows D p t w n f i k x)"
  by (induction D p t w n f i k x rule: flat_rows.induct) (simp_all add: Let_def)

section \<open>Reducing balance\<close>

text \<open>
  \<open>value_left a r k\<close> is the present value of \<open>k\<close> payments of \<open>a\<close>: what an exact loan
  owes with \<open>k\<close> installments to go. Rounding moves the remaining principal of the code by at
  most 1.5 cents an installment, and the deviations grow with the rate.
\<close>

definition value_left :: "decimal \<Rightarrow> decimal \<Rightarrow> nat \<Rightarrow> decimal" where
  "value_left a r k = a * (1 - 1 / (1 + r) ^ k) / r"

definition deviation :: "decimal \<Rightarrow> nat \<Rightarrow> decimal" where
  "deviation r k = 3 / 200 * (\<Sum>j<k. (1 + r) ^ j)"

lemma deviation_Suc: "deviation r (Suc k) = deviation r k + 3 / 200 * (1 + r) ^ k"
  by (simp add: deviation_def distrib_left)

lemma deviation_nonneg: "0 < r \<Longrightarrow> 0 \<le> deviation r k"
  by (simp add: deviation_def sum_nonneg)

lemma deviation_mult: "0 < r \<Longrightarrow> (1 + r) * deviation r k + 3 / 200 = deviation r (Suc k)"
proof (induction k)
  case (Suc k)
  then have "(1 + r) * deviation r k = deviation r (Suc k) - 3 / 200" by simp
  then show ?case unfolding deviation_Suc [of r k] deviation_Suc [of r "Suc k"] by (simp add: deviation_Suc distrib_left)
qed (simp add: deviation_def)

lemma value_left_step:
  assumes "0 < r"
  shows "value_left a r (Suc k) * (1 + r) - a = value_left a r k"
proof -
  let ?q = "1 + r"
  have q: "(1 - 1 / ?q ^ Suc k) * ?q = ?q - 1 / ?q ^ k" using assms by (simp add: left_diff_distrib)
  have "value_left a r (Suc k) * ?q = a * ((1 - 1 / ?q ^ Suc k) * ?q) / r" by (simp add: value_left_def)
  also have "\<dots> = a * (1 - 1 / ?q ^ k + r) / r" unfolding q by (simp add: algebra_simps)
  also have "\<dots> = value_left a r k + a" using assms by (simp add: value_left_def distrib_left add_divide_distrib)
  finally show ?thesis by simp
qed

lemma value_left_one: "0 < r \<Longrightarrow> value_left a r (Suc 0) = a / (1 + r)"
proof -
  assume "0 < r"
  then have "value_left a r (Suc 0) * (1 + r) = a" using value_left_step [of r a 0] by (simp add: value_left_def)
  then show ?thesis using \<open>0 < r\<close> by (simp add: eq_divide_eq)
qed

lemma value_left_mono:
  assumes "0 < r" "0 \<le> a" "j \<le> k"
  shows "value_left a r j \<le> value_left a r k"
proof -
  have "(1 + r) ^ j \<le> (1 + r) ^ k" using assms by (intro power_increasing) simp_all
  then have "1 / (1 + r) ^ k \<le> 1 / (1 + r) ^ j" using assms(1) by (intro divide_left_mono) simp_all
  then show ?thesis using assms by (simp add: value_left_def divide_right_mono mult_left_mono)
qed

lemma annuity_value: "0 < r \<Longrightarrow> 0 < n \<Longrightarrow> value_left (annuity p r n) r n = p"
proof -
  assume "0 < r" "0 < n"
  then have "1 < (1 + r) ^ n" by (intro one_less_power) simp_all
  then have "1 / (1 + r) ^ n < 1" by simp
  then show ?thesis using \<open>0 < r\<close> by (simp add: value_left_def annuity_def)
qed

lemma reducing_deviates:
  assumes "decimal_arith D" "0 < r" "0 \<le> a" "\<bar>A - a\<bar> \<le> 1 / 100"
    and "\<bar>x - value_left a r (Suc k)\<bar> \<le> d" "d * (1 + r) ^ k + deviation r k \<le> a / (1 + r)" "0 \<le> d"
  shows "overshoot x (reducing_rows D r A f i (Suc k) x) = 0 \<and>
    list_all (\<lambda>s. sr_total_due s = A) (butlast (reducing_rows D r A f i (Suc k) x)) \<and>
    \<bar>sr_total_due (last (reducing_rows D r A f i (Suc k) x)) - a\<bar> \<le> (1 + r) * (d * (1 + r) ^ k + deviation r k) + 1 / 200"
  using assms(5-7)
proof (induction k arbitrary: i x d)
  case 0
  have "\<bar>(1 + r) * (x - value_left a r (Suc 0))\<bar> \<le> (1 + r) * d"
    using 0(1) assms(2) by (simp add: abs_mult mult_left_mono)
  moreover have "(1 + r) * value_left a r (Suc 0) = a" using assms(2) by (simp add: value_left_one)
  ultimately have "\<bar>x + x * r - a\<bar> \<le> (1 + r) * d" by (simp add: algebra_simps)
  moreover have "\<bar>dRound D 2 (x * r) - x * r\<bar> \<le> 1 / 200" using rounding.near [OF decimal_arith.rounds [OF assms(1), of 2], of "x * r"] by simp
  ultimately have "\<bar>x + dRound D 2 (x * r) - a\<bar> \<le> (1 + r) * d + 1 / 200" by linarith
  then show ?case using assms(2) by (simp add: Let_def deviation_def)
next
  case (Suc k)
  let ?e = "dRound D 2 (x * r)"
  let ?x = "x - (A - ?e)" and ?d = "(1 + r) * d + 3 / 200"
  have e: "\<bar>?e - x * r\<bar> \<le> 1 / 200" using rounding.near [OF decimal_arith.rounds [OF assms(1), of 2], of "x * r"] by simp
  have "\<bar>(1 + r) * (x - value_left a r (Suc (Suc k)))\<bar> \<le> (1 + r) * d"
    using Suc.prems(1) assms(2) by (simp add: abs_mult mult_left_mono)
  then have "\<bar>x + x * r - a - value_left a r (Suc k)\<bar> \<le> (1 + r) * d"
    using value_left_step [OF assms(2), of a "Suc k"] by (simp add: algebra_simps)
  with e assms(4) have near: "\<bar>?x - value_left a r (Suc k)\<bar> \<le> ?d" by linarith
  have bound: "?d * (1 + r) ^ k + deviation r k = d * (1 + r) ^ Suc k + deviation r (Suc k)"
    by (simp add: deviation_Suc algebra_simps)
  have d0: "0 \<le> ?d" using Suc.prems(3) assms(2) by simp
  note IH = Suc.IH [OF near Suc.prems(2) [folded bound] d0, unfolded bound, of "Suc i"]
  have "?d \<le> ?d * (1 + r) ^ k" using mult_left_mono [OF one_le_power [of "1 + r" k] d0] assms(2) by simp
  also have "\<dots> \<le> \<dots> + deviation r k" using deviation_nonneg [OF assms(2)] by simp
  also have "\<dots> \<le> a / (1 + r)" using Suc.prems(2) by (simp only: bound)
  also have "\<dots> \<le> value_left a r (Suc k)"
    using value_left_mono [OF assms(2,3), of "Suc 0" "Suc k"] assms(2) by (simp add: value_left_one)
  finally have x0: "0 \<le> ?x" using near by linarith
  have rows: "reducing_rows D r A f i (Suc (Suc k)) x =
      schedule_row f i (A - ?e) ?e ?x # reducing_rows D r A f (Suc i) (Suc k) ?x"
    using assms(2) x0 by (simp add: Let_def pay_down_def)
  have ne: "reducing_rows D r A f (Suc i) (Suc k) ?x \<noteq> []" by (simp add: Let_def)
  show ?case unfolding rows using IH ne x0
    by (simp del: reducing_rows.simps)
qed

section \<open>What a repayment method promises\<close>

text \<open>
  The contract of a method that asks for one installment a month: numbered rows a month apart that
  add up and pay the principal down. Disbursement and rescheduling rely on no more than this.
\<close>

locale amortization =
  fixes rows :: "decimal \<Rightarrow> nat \<Rightarrow> go_time \<Rightarrow> schedule_row list"
  assumes paid_down: "0 < P \<Longrightarrow> 0 < n \<Longrightarrow> pays_down P (rows P n f)"
    and numbered: "numbered_from f 1 n (rows P n f)"
    and adds_up: "list_all row_adds_up (rows P n f)"
begin

lemma count: "length (rows P n f) = n"
proof -
  have "map sr_installment_no (rows P n f) = [1..<1 + n]" using numbered by (simp only: numbered_from_def)
  then show ?thesis by (metis length_map length_upt add_diff_cancel_left')
qed

lemma due: "i < n \<Longrightarrow> sr_due_date (rows P n f ! i) = add_months_time f (int i)"
proof -
  assume i: "i < n"
  have "map sr_due_date (rows P n f) ! i = map (\<lambda>j. add_months_time f (int j - 1)) [1..<1 + n] ! i"
    using numbered by (simp only: numbered_from_def)
  then show ?thesis using i by (simp add: count del: upt_Suc)
qed

lemma number: "i < n \<Longrightarrow> sr_installment_no (rows P n f ! i) = Suc i"
proof -
  assume i: "i < n"
  have "map sr_installment_no (rows P n f) ! i = [1..<1 + n] ! i" using numbered by (simp only: numbered_from_def)
  then show ?thesis using i by (simp add: count del: upt_Suc)
qed

lemma asks_for: "0 < P \<Longrightarrow> 0 < n \<Longrightarrow> principal_sum (rows P n f) = P + overshoot P (rows P n f)"
  by (rule pays_down_sum [OF paid_down])

lemma ends_at_zero: "0 < P \<Longrightarrow> 0 < n \<Longrightarrow> sr_outstanding_after (last (rows P n f)) = 0"
proof -
  have "pays_down x ss \<Longrightarrow> ss \<noteq> [] \<Longrightarrow> sr_outstanding_after (last ss) = 0" for x ss
    by (induction x ss rule: pays_down.induct) (auto simp: pay_down_def split: if_splits elim: pays_down.elims)
  moreover assume "0 < P" "0 < n"
  moreover from this have "rows P n f \<noteq> []" using count [of P n f] by auto
  ultimately show ?thesis using paid_down by blast
qed

lemma totals: "s \<in> set (rows P n f) \<Longrightarrow> sr_total_due s = sr_principal_due s + sr_interest_due s \<and> sr_fee_due s = 0"
  using adds_up [of P n f] by (auto simp: list_all_iff row_adds_up_def)

lemma total: "sum_list (map sr_total_due (rows P n f)) = principal_sum (rows P n f) + interest_sum (rows P n f)"
proof -
  have "list_all row_adds_up ss \<Longrightarrow> sum_list (map sr_total_due ss) = principal_sum ss + interest_sum ss" for ss
    by (induction ss) (simp_all add: row_adds_up_def)
  then show ?thesis using adds_up by blast
qed

end

interpretation reducing: amortization "\<lambda>P n f. scheduleReducingBalance D pmt P rate n f" for D pmt rate
  by unfold_locales (simp_all add: scheduleReducingBalance_def Let_def reducing_pays_down reducing_numbered reducing_adds_up
      del: One_nat_def)

interpretation flat: amortization "\<lambda>P n f. scheduleFlatRate D P rate n f" for D rate
  by unfold_locales (simp_all add: scheduleFlatRate_def Let_def flat_pays_down flat_numbered flat_adds_up del: One_nat_def)

interpretation interest_only: amortization "\<lambda>P n f. scheduleInterestOnly D P rate n f" for D rate
  by unfold_locales (simp_all add: scheduleInterestOnly_def interest_only_pays_down interest_only_numbered interest_only_adds_up
      del: One_nat_def)

end
