(* ===== verification/LoanTables.thy ===== *)
theory LoanTables
  imports LoanSchedule
begin

text \<open>
  The loan tables of the savings service (services/savings/internal/domain/loan.go,
  domain/loan_collections.go, internal/db/migrations/0005, 0006, 0007), beside the deposit tables
  they share transactions with. The columns of a loan that come in threes, one triple for each of
  penalty, interest, principal and fees (\<open>interest_charged\<close>, \<open>interest_paid\<close>,
  \<open>interest_balance\<close>, \<open>principal_disbursed\<close>, \<open>principal_repaid\<close>, ...), are three
  functions of the component; the due and paid columns of a schedule row and the components of a
  transaction likewise (a schedule row has no penalty: 0). Columns nothing here reads back are left
  out.
\<close>

section \<open>Rows\<close>

datatype component = Penalty | Interest | Principal | Fees

datatype loan_status = LoanPendingDisbursement | LoanActive | LoanInArrears | LoanDefaulted
  | LoanRestructured | LoanSettled | LoanWrittenOff | LoanClosed

datatype loan_txn_type = LoanTxnDisbursement | LoanTxnFeeCharge | LoanTxnInterestAccrual
  | LoanTxnPenaltyCharge | LoanTxnPenaltyWaiver | LoanTxnRepayment | LoanTxnWriteOff
  | LoanTxnAdjustment | LoanTxnReversal | LoanTxnSettlementDiscount

fun loan_status_text :: "loan_status \<Rightarrow> string" where
  "loan_status_text LoanPendingDisbursement = ''pending_disbursement''"
| "loan_status_text LoanActive = ''active''"
| "loan_status_text LoanInArrears = ''in_arrears''"
| "loan_status_text LoanDefaulted = ''defaulted''"
| "loan_status_text LoanRestructured = ''restructured''"
| "loan_status_text LoanSettled = ''settled''"
| "loan_status_text LoanWrittenOff = ''written_off''"
| "loan_status_text LoanClosed = ''closed''"

fun loan_txn_type_text :: "loan_txn_type \<Rightarrow> string" where
  "loan_txn_type_text LoanTxnDisbursement = ''disbursement''"
| "loan_txn_type_text LoanTxnFeeCharge = ''fee_charge''"
| "loan_txn_type_text LoanTxnInterestAccrual = ''interest_accrual''"
| "loan_txn_type_text LoanTxnPenaltyCharge = ''penalty_charge''"
| "loan_txn_type_text LoanTxnPenaltyWaiver = ''penalty_waiver''"
| "loan_txn_type_text LoanTxnRepayment = ''repayment''"
| "loan_txn_type_text LoanTxnWriteOff = ''write_off''"
| "loan_txn_type_text LoanTxnAdjustment = ''adjustment''"
| "loan_txn_type_text LoanTxnReversal = ''reversal''"
| "loan_txn_type_text LoanTxnSettlementDiscount = ''settlement_discount''"

datatype row_status = RowPending | RowPartiallyPaid | RowPaid | RowOverdue | RowCancelled

datatype guarantee_status = GuarPending | GuarAccepted | GuarDeclined | GuarReleased | GuarCalled

datatype fee_timing = FeeUpfront | FeeAddedToLoan | FeeAtEachInstallment

datatype app_status = AppDraft | AppPendingValidation | AppPendingGuarantor | AppPendingScoring
  | AppPendingApproval | AppApproved | AppApprovedWithConditions | AppDeclined | AppReturnedForInfo
  | AppOfferSent | AppOfferAccepted | AppOfferDeclined | AppExpired | AppCancelled | AppDisbursed

datatype case_status = CaseOpen | CaseInProgress | CasePaused | CaseEscalatedLegal
  | CaseClosedRecovered | CaseClosedUncollectable

datatype ptp_status = PTPOpen | PTPKept | PTPPartial | PTPBroken | PTPCancelled

datatype restructuring_kind = RestructureReschedule | RestructureTopup | RestructureRefinance
  | RestructureMoratorium | RestructureSettlementDiscount

record loan =
  lo_id :: uuid
  lo_loan_no :: string
  lo_application_id :: uuid
  lo_counterparty_id :: uuid
  lo_product_id :: uuid
  lo_status :: loan_status
  lo_principal :: decimal
  lo_interest_rate_pct :: decimal
  lo_interest_method :: interest_method
  lo_repayment_method :: repayment_method
  lo_term_months :: int
  lo_grace_period_months :: int
  lo_installment_count :: int
  lo_first_due_date :: "date option"
  lo_disbursement_channel :: "string option"
  lo_disbursement_target_account_id :: "uuid option"
  lo_disbursement_ref :: "string option"
  lo_total_fees_deducted :: decimal
  lo_net_disbursed :: "decimal option"
  lo_disbursed_at :: "go_time option"
  lo_disbursed_by :: "uuid option"
  lo_charged :: "component \<Rightarrow> decimal"
  lo_paid :: "component \<Rightarrow> decimal"
  lo_balance :: "component \<Rightarrow> decimal"
  lo_installments_paid :: nat
  lo_next_installment_due_at :: "date option"
  lo_next_installment_amount :: "decimal option"
  lo_days_past_due :: int
  lo_arrears_classification :: string
  lo_last_repayment_at :: "go_time option"
  lo_settled_at :: "go_time option"
  lo_written_off_at :: "go_time option"
  lo_closed_at :: "go_time option"

record installment =
  si_id :: uuid
  si_loan_id :: uuid
  si_installment_no :: nat
  si_due_date :: date
  si_due :: "component \<Rightarrow> decimal"
  si_total_due :: decimal
  si_paid :: "component \<Rightarrow> decimal"
  si_status :: row_status
  si_paid_at :: "go_time option"
  si_outstanding_after :: decimal
  si_accrued_at :: "go_time option"
  si_accrued_interest_txn_id :: "uuid option"

record loan_txn_row =
  lx_id :: uuid
  lx_loan_id :: uuid
  lx_counterparty_id :: uuid
  lx_txn_no :: string
  lx_type :: loan_txn_type
  lx_amount :: decimal
  lx_comp :: "component \<Rightarrow> decimal"
  lx_value_date :: date
  lx_channel :: "string option"
  lx_channel_ref :: "string option"
  lx_narration :: "string option"
  lx_reverses_txn_id :: "uuid option"
  lx_reversed_by_txn_id :: "uuid option"
  lx_installment_no :: "nat option"
  lx_posted_at :: go_time
  lx_initiated_by :: uuid
  lx_authorized_by :: "uuid option"

record product_fee =
  pf_name :: string
  pf_amount :: decimal
  pf_is_pct :: bool
  pf_timing :: fee_timing
  pf_gl_credit_code :: string

record loan_product =
  lp_id :: uuid
  lp_grace_period_months :: int
  lp_interest_method :: interest_method
  lp_repayment_method :: repayment_method
  lp_fees :: "product_fee list"
  lp_security_model :: string
  lp_min_guarantor_cover_pct :: decimal
  lp_min_collateral_cover_pct :: decimal

record loan_app =
  la_id :: uuid
  la_counterparty_id :: uuid
  la_product_id :: uuid
  la_status :: app_status
  la_approved_amount :: "decimal option"
  la_approved_term_months :: "int option"
  la_approved_interest_rate_pct :: "decimal option"
  la_offer_expires_at :: "go_time option"
  la_application_type :: string
  la_parent_loan_id :: "uuid option"
  la_refinance_source_loan_ids :: "uuid list"

record guarantee =
  gu_application_id :: uuid
  gu_loan_id :: "uuid option"
  gu_amount :: decimal
  gu_status :: guarantee_status
  gu_released_at :: "go_time option"
  gu_notes :: "string option"

record collateral_item =
  ci_application_id :: uuid
  ci_loan_id :: "uuid option"
  ci_status :: string
  ci_forced_sale_value :: "decimal option"

record collection_case =
  cc_id :: uuid
  cc_loan_id :: uuid
  cc_counterparty_id :: uuid
  cc_status :: case_status
  cc_classification_at_open :: string
  cc_assigned_to :: "uuid option"
  cc_priority :: int
  cc_total_contacts :: nat
  cc_last_action :: "string option"
  cc_closed_at :: "go_time option"
  cc_closed_by :: "uuid option"
  cc_closure_reason :: "string option"

record promise =
  pp_id :: uuid
  pp_case_id :: uuid
  pp_loan_id :: uuid
  pp_promised_amount :: decimal
  pp_promised_date :: date
  pp_status :: ptp_status
  pp_paid_amount :: decimal
  pp_paid_txn_id :: "uuid option"
  pp_resolved_at :: "go_time option"
  pp_resolved_by :: "uuid option"
  pp_created_at :: go_time

record restructuring =
  rs_loan_id :: uuid
  rs_kind :: restructuring_kind
  rs_reason :: string
  rs_previous_principal_balance :: decimal
  rs_previous_status :: loan_status
  rs_new_term_months :: "int option"
  rs_new_interest_rate_pct :: "decimal option"
  rs_topup_amount :: "decimal option"
  rs_refinance_new_loan_id :: "uuid option"
  rs_moratorium_months :: "int option"
  rs_moratorium_suspend_interest :: "bool option"
  rs_discount_amount :: "decimal option"
  rs_discount_writeoff_txn_id :: "uuid option"
  rs_created_by :: uuid

record writeoff =
  wo_loan_id :: uuid
  wo_counterparty_id :: uuid
  wo_comp :: "component \<Rightarrow> decimal"
  wo_total :: decimal
  wo_reason :: string
  wo_authorized_by :: uuid
  wo_txn_id :: uuid

section \<open>Requests that wait for an approval\<close>

record repayment_payload =
  rpl_loan_id :: uuid
  rpl_amount :: decimal
  rpl_channel :: string
  rpl_channel_ref :: string
  rpl_narration :: string
  rpl_value_date :: string
  rpl_debit_savings_acct :: "uuid option"

record settle_payload =
  spl_loan_id :: uuid
  spl_channel :: string
  spl_channel_ref :: string
  spl_narration :: string
  spl_debit_savings_acct :: "uuid option"

record disbursement_payload =
  dsp_loan_id :: uuid
  dsp_channel :: string
  dsp_target_account_id :: "uuid option"
  dsp_external_ref :: "string option"
  dsp_value_date :: "string option"

record reschedule_payload =
  rsp_loan_id :: uuid
  rsp_new_term_months :: int
  rsp_new_interest_rate_pct :: "decimal option"
  rsp_new_first_due_date :: "string option"
  rsp_reason :: string

datatype loan_payload = PayDisbursement disbursement_payload | PayRepayment repayment_payload
  | PaySettle settle_payload
  | PayReverse uuid string \<comment> \<open>transaction, reason\<close>
  | PayReschedule reschedule_payload
  | PayMoratorium uuid int bool string \<comment> \<open>loan, months, whether interest is suspended, reason\<close>
  | PaySettlementDiscount uuid decimal string \<comment> \<open>loan, amount, reason\<close>
  | PayWriteoff uuid string \<comment> \<open>loan, reason\<close>

record loan_request =
  lq_id :: uuid
  lq_payload :: loan_payload
  lq_maker :: uuid
  lq_workflow :: bool \<comment> \<open>an instance of the workflow engine, or a row of the legacy table\<close>
  lq_status :: approval_status

section \<open>The tables\<close>

record tenant_ops =
  to_waterfall :: string
  to_dpd_substandard_days :: int
  to_dpd_doubtful_days :: int
  to_dpd_loss_days :: int
  to_writeoff_through_provision :: bool

record ln_db = sv_db +
  ld_loans :: "loan list"
  ld_schedule :: "installment list"
  ld_txns :: "loan_txn_row list"
  ld_products :: "loan_product list"
  ld_apps :: "loan_app list"
  ld_guarantees :: "guarantee list"
  ld_collateral :: "collateral_item list"
  ld_cases :: "collection_case list"
  ld_promises :: "promise list"
  ld_restructurings :: "restructuring list"
  ld_writeoffs :: "writeoff list"
  ld_ops :: "tenant_ops option"
  ld_gated :: "string list" \<comment> \<open>process kinds whose approval toggle is on\<close>
  ld_requests :: "loan_request list"
  ld_outbound :: "uuid list" \<comment> \<open>loans with a queued B2C payment\<close>

text \<open>
  \<open>le_pmt\<close> is the float of \<open>scheduleReducingBalance\<close>, \<open>le_rate_col\<close> the coercion to the
  \<open>numeric(6,3)\<close> of a rate, \<open>le_phone\<close> the phone number in a counterparty's contact column and
  \<open>le_b2c_paybill\<close> the tenant's active disbursement paybill; the flags say which optional stores
  are wired.
\<close>

record ln_env =
  le_sv :: sv_env
  le_pmt :: "decimal \<Rightarrow> decimal \<Rightarrow> nat \<Rightarrow> decimal"
  le_rate_col :: "decimal \<Rightarrow> decimal"
  le_collections :: bool
  le_bosa_liens :: bool
  le_collaterals :: bool
  le_phone :: "uuid \<Rightarrow> string option"
  le_b2c_paybill :: "uuid option"

abbreviation (input) col :: "ln_env \<Rightarrow> decimal \<Rightarrow> decimal" where
  "col E \<equiv> se_col (le_sv E)"

abbreviation (input) now_db :: "ln_env \<Rightarrow> go_time" where
  "now_db E \<equiv> se_now (le_sv E)"

abbreviation (input) clock :: "ln_env \<Rightarrow> go_time" where
  "clock E \<equiv> se_clock (le_sv E)"

section \<open>Reading and updating\<close>

definition GetLoanTx :: "ln_db \<Rightarrow> uuid \<Rightarrow> sv_error + loan" where
  "GetLoanTx db lid = (case find (\<lambda>l. lo_id l = lid) (ld_loans db) of None \<Rightarrow> Inl ErrNotFound | Some l \<Rightarrow> Inr l)"

definition GetLoanTxnTx :: "ln_db \<Rightarrow> uuid \<Rightarrow> sv_error + loan_txn_row" where
  "GetLoanTxnTx db tid = (case find (\<lambda>t. lx_id t = tid) (ld_txns db) of None \<Rightarrow> Inl ErrNotFound | Some t \<Rightarrow> Inr t)"

definition GetLoanProductTx :: "ln_db \<Rightarrow> uuid \<Rightarrow> sv_error + loan_product" where
  "GetLoanProductTx db pid = (case find (\<lambda>p. lp_id p = pid) (ld_products db) of None \<Rightarrow> Inl ErrNotFound | Some p \<Rightarrow> Inr p)"

definition GetAppTx :: "ln_db \<Rightarrow> uuid \<Rightarrow> sv_error + loan_app" where
  "GetAppTx db aid = (case find (\<lambda>a. la_id a = aid) (ld_apps db) of None \<Rightarrow> Inl ErrNotFound | Some a \<Rightarrow> Inr a)"

definition set_loan :: "uuid \<Rightarrow> (loan \<Rightarrow> loan) \<Rightarrow> ln_db \<Rightarrow> ln_db" where
  "set_loan lid f db = db\<lparr>ld_loans := map (\<lambda>l. if lo_id l = lid then f l else l) (ld_loans db)\<rparr>"

definition set_rows :: "(installment \<Rightarrow> bool) \<Rightarrow> (installment \<Rightarrow> installment) \<Rightarrow> ln_db \<Rightarrow> ln_db" where
  "set_rows P f db = db\<lparr>ld_schedule := map (\<lambda>s. if P s then f s else s) (ld_schedule db)\<rparr>"

definition rows_of :: "uuid \<Rightarrow> ln_db \<Rightarrow> installment list" where
  "rows_of lid db = sort_key si_installment_no (filter (\<lambda>s. si_loan_id s = lid) (ld_schedule db))"

definition open_row :: "installment \<Rightarrow> bool" where
  "open_row s \<longleftrightarrow> si_status s \<notin> {RowPaid, RowCancelled}"

definition add_comp :: "ln_env \<Rightarrow> (component \<Rightarrow> decimal) \<Rightarrow> (component \<Rightarrow> decimal) \<Rightarrow> component \<Rightarrow> decimal" where
  "add_comp E f g = (\<lambda>c. col E (f c + g c))"

definition no_comp :: "component \<Rightarrow> decimal" where
  "no_comp = (\<lambda>_. 0)"

definition only :: "component \<Rightarrow> decimal \<Rightarrow> component \<Rightarrow> decimal" where
  "only c x = (\<lambda>_. 0)(c := x)"

definition comp_sum :: "(component \<Rightarrow> decimal) \<Rightarrow> decimal" where
  "comp_sum f = f Penalty + f Interest + f Principal + f Fees"

lemma comp_sum_simps [simp]:
  "comp_sum no_comp = 0"
  "comp_sum (only c x) = x"
  "comp_sum (\<lambda>c. f c + g c) = comp_sum f + comp_sum g"
  "comp_sum (\<lambda>c. f c - g c) = comp_sum f - comp_sum g"
  "comp_sum (\<lambda>c. - f c) = - comp_sum f"
  by (cases c; simp add: comp_sum_def no_comp_def only_def)+

end
