(* ===== verification/LoanCollections.thy ===== *)
theory LoanCollections
  imports LoanTables
begin

text \<open>
  The collections store (services/savings/internal/store/loan_collections_store.go and
  loan_collections_v2_store.go): the cases of loans in arrears and the promises to pay. Contact logs,
  assignment histories and events are append-only and left out.
\<close>

section \<open>Cases\<close>

definition set_case :: "(collection_case \<Rightarrow> bool) \<Rightarrow> (collection_case \<Rightarrow> collection_case) \<Rightarrow> ln_db \<Rightarrow> ln_db" where
  "set_case P f db = db\<lparr>ld_cases := map (\<lambda>c. if P c then f c else c) (ld_cases db)\<rparr>"

text \<open>The lookup does not ask for the status of the case it finds.\<close>

definition EnsureCaseForLoanTx :: "loan \<Rightarrow> ln_db \<Rightarrow> ln_db \<times> collection_case" where
  "EnsureCaseForLoanTx loan db = (case find (\<lambda>c. cc_loan_id c = lo_id loan) (ld_cases db) of
     Some c \<Rightarrow> (db, c)
   | None \<Rightarrow> (let c = \<lparr> cc_id = sv_supply db, cc_loan_id = lo_id loan, cc_counterparty_id = lo_counterparty_id loan,
         cc_status = CaseOpen, cc_classification_at_open = lo_arrears_classification loan,
         cc_assigned_to = None, cc_priority = min (lo_days_past_due loan) 100, cc_total_contacts = 0,
         cc_last_action = None, cc_closed_at = None, cc_closed_by = None, cc_closure_reason = None \<rparr>
       in (db\<lparr>ld_cases := ld_cases db @ [c], sv_supply := sv_supply db + 1\<rparr>, c)))"

definition AssignTx :: "uuid \<Rightarrow> uuid \<Rightarrow> ln_db \<Rightarrow> sv_error + ln_db" where
  "AssignTx cid officer db =
     bind_res (ensure (\<exists>c\<in>set (ld_cases db). cc_id c = cid) ErrNotFound) (\<lambda>_.
     Inr (set_case (\<lambda>c. cc_id c = cid) (\<lambda>c. c\<lparr>cc_assigned_to := Some officer,
       cc_status := (if cc_status c = CaseOpen then CaseInProgress else cc_status c)\<rparr>) db))"

definition CloseCaseTx :: "ln_env \<Rightarrow> uuid \<Rightarrow> uuid \<Rightarrow> bool \<Rightarrow> string \<Rightarrow> ln_db \<Rightarrow> sv_error + ln_db" where
  "CloseCaseTx E cid user recovered why db =
     bind_res (ensure (\<exists>c\<in>set (ld_cases db). cc_id c = cid) ErrNotFound) (\<lambda>_.
     Inr (set_case (\<lambda>c. cc_id c = cid)
       (\<lambda>c. c\<lparr>cc_status := (if recovered then CaseClosedRecovered else CaseClosedUncollectable),
              cc_closed_at := Some (now_db E), cc_closed_by := Some user, cc_closure_reason := Some why\<rparr>) db))"

definition AutoCloseIfRecoveredTx :: "ln_env \<Rightarrow> uuid \<Rightarrow> ln_db \<Rightarrow> ln_db" where
  "AutoCloseIfRecoveredTx E lid db =
     (case (find (\<lambda>c. cc_loan_id c = lid \<and> cc_status c \<in> {CaseOpen, CaseInProgress, CasePaused}) (ld_cases db),
            GetLoanTx db lid) of
       (Some c, Inr l) \<Rightarrow> (if 0 < lo_days_past_due l then db
         else set_case (\<lambda>d. cc_id d = cc_id c)
           (\<lambda>d. d\<lparr>cc_status := CaseClosedRecovered, cc_closed_at := Some (now_db E),
              cc_closure_reason := Some (the_default ''Loan back to performing after repayment'' (cc_closure_reason d))\<rparr>) db)
     | _ \<Rightarrow> db)"

section \<open>Promises to pay\<close>

definition set_promise :: "(promise \<Rightarrow> bool) \<Rightarrow> (promise \<Rightarrow> promise) \<Rightarrow> ln_db \<Rightarrow> ln_db" where
  "set_promise P f db = db\<lparr>ld_promises := map (\<lambda>p. if P p then f p else p) (ld_promises db)\<rparr>"

definition CreatePTPTx :: "ln_env \<Rightarrow> uuid \<Rightarrow> uuid \<Rightarrow> decimal \<Rightarrow> date \<Rightarrow> ln_db \<Rightarrow> ln_db" where
  "CreatePTPTx E cid lid amount d db =
     db\<lparr>ld_promises := ld_promises db @ [\<lparr> pp_id = sv_supply db, pp_case_id = cid, pp_loan_id = lid,
          pp_promised_amount = col E amount, pp_promised_date = d, pp_status = PTPOpen, pp_paid_amount = 0,
          pp_paid_txn_id = None, pp_resolved_at = None, pp_resolved_by = None, pp_created_at = now_db E \<rparr>],
        sv_supply := sv_supply db + 1\<rparr>"

definition ResolvePTPTx ::
  "ln_env \<Rightarrow> uuid \<Rightarrow> ptp_status \<Rightarrow> decimal \<Rightarrow> uuid option \<Rightarrow> uuid \<Rightarrow> ln_db \<Rightarrow> sv_error + ln_db" where
  "ResolvePTPTx E pid st paid txn user db =
     bind_res (ensure (\<exists>p\<in>set (ld_promises db). pp_id p = pid \<and> pp_status p = PTPOpen)
       (SvMsg ''promise-to-pay is not in 'open' state'')) (\<lambda>_.
     Inr (set_promise (\<lambda>p. pp_id p = pid \<and> pp_status p = PTPOpen)
       (\<lambda>p. p\<lparr>pp_status := st, pp_paid_amount := col E paid, pp_paid_txn_id := txn,
              pp_resolved_at := Some (now_db E), pp_resolved_by := Some user\<rparr>) db))"

definition CancelPTPTx :: "ln_env \<Rightarrow> uuid \<Rightarrow> uuid \<Rightarrow> ln_db \<Rightarrow> sv_error + ln_db" where
  "CancelPTPTx E pid user db =
     bind_res (ensure (\<exists>p\<in>set (ld_promises db). pp_id p = pid \<and> pp_status p = PTPOpen)
       (SvMsg ''promise-to-pay is not in 'open' state'')) (\<lambda>_.
     Inr (set_promise (\<lambda>p. pp_id p = pid \<and> pp_status p = PTPOpen)
       (\<lambda>p. p\<lparr>pp_status := PTPCancelled, pp_resolved_at := Some (now_db E), pp_resolved_by := Some user\<rparr>) db))"

definition MarkOverduePTPsBrokenTx :: "ln_env \<Rightarrow> go_time \<Rightarrow> ln_db \<Rightarrow> ln_db" where
  "MarkOverduePTPsBrokenTx E asOf = set_promise (\<lambda>p. pp_status p = PTPOpen \<and> pp_promised_date p < gt_date asOf)
     (\<lambda>p. p\<lparr>pp_status := PTPBroken, pp_resolved_at := Some (now_db E)\<rparr>)"

definition recently_broken :: "ln_env \<Rightarrow> ln_db \<Rightarrow> collection_case \<Rightarrow> bool" where
  "recently_broken E db c \<longleftrightarrow> (\<exists>p\<in>set (ld_promises db). pp_case_id p = cc_id c \<and> pp_status p = PTPBroken \<and>
     (case pp_resolved_at p of None \<Rightarrow> False | Some t \<Rightarrow> time_instant (now_db E) - hours 24 < time_instant t))"

definition EscalatePriorityOnBrokenPTPsTx :: "ln_env \<Rightarrow> ln_db \<Rightarrow> ln_db" where
  "EscalatePriorityOnBrokenPTPsTx E db = set_case (recently_broken E db)
     (\<lambda>c. c\<lparr>cc_priority := min 100 (cc_priority c + 10), cc_last_action := Some ''PTP broken - escalated priority''\<rparr>) db"

text \<open>The newest open promise of a loan; of two made at the same instant, the database may take either.\<close>

definition open_promise :: "uuid \<Rightarrow> ln_db \<Rightarrow> promise option" where
  "open_promise lid db = (case sort_key (\<lambda>p. - time_instant (pp_created_at p))
       (filter (\<lambda>p. pp_loan_id p = lid \<and> pp_status p = PTPOpen) (ld_promises db)) of
     [] \<Rightarrow> None | p # _ \<Rightarrow> Some p)"

definition ptp_outcome :: "decimal \<Rightarrow> decimal \<Rightarrow> go_time \<Rightarrow> date \<Rightarrow> ptp_status" where
  "ptp_outcome newPaid promised asOf promisedDate =
     (if newPaid < promised then PTPOpen
      else if time_instant asOf \<le> time_instant (GoTime promisedDate 0) + hours 24 then PTPKept else PTPPartial)"

definition AutoResolveOpenPTPOnRepaymentTx ::
  "ln_env \<Rightarrow> uuid \<Rightarrow> uuid \<Rightarrow> decimal \<Rightarrow> go_time \<Rightarrow> ln_db \<Rightarrow> ln_db" where
  "AutoResolveOpenPTPOnRepaymentTx E lid tid amount asOf db = (case open_promise lid db of
     None \<Rightarrow> db
   | Some p \<Rightarrow> (let newPaid = pp_paid_amount p + amount;
                   st = ptp_outcome newPaid (pp_promised_amount p) asOf (pp_promised_date p)
       in set_promise (\<lambda>q. pp_id q = pp_id p)
         (\<lambda>q. q\<lparr>pp_paid_amount := col E newPaid,
            pp_paid_txn_id := (case pp_paid_txn_id q of None \<Rightarrow> Some tid | Some t \<Rightarrow> Some t), pp_status := st,
            pp_resolved_at := (if st \<noteq> PTPOpen then Some (now_db E) else pp_resolved_at q)\<rparr>) db))"

section \<open>What the collections operations leave alone\<close>

text \<open>The tables but for cases, promises and the supply of identifiers.\<close>

definition same_books :: "ln_db \<Rightarrow> ln_db \<Rightarrow> bool" where
  "same_books db db' \<longleftrightarrow> (\<exists>cs ps n. sv_supply db \<le> n \<and>
     db' = db\<lparr>ld_cases := cs, ld_promises := ps, sv_supply := n\<rparr>)"

lemma same_booksE:
  assumes "same_books db db'"
  obtains cs ps n where "sv_supply db \<le> n" "db' = db\<lparr>ld_cases := cs, ld_promises := ps, sv_supply := n\<rparr>"
  using assms by (auto simp: same_books_def)

lemma same_booksI:
  "db' = db\<lparr>ld_cases := cs, ld_promises := ps, sv_supply := n\<rparr> \<Longrightarrow> sv_supply db \<le> n \<Longrightarrow> same_books db db'"
  unfolding same_books_def by (intro exI conjI)

lemma same_books_refl [simp]: "same_books db db"
  by (rule same_booksI [where cs = "ld_cases db" and ps = "ld_promises db" and n = "sv_supply db"]) simp_all

lemma same_books_trans: "same_books a b \<Longrightarrow> same_books b c \<Longrightarrow> same_books a c"
proof (elim same_booksE)
  fix cs ps n ds qs m
  assume "sv_supply a \<le> n" "b = a\<lparr>ld_cases := cs, ld_promises := ps, sv_supply := n\<rparr>"
    "sv_supply b \<le> m" "c = b\<lparr>ld_cases := ds, ld_promises := qs, sv_supply := m\<rparr>"
  then show "same_books a c" by (intro same_booksI [where cs = ds and ps = qs and n = m]) simp_all
qed

lemma set_case_books [simp]: "same_books db (set_case P f db)"
  by (rule same_booksI [where cs = "ld_cases (set_case P f db)" and ps = "ld_promises db" and n = "sv_supply db"])
    (simp_all add: set_case_def)

lemma set_promise_books [simp]: "same_books db (set_promise P f db)"
  by (rule same_booksI [where ps = "ld_promises (set_promise P f db)" and cs = "ld_cases db" and n = "sv_supply db"])
    (simp_all add: set_promise_def)

lemma ensure_case_books [simp]: "same_books db (fst (EnsureCaseForLoanTx loan db))"
proof (cases "find (\<lambda>c. cc_loan_id c = lo_id loan) (ld_cases db)")
  case None
  show ?thesis
    by (rule same_booksI [where ps = "ld_promises db" and cs = "ld_cases (fst (EnsureCaseForLoanTx loan db))" and n = "sv_supply db + 1"])
      (simp_all add: EnsureCaseForLoanTx_def None Let_def)
qed (simp add: EnsureCaseForLoanTx_def)

lemma auto_close_books [simp]: "same_books db (AutoCloseIfRecoveredTx E lid db)"
  by (simp add: AutoCloseIfRecoveredTx_def split: option.splits sum.splits)

lemma auto_resolve_books [simp]: "same_books db (AutoResolveOpenPTPOnRepaymentTx E lid tid x asOf db)"
  by (simp add: AutoResolveOpenPTPOnRepaymentTx_def Let_def split: option.splits)

end
