(* ===== verification/LoanStore.thy ===== *)
theory LoanStore
  imports LoanCollections
begin

text \<open>
  Loans, their schedules and their transactions (services/savings/internal/store/loan_store.go).
  A row that would break a unique key of the schema is an error of the database.
\<close>

section \<open>Transactions\<close>

record post_loan_input =
  li_loan :: loan
  li_txn_type :: loan_txn_type
  li_amount :: decimal
  li_comp :: "component \<Rightarrow> decimal"
  li_channel :: "string option"
  li_channel_ref :: "string option"
  li_narration :: "string option"
  li_installment_no :: "nat option"
  li_initiated_by :: uuid
  li_authorized_by :: "uuid option"
  li_reverses_txn_id :: "uuid option"

definition post_loan_input ::
  "loan \<Rightarrow> loan_txn_type \<Rightarrow> decimal \<Rightarrow> (component \<Rightarrow> decimal) \<Rightarrow> string \<Rightarrow> string \<Rightarrow> uuid \<Rightarrow> post_loan_input" where
  "post_loan_input l ty x f ch narr user = \<lparr> li_loan = l, li_txn_type = ty, li_amount = x, li_comp = f,
     li_channel = Some ch, li_channel_ref = None, li_narration = Some narr, li_installment_no = None,
     li_initiated_by = user, li_authorized_by = None, li_reverses_txn_id = None \<rparr>"

definition loan_txn_row :: "ln_env \<Rightarrow> post_loan_input \<Rightarrow> string \<Rightarrow> uuid \<Rightarrow> loan_txn_row" where
  "loan_txn_row E inp no tid = \<lparr> lx_id = tid, lx_loan_id = lo_id (li_loan inp),
     lx_counterparty_id = lo_counterparty_id (li_loan inp), lx_txn_no = no, lx_type = li_txn_type inp,
     lx_amount = col E (li_amount inp), lx_comp = (\<lambda>c. col E (li_comp inp c)), lx_value_date = gt_date (now_db E),
     lx_channel = li_channel inp, lx_channel_ref = li_channel_ref inp, lx_narration = li_narration inp,
     lx_reverses_txn_id = li_reverses_txn_id inp, lx_reversed_by_txn_id = None,
     lx_installment_no = li_installment_no inp, lx_posted_at = now_db E,
     lx_initiated_by = li_initiated_by inp, lx_authorized_by = li_authorized_by inp \<rparr>"

text \<open>\<open>PostTxnTx\<close> of the loan store: an insert; the balances are the callers'.\<close>

definition PostLoanTxnTx :: "ln_env \<Rightarrow> post_loan_input \<Rightarrow> ln_db \<Rightarrow> ln_db \<times> loan_txn_row" where
  "PostLoanTxnTx E inp db =
     (let (db1, no) = nextSeq (le_sv E) ''loan_txn'' ''LT'' db; t = loan_txn_row E inp no (sv_supply db1)
      in (db1\<lparr>ld_txns := ld_txns db1 @ [t], sv_supply := sv_supply db1 + 1\<rparr>, t))"

section \<open>Loans\<close>

record create_loan_input =
  cl_application_id :: uuid
  cl_counterparty_id :: uuid
  cl_product_id :: uuid
  cl_principal :: decimal
  cl_interest_rate_pct :: decimal
  cl_interest_method :: interest_method
  cl_repayment_method :: repayment_method
  cl_term_months :: int
  cl_grace_period_months :: int
  cl_installment_count :: int

definition new_loan :: "ln_env \<Rightarrow> create_loan_input \<Rightarrow> string \<Rightarrow> uuid \<Rightarrow> loan" where
  "new_loan E inp no lid = \<lparr> lo_id = lid, lo_loan_no = no, lo_application_id = cl_application_id inp,
     lo_counterparty_id = cl_counterparty_id inp, lo_product_id = cl_product_id inp,
     lo_status = LoanPendingDisbursement, lo_principal = col E (cl_principal inp),
     lo_interest_rate_pct = le_rate_col E (cl_interest_rate_pct inp), lo_interest_method = cl_interest_method inp,
     lo_repayment_method = cl_repayment_method inp, lo_term_months = cl_term_months inp,
     lo_grace_period_months = cl_grace_period_months inp, lo_installment_count = cl_installment_count inp,
     lo_first_due_date = None, lo_disbursement_channel = None, lo_disbursement_target_account_id = None,
     lo_disbursement_ref = None, lo_total_fees_deducted = 0, lo_net_disbursed = None, lo_disbursed_at = None,
     lo_disbursed_by = None, lo_charged = no_comp, lo_paid = no_comp, lo_balance = no_comp,
     lo_installments_paid = 0, lo_next_installment_due_at = None, lo_next_installment_amount = None,
     lo_days_past_due = 0, lo_arrears_classification = ''performing'', lo_last_repayment_at = None,
     lo_settled_at = None, lo_written_off_at = None, lo_closed_at = None \<rparr>"

definition CreateOnAcceptanceTx :: "ln_env \<Rightarrow> create_loan_input \<Rightarrow> ln_db \<Rightarrow> sv_error + (ln_db \<times> loan)" where
  "CreateOnAcceptanceTx E inp db =
     (let (db1, no) = nextSeq (le_sv E) ''loan'' ''L'' db; l = new_loan E inp no (sv_supply db1) in
      bind_res (ensure (\<forall>k\<in>set (ld_loans db). lo_application_id k \<noteq> cl_application_id inp)
        (SvDb ''loans_application_id_key'')) (\<lambda>_.
      Inr (db1\<lparr>ld_loans := ld_loans db1 @ [l], sv_supply := sv_supply db1 + 1\<rparr>, l)))"

section \<open>Schedules\<close>

definition si_of :: "schedule_row \<Rightarrow> component \<Rightarrow> decimal" where
  "si_of r c = (case c of Penalty \<Rightarrow> 0 | Interest \<Rightarrow> sr_interest_due r | Principal \<Rightarrow> sr_principal_due r | Fees \<Rightarrow> sr_fee_due r)"

definition new_installment :: "ln_env \<Rightarrow> uuid \<Rightarrow> nat \<Rightarrow> schedule_row \<Rightarrow> uuid \<Rightarrow> installment" where
  "new_installment E lid no r sid = \<lparr> si_id = sid, si_loan_id = lid, si_installment_no = no,
     si_due_date = gt_date (sr_due_date r), si_due = (\<lambda>c. col E (si_of r c)), si_total_due = col E (sr_total_due r),
     si_paid = no_comp, si_status = RowPending, si_paid_at = None, si_outstanding_after = col E (sr_outstanding_after r),
     si_accrued_at = None, si_accrued_interest_txn_id = None \<rparr>"

definition insert_installment :: "ln_env \<Rightarrow> uuid \<Rightarrow> nat \<Rightarrow> schedule_row \<Rightarrow> ln_db \<Rightarrow> sv_error + ln_db" where
  "insert_installment E lid no r db =
     bind_res (ensure (\<forall>s\<in>set (ld_schedule db). si_loan_id s \<noteq> lid \<or> si_installment_no s \<noteq> no)
       (SvDb ''loan_repayment_schedule_loan_id_installment_no_key'')) (\<lambda>_.
     Inr (db\<lparr>ld_schedule := ld_schedule db @ [new_installment E lid no r (sv_supply db)], sv_supply := sv_supply db + 1\<rparr>))"

fun SaveScheduleTx :: "ln_env \<Rightarrow> uuid \<Rightarrow> schedule_row list \<Rightarrow> ln_db \<Rightarrow> sv_error + ln_db" where
  "SaveScheduleTx E lid [] db = Inr db"
| "SaveScheduleTx E lid (r # rs) db =
     bind_res (insert_installment E lid (sr_installment_no r) r db) (SaveScheduleTx E lid rs)"

section \<open>Disbursement\<close>

text \<open>The fees that were deducted from the payment also become the balance of fees owed.\<close>

definition mark_disbursed ::
  "ln_env \<Rightarrow> decimal \<Rightarrow> decimal \<Rightarrow> string \<Rightarrow> string \<Rightarrow> uuid option \<Rightarrow> go_time \<Rightarrow> decimal \<Rightarrow> uuid \<Rightarrow> loan \<Rightarrow> loan" where
  "mark_disbursed E net fees ch ref target firstDue firstAmount user l =
     l\<lparr>lo_status := LoanActive, lo_disbursement_channel := Some ch, lo_disbursement_target_account_id := target,
       lo_disbursement_ref := Some ref, lo_net_disbursed := Some (col E net), lo_total_fees_deducted := col E fees,
       lo_disbursed_at := Some (now_db E), lo_disbursed_by := Some user,
       lo_charged := (lo_charged l)(Principal := lo_principal l, Fees := col E fees),
       lo_balance := (lo_balance l)(Principal := lo_principal l, Fees := col E fees),
       lo_next_installment_due_at := Some (gt_date firstDue), lo_next_installment_amount := Some (col E firstAmount),
       lo_first_due_date := Some (gt_date firstDue)\<rparr>"

definition MarkDisbursedTx ::
  "ln_env \<Rightarrow> uuid \<Rightarrow> decimal \<Rightarrow> decimal \<Rightarrow> string \<Rightarrow> string \<Rightarrow> uuid option \<Rightarrow> go_time \<Rightarrow> decimal \<Rightarrow> uuid \<Rightarrow> ln_db
    \<Rightarrow> sv_error + (ln_db \<times> loan)" where
  "MarkDisbursedTx E lid net fees ch ref target firstDue firstAmount user db =
     (let db1 = set_loan lid (mark_disbursed E net fees ch ref target firstDue firstAmount user) db
      in bind_res (GetLoanTx db1 lid) (\<lambda>l. Inr (db1, l)))"

definition unwind_loan :: "loan \<Rightarrow> loan" where
  "unwind_loan l = l\<lparr>lo_status := LoanPendingDisbursement, lo_disbursement_channel := None,
     lo_disbursement_target_account_id := None, lo_disbursement_ref := None, lo_net_disbursed := Some 0,
     lo_total_fees_deducted := 0, lo_disbursed_at := None, lo_disbursed_by := None,
     lo_charged := (lo_charged l)(Principal := 0, Fees := 0), lo_balance := no_comp,
     lo_next_installment_due_at := None, lo_next_installment_amount := Some 0, lo_first_due_date := None,
     lo_last_repayment_at := None\<rparr>"

definition UnwindDisbursementTx :: "uuid \<Rightarrow> ln_db \<Rightarrow> sv_error + (ln_db \<times> loan)" where
  "UnwindDisbursementTx lid db =
     (let db1 = set_loan lid unwind_loan (db\<lparr>ld_schedule := filter (\<lambda>s. si_loan_id s \<noteq> lid) (ld_schedule db)\<rparr>)
      in bind_res (GetLoanTx db1 lid) (\<lambda>l. Inr (db1, l)))"

end
