(* ===== verification/LoanRepayment.thy ===== *)
theory LoanRepayment
  imports LoanStore
begin

text \<open>
  Servicing a loan (services/savings/internal/store/loan_repayment_store.go): accrual of the interest
  due, repayment down the tenant's waterfall, the next installment, days past due and their
  classification, and the reversal of a repayment.
\<close>

section \<open>The waterfall\<close>

definition component_of :: "string \<Rightarrow> component option" where
  "component_of s = (if s = ''penalty'' then Some Penalty else if s = ''interest'' then Some Interest
     else if s = ''principal'' then Some Principal else if s = ''fees'' then Some Fees else None)"

fun component_text :: "component \<Rightarrow> string" where
  "component_text Penalty = ''penalty''"
| "component_text Interest = ''interest''"
| "component_text Principal = ''principal''"
| "component_text Fees = ''fees''"

definition default_waterfall :: "component list" where
  "default_waterfall = [Penalty, Interest, Principal, Fees]"

text \<open>Unknown tokens are skipped; a token may come more than once.\<close>

definition ParseWaterfall :: "string \<Rightarrow> component list" where
  "ParseWaterfall raw =
     (if raw = [] then default_waterfall
      else let out = List.map_filter (\<lambda>p. component_of (TrimSpace p)) (split_on CHR '','' raw)
        in if out = [] then default_waterfall else out)"

definition GetWaterfallTx :: "ln_db \<Rightarrow> component list" where
  "GetWaterfallTx db = ParseWaterfall (case ld_ops db of None \<Rightarrow> [] | Some t \<Rightarrow> to_waterfall t)"

section \<open>Accrual\<close>

definition due_for_accrual :: "uuid \<Rightarrow> date \<Rightarrow> installment \<Rightarrow> bool" where
  "due_for_accrual lid d s \<longleftrightarrow> si_loan_id s = lid \<and> si_due_date s \<le> d \<and> si_accrued_at s = None \<and> open_row s"

definition accrue_interest :: "ln_env \<Rightarrow> loan \<Rightarrow> uuid \<Rightarrow> installment \<Rightarrow> ln_db \<Rightarrow> ln_db \<times> uuid option" where
  "accrue_interest E loan user s db =
     (if 0 < si_due s Interest
      then (let (db1, t) = PostLoanTxnTx E ((post_loan_input loan LoanTxnInterestAccrual (si_due s Interest)
              (only Interest (si_due s Interest)) ''internal''
              (''Interest accrued'' @ dot @ ''installment '' @ show_nat (si_installment_no s) @ dot @ lo_loan_no loan) user)
              \<lparr>li_installment_no := Some (si_installment_no s)\<rparr>) db
        in (db1, Some (lx_id t)))
      else (db, None))"

definition accrue_fee :: "ln_env \<Rightarrow> loan \<Rightarrow> uuid \<Rightarrow> installment \<Rightarrow> ln_db \<Rightarrow> ln_db" where
  "accrue_fee E loan user s db =
     (if 0 < si_due s Fees
      then fst (PostLoanTxnTx E ((post_loan_input loan LoanTxnFeeCharge (si_due s Fees)
              (only Fees (si_due s Fees)) ''internal''
              (''Fee accrued'' @ dot @ ''installment '' @ show_nat (si_installment_no s) @ dot @ lo_loan_no loan) user)
              \<lparr>li_installment_no := Some (si_installment_no s)\<rparr>) db)
      else db)"

definition accrual :: "installment \<Rightarrow> component \<Rightarrow> decimal" where
  "accrual s = (\<lambda>_. 0)(Interest := si_due s Interest, Fees := si_due s Fees)"

definition charge :: "ln_env \<Rightarrow> (component \<Rightarrow> decimal) \<Rightarrow> loan \<Rightarrow> loan" where
  "charge E f l = l\<lparr>lo_charged := add_comp E (lo_charged l) f, lo_balance := add_comp E (lo_balance l) f\<rparr>"

definition accrue_row :: "ln_env \<Rightarrow> loan \<Rightarrow> uuid \<Rightarrow> installment \<Rightarrow> ln_db \<Rightarrow> ln_db" where
  "accrue_row E loan user s db =
     (let (db1, txn) = accrue_interest E loan user s db;
          db2 = accrue_fee E loan user s db1;
          db3 = set_rows (\<lambda>r. si_id r = si_id s)
            (\<lambda>r. r\<lparr>si_accrued_at := Some (now_db E), si_accrued_interest_txn_id := txn\<rparr>) db2
      in set_loan (lo_id loan) (charge E (accrual s)) db3)"

definition AccrueDueInterestTx :: "ln_env \<Rightarrow> uuid \<Rightarrow> go_time \<Rightarrow> uuid \<Rightarrow> ln_db \<Rightarrow> sv_error + (ln_db \<times> nat)" where
  "AccrueDueInterestTx E lid asOf user db =
     (let todo = sort_key si_installment_no (filter (due_for_accrual lid (gt_date asOf)) (ld_schedule db)) in
      if todo = [] then Inr (db, 0)
      else bind_res (GetLoanTx db lid) (\<lambda>loan. Inr (fold (accrue_row E loan user) todo db, length todo)))"

section \<open>Applying an amount to the schedule\<close>

definition row_paid_sum :: "installment \<Rightarrow> decimal" where
  "row_paid_sum s = si_paid s Principal + si_paid s Interest + si_paid s Fees"

definition row_due_sum :: "installment \<Rightarrow> decimal" where
  "row_due_sum s = si_due s Principal + si_due s Interest + si_due s Fees"

definition pay_row :: "ln_env \<Rightarrow> component \<Rightarrow> decimal \<Rightarrow> installment \<Rightarrow> installment \<Rightarrow> installment" where
  "pay_row E c pay r s = s\<lparr>si_paid := (si_paid s)(c := col E (si_paid r c + pay)),
     si_status := (if row_due_sum r \<le> row_paid_sum r + pay then RowPaid
       else if 0 < row_paid_sum r + pay then RowPartiallyPaid else si_status r),
     si_paid_at := (case si_paid_at s of Some t \<Rightarrow> Some t
       | None \<Rightarrow> if row_due_sum r \<le> row_paid_sum r + pay then Some (clock E) else None)\<rparr>"

fun apply_rows :: "ln_env \<Rightarrow> component \<Rightarrow> decimal \<Rightarrow> installment list \<Rightarrow> ln_db \<Rightarrow> ln_db \<times> decimal" where
  "apply_rows E c remaining [] db = (db, 0)"
| "apply_rows E c remaining (r # rs) db =
     (if remaining \<le> 0 then (db, 0)
      else if si_due r c - si_paid r c \<le> 0 then apply_rows E c remaining rs db
      else let pay = min remaining (si_due r c - si_paid r c);
               (db', applied) = apply_rows E c (remaining - pay) rs (set_rows (\<lambda>s. si_id s = si_id r) (pay_row E c pay r) db)
        in (db', pay + applied))"

definition applyToSchedule :: "ln_env \<Rightarrow> uuid \<Rightarrow> component \<Rightarrow> decimal \<Rightarrow> ln_db \<Rightarrow> ln_db \<times> decimal" where
  "applyToSchedule E lid c amount db = apply_rows E c amount (filter open_row (rows_of lid db)) db"

section \<open>The next installment\<close>

definition fully_cleared :: "loan \<Rightarrow> bool" where
  "fully_cleared l \<longleftrightarrow> lo_balance l Principal \<le> 0 \<and> lo_balance l Interest \<le> 0 \<and> lo_balance l Fees \<le> 0 \<and>
     lo_balance l Penalty \<le> 0"

definition settle_row :: "ln_env \<Rightarrow> installment \<Rightarrow> installment" where
  "settle_row E s = s\<lparr>si_status := RowPaid, si_paid_at := (case si_paid_at s of None \<Rightarrow> Some (now_db E) | Some t \<Rightarrow> Some t)\<rparr>"

definition settle_loan :: "ln_env \<Rightarrow> nat \<Rightarrow> loan \<Rightarrow> loan" where
  "settle_loan E n l = l\<lparr>lo_status := LoanSettled,
     lo_settled_at := (case lo_settled_at l of None \<Rightarrow> Some (now_db E) | Some t \<Rightarrow> Some t), lo_installments_paid := n,
     lo_next_installment_due_at := None, lo_next_installment_amount := None, lo_days_past_due := 0,
     lo_arrears_classification := ''performing''\<rparr>"

definition row_covered :: "installment \<Rightarrow> bool" where
  "row_covered s \<longleftrightarrow> si_due s Principal \<le> si_paid s Principal \<and> si_due s Interest \<le> si_paid s Interest \<and>
     si_due s Fees \<le> si_paid s Fees"

definition reopen_row :: "installment \<Rightarrow> installment" where
  "reopen_row s = s\<lparr>si_status := (if row_covered s then RowPaid
       else if 0 < si_paid s Principal \<or> 0 < si_paid s Interest \<or> 0 < si_paid s Fees then RowPartiallyPaid else RowPending),
     si_paid_at := (if row_covered s then si_paid_at s else None)\<rparr>"

definition remaining_due :: "installment \<Rightarrow> decimal" where
  "remaining_due s = si_total_due s - si_paid s Principal - si_paid s Interest - si_paid s Fees"

definition stamp_next :: "ln_env \<Rightarrow> uuid \<Rightarrow> ln_db \<Rightarrow> ln_db" where
  "stamp_next E lid db =
     (let next_row = find open_row (rows_of lid db);
          paid = length (filter (\<lambda>s. si_loan_id s = lid \<and> si_status s = RowPaid) (ld_schedule db))
      in set_loan lid (\<lambda>l. l\<lparr>lo_next_installment_due_at := map_option si_due_date next_row,
           lo_next_installment_amount := map_option (\<lambda>s. col E (remaining_due s)) next_row,
           lo_installments_paid := paid\<rparr>) db)"

definition recomputeNextDueTx :: "ln_env \<Rightarrow> uuid \<Rightarrow> ln_db \<Rightarrow> sv_error + ln_db" where
  "recomputeNextDueTx E lid db = bind_res (GetLoanTx db lid) (\<lambda>loan.
     if fully_cleared loan
     then (let db1 = set_rows (\<lambda>s. si_loan_id s = lid \<and> open_row s) (settle_row E) db;
               n = length (filter (\<lambda>s. si_loan_id s = lid \<and> si_status s \<noteq> RowCancelled) (ld_schedule db1))
           in Inr (set_loan lid (settle_loan E n) db1))
     else Inr (stamp_next E lid
       (if lo_status loan = LoanSettled
        then set_rows (\<lambda>s. si_loan_id s = lid \<and> si_status s \<noteq> RowCancelled) reopen_row
          (set_loan lid (\<lambda>l. l\<lparr>lo_status := LoanActive, lo_settled_at := None\<rparr>) db)
        else db)))"

section \<open>Days past due\<close>

definition ClassifyDPD :: "int \<Rightarrow> int \<Rightarrow> int \<Rightarrow> int \<Rightarrow> string" where
  "ClassifyDPD dpd substandardDays doubtfulDays lossDays =
     (if dpd \<le> 0 then ''performing'' else if dpd < substandardDays then ''watch''
      else if dpd < doubtfulDays then ''substandard'' else if dpd < lossDays then ''doubtful'' else ''loss'')"

text \<open>
  \<open>int(asOf.Sub(earliestDue).Hours() / 24)\<close>, without the last bits of the float and the
  saturation of a duration at 292 years.
\<close>

definition days_past_due :: "go_time \<Rightarrow> installment list \<Rightarrow> int" where
  "days_past_due asOf overdue = (if overdue = [] then 0
     else max 0 ((time_instant asOf - time_instant (GoTime (Min (set (map si_due_date overdue))) 0)) div hours 24))"

definition overdue_row :: "uuid \<Rightarrow> date \<Rightarrow> installment \<Rightarrow> bool" where
  "overdue_row lid d s \<longleftrightarrow> si_loan_id s = lid \<and> open_row s \<and> si_due_date s \<le> d"

definition dpd_status :: "int \<Rightarrow> loan_status \<Rightarrow> loan_status" where
  "dpd_status dpd st = (if st = LoanActive \<or> st = LoanInArrears
     then (if 0 < dpd then LoanInArrears else LoanActive) else st)"

record dpd_result =
  dr_loan_id :: uuid
  dr_days_past_due :: int
  dr_classification :: string
  dr_previous_status :: loan_status
  dr_new_status :: loan_status

definition RecalcDPDTx :: "ln_env \<Rightarrow> uuid \<Rightarrow> go_time \<Rightarrow> ln_db \<Rightarrow> sv_error + (ln_db \<times> dpd_result)" where
  "RecalcDPDTx E lid asOf db = (case ld_ops db of
     None \<Rightarrow> Inl (SvDb ''no rows in result set'')
   | Some t \<Rightarrow>
     (let dpd = days_past_due asOf (filter (overdue_row lid (gt_date asOf)) (ld_schedule db));
          cls = ClassifyDPD dpd (to_dpd_substandard_days t) (to_dpd_doubtful_days t) (to_dpd_loss_days t) in
      bind_res (GetLoanTx db lid) (\<lambda>loan.
      let db1 = set_loan lid (\<lambda>l. l\<lparr>lo_days_past_due := dpd, lo_arrears_classification := cls,
            lo_status := dpd_status dpd (lo_status loan)\<rparr>) db;
          res = \<lparr> dr_loan_id = lid, dr_days_past_due = dpd, dr_classification = cls,
            dr_previous_status = lo_status loan, dr_new_status = dpd_status dpd (lo_status loan) \<rparr> in
      if le_collections E \<and> 0 < dpd
      then bind_res (GetLoanTx db1 lid) (\<lambda>fresh. Inr (fst (EnsureCaseForLoanTx fresh db1), res))
      else Inr (db1, res))))"

definition LoansForDPDRecalcTx :: "ln_db \<Rightarrow> uuid list" where
  "LoansForDPDRecalcTx db = map lo_id (filter (\<lambda>l. lo_status l \<in> {LoanActive, LoanInArrears, LoanRestructured}) (ld_loans db))"

section \<open>Repayment\<close>

record repayment_input =
  rp_loan :: loan
  rp_amount :: decimal
  rp_channel :: string
  rp_channel_ref :: string
  rp_narration :: string
  rp_value_date :: go_time
  rp_initiated_by :: uuid

record repayment_allocation =
  al_comp :: "component \<Rightarrow> decimal"
  al_suspense :: decimal

definition repayable :: "loan_status \<Rightarrow> bool" where
  "repayable st \<longleftrightarrow> st = LoanActive \<or> st = LoanInArrears \<or> st = LoanRestructured"

text \<open>The loop over the waterfall: the allocation so far, the amount left and the tables.\<close>

fun allocate ::
  "ln_env \<Rightarrow> loan \<Rightarrow> component list \<Rightarrow> (component \<Rightarrow> decimal) \<Rightarrow> decimal \<Rightarrow> ln_db \<Rightarrow> (component \<Rightarrow> decimal) \<times> decimal \<times> ln_db" where
  "allocate E loan [] alloc remaining db = (alloc, remaining, db)"
| "allocate E loan (c # cs) alloc remaining db =
     (if remaining \<le> 0 then (alloc, remaining, db)
      else if lo_balance loan c \<le> 0 then allocate E loan cs alloc remaining db
      else let x = min remaining (lo_balance loan c)
        in allocate E loan cs (alloc(c := x)) (remaining - x)
             (if c = Penalty then db else fst (applyToSchedule E (lo_id loan) c x db)))"

definition repay_loan :: "ln_env \<Rightarrow> (component \<Rightarrow> decimal) \<Rightarrow> loan \<Rightarrow> loan" where
  "repay_loan E f l = l\<lparr>lo_paid := add_comp E (lo_paid l) f, lo_balance := add_comp E (lo_balance l) (\<lambda>c. - f c),
     lo_last_repayment_at := Some (now_db E)\<rparr>"

definition settled_exists :: "uuid \<Rightarrow> ln_db \<Rightarrow> bool" where
  "settled_exists lid db \<longleftrightarrow> (\<exists>l\<in>set (ld_loans db). lo_id l = lid \<and> lo_status l \<in> {LoanSettled, LoanClosed})"

definition release_note :: "string option \<Rightarrow> string \<Rightarrow> string" where
  "release_note notes why = (let n = the_default [] notes in n @ (if n = [] then [] else [CHR 0x0A]) @ why)"

definition release_guarantees :: "ln_env \<Rightarrow> uuid \<Rightarrow> uuid \<Rightarrow> ln_db \<Rightarrow> ln_db" where
  "release_guarantees E lid tid db =
     (if settled_exists lid db
      then db\<lparr>ld_guarantees := map (\<lambda>g. if gu_loan_id g = Some lid \<and> gu_status g \<in> {GuarPending, GuarAccepted, GuarCalled}
          then g\<lparr>gu_status := GuarReleased,
                 gu_released_at := (case gu_released_at g of None \<Rightarrow> Some (now_db E) | Some t \<Rightarrow> Some t),
                 gu_notes := Some (release_note (gu_notes g) (''[released] loan settled by repayment '' @ se_uuid (le_sv E) tid))\<rparr>
          else g) (ld_guarantees db)\<rparr>
      else db)"

definition finish_repayment ::
  "ln_env \<Rightarrow> repayment_input \<Rightarrow> (component \<Rightarrow> decimal) \<Rightarrow> ln_db \<Rightarrow> sv_error + (ln_db \<times> loan_txn_row)" where
  "finish_repayment E inp alloc db =
     (let loan = rp_loan inp; lid = lo_id loan;
          (db1, t) = PostLoanTxnTx E ((post_loan_input loan LoanTxnRepayment (- rp_amount inp) alloc (rp_channel inp)
            (if rp_narration inp = [] then ''Repayment'' @ dot @ rp_channel inp else rp_narration inp) (rp_initiated_by inp))
            \<lparr>li_channel_ref := Some (rp_channel_ref inp)\<rparr>) db in
      bind_res (recomputeNextDueTx E lid db1) (\<lambda>db2.
      bind_res (RecalcDPDTx E lid (rp_value_date inp) db2) (\<lambda>(db3, _).
      let db4 = release_guarantees E lid (lx_id t) db3 in
      Inr (if le_collections E then AutoResolveOpenPTPOnRepaymentTx E lid (lx_id t) (rp_amount inp) (rp_value_date inp) db4 else db4,
        t))))"

definition PostRepaymentTx ::
  "ln_env \<Rightarrow> repayment_input \<Rightarrow> component list \<Rightarrow> ln_db \<Rightarrow> sv_error + (ln_db \<times> loan_txn_row \<times> repayment_allocation)" where
  "PostRepaymentTx E inp waterfall db =
     bind_res (ensure (0 < rp_amount inp) (SvMsg ''repayment: amount must be > 0'')) (\<lambda>_.
     bind_res (ensure (repayable (lo_status (rp_loan inp)))
       (SvMsg (''loan is not in a state that permits repayments (loan is '' @ loan_status_text (lo_status (rp_loan inp)) @ '')''))) (\<lambda>_.
     let (alloc, remaining, db1) = allocate E (rp_loan inp) waterfall no_comp (rp_amount inp) db;
         db2 = set_loan (lo_id (rp_loan inp)) (repay_loan E alloc) db1 in
     bind_res (finish_repayment E inp alloc db2) (\<lambda>(db3, t).
     Inr (db3, t, \<lparr> al_comp = alloc, al_suspense = (if 0 < remaining then remaining else 0) \<rparr>))))"

definition PayoffFigureTx :: "ln_db \<Rightarrow> uuid \<Rightarrow> sv_error + decimal" where
  "PayoffFigureTx db lid = bind_res (GetLoanTx db lid) (\<lambda>l. Inr (comp_sum (lo_balance l)))"

section \<open>Reversal\<close>

definition unpay_row :: "ln_env \<Rightarrow> component \<Rightarrow> decimal \<Rightarrow> installment \<Rightarrow> installment \<Rightarrow> installment" where
  "unpay_row E c tk r s =
     (let st = (if 0 < row_paid_sum r - tk then RowPartiallyPaid else RowPending) in
      s\<lparr>si_paid := (si_paid s)(c := col E (si_paid r c - tk)), si_status := st,
        si_paid_at := (if si_status s = RowPaid \<and> st \<noteq> RowPaid then None else si_paid_at s)\<rparr>)"

fun unapply_rows :: "ln_env \<Rightarrow> component \<Rightarrow> decimal \<Rightarrow> installment list \<Rightarrow> ln_db \<Rightarrow> ln_db" where
  "unapply_rows E c remaining [] db = db"
| "unapply_rows E c remaining (r # rs) db =
     (if remaining \<le> 0 then db
      else let tk = min remaining (si_paid r c)
        in unapply_rows E c (remaining - tk) rs (set_rows (\<lambda>s. si_id s = si_id r) (unpay_row E c tk r) db))"

definition reverseScheduleAllocation :: "ln_env \<Rightarrow> uuid \<Rightarrow> component \<Rightarrow> decimal \<Rightarrow> ln_db \<Rightarrow> ln_db" where
  "reverseScheduleAllocation E lid c amount db =
     (if amount \<le> 0 then db
      else unapply_rows E c amount (filter (\<lambda>s. 0 < si_paid s c \<and> si_status s \<noteq> RowCancelled) (rev (rows_of lid db))) db)"

definition unrepay_loan :: "ln_env \<Rightarrow> (component \<Rightarrow> decimal) \<Rightarrow> loan \<Rightarrow> loan" where
  "unrepay_loan E f l = l\<lparr>lo_paid := add_comp E (lo_paid l) (\<lambda>c. - f c), lo_balance := add_comp E (lo_balance l) f\<rparr>"

text \<open>From the transaction that was read on.\<close>

definition reverse_repayment ::
  "ln_env \<Rightarrow> loan_txn_row \<Rightarrow> string \<Rightarrow> uuid \<Rightarrow> ln_db \<Rightarrow> sv_error + (ln_db \<times> loan_txn_row)" where
  "reverse_repayment E orig why user db =
     bind_res (ensure (lx_type orig = LoanTxnRepayment)
       (SvMsg (''only repayment transactions can be reversed (got '' @ loan_txn_type_text (lx_type orig) @ '')''))) (\<lambda>_.
     bind_res (ensure (lx_reversed_by_txn_id orig = None) (SvMsg ''transaction already reversed'')) (\<lambda>_.
     bind_res (GetLoanTx db (lx_loan_id orig)) (\<lambda>loan.
     let lid = lo_id loan;
         db1 = set_loan lid (unrepay_loan E (lx_comp orig)) db;
         db2 = reverseScheduleAllocation E lid Principal (lx_comp orig Principal) db1;
         db3 = reverseScheduleAllocation E lid Interest (lx_comp orig Interest) db2;
         db4 = reverseScheduleAllocation E lid Fees (lx_comp orig Fees) db3;
         (db5, rv) = PostLoanTxnTx E ((post_loan_input loan LoanTxnReversal (- lx_amount orig) (\<lambda>c. - lx_comp orig c)
           ''internal'' (''Reversal of '' @ lx_txn_no orig @ dot @ why) user)
           \<lparr>li_reverses_txn_id := Some (lx_id orig), li_authorized_by := Some user\<rparr>) db4;
         db6 = db5\<lparr>ld_txns := map (\<lambda>t. if lx_id t = lx_id orig then t\<lparr>lx_reversed_by_txn_id := Some (lx_id rv)\<rparr> else t) (ld_txns db5)\<rparr>
     in bind_res (recomputeNextDueTx E lid db6) (\<lambda>db7.
        bind_res (RecalcDPDTx E lid (clock E) db7) (\<lambda>(db8, _). Inr (db8, rv))))))"

definition ReverseRepaymentTx ::
  "ln_env \<Rightarrow> uuid \<Rightarrow> string \<Rightarrow> uuid \<Rightarrow> ln_db \<Rightarrow> sv_error + (ln_db \<times> loan_txn_row)" where
  "ReverseRepaymentTx E tid why user db = bind_res (GetLoanTxnTx db tid) (\<lambda>orig. reverse_repayment E orig why user db)"

end
