(* ===== verification/LoanRestructure.thy ===== *)
theory LoanRestructure
  imports LoanRepayment
begin

text \<open>
  Restructuring and write-off (services/savings/internal/store/loan_restructure_store.go and
  \<open>WriteOffLoanTx\<close> of loan_reports_store.go). The audit row \<open>loan_restructurings\<close> is written
  as the code fills it, less the columns that only repeat the loan's previous terms.
\<close>

definition restructuring_row :: "uuid \<Rightarrow> restructuring_kind \<Rightarrow> string \<Rightarrow> loan \<Rightarrow> uuid \<Rightarrow> restructuring" where
  "restructuring_row lid k why prev user = \<lparr> rs_loan_id = lid, rs_kind = k, rs_reason = why,
     rs_previous_principal_balance = lo_balance prev Principal, rs_previous_status = lo_status prev,
     rs_new_term_months = None, rs_new_interest_rate_pct = None, rs_topup_amount = None,
     rs_refinance_new_loan_id = None, rs_moratorium_months = None, rs_moratorium_suspend_interest = None,
     rs_discount_amount = None, rs_discount_writeoff_txn_id = None, rs_created_by = user \<rparr>"

definition insertRestructuringTx :: "restructuring \<Rightarrow> ln_db \<Rightarrow> ln_db" where
  "insertRestructuringTx r db = db\<lparr>ld_restructurings := ld_restructurings db @ [r], sv_supply := sv_supply db + 1\<rparr>"

section \<open>Reschedule\<close>

record reschedule_input =
  ri_loan :: uuid
  ri_new_term_months :: int
  ri_new_interest_rate_pct :: "decimal option"
  ri_new_first_due_date :: "go_time option"
  ri_reason :: string
  ri_by :: uuid

text \<open>The first installment's date goes back a month and forward again through \<open>GenerateSchedule\<close>.\<close>

definition reschedule_rows :: "ln_env \<Rightarrow> loan \<Rightarrow> decimal \<Rightarrow> int \<Rightarrow> go_time \<Rightarrow> schedule_row list" where
  "reschedule_rows E l rate n firstDue =
     GenerateSchedule (se_dec (le_sv E)) (le_pmt E) (lo_balance l Principal) rate n 0 (add_months_time firstDue (- 1))
       (lo_interest_method l) (lo_repayment_method l)"

definition max_installment_no :: "uuid \<Rightarrow> ln_db \<Rightarrow> nat" where
  "max_installment_no lid db = Max (insert 0 (si_installment_no ` set (filter (\<lambda>s. si_loan_id s = lid) (ld_schedule db))))"

fun insert_numbered :: "ln_env \<Rightarrow> uuid \<Rightarrow> nat \<Rightarrow> schedule_row list \<Rightarrow> ln_db \<Rightarrow> sv_error + ln_db" where
  "insert_numbered E lid no [] db = Inr db"
| "insert_numbered E lid no (r # rs) db = bind_res (insert_installment E lid no r db) (insert_numbered E lid (Suc no) rs)"

definition reschedule_loan :: "ln_env \<Rightarrow> int \<Rightarrow> decimal \<Rightarrow> go_time \<Rightarrow> decimal \<Rightarrow> loan \<Rightarrow> loan" where
  "reschedule_loan E n rate firstDue firstAmount l = l\<lparr>lo_term_months := n, lo_interest_rate_pct := le_rate_col E rate,
     lo_installment_count := n, lo_first_due_date := Some (gt_date firstDue),
     lo_next_installment_due_at := Some (gt_date firstDue), lo_next_installment_amount := Some (col E firstAmount),
     lo_status := LoanRestructured, lo_days_past_due := 0, lo_arrears_classification := ''performing''\<rparr>"

definition cancel_open_rows :: "uuid \<Rightarrow> ln_db \<Rightarrow> ln_db" where
  "cancel_open_rows lid = set_rows (\<lambda>s. si_loan_id s = lid \<and> open_row s) (\<lambda>s. s\<lparr>si_status := RowCancelled\<rparr>)"

definition ErrRestructureNotAllowed :: sv_error where
  "ErrRestructureNotAllowed = SvMsg ''loan is not in a state that permits restructuring''"

definition RescheduleTx :: "ln_env \<Rightarrow> reschedule_input \<Rightarrow> ln_db \<Rightarrow> sv_error + (ln_db \<times> loan)" where
  "RescheduleTx E inp db =
     bind_res (ensure (0 < ri_new_term_months inp) (SvMsg ''new_term_months must be > 0'')) (\<lambda>_.
     bind_res (GetLoanTx db (ri_loan inp)) (\<lambda>loan.
     bind_res (ensure (repayable (lo_status loan)) ErrRestructureNotAllowed) (\<lambda>_.
     let rate = the_default (lo_interest_rate_pct loan) (ri_new_interest_rate_pct inp);
         firstDue = the_default (add_months_time (clock E) 1) (ri_new_first_due_date inp);
         newSchedule = reschedule_rows E loan rate (ri_new_term_months inp) firstDue;
         db1 = cancel_open_rows (ri_loan inp) db
     in bind_res (insert_numbered E (ri_loan inp) (max_installment_no (ri_loan inp) db1 + 1) newSchedule db1) (\<lambda>db2.
        let firstAmount = (case newSchedule of [] \<Rightarrow> 0 | r # _ \<Rightarrow> sr_total_due r);
            db3 = set_loan (ri_loan inp) (reschedule_loan E (ri_new_term_months inp) rate firstDue firstAmount) db2
        in bind_res (GetLoanTx db3 (ri_loan inp)) (\<lambda>updated.
           Inr (insertRestructuringTx ((restructuring_row (ri_loan inp) RestructureReschedule (ri_reason inp) loan (ri_by inp))
             \<lparr>rs_new_term_months := Some (ri_new_term_months inp), rs_new_interest_rate_pct := Some rate\<rparr>) db3, updated))))))"

section \<open>Moratorium\<close>

text \<open>Adding months to a \<open>date\<close> in PostgreSQL keeps to the last day of a short month.\<close>

definition pg_add_months :: "date \<Rightarrow> int \<Rightarrow> date" where
  "pg_add_months d n = (let m = int (d_month d) - 1 + n; y = d_year d + m div 12; mo = nat (m mod 12) + 1
     in Date y mo (min (d_day d) (days_in y mo)))"

definition MoratoriumTx ::
  "ln_env \<Rightarrow> uuid \<Rightarrow> int \<Rightarrow> bool \<Rightarrow> string \<Rightarrow> uuid \<Rightarrow> ln_db \<Rightarrow> sv_error + (ln_db \<times> loan)" where
  "MoratoriumTx E lid n suspend why user db =
     bind_res (ensure (0 < n) (SvMsg ''moratorium_months must be > 0'')) (\<lambda>_.
     bind_res (GetLoanTx db lid) (\<lambda>loan.
     bind_res (ensure (repayable (lo_status loan)) ErrRestructureNotAllowed) (\<lambda>_.
     let mine = (\<lambda>s. si_loan_id s = lid \<and> open_row s);
         db1 = set_rows mine (\<lambda>s. s\<lparr>si_due_date := pg_add_months (si_due_date s) n\<rparr>) db;
         db2 = (if suspend then set_rows mine (\<lambda>s. s\<lparr>si_accrued_at :=
             (case si_accrued_at s of None \<Rightarrow> Some (now_db E) | Some t \<Rightarrow> Some t)\<rparr>) db1 else db1);
         next_row = find open_row (rows_of lid db2);
         db3 = set_loan lid (\<lambda>l. l\<lparr>lo_status := LoanRestructured, lo_next_installment_due_at := map_option si_due_date next_row,
           lo_next_installment_amount := map_option (\<lambda>s. col E (remaining_due s)) next_row, lo_days_past_due := 0,
           lo_arrears_classification := ''performing''\<rparr>) db2
     in bind_res (GetLoanTx db3 lid) (\<lambda>updated.
        Inr (insertRestructuringTx ((restructuring_row lid RestructureMoratorium why loan user)
          \<lparr>rs_moratorium_months := Some n, rs_moratorium_suspend_interest := Some suspend\<rparr>) db3, updated)))))"

section \<open>Settlement discount\<close>

text \<open>Every balance becomes zero, whatever the discount.\<close>

definition clear_loan :: "ln_env \<Rightarrow> loan \<Rightarrow> loan" where
  "clear_loan E l = l\<lparr>lo_balance := no_comp, lo_status := LoanSettled, lo_settled_at := Some (now_db E),
     lo_days_past_due := 0, lo_arrears_classification := ''performing'', lo_next_installment_due_at := None,
     lo_next_installment_amount := None\<rparr>"

definition SettlementDiscountTx ::
  "ln_env \<Rightarrow> uuid \<Rightarrow> decimal \<Rightarrow> string \<Rightarrow> uuid \<Rightarrow> ln_db \<Rightarrow> sv_error + (ln_db \<times> restructuring \<times> loan)" where
  "SettlementDiscountTx E lid x why user db =
     bind_res (ensure (0 < x) (SvMsg ''discount amount must be > 0'')) (\<lambda>_.
     bind_res (GetLoanTx db lid) (\<lambda>loan.
     bind_res (ensure (repayable (lo_status loan)) ErrRestructureNotAllowed) (\<lambda>_.
     let (db1, t) = PostLoanTxnTx E ((post_loan_input loan LoanTxnSettlementDiscount (- x) (only Principal x) ''internal''
           (''Settlement discount'' @ dot @ why) user)\<lparr>li_authorized_by := Some user\<rparr>) db;
         db2 = set_rows (\<lambda>s. si_loan_id s = lid \<and> open_row s) (settle_row E) (set_loan lid (clear_loan E) db1);
         rec = (restructuring_row lid RestructureSettlementDiscount why loan user)
           \<lparr>rs_discount_amount := Some (col E x), rs_discount_writeoff_txn_id := Some (lx_id t)\<rparr>
     in bind_res (GetLoanTx db2 lid) (\<lambda>updated. Inr (insertRestructuringTx rec db2, rec, updated)))))"

section \<open>Top-up and refinance intents\<close>

definition RecordTopupIntentTx :: "ln_env \<Rightarrow> uuid \<Rightarrow> decimal \<Rightarrow> string \<Rightarrow> uuid \<Rightarrow> ln_db \<Rightarrow> sv_error + ln_db" where
  "RecordTopupIntentTx E lid x why user db = bind_res (GetLoanTx db lid) (\<lambda>loan.
     bind_res (ensure (lo_status loan = LoanActive) ErrRestructureNotAllowed) (\<lambda>_.
     Inr (insertRestructuringTx ((restructuring_row lid RestructureTopup why loan user)\<lparr>rs_topup_amount := Some (col E x)\<rparr>) db)))"

definition RecordRefinanceIntentTx :: "ln_env \<Rightarrow> uuid \<Rightarrow> uuid \<Rightarrow> string \<Rightarrow> uuid \<Rightarrow> ln_db \<Rightarrow> sv_error + ln_db" where
  "RecordRefinanceIntentTx E lid new_id why user db = bind_res (GetLoanTx db lid) (\<lambda>loan.
     Inr (insertRestructuringTx ((restructuring_row lid RestructureRefinance why loan user)\<lparr>rs_refinance_new_loan_id := Some new_id\<rparr>)
       (set_loan lid (\<lambda>l. l\<lparr>lo_status := LoanClosed, lo_closed_at := Some (now_db E)\<rparr>) db)))"

section \<open>Write-off\<close>

definition write_off_loan :: "ln_env \<Rightarrow> loan \<Rightarrow> loan" where
  "write_off_loan E l = l\<lparr>lo_status := LoanWrittenOff, lo_balance := no_comp, lo_written_off_at := Some (now_db E)\<rparr>"

definition WriteOffLoanTx ::
  "ln_env \<Rightarrow> uuid \<Rightarrow> string \<Rightarrow> uuid \<Rightarrow> ln_db \<Rightarrow> sv_error + (ln_db \<times> writeoff \<times> loan)" where
  "WriteOffLoanTx E lid why user db = bind_res (GetLoanTx db lid) (\<lambda>loan.
     bind_res (ensure (lo_status loan \<notin> {LoanWrittenOff, LoanSettled, LoanClosed})
       (SvMsg (''loan is '' @ loan_status_text (lo_status loan) @ '' '' @ utf8 [226, 128, 148] @ '' cannot write off''))) (\<lambda>_.
     bind_res (ensure (0 < comp_sum (lo_balance loan)) (SvMsg ''loan has no outstanding balance to write off'')) (\<lambda>_.
     let (db1, t) = PostLoanTxnTx E ((post_loan_input loan LoanTxnWriteOff (- comp_sum (lo_balance loan)) (lo_balance loan)
           ''internal'' (''Write-off'' @ dot @ why) user)\<lparr>li_authorized_by := Some user\<rparr>) db;
         wo = \<lparr> wo_loan_id = lid, wo_counterparty_id = lo_counterparty_id loan, wo_comp = lo_balance loan,
           wo_total = comp_sum (lo_balance loan), wo_reason = why, wo_authorized_by = user, wo_txn_id = lx_id t \<rparr>;
         db2 = cancel_open_rows lid (set_loan lid (write_off_loan E)
           (db1\<lparr>ld_writeoffs := ld_writeoffs db1 @ [wo], sv_supply := sv_supply db1 + 1\<rparr>))
     in bind_res (GetLoanTx db2 lid) (\<lambda>updated. Inr (db2, wo, updated)))))"

end
