(* ===== verification/LoanCoverage.thy ===== *)
theory LoanCoverage
  imports LoanTables
begin

text \<open>
  The security policy of a loan product (services/savings/internal/coverage/coverage.go): accepted
  guarantees and pledged collateral against the amount of the loan. The explanation the result
  carries for people is left out.
\<close>

record coverage =
  cv_guarantor_pledged :: decimal
  cv_collateral_fsv :: decimal
  cv_loan_amount :: decimal

record security_policy =
  sp_security_model :: string
  sp_min_guarantor_cover_pct :: decimal
  sp_min_collateral_cover_pct :: decimal

record coverage_result =
  cr_guarantor_pct :: decimal
  cr_collateral_pct :: decimal
  cr_guarantor_passes :: bool
  cr_collateral_passes :: bool
  cr_policy_met :: bool
  cr_guarantor_shortfall :: decimal
  cr_collateral_shortfall :: decimal

definition cover_pct :: "decimal_lib \<Rightarrow> decimal \<Rightarrow> decimal \<Rightarrow> decimal" where
  "cover_pct D pledged amount = (if 0 < amount then dRound D 2 (dDiv D pledged amount * 100) else 0)"

definition cover_shortfall :: "decimal_lib \<Rightarrow> bool \<Rightarrow> decimal \<Rightarrow> decimal \<Rightarrow> decimal \<Rightarrow> decimal" where
  "cover_shortfall D passes min_pct amount pledged =
     (if passes then 0
      else let need = dRound D 2 (dDiv D min_pct 100 * amount) in if need - pledged < 0 then 0 else need - pledged)"

definition Evaluate :: "decimal_lib \<Rightarrow> coverage \<Rightarrow> security_policy \<Rightarrow> coverage_result" where
  "Evaluate D c p =
     (if cv_loan_amount c = 0
      then \<lparr> cr_guarantor_pct = 0, cr_collateral_pct = 0, cr_guarantor_passes = False, cr_collateral_passes = False,
             cr_policy_met = True, cr_guarantor_shortfall = 0, cr_collateral_shortfall = 0 \<rparr>
      else let gp = cover_pct D (cv_guarantor_pledged c) (cv_loan_amount c);
               cp = cover_pct D (cv_collateral_fsv c) (cv_loan_amount c);
               g = (sp_min_guarantor_cover_pct p \<le> gp); k = (sp_min_collateral_cover_pct p \<le> cp)
        in \<lparr> cr_guarantor_pct = gp, cr_collateral_pct = cp, cr_guarantor_passes = g, cr_collateral_passes = k,
             cr_policy_met = (if sp_security_model p = ''none'' then True
               else if sp_security_model p = ''guarantor_only'' then g
               else if sp_security_model p = ''collateral_only'' then k
               else if sp_security_model p = ''either'' then g \<or> k
               else if sp_security_model p = ''both'' then g \<and> k else False),
             cr_guarantor_shortfall = cover_shortfall D g (sp_min_guarantor_cover_pct p) (cv_loan_amount c) (cv_guarantor_pledged c),
             cr_collateral_shortfall = cover_shortfall D k (sp_min_collateral_cover_pct p) (cv_loan_amount c) (cv_collateral_fsv c) \<rparr>)"

section \<open>The figures of an application\<close>

definition SumAcceptedGuaranteesByApplicationTx :: "ln_db \<Rightarrow> uuid \<Rightarrow> decimal" where
  "SumAcceptedGuaranteesByApplicationTx db aid =
     sum_list (map gu_amount (filter (\<lambda>g. gu_application_id g = aid \<and> gu_status g = GuarAccepted) (ld_guarantees db)))"

definition SumPledgedFSVByApplicationTx :: "ln_db \<Rightarrow> uuid \<Rightarrow> decimal" where
  "SumPledgedFSVByApplicationTx db aid = sum_list (List.map_filter ci_forced_sale_value
     (filter (\<lambda>c. ci_application_id c = aid \<and> ci_status c = ''pledged'') (ld_collateral db)))"

text \<open>The amount is the application's; the disbursement puts the loan's principal in its place.\<close>

definition LoadCoverageAndPolicyTx :: "ln_db \<Rightarrow> uuid \<Rightarrow> decimal \<Rightarrow> sv_error + (coverage \<times> security_policy)" where
  "LoadCoverageAndPolicyTx db aid amount = (case GetAppTx db aid of
     Inl _ \<Rightarrow> Inl (SvNotFound ''application not found'')
   | Inr app \<Rightarrow> bind_res (GetLoanProductTx db (la_product_id app)) (\<lambda>p.
       Inr (\<lparr> cv_guarantor_pledged = SumAcceptedGuaranteesByApplicationTx db aid,
              cv_collateral_fsv = SumPledgedFSVByApplicationTx db aid, cv_loan_amount = amount \<rparr>,
            \<lparr> sp_security_model = lp_security_model p, sp_min_guarantor_cover_pct = lp_min_guarantor_cover_pct p,
              sp_min_collateral_cover_pct = lp_min_collateral_cover_pct p \<rparr>)))"

end
