(* ===== verification/LoanExecutors.thy ===== *)
theory LoanExecutors
  imports LoanRestructure LoanCoverage DepositHandlers
begin

text \<open>
  The executors of loan requests: repayment, settlement and reversal
  (services/savings/internal/handler/loan_repayment_executors.go), disbursement
  (handler/loan_disbursement_executor.go), restructuring and write-off
  (handler/loan_collections_executors.go), and the journal entries they queue
  (internal/postingops/postingops.go). Errors wrapped with context are kept as their cause; the
  insider flags and the insurance adapters are left out.
\<close>

section \<open>Strings\<close>

text \<open>\<open>strings.ToLower\<close> on ASCII.\<close>

definition ToLower :: "string \<Rightarrow> string" where
  "ToLower = map (\<lambda>c. if CHR ''A'' \<le> c \<and> c \<le> CHR ''Z'' then char_of (of_char c + 32 :: nat) else c)"

section \<open>Journal entries\<close>

definition repaymentCashAccount :: "string \<Rightarrow> string" where
  "repaymentCashAccount ch = (let c = ToLower ch in
     if c = ''mpesa'' then ''1030'' else if c = ''bank'' \<or> c = ''bank_transfer'' then ''1020''
     else if c = ''auto_savings'' then ''2000'' else if c = ''payroll'' then ''1020'' else ''1000'')"

definition credit_nonzero :: "string \<Rightarrow> decimal \<Rightarrow> string \<Rightarrow> post_line list" where
  "credit_nonzero code x narr = (if x = 0 then [] else [credit_line code x narr])"

definition debit_nonzero :: "string \<Rightarrow> decimal \<Rightarrow> string \<Rightarrow> post_line list" where
  "debit_nonzero code x narr = (if x = 0 then [] else [debit_line code x narr])"

definition PostLoanRepaymentTx ::
  "ln_env \<Rightarrow> uuid \<Rightarrow> string \<Rightarrow> decimal \<Rightarrow> (component \<Rightarrow> decimal) \<Rightarrow> string \<Rightarrow> ln_db \<Rightarrow> sv_error + ln_db" where
  "PostLoanRepaymentTx E tid no x f ch = sv_post (le_sv E) (entry_input (le_sv E) ''savings.loans.repayment'' (se_uuid (le_sv E) tid)
     (''Repayment on loan '' @ no)
     (debit_line (repaymentCashAccount ch) x ''Cash received'' #
      credit_nonzero ''1100'' (f Principal) ''Principal repaid'' @ credit_nonzero ''4000'' (f Interest) ''Loan interest income'' @
      credit_nonzero ''4030'' (f Penalty) ''Penalty income'' @ credit_nonzero ''4010'' (f Fees) ''Loan fees income''))"

definition PostLoanRepaymentReversalTx ::
  "ln_env \<Rightarrow> uuid \<Rightarrow> string \<Rightarrow> decimal \<Rightarrow> (component \<Rightarrow> decimal) \<Rightarrow> string \<Rightarrow> string \<Rightarrow> ln_db \<Rightarrow> sv_error + ln_db" where
  "PostLoanRepaymentReversalTx E orig no x f ch why = sv_post (le_sv E) (entry_input (le_sv E) ''savings.loans.repayment.reversal''
     (''reverse:'' @ se_uuid (le_sv E) orig) (''Reverse repayment on loan '' @ no @ '' ('' @ why @ '')'')
     (credit_line (repaymentCashAccount ch) x ''Cash repaid to member (reversal)'' #
      debit_nonzero ''1100'' (f Principal) ''Principal restored'' @ debit_nonzero ''4000'' (f Interest) ''Loan interest income reversed'' @
      debit_nonzero ''4030'' (f Penalty) ''Penalty income reversed'' @ debit_nonzero ''4010'' (f Fees) ''Loan fees income reversed''))"

definition PostLoanSettleTx ::
  "ln_env \<Rightarrow> uuid \<Rightarrow> string \<Rightarrow> decimal \<Rightarrow> (component \<Rightarrow> decimal) \<Rightarrow> string \<Rightarrow> ln_db \<Rightarrow> sv_error + ln_db" where
  "PostLoanSettleTx E tid no x f ch = sv_post (le_sv E) (entry_input (le_sv E) ''savings.loans.settle'' (se_uuid (le_sv E) tid)
     (''Settlement of loan '' @ no)
     (debit_line (repaymentCashAccount ch) x ''Settlement cash received'' #
      credit_nonzero ''1100'' (f Principal) ''Principal settled'' @ credit_nonzero ''4000'' (f Interest) ''Interest at settlement'' @
      credit_nonzero ''4030'' (f Penalty) ''Penalty at settlement'' @ credit_nonzero ''4010'' (f Fees) ''Fees at settlement''))"

definition PostLoanWriteoffTx ::
  "ln_env \<Rightarrow> uuid \<Rightarrow> string \<Rightarrow> decimal \<Rightarrow> string \<Rightarrow> bool \<Rightarrow> ln_db \<Rightarrow> sv_error + ln_db" where
  "PostLoanWriteoffTx E tid no x why through db =
     (if x = 0 then Inr db
      else sv_post (le_sv E) (entry_input (le_sv E) ''savings.loans.writeoff'' (se_uuid (le_sv E) tid)
        (''Write-off loan '' @ no @ '' ('' @ why @ '')'')
        [if through then debit_line ''2900'' x ''Consume provision allowance'' else debit_line ''5020'' x ''Loan provision expense'',
         credit_line ''1100'' x ''Loans receivable written off'']) db)"

definition waived_code :: "string \<Rightarrow> string" where
  "waived_code s = (let c = ToLower s in if c = ''penalty'' then ''4030'' else if c = ''fees'' then ''4010''
     else if c = ''principal'' then ''5020'' else ''4000'')"

definition PostLoanSettlementDiscountTx ::
  "ln_env \<Rightarrow> uuid \<Rightarrow> string \<Rightarrow> decimal \<Rightarrow> string \<Rightarrow> string \<Rightarrow> ln_db \<Rightarrow> sv_error + ln_db" where
  "PostLoanSettlementDiscountTx E tid no x waived why db =
     (if x = 0 then Inr db
      else sv_post (le_sv E) (entry_input (le_sv E) ''savings.loans.settlement_discount'' (se_uuid (le_sv E) tid)
        (''Settlement discount on loan '' @ no @ dot @ ''waived '' @ waived @ dot @ why)
        [debit_line (waived_code waived) x ''Revenue waived'', credit_line ''1100'' x ''Loans receivable waived'']) db)"

definition resolveDisbursementCashAcctTx :: "string \<Rightarrow> loan \<Rightarrow> ln_db \<Rightarrow> string" where
  "resolveDisbursementCashAcctTx ch loan db = (let c = ToLower ch in
     if c \<noteq> ''internal'' \<and> c \<noteq> ''savings''
     then (if c = ''mpesa'' then ''1015'' else if c = ''bank'' \<or> c = ''bank_transfer'' then ''1020'' else ''1000'')
     else (case lo_disbursement_target_account_id loan of None \<Rightarrow> ''2000''
       | Some aid \<Rightarrow> (case GetDepAccountTx db aid of Inl _ \<Rightarrow> ''2000''
         | Inr a \<Rightarrow> resolveLiabilityAcctTx db (acc_product_id a))))"

definition PostLoanDisbursementTx ::
  "ln_env \<Rightarrow> uuid \<Rightarrow> loan \<Rightarrow> decimal \<Rightarrow> post_line list \<Rightarrow> string \<Rightarrow> ln_db \<Rightarrow> sv_error + ln_db" where
  "PostLoanDisbursementTx E tid loan netDisbursed feeLines ch db =
     (let net = (if netDisbursed = 0 \<and> feeLines = [] then lo_principal loan else netDisbursed);
          cash = resolveDisbursementCashAcctTx ch loan db;
          narr = (if ToLower ch \<in> {''internal'', ''savings''} then ''Credited to member savings ('' @ cash @ '')'' else ''Cash disbursed'')
      in sv_post (le_sv E) (entry_input (le_sv E) ''savings.loans.disbursement'' (se_uuid (le_sv E) tid)
        (''Loan '' @ lo_loan_no loan @ '' disbursement via '' @ ch)
        (debit_line ''1100'' (lo_principal loan) ''Loan receivable created'' # credit_line cash net narr # feeLines)) db)"

section \<open>Repayment and settlement\<close>

definition value_date_or_now :: "ln_env \<Rightarrow> string \<Rightarrow> sv_error + go_time" where
  "value_date_or_now E s = (if s = [] then Inr (clock E)
     else case parse_date s of None \<Rightarrow> Inl (SvBadRequest ''value_date must be YYYY-MM-DD'') | Some d \<Rightarrow> Inr (GoTime d 0))"

text \<open>The withdrawal that pays for the loan: of the member's rules only ownership and the balance are checked.\<close>

definition debit_savings ::
  "ln_env \<Rightarrow> loan \<Rightarrow> string \<Rightarrow> string \<Rightarrow> uuid option \<Rightarrow> decimal \<Rightarrow> string \<Rightarrow> uuid \<Rightarrow> ln_db \<Rightarrow> sv_error + (ln_db \<times> string)" where
  "debit_savings E loan ch ref acct_id x narr maker db =
     (if ch \<noteq> ''auto_savings'' then Inr (db, ref)
      else case acct_id of
        None \<Rightarrow> Inl (SvBadRequest (''debit_savings_account_id is required for channel='auto_savings'' @ [CHR 0x27]))
      | Some aid \<Rightarrow>
          bind_res (GetDepAccountTx db aid) (\<lambda>acct.
          bind_res (ensure (acc_counterparty_id acct = lo_counterparty_id loan)
            (SvBadRequest ''savings account does not belong to this member'')) (\<lambda>_.
          bind_res (ensure (x \<le> acc_available_balance acct) ErrInsufficientBalance) (\<lambda>_.
          bind_res (PostTxnTx (le_sv E) ((post_dep_input acct TxnWithdrawal x maker)
            \<lparr>pt_channel := Some ''internal'', pt_narration := Some (narr @ dot @ lo_loan_no loan)\<rparr>) db) (\<lambda>(db1, t).
          Inr (db1, if ref = [] then tx_txn_no t else ref))))))"

record repay_result =
  rr_txn :: loan_txn_row
  rr_allocation :: repayment_allocation
  rr_loan :: loan
  rr_dpd :: dpd_result

definition post_and_classify ::
  "ln_env \<Rightarrow> repayment_input \<Rightarrow> ln_db \<Rightarrow> sv_error + (ln_db \<times> repay_result)" where
  "post_and_classify E inp db =
     bind_res (PostRepaymentTx E inp (GetWaterfallTx db) db) (\<lambda>(db1, t, alloc).
     bind_res (RecalcDPDTx E (lo_id (rp_loan inp)) (rp_value_date inp) db1) (\<lambda>(db2, dpd).
     bind_res (GetLoanTx db2 (lo_id (rp_loan inp))) (\<lambda>updated.
     Inr (db2, \<lparr> rr_txn = t, rr_allocation = alloc, rr_loan = updated, rr_dpd = dpd \<rparr>))))"

definition ExecuteRepaymentTx ::
  "ln_env \<Rightarrow> repayment_payload \<Rightarrow> uuid \<Rightarrow> ln_db \<Rightarrow> sv_error + (ln_db \<times> repay_result)" where
  "ExecuteRepaymentTx E p maker db =
     bind_res (value_date_or_now E (rpl_value_date p)) (\<lambda>vd.
     bind_res (GetLoanTx db (rpl_loan_id p)) (\<lambda>_.
     bind_res (AccrueDueInterestTx E (rpl_loan_id p) vd maker db) (\<lambda>(db1, _).
     bind_res (GetLoanTx db1 (rpl_loan_id p)) (\<lambda>loan.
     bind_res (debit_savings E loan (rpl_channel p) (rpl_channel_ref p) (rpl_debit_savings_acct p) (rpl_amount p)
       ''Loan repayment'' maker db1) (\<lambda>(db2, ref).
     post_and_classify E \<lparr> rp_loan = loan, rp_amount = rpl_amount p, rp_channel = rpl_channel p, rp_channel_ref = ref,
       rp_narration = rpl_narration p, rp_value_date = vd, rp_initiated_by = maker \<rparr> db2)))))"

definition release_lien :: "uuid \<Rightarrow> ln_db \<Rightarrow> ln_db" where
  "release_lien lid db = db\<lparr>sv_bosa_liens := map (\<lambda>l. if li_loan_id l = Some lid \<and> li_status l \<in> {''active'', ''partially_released''}
     then l\<lparr>li_status := ''released''\<rparr> else l) (sv_bosa_liens db)\<rparr>"

definition ExecuteSettleTx ::
  "ln_env \<Rightarrow> settle_payload \<Rightarrow> uuid \<Rightarrow> ln_db \<Rightarrow> sv_error + (ln_db \<times> repay_result)" where
  "ExecuteSettleTx E p maker db =
     bind_res (AccrueDueInterestTx E (spl_loan_id p) (clock E) maker db) (\<lambda>(db1, _).
     bind_res (GetLoanTx db1 (spl_loan_id p)) (\<lambda>loan.
     let payoff = comp_sum (lo_balance loan) in
     bind_res (ensure (0 < payoff) (SvConflict (''loan has no outstanding balance '' @ utf8 [226, 128, 148] @ '' already settled?''))) (\<lambda>_.
     bind_res (debit_savings E loan (spl_channel p) (spl_channel_ref p) (spl_debit_savings_acct p) payoff
       ''Loan settlement'' maker db1) (\<lambda>(db2, ref).
     bind_res (post_and_classify E \<lparr> rp_loan = loan, rp_amount = payoff, rp_channel = spl_channel p, rp_channel_ref = ref,
       rp_narration = (if spl_narration p = [] then ''Settlement'' @ dot @ lo_loan_no loan else spl_narration p),
       rp_value_date = clock E, rp_initiated_by = maker \<rparr> db2) (\<lambda>(db3, r).
     Inr (if le_bosa_liens E \<and> lo_status (rr_loan r) = LoanSettled then release_lien (lo_id (rr_loan r)) db3 else db3, r))))))"

definition ExecuteReverseTx ::
  "ln_env \<Rightarrow> uuid \<Rightarrow> string \<Rightarrow> uuid \<Rightarrow> ln_db \<Rightarrow> sv_error + (ln_db \<times> loan_txn_row \<times> loan)" where
  "ExecuteReverseTx E tid why maker db =
     bind_res (ReverseRepaymentTx E tid why maker db) (\<lambda>(db1, rv).
     bind_res (GetLoanTx db1 (lx_loan_id rv)) (\<lambda>loan. Inr (db1, rv, loan)))"

section \<open>Disbursement\<close>

definition ApplyFee :: "decimal_lib \<Rightarrow> decimal \<Rightarrow> product_fee \<Rightarrow> decimal" where
  "ApplyFee D P f = (if pf_is_pct f then dRound D 2 (dDiv D (P * pf_amount f) 100) else dRound D 2 (pf_amount f))"

fun add_code :: "string \<Rightarrow> decimal \<Rightarrow> (string \<times> decimal) list \<Rightarrow> (string \<times> decimal) list" where
  "add_code c x [] = [(c, x)]"
| "add_code c x ((d, y) # ds) = (if d = c then (d, y + x) # ds else (d, y) # add_code c x ds)"

text \<open>The loop over the product's fees: the tables, the total, and the amounts by income account.\<close>

fun charge_fees ::
  "ln_env \<Rightarrow> loan \<Rightarrow> uuid \<Rightarrow> product_fee list \<Rightarrow> decimal \<Rightarrow> (string \<times> decimal) list \<Rightarrow> ln_db
    \<Rightarrow> ln_db \<times> decimal \<times> (string \<times> decimal) list" where
  "charge_fees E loan maker [] tot by_code db = (db, tot, by_code)"
| "charge_fees E loan maker (f # fs) tot by_code db =
     (let x = ApplyFee (se_dec (le_sv E)) (lo_principal loan) f in
      if pf_timing f \<noteq> FeeUpfront \<or> x = 0 then charge_fees E loan maker fs tot by_code db
      else charge_fees E loan maker fs (tot + x)
        (add_code (if pf_gl_credit_code f = [] then ''4010'' else pf_gl_credit_code f) x by_code)
        (fst (PostLoanTxnTx E (post_loan_input loan LoanTxnFeeCharge x (only Fees x) ''internal''
          (pf_name f @ dot @ lo_loan_no loan) maker) db)))"

definition fee_lines :: "(string \<times> decimal) list \<Rightarrow> post_line list" where
  "fee_lines by_code = map (\<lambda>(c, x). credit_line c x (''Loan fee income ('' @ c @ '')'')) (sort_key fst by_code)"

definition coverage_gate :: "ln_env \<Rightarrow> loan \<Rightarrow> ln_db \<Rightarrow> sv_error + unit" where
  "coverage_gate E loan db =
     (if \<not> le_collaterals E then Inr ()
      else bind_res (LoadCoverageAndPolicyTx db (lo_application_id loan) (lo_principal loan)) (\<lambda>(c, p).
        ensure (cr_policy_met (Evaluate (se_dec (le_sv E)) c p)) (SvConflict ''Cannot disburse'')))"

definition credit_target ::
  "ln_env \<Rightarrow> loan \<Rightarrow> disbursement_payload \<Rightarrow> decimal \<Rightarrow> uuid \<Rightarrow> ln_db \<Rightarrow> sv_error + (ln_db \<times> string)" where
  "credit_target E loan p net maker db =
     (let ref = the_default [] (dsp_external_ref p) in
      if dsp_channel p \<noteq> ''internal'' then Inr (db, ref)
      else case dsp_target_account_id p of
        None \<Rightarrow> Inl (SvBadRequest (''target_account_id is required when channel='internal'' @ [CHR 0x27]))
      | Some aid \<Rightarrow>
          bind_res (GetDepAccountTx db aid) (\<lambda>acct.
          bind_res (ensure (acc_counterparty_id acct = lo_counterparty_id loan)
            (SvBadRequest ''target deposit account does not belong to this member'')) (\<lambda>_.
          bind_res (PostTxnTx (le_sv E) ((post_dep_input acct TxnDeposit net maker)
            \<lparr>pt_channel := Some ''internal'', pt_narration := Some (''Loan disbursement'' @ dot @ lo_loan_no loan)\<rparr>) db) (\<lambda>(db1, t).
          Inr (db1, if ref = [] then tx_txn_no t else ref)))))"

definition set_app_status :: "uuid \<Rightarrow> app_status \<Rightarrow> ln_db \<Rightarrow> sv_error + ln_db" where
  "set_app_status aid st db =
     bind_res (ensure (\<exists>a\<in>set (ld_apps db). la_id a = aid) ErrNotFound) (\<lambda>_.
     Inr (db\<lparr>ld_apps := map (\<lambda>a. if la_id a = aid then a\<lparr>la_status := st\<rparr> else a) (ld_apps db)\<rparr>))"

definition parent_loans :: "loan_app \<Rightarrow> uuid list" where
  "parent_loans a = (case la_parent_loan_id a of None \<Rightarrow> [] | Some p \<Rightarrow> [p]) @
     remdups (filter (\<lambda>i. la_parent_loan_id a \<noteq> Some i) (la_refinance_source_loan_ids a))"

fun settle_parents ::
  "ln_env \<Rightarrow> loan \<Rightarrow> string \<Rightarrow> component list \<Rightarrow> uuid \<Rightarrow> uuid list \<Rightarrow> ln_db \<Rightarrow> sv_error + ln_db" where
  "settle_parents E newLoan kind waterfall maker [] db = Inr db"
| "settle_parents E newLoan kind waterfall maker (i # ids) db =
     bind_res (GetLoanTx db i) (\<lambda>parent.
     if lo_status parent = LoanSettled then settle_parents E newLoan kind waterfall maker ids db
     else bind_res (AccrueDueInterestTx E i (clock E) maker db) (\<lambda>(db1, _).
       bind_res (GetLoanTx db1 i) (\<lambda>fresh.
       let payoff = comp_sum (lo_balance fresh) in
       if payoff \<le> 0 then settle_parents E newLoan kind waterfall maker ids db1
       else bind_res (PostRepaymentTx E \<lparr> rp_loan = fresh, rp_amount = payoff, rp_channel = ''internal'',
           rp_channel_ref = lo_loan_no newLoan, rp_narration = ''Settled by '' @ kind @ dot @ lo_loan_no newLoan,
           rp_value_date = clock E, rp_initiated_by = maker \<rparr> waterfall db1) (\<lambda>(db2, _).
         settle_parents E newLoan kind waterfall maker ids db2))))"

definition settleParentLoansIfTopupOrRefinance ::
  "ln_env \<Rightarrow> loan \<Rightarrow> uuid \<Rightarrow> ln_db \<Rightarrow> sv_error + ln_db" where
  "settleParentLoansIfTopupOrRefinance E newLoan maker db =
     bind_res (GetAppTx db (lo_application_id newLoan)) (\<lambda>app.
     if la_application_type app \<notin> {''topup'', ''refinance''} then Inr db
     else settle_parents E newLoan (la_application_type app) (GetWaterfallTx db) maker (parent_loans app) db)"

definition FindBOSAAccountForMemberTx :: "uuid \<Rightarrow> ln_db \<Rightarrow> dep_account option" where
  "FindBOSAAccountForMemberTx cid db =
     (let mine = filter (\<lambda>a. acc_counterparty_id a = cid \<and> acc_status a = AcctActive \<and>
            (\<exists>p\<in>set (sv_products db). pd_id p = acc_product_id a \<and> pd_segment p = SegmentBOSA)) (sv_accounts db);
          dated = filter (\<lambda>a. acc_opened_at a \<noteq> None) mine
      in (case sort_key (\<lambda>a. time_instant (the (acc_opened_at a))) dated @ filter (\<lambda>a. acc_opened_at a = None) mine of
           [] \<Rightarrow> None | a # _ \<Rightarrow> Some a))"

text \<open>A borrower that is no member has no lien; a loan that has one keeps it.\<close>

definition placeBOSALienOnDisburseTx :: "loan \<Rightarrow> ln_db \<Rightarrow> ln_db" where
  "placeBOSALienOnDisburseTx loan db = (case GetByIDTx db (lo_counterparty_id loan) of
     Inl _ \<Rightarrow> db
   | Inr c \<Rightarrow> if cp_member_no c = [] then db else (case FindBOSAAccountForMemberTx (lo_counterparty_id loan) db of
       None \<Rightarrow> db
     | Some a \<Rightarrow> if \<exists>l\<in>set (sv_bosa_liens db). li_loan_id l = Some (lo_id loan) then db
         else db\<lparr>sv_bosa_liens := sv_bosa_liens db @ [\<lparr> li_account_id = acc_id a, li_loan_id = Some (lo_id loan),
             li_amount = acc_current_balance a, li_status = ''active'' \<rparr>]\<rparr>))"

record disbursement_result =
  dd_loan :: loan
  dd_net :: decimal
  dd_fee_lines :: "post_line list"
  dd_txn :: loan_txn_row

text \<open>From the schedule on.\<close>

definition disburse_loan ::
  "ln_env \<Rightarrow> loan \<Rightarrow> loan_product \<Rightarrow> disbursement_payload \<Rightarrow> go_time \<Rightarrow> schedule_row list \<Rightarrow> uuid \<Rightarrow> ln_db
    \<Rightarrow> sv_error + (ln_db \<times> disbursement_result)" where
  "disburse_loan E loan product p vd schedule maker db =
     bind_res (SaveScheduleTx E (lo_id loan) schedule db) (\<lambda>db1.
     let (db2, fees, by_code) = charge_fees E loan maker (lp_fees product) 0 [] db1;
         net = (if lo_principal loan - fees < 0 then 0 else lo_principal loan - fees) in
     bind_res (credit_target E loan p net maker db2) (\<lambda>(db3, ref).
     let (db4, t) = PostLoanTxnTx E ((post_loan_input loan LoanTxnDisbursement (lo_principal loan)
           (only Principal (lo_principal loan)) (dsp_channel p) (''Net disbursement'' @ dot @ lo_loan_no loan) maker)
           \<lparr>li_channel_ref := Some ref\<rparr>) db3;
         firstDue = (case schedule of [] \<Rightarrow> add_months_time vd 1 | r # _ \<Rightarrow> sr_due_date r);
         firstAmount = (case schedule of [] \<Rightarrow> 0 | r # _ \<Rightarrow> sr_total_due r) in
     bind_res (MarkDisbursedTx E (lo_id loan) net fees (dsp_channel p) ref (dsp_target_account_id p) firstDue firstAmount maker db4)
       (\<lambda>(db5, updated).
     bind_res (set_app_status (lo_application_id loan) AppDisbursed db5) (\<lambda>db6.
     bind_res (settleParentLoansIfTopupOrRefinance E loan maker db6) (\<lambda>db7.
     Inr (if le_bosa_liens E then placeBOSALienOnDisburseTx updated db7 else db7,
       \<lparr> dd_loan = updated, dd_net = net, dd_fee_lines = fee_lines by_code, dd_txn = t \<rparr>))))))"

definition ExecuteDisbursementTx ::
  "ln_env \<Rightarrow> disbursement_payload \<Rightarrow> uuid \<Rightarrow> ln_db \<Rightarrow> sv_error + (ln_db \<times> disbursement_result)" where
  "ExecuteDisbursementTx E p maker db =
     bind_res (value_date_or_now E (the_default [] (dsp_value_date p))) (\<lambda>vd.
     bind_res (GetLoanTx db (dsp_loan_id p)) (\<lambda>loan.
     bind_res (ensure (lo_status loan = LoanPendingDisbursement) (SvMsg ''application is not in 'offer_accepted' state'')) (\<lambda>_.
     bind_res (GetLoanProductTx db (lo_product_id loan)) (\<lambda>product.
     bind_res (coverage_gate E loan db) (\<lambda>_.
     disburse_loan E loan product p vd
       (GenerateSchedule (se_dec (le_sv E)) (le_pmt E) (lo_principal loan) (lo_interest_rate_pct loan)
         (lo_term_months loan) (lo_grace_period_months loan) vd (lo_interest_method loan) (lo_repayment_method loan))
       maker db)))))"

section \<open>Approved requests\<close>

definition ExecuteRescheduleTx :: "ln_env \<Rightarrow> reschedule_payload \<Rightarrow> uuid \<Rightarrow> ln_db \<Rightarrow> sv_error + (ln_db \<times> loan)" where
  "ExecuteRescheduleTx E p maker db =
     bind_res (case rsp_new_first_due_date p of None \<Rightarrow> Inr None
       | Some s \<Rightarrow> if s = [] then Inr None else (case parse_date s of
           None \<Rightarrow> Inl (SvBadRequest ''new_first_due_date must be YYYY-MM-DD'') | Some d \<Rightarrow> Inr (Some (GoTime d 0)))) (\<lambda>firstDue.
     RescheduleTx E \<lparr> ri_loan = rsp_loan_id p, ri_new_term_months = rsp_new_term_months p,
       ri_new_interest_rate_pct = rsp_new_interest_rate_pct p, ri_new_first_due_date = firstDue,
       ri_reason = rsp_reason p, ri_by = maker \<rparr> db)"

definition readWriteoffThroughProvisionTx :: "ln_db \<Rightarrow> bool" where
  "readWriteoffThroughProvisionTx db = (case ld_ops db of None \<Rightarrow> False | Some t \<Rightarrow> to_writeoff_through_provision t)"

text \<open>The \<open>Run\<close> wrappers: the executor and its entry, and the transaction they report.\<close>

definition run_loan_payload :: "ln_env \<Rightarrow> loan_payload \<Rightarrow> uuid \<Rightarrow> ln_db \<Rightarrow> sv_error + (ln_db \<times> uuid)" where
  "run_loan_payload E pl maker db = (case pl of
     PayDisbursement p \<Rightarrow> bind_res (ExecuteDisbursementTx E p maker db) (\<lambda>(db1, r).
       bind_res (PostLoanDisbursementTx E (lx_id (dd_txn r)) (dd_loan r) (dd_net r) (dd_fee_lines r) (dsp_channel p) db1) (\<lambda>db2.
       Inr (db2, lx_id (dd_txn r))))
   | PayRepayment p \<Rightarrow> bind_res (ExecuteRepaymentTx E p maker db) (\<lambda>(db1, r).
       bind_res (PostLoanRepaymentTx E (lx_id (rr_txn r)) (lo_loan_no (rr_loan r)) (lx_amount (rr_txn r))
         (al_comp (rr_allocation r)) (rpl_channel p) db1) (\<lambda>db2. Inr (db2, lx_id (rr_txn r))))
   | PaySettle p \<Rightarrow> bind_res (ExecuteSettleTx E p maker db) (\<lambda>(db1, r).
       bind_res (PostLoanSettleTx E (lx_id (rr_txn r)) (lo_loan_no (rr_loan r)) (lx_amount (rr_txn r))
         (al_comp (rr_allocation r)) (spl_channel p) db1) (\<lambda>db2. Inr (db2, lx_id (rr_txn r))))
   | PayReverse tid why \<Rightarrow> bind_res (ExecuteReverseTx E tid why maker db) (\<lambda>(db1, rv, loan).
       bind_res (PostLoanRepaymentReversalTx E (the_default uuid_Nil (lx_reverses_txn_id rv)) (lo_loan_no loan) (lx_amount rv)
         (lx_comp rv) [] why db1) (\<lambda>db2. Inr (db2, lx_id rv)))
   | PayReschedule p \<Rightarrow> bind_res (ExecuteRescheduleTx E p maker db) (\<lambda>(db1, _). Inr (db1, uuid_Nil))
   | PayMoratorium lid n s why \<Rightarrow> bind_res (MoratoriumTx E lid n s why maker db) (\<lambda>(db1, _). Inr (db1, uuid_Nil))
   | PaySettlementDiscount lid x why \<Rightarrow> bind_res (SettlementDiscountTx E lid x why maker db) (\<lambda>(db1, rec, loan).
       case rs_discount_writeoff_txn_id rec of None \<Rightarrow> Inr (db1, uuid_Nil)
       | Some tid \<Rightarrow> bind_res (PostLoanSettlementDiscountTx E tid (lo_loan_no loan) (the_default 0 (rs_discount_amount rec))
           ''interest'' why db1) (\<lambda>db2. Inr (db2, tid)))
   | PayWriteoff lid why \<Rightarrow> bind_res (WriteOffLoanTx E lid why maker db) (\<lambda>(db1, wo, loan).
       bind_res (PostLoanWriteoffTx E (wo_txn_id wo) (lo_loan_no loan) (wo_total wo) why (readWriteoffThroughProvisionTx db1) db1)
         (\<lambda>db2. Inr (db2, wo_txn_id wo))))"

end
