(* ===== verification/LoanRequests.thy ===== *)
theory LoanRequests
  imports LoanExecutors DepositRequests
begin

text \<open>
  The HTTP handlers of loans (services/savings/internal/handler/loan.go, loan_repayment.go,
  loan_collections.go, loan_reports.go, loan_finalize.go, loan_reverse_disbursement.go), the approval
  of what they queue (pending_approvals.go, wf_callbacks) and the daily sweep. A handler is a function
  from the tables to the tables it commits; \<open>Inl\<close> is an error answer and a rollback. Receipts,
  notifications and audit rows are left out.
\<close>

section \<open>Queueing\<close>

fun loan_kind :: "loan_payload \<Rightarrow> string" where
  "loan_kind (PayDisbursement _) = ''loan_disbursement''"
| "loan_kind (PayRepayment _) = ''loan_repayment''"
| "loan_kind (PaySettle _) = ''loan_settle''"
| "loan_kind (PayReverse _ _) = ''loan_reverse''"
| "loan_kind (PayReschedule _) = ''loan_reschedule''"
| "loan_kind (PayMoratorium _ _ _ _) = ''loan_moratorium''"
| "loan_kind (PaySettlementDiscount _ _ _) = ''loan_settlement_discount''"
| "loan_kind (PayWriteoff _ _) = ''loan_write_off''"

definition gated :: "loan_payload \<Rightarrow> ln_db \<Rightarrow> bool" where
  "gated pl db \<longleftrightarrow> loan_kind pl \<in> set (ld_gated db)"

definition queue_loan :: "ln_env \<Rightarrow> loan_payload \<Rightarrow> uuid \<Rightarrow> ln_db \<Rightarrow> ln_db \<times> uuid" where
  "queue_loan E pl maker db =
     (db\<lparr>ld_requests := ld_requests db @ [\<lparr> lq_id = sv_supply db, lq_payload = pl, lq_maker = maker,
          lq_workflow = (se_workflow (le_sv E) \<and> loan_kind pl \<in> set (sv_wf_kinds db)), lq_status = ApprovalPending \<rparr>],
        sv_supply := sv_supply db + 1\<rparr>, sv_supply db)"

text \<open>A handler whose toggle is on reads the loan and queues the request.\<close>

definition queue_for :: "ln_env \<Rightarrow> uuid \<Rightarrow> loan_payload \<Rightarrow> uuid \<Rightarrow> ln_db \<Rightarrow> sv_error + (ln_db \<times> outcome)" where
  "queue_for E lid pl user db = bind_res (GetLoanTx db lid) (\<lambda>_.
     let (db1, i) = queue_loan E pl user db in Inr (db1, Pending i))"

section \<open>Offers\<close>

definition SendOffer :: "ln_env \<Rightarrow> uuid \<Rightarrow> string option \<Rightarrow> ln_db \<Rightarrow> sv_error + ln_db" where
  "SendOffer E aid expires_at db =
     bind_res (case expires_at of
         None \<Rightarrow> Inr (GoTime (norm_day (d_year (gt_date (clock E))) (d_month (gt_date (clock E))) (d_day (gt_date (clock E)) + 14))
           (gt_nanos (clock E)))
       | Some s \<Rightarrow> if s = [] then Inr (GoTime (norm_day (d_year (gt_date (clock E))) (d_month (gt_date (clock E)))
             (d_day (gt_date (clock E)) + 14)) (gt_nanos (clock E)))
           else (case parse_date s of None \<Rightarrow> Inl (SvBadRequest ''expires_at must be YYYY-MM-DD'') | Some d \<Rightarrow> Inr (GoTime d 0)))
       (\<lambda>expires.
     bind_res (GetAppTx db aid) (\<lambda>app.
     bind_res (ensure (la_status app = AppApproved \<or> la_status app = AppApprovedWithConditions)
       (SvMsg ''application is not in a state that allows offer generation'')) (\<lambda>_.
     Inr (db\<lparr>ld_apps := map (\<lambda>a. if la_id a = aid
       then a\<lparr>la_status := AppOfferSent, la_offer_expires_at := Some expires\<rparr> else a) (ld_apps db)\<rparr>))))"

definition BackfillLoanIDTx :: "uuid \<Rightarrow> uuid \<Rightarrow> ln_db \<Rightarrow> ln_db" where
  "BackfillLoanIDTx aid lid db =
     db\<lparr>ld_guarantees := map (\<lambda>g. if gu_application_id g = aid then g\<lparr>gu_loan_id := Some lid\<rparr> else g) (ld_guarantees db),
        ld_collateral := map (\<lambda>c. if ci_application_id c = aid then c\<lparr>ci_loan_id := Some lid\<rparr> else c) (ld_collateral db)\<rparr>"

definition accepted_terms :: "loan_app \<Rightarrow> loan_product \<Rightarrow> create_loan_input option" where
  "accepted_terms app p = (case (la_approved_amount app, la_approved_term_months app, la_approved_interest_rate_pct app) of
     (Some x, Some n, Some r) \<Rightarrow> Some \<lparr> cl_application_id = la_id app, cl_counterparty_id = la_counterparty_id app,
       cl_product_id = la_product_id app, cl_principal = x, cl_interest_rate_pct = r,
       cl_interest_method = lp_interest_method p, cl_repayment_method = lp_repayment_method p, cl_term_months = n,
       cl_grace_period_months = lp_grace_period_months p, cl_installment_count = n \<rparr>
   | _ \<Rightarrow> None)"

definition AcceptOffer :: "ln_env \<Rightarrow> uuid \<Rightarrow> bool \<Rightarrow> ln_db \<Rightarrow> sv_error + (ln_db \<times> loan)" where
  "AcceptOffer E aid confirmed db =
     bind_res (ensure confirmed (SvBadRequest ''confirmed must be true'')) (\<lambda>_.
     bind_res (GetAppTx db aid) (\<lambda>app.
     bind_res (ensure (la_status app = AppOfferSent) (SvMsg ''application is not in a state that allows offer acceptance'')) (\<lambda>_.
     bind_res (ensure (case la_offer_expires_at app of None \<Rightarrow> True | Some t \<Rightarrow> time_instant (clock E) \<le> time_instant t)
       (SvConflict ''offer has expired'')) (\<lambda>_.
     bind_res (ensure (la_approved_amount app \<noteq> None \<and> la_approved_term_months app \<noteq> None \<and>
         la_approved_interest_rate_pct app \<noteq> None) (SvConflict ''application has incomplete approval terms'')) (\<lambda>_.
     bind_res (GetLoanProductTx db (la_product_id app)) (\<lambda>p.
     bind_res (set_app_status aid AppOfferAccepted db) (\<lambda>db1.
     bind_res (case accepted_terms app p of None \<Rightarrow> Inl SvPanic | Some inp \<Rightarrow> CreateOnAcceptanceTx E inp db1) (\<lambda>(db2, loan).
     Inr (BackfillLoanIDTx aid (lo_id loan) db2, loan)))))))))"

section \<open>Disbursement\<close>

text \<open>The phone number as the B2C payment takes it: digits only, the country code in front.\<close>

definition mpesaMSISDN :: "string \<Rightarrow> string option" where
  "mpesaMSISDN raw =
     (let ds = filter (\<lambda>c. CHR ''0'' \<le> c \<and> c \<le> CHR ''9'') raw;
          n = (if take 3 ds = ''254'' then ds
               else if take 1 ds = ''0'' then ''254'' @ drop 1 ds
               else if length ds = 9 then ''254'' @ ds else ds)
      in if length n = 12 \<and> take 3 n = ''254'' then Some n else None)"

definition queue_outbound :: "uuid \<Rightarrow> ln_db \<Rightarrow> ln_db" where
  "queue_outbound lid db = (if lid \<in> set (ld_outbound db) then db else db\<lparr>ld_outbound := ld_outbound db @ [lid]\<rparr>)"

definition run_inline :: "ln_env \<Rightarrow> loan_payload \<Rightarrow> uuid \<Rightarrow> ln_db \<Rightarrow> sv_error + (ln_db \<times> outcome)" where
  "run_inline E pl user db = bind_res (run_loan_payload E pl user db) (\<lambda>(db1, txn). Inr (db1, Posted [txn]))"

definition disburse_mpesa :: "ln_env \<Rightarrow> uuid \<Rightarrow> ln_db \<Rightarrow> sv_error + (ln_db \<times> outcome)" where
  "disburse_mpesa E lid db =
     bind_res (GetLoanTx db lid) (\<lambda>loan.
     bind_res (ensure (lo_status loan = LoanPendingDisbursement) (SvMsg ''application is not in 'offer_accepted' state'')) (\<lambda>_.
     bind_res (ensure (case le_phone E (lo_counterparty_id loan) of None \<Rightarrow> False | Some s \<Rightarrow> mpesaMSISDN s \<noteq> None)
       (SvMsg ''resolve msisdn'')) (\<lambda>_.
     bind_res (ensure (le_b2c_paybill E \<noteq> None) (SvMsg ''resolve default b2c paybill'')) (\<lambda>_.
     Inr (queue_outbound lid db, Posted [])))))"

definition Disburse :: "ln_env \<Rightarrow> uuid \<Rightarrow> disbursement_payload \<Rightarrow> ln_db \<Rightarrow> sv_error + (ln_db \<times> outcome)" where
  "Disburse E user p db =
     bind_res (ensure (dsp_channel p \<noteq> []) (SvBadRequest ''channel is required'')) (\<lambda>_.
     bind_res (ensure (\<not> (dsp_channel p = ''internal'' \<and> dsp_target_account_id p = None))
       (SvBadRequest (''target_account_id is required when channel='internal'' @ [CHR 0x27]))) (\<lambda>_.
     bind_res (ensure (dsp_value_date p \<in> {None, Some []} \<or> parse_date (the (dsp_value_date p)) \<noteq> None)
       (SvBadRequest ''value_date must be YYYY-MM-DD'')) (\<lambda>_.
     if gated (PayDisbursement p) db then queue_for E (dsp_loan_id p) (PayDisbursement p) user db
     else if ToLower (dsp_channel p) = ''mpesa'' then disburse_mpesa E (dsp_loan_id p) db
     else run_inline E (PayDisbursement p) user db)))"

text \<open>The M-PESA service's callback after the payment; \<open>None\<close> says it was already done.\<close>

definition mpesa_payload :: "uuid \<Rightarrow> string \<Rightarrow> disbursement_payload" where
  "mpesa_payload lid receipt = \<lparr> dsp_loan_id = lid, dsp_channel = ''mpesa'', dsp_target_account_id = None,
     dsp_external_ref = (if receipt = [] then None else Some receipt), dsp_value_date = None \<rparr>"

definition FinalizeDisbursement ::
  "ln_env \<Rightarrow> bool \<Rightarrow> uuid \<Rightarrow> string \<Rightarrow> ln_db \<Rightarrow> sv_error + (ln_db \<times> uuid option)" where
  "FinalizeDisbursement E trusted lid receipt db =
     bind_res (ensure trusted SvUnauthorized) (\<lambda>_.
     bind_res (GetLoanTx db lid) (\<lambda>loan.
     if lo_status loan \<noteq> LoanPendingDisbursement then Inr (db, None)
     else bind_res (run_loan_payload E (PayDisbursement (mpesa_payload lid receipt)) uuid_Nil db) (\<lambda>(db1, txn).
       Inr (db1, Some txn))))"

section \<open>Reversing a disbursement\<close>

definition hasRepaymentActivity :: "loan \<Rightarrow> bool" where
  "hasRepaymentActivity l \<longleftrightarrow> 0 < lo_paid l Principal \<or> 0 < lo_paid l Interest \<or> 0 < lo_charged l Interest \<or>
     0 < lo_charged l Penalty \<or> 0 < lo_paid l Penalty \<or> 0 < lo_paid l Fees \<or> 0 < lo_installments_paid l \<or>
     lo_last_repayment_at l \<noteq> None"

text \<open>The upfront fees by income account, from the product as it is now.\<close>

fun fee_codes :: "decimal_lib \<Rightarrow> decimal \<Rightarrow> product_fee list \<Rightarrow> (string \<times> decimal) list \<Rightarrow> (string \<times> decimal) list" where
  "fee_codes D P [] acc = acc"
| "fee_codes D P (f # fs) acc =
     (let x = ApplyFee D P f in
      if pf_timing f \<noteq> FeeUpfront \<or> x = 0 then fee_codes D P fs acc
      else fee_codes D P fs (add_code (if pf_gl_credit_code f = [] then ''4010'' else pf_gl_credit_code f) x acc))"

definition reversal_fee_lines :: "ln_env \<Rightarrow> loan \<Rightarrow> ln_db \<Rightarrow> post_line list" where
  "reversal_fee_lines E loan db =
     (if \<not> 0 < lo_total_fees_deducted loan then []
      else case GetLoanProductTx db (lo_product_id loan) of Inl _ \<Rightarrow> []
        | Inr p \<Rightarrow> map (\<lambda>(c, x). debit_line c x (''Reverse loan fee income ('' @ c @ '')''))
            (fee_codes (se_dec (le_sv E)) (lo_principal loan) (lp_fees p) []))"

definition postReverseDisbursementToGLTx ::
  "ln_env \<Rightarrow> loan \<Rightarrow> uuid \<Rightarrow> string \<Rightarrow> string \<Rightarrow> ln_db \<Rightarrow> sv_error + ln_db" where
  "postReverseDisbursementToGLTx E loan orig receipt why db =
     sv_post (le_sv E) (entry_input (le_sv E) ''mpesa'' (''reverse:'' @ se_uuid (le_sv E) orig)
       (''Reverse loan '' @ lo_loan_no loan @ '' disbursement ('' @ why @ '')'' @
          (if receipt = [] then [] else dot @ ''receipt '' @ receipt))
       (debit_line ''1015'' (case lo_net_disbursed loan of None \<Rightarrow> lo_principal loan | Some x \<Rightarrow> x) ''Reverse M-PESA cash leg'' #
        credit_line ''1100'' (lo_principal loan) ''Reverse loan receivable'' # reversal_fee_lines E loan db)) db"

datatype reverse_outcome = ReverseNoOp | ReverseDone | ReverseConflict string

text \<open>The application goes back to \<open>approved\<close>; that it is missing is only logged.\<close>

definition back_to_approved :: "uuid \<Rightarrow> ln_db \<Rightarrow> ln_db" where
  "back_to_approved aid db = (case set_app_status aid AppApproved db of Inl _ \<Rightarrow> db | Inr db1 \<Rightarrow> db1)"

definition first_disbursement :: "uuid \<Rightarrow> ln_db \<Rightarrow> loan_txn_row option" where
  "first_disbursement lid db = (case sort_key (\<lambda>t. time_instant (lx_posted_at t))
       (filter (\<lambda>t. lx_loan_id t = lid \<and> lx_type t = LoanTxnDisbursement) (ld_txns db)) of
     [] \<Rightarrow> None | t # _ \<Rightarrow> Some t)"

definition reverse_active ::
  "ln_env \<Rightarrow> loan \<Rightarrow> string \<Rightarrow> string \<Rightarrow> ln_db \<Rightarrow> sv_error + (ln_db \<times> reverse_outcome)" where
  "reverse_active E loan receipt why db =
     (if hasRepaymentActivity loan
      then Inr (db, ReverseConflict ''loan has repayment activity; reversal must be handled manually'')
      else if ToLower (the_default [] (lo_disbursement_channel loan)) \<noteq> ''mpesa''
      then Inr (db, ReverseConflict ''disbursement channel is not reversible via this endpoint'')
      else case first_disbursement (lo_id loan) db of
        None \<Rightarrow> Inr (db, ReverseConflict ''active loan has no disbursement transaction; reversal must be handled manually'')
      | Some t \<Rightarrow>
          bind_res (UnwindDisbursementTx (lo_id loan) db) (\<lambda>(db1, _).
          bind_res (postReverseDisbursementToGLTx E loan (lx_id t) receipt why (back_to_approved (lo_application_id loan) db1)) (\<lambda>db2.
          Inr (db2, ReverseDone))))"

definition ReverseDisbursement ::
  "ln_env \<Rightarrow> bool \<Rightarrow> uuid \<Rightarrow> string \<Rightarrow> string \<Rightarrow> ln_db \<Rightarrow> sv_error + (ln_db \<times> reverse_outcome)" where
  "ReverseDisbursement E trusted lid receipt why db =
     bind_res (ensure trusted SvUnauthorized) (\<lambda>_.
     bind_res (GetLoanTx db lid) (\<lambda>loan.
     if lo_status loan = LoanPendingDisbursement then Inr (db, ReverseNoOp)
     else if lo_status loan = LoanActive then reverse_active E loan receipt why db
     else Inr (db, ReverseConflict ''loan is past disbursement; reversal must be handled manually'')))"

section \<open>Servicing\<close>

definition Repay :: "ln_env \<Rightarrow> uuid \<Rightarrow> repayment_payload \<Rightarrow> ln_db \<Rightarrow> sv_error + (ln_db \<times> outcome)" where
  "Repay E user p db =
     bind_res (ensure (0 < rpl_amount p) (SvBadRequest ''amount must be > 0'')) (\<lambda>_.
     bind_res (ensure (rpl_channel p \<noteq> []) (SvBadRequest ''channel is required'')) (\<lambda>_.
     bind_res (ensure (ToLower (rpl_channel p) \<noteq> ''cash'') SvCashBlocked) (\<lambda>_.
     bind_res (ensure (\<not> (rpl_channel p = ''auto_savings'' \<and> rpl_debit_savings_acct p = None))
       (SvBadRequest (''debit_savings_account_id is required for channel='auto_savings'' @ [CHR 0x27]))) (\<lambda>_.
     bind_res (ensure (rpl_value_date p = [] \<or> parse_date (rpl_value_date p) \<noteq> None)
       (SvBadRequest ''value_date must be YYYY-MM-DD'')) (\<lambda>_.
     bind_res (GetLoanTx db (rpl_loan_id p)) (\<lambda>_.
     if gated (PayRepayment p) db then queue_for E (rpl_loan_id p) (PayRepayment p) user db
     else run_inline E (PayRepayment p) user db))))))"

definition Payoff :: "ln_env \<Rightarrow> uuid \<Rightarrow> uuid \<Rightarrow> ln_db \<Rightarrow> sv_error + (ln_db \<times> decimal)" where
  "Payoff E user lid db =
     bind_res (AccrueDueInterestTx E lid (clock E) user db) (\<lambda>(db1, _).
     bind_res (PayoffFigureTx db1 lid) (\<lambda>x. Inr (db1, x)))"

text \<open>Inline, the settlement, the reversal, the discount and the write-off queue no journal entry.\<close>

definition Settle :: "ln_env \<Rightarrow> uuid \<Rightarrow> settle_payload \<Rightarrow> ln_db \<Rightarrow> sv_error + (ln_db \<times> outcome)" where
  "Settle E user p db =
     bind_res (ensure (spl_channel p \<noteq> []) (SvBadRequest ''channel is required'')) (\<lambda>_.
     if gated (PaySettle p) db then queue_for E (spl_loan_id p) (PaySettle p) user db
     else bind_res (ExecuteSettleTx E p user db) (\<lambda>(db1, r). Inr (db1, Posted [lx_id (rr_txn r)])))"

definition ReverseRepayment :: "ln_env \<Rightarrow> uuid \<Rightarrow> uuid \<Rightarrow> string \<Rightarrow> ln_db \<Rightarrow> sv_error + (ln_db \<times> outcome)" where
  "ReverseRepayment E user tid why db =
     bind_res (ensure (why \<noteq> []) (SvBadRequest ''reason is required'')) (\<lambda>_.
     if gated (PayReverse tid why) db
     then bind_res (GetLoanTxnTx db tid) (\<lambda>_.
       let (db1, i) = queue_loan E (PayReverse tid why) user db in Inr (db1, Pending i))
     else bind_res (ExecuteReverseTx E tid why user db) (\<lambda>(db1, rv, _). Inr (db1, Posted [lx_id rv])))"

definition RecalcDPD :: "ln_env \<Rightarrow> uuid \<Rightarrow> uuid \<Rightarrow> ln_db \<Rightarrow> sv_error + (ln_db \<times> dpd_result)" where
  "RecalcDPD E user lid db =
     bind_res (AccrueDueInterestTx E lid (clock E) user db) (\<lambda>(db1, _). RecalcDPDTx E lid (clock E) db1)"

section \<open>The daily sweep\<close>

definition AfterDPDRecalcTx :: "ln_env \<Rightarrow> uuid \<Rightarrow> ln_db \<Rightarrow> sv_error + ln_db" where
  "AfterDPDRecalcTx E lid db = bind_res (GetLoanTx db lid) (\<lambda>loan.
     Inr (AutoCloseIfRecoveredTx E lid (if 0 < lo_days_past_due loan then fst (EnsureCaseForLoanTx loan db) else db)))"

fun sweep_loans :: "ln_env \<Rightarrow> go_time \<Rightarrow> uuid \<Rightarrow> uuid list \<Rightarrow> ln_db \<Rightarrow> sv_error + ln_db" where
  "sweep_loans E asOf user [] db = Inr db"
| "sweep_loans E asOf user (i # ids) db =
     bind_res (AccrueDueInterestTx E i asOf user db) (\<lambda>(db1, _).
     bind_res (RecalcDPDTx E i asOf db1) (\<lambda>(db2, _).
     bind_res (if le_collections E then AfterDPDRecalcTx E i db2 else Inr db2) (sweep_loans E asOf user ids)))"

definition RunDPDForTenant :: "ln_env \<Rightarrow> go_time \<Rightarrow> uuid \<Rightarrow> ln_db \<Rightarrow> sv_error + (ln_db \<times> nat)" where
  "RunDPDForTenant E asOf user db =
     bind_res (sweep_loans E asOf user (LoansForDPDRecalcTx db) db) (\<lambda>db1.
     Inr (if le_collections E then EscalatePriorityOnBrokenPTPsTx E (MarkOverduePTPsBrokenTx E asOf db1) else db1,
          length (LoansForDPDRecalcTx db)))"

section \<open>Restructuring and write-off\<close>

definition RescheduleLoan :: "ln_env \<Rightarrow> uuid \<Rightarrow> reschedule_payload \<Rightarrow> ln_db \<Rightarrow> sv_error + (ln_db \<times> outcome)" where
  "RescheduleLoan E user p db =
     bind_res (ensure (0 < rsp_new_term_months p \<and> rsp_reason p \<noteq> []) (SvBadRequest ''new_term_months and reason are required'')) (\<lambda>_.
     bind_res (ensure (rsp_new_first_due_date p \<in> {None, Some []} \<or> parse_date (the (rsp_new_first_due_date p)) \<noteq> None)
       (SvBadRequest ''new_first_due_date must be YYYY-MM-DD'')) (\<lambda>_.
     if gated (PayReschedule p) db then queue_for E (rsp_loan_id p) (PayReschedule p) user db
     else bind_res (ExecuteRescheduleTx E p user db) (\<lambda>(db1, _). Inr (db1, Posted []))))"

definition Moratorium :: "ln_env \<Rightarrow> uuid \<Rightarrow> uuid \<Rightarrow> int \<Rightarrow> bool \<Rightarrow> string \<Rightarrow> ln_db \<Rightarrow> sv_error + (ln_db \<times> outcome)" where
  "Moratorium E user lid n suspend why db =
     bind_res (ensure (0 < n \<and> why \<noteq> []) (SvBadRequest ''moratorium_months and reason are required'')) (\<lambda>_.
     if gated (PayMoratorium lid n suspend why) db then queue_for E lid (PayMoratorium lid n suspend why) user db
     else bind_res (MoratoriumTx E lid n suspend why user db) (\<lambda>(db1, _). Inr (db1, Posted [])))"

definition SettlementDiscount :: "ln_env \<Rightarrow> uuid \<Rightarrow> uuid \<Rightarrow> decimal \<Rightarrow> string \<Rightarrow> ln_db \<Rightarrow> sv_error + (ln_db \<times> outcome)" where
  "SettlementDiscount E user lid x why db =
     bind_res (ensure (why \<noteq> []) (SvBadRequest ''reason is required'')) (\<lambda>_.
     if gated (PaySettlementDiscount lid x why) db then queue_for E lid (PaySettlementDiscount lid x why) user db
     else bind_res (SettlementDiscountTx E lid x why user db) (\<lambda>(db1, rec, _).
       Inr (db1, Posted (case rs_discount_writeoff_txn_id rec of None \<Rightarrow> [] | Some t \<Rightarrow> [t]))))"

definition WriteOff :: "ln_env \<Rightarrow> uuid \<Rightarrow> uuid \<Rightarrow> string \<Rightarrow> ln_db \<Rightarrow> sv_error + (ln_db \<times> outcome)" where
  "WriteOff E user lid why db =
     bind_res (ensure (why \<noteq> []) (SvBadRequest ''reason is required'')) (\<lambda>_.
     if gated (PayWriteoff lid why) db then queue_for E lid (PayWriteoff lid why) user db
     else bind_res (WriteOffLoanTx E lid why user db) (\<lambda>(db1, wo, _). Inr (db1, Posted [wo_txn_id wo])))"

definition TopupIntent :: "ln_env \<Rightarrow> uuid \<Rightarrow> uuid \<Rightarrow> decimal \<Rightarrow> string \<Rightarrow> ln_db \<Rightarrow> sv_error + ln_db" where
  "TopupIntent E user lid x why db =
     bind_res (ensure (0 < x \<and> why \<noteq> []) (SvBadRequest ''topup_amount and reason are required'')) (\<lambda>_.
     RecordTopupIntentTx E lid x why user db)"

definition RefinanceIntent :: "ln_env \<Rightarrow> uuid \<Rightarrow> uuid \<Rightarrow> uuid \<Rightarrow> string \<Rightarrow> ln_db \<Rightarrow> sv_error + ln_db" where
  "RefinanceIntent E user lid new_id why db =
     bind_res (ensure (new_id \<noteq> uuid_Nil \<and> why \<noteq> []) (SvBadRequest ''new_loan_id and reason are required'')) (\<lambda>_.
     RecordRefinanceIntentTx E lid new_id why user db)"

section \<open>Approval\<close>

definition set_request :: "uuid \<Rightarrow> approval_status \<Rightarrow> ln_db \<Rightarrow> ln_db" where
  "set_request i st db = db\<lparr>ld_requests := map (\<lambda>q. if lq_id q = i then q\<lparr>lq_status := st\<rparr> else q) (ld_requests db)\<rparr>"

text \<open>The legacy approval from the row it read.\<close>

definition approve_loan :: "ln_env \<Rightarrow> loan_request \<Rightarrow> uuid \<Rightarrow> ln_db \<Rightarrow> sv_error + (ln_db \<times> uuid)" where
  "approve_loan E q checker db =
     bind_res (ensure (lq_status q = ApprovalPending) ErrApprovalNotPending) (\<lambda>_.
     bind_res (ensure (lq_maker q \<noteq> checker \<or> tg_allow_self (sv_toggles db)) ErrApprovalSelfDenied) (\<lambda>_.
     bind_res (run_loan_payload E (lq_payload q) (lq_maker q) db) (\<lambda>(db1, txn).
     bind_res (ensure (\<exists>r\<in>set (ld_requests db1). lq_id r = lq_id q \<and> lq_status r = ApprovalPending)
       (SvMsg ''no rows in result set'')) (\<lambda>_.
     Inr (set_request (lq_id q) ApprovalApproved db1, txn)))))"

text \<open>The workflow's terminal callback; no table records that it was handled.\<close>

definition loan_callback :: "ln_env \<Rightarrow> string \<Rightarrow> uuid option \<Rightarrow> loan_payload \<Rightarrow> ln_db \<Rightarrow> sv_error + ln_db" where
  "loan_callback E status initiator pl db =
     (if status \<noteq> ''approved'' then Inr db
      else case initiator of
          None \<Rightarrow> Inl (SvMsg ''instance.initiator_id is required for executor maker attribution'')
        | Some maker \<Rightarrow>
            if maker = uuid_Nil then Inl (SvMsg ''instance.initiator_id is required for executor maker attribution'')
            else bind_res (run_loan_payload E pl maker db) (\<lambda>(db1, _). Inr db1))"

end
