(* ===== verification/Payouts.thy ===== *)
theory Payouts
  imports LoanRequests MpesaDistributor
begin

text \<open>
  Outgoing M-PESA payments: the table of requests (services/mpesa/internal/store/outbound_request_store.go),
  the worker that submits them (cmd/b2c-dispatcher/main.go), the callbacks that report their fate
  (internal/handler/b2c.go, b2c_reversal.go) and the client that hands the outcome to the savings
  service (internal/savingsclient/client.go), over that service's own tables, where a disbursement
  is requested, finalized and reversed. Columns nothing reads back (times but the request's, locks, the
  raw payload) are left out, as are audit entries and metrics.

  \<open>py_accepted\<close> is no table: it lists the payments Safaricom accepted, each with whether the
  transaction that records the acceptance was committed. \<open>py_todo\<close> is what running requests still
  have to do after a transaction of theirs.
\<close>

section \<open>Rows\<close>

datatype outbound_kind = OutboundB2CDisbursement | OutboundRefund

datatype outbound_status = OutboundPending | OutboundSent | OutboundCompleted | OutboundFailed | OutboundReversed

record outbound =
  or_id :: uuid
  or_paybill_id :: uuid
  or_kind :: outbound_kind
  or_msisdn :: string
  or_amount :: decimal
  or_source_module :: string
  or_source_ref :: string
  or_status :: outbound_status
  or_daraja_conversation_id :: "string option"
  or_daraja_originator_id :: "string option"
  or_result_code :: "int option"
  or_result_desc :: "string option"
  or_mpesa_receipt_number :: "string option"
  or_finalization_status :: string
  or_finalization_attempts :: nat
  or_finalization_error :: "string option"
  or_requested_at :: go_time

datatype work =
    WorkMarkFailed uuid string
  | WorkFinalize uuid uuid string
  | WorkRecord uuid bool string
  | WorkReverse uuid string string

record py_db =
  py_loans :: ln_db
  py_paybills :: "paybill list"
  py_wf :: wf_db
  py_rows :: "outbound list"
  py_accepted :: "(uuid \<times> bool) list"
  py_todo :: "work list"
  py_supply :: uuid \<comment> \<open>the next identifier\<close>

text \<open>
  \<open>pe_parse_uuid\<close> is \<open>uuid.Parse\<close>; \<open>pe_savings\<close> says the savings service's address is
  configured, \<open>pe_trusted\<close> that the two services share the internal token.
\<close>

record payout_env =
  pe_ln :: ln_env
  pe_parse_uuid :: "string \<Rightarrow> uuid option"
  pe_savings :: bool
  pe_trusted :: bool

abbreviation (input) uuid_text :: "payout_env \<Rightarrow> uuid \<Rightarrow> string" where
  "uuid_text E \<equiv> se_uuid (le_sv (pe_ln E))"

abbreviation (input) fixed :: "payout_env \<Rightarrow> nat \<Rightarrow> decimal \<Rightarrow> string" where
  "fixed E \<equiv> dFixed (se_dec (le_sv (pe_ln E)))"

definition disbursements :: string where
  "disbursements = ''loan.disbursement''"

section \<open>The store\<close>

definition row_with_key :: "py_db \<Rightarrow> string \<Rightarrow> string \<Rightarrow> outbound option" where
  "row_with_key db m ref = find (\<lambda>r. or_source_module r = m \<and> or_source_ref r = ref) (py_rows db)"

definition set_out :: "uuid \<Rightarrow> (outbound \<Rightarrow> outbound) \<Rightarrow> py_db \<Rightarrow> mp_error + py_db" where
  "set_out i f db = (if \<exists>r\<in>set (py_rows db). or_id r = i
     then Inr (db\<lparr>py_rows := map (\<lambda>r. if or_id r = i then f r else r) (py_rows db)\<rparr>) else Inl MpNotFound)"

record insert_outbound =
  io_paybill_id :: uuid
  io_kind :: outbound_kind
  io_msisdn :: string
  io_amount :: decimal
  io_source_module :: string
  io_source_ref :: string

definition new_outbound :: "payout_env \<Rightarrow> insert_outbound \<Rightarrow> uuid \<Rightarrow> outbound" where
  "new_outbound E inp i = \<lparr> or_id = i, or_paybill_id = io_paybill_id inp, or_kind = io_kind inp,
     or_msisdn = io_msisdn inp, or_amount = col (pe_ln E) (io_amount inp), or_source_module = io_source_module inp,
     or_source_ref = io_source_ref inp, or_status = OutboundPending, or_daraja_conversation_id = None,
     or_daraja_originator_id = None, or_result_code = None, or_result_desc = None, or_mpesa_receipt_number = None,
     or_finalization_status = ''pending'', or_finalization_attempts = 0, or_finalization_error = None,
     or_requested_at = now_db (pe_ln E) \<rparr>"

definition add_row :: "payout_env \<Rightarrow> insert_outbound \<Rightarrow> py_db \<Rightarrow> py_db" where
  "add_row E inp db = db\<lparr>py_rows := py_rows db @ [new_outbound E inp (py_supply db)], py_supply := py_supply db + 1\<rparr>"

text \<open>The row with the key, and whether it is new. The command and remarks go to a column no lease reads back.\<close>

definition InsertTx :: "payout_env \<Rightarrow> insert_outbound \<Rightarrow> py_db \<Rightarrow> mp_error + (py_db \<times> outbound \<times> bool)" where
  "InsertTx E inp db =
     (if io_source_module inp = [] \<or> io_source_ref inp = [] then Inl (MpRequired ''source_module + source_ref'')
      else case row_with_key db (io_source_module inp) (io_source_ref inp) of
        Some r \<Rightarrow> Inr (db, r, False)
      | None \<Rightarrow> Inr (add_row E inp db, new_outbound E inp (py_supply db), True))"

text \<open>The oldest pending row that no other transaction holds.\<close>

definition LeaseOutboundTx :: "uuid set \<Rightarrow> py_db \<Rightarrow> mp_error + outbound" where
  "LeaseOutboundTx held db =
     (case sort_key (\<lambda>r. time_instant (or_requested_at r))
         (filter (\<lambda>r. or_status r = OutboundPending \<and> or_id r \<notin> held) (py_rows db)) of
        [] \<Rightarrow> Inl MpNotFound
      | r # _ \<Rightarrow> Inr r)"

definition MarkSentTx :: "uuid \<Rightarrow> string \<Rightarrow> string \<Rightarrow> py_db \<Rightarrow> mp_error + py_db" where
  "MarkSentTx i conversation originator = set_out i (\<lambda>r. r\<lparr>or_status := OutboundSent,
     or_daraja_conversation_id := Some conversation, or_daraja_originator_id := Some originator\<rparr>)"

definition MarkOutboundFailedTx :: "uuid \<Rightarrow> string \<Rightarrow> py_db \<Rightarrow> mp_error + py_db" where
  "MarkOutboundFailedTx i why = set_out i (\<lambda>r. r\<lparr>or_status := OutboundFailed, or_result_desc := Some why\<rparr>)"

definition MarkResultTx :: "uuid \<Rightarrow> int \<Rightarrow> string \<Rightarrow> string \<Rightarrow> py_db \<Rightarrow> mp_error + py_db" where
  "MarkResultTx i code desc receipt = set_out i (\<lambda>r. r\<lparr>
     or_status := (if code = 0 then OutboundCompleted else OutboundFailed), or_result_code := Some code,
     or_result_desc := Some desc, or_mpesa_receipt_number := nullIfEmpty receipt\<rparr>)"

definition MarkReversedTx :: "uuid \<Rightarrow> py_db \<Rightarrow> mp_error + py_db" where
  "MarkReversedTx i = set_out i (\<lambda>r. r\<lparr>or_status := OutboundReversed\<rparr>)"

definition RecordFinalizationAttemptTx :: "uuid \<Rightarrow> bool \<Rightarrow> string \<Rightarrow> py_db \<Rightarrow> mp_error + py_db" where
  "RecordFinalizationAttemptTx i ok why = set_out i (\<lambda>r. r\<lparr>
     or_finalization_status := (if ok then ''completed'' else ''failed''),
     or_finalization_attempts := or_finalization_attempts r + 1,
     or_finalization_error := (if ok then None else Some why)\<rparr>)"

definition ByConversationIDTx :: "string \<Rightarrow> py_db \<Rightarrow> mp_error + outbound" where
  "ByConversationIDTx c db = (if TrimSpace c = [] then Inl MpNotFound
     else orNotFound (find (\<lambda>r. or_daraja_conversation_id r = Some c) (py_rows db)))"

section \<open>Asking for a payment\<close>

text \<open>
  What \<open>Disburse\<close> inserts for an M-PESA disbursement that needs no approval: the principal, to the
  borrower's phone. A conflict on the key does nothing.
\<close>

definition loan_payment :: "payout_env \<Rightarrow> loan \<Rightarrow> insert_outbound" where
  "loan_payment E l = \<lparr> io_paybill_id = the_default 0 (le_b2c_paybill (pe_ln E)), io_kind = OutboundB2CDisbursement,
     io_msisdn = the_default [] (Option.bind (le_phone (pe_ln E) (lo_counterparty_id l)) mpesaMSISDN),
     io_amount = lo_principal l, io_source_module = disbursements, io_source_ref = uuid_text E (lo_id l) \<rparr>"

definition queue_payment :: "payout_env \<Rightarrow> uuid \<Rightarrow> py_db \<Rightarrow> py_db" where
  "queue_payment E lid db = (case GetLoanTx (py_loans db) lid of
     Inl _ \<Rightarrow> db
   | Inr l \<Rightarrow> (if row_with_key db disbursements (uuid_text E (lo_id l)) = None then add_row E (loan_payment E l) db else db))"

definition PayoutDisburse ::
  "payout_env \<Rightarrow> uuid \<Rightarrow> disbursement_payload \<Rightarrow> py_db \<Rightarrow> sv_error + (py_db \<times> outcome)" where
  "PayoutDisburse E user p db =
     bind_res (Disburse (pe_ln E) user p (py_loans db)) (\<lambda>(ld, r).
     let db1 = db\<lparr>py_loans := ld\<rparr> in
     Inr (if \<not> gated (PayDisbursement p) (py_loans db) \<and> LoanExecutors.ToLower (dsp_channel p) = ''mpesa''
          then queue_payment E (dsp_loan_id p) db1 else db1, r))"

record enqueue_req =
  eq_paybill_id :: uuid
  eq_msisdn :: string
  eq_amount :: decimal
  eq_source_module :: string
  eq_source_ref :: string
  eq_kind :: string

definition Enqueue :: "payout_env \<Rightarrow> bool \<Rightarrow> enqueue_req \<Rightarrow> py_db \<Rightarrow> mp_error + (py_db \<times> outbound \<times> bool)" where
  "Enqueue E trusted req db =
     bind_res (ensure trusted (MpInvalid ''invalid internal token'')) (\<lambda>_.
     bind_res (ensure (eq_paybill_id req \<noteq> uuid_Nil \<and> eq_msisdn req \<noteq> [] \<and> 0 < eq_amount req \<and>
         eq_source_module req \<noteq> [] \<and> eq_source_ref req \<noteq> [])
       (MpInvalid ''paybill_id, msisdn, amount, source_module, source_ref required'')) (\<lambda>_.
     bind_res (ensure (\<exists>p\<in>set (py_paybills db). pb_id p = eq_paybill_id req) MpNotFound) (\<lambda>_.
     InsertTx E \<lparr> io_paybill_id = eq_paybill_id req,
       io_kind = (if eq_kind req = ''refund'' then OutboundRefund else OutboundB2CDisbursement),
       io_msisdn = eq_msisdn req, io_amount = eq_amount req, io_source_module = eq_source_module req,
       io_source_ref = eq_source_ref req \<rparr> db)))"

section \<open>The dispatcher\<close>

text \<open>A bucket of tokens for each paybill, made full at its first use and refilled every minute.\<close>

definition takeToken :: "nat \<Rightarrow> uuid \<Rightarrow> (uuid \<Rightarrow> nat option) \<Rightarrow> (uuid \<Rightarrow> nat option) \<times> bool" where
  "takeToken capacity pid buckets = (let n = the_default capacity (buckets pid) in (buckets(pid \<mapsto> n - 1), 0 < n))"

definition refill :: "nat \<Rightarrow> (uuid \<Rightarrow> nat option) \<Rightarrow> uuid \<Rightarrow> nat option" where
  "refill capacity buckets pid = map_option (\<lambda>_. capacity) (buckets pid)"

record b2c_request =
  bq_originator_conversation_id :: string
  bq_initiator_name :: string
  bq_security_credential :: string
  bq_command_id :: string
  bq_amount :: string
  bq_party_a :: string
  bq_party_b :: string
  bq_remarks :: string
  bq_occasion :: string

text \<open>
  What the dispatcher asks outside: the decrypted credentials, the OAuth token, the encrypted
  password, and the submission: whether Safaricom accepted the payment, and the answer that arrived, if
  one did (code, conversation and originator ids).
\<close>

record b2c_host =
  bh_creds :: "uuid \<Rightarrow> (string \<times> string \<times> string \<times> string) option"
  bh_oauth :: "string \<Rightarrow> string \<Rightarrow> string option"
  bh_encode :: "string \<Rightarrow> string option"
  bh_submit :: "string \<Rightarrow> b2c_request \<Rightarrow> bool \<times> (string \<times> string \<times> string) option"

definition defaultRemark :: "outbound_kind \<Rightarrow> string" where
  "defaultRemark k = (case k of OutboundB2CDisbursement \<Rightarrow> ''Loan disbursement'' | OutboundRefund \<Rightarrow> ''Refund'')"

definition b2c_request_of :: "payout_env \<Rightarrow> outbound \<Rightarrow> paybill \<Rightarrow> string \<Rightarrow> string \<Rightarrow> b2c_request" where
  "b2c_request_of E out pb name cred = \<lparr> bq_originator_conversation_id = uuid_text E (or_id out),
     bq_initiator_name = name, bq_security_credential = cred, bq_command_id = ''BusinessPayment'',
     bq_amount = fixed E 0 (or_amount out), bq_party_a = pb_shortcode pb, bq_party_b = or_msisdn out,
     bq_remarks = defaultRemark (or_kind out), bq_occasion = or_source_ref out \<rparr>"

text \<open>The client refuses an empty token or credential before it sends anything.\<close>

definition SubmitB2C ::
  "b2c_host \<Rightarrow> string \<Rightarrow> b2c_request \<Rightarrow> bool \<times> (string \<times> string \<times> string) option" where
  "SubmitB2C h bearer req =
     (if bearer = [] \<or> bq_command_id req \<notin> {''SalaryPayment'', ''BusinessPayment'', ''PromotionPayment''} \<or>
         bq_initiator_name req = [] \<or> bq_security_credential req = []
      then (False, None) else bh_submit h bearer req)"

text \<open>The result of the transaction's body, and whether a payment was accepted on the way.\<close>

definition dispatch ::
  "payout_env \<Rightarrow> b2c_host \<Rightarrow> bool \<Rightarrow> outbound \<Rightarrow> py_db \<Rightarrow> (mp_error + py_db) \<times> bool" where
  "dispatch E h tok out db =
     (if \<not> tok then (Inl (MpInvalid ''rate limit exceeded; row will retry next pass''), False)
      else case find (\<lambda>p. pb_id p = or_paybill_id out) (py_paybills db) of
        None \<Rightarrow> (Inl (MpInvalid ''load paybill''), False)
      | Some pb \<Rightarrow> (case bh_creds h (or_paybill_id out) of
          None \<Rightarrow> (Inl (MpInvalid ''load credentials''), False)
        | Some (key, secret, name, password) \<Rightarrow> (case bh_oauth h key secret of
            None \<Rightarrow> (Inl (MpInvalid ''daraja oauth''), False)
          | Some bearer \<Rightarrow> (case bh_encode h password of
              None \<Rightarrow> (Inl (MpInvalid ''encode security_credential''), False)
            | Some cred \<Rightarrow> (case SubmitB2C h bearer (b2c_request_of E out pb name cred) of
                (accepted, None) \<Rightarrow> (Inl (MpInvalid ''daraja submit''), accepted)
              | (accepted, Some (code, conversation, originator)) \<Rightarrow>
                  (if code \<noteq> ''0'' then (Inl (MpInvalid ''daraja rejected''), accepted)
                   else (MarkSentTx (or_id out) conversation originator db, accepted)))))))"

datatype pass = PassIdle | PassSent uuid | PassFailed uuid

definition note_accepted :: "uuid \<Rightarrow> bool \<Rightarrow> bool \<Rightarrow> py_db \<Rightarrow> py_db" where
  "note_accepted i recorded accepted db =
     (if accepted then db\<lparr>py_accepted := py_accepted db @ [(i, recorded)]\<rparr> else db)"

text \<open>
  The first transaction of \<open>processOne\<close>: lease a row and dispatch it. An error, or a commit that
  fails, undoes everything but the payment.
\<close>

definition lease_and_dispatch ::
  "payout_env \<Rightarrow> b2c_host \<Rightarrow> bool \<Rightarrow> uuid set \<Rightarrow> bool \<Rightarrow> py_db \<Rightarrow> py_db \<times> pass" where
  "lease_and_dispatch E h tok held commit db = (case LeaseOutboundTx held db of
     Inl _ \<Rightarrow> (db, PassIdle)
   | Inr out \<Rightarrow> (case dispatch E h tok out db of
       (Inr db1, accepted) \<Rightarrow> if commit then (note_accepted (or_id out) True accepted db1, PassSent (or_id out))
         else (note_accepted (or_id out) False accepted db, PassFailed (or_id out))
     | (Inl _, accepted) \<Rightarrow> (note_accepted (or_id out) False accepted db, PassFailed (or_id out))))"

text \<open>The whole pass with nothing in between: a failure is written in a transaction of its own.\<close>

definition processOne :: "payout_env \<Rightarrow> b2c_host \<Rightarrow> bool \<Rightarrow> bool \<Rightarrow> py_db \<Rightarrow> py_db \<times> pass" where
  "processOne E h tok commit db = (case lease_and_dispatch E h tok {} commit db of
     (db1, PassFailed i) \<Rightarrow> (case MarkOutboundFailedTx i ''dispatch failed'' db1 of
         Inl _ \<Rightarrow> (db1, PassFailed i) | Inr db2 \<Rightarrow> (db2, PassFailed i))
   | r \<Rightarrow> r)"

section \<open>The callbacks\<close>

record b2c_result =
  br_code :: int
  br_desc :: string
  br_conversation_id :: string
  br_transaction_id :: string
  br_params :: "(string \<times> string) list"

definition pickResultParam :: "b2c_result \<Rightarrow> string \<Rightarrow> string" where
  "pickResultParam b key = (case find (\<lambda>p. LoanExecutors.ToLower (fst p) = LoanExecutors.ToLower key) (br_params b) of
     None \<Rightarrow> [] | Some p \<Rightarrow> snd p)"

definition authWebhook :: "uuid option \<Rightarrow> string \<Rightarrow> py_db \<Rightarrow> paybill option" where
  "authWebhook path tok db = (case path of None \<Rightarrow> None
     | Some pid \<Rightarrow> if tok = [] then None
         else find (\<lambda>p. pb_id p = pid \<and> pb_webhook_token p = tok) (py_paybills db))"

definition daraja :: "int \<Rightarrow> string \<Rightarrow> confirm_reply" where
  "daraja c t = Daraja \<lparr> dr_code = c, dr_desc = t \<rparr>"

definition loan_of :: "payout_env \<Rightarrow> outbound \<Rightarrow> uuid option" where
  "loan_of E out = (if or_source_module out = disbursements then pe_parse_uuid E (or_source_ref out) else None)"

text \<open>
  The result callback's transaction, its reply, and the call it makes next. The row is found by the
  conversation; its status is not looked at.
\<close>

definition result_persist ::
  "payout_env \<Rightarrow> uuid option \<Rightarrow> string \<Rightarrow> b2c_result option \<Rightarrow> py_db \<Rightarrow> py_db \<times> confirm_reply \<times> work list" where
  "result_persist E path tok body db = (case authWebhook path tok db of
     None \<Rightarrow> (db, HttpStatus 401, [])
   | Some _ \<Rightarrow> (case body of None \<Rightarrow> (db, daraja 0 ''Received (malformed)'', [])
     | Some b \<Rightarrow> (case ByConversationIDTx (br_conversation_id b) db of
         Inl _ \<Rightarrow> (db, daraja 0 ''Received (unknown conversation)'', [])
       | Inr out \<Rightarrow> (let receipt = pickResultParam b ''TransactionReceipt'' in
           case MarkResultTx (or_id out) (br_code b) (br_desc b) receipt db of
             Inl _ \<Rightarrow> (db, daraja 1 ''Rejected: persistence'', [])
           | Inr db1 \<Rightarrow> (db1, daraja 0 ''Received'',
               (case loan_of E out of
                  Some lid \<Rightarrow> if br_code b = 0 \<and> lid \<noteq> uuid_Nil then [WorkFinalize (or_id out) lid receipt] else []
                | None \<Rightarrow> []))))))"

definition Timeout :: "uuid option \<Rightarrow> string \<Rightarrow> b2c_result option \<Rightarrow> py_db \<Rightarrow> py_db \<times> confirm_reply" where
  "Timeout path tok body db = (case authWebhook path tok db of
     None \<Rightarrow> (db, HttpStatus 401)
   | Some _ \<Rightarrow> (case ByConversationIDTx (case body of None \<Rightarrow> [] | Some b \<Rightarrow> br_conversation_id b) db of
       Inl _ \<Rightarrow> (db, daraja 0 ''Received'')
     | Inr out \<Rightarrow> (case MarkOutboundFailedTx (or_id out) ''Daraja queue timeout'' db of
         Inl _ \<Rightarrow> (db, daraja 0 ''Received'') | Inr db1 \<Rightarrow> (db1, daraja 0 ''Received''))))"

definition reversal_task :: "payout_env \<Rightarrow> uuid \<Rightarrow> outbound \<Rightarrow> b2c_result \<Rightarrow> client_task" where
  "reversal_task E tenant out b = \<lparr> tk_tenant_id = tenant, tk_process_kind = ''mpesa_b2c_reversal'',
     tk_subject_kind = ''mpesa_outbound_request'', tk_subject_id = or_id out,
     tk_context = [(''outbound_id'', JStr (uuid_text E (or_id out))), (''source_module'', JStr (or_source_module out)),
       (''source_ref'', JStr (or_source_ref out)), (''amount'', JStr (fixed E 2 (or_amount out))),
       (''msisdn'', JStr (or_msisdn out)), (''reversal_desc'', JStr (br_desc b))] @
       (case loan_of E out of None \<Rightarrow> [] | Some lid \<Rightarrow> [(''loan_id'', JStr (uuid_text E lid))]),
     tk_summary = ''M-PESA B2C reversal'' @ dot @ ''KES '' @ fixed E 2 (or_amount out) @ '' to '' @ or_msisdn out,
     tk_source_url = ''/accounting/mpesa-reversal?outbound='' @ uuid_text E (or_id out) \<rparr>"

text \<open>A tenant without the definition of the task has none; any other failure undoes the transaction.\<close>

definition raise_reversal_task :: "payout_env \<Rightarrow> client_task \<Rightarrow> py_db \<Rightarrow> mp_error + py_db" where
  "raise_reversal_task E task db =
     (case ClientCreateInstanceTx (py_wf db) (py_supply db) (time_instant (now_db (pe_ln E))) task of
        Inr w \<Rightarrow> Inr (db\<lparr>py_wf := w, py_supply := py_supply db + 1\<rparr>)
      | Inl e \<Rightarrow> if e = no_definition then Inr db else Inl e)"

definition reverse_persist ::
  "payout_env \<Rightarrow> uuid option \<Rightarrow> string \<Rightarrow> b2c_result option \<Rightarrow> py_db \<Rightarrow> py_db \<times> confirm_reply \<times> work list" where
  "reverse_persist E path tok body db = (case authWebhook path tok db of
     None \<Rightarrow> (db, HttpStatus 401, [])
   | Some pb \<Rightarrow> (case body of None \<Rightarrow> (db, daraja 0 ''Received (malformed)'', [])
     | Some b \<Rightarrow> (case ByConversationIDTx (br_conversation_id b) db of
         Inl _ \<Rightarrow> (db, daraja 0 ''Received (unknown conversation)'', [])
       | Inr out \<Rightarrow> (case bind_res (MarkReversedTx (or_id out) db)
             (raise_reversal_task E (reversal_task E (pb_tenant_id pb) out b)) of
           Inl _ \<Rightarrow> (db, daraja 1 ''Rejected: persistence'', [])
         | Inr db1 \<Rightarrow> (db1, daraja 0 ''Received'',
             (case loan_of E out of None \<Rightarrow> []
              | Some lid \<Rightarrow> [WorkReverse lid (if br_transaction_id b = [] then br_conversation_id b else br_transaction_id b)
                  (if br_desc b = [] then ''Safaricom reversal'' else br_desc b)]))))))"

section \<open>Handing the outcome over\<close>

text \<open>A call that never reaches the other service, one that is answered, and one whose answer is lost.\<close>

datatype http_fate = NotReached | Answered | AnswerLost

definition finalize_call ::
  "payout_env \<Rightarrow> http_fate \<Rightarrow> uuid \<Rightarrow> string \<Rightarrow> py_db \<Rightarrow> py_db \<times> bool" where
  "finalize_call E fate lid receipt db =
     (if \<not> pe_savings E \<or> lid = uuid_Nil \<or> fate = NotReached then (db, False)
      else case FinalizeDisbursement (pe_ln E) (pe_trusted E) lid receipt (py_loans db) of
        Inl _ \<Rightarrow> (db, False)
      | Inr (ld, _) \<Rightarrow> (db\<lparr>py_loans := ld\<rparr>, fate = Answered))"

definition reverse_call :: "payout_env \<Rightarrow> http_fate \<Rightarrow> uuid \<Rightarrow> string \<Rightarrow> string \<Rightarrow> py_db \<Rightarrow> py_db" where
  "reverse_call E fate lid receipt why db =
     (if \<not> pe_savings E \<or> lid = uuid_Nil \<or> fate = NotReached then db
      else case ReverseDisbursement (pe_ln E) (pe_trusted E) lid receipt why (py_loans db) of
        Inl _ \<Rightarrow> db
      | Inr (ld, _) \<Rightarrow> db\<lparr>py_loans := ld\<rparr>)"

text \<open>One pending piece of work; the finalize call leaves the record of its outcome to be written.\<close>

definition commit_or_not :: "mp_error + py_db \<Rightarrow> py_db \<Rightarrow> py_db" where
  "commit_or_not r db = (case r of Inl _ \<Rightarrow> db | Inr db1 \<Rightarrow> db1)"

fun do_work :: "payout_env \<Rightarrow> http_fate \<Rightarrow> work \<Rightarrow> py_db \<Rightarrow> py_db \<times> work list" where
  "do_work E fate (WorkMarkFailed i why) db = (commit_or_not (MarkOutboundFailedTx i why db) db, [])"
| "do_work E fate (WorkRecord i ok why) db = (commit_or_not (RecordFinalizationAttemptTx i ok why db) db, [])"
| "do_work E fate (WorkReverse lid receipt why) db = (reverse_call E fate lid receipt why db, [])"
| "do_work E fate (WorkFinalize i lid receipt) db =
     (let (db1, ok) = finalize_call E fate lid receipt db in (db1, [WorkRecord i ok ''savings finalize'']))"

end
