(* ===== verification/LoanBooks.thy ===== *)
theory LoanBooks
  imports LoanRequests DepositSystem
begin

text \<open>
  The invariant of the loan tables: each component of a loan is charged, paid and owed in step with
  the repayments that stand; nothing is owed below zero; a settled loan owes nothing and has no open
  installment; a loan that is not disbursed has no schedule; no installment is paid beyond its due.
  Inside a transaction the tables pass through states where some of this does not hold for the loan at
  hand: \<open>g\<close> says by how much its paid columns are ahead of its transactions, \<open>X\<close> and
  \<open>Y\<close> name the loans whose settled or pending part is suspended.
\<close>

section \<open>The invariant\<close>

definition ln_env_ok :: "ln_env \<Rightarrow> bool" where
  "ln_env_ok E \<longleftrightarrow> sv_env_ok (le_sv E)"

definition standing :: "uuid \<Rightarrow> loan_txn_row \<Rightarrow> bool" where
  "standing lid t \<longleftrightarrow> lx_loan_id t = lid \<and> lx_type t = LoanTxnRepayment \<and> lx_reversed_by_txn_id t = None"

definition repaid :: "ln_db \<Rightarrow> uuid \<Rightarrow> component \<Rightarrow> decimal" where
  "repaid db lid c = sum_list (map (\<lambda>t. lx_comp t c) (filter (standing lid) (ld_txns db)))"

definition forgiven :: "ln_db \<Rightarrow> uuid \<Rightarrow> bool" where
  "forgiven db lid \<longleftrightarrow> (\<exists>w\<in>set (ld_writeoffs db). wo_loan_id w = lid) \<or>
     (\<exists>r\<in>set (ld_restructurings db). rs_loan_id r = lid \<and> rs_kind r = RestructureSettlementDiscount)"

type_synonym ahead = "uuid \<Rightarrow> component \<Rightarrow> decimal"

definition sums_ok :: "bool \<Rightarrow> loan \<Rightarrow> bool" where
  "sums_ok b l \<longleftrightarrow> 0 \<le> lo_principal l \<and> scaled 2 (lo_principal l) \<and>
     (\<forall>c. scaled 2 (lo_charged l c) \<and> scaled 2 (lo_paid l c) \<and> scaled 2 (lo_balance l c) \<and> 0 \<le> lo_balance l c \<and>
        lo_balance l c \<le> lo_charged l c - lo_paid l c \<and> (b \<or> lo_balance l c = lo_charged l c - lo_paid l c))"

definition money_ok :: "ahead \<Rightarrow> ln_db \<Rightarrow> loan \<Rightarrow> bool" where
  "money_ok g db l \<longleftrightarrow> sums_ok (forgiven db (lo_id l)) l \<and>
     (\<forall>c. lo_paid l c = repaid db (lo_id l) c + g (lo_id l) c)"

definition settled_ok :: "ln_db \<Rightarrow> loan \<Rightarrow> bool" where
  "settled_ok db l \<longleftrightarrow> (lo_status l = LoanSettled \<longrightarrow> lo_balance l = no_comp \<and>
     (\<forall>s\<in>set (ld_schedule db). si_loan_id s = lo_id l \<longrightarrow> \<not> open_row s))"

definition pending_ok :: "ln_db \<Rightarrow> loan \<Rightarrow> bool" where
  "pending_ok db l \<longleftrightarrow> (lo_status l = LoanPendingDisbursement \<longrightarrow> lo_charged l = no_comp \<and>
     (\<forall>s\<in>set (ld_schedule db). si_loan_id s \<noteq> lo_id l))"

definition row_ok :: "installment \<Rightarrow> bool" where
  "row_ok s \<longleftrightarrow> 0 \<le> si_due s Interest \<and> 0 \<le> si_due s Fees \<and>
     (\<forall>c. scaled 2 (si_due s c) \<and> scaled 2 (si_paid s c) \<and> 0 \<le> si_paid s c \<and> si_paid s c \<le> max 0 (si_due s c))"

definition repayment_ok :: "loan_txn_row \<Rightarrow> bool" where
  "repayment_ok t \<longleftrightarrow> (lx_type t = LoanTxnRepayment \<longrightarrow> (\<forall>c. scaled 2 (lx_comp t c) \<and> 0 \<le> lx_comp t c))"

definition ids_ok :: "ln_db \<Rightarrow> bool" where
  "ids_ok db \<longleftrightarrow> distinct (map lo_id (ld_loans db)) \<and> distinct (map si_id (ld_schedule db)) \<and>
     distinct (map lx_id (ld_txns db)) \<and> (\<forall>l\<in>set (ld_loans db). lo_id l < sv_supply db) \<and>
     (\<forall>s\<in>set (ld_schedule db). si_id s < sv_supply db \<and> si_loan_id s < sv_supply db) \<and>
     (\<forall>t\<in>set (ld_txns db). lx_id t < sv_supply db \<and> lx_loan_id t < sv_supply db)"

text \<open>What the rest of the service maintains: no negative amount in an application or a fee.\<close>

definition terms_ok :: "ln_db \<Rightarrow> bool" where
  "terms_ok db \<longleftrightarrow> (\<forall>a\<in>set (ld_apps db). \<forall>x. la_approved_amount a = Some x \<longrightarrow> 0 \<le> x) \<and>
     (\<forall>p\<in>set (ld_products db). \<forall>f\<in>set (lp_fees p). 0 \<le> pf_amount f)"

fun whole_cents :: "loan_payload \<Rightarrow> bool" where
  "whole_cents (PayRepayment p) = scaled 2 (rpl_amount p)"
| "whole_cents _ = True"

definition books :: "ahead \<Rightarrow> uuid set \<Rightarrow> uuid set \<Rightarrow> ln_db \<Rightarrow> bool" where
  "books g X Y db \<longleftrightarrow> ids_ok db \<and> terms_ok db \<and> ledger_ok True db \<and>
     (\<forall>q\<in>set (ld_requests db). whole_cents (lq_payload q)) \<and>
     (\<forall>s\<in>set (ld_schedule db). row_ok s) \<and> (\<forall>t\<in>set (ld_txns db). repayment_ok t) \<and>
     (\<forall>l\<in>set (ld_loans db). money_ok g db l \<and> (lo_id l \<in> X \<or> settled_ok db l) \<and> (lo_id l \<in> Y \<or> pending_ok db l))"

abbreviation (input) level :: ahead where
  "level \<equiv> (\<lambda>_ _. 0)"

lemma booksD:
  assumes "books g X Y db"
  shows "ids_ok db" "terms_ok db" "ledger_ok True db"
    and "s \<in> set (ld_schedule db) \<Longrightarrow> row_ok s"
    and "t \<in> set (ld_txns db) \<Longrightarrow> repayment_ok t"
    and "l \<in> set (ld_loans db) \<Longrightarrow> money_ok g db l"
    and "l \<in> set (ld_loans db) \<Longrightarrow> lo_id l \<notin> X \<Longrightarrow> settled_ok db l"
    and "l \<in> set (ld_loans db) \<Longrightarrow> lo_id l \<notin> Y \<Longrightarrow> pending_ok db l"
    and "q \<in> set (ld_requests db) \<Longrightarrow> whole_cents (lq_payload q)"
  using assms by (auto simp: books_def)

lemma booksI:
  assumes "ids_ok db" "terms_ok db" "ledger_ok True db"
    and "\<And>q. q \<in> set (ld_requests db) \<Longrightarrow> whole_cents (lq_payload q)"
    and "\<And>s. s \<in> set (ld_schedule db) \<Longrightarrow> row_ok s"
    and "\<And>t. t \<in> set (ld_txns db) \<Longrightarrow> repayment_ok t"
    and "\<And>l. l \<in> set (ld_loans db) \<Longrightarrow> money_ok g db l"
    and "\<And>l. l \<in> set (ld_loans db) \<Longrightarrow> lo_id l \<notin> X \<Longrightarrow> settled_ok db l"
    and "\<And>l. l \<in> set (ld_loans db) \<Longrightarrow> lo_id l \<notin> Y \<Longrightarrow> pending_ok db l"
  shows "books g X Y db"
  using assms unfolding books_def by blast

lemma books_weaken: "books g X Y db \<Longrightarrow> X \<subseteq> X' \<Longrightarrow> Y \<subseteq> Y' \<Longrightarrow> books g X' Y' db"
  by (auto simp: books_def)

lemma col_rounding: "ln_env_ok E \<Longrightarrow> rounding 2 (col E)"
  by (simp add: ln_env_ok_def sv_env_ok_def)

lemma col_exact: "ln_env_ok E \<Longrightarrow> scaled 2 x \<Longrightarrow> col E x = x"
  by (rule rounding.exact [OF col_rounding])

lemma col_scaled: "ln_env_ok E \<Longrightarrow> scaled 2 (col E x)"
  by (rule rounding.repr [OF col_rounding])

section \<open>Operations that leave the loan tables alone\<close>

definition same_loans :: "ln_db \<Rightarrow> ln_db \<Rightarrow> bool" where
  "same_loans db db' \<longleftrightarrow> ld_loans db' = ld_loans db \<and> ld_schedule db' = ld_schedule db \<and> ld_txns db' = ld_txns db \<and>
     ld_writeoffs db' = ld_writeoffs db \<and> ld_restructurings db' = ld_restructurings db \<and>
     ld_products db' = ld_products db \<and> map la_approved_amount (ld_apps db') = map la_approved_amount (ld_apps db) \<and>
     ld_requests db' = ld_requests db \<and> sv_supply db \<le> sv_supply db'"

lemma same_loans_refl [simp]: "same_loans db db"
  by (simp add: same_loans_def)

lemma same_loans_trans: "same_loans db db1 \<Longrightarrow> same_loans db1 db2 \<Longrightarrow> same_loans db db2"
  by (simp add: same_loans_def)

lemma all_apps_map:
  "map f as = map f bs \<Longrightarrow> (\<forall>a\<in>set as. P (f a)) \<longleftrightarrow> (\<forall>b\<in>set bs. P (f b))"
  by (metis (mono_tags, lifting) image_iff list.set_map)

lemma same_loans_terms: "same_loans db db' \<Longrightarrow> terms_ok db \<Longrightarrow> terms_ok db'"
  using all_apps_map [of la_approved_amount "ld_apps db'" "ld_apps db" "\<lambda>m. \<forall>x. m = Some x \<longrightarrow> 0 \<le> x"]
  by (simp add: same_loans_def terms_ok_def)

lemma parts_same:
  assumes "same_loans db db'"
  shows "ids_ok db \<Longrightarrow> ids_ok db'" "money_ok g db' l = money_ok g db l" "settled_ok db' l = settled_ok db l"
    "pending_ok db' l = pending_ok db l"
proof -
  have eq: "ld_loans db' = ld_loans db" "ld_schedule db' = ld_schedule db" "ld_txns db' = ld_txns db"
    "ld_writeoffs db' = ld_writeoffs db" "ld_restructurings db' = ld_restructurings db" and le: "sv_supply db \<le> sv_supply db'"
    using assms by (simp_all add: same_loans_def)
  show "ids_ok db \<Longrightarrow> ids_ok db'" using le unfolding ids_ok_def eq by (auto intro: less_le_trans)
  show "money_ok g db' l = money_ok g db l" by (simp add: money_ok_def repaid_def forgiven_def eq)
  show "settled_ok db' l = settled_ok db l" by (simp add: settled_ok_def eq)
  show "pending_ok db' l = pending_ok db l" by (simp add: pending_ok_def eq)
qed

lemma books_same:
  assumes "books g X Y db" "same_loans db db'" "ledger_ok True db'"
  shows "books g X Y db'"
proof -
  have eq: "ld_loans db' = ld_loans db" "ld_schedule db' = ld_schedule db" "ld_txns db' = ld_txns db"
    "ld_requests db' = ld_requests db" using assms(2) by (simp_all add: same_loans_def)
  show ?thesis
    using assms(1,3) parts_same [OF assms(2)] same_loans_terms [OF assms(2)] by (simp add: books_def eq)
qed

lemma books_same_sv:
  "books g X Y db \<Longrightarrow> same_loans db db' \<Longrightarrow> sv_accounts db' = sv_accounts db \<Longrightarrow> sv_txns db' = sv_txns db \<Longrightarrow>
    books g X Y db'"
  by (rule books_same) (auto intro: ledger_ok_same [of True db] simp: booksD(3) same_loans_def)

lemma books_same_books: "books g X Y db \<Longrightarrow> same_books db db' \<Longrightarrow> books g X Y db'"
  by (erule same_booksE, rule books_same_sv) (auto simp: same_loans_def)

lemma sv_post_same_loans: "sv_post S inp (db :: ln_db) = Inr db' \<Longrightarrow> same_loans db db'"
  by (drule sv_post_same) (auto simp: same_loans_def)

lemma sv_post_books: "books g X Y db \<Longrightarrow> sv_post S inp db = Inr db' \<Longrightarrow> books g X Y db'"
  by (drule sv_post_same, elim exE, rule books_same_sv) (auto simp: same_loans_def)

lemma dep_post_books:
  assumes "books g X Y db" "ln_env_ok E" "PostTxnTx (le_sv E) inp db = Inr (db', t)" "scaled 2 (pt_amount inp)"
  shows "books g X Y db' \<and> same_loans db db'"
proof -
  have s: "same_loans db db'"
    using assms(3) by (rule PostTxnTx_E) (simp add: posted_db_def same_loans_def)
  then show ?thesis
    using books_same [OF assms(1) s post_ledger_ok [OF assms(3) booksD(3) [OF assms(1)]]] assms(2,4)
    by (simp add: ln_env_ok_def)
qed

section \<open>Loans and rows\<close>

lemma GetLoanTx_Inr: "GetLoanTx db lid = Inr l \<Longrightarrow> l \<in> set (ld_loans db) \<and> lo_id l = lid"
  by (auto simp: GetLoanTx_def find_Some_iff split: option.splits)

lemma the_loan:
  "ids_ok db \<Longrightarrow> GetLoanTx db lid = Inr l \<Longrightarrow> k \<in> set (ld_loans db) \<Longrightarrow> lo_id k = lid \<Longrightarrow> k = l"
  by (auto simp: ids_ok_def distinct_map inj_on_def dest!: GetLoanTx_Inr)

lemma set_loan_simps [simp]:
  "ld_loans (set_loan lid f db) = map (\<lambda>l. if lo_id l = lid then f l else l) (ld_loans db)"
  "ld_schedule (set_loan lid f db) = ld_schedule db" "ld_txns (set_loan lid f db) = ld_txns db"
  "ld_writeoffs (set_loan lid f db) = ld_writeoffs db" "ld_restructurings (set_loan lid f db) = ld_restructurings db"
  "ld_products (set_loan lid f db) = ld_products db" "ld_apps (set_loan lid f db) = ld_apps db"
  "ld_requests (set_loan lid f db) = ld_requests db" "sv_supply (set_loan lid f db) = sv_supply db"
  "sv_accounts (set_loan lid f db) = sv_accounts db" "sv_txns (set_loan lid f db) = sv_txns db"
  by (simp_all add: set_loan_def)

lemma set_rows_simps [simp]:
  "ld_schedule (set_rows P h db) = map (\<lambda>s. if P s then h s else s) (ld_schedule db)"
  "ld_loans (set_rows P h db) = ld_loans db" "ld_txns (set_rows P h db) = ld_txns db"
  "ld_writeoffs (set_rows P h db) = ld_writeoffs db" "ld_restructurings (set_rows P h db) = ld_restructurings db"
  "ld_products (set_rows P h db) = ld_products db" "ld_apps (set_rows P h db) = ld_apps db"
  "ld_requests (set_rows P h db) = ld_requests db" "sv_supply (set_rows P h db) = sv_supply db"
  "sv_accounts (set_rows P h db) = sv_accounts db" "sv_txns (set_rows P h db) = sv_txns db"
  by (simp_all add: set_rows_def)

lemma money_ok_cong:
  "ld_txns db' = ld_txns db \<Longrightarrow> ld_writeoffs db' = ld_writeoffs db \<Longrightarrow> ld_restructurings db' = ld_restructurings db \<Longrightarrow>
    money_ok g db' l = money_ok g db l"
  by (simp add: money_ok_def repaid_def forgiven_def)

lemma money_ok_gap: "g' (lo_id l) = g (lo_id l) \<Longrightarrow> money_ok g' db l = money_ok g db l"
  by (simp add: money_ok_def)

lemma schedule_cong:
  "ld_schedule db' = ld_schedule db \<Longrightarrow> settled_ok db' l = settled_ok db l"
  "ld_schedule db' = ld_schedule db \<Longrightarrow> pending_ok db' l = pending_ok db l"
  by (simp_all add: settled_ok_def pending_ok_def)

lemma ledger_same_sv:
  "ledger_ok True db \<Longrightarrow> sv_accounts db' = sv_accounts db \<Longrightarrow> sv_txns db' = sv_txns db \<Longrightarrow>
    sv_supply db \<le> sv_supply db' \<Longrightarrow> ledger_ok True db'"
  by (rule ledger_ok_same)

text \<open>One loan changes.\<close>

lemma books_loan:
  assumes "books g X Y db"
    and "\<And>l. l \<in> set (ld_loans db) \<Longrightarrow> lo_id l = lid \<Longrightarrow> lo_id (f l) = lid \<and> money_ok g' db (f l) \<and>
       (lid \<in> X' \<or> settled_ok db (f l)) \<and> (lid \<in> Y' \<or> pending_ok db (f l))"
    and "\<And>i. i \<noteq> lid \<Longrightarrow> g' i = g i \<and> (i \<in> X \<longrightarrow> i \<in> X') \<and> (i \<in> Y \<longrightarrow> i \<in> Y')"
  shows "books g' X' Y' (set_loan lid f db)"
proof -
  let ?f = "\<lambda>l. if lo_id l = lid then f l else l"
  have other: "money_ok g' db l" if "money_ok g db l" "lo_id l \<noteq> lid" for l
    using that assms(3) [of "lo_id l"] money_ok_gap by blast
  have id: "l \<in> set (ld_loans db) \<Longrightarrow> lo_id (?f l) = lo_id l" for l using assms(2) by auto
  then have ids: "map lo_id (map ?f (ld_loans db)) = map lo_id (ld_loans db)" by simp
  have loan: "money_ok g' db (?f l) \<and> (lo_id (?f l) \<in> X' \<or> settled_ok db (?f l)) \<and> (lo_id (?f l) \<in> Y' \<or> pending_ok db (?f l))"
    if "l \<in> set (ld_loans db)" for l
  proof (cases "lo_id l = lid")
    case True
    with assms(2) [OF that] show ?thesis by simp
  next
    case False
    with booksD(6-8) [OF assms(1)] that other assms(3) [of "lo_id l"] show ?thesis by auto
  qed
  have loan': "money_ok g' db k" "lo_id k \<notin> X' \<Longrightarrow> settled_ok db k" "lo_id k \<notin> Y' \<Longrightarrow> pending_ok db k"
    if k: "k \<in> set (map ?f (ld_loans db))" for k
  proof -
    from k obtain l where l: "l \<in> set (ld_loans db)" "k = ?f l" by (auto simp del: if_image_distrib)
    show "money_ok g' db k" "lo_id k \<notin> X' \<Longrightarrow> settled_ok db k" "lo_id k \<notin> Y' \<Longrightarrow> pending_ok db k"
      unfolding l(2) using loan [OF l(1)] by blast+
  qed
  have fid: "lo_id (f l) = lid" if "l \<in> set (ld_loans db)" "lo_id l = lid" for l using assms(2) that by simp
  have cong: "money_ok g' (set_loan lid f db) l = money_ok g' db l" "settled_ok (set_loan lid f db) l = settled_ok db l"
    "pending_ok (set_loan lid f db) l = pending_ok db l" for l
    by (simp_all add: money_ok_def repaid_def forgiven_def settled_ok_def pending_ok_def)
  show ?thesis
  proof (rule booksI)
    show "ids_ok (set_loan lid f db)"
      using booksD(1) [OF assms(1)] unfolding ids_ok_def set_loan_simps ids by (auto simp: fid)
    show "terms_ok (set_loan lid f db)" using booksD(2) [OF assms(1)] by (simp add: terms_ok_def)
    show "ledger_ok True (set_loan lid f db)" by (rule ledger_same_sv [OF booksD(3) [OF assms(1)]]) simp_all
  qed (use loan' booksD(4,5,9) [OF assms(1)] in \<open>simp_all only: cong set_loan_simps, blast+\<close>)
qed

text \<open>Rows change but keep their keys; a row that opens belongs to a suspended loan.\<close>

lemma books_rows:
  assumes "books g X Y db"
    and "\<And>s. s \<in> set (ld_schedule db) \<Longrightarrow> P s \<Longrightarrow> si_id (h s) = si_id s \<and> si_loan_id (h s) = si_loan_id s \<and> row_ok (h s) \<and>
       (open_row (h s) \<longrightarrow> open_row s \<or> si_loan_id s \<in> X)"
  shows "books g X Y (set_rows P h db)"
proof -
  let ?h = "\<lambda>s. if P s then h s else s"
  have keys: "map si_id (map ?h (ld_schedule db)) = map si_id (ld_schedule db)" using assms(2) by auto
  have key: "si_id (?h s) = si_id s" "si_loan_id (?h s) = si_loan_id s" if "s \<in> set (ld_schedule db)" for s
    using assms(2) that by auto
  have hk: "si_id (h s) = si_id s" "si_loan_id (h s) = si_loan_id s" if "s \<in> set (ld_schedule db)" "P s" for s
    using assms(2) that by auto
  have row: "row_ok (?h s)" if "s \<in> set (ld_schedule db)" for s
    using assms(2) [OF that] booksD(4) [OF assms(1) that] by simp
  have settled: "settled_ok (set_rows P h db) l" if "settled_ok db l" "lo_id l \<notin> X" for l
    using that assms(2) hk unfolding settled_ok_def set_rows_simps by (fastforce split: if_splits)
  have pending: "pending_ok (set_rows P h db) l" if "pending_ok db l" for l
    using that hk unfolding pending_ok_def set_rows_simps by (fastforce split: if_splits)
  have money: "money_ok g (set_rows P h db) l = money_ok g db l" for l
    by (rule money_ok_cong) simp_all
  show ?thesis
  proof (rule booksI)
    show "ids_ok (set_rows P h db)"
      using booksD(1) [OF assms(1)] unfolding ids_ok_def set_rows_simps keys by (auto simp: hk)
    show "terms_ok (set_rows P h db)" using booksD(2) [OF assms(1)] by (simp add: terms_ok_def)
    show "ledger_ok True (set_rows P h db)" by (rule ledger_same_sv [OF booksD(3) [OF assms(1)]]) simp_all
    show "row_ok s" if "s \<in> set (ld_schedule (set_rows P h db))" for s
    proof -
      from that obtain r where r: "r \<in> set (ld_schedule db)" "s = ?h r" by auto
      show ?thesis unfolding r(2) by (rule row [OF r(1)])
    qed
  qed (use settled pending money booksD(5-9) [OF assms(1)] in simp_all)
qed

end
