(* ===== verification/LoanMoves.thy ===== *)
theory LoanMoves
  imports LoanBooks
begin

text \<open>
  The store's operations on the invariant of the loan tables: posting a transaction, accrual,
  applying and taking back an amount on the schedule, the next installment and days past due.
\<close>

section \<open>Transactions\<close>

definition ahead_by :: "uuid \<Rightarrow> (component \<Rightarrow> decimal) \<Rightarrow> ahead \<Rightarrow> ahead" where
  "ahead_by lid f g = g(lid := (\<lambda>c. g lid c + f c))"

lemma ahead_by_simps [simp]:
  "ahead_by lid f g lid = (\<lambda>c. g lid c + f c)"
  "i \<noteq> lid \<Longrightarrow> ahead_by lid f g i = g i"
  by (simp_all add: ahead_by_def)

lemma post_loan_eq:
  "\<exists>sq no. PostLoanTxnTx E inp db = (db\<lparr>sv_seq := sq, ld_txns := ld_txns db @ [loan_txn_row E inp no (sv_supply db)],
     sv_supply := sv_supply db + 1\<rparr>, loan_txn_row E inp no (sv_supply db))"
  by (rule exI, rule exI) (simp add: PostLoanTxnTx_def nextSeq_def Let_def)

text \<open>A repayment brings the transactions level with the paid columns; any other kind counts for nothing.\<close>

lemma post_loan_books:
  assumes "books g X Y db" "lo_id (li_loan inp) < sv_supply db" "PostLoanTxnTx E inp db = (db', t)" "ln_env_ok E"
    and "li_txn_type inp = LoanTxnRepayment \<Longrightarrow> (\<forall>c. 0 \<le> li_comp inp c)"
    and "g = (if li_txn_type inp = LoanTxnRepayment then ahead_by (lo_id (li_loan inp)) (\<lambda>c. col E (li_comp inp c)) g' else g')"
  shows "books g' X Y db'"
proof -
  obtain sq no where eq: "db' = db\<lparr>sv_seq := sq, ld_txns := ld_txns db @ [t], sv_supply := sv_supply db + 1\<rparr>"
    and t: "t = loan_txn_row E inp no (sv_supply db)"
    using post_loan_eq [of E inp db] assms(3) by auto
  have tr: "lx_id t = sv_supply db" "lx_loan_id t = lo_id (li_loan inp)" "lx_type t = li_txn_type inp"
    "lx_comp t = (\<lambda>c. col E (li_comp inp c))" "lx_reversed_by_txn_id t = None"
    by (simp_all add: t loan_txn_row_def)
  note d = booksD [OF assms(1)]
  have rp: "repaid db' i c = repaid db i c + (if standing i t then lx_comp t c else 0)" for i c
    by (simp add: repaid_def eq)
  have fg: "forgiven db' i = forgiven db i" for i by (simp add: forgiven_def eq)
  have money: "money_ok g' db' l" if "money_ok g db l" for l
    using that unfolding money_ok_def rp fg by (auto simp: standing_def tr assms(6) ahead_by_def)
  have sch: "settled_ok db' l = settled_ok db l" "pending_ok db' l = pending_ok db l" for l
    by (simp_all add: settled_ok_def pending_ok_def eq)
  have "repayment_ok t"
    using assms(5) col_scaled [OF assms(4)] rounding.of_nonneg [OF col_rounding [OF assms(4)]]
    by (simp add: repayment_ok_def tr)
  moreover have "ids_ok db'"
    using d(1) assms(2) by (auto simp: ids_ok_def eq tr less_Suc_eq)
  moreover have fields: "ld_loans db' = ld_loans db" "ld_schedule db' = ld_schedule db" "ld_txns db' = ld_txns db @ [t]"
    "ld_requests db' = ld_requests db" by (simp_all add: eq)
  moreover have "ledger_ok True db'" by (rule ledger_same_sv [OF d(3)]) (simp_all add: eq)
  moreover have "terms_ok db'" using d(2) by (simp add: terms_ok_def eq)
  ultimately show ?thesis
    using d money by (intro booksI) (auto simp: sch)
qed

lemma other_post_books:
  assumes "books g X Y db" "lo_id (li_loan inp) < sv_supply db" "ln_env_ok E" "li_txn_type inp \<noteq> LoanTxnRepayment"
  shows "books g X Y (fst (PostLoanTxnTx E inp db)) \<and> ld_loans (fst (PostLoanTxnTx E inp db)) = ld_loans db \<and>
    ld_schedule (fst (PostLoanTxnTx E inp db)) = ld_schedule db \<and> sv_supply db \<le> sv_supply (fst (PostLoanTxnTx E inp db))"
proof -
  have "books g X Y (fst (PostLoanTxnTx E inp db))"
    by (rule post_loan_books [OF assms(1,2) prod.collapse [symmetric] assms(3)]) (simp_all add: assms(4))
  then show ?thesis using post_loan_eq [of E inp db] by auto
qed

section \<open>Installments\<close>

lemma row_okD:
  assumes "row_ok s"
  shows "scaled 2 (si_due s c)" "scaled 2 (si_paid s c)" "0 \<le> si_paid s c" "si_paid s c \<le> max 0 (si_due s c)"
  using assms by (simp_all add: row_ok_def)

lemma insert_installment_books:
  assumes "books g X Y db" "insert_installment E lid no r db = Inr db'" "ln_env_ok E" "lid < sv_supply db"
    and "\<And>l. l \<in> set (ld_loans db) \<Longrightarrow> lo_id l = lid \<Longrightarrow> (lid \<in> X \<or> lo_status l \<noteq> LoanSettled) \<and>
       (lid \<in> Y \<or> lo_status l \<noteq> LoanPendingDisbursement)"
    and "0 \<le> sr_interest_due r" "0 \<le> sr_fee_due r"
  shows "books g X Y db' \<and> ld_loans db' = ld_loans db \<and> sv_supply db < sv_supply db'"
proof -
  let ?s = "new_installment E lid no r (sv_supply db)"
  have eq: "db' = db\<lparr>ld_schedule := ld_schedule db @ [?s], sv_supply := sv_supply db + 1\<rparr>"
    using assms(2) unfolding insert_installment_def bind_ensure_Inr by simp
  note d = booksD [OF assms(1)]
  note nn = rounding.of_nonneg [OF col_rounding [OF assms(3)]]
  have s: "row_ok ?s" "si_id ?s = sv_supply db" "si_loan_id ?s = lid"
    using assms(6,7) nn col_scaled [OF assms(3)]
    by (auto simp: row_ok_def new_installment_def no_comp_def si_of_def)
  have money: "money_ok g db' l = money_ok g db l" for l by (rule money_ok_cong) (simp_all add: eq)
  have "books g X Y db'"
  proof (rule booksI)
    show "ids_ok db'" using d(1) s assms(4) by (auto simp: ids_ok_def eq less_Suc_eq)
    show "ledger_ok True db'" by (rule ledger_same_sv [OF d(3)]) (simp_all add: eq)
    show "settled_ok db' l" if "l \<in> set (ld_loans db')" "lo_id l \<notin> X" for l
      using that d(7) [of l] assms(5) [of l] by (auto simp: settled_ok_def eq s)
    show "pending_ok db' l" if "l \<in> set (ld_loans db')" "lo_id l \<notin> Y" for l
      using that d(8) [of l] assms(5) [of l] by (auto simp: pending_ok_def eq s)
  qed (use d s money in \<open>auto simp: eq terms_ok_def\<close>)
  then show ?thesis by (simp add: eq)
qed

text \<open>Applying an amount: every row read is still the row of its key.\<close>

lemma pay_row_simps [simp]:
  "si_id (pay_row E c x r s) = si_id s" "si_loan_id (pay_row E c x r s) = si_loan_id s"
  "si_due (pay_row E c x r s) = si_due s" "si_paid (pay_row E c x r s) = (si_paid s)(c := col E (si_paid r c + x))"
  "si_id (unpay_row E c x r s) = si_id s" "si_loan_id (unpay_row E c x r s) = si_loan_id s"
  "si_due (unpay_row E c x r s) = si_due s" "si_paid (unpay_row E c x r s) = (si_paid s)(c := col E (si_paid r c - x))"
  by (simp_all add: pay_row_def unpay_row_def Let_def)

definition still_there :: "uuid set \<Rightarrow> ln_db \<Rightarrow> installment \<Rightarrow> bool" where
  "still_there X db r \<longleftrightarrow> row_ok r \<and>
     (\<exists>s\<in>set (ld_schedule db). si_id s = si_id r \<and> si_due s = si_due r \<and> si_loan_id s \<in> X)"

lemma still_there_rows:
  assumes "still_there X db r" "\<And>s. si_id (h s) = si_id s \<and> si_due (h s) = si_due s \<and> si_loan_id (h s) = si_loan_id s"
  shows "still_there X (set_rows P h db) r"
proof -
  from assms(1) obtain s where s: "s \<in> set (ld_schedule db)" "si_id s = si_id r" "si_due s = si_due r" "si_loan_id s \<in> X"
    by (auto simp: still_there_def)
  have "(if P s then h s else s) \<in> set (ld_schedule (set_rows P h db))"
    unfolding set_rows_simps list.set_map using s(1) by (rule imageI)
  moreover have "si_id (if P s then h s else s) = si_id r \<and> si_due (if P s then h s else s) = si_due r \<and>
       si_loan_id (if P s then h s else s) \<in> X"
    using s(2-4) by (simp add: assms(2))
  ultimately show ?thesis using assms(1) unfolding still_there_def by blast
qed

text \<open>Writing one component of the row with the key of \<open>r\<close>.\<close>

lemma write_row_books:
  assumes "books g X Y db" "still_there X db r"
    and "\<And>s. si_id (h s) = si_id s \<and> si_due (h s) = si_due s \<and> si_loan_id (h s) = si_loan_id s \<and>
       si_paid (h s) = (si_paid s)(c := z)"
    and "scaled 2 z" "0 \<le> z" "z \<le> max 0 (si_due r c)"
  shows "books g X Y (set_rows (\<lambda>s. si_id s = si_id r) h db)"
proof (rule books_rows [OF assms(1)])
  fix s assume s: "s \<in> set (ld_schedule db)" "si_id s = si_id r"
  from assms(2) obtain s0 where s0: "s0 \<in> set (ld_schedule db)" "si_id s0 = si_id r" "si_due s0 = si_due r" "si_loan_id s0 \<in> X"
    by (auto simp: still_there_def)
  with s booksD(1) [OF assms(1)] have "s = s0" by (auto simp: ids_ok_def distinct_map inj_on_def)
  with s0 booksD(4) [OF assms(1) s0(1)] assms(3) [of s0] assms(4-6)
  show "si_id (h s) = si_id s \<and> si_loan_id (h s) = si_loan_id s \<and> row_ok (h s) \<and> (open_row (h s) \<longrightarrow> open_row s \<or> si_loan_id s \<in> X)"
    by (simp add: row_ok_def)
qed

lemma apply_rows_books:
  assumes "books g X Y db" "ln_env_ok E" "apply_rows E c x rs db = (db', y)" "\<And>r. r \<in> set rs \<Longrightarrow> still_there X db r"
  shows "books g X Y db' \<and> ld_loans db' = ld_loans db \<and> ld_txns db' = ld_txns db \<and> sv_supply db' = sv_supply db"
  using assms
proof (induction rs arbitrary: x db db' y)
  case Nil
  then show ?case by simp
next
  case (Cons r rs)
  consider "x \<le> 0" | "0 < x" "si_due r c - si_paid r c \<le> 0" | "0 < x" "0 < si_due r c - si_paid r c" by linarith
  then show ?case
  proof cases
    case 1
    with Cons.prems show ?thesis by simp
  next
    case 2
    with Cons.prems have "apply_rows E c x rs db = (db', y)" by simp
    with Cons.IH [OF Cons.prems(1,2) this] Cons.prems(4) show ?thesis by simp
  next
    case 3
    let ?pay = "min x (si_due r c - si_paid r c)"
    let ?db1 = "set_rows (\<lambda>s. si_id s = si_id r) (pay_row E c ?pay r) db"
    obtain z where rest: "apply_rows E c (x - ?pay) rs ?db1 = (db', z)"
      using Cons.prems(3) 3 by (auto simp: Let_def split: prod.splits)
    have r: "still_there X db r" "row_ok r" using Cons.prems(4) [of r] by (auto simp: still_there_def)
    have "0 \<le> col E (si_paid r c + ?pay)" "col E (si_paid r c + ?pay) \<le> si_due r c"
      using row_okD [OF r(2), of c] 3 rounding.of_nonneg [OF col_rounding [OF assms(2)], of "si_paid r c + ?pay"]
        rounding.le_of_le [OF col_rounding [OF assms(2)], of "si_paid r c + ?pay" "si_due r c"] by simp_all
    then have b1: "books g X Y ?db1"
      by (intro write_row_books [OF Cons.prems(1) r(1), where c = c and z = "col E (si_paid r c + ?pay)"])
        (simp_all add: col_scaled [OF assms(2)])
    have "books g X Y db' \<and> ld_loans db' = ld_loans ?db1 \<and> ld_txns db' = ld_txns ?db1 \<and> sv_supply db' = sv_supply ?db1"
      using Cons.prems(4) by (intro Cons.IH [OF b1 assms(2) rest] still_there_rows) simp_all
    then show ?thesis by simp
  qed
qed

lemma unapply_rows_books:
  assumes "books g X Y db" "ln_env_ok E" "\<And>r. r \<in> set rs \<Longrightarrow> still_there X db r"
  shows "books g X Y (unapply_rows E c x rs db) \<and> ld_loans (unapply_rows E c x rs db) = ld_loans db \<and>
     ld_txns (unapply_rows E c x rs db) = ld_txns db \<and> sv_supply (unapply_rows E c x rs db) = sv_supply db"
  using assms
proof (induction rs arbitrary: x db)
  case Nil
  then show ?case by simp
next
  case (Cons r rs)
  show ?case
  proof (cases "x \<le> 0")
    case True
    with Cons.prems show ?thesis by simp
  next
    case False
    let ?tk = "min x (si_paid r c)"
    let ?db1 = "set_rows (\<lambda>s. si_id s = si_id r) (unpay_row E c ?tk r) db"
    have r: "still_there X db r" "row_ok r" using Cons.prems(3) [of r] by (auto simp: still_there_def)
    have "0 \<le> col E (si_paid r c - ?tk)" "col E (si_paid r c - ?tk) \<le> si_paid r c"
      using row_okD [OF r(2), of c] False rounding.of_nonneg [OF col_rounding [OF assms(2)], of "si_paid r c - ?tk"]
        rounding.le_of_le [OF col_rounding [OF assms(2)], of "si_paid r c - ?tk" "si_paid r c"] by simp_all
    then have b1: "books g X Y ?db1"
      using row_okD [OF r(2), of c]
      by (intro write_row_books [OF Cons.prems(1) r(1), where c = c and z = "col E (si_paid r c - ?tk)"])
        (simp_all add: col_scaled [OF assms(2)])
    have "still_there X ?db1 q" if "q \<in> set rs" for q
      using that Cons.prems(3) by (intro still_there_rows) simp_all
    from Cons.IH [OF b1 assms(2) this, of "x - ?tk"] False show ?thesis by (simp add: Let_def)
  qed
qed

lemma rows_still_there: "books g X Y db \<Longrightarrow> lid \<in> X \<Longrightarrow> r \<in> set (rows_of lid db) \<Longrightarrow> still_there X db r"
  using booksD(4) [of g X Y db r] by (auto simp: rows_of_def still_there_def)

lemma applyToSchedule_books:
  "books g X Y db \<Longrightarrow> ln_env_ok E \<Longrightarrow> lid \<in> X \<Longrightarrow>
    books g X Y (fst (applyToSchedule E lid c x db)) \<and> ld_loans (fst (applyToSchedule E lid c x db)) = ld_loans db \<and>
    ld_txns (fst (applyToSchedule E lid c x db)) = ld_txns db \<and> sv_supply (fst (applyToSchedule E lid c x db)) = sv_supply db"
  unfolding applyToSchedule_def
  by (rule apply_rows_books [OF _ _ prod.collapse [symmetric]]) (auto intro: rows_still_there)

lemma reverseSchedule_books:
  "books g X Y db \<Longrightarrow> ln_env_ok E \<Longrightarrow> lid \<in> X \<Longrightarrow>
    books g X Y (reverseScheduleAllocation E lid c x db) \<and> ld_loans (reverseScheduleAllocation E lid c x db) = ld_loans db \<and>
    ld_txns (reverseScheduleAllocation E lid c x db) = ld_txns db \<and> sv_supply (reverseScheduleAllocation E lid c x db) = sv_supply db"
  unfolding reverseScheduleAllocation_def
  using unapply_rows_books [of g X Y db E "filter (\<lambda>s. 0 < si_paid s c \<and> si_status s \<noteq> RowCancelled) (rev (rows_of lid db))" c x]
    rows_still_there [of g X Y db lid] by simp

section \<open>The waterfall\<close>

definition share_of :: "loan \<Rightarrow> (component \<Rightarrow> decimal) \<Rightarrow> bool" where
  "share_of l f \<longleftrightarrow> (\<forall>c. scaled 2 (f c) \<and> 0 \<le> f c \<and> f c \<le> lo_balance l c)"

lemma allocate_share:
  assumes "allocate E l cs f x db = (f', x', db')" "share_of l f" "scaled 2 x" "\<forall>c. scaled 2 (lo_balance l c)"
  shows "share_of l f'"
  using assms
proof (induction cs arbitrary: f x db)
  case Nil
  then show ?case by simp
next
  case (Cons c cs)
  consider "x \<le> 0" | "0 < x" "lo_balance l c \<le> 0" | "0 < x" "0 < lo_balance l c" by linarith
  then show ?case
  proof cases
    case 1
    with Cons.prems show ?thesis by simp
  next
    case 2
    with Cons.prems(1) have "allocate E l cs f x db = (f', x', db')" by simp
    with Cons.prems show ?thesis by (intro Cons.IH)
  next
    case 3
    with Cons.prems(1) obtain db1 where "allocate E l cs (f(c := min x (lo_balance l c))) (x - min x (lo_balance l c)) db1 = (f', x', db')"
      by (auto simp: Let_def)
    then show ?thesis
      by (rule Cons.IH) (use 3 Cons.prems in \<open>auto simp: share_of_def scaled_min scaled_diff\<close>)
  qed
qed

lemma allocate_books:
  assumes "allocate E l cs f x db = (f', x', db')" "books g X Y db" "ln_env_ok E" "lo_id l \<in> X"
  shows "books g X Y db' \<and> ld_loans db' = ld_loans db \<and> ld_txns db' = ld_txns db \<and> sv_supply db' = sv_supply db"
  using assms
proof (induction cs arbitrary: f x db)
  case Nil
  then show ?case by simp
next
  case (Cons c cs)
  consider "x \<le> 0" | "0 < x" "lo_balance l c \<le> 0" | "0 < x" "0 < lo_balance l c" by linarith
  then show ?case
  proof cases
    case 1
    with Cons.prems show ?thesis by simp
  next
    case 2
    with Cons.prems(1) have "allocate E l cs f x db = (f', x', db')" by simp
    from Cons.IH [OF this Cons.prems(2-4)] show ?thesis .
  next
    case 3
    let ?db1 = "if c = Penalty then db else fst (applyToSchedule E (lo_id l) c (min x (lo_balance l c)) db)"
    have s: "books g X Y ?db1 \<and> ld_loans ?db1 = ld_loans db \<and> ld_txns ?db1 = ld_txns db \<and> sv_supply ?db1 = sv_supply db"
      using applyToSchedule_books [OF Cons.prems(2-4)] Cons.prems(2) by simp
    from 3 Cons.prems(1) have "allocate E l cs (f(c := min x (lo_balance l c))) (x - min x (lo_balance l c)) ?db1 = (f', x', db')"
      by (simp add: Let_def)
    from Cons.IH [OF this] s Cons.prems(3,4) show ?thesis by simp
  qed
qed

section \<open>The next installment and days past due\<close>

lemma fully_cleared_zero: "sums_ok b l \<Longrightarrow> fully_cleared l \<Longrightarrow> lo_balance l = no_comp"
  unfolding sums_ok_def fully_cleared_def no_comp_def by (rule ext, rename_tac c, case_tac c) (auto intro: antisym)

lemma money_ok_status:
  "lo_id l' = lo_id l \<Longrightarrow> lo_principal l' = lo_principal l \<Longrightarrow> lo_charged l' = lo_charged l \<Longrightarrow> lo_paid l' = lo_paid l \<Longrightarrow>
    lo_balance l' = lo_balance l \<Longrightarrow> money_ok g db l' = money_ok g db l"
  by (simp add: money_ok_def sums_ok_def)

lemma money_ok_updates [simp]:
  "money_ok g db (lo_status_update h0 l) = money_ok g db l"
  "money_ok g db (lo_settled_at_update h1 l) = money_ok g db l"
  "money_ok g db (lo_installments_paid_update h2 l) = money_ok g db l"
  "money_ok g db (lo_next_installment_due_at_update h3 l) = money_ok g db l"
  "money_ok g db (lo_next_installment_amount_update h4 l) = money_ok g db l"
  "money_ok g db (lo_days_past_due_update h5 l) = money_ok g db l"
  "money_ok g db (lo_arrears_classification_update h6 l) = money_ok g db l"
  "money_ok g db (lo_last_repayment_at_update h7 l) = money_ok g db l"
  "money_ok g db (lo_closed_at_update h8 l) = money_ok g db l"
  "money_ok g db (lo_written_off_at_update h9 l) = money_ok g db l"
  "money_ok g db (lo_term_months_update h10 l) = money_ok g db l"
  "money_ok g db (lo_interest_rate_pct_update h11 l) = money_ok g db l"
  "money_ok g db (lo_installment_count_update h12 l) = money_ok g db l"
  "money_ok g db (lo_first_due_date_update h13 l) = money_ok g db l"
  "money_ok g db (lo_disbursement_channel_update h14 l) = money_ok g db l"
  "money_ok g db (lo_disbursement_target_account_id_update h15 l) = money_ok g db l"
  "money_ok g db (lo_disbursement_ref_update h16 l) = money_ok g db l"
  "money_ok g db (lo_net_disbursed_update h17 l) = money_ok g db l"
  "money_ok g db (lo_total_fees_deducted_update h18 l) = money_ok g db l"
  "money_ok g db (lo_disbursed_at_update h19 l) = money_ok g db l"
  "money_ok g db (lo_disbursed_by_update h20 l) = money_ok g db l"
  by (rule money_ok_status; simp)+

lemma settle_row_simps [simp]:
  "si_id (settle_row E s) = si_id s" "si_loan_id (settle_row E s) = si_loan_id s" "\<not> open_row (settle_row E s)"
  "row_ok (settle_row E s) = row_ok s"
  by (simp_all add: settle_row_def open_row_def row_ok_def)

lemma reopen_row_simps [simp]:
  "si_id (reopen_row s) = si_id s" "si_loan_id (reopen_row s) = si_loan_id s" "row_ok (reopen_row s) = row_ok s"
  by (simp_all add: reopen_row_def row_ok_def)

lemma stamp_next_books:
  assumes "books g X Y db" "\<And>l. l \<in> set (ld_loans db) \<Longrightarrow> lo_id l = lid \<Longrightarrow> lo_status l \<noteq> LoanSettled"
  shows "books g (X - {lid}) Y (stamp_next E lid db)"
  unfolding stamp_next_def Let_def
proof (rule books_loan [OF assms(1)])
  fix l assume l: "l \<in> set (ld_loans db)" "lo_id l = lid"
  let ?l = "l\<lparr>lo_next_installment_due_at := map_option si_due_date (find open_row (rows_of lid db)),
    lo_next_installment_amount := map_option (\<lambda>s. col E (remaining_due s)) (find open_row (rows_of lid db)),
    lo_installments_paid := length (filter (\<lambda>s. si_loan_id s = lid \<and> si_status s = RowPaid) (ld_schedule db))\<rparr>"
  have "money_ok g db ?l" using booksD(6) [OF assms(1) l(1)] by simp
  moreover have "settled_ok db ?l" using assms(2) [OF l] by (simp add: settled_ok_def)
  moreover have "lid \<in> Y \<or> pending_ok db ?l" using booksD(8) [OF assms(1) l(1)] l(2) by (auto simp: pending_ok_def)
  ultimately show "lo_id ?l = lid \<and> money_ok g db ?l \<and> (lid \<in> X - {lid} \<or> settled_ok db ?l) \<and> (lid \<in> Y \<or> pending_ok db ?l)"
    using l(2) by simp
qed auto

lemma recompute_books:
  assumes "books g X Y db" "recomputeNextDueTx E lid db = Inr db'"
  shows "books g (X - {lid}) Y db'"
proof -
  from assms(2) obtain l where l: "GetLoanTx db lid = Inr l" by (auto simp: recomputeNextDueTx_def)
  have lin: "l \<in> set (ld_loans db)" "lo_id l = lid" using GetLoanTx_Inr [OF l] by auto
  note the = the_loan [OF booksD(1) [OF assms(1)] l]
  have sums: "sums_ok (forgiven db lid) l" using booksD(6) [OF assms(1) lin(1)] lin(2) by (simp add: money_ok_def)
  have b: "books g (insert lid X) Y db" using assms(1) by (rule books_weaken) auto
  consider "fully_cleared l" | "\<not> fully_cleared l" "lo_status l = LoanSettled" | "\<not> fully_cleared l" "lo_status l \<noteq> LoanSettled"
    by blast
  then show ?thesis
  proof cases
    case 1
    let ?db1 = "set_rows (\<lambda>s. si_loan_id s = lid \<and> open_row s) (settle_row E) db"
    have b1: "books g (insert lid X) Y ?db1" by (rule books_rows [OF b]) (simp add: booksD(4) [OF assms(1)])
    have "books g (X - {lid}) Y (set_loan lid (settle_loan E n) ?db1)" for n
    proof (rule books_loan [OF b1])
      fix k assume k: "k \<in> set (ld_loans ?db1)" "lo_id k = lid"
      then have "k = l" using the by simp
      moreover have "money_ok g ?db1 (settle_loan E n l)"
        using booksD(6) [OF b1 k(1)] \<open>k = l\<close> by (simp add: settle_loan_def)
      moreover have "settled_ok ?db1 (settle_loan E n l)"
        using fully_cleared_zero [OF sums 1] lin(2) by (auto simp: settled_ok_def settle_loan_def)
      ultimately show "lo_id (settle_loan E n k) = lid \<and> money_ok g ?db1 (settle_loan E n k) \<and>
          (lid \<in> X - {lid} \<or> settled_ok ?db1 (settle_loan E n k)) \<and> (lid \<in> Y \<or> pending_ok ?db1 (settle_loan E n k))"
        using lin(2) by (simp add: settle_loan_def pending_ok_def)
    qed auto
    moreover have "\<exists>n. db' = set_loan lid (settle_loan E n) ?db1"
      using assms(2) unfolding recomputeNextDueTx_def l bind_res_simps Let_def if_P [OF 1] sum.inject
      by - (rule exI, erule sym)
    ultimately show ?thesis by blast
  next
    case 2
    let ?db1 = "set_loan lid (\<lambda>l. l\<lparr>lo_status := LoanActive, lo_settled_at := None\<rparr>) db"
    let ?db2 = "set_rows (\<lambda>s. si_loan_id s = lid \<and> si_status s \<noteq> RowCancelled) reopen_row ?db1"
    have b1: "books g (insert lid X) Y ?db1"
      using booksD(6) [OF assms(1)]
      by (intro books_loan [OF b]) (auto simp: pending_ok_def)
    have b2: "books g (insert lid X) Y ?db2" by (rule books_rows [OF b1]) (simp add: booksD(4) [OF assms(1)])
    have "db' = stamp_next E lid ?db2" using assms(2) 2 by (simp add: recomputeNextDueTx_def l)
    moreover have "books g (insert lid X - {lid}) Y (stamp_next E lid ?db2)"
    proof (rule stamp_next_books [OF b2])
      fix k assume k: "k \<in> set (ld_loans ?db2)" "lo_id k = lid"
      then obtain m where m: "k = (if lo_id m = lid then m\<lparr>lo_status := LoanActive, lo_settled_at := None\<rparr> else m)"
        unfolding set_rows_simps set_loan_simps list.set_map by blast
      from k(2) show "lo_status k \<noteq> LoanSettled" unfolding m by (cases "lo_id m = lid") simp_all
    qed
    moreover have "insert lid X - {lid} = X - {lid}" by blast
    ultimately show ?thesis by simp
  next
    case 3
    with assms(2) have "db' = stamp_next E lid db" by (simp add: recomputeNextDueTx_def l)
    with stamp_next_books [OF assms(1)] the 3(2) show ?thesis by blast
  qed
qed

lemma RecalcDPD_books:
  assumes "books g X Y db" "RecalcDPDTx E lid asOf db = Inr (db', r)"
  shows "books g X Y db' \<and> sv_supply db \<le> sv_supply db'"
proof -
  from assms(2) obtain t l where t: "ld_ops db = Some t" and l: "GetLoanTx db lid = Inr l"
    by (auto simp: RecalcDPDTx_def Let_def split: option.splits)
  obtain n cls where n: "n = days_past_due asOf (filter (overdue_row lid (gt_date asOf)) (ld_schedule db))"
    "cls = ClassifyDPD n (to_dpd_substandard_days t) (to_dpd_doubtful_days t) (to_dpd_loss_days t)" by blast
  let ?db1 = "set_loan lid (\<lambda>l'. l'\<lparr>lo_days_past_due := n, lo_arrears_classification := cls, lo_status := dpd_status n (lo_status l)\<rparr>) db"
  have b1: "books g X Y ?db1"
  proof (rule books_loan [OF assms(1)])
    fix k assume k: "k \<in> set (ld_loans db)" "lo_id k = lid"
    have kl: "k = l" using the_loan [OF booksD(1) [OF assms(1)] l k] .
    show "lo_id (k\<lparr>lo_days_past_due := n, lo_arrears_classification := cls, lo_status := dpd_status n (lo_status l)\<rparr>) = lid \<and>
        money_ok g db (k\<lparr>lo_days_past_due := n, lo_arrears_classification := cls, lo_status := dpd_status n (lo_status l)\<rparr>) \<and>
        (lid \<in> X \<or> settled_ok db (k\<lparr>lo_days_past_due := n, lo_arrears_classification := cls, lo_status := dpd_status n (lo_status l)\<rparr>)) \<and>
        (lid \<in> Y \<or> pending_ok db (k\<lparr>lo_days_past_due := n, lo_arrears_classification := cls, lo_status := dpd_status n (lo_status l)\<rparr>))"
      using booksD(6-8) [OF assms(1) k(1)] k(2) kl
      by (auto simp: settled_ok_def pending_ok_def dpd_status_def split: if_splits)
  qed auto
  have "\<exists>fresh. db' = ?db1 \<or> db' = fst (EnsureCaseForLoanTx fresh ?db1)"
    using assms(2) unfolding RecalcDPDTx_def t l option.case n(1) [symmetric] n(2) [symmetric]
    by (auto simp: l Let_def simp flip: n split: if_splits)
  then have "same_books ?db1 db'" by auto
  then show ?thesis using books_same_books [OF b1] by (auto elim!: same_booksE)
qed

section \<open>Accrual\<close>

lemma sums_charge:
  assumes "sums_ok b l" "ln_env_ok E" "\<forall>c. scaled 2 (f c) \<and> 0 \<le> f c"
  shows "sums_ok b (charge E f l)"
proof -
  have "col E (lo_charged l c + f c) = lo_charged l c + f c" "col E (lo_balance l c + f c) = lo_balance l c + f c"
    "scaled 2 (lo_charged l c + f c)" "scaled 2 (lo_balance l c + f c)" for c
    using assms by (auto intro!: col_exact scaled_add simp: sums_ok_def)
  then show ?thesis using assms(1,3) by (auto simp: sums_ok_def charge_def add_comp_def)
qed

lemma sums_repay:
  assumes "sums_ok b l" "ln_env_ok E" "share_of l f"
  shows "sums_ok b (repay_loan E f l)"
proof -
  have "col E (lo_paid l c + f c) = lo_paid l c + f c" "col E (lo_balance l c + - f c) = lo_balance l c - f c"
    "scaled 2 (lo_paid l c + f c)" "scaled 2 (lo_balance l c - f c)" for c
    using assms scaled_diff [of 2 "lo_balance l c" "f c"]
    by (auto intro!: col_exact scaled_add simp: sums_ok_def share_of_def col_exact)
  then show ?thesis using assms(1,3) by (auto simp: sums_ok_def repay_loan_def add_comp_def share_of_def)
qed

lemma sums_unrepay:
  assumes "sums_ok b l" "ln_env_ok E" "\<forall>c. scaled 2 (f c) \<and> 0 \<le> f c"
  shows "sums_ok b (unrepay_loan E f l)"
proof -
  have "col E (lo_paid l c + - f c) = lo_paid l c - f c" "col E (lo_balance l c + f c) = lo_balance l c + f c"
    "scaled 2 (lo_paid l c - f c)" "scaled 2 (lo_balance l c + f c)" for c
    using assms scaled_diff [of 2 "lo_paid l c" "f c"]
    by (auto intro!: col_exact scaled_add simp: sums_ok_def col_exact)
  then show ?thesis using assms(1,3) by (auto simp: sums_ok_def unrepay_loan_def add_comp_def)
qed

lemma accrue_posts:
  "\<exists>inp. li_loan inp = loan \<and> li_txn_type inp \<noteq> LoanTxnRepayment \<and>
     (fst (accrue_interest E loan user s db) = db \<or> fst (accrue_interest E loan user s db) = fst (PostLoanTxnTx E inp db))"
  "\<exists>inp. li_loan inp = loan \<and> li_txn_type inp \<noteq> LoanTxnRepayment \<and>
     (accrue_fee E loan user s db = db \<or> accrue_fee E loan user s db = fst (PostLoanTxnTx E inp db))"
proof -
  let ?inp = "(post_loan_input loan LoanTxnInterestAccrual (si_due s Interest) (only Interest (si_due s Interest)) ''internal''
              (''Interest accrued'' @ dot @ ''installment '' @ show_nat (si_installment_no s) @ dot @ lo_loan_no loan) user)
              \<lparr>li_installment_no := Some (si_installment_no s)\<rparr>"
  show "\<exists>inp. li_loan inp = loan \<and> li_txn_type inp \<noteq> LoanTxnRepayment \<and>
     (fst (accrue_interest E loan user s db) = db \<or> fst (accrue_interest E loan user s db) = fst (PostLoanTxnTx E inp db))"
    by (rule exI [of _ ?inp]) (simp add: accrue_interest_def post_loan_input_def split_def Let_def)
  let ?inp = "(post_loan_input loan LoanTxnFeeCharge (si_due s Fees) (only Fees (si_due s Fees)) ''internal''
              (''Fee accrued'' @ dot @ ''installment '' @ show_nat (si_installment_no s) @ dot @ lo_loan_no loan) user)
              \<lparr>li_installment_no := Some (si_installment_no s)\<rparr>"
  show "\<exists>inp. li_loan inp = loan \<and> li_txn_type inp \<noteq> LoanTxnRepayment \<and>
     (accrue_fee E loan user s db = db \<or> accrue_fee E loan user s db = fst (PostLoanTxnTx E inp db))"
    by (rule exI [of _ ?inp]) (simp add: accrue_fee_def post_loan_input_def)
qed

lemma GetLoanTx_set:
  assumes "GetLoanTx db lid = Inr k" "\<And>l. lo_id (f l) = lo_id l"
  shows "GetLoanTx (set_loan lid f db) lid = Inr (f k)"
proof -
  have "find (\<lambda>l. lo_id l = lid) ls = Some k \<Longrightarrow>
      find (\<lambda>l. lo_id l = lid) (map (\<lambda>l. if lo_id l = lid then f l else l) ls) = Some (f k)" for ls
    by (induction ls) (auto simp: assms(2) split: if_splits)
  then show ?thesis using assms(1) by (auto simp: GetLoanTx_def split: option.splits)
qed

lemma GetLoanTx_cong: "ld_loans db' = ld_loans db \<Longrightarrow> GetLoanTx db' lid = GetLoanTx db lid"
  by (simp add: GetLoanTx_def)

lemma accrue_row_books:
  assumes "books level X Y db" "ln_env_ok E" "GetLoanTx db (lo_id loan) = Inr k" "row_ok s"
    and "lo_id loan \<in> X \<or> lo_status k \<noteq> LoanSettled" "lo_id loan \<in> Y \<or> lo_status k \<noteq> LoanPendingDisbursement"
  shows "books level X Y (accrue_row E loan user s db) \<and>
    (\<exists>k'. GetLoanTx (accrue_row E loan user s db) (lo_id loan) = Inr k' \<and> lo_status k' = lo_status k)"
proof -
  note k = GetLoanTx_Inr [OF assms(3)]
  have lt: "lo_id loan < sv_supply db" using booksD(1) [OF assms(1)] k by (auto simp: ids_ok_def)
  have f: "scaled 2 (accrual s c)" "0 \<le> accrual s c" for c
    using assms(4) by (auto simp: accrual_def row_ok_def)
  define db1 where "db1 = fst (accrue_interest E loan user s db)"
  define txn where "txn = snd (accrue_interest E loan user s db)"
  define db2 where "db2 = accrue_fee E loan user s db1"
  have p1: "books level X Y db1 \<and> ld_loans db1 = ld_loans db \<and> sv_supply db \<le> sv_supply db1"
    using accrue_posts(1) [of loan E user s db] other_post_books [OF assms(1) _ assms(2)] assms(1) lt
    by (auto simp: db1_def)
  have p2: "books level X Y db2 \<and> ld_loans db2 = ld_loans db"
    using accrue_posts(2) [of loan E user s db1] other_post_books [OF conjunct1 [OF p1] _ assms(2)] p1 lt
    by (auto simp: db2_def)
  let ?db3 = "set_rows (\<lambda>r. si_id r = si_id s) (\<lambda>r. r\<lparr>si_accrued_at := Some (now_db E), si_accrued_interest_txn_id := txn\<rparr>) db2"
  have b3: "books level X Y ?db3"
    using p2 booksD(4) [OF conjunct1 [OF p2]] by (intro books_rows) (auto simp: row_ok_def open_row_def)
  have eq: "accrue_row E loan user s db = set_loan (lo_id loan) (charge E (accrual s)) ?db3"
    by (simp add: accrue_row_def db1_def [symmetric] txn_def [symmetric] db2_def split_def Let_def)
  have get3: "GetLoanTx ?db3 (lo_id loan) = Inr k"
    using assms(3) p2 by (simp add: GetLoanTx_def)
  have "books level X Y (set_loan (lo_id loan) (charge E (accrual s)) ?db3)"
  proof (rule books_loan [OF b3])
    fix l assume l: "l \<in> set (ld_loans ?db3)" "lo_id l = lo_id loan"
    have "l = k" using the_loan [OF booksD(1) [OF b3] get3 l] .
    moreover have "money_ok level ?db3 (charge E (accrual s) l)"
      using booksD(6) [OF b3 l(1)] sums_charge [OF _ assms(2), of _ l "accrual s"] f
      by (simp add: money_ok_def charge_def)
    ultimately show "lo_id (charge E (accrual s) l) = lo_id loan \<and> money_ok level ?db3 (charge E (accrual s) l) \<and>
        (lo_id loan \<in> X \<or> settled_ok ?db3 (charge E (accrual s) l)) \<and> (lo_id loan \<in> Y \<or> pending_ok ?db3 (charge E (accrual s) l))"
      using l(2) assms(5,6) by (auto simp: charge_def settled_ok_def pending_ok_def)
  qed auto
  then show ?thesis using GetLoanTx_set [OF get3, of "charge E (accrual s)"] by (simp add: eq charge_def)
qed

lemma AccrueDue_books:
  assumes "books level X Y db" "ln_env_ok E" "AccrueDueInterestTx E lid asOf user db = Inr (db', n)" "lid \<notin> X" "lid \<notin> Y"
  shows "books level X Y db'"
proof -
  define todo where "todo = sort_key si_installment_no (filter (due_for_accrual lid (gt_date asOf)) (ld_schedule db))"
  show ?thesis
  proof (cases "todo = []")
    case True
    with assms(1,3) show ?thesis by (simp add: AccrueDueInterestTx_def todo_def [symmetric])
  next
    case False
    with assms(3) obtain loan where loan: "GetLoanTx db lid = Inr loan" and db': "db' = fold (accrue_row E loan user) todo db"
      unfolding AccrueDueInterestTx_def todo_def [symmetric] Let_def by (auto elim!: bind_resE)
    have l: "loan \<in> set (ld_loans db)" "lo_id loan = lid" using GetLoanTx_Inr [OF loan] by auto
    from False obtain s where "s \<in> set todo" by (cases todo) auto
    then have s: "s \<in> set (ld_schedule db)" "si_loan_id s = lid" "open_row s" by (auto simp: todo_def due_for_accrual_def)
    have st: "lo_status loan \<noteq> LoanSettled" "lo_status loan \<noteq> LoanPendingDisbursement"
      using booksD(7,8) [OF assms(1) l(1)] s l(2) assms(4,5) by (auto simp: settled_ok_def pending_ok_def)
    have iter: "books level X Y (fold (accrue_row E loan user) ss d)"
      if "books level X Y d" "GetLoanTx d lid = Inr k" "lo_status k = lo_status loan" "\<forall>s\<in>set ss. row_ok s" for ss d k
      using that
    proof (induction ss arbitrary: d k)
      case (Cons s ss)
      with accrue_row_books [OF Cons.prems(1) assms(2), of loan k s user] l(2) st
      obtain k' where "books level X Y (accrue_row E loan user s d)" "GetLoanTx (accrue_row E loan user s d) lid = Inr k'"
        "lo_status k' = lo_status loan" by auto
      from Cons.IH [OF this] Cons.prems(4) show ?case by simp
    qed simp
    show ?thesis unfolding db'
      by (rule iter [OF assms(1) loan refl]) (use booksD(4) [OF assms(1)] in \<open>auto simp: todo_def\<close>)
  qed
qed

end
