(* ===== verification/LoanMoney.thy ===== *)
theory LoanMoney
  imports LoanMoves
begin

text \<open>
  The operations that move a loan's money on the invariant of the loan tables: repayment and its
  reversal, restructuring and write-off, disbursement and its reversal. The loan an operation acts on
  is the row its transaction read.
\<close>

section \<open>Repayment\<close>

lemma release_guarantees_same [simp]: "same_loans db (release_guarantees E lid tid db)"
  by (simp add: release_guarantees_def same_loans_def)

lemma release_guarantees_books: "books g X Y db \<Longrightarrow> books g X Y (release_guarantees E lid tid db)"
  by (erule books_same_sv [OF _ release_guarantees_same]) (simp_all add: release_guarantees_def)

lemma GetWaterfall_irrelevant: "repayable st \<Longrightarrow> st \<noteq> LoanSettled \<and> st \<noteq> LoanPendingDisbursement"
  by (auto simp: repayable_def)

lemma finish_repayment_books:
  assumes "finish_repayment E inp alloc db = Inr (db', t)" "ln_env_ok E"
    and "books (ahead_by (lo_id (rp_loan inp)) alloc level) X Y db" "lo_id (rp_loan inp) < sv_supply db"
    and "\<forall>c. scaled 2 (alloc c) \<and> 0 \<le> alloc c"
  shows "books level (X - {lo_id (rp_loan inp)}) Y db'"
proof -
  let ?lid = "lo_id (rp_loan inp)"
  from assms(1) obtain db1 db2 db3 r where
    p: "PostLoanTxnTx E ((post_loan_input (rp_loan inp) LoanTxnRepayment (- rp_amount inp) alloc (rp_channel inp)
            (if rp_narration inp = [] then ''Repayment'' @ dot @ rp_channel inp else rp_narration inp) (rp_initiated_by inp))
            \<lparr>li_channel_ref := Some (rp_channel_ref inp)\<rparr>) db = (db1, t)"
    and rc: "recomputeNextDueTx E ?lid db1 = Inr db2" and rd: "RecalcDPDTx E ?lid (rp_value_date inp) db2 = Inr (db3, r)"
    and db': "db' = (if le_collections E then AutoResolveOpenPTPOnRepaymentTx E ?lid (lx_id t) (rp_amount inp) (rp_value_date inp)
        (release_guarantees E ?lid (lx_id t) db3) else release_guarantees E ?lid (lx_id t) db3)"
    unfolding finish_repayment_def Let_def by (auto split: prod.splits elim!: bind_resE)
  have "(\<lambda>c. col E (alloc c)) = alloc" using assms(2,5) by (auto intro: col_exact)
  then have "books level X Y db1"
    by (intro post_loan_books [OF assms(3) _ p assms(2)]) (use assms(4,5) in \<open>simp_all add: post_loan_input_def\<close>)
  then have "books level (X - {?lid}) Y db2" using rc by (rule recompute_books)
  then have "books level (X - {?lid}) Y db3" using rd RecalcDPD_books by blast
  then have "books level (X - {?lid}) Y (release_guarantees E ?lid (lx_id t) db3)" by (rule release_guarantees_books)
  then show ?thesis unfolding db' by (auto intro: books_same_books)
qed

lemma PostRepayment_books:
  assumes "PostRepaymentTx E inp ws db = Inr (db', t, al)" "ln_env_ok E" "books level X Y db"
    and "GetLoanTx db (lo_id (rp_loan inp)) = Inr (rp_loan inp)" "scaled 2 (rp_amount inp)"
  shows "books level X Y db'"
proof -
  let ?l = "rp_loan inp" and ?lid = "lo_id (rp_loan inp)"
  from assms(1) obtain alloc rest db1 where st: "repayable (lo_status ?l)"
    and al: "allocate E ?l ws no_comp (rp_amount inp) db = (alloc, rest, db1)"
    and fin: "finish_repayment E inp alloc (set_loan ?lid (repay_loan E alloc) db1) = Inr (db', t)"
    unfolding PostRepaymentTx_def bind_ensure_Inr Let_def by (auto split: prod.splits elim!: bind_resE)
  have l: "?l \<in> set (ld_loans db)" using GetLoanTx_Inr [OF assms(4)] by simp
  have sums: "sums_ok (forgiven db ?lid) ?l" using booksD(6) [OF assms(3) l] by (simp add: money_ok_def)
  then have share: "share_of ?l alloc"
    using allocate_share [OF al _ assms(5)] by (auto simp: share_of_def sums_ok_def no_comp_def)
  have "books level (insert ?lid X) Y db" using assms(3) by (rule books_weaken) auto
  from allocate_books [OF al this assms(2)] have b1: "books level (insert ?lid X) Y db1"
    and same: "ld_loans db1 = ld_loans db" "sv_supply db1 = sv_supply db" by auto
  have get1: "GetLoanTx db1 ?lid = Inr ?l" using assms(4) same by (simp add: GetLoanTx_def)
  have "books (ahead_by ?lid alloc level) (insert ?lid X) Y (set_loan ?lid (repay_loan E alloc) db1)"
  proof (rule books_loan [OF b1])
    fix k assume k: "k \<in> set (ld_loans db1)" "lo_id k = ?lid"
    have "k = ?l" using the_loan [OF booksD(1) [OF b1] get1 k] .
    moreover have "money_ok (ahead_by ?lid alloc level) db1 (repay_loan E alloc ?l)"
    proof -
      have "sums_ok (forgiven db1 ?lid) ?l" "\<forall>c. lo_paid ?l c = repaid db1 ?lid c"
        using booksD(6) [OF b1 k(1)] \<open>k = ?l\<close> by (simp_all add: money_ok_def)
      moreover have "col E (lo_paid ?l c + alloc c) = lo_paid ?l c + alloc c" for c
        using sums share by (intro col_exact [OF assms(2)]) (auto simp: sums_ok_def share_of_def)
      ultimately show ?thesis
        using sums_repay [OF _ assms(2) share] by (simp add: money_ok_def) (simp add: repay_loan_def add_comp_def)
    qed
    ultimately show "lo_id (repay_loan E alloc k) = ?lid \<and> money_ok (ahead_by ?lid alloc level) db1 (repay_loan E alloc k) \<and>
        (?lid \<in> insert ?lid X \<or> settled_ok db1 (repay_loan E alloc k)) \<and> (?lid \<in> Y \<or> pending_ok db1 (repay_loan E alloc k))"
      using GetWaterfall_irrelevant [OF st] by (simp add: repay_loan_def pending_ok_def)
  qed auto
  from finish_repayment_books [OF fin assms(2) this] share l booksD(1) [OF assms(3)] same
  have "books level (insert ?lid X - {?lid}) Y db'" by (auto simp: share_of_def ids_ok_def)
  then show ?thesis by (rule books_weaken) auto
qed

section \<open>Reversal\<close>

definition mark_txn :: "uuid \<Rightarrow> uuid \<Rightarrow> loan_txn_row \<Rightarrow> loan_txn_row" where
  "mark_txn oid i t = (if lx_id t = oid then t\<lparr>lx_reversed_by_txn_id := Some i\<rparr> else t)"

lemma mark_txn_simps [simp]:
  "lx_id (mark_txn oid i t) = lx_id t" "lx_loan_id (mark_txn oid i t) = lx_loan_id t"
  "lx_comp (mark_txn oid i t) = lx_comp t" "repayment_ok (mark_txn oid i t) = repayment_ok t"
  "lx_id t \<noteq> oid \<Longrightarrow> mark_txn oid i t = t"
  by (simp_all add: mark_txn_def repayment_ok_def)

lemma mark_txn_standing: "standing j (mark_txn oid i t) \<longleftrightarrow> standing j t \<and> lx_id t \<noteq> oid"
  by (simp add: mark_txn_def standing_def)

definition repaid_in :: "loan_txn_row list \<Rightarrow> uuid \<Rightarrow> component \<Rightarrow> decimal" where
  "repaid_in ts lid c = sum_list (map (\<lambda>t. lx_comp t c) (filter (standing lid) ts))"

lemma repaid_eq: "repaid db = repaid_in (ld_txns db)"
  by (simp add: repaid_def repaid_in_def fun_eq_iff)

lemma repaid_in_simps [simp]:
  "repaid_in [] lid c = 0"
  "repaid_in (t # ts) lid c = (if standing lid t then lx_comp t c else 0) + repaid_in ts lid c"
  by (simp_all add: repaid_in_def)

lemma repaid_mark_other:
  "\<forall>t\<in>set ts. lx_id t = oid \<longrightarrow> lx_loan_id t \<noteq> j \<Longrightarrow> repaid_in (map (mark_txn oid i) ts) j c = repaid_in ts j c"
proof (induction ts)
  case (Cons t ts)
  then have "standing j t \<longrightarrow> lx_id t \<noteq> oid" by (auto simp: standing_def)
  with Cons show ?case by (auto simp: mark_txn_standing)
qed simp

lemma repaid_mark:
  "distinct (map lx_id ts) \<Longrightarrow> orig \<in> set ts \<Longrightarrow> standing lid orig \<Longrightarrow>
    repaid_in (map (mark_txn (lx_id orig) i) ts) lid c = repaid_in ts lid c - lx_comp orig c"
proof (induction ts)
  case (Cons t ts)
  show ?case
  proof (cases "t = orig")
    case True
    with Cons.prems have "map (mark_txn (lx_id orig) i) ts = ts"
      by (intro map_idI mark_txn_simps(5)) (auto simp: image_iff)
    with True Cons.prems(3) show ?thesis by (simp add: mark_txn_standing)
  next
    case False
    with Cons.prems have "lx_id t \<noteq> lx_id orig" by auto
    with False Cons show ?thesis by simp
  qed
qed simp

lemma mark_books:
  assumes "books (ahead_by lid (\<lambda>c. - lx_comp orig c) level) X Y db" "orig \<in> set (ld_txns db)" "standing lid orig"
  shows "books level X Y (db\<lparr>ld_txns := map (mark_txn (lx_id orig) i) (ld_txns db)\<rparr>)" (is "books _ _ _ ?db")
proof -
  note d = booksD [OF assms(1)]
  have ids: "map lx_id (ld_txns ?db) = map lx_id (ld_txns db)" by simp
  have dist: "distinct (map lx_id (ld_txns db))" using d(1) by (simp add: ids_ok_def)
  have at_lid: "repaid ?db lid c = repaid db lid c - lx_comp orig c" for c
    using repaid_mark [OF dist assms(2,3)] by (simp add: repaid_eq)
  have "\<forall>t\<in>set (ld_txns db). lx_id t = lx_id orig \<longrightarrow> lx_loan_id t = lid"
    using dist assms(2,3) by (auto simp: distinct_map inj_on_def standing_def)
  then have other: "repaid ?db j c = repaid db j c" if "j \<noteq> lid" for j c
    using that by (auto simp: repaid_eq intro: repaid_mark_other)
  have fg: "forgiven ?db j = forgiven db j" for j by (simp add: forgiven_def)
  have money: "money_ok level ?db l" if "money_ok (ahead_by lid (\<lambda>c. - lx_comp orig c) level) db l" for l
    using that at_lid other [of "lo_id l"] by (cases "lo_id l = lid") (simp_all add: money_ok_def fg)
  have sch: "settled_ok ?db l = settled_ok db l" "pending_ok ?db l = pending_ok db l" for l
    by (simp_all add: settled_ok_def pending_ok_def)
  show ?thesis
  proof (rule booksI)
    show "ids_ok ?db" using d(1) by (auto simp: ids_ok_def comp_def)
    show "ledger_ok True ?db" by (rule ledger_same_sv [OF d(3)]) simp_all
    show "repayment_ok t" if "t \<in> set (ld_txns ?db)" for t
      using that d(5) by auto
  qed (use d money sch in \<open>auto simp: terms_ok_def\<close>)
qed

lemma ReverseRepayment_books:
  assumes "ReverseRepaymentTx E tid why user db = Inr (db', rv)" "ln_env_ok E" "books level X Y db"
  shows "books level X Y db'"
proof -
  from assms(1) obtain orig where o: "GetLoanTxnTx db tid = Inr orig" "reverse_repayment E orig why user db = Inr (db', rv)"
    unfolding ReverseRepaymentTx_def by (auto elim: bind_resE)
  have mem: "orig \<in> set (ld_txns db)" using o(1) by (auto simp: GetLoanTxnTx_def find_Some_iff split: option.splits)
  define db1 where "db1 l = set_loan (lo_id l) (unrepay_loan E (lx_comp orig)) db" for l :: loan
  define db4 where "db4 l = reverseScheduleAllocation E (lo_id l) Fees (lx_comp orig Fees)
     (reverseScheduleAllocation E (lo_id l) Interest (lx_comp orig Interest)
     (reverseScheduleAllocation E (lo_id l) Principal (lx_comp orig Principal) (db1 l)))" for l :: loan
  define inp where "inp l = (post_loan_input l LoanTxnReversal (- lx_amount orig) (\<lambda>c. - lx_comp orig c)
     ''internal'' (''Reversal of '' @ lx_txn_no orig @ dot @ why) user)
     \<lparr>li_reverses_txn_id := Some (lx_id orig), li_authorized_by := Some user\<rparr>" for l :: loan
  from o(2) obtain l db7 r where ty: "lx_type orig = LoanTxnRepayment" "lx_reversed_by_txn_id orig = None"
    and l: "GetLoanTx db (lx_loan_id orig) = Inr l"
    and rc: "recomputeNextDueTx E (lo_id l) ((fst (PostLoanTxnTx E (inp l) (db4 l)))\<lparr>ld_txns :=
        map (mark_txn (lx_id orig) (lx_id rv)) (ld_txns (fst (PostLoanTxnTx E (inp l) (db4 l))))\<rparr>) = Inr db7"
    and rd: "RecalcDPDTx E (lo_id l) (clock E) db7 = Inr (db', r)"
    unfolding reverse_repayment_def bind_ensure_Inr Let_def db4_def db1_def inp_def mark_txn_def [abs_def]
    by (auto simp: split_def elim!: bind_resE)
  let ?lid = "lo_id l"
  have lm: "l \<in> set (ld_loans db)" "?lid = lx_loan_id orig" using GetLoanTx_Inr [OF l] by auto
  have lt: "?lid < sv_supply db" using booksD(1) [OF assms(3)] lm(1) by (auto simp: ids_ok_def)
  have inp: "li_loan (inp l) = l" "li_txn_type (inp l) \<noteq> LoanTxnRepayment" by (simp_all add: inp_def post_loan_input_def)
  have st: "standing ?lid orig" using ty lm by (simp add: standing_def)
  have nn: "\<forall>c. scaled 2 (lx_comp orig c) \<and> 0 \<le> lx_comp orig c"
    using booksD(5) [OF assms(3) mem] ty by (simp add: repayment_ok_def)
  have b0: "books level (insert ?lid X) (insert ?lid Y) db" using assms(3) by (rule books_weaken) auto
  let ?g = "ahead_by ?lid (\<lambda>c. - lx_comp orig c) level"
  have fin: "books level X Y db'" if "books ?g (insert ?lid X) Y (db1 l)"
  proof -
    have "books ?g (insert ?lid X) Y (db4 l) \<and> ld_txns (db4 l) = ld_txns db \<and> sv_supply (db4 l) = sv_supply db"
      using reverseSchedule_books [OF _ assms(2), of ?g "insert ?lid X" Y _ ?lid] that by (simp add: db4_def db1_def)
    then have b4: "books ?g (insert ?lid X) Y (db4 l)" "ld_txns (db4 l) = ld_txns db" "sv_supply (db4 l) = sv_supply db" by auto
    have "books ?g (insert ?lid X) Y (fst (PostLoanTxnTx E (inp l) (db4 l)))"
      using other_post_books [OF b4(1) _ assms(2), of "inp l"] lt b4(3) inp by simp
    moreover have "orig \<in> set (ld_txns (fst (PostLoanTxnTx E (inp l) (db4 l))))"
      using post_loan_eq [of E "inp l" "db4 l"] mem b4(2) by auto
    ultimately have "books level (insert ?lid X - {?lid}) Y db7"
      using st by (intro recompute_books [OF mark_books rc])
    then have "books level (insert ?lid X - {?lid}) Y db'" using RecalcDPD_books [OF _ rd] by blast
    then show ?thesis by (rule books_weaken) auto
  qed
  have "books ?g (insert ?lid X) Y (db1 l)"
    unfolding db1_def
  proof (rule books_loan [OF assms(3)])
    fix k assume k: "k \<in> set (ld_loans db)" "lo_id k = ?lid"
    have kl: "k = l" using the_loan [OF booksD(1) [OF assms(3)] l, of k] k lm by simp
    have m: "sums_ok (forgiven db ?lid) l" "\<forall>c. lo_paid l c = repaid db ?lid c"
      using booksD(6) [OF assms(3) k(1)] kl by (simp_all add: money_ok_def)
    have "col E (lo_paid l c + - lx_comp orig c) = lo_paid l c - lx_comp orig c" for c
      using m(1) nn scaled_diff [of 2 "lo_paid l c" "lx_comp orig c"] by (simp add: sums_ok_def col_exact [OF assms(2)])
    then have "money_ok ?g db (unrepay_loan E (lx_comp orig) l)"
      using sums_unrepay [OF m(1) assms(2) nn] m(2) by (simp add: money_ok_def) (simp add: unrepay_loan_def add_comp_def)
    then show "lo_id (unrepay_loan E (lx_comp orig) k) = ?lid \<and> money_ok ?g db (unrepay_loan E (lx_comp orig) k) \<and>
        (?lid \<in> insert ?lid X \<or> settled_ok db (unrepay_loan E (lx_comp orig) k)) \<and>
        (?lid \<in> Y \<or> pending_ok db (unrepay_loan E (lx_comp orig) k))"
      using booksD(8) [OF assms(3) k(1)] k(2) kl by (auto simp: unrepay_loan_def pending_ok_def)
  qed auto
  then show ?thesis by (rule fin)
qed

section \<open>Restructuring and write-off\<close>

lemma forgive_books:
  assumes "books g X Y db" "ld_loans db' = ld_loans db" "ld_schedule db' = ld_schedule db" "ld_txns db' = ld_txns db"
    "ld_products db' = ld_products db" "ld_apps db' = ld_apps db" "ld_requests db' = ld_requests db"
    "sv_supply db \<le> sv_supply db'" "sv_accounts db' = sv_accounts db" "sv_txns db' = sv_txns db"
    "\<And>i. forgiven db i \<Longrightarrow> forgiven db' i"
  shows "books g X Y db'"
proof -
  note d = booksD [OF assms(1)]
  have "money_ok g db' l" if "money_ok g db l" for l
    using that assms(11) [of "lo_id l"] unfolding money_ok_def repaid_eq assms(4) sums_ok_def by blast
  moreover have "ids_ok db'" using d(1) assms(8) unfolding ids_ok_def assms(2-4) by (auto intro: less_le_trans)
  moreover have "ledger_ok True db'" by (rule ledger_same_sv [OF d(3) assms(9,10,8)])
  moreover have "terms_ok db'" using d(2) by (simp add: terms_ok_def assms(5,6))
  moreover note schedule_cong [OF assms(3)]
  ultimately show ?thesis using d assms(2-7) by (intro booksI) auto
qed

lemma insertRestructuring_books: "books g X Y db \<Longrightarrow> books g X Y (insertRestructuringTx r db)"
  by (erule forgive_books) (auto simp: insertRestructuringTx_def forgiven_def)

lemma books_settle:
  "books g (insert lid X) Y db \<Longrightarrow> (\<And>l. l \<in> set (ld_loans db) \<Longrightarrow> lo_id l = lid \<Longrightarrow> settled_ok db l) \<Longrightarrow> books g X Y db"
  by (auto simp: books_def)

lemma row_ok_updates [simp]:
  "row_ok (si_status_update h0 s) = row_ok s" "row_ok (si_due_date_update h1 s) = row_ok s"
  "row_ok (si_accrued_at_update h2 s) = row_ok s"
  by (simp_all add: row_ok_def)

lemma cancel_rows_books:
  assumes "books g X Y db" shows "books g X Y (cancel_open_rows lid db)"
  unfolding cancel_open_rows_def
  by (rule books_rows [OF assms]) (simp add: open_row_def booksD(4) [OF assms])

lemma sums_clear:
  assumes "sums_ok b l" shows "sums_ok True (clear_loan E l)" "sums_ok True (write_off_loan E l)"
proof -
  have "0 \<le> lo_charged l c - lo_paid l c" for c
    using assms order_trans [of 0 "lo_balance l c" "lo_charged l c - lo_paid l c"] by (auto simp: sums_ok_def)
  then show "sums_ok True (clear_loan E l)" "sums_ok True (write_off_loan E l)"
    using assms by (auto simp: sums_ok_def clear_loan_def write_off_loan_def no_comp_def)
qed

lemma SettlementDiscount_books:
  assumes "SettlementDiscountTx E lid x why user db = Inr (db', rc, l')" "ln_env_ok E" "books level X Y db"
  shows "books level X Y db'"
proof -
  define inp where "inp l = (post_loan_input l LoanTxnSettlementDiscount (- x) (only Principal x) ''internal''
      (''Settlement discount'' @ dot @ why) user)\<lparr>li_authorized_by := Some user\<rparr>" for l :: loan
  from assms(1) obtain l where l: "GetLoanTx db lid = Inr l" and st: "repayable (lo_status l)"
    and rc: "rs_loan_id rc = lid" "rs_kind rc = RestructureSettlementDiscount"
    and db': "db' = insertRestructuringTx rc (set_rows (\<lambda>s. si_loan_id s = lid \<and> open_row s) (settle_row E)
        (set_loan lid (clear_loan E) (fst (PostLoanTxnTx E (inp l) db))))"
    unfolding SettlementDiscountTx_def bind_ensure_Inr Let_def inp_def
    by (auto simp: split_def bind_ensure_Inr restructuring_row_def elim!: bind_resE)
  have lm: "l \<in> set (ld_loans db)" "lo_id l = lid" using GetLoanTx_Inr [OF l] by auto
  let ?db1 = "insertRestructuringTx rc (fst (PostLoanTxnTx E (inp l) db))"
  have "lid < sv_supply db" using booksD(1) [OF assms(3)] lm by (auto simp: ids_ok_def)
  then have p: "books level X Y (fst (PostLoanTxnTx E (inp l) db))" "ld_loans (fst (PostLoanTxnTx E (inp l) db)) = ld_loans db"
    using other_post_books [OF assms(3) _ assms(2), of "inp l"] lm by (simp_all add: inp_def post_loan_input_def)
  have b1: "books level X Y ?db1" using p(1) by (rule insertRestructuring_books)
  have fg: "forgiven ?db1 lid" using rc by (auto simp: forgiven_def insertRestructuringTx_def)
  have same: "ld_loans ?db1 = ld_loans db" using p(2) by (simp add: insertRestructuringTx_def)
  let ?db2 = "set_loan lid (clear_loan E) ?db1"
  let ?db3 = "set_rows (\<lambda>s. si_loan_id s = lid \<and> open_row s) (settle_row E) ?db2"
  have b2: "books level (insert lid X) Y ?db2"
  proof (rule books_loan [OF b1])
    fix k assume k: "k \<in> set (ld_loans ?db1)" "lo_id k = lid"
    have "sums_ok True (clear_loan E k)" using booksD(6) [OF b1 k(1)] by (auto simp: money_ok_def intro: sums_clear)
    then have "money_ok level ?db1 (clear_loan E k)"
      using booksD(6) [OF b1 k(1)] fg k(2) by (simp add: money_ok_def) (simp add: clear_loan_def)
    then show "lo_id (clear_loan E k) = lid \<and> money_ok level ?db1 (clear_loan E k) \<and>
        (lid \<in> insert lid X \<or> settled_ok ?db1 (clear_loan E k)) \<and> (lid \<in> Y \<or> pending_ok ?db1 (clear_loan E k))"
      using k(2) by (simp add: clear_loan_def pending_ok_def)
  qed auto
  have b3: "books level (insert lid X) Y ?db3"
    by (rule books_rows [OF b2]) (auto simp del: set_loan_simps intro: booksD(4) [OF b2])
  have "books level X Y ?db3"
  proof (rule books_settle [OF b3])
    fix k assume k: "k \<in> set (ld_loans ?db3)" "lo_id k = lid"
    then obtain m where m: "k = (if lo_id m = lid then clear_loan E m else m)"
      unfolding set_rows_simps set_loan_simps list.set_map by blast
    with k(2) have "lo_balance k = no_comp" by (cases "lo_id m = lid") (simp_all add: clear_loan_def)
    with k(2) show "settled_ok ?db3 k" by (auto simp: settled_ok_def)
  qed
  moreover have "db' = ?db3"
    by (simp add: db' insertRestructuringTx_def set_rows_def set_loan_def)
  ultimately show ?thesis by simp
qed

lemma WriteOff_books:
  assumes "WriteOffLoanTx E lid why user db = Inr (db', w, l')" "ln_env_ok E" "books level X Y db"
  shows "books level X Y db'"
proof -
  define inp where "inp l = (post_loan_input l LoanTxnWriteOff (- comp_sum (lo_balance l)) (lo_balance l)
      ''internal'' (''Write-off'' @ dot @ why) user)\<lparr>li_authorized_by := Some user\<rparr>" for l :: loan
  from assms(1) obtain l where l: "GetLoanTx db lid = Inr l" and w: "wo_loan_id w = lid"
    and db': "db' = cancel_open_rows lid (set_loan lid (write_off_loan E) ((fst (PostLoanTxnTx E (inp l) db))\<lparr>ld_writeoffs :=
        ld_writeoffs (fst (PostLoanTxnTx E (inp l) db)) @ [w], sv_supply := sv_supply (fst (PostLoanTxnTx E (inp l) db)) + 1\<rparr>))"
    unfolding WriteOffLoanTx_def bind_ensure_Inr Let_def inp_def
    by (auto simp: split_def bind_ensure_Inr elim!: bind_resE)
  have lm: "l \<in> set (ld_loans db)" "lo_id l = lid" using GetLoanTx_Inr [OF l] by auto
  let ?p = "fst (PostLoanTxnTx E (inp l) db)"
  let ?db1 = "?p\<lparr>ld_writeoffs := ld_writeoffs ?p @ [w], sv_supply := sv_supply ?p + 1\<rparr>"
  have "lid < sv_supply db" using booksD(1) [OF assms(3)] lm by (auto simp: ids_ok_def)
  then have p: "books level X Y ?p"
    using other_post_books [OF assms(3) _ assms(2), of "inp l"] lm by (simp add: inp_def post_loan_input_def)
  then have b1: "books level X Y ?db1" by (rule forgive_books) (auto simp: forgiven_def)
  have fg: "forgiven ?db1 lid" using w by (auto simp: forgiven_def)
  have "books level X Y (set_loan lid (write_off_loan E) ?db1)"
  proof (rule books_loan [OF b1])
    fix k assume k: "k \<in> set (ld_loans ?db1)" "lo_id k = lid"
    have "sums_ok True (write_off_loan E k)" using booksD(6) [OF b1 k(1)] by (auto simp: money_ok_def intro: sums_clear)
    then have "money_ok level ?db1 (write_off_loan E k)"
      using booksD(6) [OF b1 k(1)] fg k(2) by (simp add: money_ok_def) (simp add: write_off_loan_def)
    then show "lo_id (write_off_loan E k) = lid \<and> money_ok level ?db1 (write_off_loan E k) \<and>
        (lid \<in> X \<or> settled_ok ?db1 (write_off_loan E k)) \<and> (lid \<in> Y \<or> pending_ok ?db1 (write_off_loan E k))"
      using k(2) by (simp add: write_off_loan_def pending_ok_def settled_ok_def)
  qed auto
  then show ?thesis unfolding db' by (rule cancel_rows_books)
qed

lemma Moratorium_books:
  assumes "MoratoriumTx E lid n suspend why user db = Inr (db', l')" "books level X Y db"
  shows "books level X Y db'"
proof -
  define mine where "mine s \<longleftrightarrow> si_loan_id s = lid \<and> open_row s" for s
  define db1 where "db1 = set_rows mine (\<lambda>s. s\<lparr>si_due_date := pg_add_months (si_due_date s) n\<rparr>) db"
  define db2 where "db2 = (if suspend then set_rows mine (\<lambda>s. s\<lparr>si_accrued_at :=
      (case si_accrued_at s of None \<Rightarrow> Some (now_db E) | Some t \<Rightarrow> Some t)\<rparr>) db1 else db1)"
  define f where "f = (\<lambda>l :: loan. l\<lparr>lo_status := LoanRestructured, lo_next_installment_due_at := map_option si_due_date (find open_row (rows_of lid db2)),
      lo_next_installment_amount := map_option (\<lambda>s. col E (remaining_due s)) (find open_row (rows_of lid db2)), lo_days_past_due := 0,
      lo_arrears_classification := ''performing''\<rparr>)"
  from assms(1) obtain rc where db': "db' = insertRestructuringTx rc (set_loan lid f db2)"
    unfolding MoratoriumTx_def bind_ensure_Inr Let_def mine_def [symmetric, abs_def] db1_def [symmetric] db2_def [symmetric] f_def [symmetric]
    by (auto simp: bind_ensure_Inr elim!: bind_resE)
  have b1: "books level X Y db1" unfolding db1_def
    by (rule books_rows [OF assms(2)]) (simp add: open_row_def booksD(4) [OF assms(2)])
  have b2: "books level X Y db2" unfolding db2_def
    by (cases suspend) (auto intro!: books_rows [OF b1] b1 simp: open_row_def booksD(4) [OF b1])
  have "books level X Y (set_loan lid f db2)"
    by (rule books_loan [OF b2]) (use booksD(6) [OF b2] in \<open>simp_all add: f_def settled_ok_def pending_ok_def\<close>)
  then show ?thesis unfolding db' by (rule insertRestructuring_books)
qed

text \<open>A plan without negative interest; its rows carry no fees.\<close>

definition fair_plan :: "schedule_row list \<Rightarrow> bool" where
  "fair_plan rs \<longleftrightarrow> (\<forall>r\<in>set rs. 0 \<le> sr_interest_due r \<and> 0 \<le> sr_fee_due r)"

lemma insert_numbered_books:
  assumes "insert_numbered E lid no rs db = Inr db'" "ln_env_ok E" "books g X Y db" "lid < sv_supply db" "fair_plan rs"
    and "\<And>l. l \<in> set (ld_loans db) \<Longrightarrow> lo_id l = lid \<Longrightarrow> (lid \<in> X \<or> lo_status l \<noteq> LoanSettled) \<and>
       (lid \<in> Y \<or> lo_status l \<noteq> LoanPendingDisbursement)"
  shows "books g X Y db' \<and> ld_loans db' = ld_loans db \<and> sv_supply db \<le> sv_supply db'"
  using assms
proof (induction rs arbitrary: no db)
  case (Cons r rs)
  from Cons.prems(1) obtain db1 where i: "insert_installment E lid no r db = Inr db1" "insert_numbered E lid (Suc no) rs db1 = Inr db'"
    by auto
  have b: "books g X Y db1 \<and> ld_loans db1 = ld_loans db \<and> sv_supply db < sv_supply db1"
    by (rule insert_installment_books [OF Cons.prems(3) i(1) assms(2) Cons.prems(4,6)]) (use Cons.prems(5) in \<open>auto simp: fair_plan_def\<close>)
  have "books g X Y db' \<and> ld_loans db' = ld_loans db1 \<and> sv_supply db1 \<le> sv_supply db'"
    by (rule Cons.IH [OF i(2) assms(2)]) (use b Cons.prems(4-6) in \<open>auto simp: fair_plan_def\<close>)
  with b show ?case by simp
qed simp

lemma SaveSchedule_books:
  assumes "SaveScheduleTx E lid rs db = Inr db'" "ln_env_ok E" "books g X Y db" "lid < sv_supply db" "fair_plan rs"
    and "\<And>l. l \<in> set (ld_loans db) \<Longrightarrow> lo_id l = lid \<Longrightarrow> (lid \<in> X \<or> lo_status l \<noteq> LoanSettled) \<and>
       (lid \<in> Y \<or> lo_status l \<noteq> LoanPendingDisbursement)"
  shows "books g X Y db' \<and> ld_loans db' = ld_loans db \<and> sv_supply db \<le> sv_supply db'"
  using assms
proof (induction rs arbitrary: db)
  case (Cons r rs)
  from Cons.prems(1) obtain db1 where i: "insert_installment E lid (sr_installment_no r) r db = Inr db1" "SaveScheduleTx E lid rs db1 = Inr db'"
    by auto
  have b: "books g X Y db1 \<and> ld_loans db1 = ld_loans db \<and> sv_supply db < sv_supply db1"
    by (rule insert_installment_books [OF Cons.prems(3) i(1) assms(2) Cons.prems(4,6)]) (use Cons.prems(5) in \<open>auto simp: fair_plan_def\<close>)
  have "books g X Y db' \<and> ld_loans db' = ld_loans db1 \<and> sv_supply db1 \<le> sv_supply db'"
    by (rule Cons.IH [OF i(2) assms(2)]) (use b Cons.prems(4-6) in \<open>auto simp: fair_plan_def\<close>)
  with b show ?case by simp
qed simp

text \<open>The plan a reschedule writes, from the loan it read.\<close>

definition reschedule_plan :: "ln_env \<Rightarrow> reschedule_input \<Rightarrow> loan \<Rightarrow> schedule_row list" where
  "reschedule_plan E inp l = reschedule_rows E l (the_default (lo_interest_rate_pct l) (ri_new_interest_rate_pct inp))
     (ri_new_term_months inp) (the_default (add_months_time (clock E) 1) (ri_new_first_due_date inp))"

lemma Reschedule_books:
  assumes "RescheduleTx E inp db = Inr (db', l')" "ln_env_ok E" "books level X Y db"
    and "\<And>l. GetLoanTx db (ri_loan inp) = Inr l \<Longrightarrow> fair_plan (reschedule_plan E inp l)"
  shows "books level X Y db'"
proof -
  let ?lid = "ri_loan inp"
  from assms(1) obtain l db2 rate fd amt rc where l: "GetLoanTx db ?lid = Inr l" and st: "repayable (lo_status l)"
    and ins: "insert_numbered E ?lid (max_installment_no ?lid (cancel_open_rows ?lid db) + 1) (reschedule_plan E inp l) (cancel_open_rows ?lid db) = Inr db2"
    and db': "db' = insertRestructuringTx rc (set_loan ?lid (reschedule_loan E (ri_new_term_months inp) rate fd amt) db2)"
    unfolding RescheduleTx_def bind_ensure_Inr Let_def reschedule_plan_def by (auto simp: bind_ensure_Inr elim!: bind_resE)
  have lm: "l \<in> set (ld_loans db)" "lo_id l = ?lid" using GetLoanTx_Inr [OF l] by auto
  have lt: "?lid < sv_supply db" using booksD(1) [OF assms(3)] lm by (auto simp: ids_ok_def)
  have same: "ld_loans (cancel_open_rows ?lid db) = ld_loans db" "sv_supply (cancel_open_rows ?lid db) = sv_supply db"
    by (simp_all add: cancel_open_rows_def)
  have b2: "books level X Y db2"
    using insert_numbered_books [OF ins assms(2) cancel_rows_books [OF assms(3)] _ assms(4) [OF l]] lt
      the_loan [OF booksD(1) [OF assms(3)] l] GetWaterfall_irrelevant [OF st] by (simp add: same) blast
  have "books level X Y (set_loan ?lid (reschedule_loan E (ri_new_term_months inp) rate fd amt) db2)"
    by (rule books_loan [OF b2]) (use booksD(6) [OF b2] in \<open>simp_all add: reschedule_loan_def settled_ok_def pending_ok_def\<close>)
  then show ?thesis unfolding db' by (rule insertRestructuring_books)
qed

lemma intents_books:
  assumes "books level X Y db"
  shows "RecordTopupIntentTx E lid x why user db = Inr db' \<Longrightarrow> books level X Y db'"
    and "RecordRefinanceIntentTx E lid new_id why user db = Inr db' \<Longrightarrow> books level X Y db'"
proof -
  show "RecordTopupIntentTx E lid x why user db = Inr db' \<Longrightarrow> books level X Y db'"
    unfolding RecordTopupIntentTx_def by (auto simp: bind_ensure_Inr elim!: bind_resE intro: insertRestructuring_books [OF assms])
  have "books level X Y (set_loan lid (\<lambda>l. l\<lparr>lo_status := LoanClosed, lo_closed_at := Some (now_db E)\<rparr>) db)"
    by (rule books_loan [OF assms]) (use booksD(6) [OF assms] in \<open>simp_all add: settled_ok_def pending_ok_def\<close>)
  then show "RecordRefinanceIntentTx E lid new_id why user db = Inr db' \<Longrightarrow> books level X Y db'"
    unfolding RecordRefinanceIntentTx_def by (auto elim!: bind_resE intro: insertRestructuring_books)
qed

end
