(* ===== verification/LoanSystem.thy ===== *)
theory LoanSystem
  imports LoanMoney
begin

text \<open>
  The loans under every sequence of requests: disbursement, the executors and handlers on the
  invariant, the step relation of the loan tables and the invariant of every reachable state. A
  request is one step; the loan it acts on is the row its transaction read. The deposit tables move
  between steps in any way that keeps their own ledger (proved of the deposit requests in
  \<open>DepositSystem\<close>).
\<close>

section \<open>Disbursement\<close>

lemma same_loans_apps:
  "map la_approved_amount (map (\<lambda>a. if P a then a\<lparr>la_status := st\<rparr> else a) as) = map la_approved_amount as"
  "map la_approved_amount (map (\<lambda>a. if P a then a\<lparr>la_status := st, la_offer_expires_at := e\<rparr> else a) as) = map la_approved_amount as"
  by simp_all

lemma set_app_status_books:
  assumes "books g X Y db" "set_app_status aid st db = Inr db'"
  shows "books g X Y db' \<and> same_loans db db'"
proof -
  have db': "db' = db\<lparr>ld_apps := map (\<lambda>a. if la_id a = aid then a\<lparr>la_status := st\<rparr> else a) (ld_apps db)\<rparr>"
    using assms(2) unfolding set_app_status_def bind_ensure_Inr by simp
  then have "same_loans db db'" unfolding same_loans_def by (simp add: same_loans_apps [unfolded map_map])
  then show ?thesis using books_same_sv [OF assms(1), of db'] by (simp add: db')
qed

lemma ApplyFee_ok:
  assumes "ln_env_ok E" "0 \<le> P" "0 \<le> pf_amount f"
  shows "0 \<le> ApplyFee (se_dec (le_sv E)) P f" "scaled 2 (ApplyFee (se_dec (le_sv E)) P f)"
proof -
  have da: "decimal_arith (se_dec (le_sv E))"
    using assms(1) decimal_text.axioms(1) by (auto simp: ln_env_ok_def sv_env_ok_def)
  note rd = decimal_arith.rounds [OF da]
  show "0 \<le> ApplyFee (se_dec (le_sv E)) P f"
    using assms(2,3) by (simp add: ApplyFee_def rounding.of_nonneg [OF rd] decimal_arith.div_nonneg [OF da])
  show "scaled 2 (ApplyFee (se_dec (le_sv E)) P f)" by (simp add: ApplyFee_def rounding.repr [OF rd])
qed

lemma charge_fees_books:
  assumes "charge_fees E loan maker fs tot codes db = (db', tot', codes')" "ln_env_ok E" "books g X Y db"
    and "lo_id loan < sv_supply db" "0 \<le> lo_principal loan" "\<forall>f\<in>set fs. 0 \<le> pf_amount f" "0 \<le> tot" "scaled 2 tot"
  shows "books g X Y db' \<and> ld_loans db' = ld_loans db \<and> sv_supply db \<le> sv_supply db' \<and> 0 \<le> tot' \<and> scaled 2 tot'"
  using assms
proof (induction fs arbitrary: tot codes db)
  case (Cons f fs)
  let ?x = "ApplyFee (se_dec (le_sv E)) (lo_principal loan) f"
  have x: "0 \<le> ?x" "scaled 2 ?x" using ApplyFee_ok [OF assms(2,5)] Cons.prems(6) by simp_all
  show ?case
  proof (cases "pf_timing f \<noteq> FeeUpfront \<or> ?x = 0")
    case True
    with Cons.prems have "charge_fees E loan maker fs tot codes db = (db', tot', codes')" by (simp add: Let_def)
    from Cons.IH [OF this] Cons.prems show ?thesis by simp
  next
    case False
    let ?inp = "post_loan_input loan LoanTxnFeeCharge ?x (only Fees ?x) ''internal'' (pf_name f @ dot @ lo_loan_no loan) maker"
    let ?db1 = "fst (PostLoanTxnTx E ?inp db)"
    have b: "books g X Y ?db1 \<and> ld_loans ?db1 = ld_loans db \<and> sv_supply db \<le> sv_supply ?db1"
      using other_post_books [OF Cons.prems(3) _ assms(2), of ?inp] Cons.prems(4) by (simp add: post_loan_input_def)
    from False Cons.prems(1) have rest: "\<exists>codes1. charge_fees E loan maker fs (tot + ?x) codes1 ?db1 = (db', tot', codes')"
      unfolding charge_fees.simps Let_def if_not_P [OF False] by blast
    then obtain codes1 where "charge_fees E loan maker fs (tot + ?x) codes1 ?db1 = (db', tot', codes')" ..
    then have "books g X Y db' \<and> ld_loans db' = ld_loans ?db1 \<and> sv_supply ?db1 \<le> sv_supply db' \<and> 0 \<le> tot' \<and> scaled 2 tot'"
      by (rule Cons.IH [OF _ assms(2)]) (use b x Cons.prems(4-8) in \<open>simp_all add: scaled_add\<close>)
    with b show ?thesis using order_trans [of "sv_supply db" "sv_supply ?db1" "sv_supply db'"] by simp
  qed
qed simp

lemma credit_target_books:
  assumes "credit_target E loan p net maker db = Inr (db', ref)" "ln_env_ok E" "books g X Y db" "scaled 2 net"
  shows "books g X Y db' \<and> same_loans db db'"
proof (cases "dsp_channel p = ''internal''")
  case False
  with assms show ?thesis by (simp add: credit_target_def Let_def)
next
  case True
  with assms(1) obtain inp t where "PostTxnTx (le_sv E) inp db = Inr (db', t)" "pt_amount inp = net"
    unfolding credit_target_def Let_def
    by (auto simp: post_dep_input_def bind_ensure_Inr split: option.splits elim!: bind_resE)
  with dep_post_books [OF assms(3,2)] assms(4) show ?thesis by simp
qed

lemma debit_savings_books:
  assumes "debit_savings E loan ch ref acct x narr maker db = Inr (db', ref')" "ln_env_ok E" "books g X Y db" "scaled 2 x"
  shows "books g X Y db' \<and> same_loans db db'"
proof (cases "ch = ''auto_savings''")
  case False
  with assms show ?thesis by (simp add: debit_savings_def)
next
  case True
  with assms(1) obtain inp t where "PostTxnTx (le_sv E) inp db = Inr (db', t)" "pt_amount inp = x"
    unfolding debit_savings_def
    by (auto simp: post_dep_input_def bind_ensure_Inr split: option.splits elim!: bind_resE)
  with dep_post_books [OF assms(3,2)] assms(4) show ?thesis by simp
qed

lemma repaid_nonneg:
  assumes "books g X Y db" shows "0 \<le> repaid db lid c"
proof -
  have "0 \<le> lx_comp t c" if "t \<in> set (ld_txns db)" "standing lid t" for t
    using booksD(5) [OF assms that(1)] that(2) by (simp add: repayment_ok_def standing_def)
  then show ?thesis unfolding repaid_def by (intro sum_list_nonneg) auto
qed

lemma pending_zero:
  assumes "books level X Y db" "l \<in> set (ld_loans db)" "lo_charged l = no_comp"
  shows "lo_paid l = no_comp" "lo_balance l = no_comp"
proof -
  have "lo_paid l c = 0 \<and> lo_balance l c = 0" for c
  proof -
    have "lo_paid l c = repaid db (lo_id l) c" "0 \<le> lo_balance l c" "lo_balance l c \<le> lo_charged l c - lo_paid l c"
      using booksD(6) [OF assms(1,2)] unfolding money_ok_def sums_ok_def by auto
    moreover have "0 \<le> repaid db (lo_id l) c" by (rule repaid_nonneg [OF assms(1)])
    moreover have "lo_charged l c = 0" by (simp add: assms(3) no_comp_def)
    ultimately show ?thesis by linarith
  qed
  then show "lo_paid l = no_comp" "lo_balance l = no_comp" by (simp_all add: no_comp_def fun_eq_iff)
qed

lemma MarkDisbursed_books:
  assumes "MarkDisbursedTx E lid net fees ch ref tgt due amt user db = Inr (db', l')" "ln_env_ok E"
    and "books level X (insert lid Y) db" "GetLoanTx db lid = Inr l" "lo_charged l = no_comp" "0 \<le> fees"
  shows "books level X Y db'"
proof -
  have lm: "l \<in> set (ld_loans db)" "lo_id l = lid" using GetLoanTx_Inr [OF assms(4)] by auto
  note z = pending_zero [OF assms(3) lm(1) assms(5)]
  have m: "sums_ok (forgiven db lid) l" "\<forall>c. lo_paid l c = repaid db lid c"
    using booksD(6) [OF assms(3) lm(1)] lm(2) by (simp_all add: money_ok_def)
  let ?f = "mark_disbursed E net fees ch ref tgt due amt user"
  have fees: "0 \<le> col E fees" "scaled 2 (col E fees)"
    using rounding.of_nonneg [OF col_rounding [OF assms(2)] assms(6)] col_scaled [OF assms(2)] by auto
  have "books level X Y (set_loan lid ?f db)"
  proof (rule books_loan [OF assms(3)])
    fix k assume k: "k \<in> set (ld_loans db)" "lo_id k = lid"
    have kl: "k = l" using the_loan [OF booksD(1) [OF assms(3)] assms(4) k] .
    have "sums_ok (forgiven db lid) (?f l)"
      using m(1) fees assms(5) z by (auto simp: sums_ok_def mark_disbursed_def no_comp_def)
    then have "money_ok level db (?f l)" using m(2) lm(2) by (simp add: money_ok_def) (simp add: mark_disbursed_def lm(2))
    then show "lo_id (?f k) = lid \<and> money_ok level db (?f k) \<and> (lid \<in> X \<or> settled_ok db (?f k)) \<and> (lid \<in> Y \<or> pending_ok db (?f k))"
      using kl lm(2) by (simp add: mark_disbursed_def settled_ok_def pending_ok_def)
  qed auto
  then show ?thesis using assms(1) by (auto simp: MarkDisbursedTx_def Let_def elim!: bind_resE)
qed

lemma settle_parents_books:
  assumes "settle_parents E loan kind ws maker ids db = Inr db'" "ln_env_ok E" "books level {} {} db"
  shows "books level {} {} db'"
  using assms
proof (induction ids arbitrary: db)
  case (Cons i ids)
  from Cons.prems(1) obtain par where par: "GetLoanTx db i = Inr par" by auto
  show ?case
  proof (cases "lo_status par = LoanSettled")
    case True
    with Cons.prems(1) par have "settle_parents E loan kind ws maker ids db = Inr db'" by simp
    then show ?thesis by (rule Cons.IH) (rule Cons.prems)+
  next
    case False
    with Cons.prems(1) par obtain db1 n fresh where a: "AccrueDueInterestTx E i (clock E) maker db = Inr (db1, n)"
      and fr: "GetLoanTx db1 i = Inr fresh"
      and rest: "(let payoff = comp_sum (lo_balance fresh) in
       if payoff \<le> 0 then settle_parents E loan kind ws maker ids db1
       else bind_res (PostRepaymentTx E \<lparr> rp_loan = fresh, rp_amount = payoff, rp_channel = ''internal'',
           rp_channel_ref = lo_loan_no loan, rp_narration = ''Settled by '' @ kind @ dot @ lo_loan_no loan,
           rp_value_date = clock E, rp_initiated_by = maker \<rparr> ws db1) (\<lambda>(db2, _).
         settle_parents E loan kind ws maker ids db2)) = Inr db'"
      by (auto simp del: bind_res_Inr_iff elim!: bind_resE)
    have b1: "books level {} {} db1" using AccrueDue_books [OF Cons.prems(3) assms(2) a] by simp
    have fm: "fresh \<in> set (ld_loans db1)" "lo_id fresh = i" using GetLoanTx_Inr [OF fr] by auto
    have "scaled 2 (comp_sum (lo_balance fresh))"
      using booksD(6) [OF b1 fm(1)] by (auto simp: money_ok_def sums_ok_def comp_sum_def)
    with rest show ?thesis
      using Cons.IH [OF _ assms(2)] b1 PostRepayment_books [OF _ assms(2) b1] fr fm(2)
      by (auto simp: Let_def simp del: bind_res_Inr_iff split: if_splits elim!: bind_resE)
  qed
qed simp

lemma GetLoanProductTx_Inr: "GetLoanProductTx db pid = Inr p \<Longrightarrow> p \<in> set (ld_products db)"
  by (auto simp: GetLoanProductTx_def find_Some_iff split: option.splits)

lemma bosa_books:
  assumes "books g X Y db"
  shows "books g X Y (placeBOSALienOnDisburseTx loan db)" "books g X Y (release_lien lid db)"
proof -
  have "placeBOSALienOnDisburseTx loan db = db \<or> (\<exists>ls. placeBOSALienOnDisburseTx loan db = db\<lparr>sv_bosa_liens := ls\<rparr>)"
    unfolding placeBOSALienOnDisburseTx_def by (auto split: sum.splits option.splits)
  moreover have "books g X Y (db\<lparr>sv_bosa_liens := ls\<rparr>)" for ls
    by (rule books_same_sv [OF assms]) (simp_all add: same_loans_def)
  ultimately show "books g X Y (placeBOSALienOnDisburseTx loan db)" using assms by auto
  show "books g X Y (release_lien lid db)"
    by (rule books_same_sv [OF assms]) (simp_all add: release_lien_def same_loans_def)
qed

definition disbursement_plan :: "ln_env \<Rightarrow> loan \<Rightarrow> go_time \<Rightarrow> schedule_row list" where
  "disbursement_plan E loan vd = GenerateSchedule (se_dec (le_sv E)) (le_pmt E) (lo_principal loan) (lo_interest_rate_pct loan)
     (lo_term_months loan) (lo_grace_period_months loan) vd (lo_interest_method loan) (lo_repayment_method loan)"

lemma GetLoanTx_set_loan:
  "GetLoanTx db lid = Inr l \<Longrightarrow> lo_id (f l) = lid \<Longrightarrow> GetLoanTx (set_loan lid f db) lid = Inr (f l)"
proof -
  have "find (\<lambda>l. lo_id l = lid) ls = Some l \<Longrightarrow> lo_id (f l) = lid \<Longrightarrow>
      find (\<lambda>l. lo_id l = lid) (map (\<lambda>l. if lo_id l = lid then f l else l) ls) = Some (f l)" for ls
    by (induction ls) (auto split: if_splits)
  then show "GetLoanTx db lid = Inr l \<Longrightarrow> lo_id (f l) = lid \<Longrightarrow> GetLoanTx (set_loan lid f db) lid = Inr (f l)"
    by (simp add: GetLoanTx_def set_loan_def split: option.splits)
qed

lemma mark_disbursed_id: "lo_id (mark_disbursed E net fees ch ref target due amt user l) = lo_id l"
  by (simp add: mark_disbursed_def)

lemma disburse_loan_result:
  assumes "disburse_loan E loan product p vd plan maker db = Inr (db', r)" "ln_env_ok E" "books level {} {} db"
    and "GetLoanTx db lid = Inr loan" "lo_status loan = LoanPendingDisbursement" "product \<in> set (ld_products db)" "fair_plan plan"
  shows "books level {} {} db' \<and> (\<exists>tot ch ref target due amt. 0 \<le> tot \<and> scaled 2 tot \<and>
    dd_net r = (if lo_principal loan - tot < 0 then 0 else lo_principal loan - tot) \<and>
    dd_loan r = mark_disbursed E (dd_net r) tot ch ref target due amt maker loan)"
proof -
  let ?lid = "lo_id loan"
  have lm: "loan \<in> set (ld_loans db)" "?lid = lid" using GetLoanTx_Inr [OF assms(4)] by auto
  have lt: "?lid < sv_supply db" using booksD(1) [OF assms(3)] lm(1) by (auto simp: ids_ok_def)
  have ch: "lo_charged loan = no_comp" using booksD(8) [OF assms(3) lm(1)] assms(5) by (simp add: pending_ok_def)
  have P: "0 \<le> lo_principal loan" "scaled 2 (lo_principal loan)"
    using booksD(6) [OF assms(3) lm(1)] by (simp_all add: money_ok_def sums_ok_def)
  have fees0: "\<forall>f\<in>set (lp_fees product). 0 \<le> pf_amount f" using booksD(2) [OF assms(3)] assms(6) by (simp add: terms_ok_def)
  from assms(1) obtain db1 where sv: "SaveScheduleTx E ?lid plan db = Inr db1"
    unfolding disburse_loan_def by (auto elim: bind_resE)
  obtain db2 tot codes where cf: "charge_fees E loan maker (lp_fees product) 0 [] db1 = (db2, tot, codes)"
    by (metis prod_cases3)
  define net where "net = (if lo_principal loan - tot < 0 then 0 else lo_principal loan - tot)"
  define inp where "inp ref = (post_loan_input loan LoanTxnDisbursement (lo_principal loan)
           (only Principal (lo_principal loan)) (dsp_channel p) (''Net disbursement'' @ dot @ lo_loan_no loan) maker)
           \<lparr>li_channel_ref := Some ref\<rparr>" for ref
  have inp: "li_loan (inp ref) = loan" "li_txn_type (inp ref) = LoanTxnDisbursement" for ref
    by (simp_all add: inp_def post_loan_input_def)
  define due where "due = (case plan of [] \<Rightarrow> add_months_time vd 1 | r # _ \<Rightarrow> sr_due_date r)"
  define amt where "amt = (case plan of [] \<Rightarrow> 0 | r # _ \<Rightarrow> sr_total_due r)"
  note rest = assms(1) [unfolded disburse_loan_def sv bind_res_simps cf Let_def prod.case, folded net_def, folded inp_def due_def amt_def]
  from rest obtain db3 ref where ct: "credit_target E loan p net maker db2 = Inr (db3, ref)"
    by (auto elim: bind_resE)
  obtain db4 t where pt: "PostLoanTxnTx E (inp ref) db3 = (db4, t)" by force
  from rest [unfolded ct bind_res_simps prod.case pt] obtain db5 upd db6 db7 where
    md: "MarkDisbursedTx E ?lid net tot (dsp_channel p) ref (dsp_target_account_id p) due amt maker db4 = Inr (db5, upd)"
    and sa: "set_app_status (lo_application_id loan) AppDisbursed db5 = Inr db6"
    and sp: "settleParentLoansIfTopupOrRefinance E loan maker db6 = Inr db7"
    and db': "db' = (if le_bosa_liens E then placeBOSALienOnDisburseTx upd db7 else db7)"
    and r: "dd_loan r = upd" "dd_net r = net"
    by (elim bind_resE) (clarsimp elim!: bind_resE simp del: bind_res_Inr_iff)
  have b0: "books level {} (insert ?lid {}) db" using assms(3) by (rule books_weaken) auto
  have "lo_status l = LoanPendingDisbursement" if "l \<in> set (ld_loans db)" "lo_id l = ?lid" for l
    using the_loan [OF booksD(1) [OF assms(3)] assms(4), of l] that lm(2) assms(5) by simp
  then have b1: "books level {} (insert ?lid {}) db1 \<and> ld_loans db1 = ld_loans db \<and> sv_supply db \<le> sv_supply db1"
    by (intro SaveSchedule_books [OF sv assms(2) b0 lt assms(7)]) simp
  then have b2: "books level {} (insert ?lid {}) db2 \<and> ld_loans db2 = ld_loans db1 \<and> sv_supply db1 \<le> sv_supply db2 \<and> 0 \<le> tot \<and> scaled 2 tot"
    using lt P fees0 by (intro charge_fees_books [OF cf assms(2)]) auto
  have "scaled 2 net" using P b2 by (simp add: net_def scaled_diff)
  then have b3: "books level {} (insert ?lid {}) db3 \<and> same_loans db2 db3"
    using b2 by (intro credit_target_books [OF ct assms(2)]) auto
  have same3: "ld_loans db3 = ld_loans db" "?lid < sv_supply db3" using b1 b2 b3 lt by (auto simp: same_loans_def)
  have b4: "books level {} (insert ?lid {}) db4 \<and> ld_loans db4 = ld_loans db"
    using other_post_books [OF conjunct1 [OF b3] _ assms(2), of "inp ref"] same3 by (simp add: inp pt)
  have "books level {} {} db5"
    by (rule MarkDisbursed_books [OF md assms(2) conjunct1 [OF b4] _ ch])
      (use b2 b4 assms(4) lm(2) in \<open>simp_all add: GetLoanTx_def\<close>)
  then have b6: "books level {} {} db6" using set_app_status_books [OF _ sa] by blast
  have b7: "books level {} {} db7"
    using sp settle_parents_books [OF _ assms(2) b6] b6
    by (auto simp: settleParentLoansIfTopupOrRefinance_def simp del: bind_res_Inr_iff split: if_splits elim!: bind_resE)
  then have "books level {} {} db'" unfolding db' by (auto intro: bosa_books)
  moreover have "GetLoanTx db4 ?lid = Inr loan" using b4 assms(4) lm(2) by (simp add: GetLoanTx_def)
  then have "upd = mark_disbursed E net tot (dsp_channel p) ref (dsp_target_account_id p) due amt maker loan"
    using md GetLoanTx_set_loan [of db4 ?lid loan "mark_disbursed E net tot (dsp_channel p) ref (dsp_target_account_id p) due amt maker"]
      mark_disbursed_id [of E net tot "dsp_channel p" ref "dsp_target_account_id p" due amt maker loan]
    by (auto simp: MarkDisbursedTx_def Let_def)
  moreover have "0 \<le> tot" "scaled 2 tot" using b2 by simp_all
  ultimately show ?thesis unfolding r using net_def by blast
qed

section \<open>The executors\<close>

lemma post_and_classify_books:
  assumes "post_and_classify E inp db = Inr (db', r)" "ln_env_ok E" "books level {} {} db"
    and "GetLoanTx db (lo_id (rp_loan inp)) = Inr (rp_loan inp)" "scaled 2 (rp_amount inp)"
  shows "books level {} {} db'"
  using assms(1) PostRepayment_books [OF _ assms(2-5)] RecalcDPD_books
  by (fastforce simp: post_and_classify_def simp del: bind_res_Inr_iff elim!: bind_resE)

lemma ExecuteRepayment_books:
  assumes "ExecuteRepaymentTx E p maker db = Inr (db', r)" "ln_env_ok E" "books level {} {} db" "scaled 2 (rpl_amount p)"
  shows "books level {} {} db'"
proof -
  from assms(1) obtain vd db1 n loan db2 ref where
    ac: "AccrueDueInterestTx E (rpl_loan_id p) vd maker db = Inr (db1, n)" and l: "GetLoanTx db1 (rpl_loan_id p) = Inr loan"
    and ds: "debit_savings E loan (rpl_channel p) (rpl_channel_ref p) (rpl_debit_savings_acct p) (rpl_amount p)
       ''Loan repayment'' maker db1 = Inr (db2, ref)"
    and pc: "post_and_classify E \<lparr> rp_loan = loan, rp_amount = rpl_amount p, rp_channel = rpl_channel p, rp_channel_ref = ref,
       rp_narration = rpl_narration p, rp_value_date = vd, rp_initiated_by = maker \<rparr> db2 = Inr (db', r)"
    unfolding ExecuteRepaymentTx_def by (elim bind_resE) (clarsimp elim!: bind_resE simp del: bind_res_Inr_iff)
  have b1: "books level {} {} db1" using AccrueDue_books [OF assms(3,2) ac] by simp
  have b2: "books level {} {} db2 \<and> same_loans db1 db2" by (rule debit_savings_books [OF ds assms(2) b1 assms(4)])
  show ?thesis
    by (rule post_and_classify_books [OF pc assms(2) conjunct1 [OF b2]])
      (use b2 l GetLoanTx_Inr [OF l] assms(4) in \<open>simp_all add: GetLoanTx_def same_loans_def\<close>)
qed

lemma ExecuteSettle_books:
  assumes "ExecuteSettleTx E p maker db = Inr (db', r)" "ln_env_ok E" "books level {} {} db"
  shows "books level {} {} db'"
proof -
  from assms(1) obtain db1 n loan where
    ac: "AccrueDueInterestTx E (spl_loan_id p) (clock E) maker db = Inr (db1, n)" and l: "GetLoanTx db1 (spl_loan_id p) = Inr loan"
    unfolding ExecuteSettleTx_def by (elim bind_resE) (clarsimp elim!: bind_resE simp del: bind_res_Inr_iff)
  from assms(1) [unfolded ExecuteSettleTx_def ac bind_res_simps prod.case l Let_def bind_ensure_Inr]
  obtain db2 ref db3 r' where
    ds: "debit_savings E loan (spl_channel p) (spl_channel_ref p) (spl_debit_savings_acct p) (comp_sum (lo_balance loan))
       ''Loan settlement'' maker db1 = Inr (db2, ref)"
    and pc: "post_and_classify E \<lparr> rp_loan = loan, rp_amount = comp_sum (lo_balance loan), rp_channel = spl_channel p, rp_channel_ref = ref,
       rp_narration = (if spl_narration p = [] then ''Settlement'' @ dot @ lo_loan_no loan else spl_narration p),
       rp_value_date = clock E, rp_initiated_by = maker \<rparr> db2 = Inr (db3, r')"
    and db': "db' = (if le_bosa_liens E \<and> lo_status (rr_loan r') = LoanSettled then release_lien (lo_id (rr_loan r')) db3 else db3)"
    by (elim conjE bind_resE) (clarsimp elim!: bind_resE simp del: bind_res_Inr_iff)
  have b1: "books level {} {} db1" using AccrueDue_books [OF assms(3,2) ac] by simp
  have sc: "scaled 2 (comp_sum (lo_balance loan))"
    using booksD(6) [OF b1, of loan] GetLoanTx_Inr [OF l] by (auto simp: money_ok_def sums_ok_def comp_sum_def)
  have b2: "books level {} {} db2 \<and> same_loans db1 db2" by (rule debit_savings_books [OF ds assms(2) b1 sc])
  have "books level {} {} db3"
    by (rule post_and_classify_books [OF pc assms(2) conjunct1 [OF b2]])
      (use b2 l GetLoanTx_Inr [OF l] sc in \<open>simp_all add: GetLoanTx_def same_loans_def\<close>)
  then show ?thesis unfolding db' by (auto intro: bosa_books)
qed

lemma ExecuteReverse_books:
  "ExecuteReverseTx E tid why maker db = Inr (db', rv, l) \<Longrightarrow> ln_env_ok E \<Longrightarrow> books level {} {} db \<Longrightarrow> books level {} {} db'"
  unfolding ExecuteReverseTx_def by (auto simp del: bind_res_Inr_iff elim!: bind_resE intro: ReverseRepayment_books)

text \<open>The plan of installments a payload will write, if it writes one, has no negative interest.\<close>

fun fair :: "ln_env \<Rightarrow> loan_payload \<Rightarrow> ln_db \<Rightarrow> bool" where
  "fair E (PayDisbursement p) db \<longleftrightarrow> (\<forall>l vd. GetLoanTx db (dsp_loan_id p) = Inr l \<longrightarrow>
     value_date_or_now E (the_default [] (dsp_value_date p)) = Inr vd \<longrightarrow> fair_plan (disbursement_plan E l vd))"
| "fair E (PayReschedule p) db \<longleftrightarrow> (\<forall>l inp. GetLoanTx db (rsp_loan_id p) = Inr l \<longrightarrow> ri_loan inp = rsp_loan_id p \<longrightarrow>
     ri_new_term_months inp = rsp_new_term_months p \<longrightarrow> ri_new_interest_rate_pct inp = rsp_new_interest_rate_pct p \<longrightarrow>
     fair_plan (reschedule_plan E inp l))"
| "fair E _ db \<longleftrightarrow> True"

lemma ExecuteDisbursement_result:
  assumes "ExecuteDisbursementTx E p maker db = Inr (db', r)" "ln_env_ok E" "books level {} {} db" "fair E (PayDisbursement p) db"
  shows "books level {} {} db' \<and> (\<exists>loan tot ch ref target due amt. GetLoanTx db (dsp_loan_id p) = Inr loan \<and>
    lo_status loan = LoanPendingDisbursement \<and> 0 \<le> tot \<and> scaled 2 tot \<and>
    dd_net r = (if lo_principal loan - tot < 0 then 0 else lo_principal loan - tot) \<and>
    dd_loan r = mark_disbursed E (dd_net r) tot ch ref target due amt maker loan)"
proof -
  from assms(1) obtain vd l product where vd: "value_date_or_now E (the_default [] (dsp_value_date p)) = Inr vd"
    and l: "GetLoanTx db (dsp_loan_id p) = Inr l" and st: "lo_status l = LoanPendingDisbursement"
    and pr: "GetLoanProductTx db (lo_product_id l) = Inr product"
    and db': "disburse_loan E l product p vd (disbursement_plan E l vd) maker db = Inr (db', r)"
    unfolding ExecuteDisbursementTx_def disbursement_plan_def bind_ensure_Inr
    by (elim bind_resE) (auto simp: bind_ensure_Inr simp del: bind_res_Inr_iff elim!: bind_resE)
  have "fair_plan (disbursement_plan E l vd)" using assms(4) l vd by simp
  from disburse_loan_result [OF db' assms(2,3) l st GetLoanProductTx_Inr [OF pr] this] l st show ?thesis by blast
qed

lemmas ExecuteDisbursement_books = conjunct1 [OF ExecuteDisbursement_result]

lemma ExecuteReschedule_books:
  assumes "ExecuteRescheduleTx E p maker db = Inr (db', l)" "ln_env_ok E" "books level {} {} db" "fair E (PayReschedule p) db"
  shows "books level {} {} db'"
proof -
  from assms(1) obtain fd where rs: "RescheduleTx E \<lparr> ri_loan = rsp_loan_id p, ri_new_term_months = rsp_new_term_months p,
       ri_new_interest_rate_pct = rsp_new_interest_rate_pct p, ri_new_first_due_date = fd,
       ri_reason = rsp_reason p, ri_by = maker \<rparr> db = Inr (db', l)"
    unfolding ExecuteRescheduleTx_def by (auto elim: bind_resE)
  show ?thesis by (rule Reschedule_books [OF rs assms(2,3)]) (use assms(4) in simp)
qed

lemma skip_books: "books g X Y db \<Longrightarrow> (if x = 0 then Inr db else sv_post S inp db) = Inr db' \<Longrightarrow> books g X Y db'"
  by (cases "x = 0") (auto intro: sv_post_books)

lemma entry_books:
  assumes "books level {} {} db"
  shows "PostLoanRepaymentTx E tid no x f ch db = Inr db' \<Longrightarrow> books level {} {} db'"
    and "PostLoanRepaymentReversalTx E tid no x f ch why db = Inr db' \<Longrightarrow> books level {} {} db'"
    and "PostLoanSettleTx E tid no x f ch db = Inr db' \<Longrightarrow> books level {} {} db'"
    and "PostLoanWriteoffTx E tid no x why thr db = Inr db' \<Longrightarrow> books level {} {} db'"
    and "PostLoanSettlementDiscountTx E tid no x wv why db = Inr db' \<Longrightarrow> books level {} {} db'"
    and "PostLoanDisbursementTx E tid l x ls ch db = Inr db' \<Longrightarrow> books level {} {} db'"
    and "postReverseDisbursementToGLTx E l tid receipt why db = Inr db' \<Longrightarrow> books level {} {} db'"
  unfolding PostLoanRepaymentTx_def PostLoanRepaymentReversalTx_def PostLoanSettleTx_def PostLoanWriteoffTx_def
    PostLoanSettlementDiscountTx_def PostLoanDisbursementTx_def postReverseDisbursementToGLTx_def Let_def
  by (erule sv_post_books [OF assms] skip_books [OF assms])+

lemma run_books:
  assumes "run_loan_payload E pl maker db = Inr (db', txn)" "ln_env_ok E" "books level {} {} db" "whole_cents pl" "fair E pl db"
  shows "books level {} {} db'"
proof (cases pl)
  case (PayDisbursement p)
  with assms show ?thesis using ExecuteDisbursement_books [OF _ assms(2,3), of p maker] entry_books(6)
    unfolding run_loan_payload_def by (auto simp del: bind_res_Inr_iff elim!: bind_resE)
next
  case (PayRepayment p)
  with assms show ?thesis using ExecuteRepayment_books [OF _ assms(2,3), of p maker] entry_books(1)
    unfolding run_loan_payload_def by (auto simp del: bind_res_Inr_iff elim!: bind_resE)
next
  case (PaySettle p)
  with assms show ?thesis using ExecuteSettle_books [OF _ assms(2,3), of p maker] entry_books(3)
    unfolding run_loan_payload_def by (auto simp del: bind_res_Inr_iff elim!: bind_resE)
next
  case (PayReverse tid why)
  with assms show ?thesis using ExecuteReverse_books [OF _ assms(2,3), of tid why maker] entry_books(2)
    unfolding run_loan_payload_def by (auto simp del: bind_res_Inr_iff elim!: bind_resE)
next
  case (PayReschedule p)
  with assms show ?thesis using ExecuteReschedule_books [OF _ assms(2,3), of p maker]
    unfolding run_loan_payload_def by (auto simp del: bind_res_Inr_iff fair.simps elim!: bind_resE)
next
  case (PayMoratorium lid n s why)
  with assms show ?thesis using Moratorium_books [OF _ assms(3)]
    unfolding run_loan_payload_def by (auto simp del: bind_res_Inr_iff elim!: bind_resE)
next
  case (PaySettlementDiscount lid x why)
  with assms show ?thesis using SettlementDiscount_books [OF _ assms(2,3)] entry_books(5)
    unfolding run_loan_payload_def
    by (auto simp del: bind_res_Inr_iff split: option.splits elim!: bind_resE) blast+
next
  case (PayWriteoff lid why)
  with assms(1) obtain db1 w l where wo: "WriteOffLoanTx E lid why maker db = Inr (db1, w, l)"
    and po: "PostLoanWriteoffTx E (wo_txn_id w) (lo_loan_no l) (wo_total w) why (readWriteoffThroughProvisionTx db1) db1 = Inr db'"
    unfolding run_loan_payload_def by (auto simp del: bind_res_Inr_iff elim!: bind_resE)
  show ?thesis by (rule entry_books(4) [OF WriteOff_books [OF wo assms(2,3)] po])
qed

section \<open>The handlers\<close>

lemma queue_books:
  assumes "queue_loan E pl user db = (db', i)" "books level {} {} db" "whole_cents pl"
  shows "books level {} {} db'"
proof -
  note d = booksD [OF assms(2)]
  obtain q where db': "db' = db\<lparr>ld_requests := ld_requests db @ [q], sv_supply := sv_supply db + 1\<rparr>" and q: "lq_payload q = pl"
    using assms(1) by (auto simp: queue_loan_def)
  have c: "money_ok level db' l = money_ok level db l" "settled_ok db' l = settled_ok db l" "pending_ok db' l = pending_ok db l" for l
    by (simp_all add: db' money_ok_def repaid_def forgiven_def settled_ok_def pending_ok_def)
  show ?thesis
  proof (rule booksI)
    show "ids_ok db'" using d(1) by (auto simp: db' ids_ok_def less_Suc_eq)
    show "ledger_ok True db'" by (rule ledger_same_sv [OF d(3)]) (simp_all add: db')
    show "terms_ok db'" using d(2) by (simp add: terms_ok_def db')
    show "whole_cents (lq_payload r)" if "r \<in> set (ld_requests db')" for r using that d(9) q assms(3) by (auto simp: db')
  qed (use d(4-8) c in \<open>simp_all add: db'\<close>)
qed

lemma queue_for_books:
  "queue_for E lid pl user db = Inr (db', r) \<Longrightarrow> books level {} {} db \<Longrightarrow> whole_cents pl \<Longrightarrow> books level {} {} db'"
  unfolding queue_for_def Let_def
  by (auto simp del: bind_res_Inr_iff split: prod.splits elim!: bind_resE intro: queue_books)

lemma SendOffer_books:
  assumes "SendOffer E aid till db = Inr db'" "books level {} {} db"
  shows "books level {} {} db'"
proof -
  from assms(1) obtain e where db': "db' = db\<lparr>ld_apps := map (\<lambda>a. if la_id a = aid
       then a\<lparr>la_status := AppOfferSent, la_offer_expires_at := Some e\<rparr> else a) (ld_apps db)\<rparr>"
    unfolding SendOffer_def by (auto simp: bind_ensure_Inr simp del: bind_res_Inr_iff elim!: bind_resE)
  have "same_loans db db'" unfolding same_loans_def db' by (simp add: same_loans_apps [unfolded map_map])
  then show ?thesis by (rule books_same_sv [OF assms(2)]) (simp_all add: db')
qed

lemma Create_books:
  assumes "CreateOnAcceptanceTx E inp db = Inr (db', l)" "ln_env_ok E" "books level X Y db" "0 \<le> cl_principal inp"
  shows "books level X Y db'"
proof -
  note d = booksD [OF assms(3)]
  from assms(1) obtain no sq where l: "l = new_loan E inp no (sv_supply db)"
    and db': "db' = db\<lparr>sv_seq := sq, ld_loans := ld_loans db @ [l], sv_supply := sv_supply db + 1\<rparr>"
    unfolding CreateOnAcceptanceTx_def nextSeq_def Let_def by (auto simp: bind_ensure_Inr)
  have id: "lo_id l = sv_supply db" by (simp add: l new_loan_def)
  have c: "money_ok level db' k = money_ok level db k" "settled_ok db' k = settled_ok db k" "pending_ok db' k = pending_ok db k" for k
    by (simp_all add: db' money_ok_def repaid_def forgiven_def settled_ok_def pending_ok_def)
  have "filter (standing (sv_supply db)) (ld_txns db) = []"
    using d(1) by (auto simp: ids_ok_def standing_def filter_empty_conv)
  then have "repaid db (lo_id l) c = 0" for c by (simp add: repaid_def id)
  moreover have "sums_ok b l" for b
    using rounding.of_nonneg [OF col_rounding [OF assms(2)] assms(4)] col_scaled [OF assms(2)]
    by (simp add: l sums_ok_def new_loan_def no_comp_def)
  ultimately have m: "money_ok level db l" by (simp add: money_ok_def) (simp add: l new_loan_def no_comp_def)
  have "settled_ok db l" "pending_ok db l"
    using d(1) id by (auto simp: settled_ok_def pending_ok_def ids_ok_def l new_loan_def)
  with m have new: "k = l \<Longrightarrow> money_ok level db k \<and> settled_ok db k \<and> pending_ok db k" for k by simp
  show ?thesis
  proof (rule booksI)
    show "ids_ok db'" using d(1) by (auto simp: db' ids_ok_def less_Suc_eq id)
    show "ledger_ok True db'" by (rule ledger_same_sv [OF d(3)]) (simp_all add: db')
    show "terms_ok db'" using d(2) by (simp add: terms_ok_def db')
  qed (use d(4-9) c new in \<open>auto simp: db'\<close>)
qed

lemma AcceptOffer_books:
  assumes "AcceptOffer E aid conf db = Inr (db', l)" "ln_env_ok E" "books level {} {} db"
  shows "books level {} {} db'"
proof -
  from assms(1) obtain app p inp db1 db2 where app: "GetAppTx db aid = Inr app" and inp: "accepted_terms app p = Some inp"
    and sa: "set_app_status aid AppOfferAccepted db = Inr db1" and cr: "CreateOnAcceptanceTx E inp db1 = Inr (db2, l)"
    and db': "db' = BackfillLoanIDTx aid (lo_id l) db2"
    unfolding AcceptOffer_def
    by (auto simp: bind_ensure_Inr simp del: bind_res_Inr_iff split: option.splits elim!: bind_resE)
  have "app \<in> set (ld_apps db)" using app by (auto simp: GetAppTx_def find_Some_iff split: option.splits)
  then have "0 \<le> cl_principal inp"
    using booksD(2) [OF assms(3)] inp by (auto simp: accepted_terms_def terms_ok_def split: option.splits)
  then have b2: "books level {} {} db2"
    using set_app_status_books [OF assms(3) sa] by (intro Create_books [OF cr assms(2)]) auto
  show ?thesis unfolding db'
    by (rule books_same_sv [OF b2]) (simp_all add: BackfillLoanIDTx_def same_loans_def)
qed

lemma Unwind_books:
  assumes "UnwindDisbursementTx lid db = Inr (db', l')" "ln_env_ok E" "books level {} {} db"
    and "GetLoanTx db lid = Inr l" "\<not> hasRepaymentActivity l"
  shows "books level {} {} db'"
proof -
  note d = booksD [OF assms(3)]
  have lm: "l \<in> set (ld_loans db)" "lo_id l = lid" using GetLoanTx_Inr [OF assms(4)] by auto
  let ?db1 = "db\<lparr>ld_schedule := filter (\<lambda>s. si_loan_id s \<noteq> lid) (ld_schedule db)\<rparr>"
  have b1: "books level {} {} ?db1"
  proof (rule booksI)
    show "ids_ok ?db1" using d(1) by (auto simp: ids_ok_def distinct_map_filter)
    show "ledger_ok True ?db1" by (rule ledger_same_sv [OF d(3)]) simp_all
    show "money_ok level ?db1 k" if "k \<in> set (ld_loans ?db1)" for k
      using d(6) [of k] that by (simp add: money_ok_def repaid_def forgiven_def)
  qed (use d in \<open>auto simp: terms_ok_def settled_ok_def pending_ok_def\<close>)
  have m: "sums_ok (forgiven ?db1 lid) l" "\<forall>c. lo_paid l c = repaid ?db1 lid c"
    using booksD(6) [OF b1, of l] lm by (simp_all add: money_ok_def)
  have paid: "lo_paid l c = 0" for c
    using m(2) repaid_nonneg [OF b1, of lid c] assms(5) by (cases c) (auto simp: hasRepaymentActivity_def not_less)
  have "0 \<le> lo_charged l c" for c
  proof -
    have "0 \<le> lo_balance l c" "lo_balance l c \<le> lo_charged l c - lo_paid l c" using m(1) unfolding sums_ok_def by auto
    then show ?thesis using paid [of c] by linarith
  qed
  then have "lo_charged l Interest = 0" "lo_charged l Penalty = 0"
    using assms(5) by (auto simp: hasRepaymentActivity_def not_less intro: antisym)
  then have ch: "lo_charged (unwind_loan l) = no_comp"
    by (rule_tac ext, rename_tac c, case_tac c) (auto simp: unwind_loan_def no_comp_def)
  have "sums_ok b (unwind_loan l)" for b
    using m(1) paid ch by (simp add: sums_ok_def) (simp add: unwind_loan_def no_comp_def)
  then have mm: "money_ok level ?db1 (unwind_loan l)"
    using m(2) lm(2) by (simp add: money_ok_def) (simp add: unwind_loan_def)
  have "books level {} {} (set_loan lid unwind_loan ?db1)"
  proof (rule books_loan [OF b1])
    fix k assume k: "k \<in> set (ld_loans ?db1)" "lo_id k = lid"
    have "k = l" using the_loan [OF d(1) assms(4)] k by simp
    with mm ch k(2) show "lo_id (unwind_loan k) = lid \<and> money_ok level ?db1 (unwind_loan k) \<and>
        (lid \<in> {} \<or> settled_ok ?db1 (unwind_loan k)) \<and> (lid \<in> {} \<or> pending_ok ?db1 (unwind_loan k))"
      by (simp add: settled_ok_def pending_ok_def) (simp add: unwind_loan_def)
  qed auto
  then show ?thesis using assms(1) by (auto simp: UnwindDisbursementTx_def Let_def simp del: bind_res_Inr_iff elim!: bind_resE)
qed

lemma ReverseDisbursement_books:
  assumes "ReverseDisbursement E tr lid receipt why db = Inr (db', r)" "ln_env_ok E" "books level {} {} db"
  shows "books level {} {} db'"
proof -
  from assms(1) obtain l where l: "GetLoanTx db lid = Inr l" and c: "db' = db \<or> reverse_active E l receipt why db = Inr (db', r)"
    unfolding ReverseDisbursement_def
    by (auto simp: bind_ensure_Inr simp del: bind_res_Inr_iff split: if_splits elim!: bind_resE)
  from c show ?thesis
  proof
    assume a: "reverse_active E l receipt why db = Inr (db', r)"
    show ?thesis
    proof (cases "db' = db")
      case False
      with a obtain db1 u t where na: "\<not> hasRepaymentActivity l" and un: "UnwindDisbursementTx (lo_id l) db = Inr (db1, u)"
        and po: "postReverseDisbursementToGLTx E l t receipt why (back_to_approved (lo_application_id l) db1) = Inr db'"
        unfolding reverse_active_def
        by (auto simp del: bind_res_Inr_iff split: if_splits option.splits elim!: bind_resE)
      have "books level {} {} db1"
        using Unwind_books [OF un assms(2,3) _ na] l GetLoanTx_Inr [OF l] by simp
      then have "books level {} {} (back_to_approved (lo_application_id l) db1)"
        using set_app_status_books by (auto simp: back_to_approved_def split: sum.splits)
      then show ?thesis by (rule entry_books(7) [OF _ po])
    qed (use assms(3) in simp)
  qed (use assms(3) in simp)
qed

lemma sweep_books:
  "sweep_loans E asOf user ids db = Inr db' \<Longrightarrow> ln_env_ok E \<Longrightarrow> books level {} {} db \<Longrightarrow> books level {} {} db'"
proof (induction ids arbitrary: db)
  case (Cons i ids)
  from Cons.prems(1) obtain db1 n db2 r db3 where a: "AccrueDueInterestTx E i asOf user db = Inr (db1, n)"
    and rd: "RecalcDPDTx E i asOf db1 = Inr (db2, r)"
    and af: "(if le_collections E then AfterDPDRecalcTx E i db2 else Inr db2) = Inr db3"
    and rest: "sweep_loans E asOf user ids db3 = Inr db'"
    by (auto simp del: bind_res_Inr_iff elim!: bind_resE)
  have "books level {} {} db1" using AccrueDue_books [OF Cons.prems(3,2) a] by simp
  then have b2: "books level {} {} db2" using RecalcDPD_books [OF _ rd] by blast
  have "same_books db2 db3"
    using af by (auto simp: AfterDPDRecalcTx_def split: if_splits elim!: bind_resE
      intro: same_books_trans [OF ensure_case_books auto_close_books] auto_close_books)
  with b2 have "books level {} {} db3" by (rule books_same_books)
  with rest Cons.IH Cons.prems(2) show ?case by blast
qed simp

lemma requests_books:
  assumes "ln_env_ok E" "books level {} {} db"
  shows "Disburse E u dp db = Inr (db', r) \<Longrightarrow> fair E (PayDisbursement dp) db \<Longrightarrow> books level {} {} db'"
    and "FinalizeDisbursement E tr lid receipt db = Inr (db', x) \<Longrightarrow> fair E (PayDisbursement (mpesa_payload lid receipt)) db \<Longrightarrow>
      books level {} {} db'"
    and "Repay E u rp db = Inr (db', r) \<Longrightarrow> scaled 2 (rpl_amount rp) \<Longrightarrow> books level {} {} db'"
    and "Payoff E u lid db = Inr (db', y) \<Longrightarrow> books level {} {} db'"
    and "Settle E u sp db = Inr (db', r) \<Longrightarrow> books level {} {} db'"
    and "ReverseRepayment E u tid why db = Inr (db', r) \<Longrightarrow> books level {} {} db'"
    and "RecalcDPD E u lid db = Inr (db', dr) \<Longrightarrow> books level {} {} db'"
    and "RunDPDForTenant E asOf u db = Inr (db', k) \<Longrightarrow> books level {} {} db'"
    and "RescheduleLoan E u qp db = Inr (db', r) \<Longrightarrow> fair E (PayReschedule qp) db \<Longrightarrow> books level {} {} db'"
    and "Moratorium E u lid n s why db = Inr (db', r) \<Longrightarrow> books level {} {} db'"
    and "SettlementDiscount E u lid z why db = Inr (db', r) \<Longrightarrow> books level {} {} db'"
    and "WriteOff E u lid why db = Inr (db', r) \<Longrightarrow> books level {} {} db'"
    and "TopupIntent E u lid z why db = Inr db' \<Longrightarrow> books level {} {} db'"
    and "RefinanceIntent E u lid new_id why db = Inr db' \<Longrightarrow> books level {} {} db'"
proof -
  note run = run_books [OF _ assms] and q = queue_for_books [OF _ assms(2)]
  have out: "books level {} {} (queue_outbound lid db)" for lid
    by (rule books_same_sv [OF assms(2)]) (simp_all add: queue_outbound_def same_loans_def)
  show "Disburse E u dp db = Inr (db', r) \<Longrightarrow> fair E (PayDisbursement dp) db \<Longrightarrow> books level {} {} db'"
    unfolding Disburse_def run_inline_def disburse_mpesa_def bind_ensure_Inr
    by (auto simp: bind_ensure_Inr simp del: bind_res_Inr_iff fair.simps split: if_splits elim!: bind_resE intro: q run out)
  show "FinalizeDisbursement E tr lid receipt db = Inr (db', x) \<Longrightarrow> fair E (PayDisbursement (mpesa_payload lid receipt)) db \<Longrightarrow>
      books level {} {} db'"
  proof -
    assume h: "FinalizeDisbursement E tr lid receipt db = Inr (db', x)" "fair E (PayDisbursement (mpesa_payload lid receipt)) db"
    from h(1) have "db' = db \<or> (\<exists>txn. run_loan_payload E (PayDisbursement (mpesa_payload lid receipt)) uuid_Nil db = Inr (db', txn))"
      unfolding FinalizeDisbursement_def bind_ensure_Inr
      by (auto simp del: bind_res_Inr_iff split: if_splits elim!: bind_resE)
    then show "books level {} {} db'" using run [OF _ _ h(2)] assms(2) by auto
  qed
  show "Repay E u rp db = Inr (db', r) \<Longrightarrow> scaled 2 (rpl_amount rp) \<Longrightarrow> books level {} {} db'"
    unfolding Repay_def run_inline_def bind_ensure_Inr
    by (auto simp del: bind_res_Inr_iff split: if_splits elim!: bind_resE intro: q run)
  show "Payoff E u lid db = Inr (db', y) \<Longrightarrow> books level {} {} db'"
    unfolding Payoff_def using AccrueDue_books [OF assms(2,1)] by (auto simp del: bind_res_Inr_iff elim!: bind_resE)
  show "Settle E u sp db = Inr (db', r) \<Longrightarrow> books level {} {} db'"
    unfolding Settle_def bind_ensure_Inr using ExecuteSettle_books [OF _ assms]
    by (auto simp del: bind_res_Inr_iff split: if_splits elim!: bind_resE intro: q)
  show "ReverseRepayment E u tid why db = Inr (db', r) \<Longrightarrow> books level {} {} db'"
    unfolding ReverseRepayment_def bind_ensure_Inr using ExecuteReverse_books [OF _ assms] queue_books [OF _ assms(2)]
    by (auto simp: split_def Let_def simp del: bind_res_Inr_iff split: if_splits elim!: bind_resE) (metis prod.collapse whole_cents.simps(4))
  show "RecalcDPD E u lid db = Inr (db', dr) \<Longrightarrow> books level {} {} db'"
    unfolding RecalcDPD_def using AccrueDue_books [OF assms(2,1)] RecalcDPD_books
    by (fastforce simp del: bind_res_Inr_iff elim!: bind_resE)
  show "RunDPDForTenant E asOf u db = Inr (db', k) \<Longrightarrow> books level {} {} db'"
  proof -
    assume h: "RunDPDForTenant E asOf u db = Inr (db', k)"
    from h obtain dbx where sw: "sweep_loans E asOf u (LoansForDPDRecalcTx db) db = Inr dbx"
      and res: "db' = (if le_collections E then EscalatePriorityOnBrokenPTPsTx E (MarkOverduePTPsBrokenTx E asOf dbx) else dbx)"
      unfolding RunDPDForTenant_def by (auto simp del: bind_res_Inr_iff elim!: bind_resE)
    have "same_books dbx (EscalatePriorityOnBrokenPTPsTx E (MarkOverduePTPsBrokenTx E asOf dbx))"
      unfolding EscalatePriorityOnBrokenPTPsTx_def MarkOverduePTPsBrokenTx_def
      by (rule same_books_trans [OF set_promise_books set_case_books])
    from books_same_books [OF sweep_books [OF sw assms] this] sweep_books [OF sw assms]
    show "books level {} {} db'" unfolding res by simp
  qed
  show "RescheduleLoan E u qp db = Inr (db', r) \<Longrightarrow> fair E (PayReschedule qp) db \<Longrightarrow> books level {} {} db'"
    unfolding RescheduleLoan_def bind_ensure_Inr using ExecuteReschedule_books [OF _ assms]
    by (auto simp del: bind_res_Inr_iff fair.simps split: if_splits elim!: bind_resE intro: q)
  show "Moratorium E u lid n s why db = Inr (db', r) \<Longrightarrow> books level {} {} db'"
    unfolding Moratorium_def bind_ensure_Inr using Moratorium_books [OF _ assms(2)]
    by (auto simp del: bind_res_Inr_iff split: if_splits elim!: bind_resE intro: q)
  show "SettlementDiscount E u lid z why db = Inr (db', r) \<Longrightarrow> books level {} {} db'"
    unfolding SettlementDiscount_def bind_ensure_Inr using SettlementDiscount_books [OF _ assms]
    by (auto simp del: bind_res_Inr_iff split: if_splits elim!: bind_resE intro: q)
  show "WriteOff E u lid why db = Inr (db', r) \<Longrightarrow> books level {} {} db'"
    unfolding WriteOff_def bind_ensure_Inr using WriteOff_books [OF _ assms]
    by (auto simp del: bind_res_Inr_iff split: if_splits elim!: bind_resE intro: q)
  show "TopupIntent E u lid z why db = Inr db' \<Longrightarrow> books level {} {} db'"
    unfolding TopupIntent_def bind_ensure_Inr using intents_books(1) [OF assms(2)] by blast
  show "RefinanceIntent E u lid new_id why db = Inr db' \<Longrightarrow> books level {} {} db'"
    unfolding RefinanceIntent_def bind_ensure_Inr using intents_books(2) [OF assms(2)] by blast
qed

lemma set_request_books:
  assumes "books level {} {} db" shows "books level {} {} (set_request i st db)"
proof -
  note d = booksD [OF assms]
  show ?thesis
  proof (rule booksI)
    show "ids_ok (set_request i st db)" using d(1) by (simp add: ids_ok_def set_request_def)
    show "ledger_ok True (set_request i st db)" by (rule ledger_same_sv [OF d(3)]) (simp_all add: set_request_def)
    show "terms_ok (set_request i st db)" using d(2) by (simp add: terms_ok_def set_request_def)
    show "whole_cents (lq_payload q)" if q: "q \<in> set (ld_requests (set_request i st db))" for q
    proof -
      from q obtain r where "r \<in> set (ld_requests db)" "lq_payload q = lq_payload r" by (auto simp: set_request_def)
      with d(9) show ?thesis by simp
    qed
  qed (use d(4-8) in \<open>simp_all add: set_request_def money_ok_def repaid_def forgiven_def settled_ok_def pending_ok_def\<close>)
qed

lemma decision_books:
  assumes "ln_env_ok E" "books level {} {} db" "q \<in> set (ld_requests db)" "fair E (lq_payload q) db"
  shows "approve_loan E q checker db = Inr (db', txn) \<Longrightarrow> books level {} {} db'"
    and "loan_callback E status mk (lq_payload q) db = Inr db' \<Longrightarrow> books level {} {} db'"
proof -
  note run = run_books [OF _ assms(1,2) booksD(9) [OF assms(2,3)] assms(4)]
  show "approve_loan E q checker db = Inr (db', txn) \<Longrightarrow> books level {} {} db'"
    unfolding approve_loan_def bind_ensure_Inr
    by (auto simp: bind_ensure_Inr simp del: bind_res_Inr_iff elim!: bind_resE intro: set_request_books run)
  show "loan_callback E status mk (lq_payload q) db = Inr db' \<Longrightarrow> books level {} {} db'"
  proof -
    assume "loan_callback E status mk (lq_payload q) db = Inr db'"
    then have "db' = db \<or> (\<exists>maker txn. run_loan_payload E (lq_payload q) maker db = Inr (db', txn))"
      unfolding loan_callback_def
      by (auto simp del: bind_res_Inr_iff split: if_splits option.splits elim!: bind_resE)
    then show "books level {} {} db'" using run assms(2) by auto
  qed
qed

section \<open>Every sequence of requests\<close>

text \<open>What the rest of the service may do: anything that leaves the loans and what they wait for alone.\<close>

definition elsewhere :: "ln_db \<Rightarrow> ln_db \<Rightarrow> bool" where
  "elsewhere db db' \<longleftrightarrow> ld_loans db' = ld_loans db \<and> ld_schedule db' = ld_schedule db \<and> ld_txns db' = ld_txns db \<and>
     ld_writeoffs db' = ld_writeoffs db \<and> ld_restructurings db' = ld_restructurings db \<and>
     ld_requests db' = ld_requests db \<and> sv_supply db \<le> sv_supply db' \<and> ledger_ok True db' \<and> terms_ok db'"

lemma elsewhere_books:
  assumes "books level {} {} db" "elsewhere db db'" shows "books level {} {} db'"
proof -
  have eq: "ld_loans db' = ld_loans db" "ld_schedule db' = ld_schedule db" "ld_txns db' = ld_txns db"
    "ld_writeoffs db' = ld_writeoffs db" "ld_restructurings db' = ld_restructurings db" "ld_requests db' = ld_requests db"
    and le: "sv_supply db \<le> sv_supply db'" "ledger_ok True db'" "terms_ok db'"
    using assms(2) by (simp_all add: elsewhere_def)
  note d = booksD [OF assms(1)]
  have c: "money_ok level db' l = money_ok level db l" "settled_ok db' l = settled_ok db l" "pending_ok db' l = pending_ok db l" for l
    by (simp_all add: eq money_ok_def repaid_def forgiven_def settled_ok_def pending_ok_def)
  show ?thesis
  proof (rule booksI)
    show "ids_ok db'" using d(1) le(1) unfolding ids_ok_def eq by (auto intro: less_le_trans)
    show "terms_ok db'" "ledger_ok True db'" by (rule le)+
  qed (use d(4-9) in \<open>simp_all only: eq c empty_iff not_False_eq_True\<close>)
qed

inductive ln_write :: "ln_env \<Rightarrow> ln_db \<Rightarrow> ln_db \<Rightarrow> bool" for E db where
  lw_send: "SendOffer E aid till db = Inr db' \<Longrightarrow> ln_write E db db'"
| lw_accept: "AcceptOffer E aid c db = Inr (db', l) \<Longrightarrow> ln_write E db db'"
| lw_disburse: "Disburse E u dp db = Inr (db', r) \<Longrightarrow> fair E (PayDisbursement dp) db \<Longrightarrow> ln_write E db db'"
| lw_finalize: "FinalizeDisbursement E tr lid receipt db = Inr (db', x) \<Longrightarrow>
    fair E (PayDisbursement (mpesa_payload lid receipt)) db \<Longrightarrow> ln_write E db db'"
| lw_undo: "ReverseDisbursement E tr lid receipt why db = Inr (db', o') \<Longrightarrow> ln_write E db db'"
| lw_repay: "Repay E u rp db = Inr (db', r) \<Longrightarrow> scaled 2 (rpl_amount rp) \<Longrightarrow> ln_write E db db'"
| lw_payoff: "Payoff E u lid db = Inr (db', y) \<Longrightarrow> ln_write E db db'"
| lw_settle: "Settle E u sp db = Inr (db', r) \<Longrightarrow> ln_write E db db'"
| lw_reverse: "ReverseRepayment E u tid why db = Inr (db', r) \<Longrightarrow> ln_write E db db'"
| lw_recalc: "RecalcDPD E u lid db = Inr (db', dr) \<Longrightarrow> ln_write E db db'"
| lw_sweep: "RunDPDForTenant E asOf u db = Inr (db', k) \<Longrightarrow> ln_write E db db'"
| lw_reschedule: "RescheduleLoan E u qp db = Inr (db', r) \<Longrightarrow> fair E (PayReschedule qp) db \<Longrightarrow> ln_write E db db'"
| lw_moratorium: "Moratorium E u lid n s why db = Inr (db', r) \<Longrightarrow> ln_write E db db'"
| lw_discount: "SettlementDiscount E u lid z why db = Inr (db', r) \<Longrightarrow> ln_write E db db'"
| lw_writeoff: "WriteOff E u lid why db = Inr (db', r) \<Longrightarrow> ln_write E db db'"
| lw_topup: "TopupIntent E u lid z why db = Inr db' \<Longrightarrow> ln_write E db db'"
| lw_refinance: "RefinanceIntent E u lid new_id why db = Inr db' \<Longrightarrow> ln_write E db db'"
| lw_approve: "q \<in> set (ld_requests db) \<Longrightarrow> fair E (lq_payload q) db \<Longrightarrow> approve_loan E q checker db = Inr (db', txn) \<Longrightarrow>
    ln_write E db db'"
| lw_callback: "q \<in> set (ld_requests db) \<Longrightarrow> fair E (lq_payload q) db \<Longrightarrow>
    loan_callback E status (Some (lq_maker q)) (lq_payload q) db = Inr db' \<Longrightarrow> ln_write E db db'"
| lw_collect: "same_books db db' \<Longrightarrow> ln_write E db db'"
| lw_elsewhere: "elsewhere db db' \<Longrightarrow> ln_write E db db'"

inductive_cases ln_writeE: "ln_write E db db'"

definition ln_start :: "ln_db \<Rightarrow> bool" where
  "ln_start db \<longleftrightarrow> ld_loans db = [] \<and> ld_schedule db = [] \<and> ld_txns db = [] \<and> ld_requests db = [] \<and>
     ledger_ok True db \<and> terms_ok db"

inductive ln_reach :: "ln_db \<Rightarrow> bool" where
  ln_reach_start: "ln_start db \<Longrightarrow> ln_reach db"
| ln_reach_step: "ln_reach db \<Longrightarrow> ln_env_ok E \<Longrightarrow> ln_write E db db' \<Longrightarrow> ln_reach db'"

lemma ln_write_books:
  assumes "ln_write E db db'" "ln_env_ok E" "books level {} {} db"
  shows "books level {} {} db'"
  using assms(1)
proof cases
  case lw_send
  then show ?thesis by (rule SendOffer_books [OF _ assms(3)])
next
  case lw_accept
  then show ?thesis by (rule AcceptOffer_books [OF _ assms(2,3)])
next
  case lw_undo
  then show ?thesis by (rule ReverseDisbursement_books [OF _ assms(2,3)])
next
  case lw_collect
  then show ?thesis by (rule books_same_books [OF assms(3)])
next
  case lw_elsewhere
  then show ?thesis by (rule elsewhere_books [OF assms(3)])
next
  case lw_approve
  then show ?thesis by (intro decision_books(1) [OF assms(2,3)])
next
  case lw_callback
  then show ?thesis by (intro decision_books(2) [OF assms(2,3)])
qed (erule (1) requests_books [OF assms(2,3)] | erule requests_books [OF assms(2,3)])+

theorem reach_books: "ln_reach db \<Longrightarrow> books level {} {} db"
proof (induction rule: ln_reach.induct)
  case (ln_reach_start db)
  then show ?case by (simp add: ln_start_def books_def ids_ok_def)
next
  case (ln_reach_step db E db')
  show ?case by (rule ln_write_books [OF ln_reach_step(3,2,4)])
qed

end
