(* ===== verification/PayoutSystem.thy ===== *)
theory PayoutSystem
  imports Payouts LoanSystem
begin

text \<open>
  What one operation on outgoing payments may do to the rows (\<open>py_moves\<close>), the step relation of
  requests, dispatchers, callbacks and hand-overs, and the invariant of its reachable states. Every
  step of the savings service that is not about M-PESA may change that service's tables in any way.
\<close>

section \<open>What an operation may do\<close>

text \<open>A row keeps what it asks for, and is never pending again.\<close>

definition row_moves :: "outbound \<Rightarrow> outbound \<Rightarrow> bool" where
  "row_moves r r' \<longleftrightarrow> or_id r' = or_id r \<and> or_source_module r' = or_source_module r \<and> or_source_ref r' = or_source_ref r \<and>
     or_amount r' = or_amount r \<and> or_msisdn r' = or_msisdn r \<and> (or_status r' = OutboundPending \<longrightarrow> or_status r = OutboundPending)"

definition row_key :: "outbound \<Rightarrow> string \<times> string" where
  "row_key r = (or_source_module r, or_source_ref r)"

definition fresh_row :: "py_db \<Rightarrow> py_db \<Rightarrow> outbound \<Rightarrow> bool" where
  "fresh_row db db' r \<longleftrightarrow> py_supply db \<le> or_id r \<and> or_id r < py_supply db' \<and> row_key r \<notin> row_key ` set (py_rows db)"

text \<open>At most one payment is accepted, of a row that was pending, which it no longer is if that was recorded.\<close>

definition pays :: "(outbound \<Rightarrow> outbound) \<Rightarrow> py_db \<Rightarrow> (uuid \<times> bool) list \<Rightarrow> bool" where
  "pays g db xs \<longleftrightarrow> xs = [] \<or> (\<exists>r\<in>set (py_rows db). \<exists>b. or_status r = OutboundPending \<and> xs = [(or_id r, b)] \<and>
     (b \<longrightarrow> (\<forall>r'\<in>set (py_rows db). or_id r' = or_id r \<longrightarrow> or_status (g r') \<noteq> OutboundPending)))"

definition py_moves :: "py_db \<Rightarrow> py_db \<Rightarrow> bool" where
  "py_moves db db' \<longleftrightarrow> (\<exists>g news xs. py_rows db' = map g (py_rows db) @ news \<and> (\<forall>r. row_moves r (g r)) \<and>
     length news \<le> 1 \<and> (\<forall>r\<in>set news. fresh_row db db' r) \<and> py_supply db \<le> py_supply db' \<and>
     py_accepted db' = py_accepted db @ xs \<and> pays g db xs)"

lemma row_moves_refl [simp]: "row_moves r r"
  by (simp add: row_moves_def)

lemma py_movesI:
  assumes "py_rows db' = map g (py_rows db)" "\<And>r. row_moves r (g r)" "py_supply db \<le> py_supply db'"
    and "py_accepted db' = py_accepted db @ xs" "pays g db xs"
  shows "py_moves db db'"
  using assms unfolding py_moves_def by (intro exI [of _ g] exI [of _ "[]"] exI [of _ xs]) simp

lemma pays_Nil [simp]: "pays g db []"
  by (simp add: pays_def)

lemma py_moves_same:
  assumes "py_rows db' = py_rows db" "py_accepted db' = py_accepted db" "py_supply db \<le> py_supply db'"
  shows "py_moves db db'"
  using assms by (intro py_movesI [where g = id and xs = "[]"]) simp_all

lemma py_moves_refl [simp]: "py_moves db db"
  by (rule py_moves_same) simp_all

lemma set_out_Inr:
  assumes "set_out i f db = Inr db'"
  shows "db' = db\<lparr>py_rows := map (\<lambda>r. if or_id r = i then f r else r) (py_rows db)\<rparr>"
  using assms by (auto simp: set_out_def split: if_splits)

lemma set_out_moves:
  assumes "set_out i f db = Inr db'" "\<And>r. row_moves r (f r)"
  shows "py_moves db db'"
  using set_out_Inr [OF assms(1)] assms(2)
  by (intro py_movesI [where g = "\<lambda>r. if or_id r = i then f r else r" and xs = "[]"]) simp_all

lemmas mark_defs = MarkSentTx_def MarkOutboundFailedTx_def MarkResultTx_def MarkReversedTx_def RecordFinalizationAttemptTx_def

lemma marks_move:
  "MarkOutboundFailedTx i why db = Inr db' \<Longrightarrow> py_moves db db'"
  "MarkResultTx i c d rc db = Inr db' \<Longrightarrow> py_moves db db'"
  "RecordFinalizationAttemptTx i ok why db = Inr db' \<Longrightarrow> py_moves db db'"
  by (auto simp: mark_defs row_moves_def elim!: set_out_moves)

lemma commit_or_not_moves: "(\<And>db'. r = Inr db' \<Longrightarrow> py_moves db db') \<Longrightarrow> py_moves db (commit_or_not r db)"
  by (cases r) (simp_all add: commit_or_not_def)

section \<open>Each operation\<close>

lemma row_with_key_None: "row_with_key db m ref = None \<Longrightarrow> (m, ref) \<notin> row_key ` set (py_rows db)"
  by (auto simp: row_with_key_def row_key_def find_None_iff)

lemma add_row_moves:
  assumes "row_with_key db (io_source_module inp) (io_source_ref inp) = None"
  shows "py_moves db (add_row E inp db)"
  using row_with_key_None [OF assms] unfolding py_moves_def add_row_def
  by (intro exI [of _ id] exI [of _ "[new_outbound E inp (py_supply db)]"] exI [of _ "[]"])
    (simp add: fresh_row_def new_outbound_def row_key_def)

lemma py_moves_loans [simp]:
  "py_moves (db\<lparr>py_loans := ld\<rparr>) db' = py_moves db db'" "py_moves db (db'\<lparr>py_loans := ld\<rparr>) = py_moves db db'"
  "py_moves db (db'\<lparr>py_todo := ws\<rparr>) = py_moves db db'"
  by (simp_all add: py_moves_def fresh_row_def pays_def)

lemma PayoutDisburse_moves:
  assumes "PayoutDisburse E user p db = Inr (db', r)"
  shows "py_moves db db'"
proof -
  from assms obtain ld where "db' = db\<lparr>py_loans := ld\<rparr> \<or> db' = queue_payment E (dsp_loan_id p) (db\<lparr>py_loans := ld\<rparr>)"
    by (auto simp: PayoutDisburse_def Let_def split: if_splits)
  moreover have "py_moves (db\<lparr>py_loans := ld\<rparr>) (queue_payment E (dsp_loan_id p) (db\<lparr>py_loans := ld\<rparr>))"
    by (auto simp: queue_payment_def loan_payment_def split: sum.splits intro: add_row_moves simp del: py_moves_loans)
  ultimately show ?thesis by auto
qed

lemma Enqueue_moves:
  assumes "Enqueue E tr req db = Inr (db', row, new)"
  shows "py_moves db db'"
  using assms unfolding Enqueue_def bind_ensure_Inr InsertTx_def
  by (auto split: option.splits if_splits intro!: add_row_moves)

lemma LeaseOutbound_Inr:
  assumes "LeaseOutboundTx held db = Inr r"
  shows "r \<in> set (py_rows db) \<and> or_status r = OutboundPending"
proof -
  let ?rs = "sort_key (\<lambda>r. time_instant (or_requested_at r)) (filter (\<lambda>r. or_status r = OutboundPending \<and> or_id r \<notin> held) (py_rows db))"
  obtain xs where "?rs = r # xs" using assms by (auto simp: LeaseOutboundTx_def split: list.splits)
  then have "set ?rs = insert r (set xs)" by (simp only: list.set)
  then show ?thesis by auto
qed

lemma dispatch_Inr:
  assumes "dispatch E h tok out db = (Inr db1, acc)"
  obtains c orig where "MarkSentTx (or_id out) c orig db = Inr db1"
  using assms by (auto simp: dispatch_def split: if_splits option.splits prod.splits)

lemma lease_and_dispatch_moves:
  assumes "lease_and_dispatch E h tok held commit db = (db', ps)"
  shows "py_moves db db'"
proof (cases "LeaseOutboundTx held db")
  case (Inl e)
  then show ?thesis using assms by (simp add: lease_and_dispatch_def)
next
  case (Inr out)
  note o = LeaseOutbound_Inr [OF Inr]
  obtain res acc where d: "dispatch E h tok out db = (res, acc)" by force
  have lost: "py_moves db (note_accepted (or_id out) False acc db)"
    using o by (intro py_movesI [where g = id and xs = "if acc then [(or_id out, False)] else []"]) (auto simp: note_accepted_def pays_def)
  show ?thesis
  proof (cases "\<exists>db1. res = Inr db1 \<and> commit")
    case True
    then obtain db1 c orig where "res = Inr db1" and m: "MarkSentTx (or_id out) c orig db = Inr db1"
      using d by (auto elim: dispatch_Inr)
    then have db': "db' = note_accepted (or_id out) True acc db1" using assms Inr d True by (simp add: lease_and_dispatch_def)
    note s = set_out_Inr [OF m [unfolded MarkSentTx_def]]
    show ?thesis unfolding db' s using o
      by (intro py_movesI [where xs = "if acc then [(or_id out, True)] else []"
          and g = "\<lambda>r. if or_id r = or_id out then r\<lparr>or_status := OutboundSent, or_daraja_conversation_id := Some c,
             or_daraja_originator_id := Some orig\<rparr> else r"])
        (auto simp: note_accepted_def row_moves_def pays_def)
  next
    case False
    then have "db' = note_accepted (or_id out) False acc db"
      using assms Inr d by (auto simp: lease_and_dispatch_def split: sum.splits if_splits)
    with lost show ?thesis by simp
  qed
qed

lemma result_persist_moves:
  assumes "result_persist E path tok body db = (db', reply, ws)"
  shows "py_moves db db'"
  using assms by (auto simp: result_persist_def Let_def split: option.splits sum.splits dest: marks_move(2))

lemma Timeout_moves:
  assumes "Timeout path tok body db = (db', reply)"
  shows "py_moves db db'"
  using assms by (auto simp: Timeout_def split: option.splits sum.splits dest: marks_move(1))

lemma raise_reversal_task_Inr:
  assumes "raise_reversal_task E task db = Inr db'"
  shows "py_rows db' = py_rows db \<and> py_accepted db' = py_accepted db \<and> py_supply db \<le> py_supply db' \<and> py_loans db' = py_loans db"
  using assms by (auto simp: raise_reversal_task_def split: sum.splits if_splits)

lemma reverse_persist_moves:
  assumes "reverse_persist E path tok body db = (db', reply, ws)"
  shows "py_moves db db'"
proof (cases "db' = db")
  case False
  with assms have "\<exists>out task db1. MarkReversedTx (or_id (out :: outbound)) db = Inr db1 \<and> raise_reversal_task E task db1 = Inr db'"
    unfolding reverse_persist_def by (fastforce split: option.splits sum.splits elim!: bind_resE)
  then obtain out :: outbound and task db1 where m: "MarkReversedTx (or_id out) db = Inr db1" and t: "raise_reversal_task E task db1 = Inr db'"
    by blast
  note s = set_out_Inr [OF m [unfolded MarkReversedTx_def]] and t = raise_reversal_task_Inr [OF t]
  from t show ?thesis unfolding s
    by (intro py_movesI [where xs = "[]" and g = "\<lambda>r. if or_id r = or_id out then r\<lparr>or_status := OutboundReversed\<rparr> else r"])
      (simp_all add: row_moves_def)
qed simp

lemma calls_keep_rows:
  "finalize_call E fate lid receipt db = (db', ok) \<Longrightarrow> \<exists>ld. db' = db\<lparr>py_loans := ld\<rparr>"
  "\<exists>ld. reverse_call E fate lid receipt why db = db\<lparr>py_loans := ld\<rparr>"
proof -
  have id: "\<exists>ld. db = db\<lparr>py_loans := ld\<rparr>" for db by (rule exI [of _ "py_loans db"]) simp
  show "finalize_call E fate lid receipt db = (db', ok) \<Longrightarrow> \<exists>ld. db' = db\<lparr>py_loans := ld\<rparr>"
    by (auto simp: finalize_call_def id split: if_splits sum.splits)
  show "\<exists>ld. reverse_call E fate lid receipt why db = db\<lparr>py_loans := ld\<rparr>"
    by (auto simp: reverse_call_def id split: sum.splits)
qed

lemma do_work_moves:
  assumes "do_work E fate w db = (db', ws)"
  shows "py_moves db db'"
proof (cases w)
  case (WorkFinalize i lid receipt)
  with assms have "fst (finalize_call E fate lid receipt db) = db'" by (auto simp: split_def Let_def)
  then obtain ld where "db' = db\<lparr>py_loans := ld\<rparr>" by (metis calls_keep_rows(1) prod.collapse)
  then show ?thesis by simp
next
  case (WorkReverse lid receipt why)
  then show ?thesis using assms calls_keep_rows(2) [of E fate lid receipt why db] by auto
next
  case (WorkMarkFailed i why)
  then show ?thesis using assms by (auto intro!: commit_or_not_moves dest: marks_move(1))
next
  case (WorkRecord i ok why)
  then show ?thesis using assms by (auto intro!: commit_or_not_moves dest: marks_move(3))
qed

section \<open>Steps\<close>

text \<open>
  A failed pass leaves the row to be marked in a later transaction; so do the callbacks with their
  calls. A process may die with work undone (\<open>ps_crash\<close>).
\<close>

inductive py_step :: "payout_env \<Rightarrow> py_db \<Rightarrow> py_db \<Rightarrow> bool" for E db where
  ps_disburse: "PayoutDisburse E user p db = Inr (db', r) \<Longrightarrow> py_step E db db'"
| ps_enqueue: "Enqueue E trusted req db = Inr (db', row, new) \<Longrightarrow> py_step E db db'"
| ps_dispatch: "lease_and_dispatch E h tok held commit db = (db', ps) \<Longrightarrow>
    py_step E db (db'\<lparr>py_todo := py_todo db' @ (case ps of PassFailed i \<Rightarrow> [WorkMarkFailed i why] | _ \<Rightarrow> [])\<rparr>)"
| ps_result: "result_persist E path tok body db = (db', reply, ws) \<Longrightarrow> py_step E db (db'\<lparr>py_todo := py_todo db' @ ws\<rparr>)"
| ps_timeout: "Timeout path tok body db = (db', reply) \<Longrightarrow> py_step E db db'"
| ps_reverse: "reverse_persist E path tok body db = (db', reply, ws) \<Longrightarrow> py_step E db (db'\<lparr>py_todo := py_todo db' @ ws\<rparr>)"
| ps_work: "w \<in> set (py_todo db) \<Longrightarrow> do_work E fate w db = (db', ws) \<Longrightarrow>
    py_step E db (db'\<lparr>py_todo := remove1 w (py_todo db') @ ws\<rparr>)"
| ps_crash: "w \<in> set (py_todo db) \<Longrightarrow> py_step E db (db\<lparr>py_todo := remove1 w (py_todo db)\<rparr>)"
| ps_savings: "py_step E db (db\<lparr>py_loans := ld\<rparr>)"

definition py_start :: "py_db \<Rightarrow> bool" where
  "py_start db \<longleftrightarrow> py_rows db = [] \<and> py_accepted db = []"

inductive py_reach :: "py_db \<Rightarrow> bool" where
  py_reach_start: "py_start db \<Longrightarrow> py_reach db"
| py_reach_step: "py_reach db \<Longrightarrow> py_step E db db' \<Longrightarrow> py_reach db'"

inductive py_later :: "py_db \<Rightarrow> py_db \<Rightarrow> bool" for db where
  py_later_refl: "py_later db db"
| py_later_step: "py_later db db' \<Longrightarrow> py_step E db' db'' \<Longrightarrow> py_later db db''"

inductive_cases py_stepE: "py_step E db db'"

lemma py_step_moves: "py_step E db db' \<Longrightarrow> py_moves db db'"
  by (erule py_stepE)
    (auto dest: PayoutDisburse_moves Enqueue_moves lease_and_dispatch_moves result_persist_moves Timeout_moves
      reverse_persist_moves do_work_moves)

lemma py_later_reach: "py_later db db' \<Longrightarrow> py_reach db \<Longrightarrow> py_reach db'"
  by (induction rule: py_later.induct) (auto intro: py_reach_step)

section \<open>The invariant\<close>

text \<open>Payments accepted for a row, and those of them whose acceptance was not recorded.\<close>

definition accepted_for :: "uuid \<Rightarrow> py_db \<Rightarrow> nat" where
  "accepted_for i db = length (filter (\<lambda>a. fst a = i) (py_accepted db))"

definition lost_for :: "uuid \<Rightarrow> py_db \<Rightarrow> nat" where
  "lost_for i db = length (filter (\<lambda>a. a = (i, False)) (py_accepted db))"

definition py_inv :: "py_db \<Rightarrow> bool" where
  "py_inv db \<longleftrightarrow> distinct (map or_id (py_rows db)) \<and> distinct (map row_key (py_rows db)) \<and>
     (\<forall>r\<in>set (py_rows db). or_id r < py_supply db) \<and> (\<forall>a\<in>set (py_accepted db). fst a \<in> or_id ` set (py_rows db)) \<and>
     (\<forall>r\<in>set (py_rows db). accepted_for (or_id r) db \<le>
        lost_for (or_id r) db + (if or_status r = OutboundPending then 0 else 1))"

lemma row_moves_map:
  assumes "\<forall>r. row_moves r (g r)"
  shows "map or_id (map g rs) = map or_id rs" "map row_key (map g rs) = map row_key rs" "or_id (g r) = or_id r"
  using assms by (simp_all add: row_moves_def row_key_def)

lemma py_moves_inv:
  assumes "py_moves db db'" "py_inv db"
  shows "py_inv db'"
proof -
  from assms(1) obtain g news xs where rows: "py_rows db' = map g (py_rows db) @ news" and g: "\<forall>r. row_moves r (g r)"
    and one: "length news \<le> 1" and fresh: "\<forall>r\<in>set news. fresh_row db db' r" and sup: "py_supply db \<le> py_supply db'"
    and acc: "py_accepted db' = py_accepted db @ xs" and pays: "pays g db xs"
    unfolding py_moves_def by blast
  note i = assms(2) [unfolded py_inv_def]
  note gm = row_moves_map [OF g]
  have news: "news = [] \<or> (\<exists>r. news = [r])" using one by (cases news) auto
  have ids: "or_id ` set (map g (py_rows db)) = or_id ` set (py_rows db)" "row_key ` set (map g (py_rows db)) = row_key ` set (py_rows db)"
    unfolding set_map [symmetric] gm by simp_all
  have old: "or_id r \<notin> or_id ` set (py_rows db)" if "r \<in> set news" for r
    using fresh that i by (force simp: fresh_row_def)
  have known: "fst a \<in> or_id ` set (py_rows db)" if "a \<in> set (py_accepted db')" for a
    using that i pays by (auto simp: acc pays_def)
  have "distinct (map or_id (py_rows db'))" "distinct (map row_key (py_rows db'))"
    using news i old fresh ids unfolding rows map_append gm by (auto simp: fresh_row_def)
  moreover have "\<forall>r\<in>set (py_rows db'). or_id r < py_supply db'"
    using i sup fresh gm(3) by (auto simp: rows fresh_row_def intro: less_le_trans)
  moreover have "\<forall>a\<in>set (py_accepted db'). fst a \<in> or_id ` set (py_rows db')"
    using known unfolding rows set_append image_Un ids by blast
  moreover have "accepted_for (or_id r) db' \<le> lost_for (or_id r) db' + (if or_status r = OutboundPending then 0 else 1)"
    if "r \<in> set (py_rows db')" for r
  proof (cases "r \<in> set news")
    case True
    then have "fst a \<noteq> or_id r" if "a \<in> set (py_accepted db')" for a using old [of r] known [OF that] by metis
    then have "accepted_for (or_id r) db' = 0" by (simp add: accepted_for_def filter_empty_conv)
    then show ?thesis by simp
  next
    case False
    with that obtain r0 where r0: "r0 \<in> set (py_rows db)" "r = g r0" by (auto simp: rows)
    have le: "accepted_for (or_id r0) db \<le> lost_for (or_id r0) db + (if or_status r0 = OutboundPending then 0 else 1)" using i r0 by blast
    have st: "or_status r = OutboundPending \<Longrightarrow> or_status r0 = OutboundPending" using g r0 by (auto simp: row_moves_def)
    show ?thesis
    proof (cases "\<exists>b. xs = [(or_id r0, b)]")
      case True
      then obtain b where b: "xs = [(or_id r0, b)]" by blast
      with pays obtain r1 where r1: "r1 \<in> set (py_rows db)" "or_id r1 = or_id r0" "or_status r1 = OutboundPending"
        "b \<Longrightarrow> or_status (g r0) \<noteq> OutboundPending" using r0 by (auto simp: pays_def)
      have "r1 = r0" using i r1 r0 by (auto simp: distinct_map inj_on_def)
      with le r1 have "accepted_for (or_id r0) db \<le> lost_for (or_id r0) db" by simp
      then show ?thesis using r1(4) r0(2) by (cases b) (simp_all add: accepted_for_def lost_for_def acc b gm(3))
    next
      case False
      then have "filter (\<lambda>a. fst a = or_id r0) xs = []" using pays by (auto simp: pays_def)
      moreover from this have "filter (\<lambda>a. a = (or_id r0, False)) xs = []" by (auto simp: filter_empty_conv)
      ultimately show ?thesis using le st by (auto simp: accepted_for_def lost_for_def acc r0(2) gm(3) split: if_splits)
    qed
  qed
  ultimately show ?thesis unfolding py_inv_def by blast
qed

lemma py_reach_inv: "py_reach db \<Longrightarrow> py_inv db"
proof (induction rule: py_reach.induct)
  case (py_reach_start db)
  then show ?case by (simp add: py_start_def py_inv_def)
next
  case (py_reach_step db E db')
  then show ?case using py_moves_inv [OF py_step_moves] by blast
qed

section \<open>A row that left the queue\<close>

definition left_queue :: "outbound \<Rightarrow> py_db \<Rightarrow> bool" where
  "left_queue r db \<longleftrightarrow> (\<exists>r'\<in>set (py_rows db). or_id r' = or_id r \<and> row_key r' = row_key r \<and> or_amount r' = or_amount r \<and>
     or_status r' \<noteq> OutboundPending)"

lemma left_queue_moves:
  assumes "py_moves db db'" "py_inv db" "left_queue r db"
  shows "left_queue r db' \<and> accepted_for (or_id r) db' = accepted_for (or_id r) db"
proof -
  from assms(1) obtain g news xs where rows: "py_rows db' = map g (py_rows db) @ news" and g: "\<forall>r. row_moves r (g r)"
    and acc: "py_accepted db' = py_accepted db @ xs" and pays: "pays g db xs"
    unfolding py_moves_def by blast
  from assms(3) obtain r1 where r1: "r1 \<in> set (py_rows db)" "or_id r1 = or_id r" "row_key r1 = row_key r" "or_amount r1 = or_amount r"
    "or_status r1 \<noteq> OutboundPending" unfolding left_queue_def by blast
  have "row_moves r1 (g r1)" using g by blast
  then have "left_queue r db'" unfolding left_queue_def rows
    using r1 by (intro bexI [of _ "g r1"]) (auto simp: row_moves_def row_key_def)
  moreover have "filter (\<lambda>a. fst a = or_id r) xs = []"
  proof -
    have same: "r2 = r1" if "r2 \<in> set (py_rows db)" "or_id r2 = or_id r" for r2
      using assms(2) r1 that by (auto simp: py_inv_def distinct_map inj_on_def)
    from pays consider "xs = []" | r2 b where "r2 \<in> set (py_rows db)" "or_status r2 = OutboundPending" "xs = [(or_id r2, b)]"
      unfolding pays_def by blast
    then show ?thesis
    proof cases
      case 2
      then have "or_id r2 \<noteq> or_id r" using same [of r2] r1(5) by metis
      with 2 show ?thesis by simp
    qed simp
  qed
  ultimately show ?thesis by (simp add: accepted_for_def acc)
qed

lemma left_queue_later:
  assumes "py_later db db'" "py_reach db" "left_queue r db"
  shows "left_queue r db' \<and> accepted_for (or_id r) db' = accepted_for (or_id r) db"
  using assms
proof (induction rule: py_later.induct)
  case (py_later_step db' E db'')
  then have "py_inv db'" by (auto intro: py_reach_inv py_later_reach)
  with py_later_step left_queue_moves [OF py_step_moves] show ?case by metis
qed simp

lemma left_queue_key:
  "left_queue r db \<Longrightarrow> row_with_key db (or_source_module r) (or_source_ref r) \<noteq> None"
  by (auto simp: left_queue_def row_with_key_def row_key_def find_None_iff)

lemma requested_already:
  assumes "PayoutDisburse E user p db = Inr (db', out)" "row_with_key db disbursements (uuid_text E (dsp_loan_id p)) \<noteq> None"
  shows "py_rows db' = py_rows db"
proof -
  have "queue_payment E (dsp_loan_id p) (db\<lparr>py_loans := ld\<rparr>) = db\<lparr>py_loans := ld\<rparr>" for ld
    using assms(2) by (auto simp: queue_payment_def row_with_key_def split: sum.splits dest!: GetLoanTx_Inr)
  then show ?thesis using assms(1) by (auto simp: PayoutDisburse_def Let_def split: if_splits)
qed

end
