(* ===== verification/LoanExamples.thy ===== *)
theory LoanExamples
  imports LoanSystem DepositExamples
begin

text \<open>
  Example data for the properties of loans: one member's application for 1000 over two months at a
  flat 12 percent with an upfront fee of 20, the offer accepted, the loan disbursed to a bank account
  and a first repayment made five weeks later.
\<close>

definition ex_ln_env :: "date \<Rightarrow> ln_env" where
  "ex_ln_env d = \<lparr> le_sv = ex_sv_env\<lparr>se_posting := Some True, se_now := GoTime d 7, se_clock := GoTime d 7\<rparr>,
     le_pmt = (\<lambda>_ _ _. 0), le_rate_col = round_half_up 3, le_collections = False, le_bosa_liens = False,
     le_collaterals = False, le_phone = (\<lambda>_. None), le_b2c_paybill = None \<rparr>"

definition ex_fee :: product_fee where
  "ex_fee = \<lparr> pf_name = ''processing'', pf_amount = 20, pf_is_pct = False, pf_timing = FeeUpfront, pf_gl_credit_code = [] \<rparr>"

definition ex_loan_product :: loan_product where
  "ex_loan_product = \<lparr> lp_id = 41, lp_grace_period_months = 0, lp_interest_method = InterestFlat,
     lp_repayment_method = RepayFlatRate, lp_fees = [ex_fee], lp_security_model = ''none'',
     lp_min_guarantor_cover_pct = 0, lp_min_collateral_cover_pct = 0 \<rparr>"

definition ex_app :: "app_status \<Rightarrow> loan_app" where
  "ex_app st = \<lparr> la_id = 42, la_counterparty_id = 5, la_product_id = 41, la_status = st,
     la_approved_amount = Some 1000, la_approved_term_months = Some 2, la_approved_interest_rate_pct = Some 12,
     la_offer_expires_at = None, la_application_type = ''new'', la_parent_loan_id = None, la_refinance_source_loan_ids = [] \<rparr>"

definition ex_ops :: tenant_ops where
  "ex_ops = \<lparr> to_waterfall = [], to_dpd_substandard_days = 31, to_dpd_doubtful_days = 91, to_dpd_loss_days = 181,
     to_writeoff_through_provision = False \<rparr>"

definition ex_ln ::
  "app_status \<Rightarrow> loan list \<Rightarrow> installment list \<Rightarrow> loan_txn_row list \<Rightarrow> (string \<times> int \<Rightarrow> nat) \<Rightarrow> uuid \<Rightarrow> ln_db" where
  "ex_ln st ls ss ts q n = \<lparr> sv_products = [ex_product], sv_accounts = [], sv_txns = [], sv_daily = [], sv_liens = [],
     sv_bosa_liens = [], sv_counterparties = [ex_member], sv_toggles = ex_toggles False, sv_wf_kinds = [],
     sv_instances = [], sv_approvals = [], sv_joint = [], sv_seq = q, sv_outbox = [], sv_supply = n,
     ld_loans = ls, ld_schedule = ss, ld_txns = ts, ld_products = [ex_loan_product], ld_apps = [ex_app st],
     ld_guarantees = [], ld_collateral = [], ld_cases = [], ld_promises = [], ld_restructurings = [],
     ld_writeoffs = [], ld_ops = Some ex_ops, ld_gated = [], ld_requests = [], ld_outbound = [] \<rparr>"

section \<open>The accepted offer\<close>

definition ex_day :: date where
  "ex_day = Date 2026 5 26"

definition ex_no :: "string \<Rightarrow> nat \<Rightarrow> string" where
  "ex_no prefix n = prefix @ ''-'' @ show_nat 2026 @ ''-'' @ pad_left 5 (show_nat n)"

definition ex_loan :: loan where
  "ex_loan = new_loan (ex_ln_env ex_day) \<lparr> cl_application_id = 42, cl_counterparty_id = 5, cl_product_id = 41,
     cl_principal = 1000, cl_interest_rate_pct = 12, cl_interest_method = InterestFlat,
     cl_repayment_method = RepayFlatRate, cl_term_months = 2, cl_grace_period_months = 0, cl_installment_count = 2 \<rparr>
     (ex_no ''L'' 1) 100"

definition ex_seq1 :: "string \<times> int \<Rightarrow> nat" where
  "ex_seq1 = (\<lambda>_. 0)((''loan'', 2026) := 1)"

lemma exact16: "round_half_up 16 (numeral k) = numeral k"
  using rounding.exact [OF round_half_up_rounding [of 16], of "numeral k"]
  by (simp add: scaled_def)

lemma ex_ln_env_ok [simp]: "ln_env_ok (ex_ln_env d)"
  using ex_sv_env_ok by (simp add: ln_env_ok_def sv_env_ok_def ex_ln_env_def)

lemma ex_env_simps [simp]:
  "se_dec (le_sv (ex_ln_env d)) = shop_decimal" "se_col (le_sv (ex_ln_env d)) = round_half_up 2"
  "se_now (le_sv (ex_ln_env d)) = GoTime d 7" "se_clock (le_sv (ex_ln_env d)) = GoTime d 7"
  "se_uuid (le_sv (ex_ln_env d)) = show_nat" "se_posting (le_sv (ex_ln_env d)) = Some True"
  "\<not> le_collections (ex_ln_env d)" "\<not> le_bosa_liens (ex_ln_env d)" "\<not> le_collaterals (ex_ln_env d)"
  "le_rate_col (ex_ln_env d) = round_half_up 3"
  by (simp_all add: ex_ln_env_def ex_sv_env_def)

lemma ex_ln_simps [simp]:
  "ld_loans (ex_ln st ls ss ts q n) = ls" "ld_schedule (ex_ln st ls ss ts q n) = ss" "ld_txns (ex_ln st ls ss ts q n) = ts"
  "sv_seq (ex_ln st ls ss ts q n) = q" "sv_supply (ex_ln st ls ss ts q n) = n" "ld_apps (ex_ln st ls ss ts q n) = [ex_app st]"
  "ld_products (ex_ln st ls ss ts q n) = [ex_loan_product]" "ld_ops (ex_ln st ls ss ts q n) = Some ex_ops"
  "ld_gated (ex_ln st ls ss ts q n) = []" "ld_requests (ex_ln st ls ss ts q n) = []"
  "ld_writeoffs (ex_ln st ls ss ts q n) = []" "ld_restructurings (ex_ln st ls ss ts q n) = []"
  "ld_guarantees (ex_ln st ls ss ts q n) = []" "ld_collateral (ex_ln st ls ss ts q n) = []"
  "(ex_ln st ls ss ts q n)\<lparr>ld_loans := ls'\<rparr> = ex_ln st ls' ss ts q n"
  "(ex_ln st ls ss ts q n)\<lparr>ld_schedule := ss'\<rparr> = ex_ln st ls ss' ts q n"
  "(ex_ln st ls ss ts q n)\<lparr>ld_txns := ts'\<rparr> = ex_ln st ls ss ts' q n"
  "(ex_ln st ls ss ts q n)\<lparr>sv_seq := q'\<rparr> = ex_ln st ls ss ts q' n"
  "(ex_ln st ls ss ts q n)\<lparr>sv_supply := n'\<rparr> = ex_ln st ls ss ts q n'"
  "(ex_ln st ls ss ts q n)\<lparr>ld_apps := [ex_app st']\<rparr> = ex_ln st' ls ss ts q n"
  "(ex_ln st ls ss ts q n)\<lparr>ld_guarantees := []\<rparr> = ex_ln st ls ss ts q n"
  "(ex_ln st ls ss ts q n)\<lparr>ld_collateral := []\<rparr> = ex_ln st ls ss ts q n"
  by (simp_all add: ex_ln_def)

lemma ex_app_simps [simp]:
  "la_id (ex_app st) = 42" "la_counterparty_id (ex_app st) = 5" "la_product_id (ex_app st) = 41" "la_status (ex_app st) = st"
  "la_approved_amount (ex_app st) = Some 1000" "la_approved_term_months (ex_app st) = Some 2"
  "la_approved_interest_rate_pct (ex_app st) = Some 12" "la_offer_expires_at (ex_app st) = None"
  "la_application_type (ex_app st) = ''new''" "(ex_app st)\<lparr>la_status := st'\<rparr> = ex_app st'"
  by (simp_all add: ex_app_def)

lemma ex_ln_start: "ln_start (ex_ln st [] [] [] q n)"
  by (simp add: ln_start_def terms_ok_def ex_loan_product_def ex_fee_def ledger_ok_def ex_ln_def ex_app_def)

lemma ex_accepted:
  "AcceptOffer (ex_ln_env ex_day) 42 True (ex_ln AppOfferSent [] [] [] (\<lambda>_. 0) 100) =
    Inr (ex_ln AppOfferAccepted [ex_loan] [] [] ex_seq1 101, ex_loan)"
  by (simp add: AcceptOffer_def GetAppTx_def GetLoanProductTx_def set_app_status_def accepted_terms_def
      CreateOnAcceptanceTx_def nextSeq_def BackfillLoanIDTx_def ex_loan_product_def ex_seq1_def ex_loan_def ex_day_def
      ex_no_def Let_def del: bind_res_Inr_iff)

section \<open>The disbursement\<close>

definition ex_row :: "nat \<Rightarrow> date \<Rightarrow> decimal \<Rightarrow> schedule_row" where
  "ex_row i d x = \<lparr> sr_installment_no = i, sr_due_date = GoTime d 7, sr_principal_due = 500, sr_interest_due = 10,
     sr_fee_due = 0, sr_total_due = 510, sr_outstanding_after = x \<rparr>"

lemma ex_sixth: "round_half_up 16 (1 / 6) = 1666666666666667 / 10 ^ 16"
  by (simp add: round_half_up_def round_away_def floor_eq_iff)

lemma ex_interest: "simple_interest shop_decimal 1000 12 2 = 20"
  by (simp add: simple_interest_def shop_decimal_def exact16 ex_sixth) (simp add: round_half_up_def round_away_def floor_eq_iff)

lemma exact3: "round_half_up 3 (numeral k) = numeral k"
  using rounding.exact [OF round_half_up_rounding [of 3], of "numeral k"]
  by (simp add: scaled_def)

lemma ex_months: "add_months_time (GoTime (Date 2026 5 26) 7) 1 = GoTime (Date 2026 6 26) 7"
  "add_months_time (GoTime (Date 2026 6 26) 7) 0 = GoTime (Date 2026 6 26) 7"
  "add_months_time (GoTime (Date 2026 6 26) 7) 1 = GoTime (Date 2026 7 26) 7"
  by (simp_all add: add_months_time_def add_months_def go_date_def norm_day_id days_in_def)

lemma ex_rounds: "dRound shop_decimal 2 (numeral k) = numeral k" "dDiv shop_decimal 1000 2 = 500" "dDiv shop_decimal 20 2 = 10"
  by (simp_all add: shop_decimal_def half_exact exact16)

lemma flat_rows_2: "flat_rows D p t w n f i 2 x = [schedule_row f i p t (pay_down x p),
    schedule_row f (Suc i) (pay_down x p) (dRound D 2 (w - t * of_nat (n - 1))) 0]"
  by (simp add: numeral_2_eq_2 Let_def)

lemma ex_plan: "disbursement_plan (ex_ln_env ex_day) ex_loan (GoTime ex_day 7) =
    [ex_row 1 (Date 2026 6 26) 500, ex_row 2 (Date 2026 7 26) 0]"
  by (simp add: disbursement_plan_def ex_loan_def new_loan_def half_exact exact3 GenerateSchedule_def scheduleFlatRate_def ex_interest
      firstDueDate_def ex_day_def ex_row_def ex_months ex_rounds flat_rows_2 pay_down_def schedule_row_def Let_def)

section \<open>Disbursed and repaid\<close>

definition ex_disburse_p :: disbursement_payload where
  "ex_disburse_p = \<lparr> dsp_loan_id = 100, dsp_channel = ''bank'', dsp_target_account_id = None,
     dsp_external_ref = None, dsp_value_date = None \<rparr>"

definition ex_inst :: "nat \<Rightarrow> uuid \<Rightarrow> date \<Rightarrow> decimal \<Rightarrow> installment" where
  "ex_inst i sid d x = \<lparr> si_id = sid, si_loan_id = 100, si_installment_no = i, si_due_date = d,
     si_due = (\<lambda>_. 0)(Principal := 500, Interest := 10), si_total_due = 510, si_paid = no_comp, si_status = RowPending,
     si_paid_at = None, si_outstanding_after = x, si_accrued_at = None, si_accrued_interest_txn_id = None \<rparr>"

definition ex_disbursed :: loan where
  "ex_disbursed = mark_disbursed (ex_ln_env ex_day) 980 20 ''bank'' [] None (GoTime (Date 2026 6 26) 7) 510 9 ex_loan"

lemma ex_SaveSchedule:
  "SaveScheduleTx (ex_ln_env ex_day) 100 [ex_row 1 (Date 2026 6 26) 500, ex_row 2 (Date 2026 7 26) 0]
     (ex_ln st [ex_loan] [] [] q n) =
   Inr (ex_ln st [ex_loan] [ex_inst 1 n (Date 2026 6 26) 500, ex_inst 2 (n + 1) (Date 2026 7 26) 0] [] q (n + 2))"
proof -
  have f: "(\<lambda>c. round_half_up 2 (si_of (ex_row i d x) c)) = (\<lambda>_. 0)(Principal := 500, Interest := 10)" for i d x
    by (rule ext) (simp add: si_of_def ex_row_def half_exact split: component.split)
  have "new_installment (ex_ln_env ex_day) 100 i (ex_row i d x) sid = ex_inst i sid d (round_half_up 2 x)" for i d x sid
    unfolding new_installment_def ex_inst_def f [symmetric] by (simp add: f) (simp add: ex_row_def half_exact)
  then show ?thesis
    by (simp add: insert_installment_def half_exact del: bind_res_Inr_iff) (simp add: ex_row_def ex_inst_def half_exact)
qed

definition ex_fee_txn :: loan_txn_row where
  "ex_fee_txn = loan_txn_row (ex_ln_env ex_day) (post_loan_input ex_loan LoanTxnFeeCharge 20 (only Fees 20) ''internal''
     (''processing'' @ dot @ lo_loan_no ex_loan) 9) (ex_no ''LT'' 1) 103"

definition ex_disbursement_txn :: loan_txn_row where
  "ex_disbursement_txn = loan_txn_row (ex_ln_env ex_day) ((post_loan_input ex_loan LoanTxnDisbursement 1000 (only Principal 1000)
     ''bank'' (''Net disbursement'' @ dot @ lo_loan_no ex_loan) 9)\<lparr>li_channel_ref := Some []\<rparr>) (ex_no ''LT'' 2) 104"

definition ex_schedule :: "installment list" where
  "ex_schedule = [ex_inst 1 101 (Date 2026 6 26) 500, ex_inst 2 102 (Date 2026 7 26) 0]"

definition ex_seq2 :: "string \<times> int \<Rightarrow> nat" where
  "ex_seq2 = ex_seq1((''loan_txn'', 2026) := 2)"

definition ex_ln2 :: ln_db where
  "ex_ln2 = ex_ln AppDisbursed [ex_disbursed] ex_schedule [ex_fee_txn, ex_disbursement_txn] ex_seq2 106"

lemma ex_loan_simps [simp]:
  "lo_id ex_loan = 100" "lo_application_id ex_loan = 42" "lo_counterparty_id ex_loan = 5" "lo_product_id ex_loan = 41"
  "lo_status ex_loan = LoanPendingDisbursement" "lo_principal ex_loan = 1000"
  by (simp_all add: ex_loan_def new_loan_def half_exact)

lemma ex_disbursed_simps [simp]:
  "lo_id ex_disbursed = 100" "lo_application_id ex_disbursed = 42" "lo_counterparty_id ex_disbursed = 5"
  "lo_status ex_disbursed = LoanActive" "lo_principal ex_disbursed = 1000" "lo_loan_no ex_disbursed = lo_loan_no ex_loan"
  "lo_charged ex_disbursed = no_comp(Principal := 1000, Fees := 20)" "lo_paid ex_disbursed = no_comp"
  "lo_balance ex_disbursed = no_comp(Principal := 1000, Fees := 20)"
  by (simp_all add: ex_disbursed_def mark_disbursed_def ex_loan_def new_loan_def half_exact)

lemma ex_charge_fees:
  "charge_fees (ex_ln_env ex_day) ex_loan 9 [ex_fee] 0 [] (ex_ln st ls ss [] ex_seq1 103) =
    (ex_ln st ls ss [ex_fee_txn] (ex_seq1((''loan_txn'', 2026) := 1)) 104, 20, [(''4010'', 20)])"
  by (simp add: ApplyFee_def ex_fee_def ex_rounds PostLoanTxnTx_def nextSeq_def Let_def split_def ex_fee_txn_def)
    (simp add: ex_seq1_def ex_day_def ex_no_def)

lemma ex_disbursed_run:
  "disburse_loan (ex_ln_env ex_day) ex_loan ex_loan_product ex_disburse_p (GoTime ex_day 7)
     [ex_row 1 (Date 2026 6 26) 500, ex_row 2 (Date 2026 7 26) 0] 9 (ex_ln AppOfferAccepted [ex_loan] [] [] ex_seq1 101) =
   Inr (ex_ln AppDisbursed [ex_disbursed] ex_schedule [ex_fee_txn, ex_disbursement_txn] ex_seq2 105,
     \<lparr> dd_loan = ex_disbursed, dd_net = 980, dd_fee_lines = fee_lines [(''4010'', 20)], dd_txn = ex_disbursement_txn \<rparr>)"
proof -
  have fees: "lp_fees ex_loan_product = [ex_fee]" by (simp add: ex_loan_product_def)
  have p: "dsp_channel ex_disburse_p = ''bank''" "dsp_external_ref ex_disburse_p = None" "dsp_target_account_id ex_disburse_p = None"
    by (simp_all add: ex_disburse_p_def)
  have t: "PostLoanTxnTx (ex_ln_env ex_day) ((post_loan_input ex_loan LoanTxnDisbursement 1000 (only Principal 1000)
       ''bank'' (''Net disbursement'' @ dot @ lo_loan_no ex_loan) 9)\<lparr>li_channel_ref := Some []\<rparr>)
       (ex_ln st ls ss [ex_fee_txn] (ex_seq1((''loan_txn'', 2026) := 1)) 104) =
     (ex_ln st ls ss [ex_fee_txn, ex_disbursement_txn] ex_seq2 105, ex_disbursement_txn)" for st ls ss
    by (simp add: PostLoanTxnTx_def nextSeq_def Let_def split_def ex_disbursement_txn_def)
      (simp add: ex_seq1_def ex_seq2_def ex_day_def ex_no_def numeral_2_eq_2)
  have m: "MarkDisbursedTx (ex_ln_env ex_day) 100 980 20 ''bank'' [] None (GoTime (Date 2026 6 26) 7) 510 9
       (ex_ln st [ex_loan] ss ts q n) = Inr (ex_ln st [ex_disbursed] ss ts q n, ex_disbursed)" for st ss ts q n
    by (simp add: MarkDisbursedTx_def Let_def set_loan_def GetLoanTx_def ex_disbursed_def [symmetric] del: bind_res_Inr_iff)
  have row: "sr_due_date (ex_row i d x) = GoTime d 7" "sr_total_due (ex_row i d x) = 510" for i d x by (simp_all add: ex_row_def)
  show ?thesis
    unfolding disburse_loan_def
    by (simp add: ex_SaveSchedule [unfolded One_nat_def] fees ex_charge_fees p credit_target_def t [unfolded One_nat_def append_Cons append_Nil] row m set_app_status_def
        settleParentLoansIfTopupOrRefinance_def GetAppTx_def ex_schedule_def Let_def
        del: bind_res_Inr_iff SaveScheduleTx.simps charge_fees.simps)
qed

lemma ex_disburse:
  "Disburse (ex_ln_env ex_day) 9 ex_disburse_p (ex_ln AppOfferAccepted [ex_loan] [] [] ex_seq1 101) = Inr (ex_ln2, Posted [104])"
proof -
  have post: "sv_post (le_sv (ex_ln_env ex_day)) inp (ex_ln st ls ss ts q n) = Inr (ex_ln st ls ss ts q (n + 1))" for inp st ls ss ts q n
    by (simp add: sv_post_def OutboxPostTx_def ex_ln_def)
  have e: "ExecuteDisbursementTx (ex_ln_env ex_day) ex_disburse_p 9 (ex_ln AppOfferAccepted [ex_loan] [] [] ex_seq1 101) =
     disburse_loan (ex_ln_env ex_day) ex_loan ex_loan_product ex_disburse_p (GoTime ex_day 7)
       (disbursement_plan (ex_ln_env ex_day) ex_loan (GoTime ex_day 7)) 9 (ex_ln AppOfferAccepted [ex_loan] [] [] ex_seq1 101)"
    by (simp add: ExecuteDisbursementTx_def value_date_or_now_def ex_disburse_p_def GetLoanTx_def GetLoanProductTx_def
        coverage_gate_def disbursement_plan_def ex_loan_product_def del: bind_res_Inr_iff)
  have tid: "lx_id ex_disbursement_txn = 104" by (simp add: ex_disbursement_txn_def loan_txn_row_def)
  show ?thesis
    by (simp add: Disburse_def ex_disburse_p_def gated_def ToLower_def run_inline_def run_loan_payload_def PostLoanDisbursementTx_def
        e [unfolded ex_disburse_p_def] ex_plan ex_disbursed_run [unfolded ex_disburse_p_def One_nat_def] post tid ex_ln2_def Let_def
        del: bind_res_Inr_iff)
qed

lemma ex_fair: "fair (ex_ln_env ex_day) (PayDisbursement ex_disburse_p) (ex_ln AppOfferAccepted [ex_loan] [] [] ex_seq1 101)"
  by (simp add: ex_disburse_p_def GetLoanTx_def value_date_or_now_def ex_plan fair_plan_def ex_row_def)

lemma ex_ln2_reach: "ln_reach ex_ln2"
proof (rule ln_reach_step [OF ln_reach_step [OF ln_reach_start [OF ex_ln_start]]])
  show "ln_write (ex_ln_env ex_day) (ex_ln AppOfferSent [] [] [] (\<lambda>_. 0) 100) (ex_ln AppOfferAccepted [ex_loan] [] [] ex_seq1 101)"
    by (rule lw_accept [OF ex_accepted])
  show "ln_write (ex_ln_env ex_day) (ex_ln AppOfferAccepted [ex_loan] [] [] ex_seq1 101) ex_ln2"
    by (rule lw_disburse [OF ex_disburse ex_fair])
qed simp_all

section \<open>The first repayment\<close>

definition ex_later :: date where
  "ex_later = Date 2026 7 1"

definition ex_row1 :: installment where
  "ex_row1 = ex_inst 1 101 (Date 2026 6 26) 500"

definition ex_row2 :: installment where
  "ex_row2 = ex_inst 2 102 (Date 2026 7 26) 0"

definition ex_accrued :: loan where
  "ex_accrued = charge (ex_ln_env ex_later) (accrual ex_row1) ex_disbursed"

definition ex_accrued_row :: installment where
  "ex_accrued_row = ex_row1\<lparr>si_accrued_at := Some (GoTime ex_later 7), si_accrued_interest_txn_id := Some 106\<rparr>"

definition ex_accrual_txn :: loan_txn_row where
  "ex_accrual_txn = loan_txn_row (ex_ln_env ex_later) ((post_loan_input ex_disbursed LoanTxnInterestAccrual 10 (only Interest 10)
     ''internal'' (''Interest accrued'' @ dot @ ''installment '' @ show_nat 1 @ dot @ lo_loan_no ex_loan) 9)
     \<lparr>li_installment_no := Some 1\<rparr>) (ex_no ''LT'' 3) 106"

lemma ex_post3:
  "PostLoanTxnTx (ex_ln_env ex_later) inp (ex_ln st ls ss ts ex_seq2 n) =
    (ex_ln st ls ss (ts @ [loan_txn_row (ex_ln_env ex_later) inp (ex_no ''LT'' 3) n]) (ex_seq2((''loan_txn'', 2026) := 3)) (n + 1),
     loan_txn_row (ex_ln_env ex_later) inp (ex_no ''LT'' 3) n)"
  by (simp add: PostLoanTxnTx_def nextSeq_def Let_def split_def ex_later_def ex_no_def ex_seq2_def)

lemma ex_row_simps [simp]:
  "si_id ex_row1 = 101" "si_loan_id ex_row1 = 100" "si_installment_no ex_row1 = 1" "si_due_date ex_row1 = Date 2026 6 26"
  "si_due ex_row1 = (\<lambda>_. 0)(Principal := 500, Interest := 10)" "si_total_due ex_row1 = 510" "si_paid ex_row1 = no_comp"
  "si_status ex_row1 = RowPending" "si_accrued_at ex_row1 = None" "si_paid_at ex_row1 = None"
  "si_id ex_row2 = 102" "si_loan_id ex_row2 = 100" "si_installment_no ex_row2 = 2" "si_due_date ex_row2 = Date 2026 7 26"
  "si_due ex_row2 = (\<lambda>_. 0)(Principal := 500, Interest := 10)" "si_total_due ex_row2 = 510" "si_paid ex_row2 = no_comp"
  "si_status ex_row2 = RowPending" "si_accrued_at ex_row2 = None"
  by (simp_all add: ex_row1_def ex_row2_def ex_inst_def)

lemma ex_ln2_rows: "ex_ln2 = ex_ln AppDisbursed [ex_disbursed] [ex_row1, ex_row2] [ex_fee_txn, ex_disbursement_txn] ex_seq2 106"
  by (simp add: ex_ln2_def ex_schedule_def ex_row1_def ex_row2_def)

lemma ex_accrue:
  "AccrueDueInterestTx (ex_ln_env ex_later) 100 (GoTime ex_later 7) 9 ex_ln2 =
    Inr (ex_ln AppDisbursed [ex_accrued] [ex_accrued_row, ex_row2] [ex_fee_txn, ex_disbursement_txn, ex_accrual_txn]
      (ex_seq2((''loan_txn'', 2026) := 3)) 107, 1)"
proof -
  have todo: "due_for_accrual 100 ex_later ex_row1" "\<not> due_for_accrual 100 ex_later ex_row2"
    by (simp_all add: due_for_accrual_def open_row_def ex_later_def less_eq_date_def)
  have lid: "lx_id (loan_txn_row E inp no tid) = tid" for E inp no tid by (simp add: loan_txn_row_def)
  show ?thesis
    by (simp add: AccrueDueInterestTx_def ex_ln2_rows todo GetLoanTx_def accrue_row_def accrue_interest_def accrue_fee_def
        ex_post3 lid set_rows_def set_loan_def ex_accrued_def ex_accrued_row_def ex_accrual_txn_def Let_def split_def
        del: bind_res_Inr_iff)
qed

definition ex_repay_p :: repayment_payload where
  "ex_repay_p = \<lparr> rpl_loan_id = 100, rpl_amount = 300, rpl_channel = ''bank'', rpl_channel_ref = ''B-7'',
     rpl_narration = ''July'', rpl_value_date = [], rpl_debit_savings_acct = None \<rparr>"

definition ex_alloc :: "component \<Rightarrow> decimal" where
  "ex_alloc = no_comp(Interest := 10, Principal := 290)"

definition ex_repay_in :: repayment_input where
  "ex_repay_in = \<lparr> rp_loan = ex_accrued, rp_amount = 300, rp_channel = ''bank'', rp_channel_ref = ''B-7'',
     rp_narration = ''July'', rp_value_date = GoTime ex_later 7, rp_initiated_by = 9 \<rparr>"

definition ex_paid_row :: installment where
  "ex_paid_row = (let E = ex_ln_env ex_later; r = pay_row E Interest 10 ex_accrued_row ex_accrued_row in pay_row E Principal 290 r r)"

lemma ex_accrued_simps [simp]:
  "lo_id ex_accrued = 100" "lo_status ex_accrued = LoanActive"
  "lo_balance ex_accrued = no_comp(Principal := 1000, Fees := 20, Interest := 10)"
  "lo_charged ex_accrued = no_comp(Principal := 1000, Fees := 20, Interest := 10)" "lo_paid ex_accrued = no_comp"
proof -
  have "round_half_up 2 (lo_balance ex_disbursed c + accrual ex_row1 c) = (no_comp(Principal := 1000, Fees := 20, Interest := 10)) c"
    "round_half_up 2 (lo_charged ex_disbursed c + accrual ex_row1 c) = (no_comp(Principal := 1000, Fees := 20, Interest := 10)) c" for c
    by (cases c; simp add: accrual_def no_comp_def half_exact)+
  then show "lo_balance ex_accrued = no_comp(Principal := 1000, Fees := 20, Interest := 10)"
    "lo_charged ex_accrued = no_comp(Principal := 1000, Fees := 20, Interest := 10)"
    by (simp_all add: ex_accrued_def charge_def add_comp_def fun_eq_iff)
qed (simp_all add: ex_accrued_def charge_def)

lemma ex_accrued_row_simps [simp]:
  "si_id ex_accrued_row = 101" "si_loan_id ex_accrued_row = 100" "si_installment_no ex_accrued_row = 1"
  "si_due ex_accrued_row = (\<lambda>_. 0)(Principal := 500, Interest := 10)" "si_paid ex_accrued_row = no_comp"
  "si_status ex_accrued_row = RowPending" "si_paid_at ex_accrued_row = None" "si_due_date ex_accrued_row = Date 2026 6 26"
  "si_total_due ex_accrued_row = 510"
  by (simp_all add: ex_accrued_row_def)

lemma ex_allocate:
  "allocate (ex_ln_env ex_later) ex_accrued [Penalty, Interest, Principal, Fees] no_comp 300
     (ex_ln st ls [ex_accrued_row, ex_row2] ts q n) = (ex_alloc, 0, ex_ln st ls [ex_paid_row, ex_row2] ts q n)"
proof -
  have paid: "pay_row E c x r s = s\<lparr>si_paid := (si_paid s)(c := col E (si_paid r c + x)),
     si_status := (if row_due_sum r \<le> row_paid_sum r + x then RowPaid
       else if 0 < row_paid_sum r + x then RowPartiallyPaid else si_status r),
     si_paid_at := (case si_paid_at s of Some t \<Rightarrow> Some t
       | None \<Rightarrow> if row_due_sum r \<le> row_paid_sum r + x then Some (clock E) else None)\<rparr>" for E c x r s
    by (rule pay_row_def)
  show ?thesis
    by (simp add: applyToSchedule_def rows_of_def open_row_def set_rows_def ex_paid_row_def ex_alloc_def no_comp_def paid
        row_due_sum_def row_paid_sum_def half_exact Let_def)
qed

definition ex_repay_txn :: loan_txn_row where
  "ex_repay_txn = loan_txn_row (ex_ln_env ex_later) ((post_loan_input ex_accrued LoanTxnRepayment (- 300) ex_alloc ''bank'' ''July'' 9)
     \<lparr>li_channel_ref := Some ''B-7''\<rparr>) (ex_no ''LT'' 4) 107"

definition ex_next :: loan where
  "ex_next = (repay_loan (ex_ln_env ex_later) ex_alloc ex_accrued)\<lparr>lo_next_installment_due_at := Some (Date 2026 6 26),
     lo_next_installment_amount := Some 210, lo_installments_paid := 0\<rparr>"

definition ex_repaid :: loan where
  "ex_repaid = ex_next\<lparr>lo_days_past_due := 5, lo_arrears_classification := ''watch'', lo_status := LoanInArrears\<rparr>"

definition ex_ln3 :: "uuid \<Rightarrow> ln_db" where
  "ex_ln3 n = ex_ln AppDisbursed [ex_repaid] [ex_paid_row, ex_row2] [ex_fee_txn, ex_disbursement_txn, ex_accrual_txn, ex_repay_txn]
     (ex_seq2((''loan_txn'', 2026) := 4)) n"

lemma ex_paid_row_simps [simp]:
  "si_id ex_paid_row = 101" "si_loan_id ex_paid_row = 100" "si_installment_no ex_paid_row = 1"
  "si_due ex_paid_row = (\<lambda>_. 0)(Principal := 500, Interest := 10)" "si_paid ex_paid_row = no_comp(Interest := 10, Principal := 290)"
  "si_status ex_paid_row = RowPartiallyPaid" "si_due_date ex_paid_row = Date 2026 6 26" "si_total_due ex_paid_row = 510"
  by (simp_all add: ex_paid_row_def pay_row_def no_comp_def row_due_sum_def row_paid_sum_def half_exact Let_def)

lemma ex_repaid_simps [simp]:
  "lo_id ex_repaid = 100" "lo_status ex_repaid = LoanInArrears" "lo_principal ex_repaid = 1000"
  "lo_balance ex_repaid = no_comp(Principal := 710, Fees := 20)" "lo_paid ex_repaid = no_comp(Interest := 10, Principal := 290)"
  "lo_charged ex_repaid = no_comp(Principal := 1000, Fees := 20, Interest := 10)"
  "lo_loan_no ex_repaid = lo_loan_no ex_loan"
proof -
  have "round_half_up 2 (lo_balance ex_accrued c + - ex_alloc c) = (no_comp(Principal := 710, Fees := 20)) c"
    "round_half_up 2 (lo_paid ex_accrued c + ex_alloc c) = (no_comp(Interest := 10, Principal := 290)) c" for c
    by (cases c; simp add: ex_alloc_def no_comp_def half_exact)+
  then show "lo_balance ex_repaid = no_comp(Principal := 710, Fees := 20)"
    "lo_paid ex_repaid = no_comp(Interest := 10, Principal := 290)"
    by (simp_all add: ex_repaid_def ex_next_def repay_loan_def add_comp_def fun_eq_iff)
qed (simp_all add: ex_repaid_def ex_next_def repay_loan_def, simp_all add: ex_accrued_def charge_def)

lemma ex_post4:
  "PostLoanTxnTx (ex_ln_env ex_later) inp (ex_ln st ls ss ts (ex_seq2((''loan_txn'', 2026) := 3)) n) =
    (ex_ln st ls ss (ts @ [loan_txn_row (ex_ln_env ex_later) inp (ex_no ''LT'' 4) n]) (ex_seq2((''loan_txn'', 2026) := 4)) (n + 1),
     loan_txn_row (ex_ln_env ex_later) inp (ex_no ''LT'' 4) n)"
  by (simp add: PostLoanTxnTx_def nextSeq_def Let_def split_def ex_later_def ex_no_def)

lemma ex_dpd: "days_past_due (GoTime ex_later 7) [ex_paid_row] = 5"
  by (simp add: days_past_due_def ex_later_def time_instant_def day_number_def days_before_month_def days_in_def is_leap_def
      upt_rec Let_def)

lemma ex_RecalcDPD:
  assumes "l \<in> {ex_next, ex_repaid}"
  shows "\<exists>r. RecalcDPDTx (ex_ln_env ex_later) 100 (GoTime ex_later 7) (ex_ln st [l] [ex_paid_row, ex_row2] ts q n) =
    Inr (ex_ln st [ex_repaid] [ex_paid_row, ex_row2] ts q n, r)"
proof -
  have due: "overdue_row 100 ex_later ex_paid_row" "\<not> overdue_row 100 ex_later ex_row2"
    by (simp_all add: overdue_row_def open_row_def ex_later_def less_eq_date_def)
  have l: "lo_id l = 100" "lo_status l \<in> {LoanActive, LoanInArrears}"
    "l\<lparr>lo_days_past_due := 5, lo_arrears_classification := ''watch'', lo_status := LoanInArrears\<rparr> = ex_repaid"
    using assms by (auto simp: ex_repaid_def ex_next_def repay_loan_def)
  then show ?thesis
    by (auto simp: RecalcDPDTx_def due ex_dpd ClassifyDPD_def ex_ops_def GetLoanTx_def set_loan_def dpd_status_def Let_def)
qed

lemma ex_PostRepayment:
  "PostRepaymentTx (ex_ln_env ex_later) ex_repay_in [Penalty, Interest, Principal, Fees]
     (ex_ln AppDisbursed [ex_accrued] [ex_accrued_row, ex_row2] [ex_fee_txn, ex_disbursement_txn, ex_accrual_txn]
      (ex_seq2((''loan_txn'', 2026) := 3)) 107) =
   Inr (ex_ln3 108, ex_repay_txn, \<lparr> al_comp = ex_alloc, al_suspense = 0 \<rparr>)"
proof -
  let ?l = "repay_loan (ex_ln_env ex_later) ex_alloc ex_accrued"
  have l: "lo_id ?l = 100" "lo_status ?l = LoanActive" "lo_balance ?l Principal = 710" "lo_balance ex_repaid = lo_balance ?l"
    by (simp_all add: repay_loan_def add_comp_def ex_alloc_def no_comp_def half_exact ex_repaid_def ex_next_def)
  have next_row: "find open_row (rows_of 100 (ex_ln st [?l] [ex_paid_row, ex_row2] ts q n)) = Some ex_paid_row" for st ts q n
    by (simp add: rows_of_def open_row_def)
  have rec: "recomputeNextDueTx (ex_ln_env ex_later) 100 (ex_ln st [?l] [ex_paid_row, ex_row2] ts q n) =
      Inr (ex_ln st [ex_next] [ex_paid_row, ex_row2] ts q n)" for st ts q n
    by (simp add: recomputeNextDueTx_def GetLoanTx_def l fully_cleared_def stamp_next_def next_row set_loan_def ex_next_def
        remaining_due_def half_exact no_comp_def Let_def)
  have tid: "lx_id ex_repay_txn = 107" by (simp add: ex_repay_txn_def loan_txn_row_def)
  obtain r where dpd: "RecalcDPDTx (ex_ln_env ex_later) 100 (GoTime ex_later 7) (ex_ln AppDisbursed [ex_next] [ex_paid_row, ex_row2]
      [ex_fee_txn, ex_disbursement_txn, ex_accrual_txn, ex_repay_txn] (ex_seq2((''loan_txn'', 2026) := 4)) 108) =
      Inr (ex_ln3 108, r)"
    using ex_RecalcDPD [of ex_next] unfolding ex_ln3_def by blast
  have rel: "release_guarantees E 100 tid (ex_ln3 n) = ex_ln3 n" for E tid n
    by (simp add: release_guarantees_def settled_exists_def ex_ln3_def)
  show ?thesis
    by (simp add: PostRepaymentTx_def ex_repay_in_def repayable_def ex_allocate set_loan_def finish_repayment_def ex_post4
        ex_repay_txn_def [symmetric] rec dpd rel Let_def del: bind_res_Inr_iff allocate.simps)
qed

lemma ex_repay: "Repay (ex_ln_env ex_later) 9 ex_repay_p ex_ln2 = Inr (ex_ln3 109, Posted [107])"
proof -
  have post: "sv_post (le_sv (ex_ln_env ex_later)) inp (ex_ln3 n) = Inr (ex_ln3 (n + 1))" for inp n
    by (simp add: sv_post_def OutboxPostTx_def ex_ln3_def)
  have tid: "lx_id ex_repay_txn = 107" by (simp add: ex_repay_txn_def loan_txn_row_def)
  obtain r where dpd: "RecalcDPDTx (ex_ln_env ex_later) 100 (GoTime ex_later 7) (ex_ln3 108) = Inr (ex_ln3 108, r)"
    using ex_RecalcDPD [of ex_repaid] unfolding ex_ln3_def by blast
  have w: "GetWaterfallTx (ex_ln st ls ss ts q n) = [Penalty, Interest, Principal, Fees]" for st ls ss ts q n
    by (simp add: GetWaterfallTx_def ex_ops_def ParseWaterfall_def default_waterfall_def)
  have g: "GetLoanTx (ex_ln3 n) 100 = Inr ex_repaid" for n by (simp add: GetLoanTx_def ex_ln3_def)
  have ga: "GetLoanTx (ex_ln st [ex_accrued] ss ts q n) 100 = Inr ex_accrued" for st ss ts q n by (simp add: GetLoanTx_def)
  have g2: "GetLoanTx ex_ln2 100 = Inr ex_disbursed" "ld_gated ex_ln2 = []" by (simp_all add: GetLoanTx_def ex_ln2_def)
  have x: "ExecuteRepaymentTx (ex_ln_env ex_later) ex_repay_p 9 ex_ln2 = Inr (ex_ln3 108,
     \<lparr> rr_txn = ex_repay_txn, rr_allocation = \<lparr> al_comp = ex_alloc, al_suspense = 0 \<rparr>, rr_loan = ex_repaid, rr_dpd = r \<rparr>)"
    by (simp add: ExecuteRepaymentTx_def ex_repay_p_def value_date_or_now_def g2 ex_accrue debit_savings_def post_and_classify_def w
        ex_PostRepayment [unfolded ex_repay_in_def] dpd g ga del: bind_res_Inr_iff)
  show ?thesis
    by (simp add: Repay_def ex_repay_p_def ToLower_def g2 gated_def run_inline_def run_loan_payload_def x [unfolded ex_repay_p_def]
        PostLoanRepaymentTx_def post tid del: bind_res_Inr_iff)
qed

lemma ex_ln3_reach: "ln_reach (ex_ln3 109)"
  by (rule ln_reach_step [OF ex_ln2_reach ex_ln_env_ok lw_repay [OF ex_repay]]) (simp add: ex_repay_p_def)

end
