(* ===== verification/LoanProperties.thy ===== *)
theory LoanProperties
  imports LoanExamples DepositProperties
begin

text \<open>
  The properties of loans: what holds after any sequence of requests (\<open>LoanSystem\<close>), what a
  schedule asks for (\<open>LoanSchedule\<close>), and what single operations do. Each is followed by its
  witness on the example of \<open>LoanExamples\<close>.
\<close>

section \<open>After any sequence of requests\<close>

text \<open>C3. In every state the loan requests, approvals, callbacks and the daily sweep can reach, each of a
  loan's four balances is at least zero and at most what was charged less what was paid, and equal
  to it unless part of the loan was written off or forgiven in a settlement.\<close>

theorem loan_balance_bounds:
  assumes "ln_reach db" "l \<in> set (ld_loans db)"
  shows "0 \<le> lo_balance l c \<and> lo_balance l c \<le> lo_charged l c - lo_paid l c \<and>
    (\<not> forgiven db (lo_id l) \<longrightarrow> lo_balance l c = lo_charged l c - lo_paid l c)"
  using booksD(6) [OF reach_books [OF assms(1)] assms(2)] by (auto simp: money_ok_def sums_ok_def)

theorem loan_balance_bounds_witness:
  "ln_reach (ex_ln3 109) \<and> ld_loans (ex_ln3 109) = [ex_repaid] \<and> lo_balance ex_repaid Principal = 710 \<and>
    lo_charged ex_repaid Principal - lo_paid ex_repaid Principal = 710"
  using loan_balance_bounds [OF ex_ln3_reach, of ex_repaid Principal] ex_ln3_reach
  by (simp add: ex_ln3_def forgiven_def no_comp_def)

text \<open>C13. In every reachable state what a loan's columns say was paid is, component by component, the sum
  of its repayments on file that were not reversed.\<close>

theorem loan_paid_is_standing:
  assumes "ln_reach db" "l \<in> set (ld_loans db)"
  shows "lo_paid l c = sum_list (map (\<lambda>t. lx_comp t c) (filter (standing (lo_id l)) (ld_txns db)))"
  using booksD(6) [OF reach_books [OF assms(1)] assms(2)] by (simp add: money_ok_def repaid_def)

theorem loan_paid_is_standing_witness:
  "\<exists>t. filter (standing 100) (ld_txns (ex_ln3 109)) = [t] \<and> lo_paid ex_repaid Interest = 10 \<and> lx_comp t Interest = 10"
proof -
  have f: "filter (standing 100) (ld_txns (ex_ln3 109)) = [ex_repay_txn]"
    by (simp add: ex_ln3_def standing_def ex_fee_txn_def ex_disbursement_txn_def ex_accrual_txn_def ex_repay_txn_def
        loan_txn_row_def post_loan_input_def)
  have "lo_paid ex_repaid Interest = lx_comp ex_repay_txn Interest"
    using loan_paid_is_standing [OF ex_ln3_reach, of ex_repaid Interest] f by (simp add: ex_ln3_def)
  then show ?thesis using f by (simp add: no_comp_def)
qed

text \<open>C19. In every reachable state a loan marked settled owes nothing and has no open installment, even
  after a repayment was reversed, a schedule replaced or a settlement agreed.\<close>

theorem settled_owes_nothing:
  assumes "ln_reach db" "l \<in> set (ld_loans db)" "lo_status l = LoanSettled"
  shows "lo_balance l = no_comp \<and> (\<forall>s\<in>set (ld_schedule db). si_loan_id s = lo_id l \<longrightarrow> si_status s \<in> {RowPaid, RowCancelled})"
  using booksD(7) [OF reach_books [OF assms(1)] assms(2)] assms(3) by (auto simp: settled_ok_def open_row_def)

definition ex_settle :: "decimal \<Rightarrow> sv_error + (ln_db \<times> outcome)" where
  "ex_settle x = SettlementDiscount (ex_ln_env ex_later) 9 100 x ''hardship'' (ex_ln3 109)"

lemma ex_ln3_simps [simp]:
  "ld_loans (ex_ln3 n) = [ex_repaid]" "ld_schedule (ex_ln3 n) = [ex_paid_row, ex_row2]" "ld_gated (ex_ln3 n) = []"
  "GetLoanTx (ex_ln3 n) 100 = Inr ex_repaid"
  by (simp_all add: ex_ln3_def GetLoanTx_def)

lemma ex_settled: "\<exists>db l ids. ex_settle 50 = Inr (db, Posted ids) \<and> ld_loans db = [l] \<and> lo_id l = 100 \<and> lo_status l = LoanSettled \<and>
    (\<exists>t. ld_txns db = ld_txns (ex_ln3 109) @ [t])"
  by (simp add: ex_settle_def SettlementDiscount_def gated_def SettlementDiscountTx_def repayable_def)
    (simp add: PostLoanTxnTx_def nextSeq_def set_loan_def set_rows_def GetLoanTx_def clear_loan_def insertRestructuringTx_def
      ex_ln3_def Let_def split_def)

lemma ex_settle_reach: "ex_settle x = Inr (db, r) \<Longrightarrow> ln_reach db"
  unfolding ex_settle_def by (rule ln_reach_step [OF ex_ln3_reach ex_ln_env_ok lw_discount])

theorem settled_owes_nothing_witness:
  "\<exists>db l. ln_reach db \<and> ld_loans db = [l] \<and> lo_status l = LoanSettled \<and> lo_balance l = no_comp"
proof -
  obtain db l ids where r: "ex_settle 50 = Inr (db, Posted ids)" "ld_loans db = [l]" "lo_status l = LoanSettled"
    using ex_settled by blast
  with settled_owes_nothing [OF ex_settle_reach [OF r(1)], of l] ex_settle_reach [OF r(1)] show ?thesis by auto
qed

text \<open>C21. In every reachable state an installment's paid columns lie between zero and what the installment
  asks for (zero where rounding made that negative), and are in whole cents.\<close>

theorem installment_paid_bounds:
  assumes "ln_reach db" "s \<in> set (ld_schedule db)"
  shows "0 \<le> si_paid s c \<and> si_paid s c \<le> max 0 (si_due s c) \<and> scaled 2 (si_paid s c)"
  using booksD(4) [OF reach_books [OF assms(1)] assms(2)] by (auto simp: row_ok_def)

theorem installment_paid_bounds_witness:
  "si_paid ex_paid_row Principal = 290 \<and> si_paid ex_paid_row Principal \<le> max 0 (si_due ex_paid_row Principal)"
  using installment_paid_bounds [OF ex_ln3_reach, of ex_paid_row Principal] by (simp add: no_comp_def)

section \<open>Schedules\<close>

text \<open>C22. Every method that asks for monthly installments yields as many rows as the term has months,
  numbered from one; from a first due date no later than the 28th, row i falls due on that day of
  the month i months on; each total is principal plus interest; the last row leaves nothing
  outstanding; and the principal asked for is the loan plus what rounding overshoots.\<close>

theorem schedule_shape:
  assumes "0 < n" "0 < P" "rm \<noteq> RepayBullet" "valid_date d" "d_day d \<le> 28"
    and rows_def: "rows = GenerateSchedule D pmt P rate n g (GoTime d t) im rm"
  shows "length rows = nat n \<and> map sr_installment_no rows = [1..<nat n + 1] \<and>
    (\<forall>i<nat n. d_day (gt_date (sr_due_date (rows ! i))) = d_day d \<and>
       month_index (gt_date (sr_due_date (rows ! i))) = month_index d + g + 1 + int i) \<and>
    (\<forall>s\<in>set rows. sr_total_due s = sr_principal_due s + sr_interest_due s) \<and>
    sr_outstanding_after (last rows) = 0 \<and> principal_sum rows = P + overshoot P rows"
proof -
  let ?f = "firstDueDate (GoTime d t) g"
  have f: "?f = GoTime (add_months d (g + 1)) t" by (simp add: firstDueDate_def add_months_time_def)
  have date: "d_day (gt_date (add_months_time ?f k)) = d_day d \<and> month_index (gt_date (add_months_time ?f k)) = month_index d + g + 1 + k" for k
    using add_months_day [OF assms(4,5), of "g + 1"] add_months_day [OF add_months_valid [OF assms(4)], of "g + 1" k] assms(5)
    by (simp add: f add_months_time_def)
  have "\<exists>gen. amortization gen \<and> rows = gen P (nat n) ?f"
  proof (cases rm)
    case RepayReducingBalance
    then show ?thesis using reducing.amortization_axioms [of D pmt rate] assms(1,2) unfolding rows_def
      by (intro exI [of _ "\<lambda>P n f. scheduleReducingBalance D pmt P rate n f"]) (simp add: GenerateSchedule_def Let_def)
  next
    case RepayFlatRate
    then show ?thesis using flat.amortization_axioms [of D rate] assms(1,2) unfolding rows_def
      by (intro exI [of _ "\<lambda>P n f. scheduleFlatRate D P rate n f"]) (simp add: GenerateSchedule_def Let_def)
  next
    case RepayInterestOnly
    then show ?thesis using interest_only.amortization_axioms [of D rate] assms(1,2) unfolding rows_def
      by (intro exI [of _ "\<lambda>P n f. scheduleInterestOnly D P rate n f"]) (simp add: GenerateSchedule_def Let_def)
  qed (use assms(3) in simp)
  then obtain gen where gen: "amortization gen" "rows = gen P (nat n) ?f" by blast
  have n: "0 < nat n" using assms(1) by simp
  have "map sr_installment_no rows = [1..<1 + nat n]"
    using amortization.numbered [OF gen(1), of ?f "nat n" P] by (simp only: gen(2) numbered_from_def)
  then show ?thesis
    using amortization.count [OF gen(1), of P "nat n" ?f] amortization.due [OF gen(1), of _ "nat n" P ?f] date
      amortization.totals [OF gen(1), of _ P "nat n" ?f] amortization.ends_at_zero [OF gen(1) assms(2) n, of ?f]
      amortization.asks_for [OF gen(1) assms(2) n, of ?f]
    by (auto simp: gen(2) add.commute)
qed

theorem schedule_shape_witness:
  "map sr_installment_no (GenerateSchedule shop_decimal (\<lambda>_ _ _. 0) 1000 12 2 0 (GoTime ex_day 7) InterestFlat RepayFlatRate) = [1, 2] \<and>
    month_index (gt_date (sr_due_date (GenerateSchedule shop_decimal (\<lambda>_ _ _. 0) 1000 12 2 0 (GoTime ex_day 7) InterestFlat
      RepayFlatRate ! 1))) = month_index ex_day + 2"
proof -
  have "valid_date ex_day" "d_day ex_day \<le> 28" by (simp_all add: ex_day_def valid_date_def days_in_def)
  from schedule_shape [OF _ _ _ this refl, of 2 1000 RepayFlatRate shop_decimal "\<lambda>_ _ _. 0" 12 0 7 InterestFlat]
  show ?thesis by (simp add: upt_rec)
qed

lemma scaled_mult_nat: "scaled n x \<Longrightarrow> scaled n (x * of_nat k)"
proof -
  assume "scaled n x"
  then have "x * 10 ^ n * of_nat k \<in> \<int>" unfolding scaled_def by (rule Ints_mult) (rule Ints_of_nat)
  then show ?thesis by (simp add: scaled_def mult_ac)
qed

text \<open>A flat-rate schedule whose rounded monthly principal leaves something for the last month asks for
  exactly the principal and exactly the simple interest of the term, to the cent.\<close>

theorem flat_rate_exact:
  assumes "decimal_arith D" "0 < P" "0 < n" "of_nat (n - 1) * dRound D 2 (dDiv D P (of_nat n)) \<le> P"
  shows "principal_sum (scheduleFlatRate D P rate n f) = P \<and>
    interest_sum (scheduleFlatRate D P rate n f) = simple_interest D P rate n"
proof -
  note r2 = decimal_arith.rounds [OF assms(1), of 2]
  let ?t = "simple_interest D P rate n"
  let ?i = "dRound D 2 (dDiv D ?t (of_nat n))"
  have "0 \<le> dRound D 2 (dDiv D P (of_nat n))"
    using assms(2,3) by (simp add: rounding.of_nonneg [OF r2] decimal_arith.div_nonneg [OF assms(1)])
  then have p: "principal_sum (scheduleFlatRate D P rate n f) = P"
    using flat.asks_for [OF assms(2,3), of D rate f] flat_no_overshoot assms(4) by (simp add: scheduleFlatRate_def Let_def)
  have "scaled 2 ?t" by (simp add: simple_interest_def rounding.repr [OF r2])
  then have "scaled 2 (?t - ?i * of_nat (n - 1))"
    by (intro scaled_diff scaled_mult_nat) (simp_all add: rounding.repr [OF r2])
  then have "dRound D 2 (?t - ?i * of_nat (n - 1)) = ?t - ?i * of_nat (n - 1)" by (rule rounding.exact [OF r2])
  then show ?thesis using p flat_interest_sum [OF assms(3)] by (simp add: scheduleFlatRate_def Let_def)
qed

theorem flat_rate_exact_witness:
  "principal_sum (scheduleFlatRate shop_decimal 1000 12 2 (GoTime ex_day 7)) = 1000 \<and>
    interest_sum (scheduleFlatRate shop_decimal 1000 12 2 (GoTime ex_day 7)) = 20"
  using flat_rate_exact [OF shop.decimal_arith_axioms, of 1000 2 12 "GoTime ex_day 7"] by (simp add: ex_rounds ex_interest)

text \<open>C23. A reducing-balance schedule asks for exactly the principal; all its totals but the last are the
  rounded annuity, and the last one differs from the exact annuity by at most one and a half cents
  a month compounded at the loan's rate. That the annuity, computed in floating point, is within a
  cent of the exact one and larger than those deviations is assumed.\<close>

theorem reducing_balance_bounds:
  assumes "decimal_arith D" "0 < P" "monthly_rate D rate = r" "0 < r"
    and "\<bar>dRound D 2 (pmt P r (Suc k)) - annuity P r (Suc k)\<bar> \<le> 1 / 100"
    and "deviation r k \<le> annuity P r (Suc k) / (1 + r)"
    and rows_def: "rows = scheduleReducingBalance D pmt P rate (Suc k) f"
  shows "principal_sum rows = P \<and>
    list_all (\<lambda>s. sr_total_due s = dRound D 2 (pmt P r (Suc k))) (butlast rows) \<and>
    \<bar>sr_total_due (last rows) - annuity P r (Suc k)\<bar> \<le> (1 + r) * deviation r k + 1 / 200"
proof -
  let ?a = "annuity P r (Suc k)"
  have rows: "rows = reducing_rows D r (dRound D 2 (pmt P r (Suc k))) f 1 (Suc k) P"
    using assms(3,4) by (simp add: rows_def scheduleReducingBalance_def Let_def del: reducing_rows.simps One_nat_def)
  have "1 / (1 + r) ^ Suc k < 1" using assms(4) one_less_power [of "1 + r" "Suc k"] by (simp del: power_Suc)
  then have a: "0 \<le> ?a" using assms(2,4) by (simp add: annuity_def del: power_Suc)
  have v: "value_left ?a r (Suc k) = P" by (rule annuity_value [OF assms(4)]) simp
  have "overshoot P rows = 0 \<and> list_all (\<lambda>s. sr_total_due s = dRound D 2 (pmt P r (Suc k))) (butlast rows) \<and>
      \<bar>sr_total_due (last rows) - ?a\<bar> \<le> (1 + r) * (0 * (1 + r) ^ k + deviation r k) + 1 / 200"
    unfolding rows by (rule reducing_deviates [OF assms(1,4) a assms(5)]) (use v assms(6) in simp_all)
  then show ?thesis
    using reducing.asks_for [OF assms(2), of "Suc k" D pmt rate f] by (simp add: rows_def)
qed

theorem reducing_balance_bounds_witness:
  "principal_sum (scheduleReducingBalance shop_decimal (\<lambda>_ _ _. 50751 / 100) 1000 12 2 (GoTime ex_day 7)) = 1000 \<and>
    \<bar>sr_total_due (last (scheduleReducingBalance shop_decimal (\<lambda>_ _ _. 50751 / 100) 1000 12 2 (GoTime ex_day 7)))
      - annuity 1000 (1 / 100) 2\<bar> \<le> 1 / 40"
proof -
  have rate: "monthly_rate shop_decimal 12 = 1 / 100"
    using rounding.exact [OF round_half_up_rounding [of 16], of "1 / 100"] by (simp add: monthly_rate_def shop_decimal_def scaled_def)
  have pmt: "dRound shop_decimal 2 (50751 / 100) = 50751 / 100"
    using rounding.exact [OF round_half_up_rounding [of 2], of "50751 / 100"] by (simp add: shop_decimal_def scaled_def)
  have a: "annuity 1000 (1 / 100) (Suc 1) = 102010 / 201" by (simp add: annuity_def)
  have d: "deviation (1 / 100) 1 = 3 / 200" by (simp add: deviation_def)
  have "\<bar>dRound shop_decimal 2 ((\<lambda>_ _ _. 50751 / 100) 1000 (1 / 100) (Suc 1)) - annuity 1000 (1 / 100) (Suc 1)\<bar> \<le> 1 / 100"
    "deviation (1 / 100) 1 \<le> annuity 1000 (1 / 100) (Suc 1) / (1 + 1 / 100)"
    unfolding a d pmt by simp_all
  from reducing_balance_bounds [OF shop.decimal_arith_axioms _ rate _ this refl, of "GoTime ex_day 7"]
  show ?thesis unfolding d Suc_1 by simp
qed

section \<open>Repayment\<close>

lemma comp_sum_upd: "comp_sum (f(c := x)) = comp_sum f - f c + x"
  by (cases c) (simp_all add: comp_sum_def)

lemma allocate_result:
  assumes "allocate E l cs f x db = (f', x', db')" "0 \<le> x" "distinct cs" "\<forall>c\<in>set cs. f c = 0"
  shows "0 \<le> x' \<and> comp_sum f' + x' = comp_sum f + x \<and> (\<forall>c. c \<notin> set cs \<longrightarrow> f' c = f c) \<and>
    (\<forall>c\<in>set cs. 0 \<le> f' c \<and> f' c \<le> max 0 (lo_balance l c)) \<and>
    sorted_wrt (\<lambda>c d. 0 < f' d \<longrightarrow> f' c = max 0 (lo_balance l c)) cs \<and>
    (0 < x' \<longrightarrow> (\<forall>c\<in>set cs. f' c = max 0 (lo_balance l c))) \<and> (x \<le> 0 \<longrightarrow> f' = f)"
  using assms
proof (induction cs arbitrary: f x db)
  case (Cons c cs)
  consider "x \<le> 0" | "0 < x" "lo_balance l c \<le> 0" | "0 < x" "0 < lo_balance l c" by linarith
  then show ?case
  proof cases
    case 1
    with Cons.prems have "f' = f" "x' = x" "x = 0" by auto
    moreover have "\<not> 0 < f ((c # cs) ! j)" if "j < length (c # cs)" for j
      using Cons.prems(4) nth_mem [OF that] by (metis less_irrefl)
    then have "sorted_wrt (\<lambda>c d. 0 < f d \<longrightarrow> f c = max 0 (lo_balance l c)) (c # cs)"
      unfolding sorted_wrt_iff_nth_less by blast
    ultimately show ?thesis using Cons.prems(4) by auto
  next
    case 2
    with Cons.prems(1) have "allocate E l cs f x db = (f', x', db')" by simp
    note ih = Cons.IH [OF this Cons.prems(2)]
    have "f' c = 0" using ih Cons.prems(3,4) by simp
    then show ?thesis using ih Cons.prems(3,4) 2 by (auto simp: max_def)
  next
    case 3
    let ?y = "min x (lo_balance l c)"
    obtain g db1 where g: "g = f(c := ?y)" and a: "allocate E l cs g (x - ?y) db1 = (f', x', db')"
      using 3 Cons.prems(1) by (auto simp: Let_def)
    have gs: "comp_sum g = comp_sum f + ?y" "g c = ?y" "\<forall>d\<in>set cs. g d = 0" "\<forall>d. d \<noteq> c \<longrightarrow> g d = f d"
      using Cons.prems(3,4) comp_sum_upd [of f c ?y] unfolding g by auto
    have "0 \<le> x - ?y" "distinct cs" using Cons.prems(3) by simp_all
    note ih = Cons.IH [OF a this gs(3)]
    have c: "f' c = ?y" using ih Cons.prems(3) gs(2) by simp
    have part: "x - ?y \<le> 0 \<and> f' = g \<and> x' = x - ?y" if "f' c \<noteq> max 0 (lo_balance l c)"
    proof -
      have "x - ?y \<le> 0" using c 3 that by (auto simp: min_def max_def split: if_splits)
      moreover from this have "f' = g" using ih by blast
      moreover from this have "x' = x - ?y" using ih by simp
      ultimately show ?thesis by blast
    qed
    have full: "f' c = max 0 (lo_balance l c)" if "d \<in> set cs" "0 < f' d" for d
      using part gs(3) that by fastforce
    have rest: "f' c = max 0 (lo_balance l c)" if "0 < x'" using part that by fastforce
    show ?thesis using ih c 3 full rest Cons.prems(3) gs by auto
  qed
qed simp

text \<open>C11. With a waterfall of distinct components an accepted repayment is positive, what is allocated and
  what is held in suspense add up to it, no component gets more than the loan owed of it nor less
  than zero, a component gets something only when those before it are paid off, and something is
  left over only when all of them are.\<close>

theorem repayment_allocates:
  assumes "PostRepaymentTx E inp ws db = Inr (db', t, al)" "distinct ws"
  shows "0 < rp_amount inp \<and> comp_sum (al_comp al) + al_suspense al = rp_amount inp \<and>
    (\<forall>c. 0 \<le> al_comp al c \<and> al_comp al c \<le> (if c \<in> set ws then max 0 (lo_balance (rp_loan inp) c) else 0)) \<and>
    (\<forall>j<length ws. \<forall>i<j. 0 < al_comp al (ws ! j) \<longrightarrow> al_comp al (ws ! i) = max 0 (lo_balance (rp_loan inp) (ws ! i))) \<and>
    (0 < al_suspense al \<longrightarrow> (\<forall>c\<in>set ws. al_comp al c = max 0 (lo_balance (rp_loan inp) c)))"
proof -
  from assms(1) obtain f x db1 where pos: "0 < rp_amount inp"
    and a: "allocate E (rp_loan inp) ws no_comp (rp_amount inp) db = (f, x, db1)"
    and al: "al = \<lparr> al_comp = f, al_suspense = (if 0 < x then x else 0) \<rparr>"
    unfolding PostRepaymentTx_def bind_ensure_Inr
    by (cases "allocate E (rp_loan inp) ws no_comp (rp_amount inp) db") (auto simp: Let_def elim!: bind_resE)
  note r = allocate_result [OF a _ assms(2)]
  show ?thesis using r pos unfolding al
    by (auto simp: no_comp_def comp_sum_simps(1) [unfolded no_comp_def] sorted_wrt_iff_nth_less less_le)
qed

theorem repayment_allocates_witness:
  "\<exists>db' al. PostRepaymentTx (ex_ln_env ex_later) ex_repay_in [Penalty, Interest, Principal, Fees]
      (ex_ln AppDisbursed [ex_accrued] [ex_accrued_row, ex_row2] [ex_fee_txn, ex_disbursement_txn, ex_accrual_txn]
        (ex_seq2((''loan_txn'', 2026) := 3)) 107) = Inr (db', ex_repay_txn, al) \<and>
    comp_sum (al_comp al) + al_suspense al = 300 \<and> al_comp al Interest = 10 \<and> al_comp al Principal = 290"
  using repayment_allocates [OF ex_PostRepayment] ex_PostRepayment
  by (simp add: ex_repay_in_def ex_alloc_def no_comp_def)

lemma repayment_txn_amount:
  assumes "PostRepaymentTx E inp ws db = Inr (db', t, al)" "ln_env_ok E" "scaled 2 (rp_amount inp)"
  shows "lx_amount t = - rp_amount inp" "0 < rp_amount inp"
proof -
  obtain f x db1 where a: "allocate E (rp_loan inp) ws no_comp (rp_amount inp) db = (f, x, db1)" by (metis prod_cases3)
  from assms(1) show pos: "0 < rp_amount inp" unfolding PostRepaymentTx_def bind_ensure_Inr by blast
  from assms(1) a obtain db2 where "finish_repayment E inp f db2 = Inr (db', t)"
    unfolding PostRepaymentTx_def bind_ensure_Inr by (auto simp: Let_def elim!: bind_resE)
  then have "lx_amount t = col E (- rp_amount inp)"
    by (auto simp: finish_repayment_def PostLoanTxnTx_def loan_txn_row_def post_loan_input_def Let_def split_def elim!: bind_resE)
  then show "lx_amount t = - rp_amount inp" using col_exact [OF assms(2), of "- rp_amount inp"] scaled_diff [of 2 0 "rp_amount inp"] assms(3) by simp
qed

lemma post_and_classify_amount:
  assumes "post_and_classify E inp db = Inr (db', r)" "ln_env_ok E" "scaled 2 (rp_amount inp)"
  shows "lx_amount (rr_txn r) < 0" "scaled 2 (lx_amount (rr_txn r))"
  using assms(1) repayment_txn_amount [OF _ assms(2,3)] assms(3)
  by (fastforce simp: post_and_classify_def elim!: bind_resE)+

lemma refused_entry:
  assumes "sv_post (le_sv E) (entry_input (le_sv E) m ref narr (debit_line code x what # ls)) db1 = Inr db'"
    and "ln_env_ok E" "se_posting (le_sv E) = Some False" "x < 0" "scaled 2 x"
  shows "\<exists>ob row. sv_outbox db' = ob @ [row] \<and>
    (\<forall>N tok hdr gl pid eid now today. \<exists>e. Post (se_dec (le_sv E)) N tok hdr gl pid eid now today (ob_payload row) = Inl e)"
proof -
  obtain row where row: "sv_outbox db' = sv_outbox db1 @ [row]"
    "pq_lines (ob_payload row) = line_dto (se_dec (le_sv E)) (debit_line code x what) # map (line_dto (se_dec (le_sv E))) ls"
    using sv_post_row [OF assms(1,3)] by (auto simp: post_body_def entry_input_def)
  have "decimal_text (se_dec (le_sv E))" using assms(2) by (simp add: ln_env_ok_def sv_env_ok_def)
  from negative_first_line [OF this assms(5,4) row(2)] row(1) show ?thesis by blast
qed


definition ex_live_env :: ln_env where
  "ex_live_env = (ex_ln_env ex_later)\<lparr>le_sv := (le_sv (ex_ln_env ex_later))\<lparr>se_posting := Some False\<rparr>\<rparr>"

lemma ex_live_simps [simp]:
  "se_dec (le_sv ex_live_env) = shop_decimal" "se_col (le_sv ex_live_env) = round_half_up 2"
  "se_now (le_sv ex_live_env) = GoTime ex_later 7" "se_clock (le_sv ex_live_env) = GoTime ex_later 7"
  "se_uuid (le_sv ex_live_env) = show_nat" "se_posting (le_sv ex_live_env) = Some False" "ln_env_ok ex_live_env"
  "\<not> le_collections ex_live_env"
  using ex_ln_env_ok [of ex_later] by (simp_all add: ex_live_env_def ln_env_ok_def sv_env_ok_def)

definition ex_bare :: ln_db where
  "ex_bare = ex_ln AppDisbursed [ex_disbursed] [] [] (\<lambda>_. 0) 200"

lemma ex_bare_repay:
  "\<exists>db' txn l. run_loan_payload ex_live_env (PayRepayment ex_repay_p) 9 ex_bare = Inr (db', txn) \<and> ld_loans db' = [l] \<and>
    lo_balance l Principal = 700"
proof -
  have al: "allocate ex_live_env ex_disbursed [Penalty, Interest, Principal, Fees] no_comp 300 ex_bare = (no_comp(Principal := 300), 0, ex_bare)"
    by (simp add: applyToSchedule_def rows_of_def ex_bare_def no_comp_def)
  have w: "GetWaterfallTx ex_bare = [Penalty, Interest, Principal, Fees]"
    by (simp add: ex_bare_def GetWaterfallTx_def ex_ops_def ParseWaterfall_def default_waterfall_def)
  have bal: "lo_balance (repay_loan ex_live_env (no_comp(Principal := 300)) ex_disbursed) Principal = 700"
    by (simp add: repay_loan_def add_comp_def no_comp_def half_exact)
  then have open_loan: "\<not> fully_cleared (repay_loan ex_live_env (no_comp(Principal := 300)) ex_disbursed)" by (simp add: fully_cleared_def)
  have st: "lo_status (repay_loan ex_live_env f l) = lo_status l" "lo_id (repay_loan ex_live_env f l) = lo_id l" for f l
    by (simp_all add: repay_loan_def)
  have "\<exists>r. run_loan_payload ex_live_env (PayRepayment ex_repay_p) 9 ex_bare = Inr r \<and>
      map (\<lambda>l. lo_balance l Principal) (ld_loans (fst r)) = [700]"
    by (simp add: run_loan_payload_def ExecuteRepaymentTx_def ex_repay_p_def value_date_or_now_def AccrueDueInterestTx_def
        debit_savings_def post_and_classify_def PostRepaymentTx_def repayable_def finish_repayment_def w al GetLoanTx_def
        ex_bare_def [THEN arg_cong, of ld_loans] ex_bare_def [THEN arg_cong, of ld_schedule]
        del: bind_res_Inr_iff allocate.simps)
      (simp add: ex_bare_def set_loan_def PostLoanTxnTx_def nextSeq_def recomputeNextDueTx_def GetLoanTx_def open_loan st stamp_next_def
        rows_of_def RecalcDPDTx_def ex_ops_def days_past_due_def release_guarantees_def settled_exists_def PostLoanRepaymentTx_def
        sv_post_def OutboxPostTx_def entry_input_def credit_nonzero_def bal dpd_status_def Let_def split_def
        del: bind_res_Inr_iff)
  then show ?thesis by (auto simp: map_eq_Cons_conv)
qed


section \<open>Disbursement\<close>

text \<open>The loan is past its disbursement, and stays so through accrual and repayments.\<close>

definition underway :: "uuid \<Rightarrow> ln_db \<Rightarrow> bool" where
  "underway lid db \<longleftrightarrow> lid \<in> lo_id ` set (ld_loans db) \<and>
     (\<forall>l\<in>set (ld_loans db). lo_id l = lid \<longrightarrow> lo_status l \<noteq> LoanPendingDisbursement)"

lemma underway_cong: "ld_loans db' = ld_loans db \<Longrightarrow> underway lid db \<Longrightarrow> underway lid db'"
  by (simp add: underway_def)

lemma underway_set_loan:
  assumes "underway lid db" "\<And>l. lo_id (f l) = lo_id l" "\<And>l. k = lid \<Longrightarrow> lo_status l \<noteq> LoanPendingDisbursement \<Longrightarrow> lo_status (f l) \<noteq> LoanPendingDisbursement"
  shows "underway lid (set_loan k f db)"
proof -
  have "map lo_id (ld_loans (set_loan k f db)) = map lo_id (ld_loans db)" using assms(2) by (simp add: set_loan_def)
  then have "lo_id ` set (ld_loans (set_loan k f db)) = lo_id ` set (ld_loans db)" unfolding set_map [symmetric] by simp
  then show ?thesis using assms by (auto simp: underway_def set_loan_def)
qed

lemma loans_PostLoanTxn [simp]: "ld_loans (fst (PostLoanTxnTx E inp db)) = ld_loans db"
  by (simp add: PostLoanTxnTx_def nextSeq_def Let_def)

lemma loans_set_rows [simp]: "ld_loans (set_rows P f db) = ld_loans db"
  by (simp add: set_rows_def)

lemma loans_after [simp]:
  "ld_loans (AutoResolveOpenPTPOnRepaymentTx E lid tid x asOf db) = ld_loans db"
  "ld_loans (release_guarantees E lid tid db) = ld_loans db"
  "ld_loans (fst (EnsureCaseForLoanTx loan db)) = ld_loans db"
proof -
  have "same_books db (AutoResolveOpenPTPOnRepaymentTx E lid tid x asOf db)" by simp
  then show "ld_loans (AutoResolveOpenPTPOnRepaymentTx E lid tid x asOf db) = ld_loans db" by (rule same_booksE) simp
  have "same_books db (fst (EnsureCaseForLoanTx loan db))" by simp
  then show "ld_loans (fst (EnsureCaseForLoanTx loan db)) = ld_loans db" by (rule same_booksE) simp
qed (simp add: release_guarantees_def)

lemma loans_apply_rows: "ld_loans (fst (apply_rows E c x rs db)) = ld_loans db"
  by (induction E c x rs db rule: apply_rows.induct) (simp_all add: Let_def split_def)

lemma loans_allocate: "allocate E l cs f x db = (f', x', db') \<Longrightarrow> ld_loans db' = ld_loans db"
  by (induction cs arbitrary: f x db) (auto simp: Let_def applyToSchedule_def loans_apply_rows split: if_splits)

lemma underway_accrue:
  assumes "AccrueDueInterestTx E k asOf user db = Inr (db', n)" "underway lid db" shows "underway lid db'"
proof -
  have row: "underway lid (accrue_row E loan user s db)" if "underway lid db" for loan s db
  proof -
    have "ld_loans (accrue_fee E loan user s db) = ld_loans db" "ld_loans (fst (accrue_interest E loan user s db)) = ld_loans db" for db
      by (simp_all add: accrue_fee_def accrue_interest_def Let_def split_def)
    then show ?thesis using that
      by (auto simp: accrue_row_def charge_def Let_def split_def intro!: underway_set_loan elim: underway_cong [rotated])
  qed
  have "underway lid (fold (accrue_row E loan user) todo db)" if "underway lid db" for loan todo db
    using that by (induction todo arbitrary: db) (auto intro: row)
  then show ?thesis using assms by (auto simp: AccrueDueInterestTx_def Let_def split: if_splits elim!: bind_resE)
qed

lemma underway_RecalcDPD:
  assumes "RecalcDPDTx E k asOf db = Inr (db', r)" "underway lid db" shows "underway lid db'"
proof -
  obtain tn where ops: "ld_ops db = Some tn" using assms(1) by (cases "ld_ops db") (simp_all add: RecalcDPDTx_def)
  let ?dpd = "days_past_due asOf (filter (overdue_row k (gt_date asOf)) (ld_schedule db))"
  let ?f = "\<lambda>loan. \<lambda>l. l\<lparr>lo_days_past_due := ?dpd, lo_arrears_classification := ClassifyDPD ?dpd (to_dpd_substandard_days tn)
     (to_dpd_doubtful_days tn) (to_dpd_loss_days tn), lo_status := dpd_status ?dpd (lo_status loan)\<rparr>"
  from assms(1) obtain loan where l: "GetLoanTx db k = Inr loan" and db': "ld_loans db' = ld_loans (set_loan k (?f loan) db)"
    unfolding RecalcDPDTx_def ops option.case Let_def by (elim bind_resE) (auto split: if_splits elim!: bind_resE)
  have "k = lid \<Longrightarrow> lo_status loan \<noteq> LoanPendingDisbursement" using assms(2) GetLoanTx_Inr [OF l] by (auto simp: underway_def)
  then have "underway lid (set_loan k (?f loan) db)"
    by (intro underway_set_loan assms(2)) (simp_all add: dpd_status_def)
  then show ?thesis by (rule underway_cong [OF db'])
qed

lemma underway_recompute:
  assumes "recomputeNextDueTx E k db = Inr db'" "underway lid db" shows "underway lid db'"
proof -
  have stamp: "underway lid (stamp_next E k db)" if "underway lid db" for db
    unfolding stamp_next_def Let_def by (intro underway_set_loan that) simp_all
  have rows: "underway lid (set_rows P f db)" if "underway lid db" for P f db
    using that by (simp add: underway_def)
  show ?thesis
    using assms by (auto simp: recomputeNextDueTx_def settle_loan_def Let_def split: if_splits elim!: bind_resE
        intro!: stamp rows underway_set_loan)
qed

lemma underway_repayment:
  assumes "PostRepaymentTx E inp ws db = Inr (db', t, al)" "underway lid db" shows "underway lid db'"
proof -
  obtain f x db1 where a: "allocate E (rp_loan inp) ws no_comp (rp_amount inp) db = (f, x, db1)" by (metis prod_cases3)
  from assms(1) a obtain t where fin: "finish_repayment E inp f (set_loan (lo_id (rp_loan inp)) (repay_loan E f) db1) = Inr (db', t)"
    unfolding PostRepaymentTx_def bind_ensure_Inr by (auto simp: Let_def elim!: bind_resE)
  have "underway lid db1" using underway_cong [OF loans_allocate [OF a] assms(2)] .
  then have u: "underway lid (set_loan (lo_id (rp_loan inp)) (repay_loan E f) db1)"
    by (rule underway_set_loan) (simp_all add: repay_loan_def)
  from fin obtain pin db2 db3 db4 r where rec: "recomputeNextDueTx E (lo_id (rp_loan inp))
      (fst (PostLoanTxnTx E pin (set_loan (lo_id (rp_loan inp)) (repay_loan E f) db1))) = Inr db2"
    and rd: "RecalcDPDTx E (lo_id (rp_loan inp)) (rp_value_date inp) db2 = Inr (db3, r)"
    and db': "ld_loans db' = ld_loans db3"
    unfolding finish_repayment_def Let_def split_def
    by (auto elim!: bind_resE split: if_splits)
  have "underway lid db2" by (rule underway_recompute [OF rec]) (rule underway_cong [OF _ u], simp)
  from underway_RecalcDPD [OF rd this] db' show ?thesis by (simp add: underway_def)
qed

lemma underway_parents:
  "settle_parents E loan kind ws maker ids db = Inr db' \<Longrightarrow> underway lid db \<Longrightarrow> underway lid db'"
proof (induction ids arbitrary: db)
  case (Cons i ids)
  from Cons.prems(1) obtain par where par: "GetLoanTx db i = Inr par" by auto
  show ?case
  proof (cases "lo_status par = LoanSettled")
    case True
    with Cons.prems par Cons.IH show ?thesis by simp
  next
    case False
    with Cons.prems(1) par obtain db1 n fresh where a: "AccrueDueInterestTx E i (clock E) maker db = Inr (db1, n)"
      and rest: "(let payoff = comp_sum (lo_balance fresh) in
       if payoff \<le> 0 then settle_parents E loan kind ws maker ids db1
       else bind_res (PostRepaymentTx E \<lparr> rp_loan = fresh, rp_amount = payoff, rp_channel = ''internal'',
           rp_channel_ref = lo_loan_no loan, rp_narration = ''Settled by '' @ kind @ dot @ lo_loan_no loan,
           rp_value_date = clock E, rp_initiated_by = maker \<rparr> ws db1) (\<lambda>(db2, _).
         settle_parents E loan kind ws maker ids db2)) = Inr db'"
      by (auto simp del: bind_res_Inr_iff elim!: bind_resE)
    with underway_accrue [OF a Cons.prems(2)] show ?thesis
      by (auto simp: Let_def simp del: bind_res_Inr_iff split: if_splits elim!: bind_resE intro: Cons.IH underway_repayment)
  qed
qed simp

lemma disbursed_underway:
  assumes "ExecuteDisbursementTx E p maker db = Inr (db', r)" shows "underway (dsp_loan_id p) db'"
proof -
  from assms obtain loan product vd plan where l: "GetLoanTx db (dsp_loan_id p) = Inr loan"
    and d: "disburse_loan E loan product p vd plan maker db = Inr (db', r)"
    unfolding ExecuteDisbursementTx_def by (auto simp: bind_ensure_Inr simp del: bind_res_Inr_iff elim!: bind_resE)
  have lid: "lo_id loan = dsp_loan_id p" using GetLoanTx_Inr [OF l] by simp
  from d obtain net fees ref target due amt db4 x db6 db7 where
    md: "MarkDisbursedTx E (lo_id loan) net fees (dsp_channel p) ref target due amt maker db4 = Inr x"
    and sa: "set_app_status (lo_application_id loan) AppDisbursed (fst x) = Inr db6"
    and sp: "settleParentLoansIfTopupOrRefinance E loan maker db6 = Inr db7"
    and db': "db' = (if le_bosa_liens E then placeBOSALienOnDisburseTx (snd x) db7 else db7)"
    unfolding disburse_loan_def Let_def split_def by (elim bind_resE) (rule that, assumption, assumption, assumption, simp)
  have up: "fst x = set_loan (lo_id loan) (mark_disbursed E net fees (dsp_channel p) ref target due amt maker) db4"
    and "GetLoanTx (fst x) (lo_id loan) = Inr (snd x)"
    using md by (auto simp: MarkDisbursedTx_def Let_def elim!: bind_resE)
  then have "dsp_loan_id p \<in> lo_id ` set (ld_loans (fst x))" using GetLoanTx_Inr lid by force
  then have "underway (dsp_loan_id p) (fst x)" unfolding up by (auto simp: underway_def set_loan_def mark_disbursed_def lid)
  then have "underway (dsp_loan_id p) db6" using sa by (auto simp: set_app_status_def bind_ensure_Inr underway_def)
  then have "underway (dsp_loan_id p) db7"
    using sp underway_parents by (auto simp: settleParentLoansIfTopupOrRefinance_def simp del: bind_res_Inr_iff split: if_splits elim!: bind_resE)
  moreover have "ld_loans (placeBOSALienOnDisburseTx (snd x) db7) = ld_loans db7"
    unfolding placeBOSALienOnDisburseTx_def by (auto split: sum.splits option.splits)
  ultimately show ?thesis unfolding db' by (auto intro: underway_cong)
qed

lemma underway_refuses: "underway (dsp_loan_id p) db \<Longrightarrow> ExecuteDisbursementTx E p maker db \<noteq> Inr r"
  by (auto simp: ExecuteDisbursementTx_def underway_def bind_ensure_Inr dest!: GetLoanTx_Inr elim!: bind_resE)


definition ex_waiting :: ln_db where
  "ex_waiting = ex_ln AppOfferAccepted [ex_loan] [] [] ex_seq1 101"

lemma ex_finalized: "\<exists>db' txn. FinalizeDisbursement (ex_ln_env ex_day) True 100 ''QX1'' ex_waiting = Inr (db', Some txn)"
proof -
  have fees: "lp_fees ex_loan_product = [ex_fee]" "lp_id ex_loan_product = 41" by (simp_all add: ex_loan_product_def)
  have p: "dsp_channel (mpesa_payload 100 ''QX1'') = ''mpesa''" "dsp_external_ref (mpesa_payload 100 ''QX1'') = Some ''QX1''"
    "dsp_target_account_id (mpesa_payload 100 ''QX1'') = None" "dsp_loan_id (mpesa_payload 100 ''QX1'') = 100"
    "dsp_value_date (mpesa_payload 100 ''QX1'') = None"
    by (simp_all add: mpesa_payload_def)
  have apps: "ld_apps (fst (PostLoanTxnTx E inp db)) = ld_apps db" for E inp db
    by (simp add: PostLoanTxnTx_def nextSeq_def Let_def)
  have fapps: "ld_apps (fst (charge_fees E loan m fs x ds db)) = ld_apps db \<and> ld_loans (fst (charge_fees E loan m fs x ds db)) = ld_loans db"
    for E loan m fs x ds db
    by (induction fs arbitrary: x ds db) (simp_all add: Let_def apps)
  have e: "ExecuteDisbursementTx (ex_ln_env ex_day) (mpesa_payload 100 ''QX1'') 0 ex_waiting =
     disburse_loan (ex_ln_env ex_day) ex_loan ex_loan_product (mpesa_payload 100 ''QX1'') (GoTime ex_day 7)
       (disbursement_plan (ex_ln_env ex_day) ex_loan (GoTime ex_day 7)) 0 ex_waiting"
    by (simp add: ExecuteDisbursementTx_def value_date_or_now_def p GetLoanTx_def GetLoanProductTx_def fees ex_waiting_def
        coverage_gate_def disbursement_plan_def del: bind_res_Inr_iff)
  have md: "lo_id (mark_disbursed E a b ch ref tgt due amt u ex_loan) = 100" for E a b ch ref tgt due amt u
    by (simp add: mark_disbursed_id)
  have "\<exists>x. disburse_loan (ex_ln_env ex_day) ex_loan ex_loan_product (mpesa_payload 100 ''QX1'') (GoTime ex_day 7)
       (disbursement_plan (ex_ln_env ex_day) ex_loan (GoTime ex_day 7)) 0 ex_waiting = Inr x"
    unfolding ex_plan disburse_loan_def ex_waiting_def
    by (simp add: ex_SaveSchedule [unfolded One_nat_def] p credit_target_def MarkDisbursedTx_def set_loan_def GetLoanTx_def md apps fapps
        set_app_status_def settleParentLoansIfTopupOrRefinance_def GetAppTx_def Let_def split_def
        del: bind_res_Inr_iff SaveScheduleTx.simps charge_fees.simps)
  then obtain db1 r where d: "ExecuteDisbursementTx (ex_ln_env ex_day) (mpesa_payload 100 ''QX1'') 0 ex_waiting = Inr (db1, r)"
    unfolding e by force
  have post: "\<exists>db'. sv_post (le_sv (ex_ln_env ex_day)) inp db = Inr db'" for inp and db :: ln_db
    by (simp add: sv_post_def OutboxPostTx_def)
  have "\<exists>db'. PostLoanDisbursementTx (ex_ln_env ex_day) (lx_id (dd_txn r)) (dd_loan r) (dd_net r) (dd_fee_lines r) ''mpesa'' db1 = Inr db'"
    unfolding PostLoanDisbursementTx_def Let_def by (rule post)
  then obtain db' where "PostLoanDisbursementTx (ex_ln_env ex_day) (lx_id (dd_txn r)) (dd_loan r) (dd_net r) (dd_fee_lines r) ''mpesa'' db1 = Inr db'" ..
  moreover have "GetLoanTx ex_waiting 100 = Inr ex_loan" by (simp add: ex_waiting_def GetLoanTx_def)
  ultimately show ?thesis using d
    by (simp add: FinalizeDisbursement_def run_loan_payload_def p del: bind_res_Inr_iff)
qed


lemma ex_executed:
  "ExecuteDisbursementTx (ex_ln_env ex_day) ex_disburse_p 9 ex_waiting = Inr (ex_ln AppDisbursed [ex_disbursed] ex_schedule
     [ex_fee_txn, ex_disbursement_txn] ex_seq2 105, \<lparr> dd_loan = ex_disbursed, dd_net = 980,
     dd_fee_lines = fee_lines [(''4010'', 20)], dd_txn = ex_disbursement_txn \<rparr>)"
  using ex_disbursed_run ex_plan unfolding ex_waiting_def
  by (simp add: ExecuteDisbursementTx_def value_date_or_now_def ex_disburse_p_def GetLoanTx_def GetLoanProductTx_def
      coverage_gate_def disbursement_plan_def ex_loan_product_def del: bind_res_Inr_iff)

lemma ex_waiting_reach: "ln_reach ex_waiting"
  unfolding ex_waiting_def
  by (rule ln_reach_step [OF ln_reach_start [OF ex_ln_start] ex_ln_env_ok lw_accept [OF ex_accepted]])

lemma ex_deducted: "lo_total_fees_deducted ex_disbursed = 20"
  by (simp add: ex_disbursed_def mark_disbursed_def half_exact)

text \<open>C31. A disbursed loan owes its principal and, again, the fees that were deducted from the payment: what
  the member got and what the member owes differ by twice the fees (unless they exceed the
  principal).\<close>

theorem upfront_fees_owed_again:
  assumes "ExecuteDisbursementTx E p maker db = Inr (db', r)" "ln_env_ok E" "ln_reach db" "fair E (PayDisbursement p) db"
    and "lo_total_fees_deducted (dd_loan r) \<le> lo_principal (dd_loan r)"
  shows "lo_balance (dd_loan r) Principal = lo_principal (dd_loan r) \<and>
    lo_balance (dd_loan r) Fees = lo_total_fees_deducted (dd_loan r) \<and>
    dd_net r = lo_principal (dd_loan r) - lo_total_fees_deducted (dd_loan r) \<and>
    comp_sum (lo_balance (dd_loan r)) = dd_net r + 2 * lo_total_fees_deducted (dd_loan r)"
proof -
  note b = reach_books [OF assms(3)]
  obtain loan tot ch ref target due amt where l: "GetLoanTx db (dsp_loan_id p) = Inr loan" "lo_status loan = LoanPendingDisbursement"
    and tot: "0 \<le> tot" "scaled 2 tot" and net: "dd_net r = (if lo_principal loan - tot < 0 then 0 else lo_principal loan - tot)"
    and dd: "dd_loan r = mark_disbursed E (dd_net r) tot ch ref target due amt maker loan"
    using ExecuteDisbursement_result [OF assms(1,2) b assms(4)] by blast
  have lm: "loan \<in> set (ld_loans db)" using GetLoanTx_Inr [OF l(1)] by simp
  have "lo_charged loan = no_comp" using booksD(8) [OF b lm] l(2) by (simp add: pending_ok_def)
  note z = pending_zero [OF b lm this]
  have f: "lo_total_fees_deducted (dd_loan r) = tot" "lo_principal (dd_loan r) = lo_principal loan"
    "lo_balance (dd_loan r) = no_comp(Principal := lo_principal loan, Fees := tot)"
    unfolding dd by (simp_all add: mark_disbursed_def z col_exact [OF assms(2) tot(2)])
  have "\<not> lo_principal loan - tot < 0" using assms(5) by (simp add: f)
  with net have "dd_net r = lo_principal loan - tot" by simp
  then show ?thesis unfolding f by (simp add: comp_sum_def no_comp_def)
qed

theorem upfront_fees_owed_again_witness:
  "\<exists>db' r. ExecuteDisbursementTx (ex_ln_env ex_day) ex_disburse_p 9 ex_waiting = Inr (db', r) \<and> dd_net r = 980 \<and>
    comp_sum (lo_balance (dd_loan r)) = 1020"
  using upfront_fees_owed_again [OF ex_executed ex_ln_env_ok ex_waiting_reach ex_fair [folded ex_waiting_def]] ex_executed
  by (simp add: ex_deducted)

section \<open>Restructuring\<close>

text \<open>C33. A moratorium that suspends interest marks every open installment as accrued: no later accrual, at
  whatever date, posts interest or fees of any of them, though they stay due.\<close>

theorem moratorium_stops_accrual:
  assumes "MoratoriumTx E lid n True why user db = Inr (db', l)"
  shows "AccrueDueInterestTx E' lid asOf user' db' = Inr (db', 0) \<and>
    map si_due (filter (\<lambda>s. si_loan_id s = lid) (ld_schedule db')) = map si_due (filter (\<lambda>s. si_loan_id s = lid) (ld_schedule db))"
proof -
  let ?mine = "\<lambda>s. si_loan_id s = lid \<and> open_row s"
  let ?f = "\<lambda>s. s\<lparr>si_due_date := pg_add_months (si_due_date s) n\<rparr>"
  let ?g = "\<lambda>s. s\<lparr>si_accrued_at := (case si_accrued_at s of None \<Rightarrow> Some (now_db E) | Some t \<Rightarrow> Some t)\<rparr>"
  from assms have sched: "ld_schedule db' = map (\<lambda>s. if ?mine s then ?g s else s) (map (\<lambda>s. if ?mine s then ?f s else s) (ld_schedule db))"
    unfolding MoratoriumTx_def bind_ensure_Inr Let_def
    by (auto simp: insertRestructuringTx_def set_loan_def set_rows_def bind_ensure_Inr simp del: map_map elim!: bind_resE)
  have op: "open_row (?f s) = open_row s" "open_row (?g s) = open_row s" for s by (simp_all add: open_row_def)
  have "\<not> due_for_accrual lid d s" if s: "s \<in> set (ld_schedule db')" for d s
  proof -
    obtain r where "s = (if ?mine r then ?g r else r)" using s unfolding sched list.set_map by blast
    then show ?thesis by (auto simp: due_for_accrual_def op split: if_splits option.splits)
  qed
  then have "filter (due_for_accrual lid (gt_date asOf)) (ld_schedule db') = []" by (auto simp: filter_empty_conv)
  moreover have "map si_due (filter (\<lambda>s. si_loan_id s = lid) (map (\<lambda>s. if ?mine s then h s else s) ss)) =
      map si_due (filter (\<lambda>s. si_loan_id s = lid) ss)" if "\<And>s. si_loan_id (h s) = si_loan_id s \<and> si_due (h s) = si_due s" for h ss
    using that by (induction ss) auto
  ultimately show ?thesis unfolding sched by (simp add: AccrueDueInterestTx_def sched del: map_map)
qed

theorem moratorium_stops_accrual_witness:
  "\<exists>db' l. MoratoriumTx (ex_ln_env ex_later) 100 3 True ''flood'' 9 (ex_ln3 109) = Inr (db', l) \<and>
    AccrueDueInterestTx (ex_ln_env ex_later) 100 (GoTime (Date 2030 1 1) 0) 9 db' = Inr (db', 0)"
proof -
  have "\<exists>x. MoratoriumTx (ex_ln_env ex_later) 100 3 True ''flood'' 9 (ex_ln3 109) = Inr x"
    by (simp add: MoratoriumTx_def repayable_def Let_def del: bind_res_Inr_iff) (simp add: GetLoanTx_def set_loan_def set_rows_def ex_ln3_def)
  then show ?thesis using moratorium_stops_accrual by force
qed

text \<open>An agreed settlement leaves the loan owing nothing and settled whatever the discount, a cent
  included; the transaction on file records only the discount, all of it as principal.\<close>

theorem settlement_clears_any_balance:
  assumes "SettlementDiscountTx E lid x why user db = Inr (db', rc, l')" "ln_env_ok E" "scaled 2 x"
  shows "lo_balance l' = no_comp \<and> lo_status l' = LoanSettled \<and> 0 < x \<and>
    (\<exists>t. ld_txns db' = ld_txns db @ [t] \<and> rs_discount_writeoff_txn_id rc = Some (lx_id t) \<and> lx_type t = LoanTxnSettlementDiscount \<and>
      lx_amount t = - x \<and> lx_comp t = only Principal x)"
proof -
  from assms(1) obtain loan where x: "0 < x" and l: "GetLoanTx db lid = Inr loan"
    unfolding SettlementDiscountTx_def bind_ensure_Inr by (auto elim!: bind_resE)
  define inp where "inp = (post_loan_input loan LoanTxnSettlementDiscount (- x) (only Principal x) ''internal''
      (''Settlement discount'' @ dot @ why) user)\<lparr>li_authorized_by := Some user\<rparr>"
  obtain db1 t where p: "PostLoanTxnTx E inp db = (db1, t)" by force
  obtain no tid where t: "t = loan_txn_row E inp no tid" "ld_txns db1 = ld_txns db @ [t]" "ld_loans db1 = ld_loans db"
    using p by (auto simp: PostLoanTxnTx_def nextSeq_def Let_def)
  from assms(1) have g: "GetLoanTx (set_rows (\<lambda>s. si_loan_id s = lid \<and> open_row s) (settle_row E) (set_loan lid (clear_loan E) db1)) lid = Inr l'"
    and rc: "rs_discount_writeoff_txn_id rc = Some (lx_id t)" and db': "ld_txns db' = ld_txns db1"
    unfolding SettlementDiscountTx_def x bind_ensure_Inr l bind_res_simps inp_def [symmetric] p Let_def prod.case
    by (auto simp: insertRestructuringTx_def set_loan_def set_rows_def restructuring_row_def elim!: bind_resE)
  have "GetLoanTx db1 lid = Inr loan" using l t(3) by (simp add: GetLoanTx_def)
  from GetLoanTx_set_loan [OF this, of "clear_loan E"] g GetLoanTx_Inr [OF l]
  have l': "l' = clear_loan E loan" by (simp add: GetLoanTx_def clear_loan_def)
  have "lx_comp t = only Principal x" "lx_amount t = - x" "lx_type t = LoanTxnSettlementDiscount"
    using col_exact [OF assms(2,3)] col_exact [OF assms(2), of "- x"] scaled_diff [of 2 0 x] assms(3) rounding.zero [OF col_rounding [OF assms(2)]]
    unfolding t(1) by (auto simp: loan_txn_row_def inp_def post_loan_input_def only_def)
  then show ?thesis using x l' rc db' t(2) by (simp add: clear_loan_def)
qed

theorem settlement_clears_any_balance_witness:
  "\<exists>db' rc l'. SettlementDiscountTx (ex_ln_env ex_later) 100 50 ''hardship'' 9 (ex_ln3 109) = Inr (db', rc, l') \<and>
    comp_sum (lo_balance ex_repaid) = 730 \<and> lo_balance l' = no_comp"
proof -
  obtain db l ids where "ex_settle 50 = Inr (db, Posted ids)" using ex_settled by blast
  then obtain db' rc l' where r: "SettlementDiscountTx (ex_ln_env ex_later) 100 50 ''hardship'' 9 (ex_ln3 109) = Inr (db', rc, l')"
    by (auto simp: ex_settle_def SettlementDiscount_def gated_def elim!: bind_resE)
  have "comp_sum (lo_balance ex_repaid) = 730" by (simp add: comp_sum_def no_comp_def)
  with settlement_clears_any_balance [OF r ex_ln_env_ok] r show ?thesis by simp
qed

section \<open>Cover\<close>

lemma cover_pct_bounds:
  assumes "decimal_arith D" "0 < a" "scaled 2 m"
  shows "m \<le> 100 * (p / a) \<Longrightarrow> m \<le> cover_pct D p a" "m \<le> cover_pct D p a \<Longrightarrow> m - (1 / 200 + 1 / 10 ^ 14) \<le> 100 * (p / a)"
proof -
  note r2 = decimal_arith.rounds [OF assms(1), of 2] and r16 = decimal_arith.rounds [OF assms(1), of 16]
  have c: "cover_pct D p a = dRound D 2 (dRound D 16 (p / a) * 100)"
    using assms(2) by (simp add: cover_pct_def decimal_arith.div_eq [OF assms(1)])
  have m16: "scaled 16 (m / 100)"
  proof -
    have "m * 10 ^ 2 * 10 ^ 12 \<in> \<int>" using assms(3) unfolding scaled_def by (rule Ints_mult) simp
    then show ?thesis by (simp add: scaled_def)
  qed
  show "m \<le> cover_pct D p a" if "m \<le> 100 * (p / a)"
  proof -
    have "m / 100 \<le> dRound D 16 (p / a)" using that by (intro rounding.ge_of_ge [OF r16 _ m16]) (simp add: field_simps)
    then have "m \<le> dRound D 16 (p / a) * 100" by simp
    then show ?thesis unfolding c by (rule rounding.ge_of_ge [OF r2 _ assms(3)])
  qed
  show "m - (1 / 200 + 1 / 10 ^ 14) \<le> 100 * (p / a)" if "m \<le> cover_pct D p a"
    using that rounding.upper [OF r2, of "dRound D 16 (p / a) * 100"] rounding.upper [OF r16, of "p / a"] unfolding c by simp
qed

text \<open>With a positive amount, guarantors or collateral that cover the required percentage pass the policy's
  test, and what passes falls short of it by no more than the half of a hundredth of a percent that
  rounding the percentage gives away (and the sixteenth decimal of the division).\<close>

theorem coverage_tolerance:
  assumes "decimal_arith D" "0 < cv_loan_amount c" "scaled 2 (sp_min_guarantor_cover_pct p)" "scaled 2 (sp_min_collateral_cover_pct p)"
  shows "(sp_min_guarantor_cover_pct p \<le> 100 * (cv_guarantor_pledged c / cv_loan_amount c) \<longrightarrow> cr_guarantor_passes (Evaluate D c p)) \<and>
    (cr_guarantor_passes (Evaluate D c p) \<longrightarrow>
      sp_min_guarantor_cover_pct p - (1 / 200 + 1 / 10 ^ 14) \<le> 100 * (cv_guarantor_pledged c / cv_loan_amount c)) \<and>
    (sp_min_collateral_cover_pct p \<le> 100 * (cv_collateral_fsv c / cv_loan_amount c) \<longrightarrow> cr_collateral_passes (Evaluate D c p)) \<and>
    (cr_collateral_passes (Evaluate D c p) \<longrightarrow>
      sp_min_collateral_cover_pct p - (1 / 200 + 1 / 10 ^ 14) \<le> 100 * (cv_collateral_fsv c / cv_loan_amount c))"
  using cover_pct_bounds [OF assms(1,2,3)] cover_pct_bounds [OF assms(1,2,4)] assms(2) by (simp add: Evaluate_def Let_def)

definition ex_cover :: coverage where
  "ex_cover = \<lparr> cv_guarantor_pledged = 999996, cv_collateral_fsv = 0, cv_loan_amount = 1000000 \<rparr>"

definition ex_policy :: security_policy where
  "ex_policy = \<lparr> sp_security_model = ''guarantor_only'', sp_min_guarantor_cover_pct = 100, sp_min_collateral_cover_pct = 0 \<rparr>"

theorem coverage_tolerance_witness:
  "cr_policy_met (Evaluate shop_decimal ex_cover ex_policy) \<and> cv_guarantor_pledged ex_cover < cv_loan_amount ex_cover \<and>
    100 - (1 / 200 + 1 / 10 ^ 14) \<le> 100 * (cv_guarantor_pledged ex_cover / cv_loan_amount ex_cover)"
proof -
  have e: "round_half_up 16 (249999 / 250000) = 249999 / 250000"
    by (rule rounding.exact [OF round_half_up_rounding]) (simp add: scaled_def)
  have h: "round_half_up 2 (249999 / 2500) = 100" by (simp add: round_half_up_def round_away_def floor_eq_iff)
  have "cover_pct shop_decimal 999996 1000000 = 100" by (simp add: cover_pct_def shop_decimal_def e h)
  then have "cr_guarantor_passes (Evaluate shop_decimal ex_cover ex_policy)" "cr_policy_met (Evaluate shop_decimal ex_cover ex_policy)"
    by (simp_all add: Evaluate_def ex_cover_def ex_policy_def Let_def)
  with coverage_tolerance [OF shop.decimal_arith_axioms, of ex_cover ex_policy] show ?thesis
    by (simp add: ex_cover_def ex_policy_def)
qed

end
