(* ===== verification/PayoutProperties.thy ===== *)
theory PayoutProperties
  imports PayoutSystem LoanProperties
begin

text \<open>
  The properties of outgoing M-PESA payments: how often a request can be paid, what becomes of a
  request that left the queue, that the dispatcher empties the queue, and where the payment and the
  loan's own tables part. The example is the waiting loan of \<open>LoanProperties\<close>.
\<close>

section \<open>The example\<close>

definition ex_pay_env :: payout_env where
  "ex_pay_env = \<lparr> pe_ln = (ex_ln_env ex_day)\<lparr>le_phone := (\<lambda>_. Some ''0712345678''), le_b2c_paybill := Some 7\<rparr>,
     pe_parse_uuid = (\<lambda>s. if s = show_nat 100 then Some 100 else None), pe_savings = True, pe_trusted = True \<rparr>"

definition ex_paybill :: paybill where
  "ex_paybill = \<lparr> pb_id = 7, pb_tenant_id = 1, pb_label = ''payouts'', pb_shortcode = ''600100'',
     pb_strict_validation = False, pb_allow_msisdn_fallback = False, pb_webhook_token = ''tok'' \<rparr>"

definition ex_mpesa_p :: disbursement_payload where
  "ex_mpesa_p = mpesa_payload 100 []"

definition ex_out :: outbound where
  "ex_out = new_outbound ex_pay_env (loan_payment ex_pay_env ex_loan) 500"

definition ex_py :: "ln_db \<Rightarrow> outbound list \<Rightarrow> (uuid \<times> bool) list \<Rightarrow> work list \<Rightarrow> uuid \<Rightarrow> py_db" where
  "ex_py ld rs acc ws n = \<lparr> py_loans = ld, py_paybills = [ex_paybill], py_wf = \<lparr> db_definitions = [], db_instances = (\<lambda>_. None), db_actions = [] \<rparr>,
     py_rows = rs, py_accepted = acc, py_todo = ws, py_supply = n \<rparr>"

definition ex_host :: b2c_host where
  "ex_host = \<lparr> bh_creds = (\<lambda>_. Some (''key'', ''secret'', ''api'', ''pw'')), bh_oauth = (\<lambda>_ _. Some ''bearer''),
     bh_encode = (\<lambda>_. Some ''cred''), bh_submit = (\<lambda>_ _. (True, Some (''0'', ''AG_1'', ''O_1''))) \<rparr>"


definition ex_asked :: ln_db where
  "ex_asked = ex_waiting\<lparr>ld_outbound := [100]\<rparr>"

definition ex_sent :: outbound where
  "ex_sent = ex_out\<lparr>or_status := OutboundSent, or_daraja_conversation_id := Some ''AG_1'', or_daraja_originator_id := Some ''O_1''\<rparr>"

lemma filter_length_le: "(\<And>x. P x \<Longrightarrow> Q x) \<Longrightarrow> length (filter P xs) \<le> length (filter Q xs)"
  by (induction xs) auto

lemma ex_digits: "mpesaMSISDN ''0712345678'' = Some ''254712345678''"
  by (simp add: mpesaMSISDN_def)

lemma ex_asked_simps [simp]: "GetLoanTx ex_waiting 100 = Inr ex_loan" "ld_outbound ex_waiting = []" "\<not> gated pl ex_waiting"
    "GetLoanTx ex_asked 100 = Inr ex_loan" "ld_outbound ex_asked = [100]" "\<not> gated pl ex_asked"
  by (simp_all add: ex_asked_def ex_waiting_def GetLoanTx_def gated_def) (simp_all add: ex_ln_def)

lemma ex_py_simps [simp]:
  "py_loans (ex_py ld rs acc ws n) = ld" "py_rows (ex_py ld rs acc ws n) = rs" "py_accepted (ex_py ld rs acc ws n) = acc"
  "py_todo (ex_py ld rs acc ws n) = ws" "py_supply (ex_py ld rs acc ws n) = n" "py_paybills (ex_py ld rs acc ws n) = [ex_paybill]"
  "(ex_py ld rs acc ws n)\<lparr>py_loans := ld'\<rparr> = ex_py ld' rs acc ws n" "(ex_py ld rs acc ws n)\<lparr>py_rows := rs'\<rparr> = ex_py ld rs' acc ws n"
  "(ex_py ld rs acc ws n)\<lparr>py_accepted := acc'\<rparr> = ex_py ld rs acc' ws n" "(ex_py ld rs acc ws n)\<lparr>py_todo := ws'\<rparr> = ex_py ld rs acc ws' n"
  "(ex_py ld rs acc ws n)\<lparr>py_supply := n'\<rparr> = ex_py ld rs acc ws n'"
  by (simp_all add: ex_py_def)

lemma ex_out_simps [simp]:
  "or_id ex_out = 500" "or_status ex_out = OutboundPending" "or_source_module ex_out = disbursements" "or_source_ref ex_out = show_nat 100"
  "or_paybill_id ex_out = 7" "or_msisdn ex_out = ''254712345678''" "or_amount ex_out = 1000" "or_kind ex_out = OutboundB2CDisbursement"
  by (simp_all add: ex_out_def new_outbound_def loan_payment_def ex_pay_env_def ex_digits half_exact)

lemma ex_sent_simps [simp]:
  "or_id ex_sent = 500" "or_status ex_sent = OutboundSent" "or_source_module ex_sent = disbursements" "or_source_ref ex_sent = show_nat 100"
  "or_amount ex_sent = 1000" "or_daraja_conversation_id ex_sent = Some ''AG_1''"
  by (simp_all add: ex_sent_def)

lemma ex_ask_loan:
  "Disburse (pe_ln ex_pay_env) 9 ex_mpesa_p ex_waiting = Inr (ex_asked, Posted [])"
  "Disburse (pe_ln ex_pay_env) 9 ex_mpesa_p ex_asked = Inr (ex_asked, Posted [])"
  by (simp_all add: Disburse_def disburse_mpesa_def ex_mpesa_p_def mpesa_payload_def ToLower_def ex_digits queue_outbound_def
      ex_pay_env_def del: bind_res_Inr_iff) (simp add: ex_asked_def)

lemma ex_channel: "LoanExecutors.ToLower (dsp_channel ex_mpesa_p) = ''mpesa''" "dsp_loan_id ex_mpesa_p = 100"
  by (simp_all add: ex_mpesa_p_def mpesa_payload_def ToLower_def)

lemma ex_ask: "PayoutDisburse ex_pay_env 9 ex_mpesa_p (ex_py ex_waiting [] [] [] 500) =
    Inr (ex_py ex_asked [ex_out] [] [] 501, Posted [])"
  by (simp add: PayoutDisburse_def ex_ask_loan queue_payment_def ex_channel row_with_key_def add_row_def ex_out_def Let_def
      del: bind_res_Inr_iff)

lemma ex_dispatch: "lease_and_dispatch ex_pay_env ex_host True {} True (ex_py ex_asked [ex_out] [] [] 501) =
    (ex_py ex_asked [ex_sent] [(500, True)] [] 501, PassSent 500)"
  by (simp add: lease_and_dispatch_def LeaseOutboundTx_def dispatch_def ex_paybill_def [THEN arg_cong, of pb_id] ex_host_def
      SubmitB2C_def b2c_request_of_def MarkSentTx_def set_out_def note_accepted_def ex_sent_def)

lemma ex_sent_reach: "py_reach (ex_py ex_asked [ex_sent] [(500, True)] [] 501)"
proof -
  have "py_reach (ex_py ex_asked [ex_out] [] [] 501)"
    by (rule py_reach_step [OF py_reach_start ps_disburse [OF ex_ask]]) (simp add: py_start_def)
  from py_reach_step [OF this ps_dispatch [OF ex_dispatch]] show ?thesis by simp
qed

section \<open>How often a request is paid\<close>

text \<open>C7. In every state that requests, dispatchers, callbacks and crashes can reach, a source has one row, and
  the payments Safaricom accepted for a row are at most one more than those whose acceptance was
  lost with the transaction that was to record it; while the row is pending, at most those.\<close>

theorem payment_sent_once:
  assumes "py_reach db" "r \<in> set (py_rows db)"
  shows "(\<forall>r'\<in>set (py_rows db). or_source_module r' = or_source_module r \<and> or_source_ref r' = or_source_ref r \<longrightarrow> r' = r) \<and>
    accepted_for (or_id r) db \<le> lost_for (or_id r) db + 1 \<and>
    (or_status r = OutboundPending \<longrightarrow> accepted_for (or_id r) db = lost_for (or_id r) db)"
proof -
  note i = py_reach_inv [OF assms(1), unfolded py_inv_def]
  have "lost_for (or_id r) db \<le> accepted_for (or_id r) db"
    unfolding lost_for_def accepted_for_def by (rule filter_length_le) simp
  moreover have "r' = r" if "r' \<in> set (py_rows db)" "row_key r' = row_key r" for r'
    using i assms(2) that by (auto simp: distinct_map inj_on_def)
  ultimately show ?thesis using i assms(2) by (fastforce simp: row_key_def split: if_splits)
qed

theorem payment_sent_once_witness:
  "py_reach (ex_py ex_asked [ex_sent] [(500, True)] [] 501) \<and> accepted_for 500 (ex_py ex_asked [ex_sent] [(500, True)] [] 501) = 1 \<and>
    accepted_for 500 (ex_py ex_asked [ex_sent] [(500, True)] [] 501) \<le> lost_for 500 (ex_py ex_asked [ex_sent] [(500, True)] [] 501) + 1"
  using payment_sent_once [OF ex_sent_reach, of ex_sent] ex_sent_reach by (simp add: accepted_for_def)

text \<open>C16. A row that is no longer pending is settled for good: whatever happens later, it is not pending again,
  its amount stands, nothing more is paid for it, and a new request to disburse its loan, though it
  is answered as accepted, adds no row. A payment that failed or was returned cannot be asked for
  again.\<close>

theorem never_paid_again:
  assumes "py_reach db" "r \<in> set (py_rows db)" "or_status r \<noteq> OutboundPending" "py_later db db'"
  shows "accepted_for (or_id r) db' = accepted_for (or_id r) db \<and>
    (\<exists>r'\<in>set (py_rows db'). or_id r' = or_id r \<and> or_amount r' = or_amount r \<and> or_status r' \<noteq> OutboundPending) \<and>
    (\<forall>E user p db2 out. or_source_module r = disbursements \<and> or_source_ref r = uuid_text E (dsp_loan_id p) \<and>
       PayoutDisburse E user p db' = Inr (db2, out) \<longrightarrow> py_rows db2 = py_rows db')"
proof -
  have "left_queue r db" using assms(2,3) by (auto simp: left_queue_def)
  note l = left_queue_later [OF assms(4,1) this]
  then have "row_with_key db' (or_source_module r) (or_source_ref r) \<noteq> None" using left_queue_key by blast
  then have "py_rows db2 = py_rows db'" if "or_source_module r = disbursements" "or_source_ref r = uuid_text E (dsp_loan_id p)"
    "PayoutDisburse E user p db' = Inr (db2, out)" for E user p db2 out
    using requested_already [OF that(3)] that(1,2) by simp
  moreover have "\<exists>r'\<in>set (py_rows db'). or_id r' = or_id r \<and> or_amount r' = or_amount r \<and> or_status r' \<noteq> OutboundPending"
    using l by (auto simp: left_queue_def)
  ultimately show ?thesis using l by blast
qed

definition ex_timeout :: b2c_result where
  "ex_timeout = \<lparr> br_code = 1, br_desc = ''timeout'', br_conversation_id = ''AG_1'', br_transaction_id = [], br_params = [] \<rparr>"

lemma ex_auth: "authWebhook (Some 7) ''tok'' (ex_py ld rs acc ws n) = Some ex_paybill"
  by (simp add: authWebhook_def) (simp add: ex_paybill_def)

lemma ex_lookup: "ByConversationIDTx ''AG_1'' (ex_py ld [r] acc ws n) =
    (if or_daraja_conversation_id r = Some ''AG_1'' then Inr r else Inl MpNotFound)"
  by (simp add: ByConversationIDTx_def TrimSpace_def is_space_def orNotFound_def)

definition ex_failed :: outbound where
  "ex_failed = ex_sent\<lparr>or_status := OutboundFailed, or_result_desc := Some ''Daraja queue timeout''\<rparr>"

lemma ex_times_out: "Timeout (Some 7) ''tok'' (Some ex_timeout) (ex_py ex_asked [ex_sent] [(500, True)] [] 501) =
    (ex_py ex_asked [ex_failed] [(500, True)] [] 501, daraja 0 ''Received'')"
  by (simp add: Timeout_def ex_auth ex_timeout_def ex_lookup MarkOutboundFailedTx_def set_out_def ex_failed_def)

theorem never_paid_again_witness:
  "\<exists>db2. PayoutDisburse ex_pay_env 9 ex_mpesa_p (ex_py ex_asked [ex_failed] [(500, True)] [] 501) = Inr (db2, Posted []) \<and>
    py_rows db2 = [ex_failed] \<and> or_status ex_failed = OutboundFailed \<and> accepted_for 500 (ex_py ex_asked [ex_failed] [(500, True)] [] 501) = 1"
proof -
  let ?db = "ex_py ex_asked [ex_sent] [(500, True)] [] 501" and ?db' = "ex_py ex_asked [ex_failed] [(500, True)] [] 501"
  have later: "py_later ?db ?db'" by (rule py_later_step [OF py_later_refl ps_timeout [OF ex_times_out]])
  obtain db2 where d: "PayoutDisburse ex_pay_env 9 ex_mpesa_p ?db' = Inr (db2, Posted [])"
    by (simp add: PayoutDisburse_def ex_ask_loan Let_def del: bind_res_Inr_iff)
  have m: "ex_sent \<in> set (py_rows ?db)" "or_status ex_sent \<noteq> OutboundPending" by simp_all
  note t = never_paid_again [OF ex_sent_reach m later, THEN conjunct2, THEN conjunct2, THEN spec, of ex_pay_env, THEN spec, of 9,
      THEN spec, of ex_mpesa_p, THEN spec, of db2, THEN spec, of "Posted []"]
  have "show_nat 100 = uuid_text ex_pay_env (dsp_loan_id ex_mpesa_p)" by (simp add: ex_channel ex_pay_env_def)
  then have "py_rows db2 = py_rows ?db'" using t d by simp
  with d show ?thesis by (simp add: accepted_for_def) (simp add: ex_failed_def)
qed

section \<open>The dispatcher\<close>

definition pending_rows :: "py_db \<Rightarrow> nat" where
  "pending_rows db = length (filter (\<lambda>r. or_status r = OutboundPending) (py_rows db))"

lemma filter_map_less:
  assumes "x \<in> set xs" "P x" "\<not> P (f x)" "\<And>y. P (f y) \<Longrightarrow> P y"
  shows "length (filter P (map f xs)) < length (filter P xs)"
proof -
  have le: "length (filter P (map f ys)) \<le> length (filter P ys)" for ys
    using assms(4) by (induction ys) auto
  from assms(1) obtain ys zs where "xs = ys @ x # zs" by (meson split_list)
  then show ?thesis using le [of ys] le [of zs] assms(2,3) by simp
qed

lemma set_out_drains:
  assumes "r \<in> set (py_rows db)" "or_status r = OutboundPending" "\<And>r. or_status (f r) \<noteq> OutboundPending"
  shows "\<exists>db'. set_out (or_id r) f db = Inr db' \<and> pending_rows db' < pending_rows db"
proof -
  let ?g = "\<lambda>r'. if or_id r' = or_id r then f r' else r'"
  have "or_status (?g y) = OutboundPending \<Longrightarrow> or_status y = OutboundPending" for y
    using assms(3) [of y] by (simp split: if_splits)
  moreover have "or_status (?g r) \<noteq> OutboundPending" using assms(3) by simp
  ultimately have "length (filter (\<lambda>r. or_status r = OutboundPending) (map ?g (py_rows db))) <
      length (filter (\<lambda>r. or_status r = OutboundPending) (py_rows db))"
    by (intro filter_map_less [where x = r] assms(1,2))
  moreover have "set_out (or_id r) f db = Inr (db\<lparr>py_rows := map ?g (py_rows db)\<rparr>)" using assms(1) by (auto simp: set_out_def)
  ultimately show ?thesis unfolding pending_rows_def by (intro exI [of _ "db\<lparr>py_rows := map ?g (py_rows db)\<rparr>"]) simp
qed

lemma pass_drains:
  assumes "0 < pending_rows db"
  shows "pending_rows (fst (processOne E h tok commit db)) < pending_rows db"
proof -
  have "filter (\<lambda>r. or_status r = OutboundPending) (py_rows db) \<noteq> []" using assms by (auto simp: pending_rows_def)
  then have "set (sort_key (\<lambda>r. time_instant (or_requested_at r)) (filter (\<lambda>r. or_status r = OutboundPending) (py_rows db))) \<noteq> {}"
    by (simp only: set_sort set_empty not_False_eq_True)
  then obtain out rest where "sort_key (\<lambda>r. time_instant (or_requested_at r)) (filter (\<lambda>r. or_status r = OutboundPending) (py_rows db)) =
      out # rest" by (metis list.exhaust set_empty)
  then have lease: "LeaseOutboundTx {} db = Inr out" by (simp add: LeaseOutboundTx_def)
  note o = LeaseOutbound_Inr [OF lease]
  have n: "py_rows (note_accepted i b a d) = py_rows d" "pending_rows (note_accepted i b a d) = pending_rows d" for i b a d
    by (simp_all add: note_accepted_def pending_rows_def)
  have failed: "pending_rows (fst (case MarkOutboundFailedTx (or_id out) why d of Inl e \<Rightarrow> (d, x) | Inr d2 \<Rightarrow> (d2, x))) < pending_rows db"
    if "py_rows d = py_rows db" for d why and x :: pass
    using set_out_drains [of out d "\<lambda>r. r\<lparr>or_status := OutboundFailed, or_result_desc := Some why\<rparr>"] o that
    by (auto simp: MarkOutboundFailedTx_def pending_rows_def)
  obtain res acc where d: "dispatch E h tok out db = (res, acc)" by force
  show ?thesis
  proof (cases "\<exists>db1. res = Inr db1 \<and> commit")
    case True
    then obtain db1 c orig where r: "res = Inr db1" commit and m: "MarkSentTx (or_id out) c orig db = Inr db1"
      using d by (auto elim: dispatch_Inr)
    have "pending_rows db1 < pending_rows db"
      using set_out_drains [of out db "\<lambda>r. r\<lparr>or_status := OutboundSent, or_daraja_conversation_id := Some c,
        or_daraja_originator_id := Some orig\<rparr>"] o m by (auto simp: MarkSentTx_def)
    then show ?thesis using d r by (simp add: processOne_def lease_and_dispatch_def lease n)
  next
    case False
    then have "lease_and_dispatch E h tok {} commit db = (note_accepted (or_id out) False acc db, PassFailed (or_id out))"
      using d by (auto simp: lease_and_dispatch_def lease split: sum.splits if_splits)
    then show ?thesis by (simp add: processOne_def failed n)
  qed
qed



section \<open>The payment and the loan\<close>

text \<open>C29. A repeated success callback is believed whatever became of the payment meanwhile: on a row that was
  reversed, its loan back in waiting, it marks the row completed and disburses the loan a second
  time in the savings service, though no second payment was sent.\<close>

theorem late_success_disburses_again:
  assumes "ByConversationIDTx (br_conversation_id b) db = Inr out" "or_status out = OutboundReversed" "br_code b = 0"
    and "authWebhook path tok db = Some pb" "loan_of E out = Some lid" "lid \<noteq> uuid_Nil" "pe_savings E"
    and "FinalizeDisbursement (pe_ln E) (pe_trusted E) lid (pickResultParam b ''TransactionReceipt'') (py_loans db) = Inr (ld, Some txn)"
  shows "\<exists>db1 w. result_persist E path tok (Some b) db = (db1, daraja 0 ''Received'', [w]) \<and>
    (let db2 = fst (do_work E Answered w db1) in underway lid (py_loans db2) \<and> py_accepted db2 = py_accepted db \<and>
      (\<forall>r\<in>set (py_rows db2). or_id r = or_id out \<longrightarrow> or_status r = OutboundCompleted))"
proof -
  let ?f = "\<lambda>r. r\<lparr>or_status := (if br_code b = 0 then OutboundCompleted else OutboundFailed), or_result_code := Some (br_code b),
     or_result_desc := Some (br_desc b), or_mpesa_receipt_number := nullIfEmpty (pickResultParam b ''TransactionReceipt'')\<rparr>"
  let ?db1 = "db\<lparr>py_rows := map (\<lambda>r. if or_id r = or_id out then ?f r else r) (py_rows db)\<rparr>"
  let ?w = "WorkFinalize (or_id out) lid (pickResultParam b ''TransactionReceipt'')"
  have "out \<in> set (py_rows db)"
    using assms(1) by (auto simp: ByConversationIDTx_def orNotFound_def find_Some_iff split: if_splits option.splits)
  then have m: "MarkResultTx (or_id out) (br_code b) (br_desc b) (pickResultParam b ''TransactionReceipt'') db = Inr ?db1"
    by (auto simp: MarkResultTx_def set_out_def)
  have "result_persist E path tok (Some b) db = (?db1, daraja 0 ''Received'', [?w])"
    unfolding result_persist_def Let_def using m assms(1,3-6) by simp
  moreover have "underway lid ld"
  proof -
    have "run_loan_payload (pe_ln E) (PayDisbursement (mpesa_payload lid (pickResultParam b ''TransactionReceipt''))) uuid_Nil (py_loans db) = Inr (ld, txn)"
      using assms(8) unfolding FinalizeDisbursement_def bind_ensure_Inr
      by (auto simp del: bind_res_Inr_iff split: if_splits elim!: bind_resE)
    then obtain db1 r where ex: "ExecuteDisbursementTx (pe_ln E) (mpesa_payload lid (pickResultParam b ''TransactionReceipt'')) uuid_Nil (py_loans db) = Inr (db1, r)"
      and po: "PostLoanDisbursementTx (pe_ln E) (lx_id (dd_txn r)) (dd_loan r) (dd_net r) (dd_fee_lines r) ''mpesa'' db1 = Inr ld"
      by (auto simp: run_loan_payload_def mpesa_payload_def elim!: bind_resE)
    have "ld_loans ld = ld_loans db1" using po by (auto simp: PostLoanDisbursementTx_def Let_def dest: sv_post_same_loans simp: same_loans_def)
    then show ?thesis using disbursed_underway [OF ex] by (auto simp: mpesa_payload_def intro: underway_cong)
  qed
  ultimately show ?thesis using assms(3,6,7,8) by (auto simp: finalize_call_def Let_def)
qed

definition ex_plain_env :: payout_env where
  "ex_plain_env = ex_pay_env\<lparr>pe_ln := ex_ln_env ex_day\<rparr>"

definition ex_returned :: outbound where
  "ex_returned = ex_sent\<lparr>or_status := OutboundReversed\<rparr>"

definition ex_success :: b2c_result where
  "ex_success = \<lparr> br_code = 0, br_desc = ''ok'', br_conversation_id = ''AG_1'', br_transaction_id = ''QX1'',
     br_params = [(''TransactionReceipt'', ''QX1'')] \<rparr>"

theorem late_success_disburses_again_witness:
  "\<exists>db1 w. result_persist ex_plain_env (Some 7) ''tok'' (Some ex_success) (ex_py ex_waiting [ex_returned] [(500, True)] [] 501) =
      (db1, daraja 0 ''Received'', [w]) \<and>
    underway 100 (py_loans (fst (do_work ex_plain_env Answered w db1))) \<and>
    py_accepted (fst (do_work ex_plain_env Answered w db1)) = [(500, True)] \<and> or_status ex_returned = OutboundReversed"
proof -
  obtain ld txn where fin: "FinalizeDisbursement (ex_ln_env ex_day) True 100 ''QX1'' ex_waiting = Inr (ld, Some txn)"
    using ex_finalized by blast
  have b: "br_conversation_id ex_success = ''AG_1''" "br_code ex_success = 0" "pickResultParam ex_success ''TransactionReceipt'' = ''QX1''"
    by (simp_all add: ex_success_def pickResultParam_def)
  have out: "ByConversationIDTx ''AG_1'' (ex_py ex_waiting [ex_returned] [(500, True)] [] 501) = Inr ex_returned"
    by (simp add: ex_lookup) (simp add: ex_returned_def)
  have l: "loan_of ex_plain_env ex_returned = Some 100" by (simp add: loan_of_def ex_plain_env_def ex_pay_env_def ex_returned_def)
  have e: "pe_savings ex_plain_env" "pe_trusted ex_plain_env" "pe_ln ex_plain_env = ex_ln_env ex_day"
    by (simp_all add: ex_plain_env_def ex_pay_env_def)
  have r: "or_status ex_returned = OutboundReversed" by (simp add: ex_returned_def)
  from late_success_disburses_again [of ex_success "ex_py ex_waiting [ex_returned] [(500, True)] [] 501" ex_returned "Some 7" "''tok''"
      ex_paybill ex_plain_env 100 ld txn] fin b out l e r
  show ?thesis by (simp add: ex_auth Let_def) blast
qed



end
