(* ===== verification/Spec2Isabelle.thy ===== *)
theory Spec2Isabelle
  imports WorkflowProperties OutboxProperties MpesaProperties DepositProperties PayoutProperties
begin

text \<open>
  A verification development of Nexus SACCO, the back office of savings and credit cooperatives:
  Go services over one PostgreSQL database per deployment.

  \<^bold>\<open>The parts and how they interact.\<close> The services share tables and call each other:
  the M-PESA service receives payments from Safaricom, matches them to members and distributes them
  to loans, deposits and fees through the finance executors; every executor queues a journal entry
  in \<open>posting_outbox\<close>, in the transaction that changes the balances; the savings service's
  dispatcher delivers the outbox to the accounting service's internal posting endpoint, which keeps
  the ledger. Decisions people take (large payments, journals, reversals) run through the workflow
  service, whose dispatcher calls the outcome back to the service that asked. Money is a
  \<open>shopspring/decimal\<close> in Go and \<open>numeric(18,2)\<close> in the tables.

  \<^bold>\<open>Theories and the code they model\<close> (paths under src/services):
  \<^item> Prelude: errors as values (\<open>'e + 'a\<close> with \<open>bind_res\<close> for
    \<open>if err != nil\<close>), index updates, strings. Decimals: decimals as rationals, the record
    \<open>decimal_lib\<close> of the library's parser and printer with the locale \<open>decimal_text\<close> of
    what the code relies on, and the locale \<open>rounding\<close> of the column type. Both locales are
    interpreted on computable instances (\<open>shop_decimal\<close>, \<open>round_half_up\<close>). GoTime: dates
    and \<open>AddDate\<close>.
  \<^item> JsonLogic (workflow/internal/jsonlogic/eval.go), WorkflowStore (workflow/internal/store),
    WorkflowEngine (workflow/internal/handler), CallbackDispatcher
    (workflow/cmd/callback-dispatcher). WorkflowSystem is the step relation \<open>wf_step\<close> of
    requests and dispatcher replicas over the tables and its invariant; WorkflowProperties its
    properties.
  \<^item> LedgerStore and LedgerHandlers (accounting/internal/store, internal/posting,
    internal/handler): chart of accounts, periods, journal, posting engine, internal endpoint,
    year close. LedgerInvariants and LedgerSystem: the invariant of the tables and the step relation
    \<open>gl_step\<close>; LedgerProperties its properties.
  \<^item> Outbox (savings/internal/posting/client.go, cmd/posting-dispatcher): the client, the worker
    and, in OutboxProperties, their composition with the ledger (\<open>ob_step\<close>): messages lost
    before or after the ledger commits, crashes, replays.
  \<^item> FinanceStore and FinanceExecutors (finance/types, posting, executor): repayment, deposit, fee
    and opening deposit.
  \<^item> MpesaStore (mpesa/internal/store, internal/domain), MpesaEngine (internal/distribution: the
    resolver and the waterfall), MpesaDistributor (internal/handler/webhook.go,
    internal/workflowclient, internal/applier, internal/distribution/orchestrator.go,
    cmd/distributor). MpesaPlan: what a plan promises, proved over the interface
    \<open>balances_port\<close> of reads and interpreted on the stores' queries. MpesaMoves: what a
    successful executor does to balances and queue (\<open>fin_move\<close>). MpesaSystem: one whole
    distribution, the step relation \<open>mp_step\<close> of webhook, distributor, failure records and
    the other services, and its invariant. MpesaProperties its properties.
  \<^item> SavingsStore, DepositStore, DepositRules, DepositHandlers and DepositRequests
    (savings/internal/domain/deposit.go, store/deposit_store.go, postingops, handler/deposit.go,
    handler/deposit_executors.go, handler/queue_approval.go, handler/pending_approvals.go,
    handler/wf_terminal_callback.go and handler/wf_callbacks): the tables of the deposit accounts,
    the posting routine with its compare-and-set, the product rules, the requests, the legacy
    approvals and the callbacks of the workflow engine. DepositLedger: what a post writes and the
    ledger's invariant. DepositSystem: the step relation \<open>dep_step\<close> of requests, decisions,
    callbacks and changes of the settings, and the invariant under it. DepositBalances: the balances
    alone. DepositProperties its properties, on the data of DepositExamples.
  \<^item> LoanSchedule (savings/internal/domain/loan_amortization.go): the amortization table, and the locale
    \<open>amortization\<close> of what a monthly method promises, interpreted on the code's three. LoanTables
    (domain/loan.go, domain/loan_collections.go), LoanCollections (store/loan_collections_store.go and
    loan_collections_v2_store.go), LoanStore, LoanRepayment, LoanRestructure (store/loan_store.go,
    loan_repayment_store.go, loan_restructure_store.go, loan_reports_store.go), LoanCoverage
    (coverage/coverage.go), LoanExecutors (handler/loan_repayment_executors.go,
    loan_disbursement_executor.go, loan_collections_executors.go and the entries of postingops),
    LoanRequests (handler/loan.go, loan_finalize.go, loan_reverse_disbursement.go, loan_repayment.go,
    loan_collections.go, loan_reports.go, the decisions of pending_approvals.go and wf_callbacks, and
    the daily sweep).
    LoanBooks states the invariant \<open>books\<close> of the loan tables; LoanMoves and LoanMoney show what each
    store operation does to it; LoanSystem is the step relation \<open>ln_write\<close> of requests, approvals,
    callbacks and sweeps, its reachable states \<open>ln_reach\<close>, and the invariant in them. LoanExamples is a
    run from an accepted offer to a repayment, LoanProperties the properties.
  \<^item> Payouts (mpesa/internal/store/outbound_request_store.go, cmd/b2c-dispatcher, internal/handler/b2c.go
    and b2c_reversal.go, internal/savingsclient/client.go, internal/daraja/b2c.go, and the branch of
    handler/loan.go that queues the payment): outgoing M-PESA payments over the savings service's own
    tables. PayoutSystem is the step relation \<open>py_step\<close> of requests, dispatcher passes, callbacks,
    the calls they make later and crashes, and its invariant; the payments Safaricom accepted are ghost
    state (\<open>py_accepted\<close>). PayoutProperties its properties.
  \<^item> QueuedEntries: the net of queued entries, shared by the services that queue them.
  \<^item> RetryWorker is the interface of a worker that retries: attempts left, one attempt settles or
    counts, settled stays settled. It is interpreted on the callback dispatcher, the posting
    dispatcher and the M-PESA distributor.

  \<^bold>\<open>State and operations.\<close> A table is a list of rows (a map where only the key matters),
  a service's tables a record; a row's Go struct keeps its field names with a prefix. A store method
  or handler is a function from the tables (and the clock, fresh ids and configuration) to a result
  or an error; a transaction that fails leaves the tables as they were. Where two transactions of one
  request can be interleaved with others, they are two steps of the relation, and what the request
  remembers between them is part of the state. Identifiers are drawn from a counter.

  \<^bold>\<open>What the lemmas show.\<close> For each step relation an invariant of the tables preserved by
  every step, and from it the safety properties (a decided instance or journal never changes, each
  entry balances, each payment is distributed at most once, each queued entry is posted once, each deposit
  account is the sum of its transactions, each loan's balances are what was charged less what was
  paid, a request for a payment is accepted once but for acceptances that were lost). The
  functional properties say when an operation succeeds and what it writes; the refinement and
  equivalence properties relate the code's loops to closed descriptions (the queue of levels, the
  meaning of a condition, the waterfall's amounts, the exact annuity). Several properties state what the code does where
  that is not what its comments say; the manifest's findings name them.

  \<^bold>\<open>Bounds.\<close> Loops over lists are structural; the retry workers have the code's attempt
  limits (twelve and six) and the termination properties show that these many attempts settle a row.
  The back-off of the callback dispatcher is computed on 64-bit words and shown not to overflow.
  Elsewhere Go's \<open>int\<close> counts rows or months and is a natural number or an integer. The last total of
  a reducing-balance schedule is bounded by a geometric sum of one and a half cents a month.
  The reachable states of loans are those of requests whose amounts are in whole cents and whose
  schedules ask for no negative amount (\<open>fair\<close>); finer amounts are rounded column by column and drift.

  \<^bold>\<open>Parameters.\<close> The decimal library's text functions and the column's rounding, the
  float formatting of \<open>strconv\<close>, the annuity computed in floating point, the hosts that answer HTTP calls, the clock and the fresh
  ids. Process clocks are taken to run in UTC. Row-level security is taken to restrict every query to the tenant of its transaction: one
  tenant's rows are the state.

  \<^bold>\<open>Not modelled.\<close> HTTP decoding and routing, authentication, logs, audit entries and
  metrics, list and report queries; the identity, notification and member services; the savings
  service's loan applications, scoring and provisioning, shares, interest and dividend runs, collection
  desk, standing orders and statements (the optional receipt writer of the requests counts as not
  configured); the accounting service's cash, bank, asset and budget registers; the M-PESA service's
  reconciler, STK push and paybill administration, and its Daraja client but for the submission of a
  payment; the web front end. The manifest lists each with the reason.
\<close>

end
